(* ===== verification/Tangle_Prelude.thy ===== *)
theory Tangle_Prelude
  imports
    Main
    "HOL-Library.Word"
    "HOL-Library.List_Lexorder"
    "HOL-Library.Char_ord"
    "HOL-Library.Product_Lexorder"
    "HOL-Library.Option_ord"
    "HOL-Library.Multiset"
begin

text \<open>
  What every theory of the development shares: Rust's \<open>Result\<close> as a sum with the
  combinators the code uses (\<open>?\<close>, \<open>map_err\<close>, \<open>ok_or_else\<close>, \<open>collect\<close>, \<open>try_fold\<close>), the machine
  integers at their width with saturating and checked addition, Rust strings as byte lists with
  the UTF-8 view that \<open>chars\<close>, \<open>trim\<close> and \<open>is_control\<close> need, decimal printing and parsing, and
  \<open>BTreeMap\<close> as a strictly sorted association list.
  Definitions of this theory model the language and its standard library, not the repository.
\<close>

named_theorems result_iffs \<open>when a chain of fallible calls succeeds or fails\<close>
named_theorems wf_intros \<open>how well-formed values are built\<close>

section \<open>Results\<close>

text \<open>\<open>Result<T, E>\<close> is the sum \<open>'e + 't\<close>: \<open>Inl\<close> is \<open>Err\<close>, \<open>Inr\<close> is \<open>Ok\<close>.\<close>

abbreviation Err :: "'e \<Rightarrow> 'e + 'a" where "Err \<equiv> Inl"
abbreviation Ok :: "'a \<Rightarrow> 'e + 'a" where "Ok \<equiv> Inr"

definition and_then :: "'e + 'a \<Rightarrow> ('a \<Rightarrow> 'e + 'b) \<Rightarrow> 'e + 'b" where
  "and_then r f = (case r of Inl e \<Rightarrow> Inl e | Inr x \<Rightarrow> f x)"

definition map_err :: "('e \<Rightarrow> 'f) \<Rightarrow> 'e + 'a \<Rightarrow> 'f + 'a" where
  "map_err g r = (case r of Inl e \<Rightarrow> Inl (g e) | Inr x \<Rightarrow> Inr x)"

definition map_ok :: "('a \<Rightarrow> 'b) \<Rightarrow> 'e + 'a \<Rightarrow> 'e + 'b" where
  "map_ok g r = (case r of Inl e \<Rightarrow> Inl e | Inr x \<Rightarrow> Inr (g x))"

definition ok_or :: "'a option \<Rightarrow> 'e \<Rightarrow> 'e + 'a" where
  "ok_or x e = (case x of None \<Rightarrow> Inl e | Some y \<Rightarrow> Inr y)"

definition is_ok :: "'e + 'a \<Rightarrow> bool" where
  "is_ok r = (case r of Inl e \<Rightarrow> False | Inr x \<Rightarrow> True)"

fun traverse :: "('a \<Rightarrow> 'e + 'b) \<Rightarrow> 'a list \<Rightarrow> 'e + 'b list" where
  "traverse f [] = Ok []"
| "traverse f (x # xs) = and_then (f x) (\<lambda>y. and_then (traverse f xs) (\<lambda>ys. Ok (y # ys)))"

definition transpose :: "('e + 'a) option \<Rightarrow> 'e + 'a option" where
  "transpose x = (case x of None \<Rightarrow> Ok None | Some r \<Rightarrow> map_ok Some r)"

fun try_fold :: "('s \<Rightarrow> 'a \<Rightarrow> 'e + 's) \<Rightarrow> 's \<Rightarrow> 'a list \<Rightarrow> 'e + 's" where
  "try_fold f s [] = Ok s"
| "try_fold f s (x # xs) = and_then (f s x) (\<lambda>t. try_fold f t xs)"

text \<open>\<open>Iterator::find_map\<close>.\<close>

fun find_map :: "('a \<Rightarrow> 'b option) \<Rightarrow> 'a list \<Rightarrow> 'b option" where
  "find_map f [] = None"
| "find_map f (x # xs) = (case f x of None \<Rightarrow> find_map f xs | Some y \<Rightarrow> Some y)"

lemma and_then_simps [simp]:
  "and_then (Err e) f = Err e" "and_then (Ok x) f = f x"
  by (simp_all add: and_then_def)

lemma and_then_cong [fundef_cong]:
  "r = s \<Longrightarrow> (\<And>x. s = Ok x \<Longrightarrow> f x = g x) \<Longrightarrow> and_then r f = and_then s g"
  by (auto simp: and_then_def split: sum.split)

lemma and_then_Ok_iff [result_iffs]:
  "and_then r f = Ok y \<longleftrightarrow> (\<exists>x. r = Ok x \<and> f x = Ok y)"
  by (cases r) auto

lemma and_then_Err_iff [result_iffs]:
  "and_then r f = Err e \<longleftrightarrow> r = Err e \<or> (\<exists>x. r = Ok x \<and> f x = Err e)"
  by (cases r) auto

lemma and_then_assoc: "and_then (and_then r f) g = and_then r (\<lambda>x. and_then (f x) g)"
  by (cases r) auto

lemma map_err_simps [simp]:
  "map_err g (Err e) = Err (g e)" "map_err g (Ok x) = Ok x"
  by (simp_all add: map_err_def)

lemma map_err_Ok_iff [simp]: "map_err g r = Ok x \<longleftrightarrow> r = Ok x"
  by (cases r) auto

lemma map_err_Err_iff: "map_err g r = Err e \<longleftrightarrow> (\<exists>d. r = Err d \<and> e = g d)"
  by (cases r) auto

lemma map_ok_simps [simp]:
  "map_ok g (Err e) = Err e" "map_ok g (Ok x) = Ok (g x)"
  by (simp_all add: map_ok_def)

lemma map_ok_Ok_iff [result_iffs]: "map_ok g r = Ok y \<longleftrightarrow> (\<exists>x. r = Ok x \<and> y = g x)"
  by (cases r) auto

lemma map_ok_Err_iff [simp]: "map_ok g r = Err e \<longleftrightarrow> r = Err e"
  by (cases r) auto

lemma ok_or_simps [simp]:
  "ok_or None e = Err e" "ok_or (Some x) e = Ok x"
  by (simp_all add: ok_or_def)

lemma ok_or_Ok_iff [simp]: "ok_or x e = Ok y \<longleftrightarrow> x = Some y"
  by (cases x) auto

lemma ok_or_Err_iff: "ok_or x e = Err d \<longleftrightarrow> x = None \<and> d = e"
  by (cases x) auto

lemma is_ok_simps [simp]: "is_ok (Ok x)" "\<not> is_ok (Err e)"
  by (simp_all add: is_ok_def)

lemma is_ok_iff: "is_ok r \<longleftrightarrow> (\<exists>x. r = Ok x)"
  by (cases r) auto

lemma transpose_simps [simp]:
  "transpose None = Ok None" "transpose (Some (Ok x)) = Ok (Some x)"
  "transpose (Some (Err e)) = Err e"
  by (simp_all add: transpose_def)

lemma traverse_map_Ok:
  "(\<And>x. x \<in> set xs \<Longrightarrow> f (g x) = Ok (h x)) \<Longrightarrow> traverse f (map g xs) = Ok (map h xs)"
  by (induction xs) auto

lemma traverse_Ok_iff:
  "traverse f xs = Ok ys \<longleftrightarrow> list_all2 (\<lambda>x y. f x = Ok y) xs ys"
proof (induction xs arbitrary: ys)
  case Nil
  then show ?case by auto
next
  case (Cons x xs)
  then show ?case by (cases ys) (auto simp: result_iffs)
qed

lemma traverse_Ok_set:
  "traverse f xs = Ok ys \<Longrightarrow> y \<in> set ys \<Longrightarrow> \<exists>x\<in>set xs. f x = Ok y"
  unfolding traverse_Ok_iff by (induction xs ys rule: list_all2_induct) auto

lemma traverse_length: "traverse f xs = Ok ys \<Longrightarrow> length ys = length xs"
  by (auto simp: traverse_Ok_iff dest: list_all2_lengthD)

lemma try_fold_append:
  "try_fold f s (xs @ ys) = and_then (try_fold f s xs) (\<lambda>t. try_fold f t ys)"
  by (induction xs arbitrary: s) (auto simp: and_then_assoc)

lemma try_fold_invariant:
  assumes "try_fold f s xs = Ok t" and "P s"
    and "\<And>s x t. x \<in> set xs \<Longrightarrow> P s \<Longrightarrow> f s x = Ok t \<Longrightarrow> P t"
  shows "P t"
  using assms
proof (induction xs arbitrary: s)
  case Nil
  then show ?case by simp
next
  case (Cons x xs)
  then obtain u where "f s x = Ok u" and rest: "try_fold f u xs = Ok t"
    by (auto simp: result_iffs)
  with Cons.prems have "P u" by (meson list.set_intros(1))
  with Cons.IH [OF rest] Cons.prems(3) show ?case by (meson list.set_intros(2))
qed

section \<open>Machine integers\<close>

type_synonym u8 = "8 word"
type_synonym u16 = "16 word"
type_synonym u32 = "32 word"
type_synonym u64 = "64 word"

definition saturating_add :: "'w::len word \<Rightarrow> 'w word \<Rightarrow> 'w word" where
  "saturating_add a b = (if unat a + unat b < 2 ^ LENGTH('w) then a + b else - 1)"

definition saturating_sub :: "'w::len word \<Rightarrow> 'w word \<Rightarrow> 'w word" where
  "saturating_sub a b = (if b \<le> a then a - b else 0)"

definition checked_add :: "'w::len word \<Rightarrow> 'w word \<Rightarrow> 'w word option" where
  "checked_add a b = (if unat a + unat b < 2 ^ LENGTH('w) then Some (a + b) else None)"

lemma unat_add_no_overflow:
  "unat (a :: 'w::len word) + unat b < 2 ^ LENGTH('w) \<Longrightarrow> unat (a + b) = unat a + unat b"
  by (simp add: unat_word_ariths)

lemma unat_saturating_add:
  "unat (saturating_add a (b :: 'w::len word)) = min (unat a + unat b) (2 ^ LENGTH('w) - 1)"
proof (cases "unat a + unat b < 2 ^ LENGTH('w)")
  case True
  then show ?thesis by (simp add: saturating_add_def unat_add_no_overflow)
next
  case False
  then show ?thesis by (simp add: saturating_add_def unsigned_minus_1_eq_mask mask_eq_exp_minus_1)
qed

lemma unat_saturating_sub: "unat (saturating_sub a b) = unat a - unat b"
  by (auto simp: saturating_sub_def unat_sub word_le_nat_alt)

lemma unat_checked_add:
  "checked_add a b = Some c \<Longrightarrow> unat c = unat a + unat b"
  by (auto simp: checked_add_def unat_add_no_overflow split: if_splits)


lemma unat_u32_less [simp]: "unat (k :: u32) < 4294967296"
  using unsigned_less [of k] by simp

lemma unat_u64_less [simp]: "unat (k :: u64) < 18446744073709551616"
  using unsigned_less [of k] by simp

lemma unat_ucast_u32_u64 [simp]: "unat (ucast (k :: u32) :: u64) = unat k"
  by (simp add: unsigned_ucast_eq unsigned_take_bit_eq take_bit_nat_eq_self less_trans [OF unat_u32_less])

lemma ucast_u32_u64_inverse [simp]: "ucast (ucast (k :: u32) :: u64) = k"
  by (rule word_unat_eq_iff [THEN iffD2])
     (simp add: unsigned_ucast_eq unsigned_take_bit_eq take_bit_nat_eq_self
        less_trans [OF unat_u32_less])

lemma ucast_u64_u32_inverse: "unat (v :: u64) < 4294967296 \<Longrightarrow> ucast (ucast v :: u32) = v"
  by (rule word_unat_eq_iff [THEN iffD2])
     (simp add: unsigned_ucast_eq unsigned_take_bit_eq take_bit_nat_eq_self)

lemma unat_of_nat_u64 [simp]: "n < 18446744073709551616 \<Longrightarrow> unat (of_nat n :: u64) = n"
  by (simp add: unsigned_of_nat take_bit_nat_eq_self)

section \<open>Strings\<close>

text \<open>
  A Rust \<open>str\<close> is its UTF-8 bytes: \<open>string\<close> with one \<open>char\<close> per byte, so \<open>length\<close> is \<open>len()\<close>,
  equality is byte equality and the lexicographic order of \<open>List_Lexorder\<close> is \<open>Ord for str\<close>.
  Operations on characters go through the code points.
\<close>

definition byte :: "char \<Rightarrow> nat" where
  "byte c = of_char c"

definition is_continuation :: "char \<Rightarrow> bool" where
  "is_continuation c \<longleftrightarrow> 128 \<le> byte c \<and> byte c < 192"

text \<open>\<open>chars().count()\<close>: every byte that does not continue a character starts one.\<close>

definition char_count :: "string \<Rightarrow> nat" where
  "char_count s = length (filter (\<lambda>c. \<not> is_continuation c) s)"

text \<open>\<open>chars()\<close>: the code points of a valid UTF-8 string.\<close>

fun utf8_chars :: "string \<Rightarrow> nat list" where
  "utf8_chars [] = []"
| "utf8_chars (a # s) =
     (if byte a < 128 then byte a # utf8_chars s
      else (case s of [] \<Rightarrow> [65533] | b # s1 \<Rightarrow>
        if byte a < 224 then ((byte a - 192) * 64 + (byte b - 128)) # utf8_chars s1
        else (case s1 of [] \<Rightarrow> [65533] | c # s2 \<Rightarrow>
          if byte a < 240
          then ((byte a - 224) * 4096 + (byte b - 128) * 64 + (byte c - 128)) # utf8_chars s2
          else (case s2 of [] \<Rightarrow> [65533] | d # s3 \<Rightarrow>
            ((byte a - 240) * 262144 + (byte b - 128) * 4096 + (byte c - 128) * 64
              + (byte d - 128)) # utf8_chars s3))))"

text \<open>\<open>str::from_utf8\<close> accepts exactly the well-formed sequences of the Unicode standard.\<close>

fun valid_utf8 :: "string \<Rightarrow> bool" where
  "valid_utf8 [] = True"
| "valid_utf8 (a # s) =
     (if byte a < 128 then valid_utf8 s
      else (case s of [] \<Rightarrow> False | b # s1 \<Rightarrow>
        if 194 \<le> byte a \<and> byte a < 224 then is_continuation b \<and> valid_utf8 s1
        else (case s1 of [] \<Rightarrow> False | c # s2 \<Rightarrow>
          if 224 \<le> byte a \<and> byte a < 240
          then is_continuation b \<and> is_continuation c
               \<and> (byte a = 224 \<longrightarrow> 160 \<le> byte b) \<and> (byte a = 237 \<longrightarrow> byte b < 160)
               \<and> valid_utf8 s2
          else (case s2 of [] \<Rightarrow> False | d # s3 \<Rightarrow>
            240 \<le> byte a \<and> byte a \<le> 244
            \<and> is_continuation b \<and> is_continuation c \<and> is_continuation d
            \<and> (byte a = 240 \<longrightarrow> 144 \<le> byte b) \<and> (byte a = 244 \<longrightarrow> byte b < 144)
            \<and> valid_utf8 s3))))"

definition is_ascii :: "string \<Rightarrow> bool" where
  "is_ascii s \<longleftrightarrow> (\<forall>c\<in>set s. byte c < 128)"

text \<open>\<open>char::is_control\<close> (category Cc) and \<open>char::is_whitespace\<close> (property White_Space).\<close>

definition is_control :: "nat \<Rightarrow> bool" where
  "is_control c \<longleftrightarrow> c < 32 \<or> (127 \<le> c \<and> c < 160)"

definition is_whitespace :: "nat \<Rightarrow> bool" where
  "is_whitespace c \<longleftrightarrow> (9 \<le> c \<and> c \<le> 13) \<or> c = 32 \<or> c = 133 \<or> c = 160 \<or> c = 5760
     \<or> (8192 \<le> c \<and> c \<le> 8202) \<or> c = 8232 \<or> c = 8233 \<or> c = 8239 \<or> c = 8287 \<or> c = 12288"

text \<open>\<open>value.trim() != value\<close>, on the code points.\<close>

definition trim_chars :: "nat list \<Rightarrow> nat list" where
  "trim_chars cs = rev (dropWhile is_whitespace (rev (dropWhile is_whitespace cs)))"

definition trim_changes :: "string \<Rightarrow> bool" where
  "trim_changes s \<longleftrightarrow> trim_chars (utf8_chars s) \<noteq> utf8_chars s"

text \<open>\<open>u8::is_ascii_digit\<close>, \<open>is_ascii_alphabetic\<close>, \<open>is_ascii_hexdigit\<close>, \<open>is_ascii_uppercase\<close>.\<close>

definition is_ascii_digit :: "char \<Rightarrow> bool" where
  "is_ascii_digit c \<longleftrightarrow> 48 \<le> byte c \<and> byte c \<le> 57"

definition is_ascii_uppercase :: "char \<Rightarrow> bool" where
  "is_ascii_uppercase c \<longleftrightarrow> 65 \<le> byte c \<and> byte c \<le> 90"

definition is_ascii_alphabetic :: "char \<Rightarrow> bool" where
  "is_ascii_alphabetic c \<longleftrightarrow> is_ascii_uppercase c \<or> (97 \<le> byte c \<and> byte c \<le> 122)"

definition is_ascii_hexdigit :: "char \<Rightarrow> bool" where
  "is_ascii_hexdigit c \<longleftrightarrow>
     is_ascii_digit c \<or> (65 \<le> byte c \<and> byte c \<le> 70) \<or> (97 \<le> byte c \<and> byte c \<le> 102)"

text \<open>\<open>split_once\<close>, \<open>splitn\<close> and \<open>split\<close> with a one-byte separator.\<close>

definition split_once :: "char \<Rightarrow> string \<Rightarrow> (string \<times> string) option" where
  "split_once c s =
     (if c \<in> set s
      then Some (takeWhile (\<lambda>x. x \<noteq> c) s, tl (dropWhile (\<lambda>x. x \<noteq> c) s)) else None)"

fun splitn :: "nat \<Rightarrow> char \<Rightarrow> string \<Rightarrow> string list" where
  "splitn 0 c s = []"
| "splitn (Suc 0) c s = [s]"
| "splitn (Suc (Suc n)) c s =
     (case split_once c s of None \<Rightarrow> [s] | Some (a, b) \<Rightarrow> a # splitn (Suc n) c b)"

fun split_char :: "char \<Rightarrow> string \<Rightarrow> string list" where
  "split_char c [] = [[]]"
| "split_char c (x # s) =
     (if x = c then [] # split_char c s
      else (case split_char c s of [] \<Rightarrow> [[x]] | p # ps \<Rightarrow> (x # p) # ps))"

lemma split_once_append:
  "c \<notin> set a \<Longrightarrow> split_once c (a @ c # b) = Some (a, b)"
  by (induction a) (auto simp: split_once_def)

lemma split_once_None: "c \<notin> set a \<Longrightarrow> split_once c a = None"
  by (simp add: split_once_def)

lemma split_once_Some:
  "split_once c s = Some (a, b) \<Longrightarrow> s = a @ c # b \<and> c \<notin> set a"
proof -
  assume h: "split_once c s = Some (a, b)"
  then have c: "c \<in> set s" and a: "a = takeWhile (\<lambda>x. x \<noteq> c) s"
    and b: "b = tl (dropWhile (\<lambda>x. x \<noteq> c) s)" by (auto simp: split_once_def split: if_splits)
  from c have "dropWhile (\<lambda>x. x \<noteq> c) s \<noteq> []" by (auto simp: dropWhile_eq_Nil_conv)
  then have "dropWhile (\<lambda>x. x \<noteq> c) s = c # b"
    using hd_dropWhile [of "\<lambda>x. x \<noteq> c" s] b by (cases "dropWhile (\<lambda>x. x \<noteq> c) s") auto
  then show ?thesis
    using takeWhile_dropWhile_id [of "\<lambda>x. x \<noteq> c" s] a by (auto dest: set_takeWhileD)
qed

lemma split_char_plain: "c \<notin> set a \<Longrightarrow> split_char c a = [a]"
  by (induction a) auto

lemma split_char_append: "c \<notin> set a \<Longrightarrow> split_char c (a @ c # b) = a # split_char c b"
  by (induction a) auto

lemma byte_less_256: "byte c < 256"
  by (simp add: byte_def)

lemma char_count_replicate:
  "byte c < 128 \<Longrightarrow> char_count (replicate n c) = n"
  by (induction n) (auto simp: char_count_def is_continuation_def)

lemma char_count_ascii: "is_ascii s \<Longrightarrow> char_count s = length s"
  by (induction s) (auto simp: is_ascii_def char_count_def is_continuation_def)

lemma char_count_le_length: "char_count s \<le> length s"
  by (simp add: char_count_def)

lemma char_count_Nil [simp]: "char_count [] = 0"
  by (simp add: char_count_def)

lemma is_ascii_hexdigit_less: "is_ascii_hexdigit c \<Longrightarrow> byte c < 128"
  by (auto simp: is_ascii_hexdigit_def is_ascii_digit_def)

lemma utf8_chars_ascii: "is_ascii s \<Longrightarrow> utf8_chars s = map byte s"
  by (induction s) (auto simp: is_ascii_def)

lemma valid_utf8_ascii: "is_ascii s \<Longrightarrow> valid_utf8 s"
  by (induction s) (auto simp: is_ascii_def)

lemma trim_chars_unchanged:
  "cs \<noteq> [] \<Longrightarrow> \<not> is_whitespace (hd cs) \<Longrightarrow> \<not> is_whitespace (last cs) \<Longrightarrow> trim_chars cs = cs"
  by (simp add: trim_chars_def dropWhile_eq_self_iff [THEN iffD2] hd_rev)

section \<open>Decimal numbers\<close>

definition digit_char :: "nat \<Rightarrow> char" where
  "digit_char d = char_of (48 + d)"

text \<open>\<open>to_string\<close> of an unsigned integer.\<close>

fun dec :: "nat \<Rightarrow> string" where
  "dec n = (if n < 10 then [digit_char n] else dec (n div 10) @ [digit_char (n mod 10)])"

declare dec.simps [simp del]

definition digits_value :: "string \<Rightarrow> nat" where
  "digits_value s = foldl (\<lambda>v c. 10 * v + (byte c - 48)) 0 s"

text \<open>\<open>str::parse::<u64>()\<close>: an optional plus sign, then at least one digit, no overflow.\<close>

definition parse_u64 :: "string \<Rightarrow> u64 option" where
  "parse_u64 s =
     (let ds = (case s of c # r \<Rightarrow> if c = CHR ''+'' then r else s | [] \<Rightarrow> s)
      in if ds \<noteq> [] \<and> (\<forall>c\<in>set ds. is_ascii_digit c) \<and> digits_value ds < 2 ^ 64
         then Some (of_nat (digits_value ds)) else None)"

lemma byte_digit_char: "d < 10 \<Longrightarrow> byte (digit_char d) = 48 + d"
  by (simp add: byte_def digit_char_def)

lemma dec_nonempty: "dec n \<noteq> []"
  by (subst dec.simps) simp

lemma dec_digits: "c \<in> set (dec n) \<Longrightarrow> is_ascii_digit c"
proof (induction n rule: dec.induct)
  case (1 n)
  then show ?case
    by (subst (asm) dec.simps)
       (auto simp: is_ascii_digit_def byte_digit_char split: if_splits)
qed

lemma digits_value_snoc: "digits_value (s @ [c]) = 10 * digits_value s + (byte c - 48)"
  by (simp add: digits_value_def)

lemma digits_value_dec: "digits_value (dec n) = n"
proof (induction n rule: dec.induct)
  case (1 n)
  show ?case
  proof (cases "n < 10")
    case True
    then show ?thesis by (subst dec.simps) (simp add: digits_value_def byte_digit_char)
  next
    case False
    with 1 show ?thesis
      by (subst dec.simps) (simp add: digits_value_snoc byte_digit_char)
  qed
qed

lemma parse_u64_dec: "n < 2 ^ 64 \<Longrightarrow> parse_u64 (dec n) = Some (of_nat n)"
proof -
  assume n: "n < 2 ^ 64"
  obtain c r where cr: "dec n = c # r" using dec_nonempty by (cases "dec n") auto
  have "is_ascii_digit c" using dec_digits [of c n] cr by simp
  then have "c \<noteq> CHR ''+''" by (auto simp: is_ascii_digit_def byte_def)
  then have "(case dec n of c # r \<Rightarrow> if c = CHR ''+'' then r else dec n | [] \<Rightarrow> dec n) = dec n"
    using cr by simp
  then show ?thesis
    using n dec_nonempty dec_digits by (auto simp: parse_u64_def digits_value_dec Let_def)
qed

lemma dec_inject: "dec m = dec n \<longleftrightarrow> m = n"
  by (metis digits_value_dec)

lemma dec_ascii: "is_ascii (dec n)"
  using dec_digits by (fastforce simp: is_ascii_def is_ascii_digit_def)


section \<open>Ordered maps\<close>

text \<open>
  \<open>BTreeMap<K, V>\<close> is the list of its entries in key order. The interface the components use is
  the locale \<open>ordered_map\<close>; \<open>bt_insert\<close> and \<open>bt_remove\<close> provide it.
\<close>

type_synonym ('k, 'v) btree = "('k \<times> 'v) list"

fun bt_insert :: "'k::linorder \<Rightarrow> 'v \<Rightarrow> ('k, 'v) btree \<Rightarrow> ('k, 'v) btree" where
  "bt_insert k v [] = [(k, v)]"
| "bt_insert k v ((k', v') # m) =
     (if k < k' then (k, v) # (k', v') # m
      else if k = k' then (k, v) # m
      else (k', v') # bt_insert k v m)"

abbreviation bt_get :: "('k, 'v) btree \<Rightarrow> 'k \<Rightarrow> 'v option" where
  "bt_get \<equiv> map_of"

definition bt_remove :: "'k \<Rightarrow> ('k, 'v) btree \<Rightarrow> ('k, 'v) btree" where
  "bt_remove k m = filter (\<lambda>(k', v). k' \<noteq> k) m"

definition bt_wf :: "('k::linorder, 'v) btree \<Rightarrow> bool" where
  "bt_wf m \<longleftrightarrow> sorted_wrt (<) (map fst m)"

locale ordered_map =
  fixes empty :: "'m"
    and insert :: "'k::linorder \<Rightarrow> 'v \<Rightarrow> 'm \<Rightarrow> 'm"
    and remove :: "'k \<Rightarrow> 'm \<Rightarrow> 'm"
    and get :: "'m \<Rightarrow> 'k \<Rightarrow> 'v option"
    and entries :: "'m \<Rightarrow> ('k \<times> 'v) list"
    and wf :: "'m \<Rightarrow> bool"
  assumes get_empty: "get empty k = None"
    and get_insert: "get (insert k v m) k' = (if k' = k then Some v else get m k')"
    and get_remove: "get (remove k m) k' = (if k' = k then None else get m k')"
    and wf_empty: "wf empty"
    and wf_insert: "wf m \<Longrightarrow> wf (insert k v m)"
    and wf_remove: "wf m \<Longrightarrow> wf (remove k m)"
    and entries_sorted: "wf m \<Longrightarrow> sorted_wrt (<) (map fst (entries m))"
    and entries_get: "wf m \<Longrightarrow> (k, v) \<in> set (entries m) \<longleftrightarrow> get m k = Some v"
    and extensional: "wf m \<Longrightarrow> wf m' \<Longrightarrow> (\<And>k. get m k = get m' k) \<Longrightarrow> m = m'"
begin

lemma insert_commute:
  "wf m \<Longrightarrow> j \<noteq> k \<Longrightarrow> insert j u (insert k v m) = insert k v (insert j u m)"
  by (rule extensional) (auto simp: wf_insert get_insert)

lemma insert_overwrite: "wf m \<Longrightarrow> insert k u (insert k v m) = insert k u m"
  by (rule extensional) (auto simp: wf_insert get_insert)

lemma insert_same: "wf m \<Longrightarrow> get m k = Some v \<Longrightarrow> insert k v m = m"
  by (rule extensional) (auto simp: wf_insert get_insert)

lemma entries_distinct: "wf m \<Longrightarrow> distinct (map fst (entries m))"
  using entries_sorted strict_sorted_iff by blast

end

lemma bt_get_insert:
  "bt_get (bt_insert k v m) k' = (if k' = k then Some v else bt_get m k')"
  by (induction k v m rule: bt_insert.induct) auto

lemma bt_get_remove: "bt_get (bt_remove k m) k' = (if k' = k then None else bt_get m k')"
  by (induction m) (auto simp: bt_remove_def)

lemma bt_insert_keys: "set (map fst (bt_insert k v m)) = insert k (set (map fst m))"
  by (induction k v m rule: bt_insert.induct) auto

lemma bt_wf_insert: "bt_wf m \<Longrightarrow> bt_wf (bt_insert k v m)"
proof (induction k v m rule: bt_insert.induct)
  case (1 k v)
  then show ?case by (simp add: bt_wf_def)
next
  case (2 k v k' v' m)
  then show ?case
    using bt_insert_keys [of k v m] by (auto simp: bt_wf_def)
qed

lemma bt_wf_remove: "bt_wf m \<Longrightarrow> bt_wf (bt_remove k m)"
  by (induction m) (auto simp: bt_wf_def bt_remove_def)

lemma bt_wf_distinct: "bt_wf m \<Longrightarrow> distinct (map fst m)"
  using strict_sorted_iff by (auto simp: bt_wf_def)

lemma bt_wf_extensional:
  assumes "bt_wf m" and "bt_wf m'" and "\<And>k. bt_get m k = bt_get m' k"
  shows "m = m'"
proof (rule map_sorted_distinct_set_unique [of fst])
  have eq: "bt_get m = bt_get m'" using assms(3) by auto
  have d: "distinct (map fst m)" "distinct (map fst m')" using assms bt_wf_distinct by auto
  show s: "set m = set m'" using eq d by (simp add: map_of_inject_set)
  show "inj_on fst (set m \<union> set m')" using d s by (simp add: distinct_map)
  show "sorted (map fst m)" "sorted (map fst m')"
    using assms strict_sorted_iff by (auto simp: bt_wf_def)
qed (use assms bt_wf_distinct in auto)

interpretation btree: ordered_map "[]" bt_insert bt_remove bt_get "\<lambda>m. m" bt_wf
proof
  show "bt_get [] k = None" for k :: 'a by simp
  show "bt_wf []" by (simp add: bt_wf_def)
  show "sorted_wrt (<) (map fst m)" if "bt_wf m" for m :: "('a, 'b) btree"
    using that by (simp add: bt_wf_def)
  show "(k, v) \<in> set m \<longleftrightarrow> bt_get m k = Some v" if "bt_wf m" for k v and m :: "('a, 'b) btree"
    using bt_wf_distinct [OF that] by simp
qed (auto simp: bt_get_insert bt_get_remove bt_wf_insert bt_wf_remove intro: bt_wf_extensional)

lemma bt_wf_Nil [simp, wf_intros]: "bt_wf []"
  by (simp add: bt_wf_def)

lemmas bt_simps = bt_get_insert bt_get_remove

declare bt_wf_insert [wf_intros] bt_wf_remove [wf_intros]

lemma bt_insert_set: "(j, u) \<in> set (bt_insert k v m) \<Longrightarrow> (j, u) = (k, v) \<or> (j, u) \<in> set m"
  by (induction k v m rule: bt_insert.induct) (auto split: if_splits)

text \<open>Collecting entries into a map, as \<open>collect::<BTreeMap<_, _>>()\<close> does: the last value of a key wins.\<close>

definition bt_of_list :: "('k::linorder \<times> 'v) list \<Rightarrow> ('k, 'v) btree" where
  "bt_of_list xs = foldl (\<lambda>m (k, v). bt_insert k v m) [] xs"

lemma bt_wf_foldl: "bt_wf m \<Longrightarrow> bt_wf (foldl (\<lambda>m (k, v). bt_insert k v m) m xs)"
  by (induction xs arbitrary: m) (auto simp: bt_wf_insert split: prod.splits)

lemma bt_wf_of_list [wf_intros]: "bt_wf (bt_of_list xs)"
  by (simp add: bt_of_list_def bt_wf_foldl)

lemma bt_get_foldl:
  "bt_get (foldl (\<lambda>m (k, v). bt_insert k v m) m xs) k =
     (case map_of (rev xs) k of None \<Rightarrow> bt_get m k | Some v \<Rightarrow> Some v)"
  by (induction xs arbitrary: m)
     (auto simp: bt_get_insert map_add_def split: prod.splits option.splits)

lemma bt_get_of_list: "bt_get (bt_of_list xs) k = map_of (rev xs) k"
  by (simp add: bt_of_list_def bt_get_foldl split: option.split)

lemma bt_of_list_sorted:
  assumes "bt_wf m"
  shows "bt_of_list m = m"
proof (rule bt_wf_extensional)
  have "map_of (rev m) = map_of m"
    by (subst map_of_inject_set) (use bt_wf_distinct [OF assms] in \<open>auto simp flip: rev_map\<close>)
  then show "bt_get (bt_of_list m) k = bt_get m k" for k
    by (simp add: bt_get_of_list)
qed (use assms bt_wf_of_list in auto)

section \<open>Ordered sets\<close>

text \<open>
  \<open>BTreeSet<T>\<close> is a set; iterating over it is \<open>sorted_list_of_set\<close>.
\<close>

abbreviation bs_iter :: "'a::linorder set \<Rightarrow> 'a list" where
  "bs_iter \<equiv> sorted_list_of_set"

lemma bs_iter_set: "finite A \<Longrightarrow> set (bs_iter A) = A"
  by simp

end
