(* ===== verification/Protocol_Scalars.thy ===== *)
theory Protocol_Scalars
  imports Tangle_Prelude
begin

text \<open>
  The scalar types of \<open>crates/tangle_protocol/src/lib.rs\<close>: fixed-length hex identifiers,
  subscription ids, timestamps, kinds and their NIP-01 classes, tags, tag names and address
  coordinates. A newtype over \<open>String\<close> or an integer is a type synonym; its constructor is a
  checking function, and the predicate \<open>valid_...\<close> is what the constructor establishes.
\<close>

section \<open>Error messages\<close>

definition empty_error :: "string \<Rightarrow> string" where
  "empty_error scalar = scalar @ '' must not be empty''"

definition invalid_length_error :: "string \<Rightarrow> nat \<Rightarrow> nat \<Rightarrow> string" where
  "invalid_length_error scalar expected actual =
     scalar @ '' must be '' @ dec expected @ '' characters, got '' @ dec actual"

definition too_long_error :: "string \<Rightarrow> nat \<Rightarrow> nat \<Rightarrow> string" where
  "too_long_error scalar limit actual =
     scalar @ '' must be at most '' @ dec limit @ '' characters, got '' @ dec actual"

definition non_lowercase_hex_error :: "string \<Rightarrow> string" where
  "non_lowercase_hex_error scalar = scalar @ '' must be lowercase hex''"

definition kind_out_of_range_error :: "u64 \<Rightarrow> string" where
  "kind_out_of_range_error v = ''kind must fit in u32, got '' @ dec (unat v)"

section \<open>Hex identifiers\<close>

definition require_lowercase_hex :: "string \<Rightarrow> string \<Rightarrow> nat \<Rightarrow> string + unit" where
  "require_lowercase_hex scalar value expected =
     (let actual = char_count value
      in if actual \<noteq> expected then Err (invalid_length_error scalar expected actual)
         else if list_ex (\<lambda>b. \<not> is_ascii_hexdigit b \<or> is_ascii_uppercase b) value
         then Err (non_lowercase_hex_error scalar)
         else Ok ())"

type_synonym event_id = string
type_synonym public_key_hex = string
type_synonym signature_hex = string
type_synonym subscription_id = string
type_synonym unix_timestamp = u64
type_synonym kind = u32

definition event_id_new :: "string \<Rightarrow> string + event_id" where
  "event_id_new value = and_then (require_lowercase_hex ''event id'' value 64) (\<lambda>_. Ok value)"

definition public_key_new :: "string \<Rightarrow> string + public_key_hex" where
  "public_key_new value = and_then (require_lowercase_hex ''public key'' value 64) (\<lambda>_. Ok value)"

definition signature_new :: "string \<Rightarrow> string + signature_hex" where
  "signature_new value = and_then (require_lowercase_hex ''signature'' value 128) (\<lambda>_. Ok value)"

definition subscription_id_new :: "string \<Rightarrow> string + subscription_id" where
  "subscription_id_new value =
     (let actual = char_count value
      in if actual = 0 then Err (empty_error ''subscription id'')
         else if actual > 64 then Err (too_long_error ''subscription id'' 64 actual)
         else Ok value)"

text \<open>What the constructors promise.\<close>

definition lower_hex_char :: "char \<Rightarrow> bool" where
  "lower_hex_char c \<longleftrightarrow> is_ascii_digit c \<or> (97 \<le> byte c \<and> byte c \<le> 102)"

definition lower_hex :: "nat \<Rightarrow> string \<Rightarrow> bool" where
  "lower_hex n s \<longleftrightarrow> length s = n \<and> (\<forall>c\<in>set s. lower_hex_char c)"

abbreviation valid_event_id :: "event_id \<Rightarrow> bool" where "valid_event_id \<equiv> lower_hex 64"
abbreviation valid_pubkey :: "public_key_hex \<Rightarrow> bool" where "valid_pubkey \<equiv> lower_hex 64"
abbreviation valid_signature :: "signature_hex \<Rightarrow> bool" where "valid_signature \<equiv> lower_hex 128"

definition valid_subscription_id :: "subscription_id \<Rightarrow> bool" where
  "valid_subscription_id s \<longleftrightarrow> 1 \<le> char_count s \<and> char_count s \<le> 64"

lemma lower_hex_char_iff:
  "is_ascii_hexdigit c \<and> \<not> is_ascii_uppercase c \<longleftrightarrow> lower_hex_char c"
  by (auto simp: is_ascii_hexdigit_def is_ascii_uppercase_def lower_hex_char_def is_ascii_digit_def)

lemma lower_hex_ascii: "lower_hex n s \<Longrightarrow> is_ascii s"
  by (auto simp: lower_hex_def lower_hex_char_def is_ascii_def is_ascii_digit_def)

lemma lower_hex_no_char: "lower_hex n s \<Longrightarrow> \<not> lower_hex_char c \<Longrightarrow> c \<notin> set s"
  by (auto simp: lower_hex_def)

lemma require_lowercase_hex_Ok:
  "require_lowercase_hex scalar value n = Ok u \<longleftrightarrow> lower_hex n value"
proof -
  let ?bad = "\<lambda>b. \<not> is_ascii_hexdigit b \<or> is_ascii_uppercase b"
  have hex: "\<not> list_ex ?bad value \<longleftrightarrow> (\<forall>c\<in>set value. lower_hex_char c)"
    using lower_hex_char_iff by (auto simp: list_ex_iff)
  have "is_ascii value" if "\<not> list_ex ?bad value"
    using that is_ascii_hexdigit_less by (auto simp: is_ascii_def list_ex_iff)
  then show ?thesis
    using hex by (auto simp: require_lowercase_hex_def lower_hex_def Let_def char_count_ascii
        is_ascii_def lower_hex_char_def is_ascii_digit_def)
qed

lemma scalar_new_Ok [simp]:
  "event_id_new v = Ok w \<longleftrightarrow> w = v \<and> valid_event_id v"
  "public_key_new v = Ok w \<longleftrightarrow> w = v \<and> valid_pubkey v"
  "signature_new v = Ok w \<longleftrightarrow> w = v \<and> valid_signature v"
  by (auto simp: event_id_new_def public_key_new_def signature_new_def result_iffs
      require_lowercase_hex_Ok)

lemma scalar_new_valid [simp]:
  "valid_event_id v \<Longrightarrow> event_id_new v = Ok v"
  "valid_pubkey v \<Longrightarrow> public_key_new v = Ok v"
  "valid_signature v \<Longrightarrow> signature_new v = Ok v"
  by simp_all

lemma subscription_id_new_Ok [simp]:
  "subscription_id_new v = Ok w \<longleftrightarrow> w = v \<and> valid_subscription_id v"
  by (auto simp: subscription_id_new_def valid_subscription_id_def Let_def)

lemma subscription_id_new_valid [simp]:
  "valid_subscription_id v \<Longrightarrow> subscription_id_new v = Ok v"
  by simp

lemma lower_hex_replicate: "lower_hex_char c \<Longrightarrow> lower_hex n (replicate n c)"
  by (auto simp: lower_hex_def)

lemma lower_hex_char_samples [simp]:
  "lower_hex_char CHR ''0''" "lower_hex_char CHR ''1''" "lower_hex_char CHR ''2''"
  "lower_hex_char CHR ''3''" "lower_hex_char CHR ''4''" "lower_hex_char CHR ''5''"
  "lower_hex_char CHR ''a''" "lower_hex_char CHR ''b''" "lower_hex_char CHR ''c''"
  by (simp_all add: lower_hex_char_def is_ascii_digit_def byte_def)

lemma byte_inject [simp]: "byte c = byte d \<longleftrightarrow> c = d"
  by (simp add: byte_def)

lemma lower_hex_char_set: "lower_hex_char c \<longleftrightarrow> c \<in> set ''0123456789abcdef''"
proof -
  have "lower_hex_char c \<longleftrightarrow> byte c \<in> byte ` set ''0123456789abcdef''"
    by (simp add: lower_hex_char_def is_ascii_digit_def byte_def) presburger
  also have "\<dots> \<longleftrightarrow> c \<in> set ''0123456789abcdef''"
    by (rule inj_image_mem_iff) (auto intro: injI)
  finally show ?thesis .
qed

text \<open>
  The three hex constructors accept exactly the strings of their length (64, 64 and
  128 bytes) made of digits and the letters a to f, and return the string unchanged.
\<close>

theorem hex_scalars_exact:
  "(event_id_new s = Ok t) = (t = s \<and> length s = 64 \<and> list_all (\<lambda>c. c \<in> set ''0123456789abcdef'') s)
   \<and> (public_key_new s = Ok t) = (t = s \<and> length s = 64 \<and> list_all (\<lambda>c. c \<in> set ''0123456789abcdef'') s)
   \<and> (signature_new s = Ok t) = (t = s \<and> length s = 128 \<and> list_all (\<lambda>c. c \<in> set ''0123456789abcdef'') s)"
  unfolding scalar_new_Ok lower_hex_def list_all_iff lower_hex_char_set by auto

section \<open>Kinds\<close>

datatype kind_class = Regular | Replaceable | Ephemeral | Addressable

definition kind_new :: "u64 \<Rightarrow> string + kind" where
  "kind_new value =
     (if unat value < 2 ^ 32 then Ok (ucast value) else Err (kind_out_of_range_error value))"

definition kind_class :: "kind \<Rightarrow> kind_class" where
  "kind_class k =
     (if k = 0 \<or> k = 3 \<or> (10000 \<le> k \<and> k \<le> 19999) then Replaceable
      else if 20000 \<le> k \<and> k \<le> 29999 then Ephemeral
      else if 30000 \<le> k \<and> k \<le> 39999 then Addressable
      else Regular)"

definition kind_is_regular :: "kind \<Rightarrow> bool" where
  "kind_is_regular k \<longleftrightarrow> kind_class k = Regular"

definition kind_is_replaceable :: "kind \<Rightarrow> bool" where
  "kind_is_replaceable k \<longleftrightarrow> kind_class k = Replaceable"

definition kind_is_ephemeral :: "kind \<Rightarrow> bool" where
  "kind_is_ephemeral k \<longleftrightarrow> kind_class k = Ephemeral"

definition kind_is_addressable :: "kind \<Rightarrow> bool" where
  "kind_is_addressable k \<longleftrightarrow> kind_class k = Addressable"

lemma kind_new_ucast [simp]: "kind_new (ucast (k :: kind)) = Ok k"
  by (simp add: kind_new_def)

lemma kind_new_Ok: "kind_new v = Ok k \<longleftrightarrow> v = ucast k"
  by (auto simp: kind_new_def ucast_u64_u32_inverse)

section \<open>Tags\<close>

text \<open>
  A tag is the vector of its values. \<open>Tag::new\<close> never builds an empty one, so the index 0 of
  \<open>name\<close> and \<open>indexed_pair\<close> is in range; the model answers \<open>None\<close> for an empty vector.
\<close>

type_synonym tag_name = string
type_synonym tag_value = string
type_synonym tag = "string list"
type_synonym d_tag = string

definition tag_name_new :: "string \<Rightarrow> string + tag_name" where
  "tag_name_new value = (if value = [] then Err (empty_error ''tag name'') else Ok value)"

definition is_indexable_name :: "string \<Rightarrow> bool" where
  "is_indexable_name value = (case value of [b] \<Rightarrow> is_ascii_alphabetic b | _ \<Rightarrow> False)"

definition tag_new :: "string list \<Rightarrow> string + tag" where
  "tag_new values =
     (case values of
        [] \<Rightarrow> Err (empty_error ''tag'')
      | name # _ \<Rightarrow> and_then (tag_name_new name) (\<lambda>_. Ok values))"

definition tag_from_parts :: "string \<Rightarrow> string list \<Rightarrow> string + tag" where
  "tag_from_parts name values = tag_new (name # values)"

definition values_get :: "string list \<Rightarrow> nat \<Rightarrow> string option" where
  "values_get vs i = (if i < length vs then Some (vs ! i) else None)"

definition tag_value :: "tag \<Rightarrow> tag_value option" where
  "tag_value t = values_get t 1"

definition tag_indexed_pair :: "tag \<Rightarrow> (string \<times> string) option" where
  "tag_indexed_pair t =
     (case t of
        [] \<Rightarrow> None
      | name # _ \<Rightarrow> if \<not> is_indexable_name name then None
                    else map_option (\<lambda>value. (name, value)) (values_get t 1))"

definition valid_tag :: "tag \<Rightarrow> bool" where
  "valid_tag t \<longleftrightarrow> t \<noteq> [] \<and> hd t \<noteq> []"

lemma tag_new_Ok [simp]: "tag_new v = Ok t \<longleftrightarrow> t = v \<and> valid_tag v"
  by (auto simp: tag_new_def tag_name_new_def valid_tag_def split: list.splits if_splits)

lemma tag_indexed_pair_Some:
  "tag_indexed_pair t = Some (n, v) \<longleftrightarrow> (\<exists>r. t = n # v # r \<and> is_indexable_name n)"
  by (cases t; cases "tl t") (auto simp: tag_indexed_pair_def values_get_def)

lemma is_indexable_name_iff: "is_indexable_name n \<longleftrightarrow> (\<exists>c. n = [c] \<and> is_ascii_alphabetic c)"
  by (auto simp: is_indexable_name_def split: list.splits)

section \<open>Address coordinates\<close>

record address_coordinate =
  ac_kind :: kind
  ac_pubkey :: public_key_hex
  ac_d :: d_tag

definition address_coordinate_new ::
  "kind \<Rightarrow> public_key_hex \<Rightarrow> d_tag \<Rightarrow> string + address_coordinate" where
  "address_coordinate_new k pk d =
     (if \<not> kind_is_addressable k
      then Err (''address coordinate kind must be addressable, got '' @ dec (unat k))
      else Ok \<lparr>ac_kind = k, ac_pubkey = pk, ac_d = d\<rparr>)"

text \<open>\<open>Display\<close>, which \<open>key\<close> uses, and \<open>FromStr\<close>.\<close>

definition address_coordinate_to_string :: "address_coordinate \<Rightarrow> string" where
  "address_coordinate_to_string c =
     dec (unat (ac_kind c)) @ '':'' @ ac_pubkey c @ '':'' @ ac_d c"

definition address_coordinate_from_str :: "string \<Rightarrow> string + address_coordinate" where
  "address_coordinate_from_str value =
     (let parts = splitn 3 CHR '':'' value in
      and_then
        (and_then
          (ok_or (parse_u64 (case values_get parts 0 of None \<Rightarrow> [] | Some p \<Rightarrow> p))
            ''address coordinate kind must be an unsigned integer'')
          kind_new)
        (\<lambda>k. and_then
          (and_then (ok_or (values_get parts 1) ''address coordinate pubkey is missing'')
            public_key_new)
          (\<lambda>pk. and_then
            (ok_or (values_get parts 2) ''address coordinate d tag is missing'')
            (\<lambda>d. address_coordinate_new k pk d))))"

definition valid_address_coordinate :: "address_coordinate \<Rightarrow> bool" where
  "valid_address_coordinate c \<longleftrightarrow> kind_is_addressable (ac_kind c) \<and> valid_pubkey (ac_pubkey c)"

lemma splitn3_colons:
  assumes "CHR '':'' \<notin> set a" and "CHR '':'' \<notin> set b"
  shows "splitn 3 CHR '':'' (a @ '':'' @ b @ '':'' @ d) = [a, b, d]"
  using assms by (simp add: numeral_3_eq_3 split_once_append)

lemma dec_no_colon: "CHR '':'' \<notin> set (dec n)"
  using dec_digits [of "CHR '':''" n] by (auto simp: is_ascii_digit_def byte_def)

text \<open>
  Every address coordinate with an addressable kind and a valid public key, printed by
  \<open>to_string\<close>, is read back by \<open>from_str\<close> as itself, whatever its d tag holds (colons included);
  so two such coordinates with the same key are the same coordinate.
\<close>

theorem address_coordinate_roundtrip:
  assumes "valid_address_coordinate c"
  shows "address_coordinate_from_str (address_coordinate_to_string c) = Ok c"
proof -
  have pk: "CHR '':'' \<notin> set (ac_pubkey c)"
    using assms by (auto simp: valid_address_coordinate_def lower_hex_char_set
        dest!: lower_hex_no_char [of _ _ "CHR '':''"])
  have k: "parse_u64 (dec (unat (ac_kind c))) = Some (ucast (ac_kind c))"
    using unat_u32_less [of "ac_kind c"]
    by (subst parse_u64_dec) (auto simp flip: unat_ucast_u32_u64)
  show ?thesis
    unfolding address_coordinate_to_string_def address_coordinate_from_str_def
      splitn3_colons [OF dec_no_colon pk]
    using assms k by (simp add: values_get_def address_coordinate_new_def
        valid_address_coordinate_def)
qed


theorem address_coordinate_roundtrip_witness:
  "address_coordinate_from_str (address_coordinate_to_string
     \<lparr>ac_kind = 30402, ac_pubkey = replicate 64 CHR ''1'', ac_d = ''market:stall''\<rparr>)
   = Ok \<lparr>ac_kind = 30402, ac_pubkey = replicate 64 CHR ''1'', ac_d = ''market:stall''\<rparr>"
  by (rule address_coordinate_roundtrip)
     (simp add: valid_address_coordinate_def kind_is_addressable_def kind_class_def
        lower_hex_replicate)

end
