(* ===== verification/Protocol_Events.thy ===== *)
theory Protocol_Events
  imports Protocol_Scalars
begin

text \<open>
  Events, filters and JSON values of \<open>crates/tangle_protocol/src/lib.rs\<close>: the typed event and its
  JSON form (\<open>event_to_value\<close>, \<open>event_from_value\<close>), the filter, its matching rule and its JSON form,
  and the deserializer that refuses duplicate object fields. A \<open>serde_json\<close> object is its
  \<open>BTreeMap\<close> of fields; \<open>serde_json\<close>'s text reader and printer are parameters where they occur.
\<close>

section \<open>JSON values\<close>

text \<open>\<open>serde_json::Value\<close>; a float is its IEEE-754 bit pattern.\<close>

datatype json_number = PosInt u64 | NegInt u64 | Float u64

datatype json =
    JNull
  | JBool bool
  | JNumber json_number
  | JString string
  | JArray "json list"
  | JObject "(string \<times> json) list"

definition as_str :: "json \<Rightarrow> string option" where
  "as_str v = (case v of JString s \<Rightarrow> Some s | _ \<Rightarrow> None)"

definition as_u64 :: "json \<Rightarrow> u64 option" where
  "as_u64 v = (case v of JNumber (PosInt n) \<Rightarrow> Some n | _ \<Rightarrow> None)"

definition as_array :: "json \<Rightarrow> json list option" where
  "as_array v = (case v of JArray xs \<Rightarrow> Some xs | _ \<Rightarrow> None)"

definition as_object :: "json \<Rightarrow> (string, json) btree option" where
  "as_object v = (case v of JObject m \<Rightarrow> Some m | _ \<Rightarrow> None)"

abbreviation jnum :: "u64 \<Rightarrow> json" where "jnum n \<equiv> JNumber (PosInt n)"
abbreviation jstrings :: "string list \<Rightarrow> json" where "jstrings xs \<equiv> JArray (map JString xs)"

lemma json_accessors [simp]:
  "as_str (JString s) = Some s" "as_u64 (jnum n) = Some n"
  "as_array (JArray xs) = Some xs" "as_object (JObject m) = Some m"
  by (simp_all add: as_str_def as_u64_def as_array_def as_object_def)

lemma json_accessors_iff [simp]:
  "as_str v = Some s \<longleftrightarrow> v = JString s" "as_u64 v = Some n \<longleftrightarrow> v = jnum n"
  "as_array v = Some xs \<longleftrightarrow> v = JArray xs" "as_object v = Some m \<longleftrightarrow> v = JObject m"
  by (auto simp: as_str_def as_u64_def as_array_def as_object_def
      split: json.splits json_number.splits)

section \<open>Duplicate-free deserialization\<close>

text \<open>
  What \<open>serde_json\<close>'s deserializer hands the visitor, in document order, duplicates included.
  \<open>unique_value\<close> is \<open>UniqueJsonValueVisitor\<close>; the serde position suffix of an error is not part
  of the message.
\<close>

datatype raw_json =
    RawUnit
  | RawBool bool
  | RawI64 u64
  | RawU64 u64
  | RawF64 u64
  | RawStr string
  | RawSeq "raw_json list"
  | RawMap "(string \<times> raw_json) list"

definition f64_is_finite :: "u64 \<Rightarrow> bool" where
  "f64_is_finite w \<longleftrightarrow> unat w div 2 ^ 52 mod 2048 \<noteq> 2047"

definition number_from_i64 :: "u64 \<Rightarrow> json_number" where
  "number_from_i64 v = (if sint v < 0 then NegInt v else PosInt v)"

fun unique_value :: "raw_json \<Rightarrow> string + json"
and unique_seq :: "raw_json list \<Rightarrow> string + json list"
and unique_map :: "(string, json) btree \<Rightarrow> (string \<times> raw_json) list \<Rightarrow> string + (string, json) btree"
where
  "unique_value RawUnit = Ok JNull"
| "unique_value (RawBool b) = Ok (JBool b)"
| "unique_value (RawI64 v) = Ok (JNumber (number_from_i64 v))"
| "unique_value (RawU64 v) = Ok (JNumber (PosInt v))"
| "unique_value (RawF64 v) =
     (if f64_is_finite v then Ok (JNumber (Float v)) else Err ''JSON number must be finite'')"
| "unique_value (RawStr s) = Ok (JString s)"
| "unique_value (RawSeq xs) = map_ok JArray (unique_seq xs)"
| "unique_value (RawMap fs) = map_ok JObject (unique_map [] fs)"
| "unique_seq [] = Ok []"
| "unique_seq (x # xs) = and_then (unique_value x) (\<lambda>v. map_ok (\<lambda>vs. v # vs) (unique_seq xs))"
| "unique_map values [] = Ok values"
| "unique_map values ((field, x) # fs) =
     (if bt_get values field \<noteq> None then Err (''duplicate object field `'' @ field @ ''`'')
      else and_then (unique_value x) (\<lambda>v. unique_map (bt_insert field v values) fs))"

definition json_value_without_duplicate_fields ::
  "(string \<Rightarrow> string + raw_json) \<Rightarrow> string \<Rightarrow> string + json" where
  "json_value_without_duplicate_fields serde_read raw = and_then (serde_read raw) unique_value"

fun raw_unique :: "raw_json \<Rightarrow> bool" where
  "raw_unique (RawF64 v) = f64_is_finite v"
| "raw_unique (RawSeq xs) = (\<forall>x\<in>set xs. raw_unique x)"
| "raw_unique (RawMap fs) = (distinct (map fst fs) \<and> (\<forall>x\<in>set (map snd fs). raw_unique x))"
| "raw_unique _ = True"

lemma unique_ok_iff:
  "is_ok (unique_value r) = raw_unique r"
  "is_ok (unique_seq rs) = (\<forall>x\<in>set rs. raw_unique x)"
  "is_ok (unique_map m fs) =
     (distinct (map fst fs) \<and> (\<forall>k\<in>set (map fst fs). bt_get m k = None)
      \<and> (\<forall>x\<in>set (map snd fs). raw_unique x))"
proof (induction r and rs and m fs rule: unique_value_unique_seq_unique_map.induct)
  case (12 m field x fs)
  show ?case
  proof (cases "bt_get m field = None \<and> is_ok (unique_value x)")
    case True
    then obtain v where v: "unique_value x = Ok v" by (auto simp: is_ok_iff)
    then have "raw_unique x" using 12 True by (simp add: is_ok_iff)
    moreover have "is_ok (unique_map m ((field, x) # fs)) = is_ok (unique_map (bt_insert field v m) fs)"
      using True v by simp
    ultimately show ?thesis using 12 True v by (auto simp: bt_get_insert split: if_splits)
  next
    case False
    then show ?thesis using 12 by (auto simp: is_ok_iff result_iffs split: if_splits)
  qed
qed (auto simp: is_ok_iff result_iffs)

text \<open>
  The deserializer succeeds on a JSON document exactly when no object in it, at any
  depth, repeats a field name (and every float is finite).
\<close>

theorem unique_value_exact:
  "is_ok (unique_value r) = raw_unique r"
  by (rule unique_ok_iff)


section \<open>Events\<close>

record unsigned_event =
  ue_pubkey :: public_key_hex
  ue_created_at :: unix_timestamp
  ue_kind :: kind
  ue_tags :: "tag list"
  ue_content :: string

record event =
  event_id :: event_id
  event_unsigned :: unsigned_event
  event_sig :: signature_hex

definition valid_event :: "event \<Rightarrow> bool" where
  "valid_event e \<longleftrightarrow> valid_event_id (event_id e) \<and> valid_signature (event_sig e)
     \<and> valid_pubkey (ue_pubkey (event_unsigned e))
     \<and> list_all valid_tag (ue_tags (event_unsigned e))"

definition raw_event_json_new :: "string \<Rightarrow> string + string" where
  "raw_event_json_new value =
     (if value = [] then Err ''raw event JSON must not be empty'' else Ok value)"

definition shape_missing_field :: "string \<Rightarrow> string" where
  "shape_missing_field field = ''event field `'' @ field @ ''` is missing''"

definition shape_invalid_field :: "string \<Rightarrow> string \<Rightarrow> string" where
  "shape_invalid_field field reason = ''event field `'' @ field @ ''` is invalid: '' @ reason"

definition field_value :: "(string, json) btree \<Rightarrow> string \<Rightarrow> string + json" where
  "field_value object field = ok_or (bt_get object field) (shape_missing_field field)"

definition field_string :: "(string, json) btree \<Rightarrow> string \<Rightarrow> string + string" where
  "field_string object field =
     and_then (field_value object field)
       (\<lambda>v. ok_or (as_str v) (shape_invalid_field field ''must be a string''))"

definition field_u64 :: "(string, json) btree \<Rightarrow> string \<Rightarrow> string + u64" where
  "field_u64 object field =
     and_then (field_value object field)
       (\<lambda>v. ok_or (as_u64 v) (shape_invalid_field field ''must be an unsigned integer''))"

definition tags_from_value :: "json \<Rightarrow> string + tag list" where
  "tags_from_value value =
     and_then (ok_or (as_array value) (shape_invalid_field ''tags'' ''must be an array''))
       (traverse (\<lambda>tag.
          and_then (ok_or (as_array tag) (shape_invalid_field ''tags'' ''tag must be an array''))
            (\<lambda>parts. and_then
               (traverse (\<lambda>part. ok_or (as_str part)
                  (shape_invalid_field ''tags'' ''tag elements must be strings'')) parts)
               (\<lambda>values. map_err (shape_invalid_field ''tags'') (tag_new values)))))"

definition event_from_value :: "json \<Rightarrow> string + event" where
  "event_from_value value =
     and_then (ok_or (as_object value) (shape_invalid_field ''event'' ''must be an object''))
       (\<lambda>object.
     and_then (and_then (field_string object ''id'')
        (\<lambda>v. map_err (shape_invalid_field ''id'') (event_id_new v)))
       (\<lambda>id.
     and_then (and_then (field_string object ''pubkey'')
        (\<lambda>v. map_err (shape_invalid_field ''pubkey'') (public_key_new v)))
       (\<lambda>pubkey.
     and_then (field_u64 object ''created_at'')
       (\<lambda>created_at.
     and_then (and_then (field_u64 object ''kind'')
        (\<lambda>v. map_err (shape_invalid_field ''kind'') (kind_new v)))
       (\<lambda>k.
     and_then (and_then (field_value object ''tags'') tags_from_value)
       (\<lambda>tags.
     and_then (field_string object ''content'')
       (\<lambda>content.
     and_then (and_then (field_string object ''sig'')
        (\<lambda>v. map_err (shape_invalid_field ''sig'') (signature_new v)))
       (\<lambda>sig. Ok \<lparr>event_id = id,
          event_unsigned = \<lparr>ue_pubkey = pubkey, ue_created_at = created_at, ue_kind = k,
            ue_tags = tags, ue_content = content\<rparr>,
          event_sig = sig\<rparr>))))))))"

definition parse_event_json :: "(string \<Rightarrow> string + raw_json) \<Rightarrow> string \<Rightarrow> string + event" where
  "parse_event_json serde_read raw =
     and_then
       (map_err (\<lambda>source. shape_invalid_field ''event'' (''invalid JSON: '' @ source))
         (json_value_without_duplicate_fields serde_read raw))
       event_from_value"

definition tags_to_value :: "tag list \<Rightarrow> json" where
  "tags_to_value tags = JArray (map jstrings tags)"

definition event_to_value :: "event \<Rightarrow> json" where
  "event_to_value e = JObject (bt_of_list
     [(''id'', JString (event_id e)),
      (''pubkey'', JString (ue_pubkey (event_unsigned e))),
      (''created_at'', jnum (ue_created_at (event_unsigned e))),
      (''kind'', jnum (ucast (ue_kind (event_unsigned e)))),
      (''tags'', tags_to_value (ue_tags (event_unsigned e))),
      (''content'', JString (ue_content (event_unsigned e))),
      (''sig'', JString (event_sig e))])"

text \<open>\<open>canonical_event_json\<close>: the array whose compact printing is hashed into the event id.\<close>

definition canonical_event_value :: "unsigned_event \<Rightarrow> json" where
  "canonical_event_value u =
     JArray [jnum 0, JString (ue_pubkey u), jnum (ue_created_at u), jnum (ucast (ue_kind u)),
       tags_to_value (ue_tags u), JString (ue_content u)]"

definition canonical_event_json :: "(json \<Rightarrow> string) \<Rightarrow> unsigned_event \<Rightarrow> string" where
  "canonical_event_json serde_print u = serde_print (canonical_event_value u)"

text \<open>\<open>AddressCoordinate::from_event\<close>: the first indexed \<open>d\<close> tag of an addressable event.\<close>

definition address_coordinate_from_event :: "event \<Rightarrow> string + address_coordinate option" where
  "address_coordinate_from_event e =
     (let k = ue_kind (event_unsigned e) in
      if \<not> kind_is_addressable k then Ok None
      else and_then
        (ok_or (find_map (\<lambda>t. case tag_indexed_pair t of
              Some (name, value) \<Rightarrow> if name = ''d'' then Some value else None
            | None \<Rightarrow> None) (ue_tags (event_unsigned e)))
          ''addressable event must include a d tag'')
        (\<lambda>d. map_ok Some (address_coordinate_new k (ue_pubkey (event_unsigned e)) d)))"


subsection \<open>Round trip and validity\<close>

lemma traverse_as_str: "traverse (\<lambda>part. ok_or (as_str part) e) (map JString p) = Ok p"
  by (induction p) auto

lemma tags_roundtrip: "list_all valid_tag tags \<Longrightarrow> tags_from_value (tags_to_value tags) = Ok tags"
  unfolding tags_from_value_def tags_to_value_def
  by (simp add: traverse_as_str traverse_map_Ok [where h = "\<lambda>t. t"] list_all_iff)

lemma tags_from_value_valid: "tags_from_value v = Ok tags \<Longrightarrow> list_all valid_tag tags"
  by (auto simp: tags_from_value_def result_iffs list_all_iff dest!: traverse_Ok_set)

lemma field_simps_Ok:
  "field_value m f = Ok v \<longleftrightarrow> bt_get m f = Some v"
  "field_string m f = Ok s \<longleftrightarrow> bt_get m f = Some (JString s)"
  "field_u64 m f = Ok n \<longleftrightarrow> bt_get m f = Some (jnum n)"
  by (auto simp: field_value_def field_string_def field_u64_def result_iffs)

lemma event_roundtrip:
  assumes "valid_event e"
  shows "event_from_value (event_to_value e) = Ok e"
  using assms
  by (simp add: event_from_value_def event_to_value_def valid_event_def bt_get_of_list
      field_value_def field_string_def field_u64_def tags_roundtrip)

lemma event_from_value_valid: "event_from_value v = Ok e \<Longrightarrow> valid_event e"
  by (auto simp: event_from_value_def result_iffs field_simps_Ok valid_event_def
      dest: tags_from_value_valid)

text \<open>
  A well-formed event (hex id, key and signature, tags with a non-empty name) written
  as JSON by \<open>event_to_value\<close> is read back by \<open>event_from_value\<close> as the same event.
\<close>

theorem event_value_roundtrip:
  assumes "valid_event e"
  shows "event_from_value (event_to_value e) = Ok e"
  using assms by (rule event_roundtrip)

definition sample_event :: event where
  "sample_event = \<lparr>event_id = replicate 64 CHR ''a'',
     event_unsigned = \<lparr>ue_pubkey = replicate 64 CHR ''b'', ue_created_at = 1714124433, ue_kind = 9,
       ue_tags = [[''h'', ''welcome''], [''-'']], ue_content = ''hello''\<rparr>,
     event_sig = replicate 128 CHR ''c''\<rparr>"

lemma sample_event_valid: "valid_event sample_event"
  by (simp add: valid_event_def sample_event_def lower_hex_replicate valid_tag_def)

theorem event_value_roundtrip_witness:
  "event_from_value (event_to_value sample_event) = Ok sample_event"
  by (rule event_value_roundtrip [OF sample_event_valid])

text \<open>
  Whatever JSON value it is given, \<open>event_from_value\<close> only returns well-formed events,
  and the event it returns is the one the object's seven fields spell out.
\<close>

theorem event_from_value_sound:
  assumes "event_from_value v = Ok e"
  shows "valid_event e \<and> (\<exists>m. v = JObject m \<and> bt_get m ''id'' = Some (JString (event_id e))
    \<and> bt_get m ''kind'' = Some (jnum (ucast (ue_kind (event_unsigned e))))
    \<and> bt_get m ''created_at'' = Some (jnum (ue_created_at (event_unsigned e)))
    \<and> bt_get m ''pubkey'' = Some (JString (ue_pubkey (event_unsigned e)))
    \<and> bt_get m ''content'' = Some (JString (ue_content (event_unsigned e)))
    \<and> bt_get m ''sig'' = Some (JString (event_sig e)))"
  using assms
  by (auto simp: event_from_value_def result_iffs field_simps_Ok valid_event_def kind_new_Ok
      dest: tags_from_value_valid)

theorem event_from_value_sound_witness:
  "valid_event sample_event \<and> (\<exists>m. event_to_value sample_event = JObject m
    \<and> bt_get m ''id'' = Some (JString (event_id sample_event))
    \<and> bt_get m ''kind'' = Some (jnum (ucast (ue_kind (event_unsigned sample_event))))
    \<and> bt_get m ''created_at'' = Some (jnum (ue_created_at (event_unsigned sample_event)))
    \<and> bt_get m ''pubkey'' = Some (JString (ue_pubkey (event_unsigned sample_event)))
    \<and> bt_get m ''content'' = Some (JString (ue_content (event_unsigned sample_event)))
    \<and> bt_get m ''sig'' = Some (JString (event_sig sample_event)))"
  by (rule event_from_value_sound [OF event_roundtrip [OF sample_event_valid]])

end
