(* ===== verification/Protocol_Filters.thy ===== *)
theory Protocol_Filters
  imports Protocol_Events
begin

text \<open>
  Filters of \<open>crates/tangle_protocol/src/lib.rs\<close>: the record, its constructors, the matching rule of
  a \<open>REQ\<close>, and the JSON form (\<open>filter_to_value\<close>, \<open>filter_from_value\<close> with its per-field parsers).
  The lemmas give the matching rule as a conjunction over the constraints and show that reading
  a written filter restores it.
\<close>

section \<open>The filter\<close>

record filter_rec =
  f_ids :: "event_id list"
  f_authors :: "public_key_hex list"
  f_kinds :: "kind list"
  f_tag_filters :: "(tag_name, tag_value list) btree"
  f_since :: "unix_timestamp option"
  f_until :: "unix_timestamp option"
  f_limit :: "u64 option"
  f_search :: "string option"

definition filter_empty :: filter_rec where
  "filter_empty = \<lparr>f_ids = [], f_authors = [], f_kinds = [], f_tag_filters = [], f_since = None,
     f_until = None, f_limit = None, f_search = None\<rparr>"

definition filter_field_error :: "string \<Rightarrow> string \<Rightarrow> string" where
  "filter_field_error field reason = ''filter field `'' @ field @ ''` is invalid: '' @ reason"

definition filter_array_error :: "string \<Rightarrow> string" where
  "filter_array_error field = ''filter field `'' @ field @ ''` must be a non-empty array''"

definition filter_from_parts ::
  "event_id list \<Rightarrow> public_key_hex list \<Rightarrow> kind list \<Rightarrow> (tag_name, tag_value list) btree \<Rightarrow>
   unix_timestamp option \<Rightarrow> unix_timestamp option \<Rightarrow> u64 option \<Rightarrow> string option \<Rightarrow>
   string + filter_rec" where
  "filter_from_parts ids authors kinds tag_filters since until limit search =
     and_then
       (try_fold (\<lambda>_ (name, values).
          if \<not> is_indexable_name name
          then Err (filter_field_error (CHR ''#'' # name) ''tag name must be a single ASCII letter'')
          else if values = [] then Err (filter_array_error (CHR ''#'' # name))
          else Ok ()) () tag_filters)
       (\<lambda>_. Ok \<lparr>f_ids = ids, f_authors = authors, f_kinds = kinds, f_tag_filters = tag_filters,
          f_since = since, f_until = until, f_limit = limit, f_search = search\<rparr>)"

definition without_limit :: "filter_rec \<Rightarrow> filter_rec" where
  "without_limit f = f\<lparr>f_limit := None\<rparr>"

definition with_limit :: "filter_rec \<Rightarrow> u64 \<Rightarrow> filter_rec" where
  "with_limit f limit = f\<lparr>f_limit := Some limit\<rparr>"

definition filter_is_complete :: "filter_rec \<Rightarrow> bool" where
  "filter_is_complete f \<longleftrightarrow> f_ids f \<noteq> []"

section \<open>Matching\<close>

definition filter_matches :: "filter_rec \<Rightarrow> event \<Rightarrow> bool" where
  "filter_matches f e =
     (if f_ids f \<noteq> [] \<and> \<not> list_ex (\<lambda>id. id = event_id e) (f_ids f) then False
      else if f_authors f \<noteq> []
        \<and> \<not> list_ex (\<lambda>author. author = ue_pubkey (event_unsigned e)) (f_authors f) then False
      else if f_kinds f \<noteq> [] \<and> \<not> list_ex (\<lambda>k. k = ue_kind (event_unsigned e)) (f_kinds f) then False
      else if (case f_since f of Some since \<Rightarrow> ue_created_at (event_unsigned e) < since
               | None \<Rightarrow> False) then False
      else if (case f_until f of Some until \<Rightarrow> ue_created_at (event_unsigned e) > until
               | None \<Rightarrow> False) then False
      else list_all (\<lambda>(name, values).
        list_ex (\<lambda>tag. case tag_indexed_pair tag of
            Some (n, v) \<Rightarrow>
              n = name \<and> list_ex (\<lambda>value. value = v) values
          | None \<Rightarrow> False) (ue_tags (event_unsigned e))) (f_tag_filters f))"

text \<open>
  Claim C40. An event matches a filter exactly when it meets every constraint the filter carries:
  id, author and kind are among the listed ones (an empty list constrains nothing), the time is
  between since and until inclusive, and for each tag filter the event has a tag with that
  single-letter name whose first value is one of the listed values. The limit and the search
  string never decide a match.
\<close>

theorem filter_matches_spec:
  "filter_matches f e =
     ((f_ids f = [] \<or> event_id e \<in> set (f_ids f))
      \<and> (f_authors f = [] \<or> ue_pubkey (event_unsigned e) \<in> set (f_authors f))
      \<and> (f_kinds f = [] \<or> ue_kind (event_unsigned e) \<in> set (f_kinds f))
      \<and> (f_since f = None \<or> the (f_since f) \<le> ue_created_at (event_unsigned e))
      \<and> (f_until f = None \<or> ue_created_at (event_unsigned e) \<le> the (f_until f))
      \<and> list_all (\<lambda>(name, values). is_indexable_name name
           \<and> list_ex (\<lambda>value. \<exists>rest. (name # value # rest) \<in> set (ue_tags (event_unsigned e))) values)
         (f_tag_filters f))
   \<and> filter_matches (f\<lparr>f_limit := l, f_search := s\<rparr>) e = filter_matches f e"
proof -
  have tags: "list_ex (\<lambda>tag. case tag_indexed_pair tag of
            Some (n, v) \<Rightarrow>
              n = name \<and> list_ex (\<lambda>value. value = v) vs
          | None \<Rightarrow> False) ts
      \<longleftrightarrow> is_indexable_name name
         \<and> list_ex (\<lambda>value. \<exists>rest. (name # value # rest) \<in> set ts) vs"
    for name vs ts
  proof -
    have "(case tag_indexed_pair tag of
            Some (n, v) \<Rightarrow>
              n = name \<and> list_ex (\<lambda>value. value = v) vs
          | None \<Rightarrow> False)
       \<longleftrightarrow> (\<exists>v\<in>set vs. tag_indexed_pair tag = Some (name, v))" for tag
      by (auto simp: list_ex_iff split: option.splits)
    then show ?thesis by (auto simp: list_ex_iff tag_indexed_pair_Some)
  qed
  show ?thesis
    unfolding filter_matches_def tags
    by (auto simp: list_ex_iff not_less split: option.splits)
qed

section \<open>JSON form\<close>

definition parse_string_filter_array ::
  "string \<Rightarrow> json \<Rightarrow> (string \<Rightarrow> string + 'a) \<Rightarrow> string + 'a list" where
  "parse_string_filter_array field value parse_item =
     and_then (ok_or (as_array value) (filter_array_error field))
       (\<lambda>array. if array = [] then Err (filter_array_error field)
         else traverse (\<lambda>item. and_then
                (ok_or (as_str item) (''filter field `'' @ field @ ''` values must be strings''))
                parse_item) array)"

definition parse_u64_filter_array ::
  "string \<Rightarrow> json \<Rightarrow> (u64 \<Rightarrow> string + 'a) \<Rightarrow> string + 'a list" where
  "parse_u64_filter_array field value parse_item =
     and_then (ok_or (as_array value) (filter_array_error field))
       (\<lambda>array. if array = [] then Err (filter_array_error field)
         else traverse (\<lambda>item. and_then
                (ok_or (as_u64 item)
                  (''filter field `'' @ field @ ''` values must be unsigned integers''))
                parse_item) array)"

definition parse_event_id_filter_array :: "string \<Rightarrow> json \<Rightarrow> string + event_id list" where
  "parse_event_id_filter_array field value =
     parse_string_filter_array field value
       (\<lambda>item. map_err (filter_field_error field) (event_id_new item))"

definition parse_pubkey_filter_array :: "string \<Rightarrow> json \<Rightarrow> string + public_key_hex list" where
  "parse_pubkey_filter_array field value =
     parse_string_filter_array field value
       (\<lambda>item. map_err (filter_field_error field) (public_key_new item))"

definition parse_kind_filter_array :: "string \<Rightarrow> json \<Rightarrow> string + kind list" where
  "parse_kind_filter_array field value =
     parse_u64_filter_array field value
       (\<lambda>item. map_err (filter_field_error field) (kind_new item))"

definition parse_u64_filter_field :: "string \<Rightarrow> json \<Rightarrow> string + u64" where
  "parse_u64_filter_field field value =
     ok_or (as_u64 value) (''filter field `'' @ field @ ''` must be an unsigned integer'')"

definition parse_string_filter_field :: "string \<Rightarrow> json \<Rightarrow> string + string" where
  "parse_string_filter_field field value =
     ok_or (as_str value) (''filter field `'' @ field @ ''` must be a string'')"

definition parse_tag_filter_field :: "string \<Rightarrow> json \<Rightarrow> string + tag_name \<times> tag_value list" where
  "parse_tag_filter_field field value =
     (let name = tl field in
      and_then (map_err (filter_field_error field) (tag_name_new name))
        (\<lambda>tname. if \<not> is_indexable_name tname
          then Err (filter_field_error field ''tag name must be a single ASCII letter'')
          else map_ok (\<lambda>values. (tname, values))
            (parse_string_filter_array field value
              (\<lambda>item. if name = ''e''
                 then map_err (filter_field_error field) (map_ok (\<lambda>_. item) (event_id_new item))
                 else if name = ''p''
                 then map_err (filter_field_error field) (map_ok (\<lambda>_. item) (public_key_new item))
                 else Ok item))))"

text \<open>One turn of the loop of \<open>filter_from_value\<close>.\<close>

definition filter_field_step :: "filter_rec \<Rightarrow> string \<times> json \<Rightarrow> string + filter_rec" where
  "filter_field_step f entry =
     (let field = fst entry; raw = snd entry in
      if field = ''ids'' then map_ok (\<lambda>v. f\<lparr>f_ids := v\<rparr>) (parse_event_id_filter_array field raw)
      else if field = ''authors''
      then map_ok (\<lambda>v. f\<lparr>f_authors := v\<rparr>) (parse_pubkey_filter_array field raw)
      else if field = ''kinds''
      then map_ok (\<lambda>v. f\<lparr>f_kinds := v\<rparr>) (parse_kind_filter_array field raw)
      else if field = ''since''
      then map_ok (\<lambda>v. f\<lparr>f_since := Some v\<rparr>) (parse_u64_filter_field field raw)
      else if field = ''until''
      then map_ok (\<lambda>v. f\<lparr>f_until := Some v\<rparr>) (parse_u64_filter_field field raw)
      else if field = ''limit''
      then map_ok (\<lambda>v. f\<lparr>f_limit := Some v\<rparr>) (parse_u64_filter_field field raw)
      else if field = ''search''
      then map_ok (\<lambda>v. f\<lparr>f_search := Some v\<rparr>) (parse_string_filter_field field raw)
      else if field \<noteq> [] \<and> hd field = CHR ''#''
      then map_ok (\<lambda>(name, values). f\<lparr>f_tag_filters := bt_insert name values (f_tag_filters f)\<rparr>)
        (parse_tag_filter_field field raw)
      else Err (''filter field `'' @ field @ ''` is unsupported''))"

definition filter_from_value :: "json \<Rightarrow> string + filter_rec" where
  "filter_from_value value =
     and_then (ok_or (as_object value) ''filter must be a JSON object'')
       (\<lambda>object. try_fold filter_field_step filter_empty object)"

definition filter_to_value :: "filter_rec \<Rightarrow> json" where
  "filter_to_value f =
     (let object = [];
          object = (if f_ids f \<noteq> [] then bt_insert ''ids'' (jstrings (f_ids f)) object else object);
          object = (if f_authors f \<noteq> []
            then bt_insert ''authors'' (jstrings (f_authors f)) object else object);
          object = (if f_kinds f \<noteq> []
            then bt_insert ''kinds'' (JArray (map (\<lambda>k. jnum (ucast k)) (f_kinds f))) object
            else object);
          object = foldl (\<lambda>m (name, values). bt_insert (CHR ''#'' # name) (jstrings values) m)
            object (f_tag_filters f);
          object = (case f_since f of Some v \<Rightarrow> bt_insert ''since'' (jnum v) object | None \<Rightarrow> object);
          object = (case f_until f of Some v \<Rightarrow> bt_insert ''until'' (jnum v) object | None \<Rightarrow> object);
          object = (case f_limit f of Some v \<Rightarrow> bt_insert ''limit'' (jnum v) object | None \<Rightarrow> object);
          object = (case f_search f of
            Some v \<Rightarrow> bt_insert ''search'' (JString v) object | None \<Rightarrow> object)
      in JObject object)"

text \<open>What \<open>filter_from_value\<close> establishes of the filter it returns.\<close>

definition valid_tag_filter :: "tag_name \<Rightarrow> tag_value list \<Rightarrow> bool" where
  "valid_tag_filter name values \<longleftrightarrow> is_indexable_name name \<and> values \<noteq> []
     \<and> (name = ''e'' \<longrightarrow> list_all valid_event_id values)
     \<and> (name = ''p'' \<longrightarrow> list_all valid_pubkey values)"

definition valid_filter :: "filter_rec \<Rightarrow> bool" where
  "valid_filter f \<longleftrightarrow> list_all valid_event_id (f_ids f) \<and> list_all valid_pubkey (f_authors f)
     \<and> bt_wf (f_tag_filters f)
     \<and> list_all (\<lambda>(name, values). valid_tag_filter name values) (f_tag_filters f)"


subsection \<open>Reading a written filter\<close>

lemma parse_string_filter_array_Ok:
  "(\<And>x. x \<in> set xs \<Longrightarrow> g x = Ok x) \<Longrightarrow> xs \<noteq> [] \<Longrightarrow>
   parse_string_filter_array field (jstrings xs) g = Ok xs"
  by (simp add: parse_string_filter_array_def traverse_map_Ok [where h = "\<lambda>x. x"])

lemma parse_array_fields_Ok:
  "list_all valid_event_id xs \<Longrightarrow> xs \<noteq> [] \<Longrightarrow> parse_event_id_filter_array field (jstrings xs) = Ok xs"
  "list_all valid_pubkey xs \<Longrightarrow> xs \<noteq> [] \<Longrightarrow> parse_pubkey_filter_array field (jstrings xs) = Ok xs"
  "ks \<noteq> [] \<Longrightarrow> parse_kind_filter_array field (JArray (map (\<lambda>k. jnum (ucast k)) ks)) = Ok ks"
  unfolding parse_event_id_filter_array_def parse_pubkey_filter_array_def
    parse_kind_filter_array_def parse_u64_filter_array_def
  by (auto intro!: parse_string_filter_array_Ok simp: list_all_iff
      traverse_map_Ok [where h = "\<lambda>x. x"])

lemma parse_tag_filter_field_Ok:
  assumes "valid_tag_filter name values"
  shows "parse_tag_filter_field (CHR ''#'' # name) (jstrings values) = Ok (name, values)"
proof -
  have "name \<noteq> []" using assms by (auto simp: valid_tag_filter_def is_indexable_name_iff)
  then show ?thesis
    using assms unfolding parse_tag_filter_field_def
    by (auto simp: valid_tag_filter_def tag_name_new_def list_all_iff
        parse_string_filter_array_Ok)
qed

text \<open>The entries a written filter has, and the fold over them.\<close>

definition filter_entry :: "filter_rec \<Rightarrow> string \<Rightarrow> json option" where
  "filter_entry f k =
     (if k = ''ids'' then (if f_ids f = [] then None else Some (jstrings (f_ids f)))
      else if k = ''authors'' then (if f_authors f = [] then None else Some (jstrings (f_authors f)))
      else if k = ''kinds'' then (if f_kinds f = [] then None
        else Some (JArray (map (\<lambda>k. jnum (ucast k)) (f_kinds f))))
      else if k = ''since'' then map_option jnum (f_since f)
      else if k = ''until'' then map_option jnum (f_until f)
      else if k = ''limit'' then map_option jnum (f_limit f)
      else if k = ''search'' then map_option JString (f_search f)
      else (case k of [] \<Rightarrow> None
        | c # n \<Rightarrow> if c = CHR ''#'' then map_option jstrings (bt_get (f_tag_filters f) n) else None))"

lemma bt_get_tag_fold:
  "bt_get (foldl (\<lambda>m (name, values). bt_insert (CHR ''#'' # name) (jstrings values) m) m xs) k =
     (case k of [] \<Rightarrow> bt_get m k
      | c # n \<Rightarrow> (if c = CHR ''#'' then (case map_of (rev xs) n of None \<Rightarrow> bt_get m k
          | Some vs \<Rightarrow> Some (jstrings vs)) else bt_get m k))"
  by (induction xs arbitrary: m)
     (auto simp: bt_get_insert map_add_def split: list.splits option.splits)

lemma bt_wf_tag_fold:
  "bt_wf m \<Longrightarrow> bt_wf (foldl (\<lambda>m (name, values). bt_insert (CHR ''#'' # name) (jstrings values) m) m xs)"
  by (induction xs arbitrary: m) (auto simp: bt_wf_insert)

lemma map_of_rev_btree: "bt_wf m \<Longrightarrow> map_of (rev m) = bt_get m"
  by (subst map_of_inject_set) (auto simp: bt_wf_distinct simp flip: rev_map)

lemma bt_get_put_if:
  "bt_get (if c then bt_insert k v m else m) j = (if c \<and> j = k then Some v else bt_get m j)"
  "bt_get (case x of Some y \<Rightarrow> bt_insert k (g y) m | None \<Rightarrow> m) j =
     (if j = k \<and> x \<noteq> None then map_option g x else bt_get m j)"
  by (auto simp: bt_get_insert split: option.splits)

lemma bt_wf_put_if:
  "bt_wf m \<Longrightarrow> bt_wf (if c then bt_insert k v m else m)"
  "bt_wf m \<Longrightarrow> bt_wf (case x of Some y \<Rightarrow> bt_insert k (g y) m | None \<Rightarrow> m)"
  by (auto simp: bt_wf_insert split: option.splits)

lemma filter_to_value_entries:
  assumes "bt_wf (f_tag_filters f)"
  obtains m where "filter_to_value f = JObject m" and "bt_wf m" and "bt_get m = filter_entry f"
proof -
  obtain m where m: "filter_to_value f = JObject m"
    by (simp add: filter_to_value_def Let_def)
  have wf: "bt_wf m"
    using m unfolding filter_to_value_def Let_def json.inject
    by (elim subst) (intro bt_wf_put_if bt_wf_tag_fold bt_wf_Nil)
  have get: "bt_get m k = bt_get (case filter_to_value f of JObject m \<Rightarrow> m) k" for k
    using m by simp
  have "bt_get m k = filter_entry f k" for k
  proof (cases "k \<in> {''ids'', ''authors'', ''kinds'', ''since'', ''until'', ''limit'', ''search''}")
    case True
    then show ?thesis
      unfolding get filter_to_value_def Let_def json.case bt_get_put_if bt_get_tag_fold
      by (elim insertE) (simp_all add: filter_entry_def del: bt_insert.simps split: option.split)
  next
    case False
    then show ?thesis
      unfolding get filter_to_value_def Let_def json.case bt_get_put_if bt_get_tag_fold
        map_of_rev_btree [OF assms]
      by (simp add: filter_entry_def split: list.split option.split)
  qed
  with m wf show thesis by (intro that) auto
qed

definition copy_field :: "filter_rec \<Rightarrow> filter_rec \<Rightarrow> string \<Rightarrow> filter_rec" where
  "copy_field f g k =
     (if k = ''ids'' then g\<lparr>f_ids := f_ids f\<rparr>
      else if k = ''authors'' then g\<lparr>f_authors := f_authors f\<rparr>
      else if k = ''kinds'' then g\<lparr>f_kinds := f_kinds f\<rparr>
      else if k = ''since'' then g\<lparr>f_since := f_since f\<rparr>
      else if k = ''until'' then g\<lparr>f_until := f_until f\<rparr>
      else if k = ''limit'' then g\<lparr>f_limit := f_limit f\<rparr>
      else if k = ''search'' then g\<lparr>f_search := f_search f\<rparr>
      else g\<lparr>f_tag_filters := bt_insert (tl k) (the (bt_get (f_tag_filters f) (tl k)))
                (f_tag_filters g)\<rparr>)"

lemma valid_filter_tag:
  "valid_filter f \<Longrightarrow> bt_get (f_tag_filters f) n = Some vs \<Longrightarrow> valid_tag_filter n vs"
  by (auto simp: valid_filter_def list_all_iff dest: map_of_SomeD)

lemma filter_field_step_entry:
  assumes "valid_filter f" and "filter_entry f k = Some raw"
  shows "filter_field_step g (k, raw) = Ok (copy_field f g k)"
proof (cases "k \<in> {''ids'', ''authors'', ''kinds'', ''since'', ''until'', ''limit'', ''search''}")
  case True
  then show ?thesis
    using assms
    by (auto simp: filter_entry_def filter_field_step_def copy_field_def parse_array_fields_Ok
        valid_filter_def parse_u64_filter_field_def parse_string_filter_field_def
        split: if_splits)
next
  case False
  then obtain n vs where "k = CHR ''#'' # n" and "raw = jstrings vs"
    and "bt_get (f_tag_filters f) n = Some vs"
    using assms(2) by (auto simp: filter_entry_def split: list.splits if_splits)
  then show ?thesis
    using parse_tag_filter_field_Ok valid_filter_tag [OF assms(1)]
    by (auto simp: filter_field_step_def copy_field_def)
qed

lemma copy_fold_fields:
  assumes "set ks \<subseteq> dom (filter_entry f)"
  shows "f_ids (foldl (copy_field f) g ks) = (if ''ids'' \<in> set ks then f_ids f else f_ids g)"
    "f_authors (foldl (copy_field f) g ks) = (if ''authors'' \<in> set ks then f_authors f else f_authors g)"
    "f_kinds (foldl (copy_field f) g ks) = (if ''kinds'' \<in> set ks then f_kinds f else f_kinds g)"
    "f_since (foldl (copy_field f) g ks) = (if ''since'' \<in> set ks then f_since f else f_since g)"
    "f_until (foldl (copy_field f) g ks) = (if ''until'' \<in> set ks then f_until f else f_until g)"
    "f_limit (foldl (copy_field f) g ks) = (if ''limit'' \<in> set ks then f_limit f else f_limit g)"
    "f_search (foldl (copy_field f) g ks) = (if ''search'' \<in> set ks then f_search f else f_search g)"
  by (induction ks arbitrary: g) (auto simp: copy_field_def)

lemma copy_fold_tags:
  assumes "set ks \<subseteq> dom (filter_entry f)" and "bt_wf (f_tag_filters g)"
  shows "bt_wf (f_tag_filters (foldl (copy_field f) g ks)) \<and>
    bt_get (f_tag_filters (foldl (copy_field f) g ks)) n =
      (if CHR ''#'' # n \<in> set ks then bt_get (f_tag_filters f) n else bt_get (f_tag_filters g) n)"
  using assms
proof (induction ks arbitrary: g)
  case Nil
  then show ?case by simp
next
  case (Cons k ks)
  show ?case
  proof (cases "k \<in> {''ids'', ''authors'', ''kinds'', ''since'', ''until'', ''limit'', ''search''}")
    case True
    then have same: "f_tag_filters (copy_field f g k) = f_tag_filters g"
      and hash: "k \<noteq> CHR ''#'' # n"
      by (auto simp: copy_field_def)
    show ?thesis
      using Cons.IH [of "copy_field f g k"] Cons.prems hash by (simp add: same)
  next
    case False
    then obtain j vs where k: "k = CHR ''#'' # j" and vs: "bt_get (f_tag_filters f) j = Some vs"
      using Cons.prems by (auto simp: filter_entry_def split: list.splits if_splits)
    then have tags: "f_tag_filters (copy_field f g (CHR ''#'' # j)) = bt_insert j vs (f_tag_filters g)"
      by (simp add: copy_field_def)
    show ?thesis
      using Cons.IH [of "copy_field f g k"] Cons.prems vs k by (auto simp: tags bt_wf_insert bt_get_insert)
  qed
qed

lemma try_fold_entries:
  assumes "valid_filter f" and "\<And>k raw. (k, raw) \<in> set xs \<Longrightarrow> filter_entry f k = Some raw"
  shows "try_fold filter_field_step g xs = Ok (foldl (copy_field f) g (map fst xs))"
  using assms(2)
  by (induction xs arbitrary: g) (auto simp: filter_field_step_entry [OF assms(1)])

lemma filter_roundtrip:
  assumes "valid_filter f"
  shows "filter_from_value (filter_to_value f) = Ok f"
proof -
  have wf: "bt_wf (f_tag_filters f)" using assms by (simp add: valid_filter_def)
  obtain m where m: "filter_to_value f = JObject m" "bt_wf m" "bt_get m = filter_entry f"
    using filter_to_value_entries [OF wf] .
  let ?g = "foldl (copy_field f) filter_empty (map fst m)"
  have keys: "k \<in> fst ` set m \<longleftrightarrow> filter_entry f k \<noteq> None" for k
    using m(3) by (metis map_of_eq_None_iff)
  have sub: "set (map fst m) \<subseteq> dom (filter_entry f)" using keys by auto
  have "try_fold filter_field_step filter_empty m = Ok ?g"
    using m btree.entries_get [OF m(2)] by (intro try_fold_entries assms) auto
  moreover have "f_tag_filters ?g = f_tag_filters f"
    using copy_fold_tags [OF sub, of filter_empty] wf
    by (intro bt_wf_extensional) (auto simp: filter_empty_def keys filter_entry_def)
  then have "?g = f"
    by (intro filter_rec.equality)
       (auto simp: copy_fold_fields [OF sub] keys filter_entry_def filter_empty_def)
  ultimately show ?thesis by (simp add: filter_from_value_def m)
qed

text \<open>
  A valid filter (hex ids and authors, single-letter tag names with non-empty values,
  ids and keys under the e and p tags) written by \<open>filter_to_value\<close> is read back by
  \<open>filter_from_value\<close> as the same filter, every absent constraint included.
\<close>

theorem filter_value_roundtrip:
  assumes "valid_filter f"
  shows "filter_from_value (filter_to_value f) = Ok f"
  using assms by (rule filter_roundtrip)

definition sample_filter :: filter_rec where
  "sample_filter = filter_empty\<lparr>f_kinds := [9, 39000],
     f_tag_filters := [(''e'', [replicate 64 CHR ''a'']), (''h'', [''welcome''])],
     f_since := Some 1714124433, f_limit := Some 20\<rparr>"

lemma sample_filter_valid: "valid_filter sample_filter"
  by (simp add: valid_filter_def sample_filter_def filter_empty_def valid_tag_filter_def bt_wf_def
      is_indexable_name_def is_ascii_alphabetic_def byte_def list_less_def lower_hex_replicate)

theorem filter_value_roundtrip_witness:
  "filter_from_value (filter_to_value sample_filter) = Ok sample_filter"
  by (rule filter_value_roundtrip [OF sample_filter_valid])

end
