(* ===== verification/Protocol_Messages.thy ===== *)
theory Protocol_Messages
  imports Protocol_Filters
begin

text \<open>
  The wire messages of \<open>crates/tangle_protocol/src/lib.rs\<close>: \<open>ClientMessage\<close> with
  \<open>parse_client_message\<close> and its per-command parsers, \<open>RelayMessage\<close> with its JSON form. The
  lemmas show that only well-formed messages are ever parsed, and that each well-formed message
  has a JSON array that parses to it.
\<close>

section \<open>Client messages\<close>

datatype client_message =
    ClientEvent event
  | ClientReq subscription_id "filter_rec list"
  | ClientCount subscription_id "filter_rec list"
  | ClientClose subscription_id
  | ClientAuth event
  | ClientNegOpen subscription_id filter_rec string
  | ClientNegMsg subscription_id string
  | ClientNegClose subscription_id

definition parse_event_client_message :: "json list \<Rightarrow> string + client_message" where
  "parse_event_client_message array =
     (if length array \<noteq> 2 then Err ''EVENT client message must contain exactly 2 elements''
      else map_ok ClientEvent (event_from_value (array ! 1)))"

definition parse_auth_client_message :: "json list \<Rightarrow> string + client_message" where
  "parse_auth_client_message array =
     (if length array \<noteq> 2 then Err ''AUTH client message must contain exactly 2 elements''
      else map_ok ClientAuth (event_from_value (array ! 1)))"

definition parse_req_client_message :: "json list \<Rightarrow> string + client_message" where
  "parse_req_client_message array =
     (if length array < 3
      then Err ''REQ client message must contain a subscription id and filters''
      else and_then
        (and_then (ok_or (as_str (array ! 1)) ''REQ subscription id must be a string'')
          subscription_id_new)
        (\<lambda>subscription_id. and_then (traverse filter_from_value (drop 2 array))
          (\<lambda>filters. Ok (ClientReq subscription_id filters))))"

definition parse_count_client_message :: "json list \<Rightarrow> string + client_message" where
  "parse_count_client_message array =
     (if length array < 3
      then Err ''COUNT client message must contain a subscription id and filters''
      else and_then
        (and_then (ok_or (as_str (array ! 1)) ''COUNT subscription id must be a string'')
          subscription_id_new)
        (\<lambda>subscription_id. and_then (traverse filter_from_value (drop 2 array))
          (\<lambda>filters. Ok (ClientCount subscription_id filters))))"

definition parse_close_client_message :: "json list \<Rightarrow> string + client_message" where
  "parse_close_client_message array =
     (if length array \<noteq> 2 then Err ''CLOSE client message must contain exactly 2 elements''
      else map_ok ClientClose
        (and_then (ok_or (as_str (array ! 1)) ''CLOSE subscription id must be a string'')
          subscription_id_new))"

definition parse_client_message ::
  "(string \<Rightarrow> string + raw_json) \<Rightarrow> string \<Rightarrow> string + client_message" where
  "parse_client_message serde_read raw =
     and_then (map_err (\<lambda>source. ''client message JSON is invalid: '' @ source)
         (json_value_without_duplicate_fields serde_read raw))
       (\<lambda>value.
     and_then (ok_or (as_array value) ''client message must be an array'')
       (\<lambda>array.
     and_then (ok_or (case array of [] \<Rightarrow> None | v # _ \<Rightarrow> Some v)
         ''client message command is missing'')
       (\<lambda>command_value.
     and_then (ok_or (as_str command_value) ''client message command must be a string'')
       (\<lambda>command.
     if command = ''EVENT'' then parse_event_client_message array
     else if command = ''REQ'' then parse_req_client_message array
     else if command = ''COUNT'' then parse_count_client_message array
     else if command = ''CLOSE'' then parse_close_client_message array
     else if command = ''AUTH'' then parse_auth_client_message array
     else Err (''client message command `'' @ command @ ''` is unsupported'')))))"

subsection \<open>Only well-formed messages are parsed\<close>

fun valid_client_message :: "client_message \<Rightarrow> bool" where
  "valid_client_message (ClientEvent e) = valid_event e"
| "valid_client_message (ClientAuth e) = valid_event e"
| "valid_client_message (ClientReq s fs) =
     (valid_subscription_id s \<and> fs \<noteq> [] \<and> list_all valid_filter fs)"
| "valid_client_message (ClientCount s fs) =
     (valid_subscription_id s \<and> fs \<noteq> [] \<and> list_all valid_filter fs)"
| "valid_client_message (ClientClose s) = valid_subscription_id s"
| "valid_client_message (ClientNegOpen s f m) = False"
| "valid_client_message (ClientNegMsg s m) = False"
| "valid_client_message (ClientNegClose s) = False"

lemma parse_string_filter_array_set:
  "parse_string_filter_array field v g = Ok ys \<Longrightarrow> ys \<noteq> [] \<and> (\<forall>y\<in>set ys. \<exists>x. g x = Ok y)"
proof -
  assume "parse_string_filter_array field v g = Ok ys"
  then obtain vs m where "vs \<noteq> []"
    and ys: "traverse (\<lambda>item. and_then (ok_or (as_str item) m) g) vs = Ok ys"
    by (auto simp: parse_string_filter_array_def and_then_Ok_iff split: if_splits)
  then show ?thesis
    using traverse_length [OF ys] traverse_Ok_set [OF ys] by (auto simp: and_then_Ok_iff)
qed

lemma filter_field_step_elim:
  assumes "filter_field_step f (k, v) = Ok g"
  obtains (ids) xs where "g = f\<lparr>f_ids := xs\<rparr>" "parse_event_id_filter_array k v = Ok xs"
    | (authors) xs where "g = f\<lparr>f_authors := xs\<rparr>" "parse_pubkey_filter_array k v = Ok xs"
    | (tags) n vs where "g = f\<lparr>f_tag_filters := bt_insert n vs (f_tag_filters f)\<rparr>" "parse_tag_filter_field k v = Ok (n, vs)"
    | (others) "f_ids g = f_ids f" "f_authors g = f_authors f" "f_tag_filters g = f_tag_filters f"
proof (cases "k \<in> {''ids'', ''authors''} \<or> k \<notin> {''kinds'', ''since'', ''until'', ''limit'', ''search''}")
  case False
  then have "k = ''kinds'' \<or> k = ''since'' \<or> k = ''until'' \<or> k = ''limit'' \<or> k = ''search''"
    unfolding insert_iff empty_iff by argo
  then consider "k = ''kinds''" | "k = ''since''" | "k = ''until''" | "k = ''limit''" | "k = ''search''"
    by argo
  then have "f_ids g = f_ids f \<and> f_authors g = f_authors f \<and> f_tag_filters g = f_tag_filters f"
    using assms by cases (auto simp: filter_field_step_def map_ok_Ok_iff)
  then show ?thesis using others by blast
next
  case True
  then consider "k = ''ids''" | "k = ''authors''"
    | "k \<notin> {''ids'', ''authors'', ''kinds'', ''since'', ''until'', ''limit'', ''search''}"
    unfolding insert_iff empty_iff by argo
  then show ?thesis
  proof cases
    case 3
    then have "\<exists>r. parse_tag_filter_field k v = Ok r \<and> g = (case r of (n, vs) \<Rightarrow>
        f\<lparr>f_tag_filters := bt_insert n vs (f_tag_filters f)\<rparr>)"
      using assms by (simp add: filter_field_step_def map_ok_Ok_iff split: if_splits)
    then show ?thesis using tags by (auto split: prod.splits)
  qed (use assms ids authors in \<open>auto simp: filter_field_step_def map_ok_Ok_iff\<close>)
qed

lemma filter_field_step_valid:
  assumes "filter_field_step f e = Ok g" and "valid_filter f"
  shows "valid_filter g"
proof -
  have tag: "valid_tag_filter n vs" if "parse_tag_filter_field k v = Ok (n, vs)" for k v n vs
    using that parse_string_filter_array_set
    by (fastforce simp: parse_tag_filter_field_def result_iffs Let_def valid_tag_filter_def
        tag_name_new_def list_all_iff split: if_splits)
  have ids: "list_all valid_event_id xs" if "parse_event_id_filter_array k v = Ok xs" for k v xs
    using parse_string_filter_array_set [OF that [unfolded parse_event_id_filter_array_def]]
    by (auto simp: list_all_iff)
  have keys: "list_all valid_pubkey xs" if "parse_pubkey_filter_array k v = Ok xs" for k v xs
    using parse_string_filter_array_set [OF that [unfolded parse_pubkey_filter_array_def]]
    by (auto simp: list_all_iff)
  obtain k v where "filter_field_step f (k, v) = Ok g" using assms(1) by (cases e) simp
  then show ?thesis
  proof (cases rule: filter_field_step_elim)
    case (tags n vs)
    with assms(2) tag show ?thesis
      by (auto simp: valid_filter_def bt_wf_insert list_all_iff dest!: bt_insert_set)
  qed (use assms(2) ids keys in \<open>auto simp: valid_filter_def\<close>)
qed

lemma filter_from_value_valid:
  assumes "filter_from_value v = Ok f"
  shows "valid_filter f"
proof -
  obtain m where "try_fold filter_field_step filter_empty m = Ok f"
    using assms by (auto simp: filter_from_value_def result_iffs)
  then show ?thesis
  proof (rule try_fold_invariant [where P = valid_filter])
    show "valid_filter filter_empty" by (simp add: filter_empty_def valid_filter_def)
  qed (rule filter_field_step_valid)
qed

text \<open>
  Whatever text it is given, and whatever the JSON reader makes of it, the client
  message parser only returns EVENT, AUTH, REQ, COUNT or CLOSE messages that are well formed:
  events with hex id, key and signature and non-empty tags, subscription ids of 1 to 64
  characters, and at least one filter, every filter valid. It never returns a negentropy message.
\<close>

theorem parse_client_message_sound:
  assumes "parse_client_message serde_read raw = Ok msg"
  shows "valid_client_message msg"
proof -
  have event: "valid_event e" if "event_from_value v = Ok e" for v e
    using event_from_value_valid [OF that] .
  have filters: "list_all valid_filter fs" if "traverse filter_from_value vs = Ok fs" for vs fs
    using that by (auto simp: list_all_iff dest!: traverse_Ok_set intro: filter_from_value_valid)
  have some_filters: "fs \<noteq> []"
    if "traverse filter_from_value (drop 2 vs) = Ok fs" and "\<not> length vs < 3" for vs fs
    using traverse_length [OF that(1)] that(2) by auto
  show ?thesis
    using assms filters some_filters
    by (auto simp: parse_client_message_def result_iffs event
        parse_event_client_message_def parse_auth_client_message_def parse_req_client_message_def
        parse_count_client_message_def parse_close_client_message_def split: if_splits)
qed

subsection \<open>Every well-formed message has a JSON form\<close>

fun client_message_to_array :: "client_message \<Rightarrow> json list" where
  "client_message_to_array (ClientEvent e) = [JString ''EVENT'', event_to_value e]"
| "client_message_to_array (ClientAuth e) = [JString ''AUTH'', event_to_value e]"
| "client_message_to_array (ClientReq s fs) = JString ''REQ'' # JString s # map filter_to_value fs"
| "client_message_to_array (ClientCount s fs) = JString ''COUNT'' # JString s # map filter_to_value fs"
| "client_message_to_array (ClientClose s) = [JString ''CLOSE'', JString s]"
| "client_message_to_array (ClientNegOpen s f m) = [JString ''NEG-OPEN'', JString s, filter_to_value f, JString m]"
| "client_message_to_array (ClientNegMsg s m) = [JString ''NEG-MSG'', JString s, JString m]"
| "client_message_to_array (ClientNegClose s) = [JString ''NEG-CLOSE'', JString s]"

text \<open>
  The parser is complete for the five commands: when the JSON reader, with the
  duplicate check, delivers the array that spells a well-formed message, that message is parsed.
\<close>

theorem parse_client_message_complete:
  assumes "valid_client_message msg"
    and "json_value_without_duplicate_fields serde_read raw = Ok (JArray (client_message_to_array msg))"
  shows "parse_client_message serde_read raw = Ok msg"
proof -
  have filters: "traverse filter_from_value (map filter_to_value fs) = Ok fs"
    if "list_all valid_filter fs" for fs
    using traverse_map_Ok [of fs filter_from_value filter_to_value "\<lambda>f. f"] that
    by (auto simp: list_all_iff filter_roundtrip)
  show ?thesis
    using assms filters
    by (cases msg)
       (auto simp: parse_client_message_def parse_event_client_message_def
          parse_auth_client_message_def parse_req_client_message_def parse_count_client_message_def
          parse_close_client_message_def event_roundtrip neq_Nil_conv)
qed

definition sample_read :: "string \<Rightarrow> string + raw_json" where
  "sample_read raw =
     (if raw = ''text'' then Ok (RawSeq [RawStr ''REQ'', RawStr ''feed'',
        RawMap [(''search'', RawStr ''x''), (''limit'', RawU64 20)]])
      else Err ''expected value'')"

definition sample_req :: client_message where
  "sample_req = ClientReq ''feed'' [filter_empty\<lparr>f_limit := Some 20, f_search := Some ''x''\<rparr>]"

lemma sample_req_valid: "valid_client_message sample_req"
  by (simp add: sample_req_def valid_subscription_id_def valid_filter_def filter_empty_def
      char_count_ascii is_ascii_def byte_def)

lemma sample_read_value:
  "json_value_without_duplicate_fields sample_read ''text''
     = Ok (JArray (client_message_to_array sample_req))"
  by (simp add: json_value_without_duplicate_fields_def sample_read_def sample_req_def
      filter_to_value_def filter_empty_def Let_def list_less_def)

theorem parse_client_message_complete_witness:
  "parse_client_message sample_read ''text'' = Ok sample_req"
  by (rule parse_client_message_complete [OF sample_req_valid sample_read_value])

lemma sample_read_parsed: "parse_client_message sample_read ''text'' = Ok sample_req"
  unfolding parse_client_message_def sample_read_value
  using sample_req_valid by (simp add: sample_req_def parse_req_client_message_def filter_roundtrip)

theorem parse_client_message_sound_witness: "valid_client_message sample_req"
  by (rule parse_client_message_sound [OF sample_read_parsed])

section \<open>Relay messages\<close>

datatype relay_message =
    RelayEvent subscription_id event
  | RelayOk event_id bool string
  | RelayEose subscription_id
  | RelayClosed subscription_id string
  | RelayCount subscription_id u64 "string option"
  | RelayNotice string
  | RelayAuth string
  | RelayNegErr subscription_id string
  | RelayNegMsg subscription_id string

fun relay_message_to_value :: "relay_message \<Rightarrow> json" where
  "relay_message_to_value (RelayEvent s e) = JArray [JString ''EVENT'', JString s, event_to_value e]"
| "relay_message_to_value (RelayOk eid accepted message) =
     JArray [JString ''OK'', JString eid, JBool accepted, JString message]"
| "relay_message_to_value (RelayEose s) = JArray [JString ''EOSE'', JString s]"
| "relay_message_to_value (RelayClosed s message) =
     JArray [JString ''CLOSED'', JString s, JString message]"
| "relay_message_to_value (RelayCount s n hll) =
     (let payload = bt_insert ''count'' (jnum n) [];
          payload = (case hll of Some h \<Rightarrow> bt_insert ''hll'' (JString h) payload | None \<Rightarrow> payload)
      in JArray [JString ''COUNT'', JString s, JObject payload])"
| "relay_message_to_value (RelayNotice message) = JArray [JString ''NOTICE'', JString message]"
| "relay_message_to_value (RelayAuth challenge) = JArray [JString ''AUTH'', JString challenge]"
| "relay_message_to_value (RelayNegErr s message) =
     JArray [JString ''NEG-ERR'', JString s, JString message]"
| "relay_message_to_value (RelayNegMsg s message) =
     JArray [JString ''NEG-MSG'', JString s, JString message]"

definition encode_relay_message :: "(json \<Rightarrow> string) \<Rightarrow> relay_message \<Rightarrow> string" where
  "encode_relay_message serde_print message = serde_print (relay_message_to_value message)"

end
