(* ===== verification/Group_Base.thy ===== *)
theory Group_Base
  imports Protocol_Scalars
begin

text \<open>
  The base of \<open>crates/tangle_groups\<close>: its error type (\<open>errors.rs\<close>), the NIP-29 kinds (\<open>kinds.rs\<close>),
  group ids (\<open>ids.rs\<close>) and the runtime configuration with its validation (\<open>lib.rs\<close>).
\<close>

section \<open>Errors\<close>

datatype group_reply_prefix =
    Duplicate | Blocked | RateLimited | Invalid | Restricted | AuthRequired | ErrorPrefix

fun reply_prefix_str :: "group_reply_prefix \<Rightarrow> string" where
  "reply_prefix_str Duplicate = ''duplicate''"
| "reply_prefix_str Blocked = ''blocked''"
| "reply_prefix_str RateLimited = ''rate-limited''"
| "reply_prefix_str Invalid = ''invalid''"
| "reply_prefix_str Restricted = ''restricted''"
| "reply_prefix_str AuthRequired = ''auth-required''"
| "reply_prefix_str ErrorPrefix = ''error''"

datatype group_error_kind =
    InvalidGroupId
  | MalformedGroupTag
  | MissingGroupTag
  | ConflictingGroupTag
  | TooManyGroupTags
  | UnsupportedGroupKind
  | DirectRelayGeneratedSubmission
  | MissingTargetTag
  | MalformedTargetTag
  | MetadataTooLarge
  | TooManySupportedKinds
  | InvalidRole
  | MissingCapability
  | AuthenticationRequired
  | GroupUnavailable
  | GroupDeleted
  | GroupAlreadyExists
  | DuplicateMember
  | Internal

record group_error =
  ge_kind :: group_error_kind
  ge_prefix :: group_reply_prefix
  ge_message :: string

definition group_error_new :: "group_error_kind \<Rightarrow> group_reply_prefix \<Rightarrow> string \<Rightarrow> group_error" where
  "group_error_new k p m = \<lparr>ge_kind = k, ge_prefix = p, ge_message = m\<rparr>"

definition error_invalid :: "group_error_kind \<Rightarrow> string \<Rightarrow> group_error" where
  "error_invalid k m = group_error_new k Invalid m"

definition error_duplicate :: "group_error_kind \<Rightarrow> string \<Rightarrow> group_error" where
  "error_duplicate k m = group_error_new k Duplicate m"

definition error_blocked :: "group_error_kind \<Rightarrow> string \<Rightarrow> group_error" where
  "error_blocked k m = group_error_new k Blocked m"

definition error_restricted :: "group_error_kind \<Rightarrow> string \<Rightarrow> group_error" where
  "error_restricted k m = group_error_new k Restricted m"

definition error_auth_required :: "string \<Rightarrow> group_error" where
  "error_auth_required m = group_error_new AuthenticationRequired AuthRequired m"

definition error_internal :: "string \<Rightarrow> group_error" where
  "error_internal m = group_error_new Internal ErrorPrefix m"

definition prefixed_message :: "group_error \<Rightarrow> string" where
  "prefixed_message e = reply_prefix_str (ge_prefix e) @ '': '' @ ge_message e"

lemmas error_defs = error_invalid_def error_duplicate_def error_blocked_def error_restricted_def
  error_auth_required_def error_internal_def group_error_new_def

section \<open>Kinds\<close>

abbreviation KIND_GROUP_PUT_USER :: u32 where "KIND_GROUP_PUT_USER \<equiv> 9000"
abbreviation KIND_GROUP_REMOVE_USER :: u32 where "KIND_GROUP_REMOVE_USER \<equiv> 9001"
abbreviation KIND_GROUP_EDIT_METADATA :: u32 where "KIND_GROUP_EDIT_METADATA \<equiv> 9002"
abbreviation KIND_GROUP_DELETE_EVENT :: u32 where "KIND_GROUP_DELETE_EVENT \<equiv> 9005"
abbreviation KIND_GROUP_CREATE_GROUP :: u32 where "KIND_GROUP_CREATE_GROUP \<equiv> 9007"
abbreviation KIND_GROUP_DELETE_GROUP :: u32 where "KIND_GROUP_DELETE_GROUP \<equiv> 9008"
abbreviation KIND_GROUP_CREATE_INVITE :: u32 where "KIND_GROUP_CREATE_INVITE \<equiv> 9009"
abbreviation KIND_GROUP_JOIN_REQUEST :: u32 where "KIND_GROUP_JOIN_REQUEST \<equiv> 9021"
abbreviation KIND_GROUP_LEAVE_REQUEST :: u32 where "KIND_GROUP_LEAVE_REQUEST \<equiv> 9022"
abbreviation KIND_GROUP_METADATA :: u32 where "KIND_GROUP_METADATA \<equiv> 39000"
abbreviation KIND_GROUP_ADMINS :: u32 where "KIND_GROUP_ADMINS \<equiv> 39001"
abbreviation KIND_GROUP_MEMBERS :: u32 where "KIND_GROUP_MEMBERS \<equiv> 39002"
abbreviation KIND_GROUP_ROLES :: u32 where "KIND_GROUP_ROLES \<equiv> 39003"
abbreviation KIND_GROUP_STATE_39004 :: u32 where "KIND_GROUP_STATE_39004 \<equiv> 39004"

definition NIP29_MODERATION_KIND_VALUES :: "u32 list" where
  "NIP29_MODERATION_KIND_VALUES =
     [KIND_GROUP_PUT_USER, KIND_GROUP_REMOVE_USER, KIND_GROUP_EDIT_METADATA,
      KIND_GROUP_DELETE_EVENT, KIND_GROUP_CREATE_GROUP, KIND_GROUP_DELETE_GROUP,
      KIND_GROUP_CREATE_INVITE]"

definition NIP29_USER_REQUEST_KIND_VALUES :: "u32 list" where
  "NIP29_USER_REQUEST_KIND_VALUES = [KIND_GROUP_JOIN_REQUEST, KIND_GROUP_LEAVE_REQUEST]"

definition NIP29_RELAY_GENERATED_KIND_VALUES :: "u32 list" where
  "NIP29_RELAY_GENERATED_KIND_VALUES =
     [KIND_GROUP_METADATA, KIND_GROUP_ADMINS, KIND_GROUP_MEMBERS, KIND_GROUP_ROLES,
      KIND_GROUP_STATE_39004]"

definition NIP29_GROUP_KIND_VALUES :: "u32 list" where
  "NIP29_GROUP_KIND_VALUES =
     [KIND_GROUP_PUT_USER, KIND_GROUP_REMOVE_USER, KIND_GROUP_EDIT_METADATA,
      KIND_GROUP_DELETE_EVENT, KIND_GROUP_CREATE_GROUP, KIND_GROUP_DELETE_GROUP,
      KIND_GROUP_CREATE_INVITE, KIND_GROUP_JOIN_REQUEST, KIND_GROUP_LEAVE_REQUEST,
      KIND_GROUP_METADATA, KIND_GROUP_ADMINS, KIND_GROUP_MEMBERS, KIND_GROUP_ROLES,
      KIND_GROUP_STATE_39004]"

definition is_moderation_kind :: "kind \<Rightarrow> bool" where
  "is_moderation_kind k \<longleftrightarrow> k \<in> set NIP29_MODERATION_KIND_VALUES"

definition is_user_request_kind :: "kind \<Rightarrow> bool" where
  "is_user_request_kind k \<longleftrightarrow> k \<in> set NIP29_USER_REQUEST_KIND_VALUES"

definition is_relay_generated_kind :: "kind \<Rightarrow> bool" where
  "is_relay_generated_kind k \<longleftrightarrow> k \<in> set NIP29_RELAY_GENERATED_KIND_VALUES"

definition is_group_specific_kind :: "kind \<Rightarrow> bool" where
  "is_group_specific_kind k \<longleftrightarrow> k \<in> set NIP29_GROUP_KIND_VALUES"

lemma kind_set_iffs:
  "is_moderation_kind k \<longleftrightarrow> k \<in> {9000, 9001, 9002, 9005, 9007, 9008, 9009}"
  "is_user_request_kind k \<longleftrightarrow> k \<in> {9021, 9022}"
  "is_relay_generated_kind k \<longleftrightarrow> k \<in> {39000, 39001, 39002, 39003, 39004}"
  by (simp_all add: is_moderation_kind_def is_user_request_kind_def is_relay_generated_kind_def
      NIP29_MODERATION_KIND_VALUES_def NIP29_USER_REQUEST_KIND_VALUES_def
      NIP29_RELAY_GENERATED_KIND_VALUES_def)

lemma kind_sets_disjoint:
  "is_moderation_kind k \<Longrightarrow> \<not> is_user_request_kind k \<and> \<not> is_relay_generated_kind k"
  "is_user_request_kind k \<Longrightarrow> \<not> is_moderation_kind k \<and> \<not> is_relay_generated_kind k"
  "is_relay_generated_kind k \<Longrightarrow> \<not> is_moderation_kind k \<and> \<not> is_user_request_kind k"
  by (auto simp: kind_set_iffs)

lemma group_specific_kind_cases:
  "is_group_specific_kind k \<longleftrightarrow>
     is_moderation_kind k \<or> is_user_request_kind k \<or> is_relay_generated_kind k"
  by (auto simp: is_group_specific_kind_def NIP29_GROUP_KIND_VALUES_def
      kind_set_iffs)

section \<open>Group ids\<close>

type_synonym group_id = string

abbreviation MIN_GROUP_ID_BYTES :: nat where "MIN_GROUP_ID_BYTES \<equiv> 1"
abbreviation MAX_GROUP_ID_BYTES :: nat where "MAX_GROUP_ID_BYTES \<equiv> 128"

definition invalid_group_id :: "string \<Rightarrow> group_error" where
  "invalid_group_id message = error_invalid InvalidGroupId message"

definition is_group_id_separator :: "nat \<Rightarrow> bool" where
  "is_group_id_separator character \<longleftrightarrow>
     character \<in> set (List.map byte [CHR ''/'', CHR 0x5C, CHR ''?'', CHR ''#'', CHR '':'', CHR ''&'', CHR ''=''])"

definition validate_group_id_char :: "unit \<Rightarrow> nat \<Rightarrow> group_error + unit" where
  "validate_group_id_char _ character =
     (if character = 0 then Err (invalid_group_id ''group id must not contain NUL'')
      else if is_control character
      then Err (invalid_group_id ''group id must not contain control characters'')
      else if is_group_id_separator character
      then Err (invalid_group_id ''group id must not contain slashes or URL separators'')
      else Ok ())"

definition validate_group_id :: "string \<Rightarrow> nat \<Rightarrow> group_error + unit" where
  "validate_group_id value max_bytes =
     (let byte_len = length value in
      if byte_len < MIN_GROUP_ID_BYTES then Err (invalid_group_id ''group id must not be empty'')
      else if byte_len > max_bytes
      then Err (invalid_group_id (''group id must be at most '' @ dec max_bytes @ '' bytes''))
      else if trim_changes value
      then Err (invalid_group_id ''group id must not contain leading or trailing whitespace'')
      else try_fold validate_group_id_char () (utf8_chars value))"

definition group_id_new_with_max_bytes :: "string \<Rightarrow> nat \<Rightarrow> group_error + group_id" where
  "group_id_new_with_max_bytes value max_bytes =
     and_then (validate_group_id value max_bytes) (\<lambda>_. Ok value)"

definition group_id_new :: "string \<Rightarrow> group_error + group_id" where
  "group_id_new value = group_id_new_with_max_bytes value MAX_GROUP_ID_BYTES"

definition group_id_ok :: "nat \<Rightarrow> group_id \<Rightarrow> bool" where
  "group_id_ok max_bytes g \<longleftrightarrow> g \<noteq> [] \<and> length g \<le> max_bytes
     \<and> \<not> list_ex is_control (utf8_chars g) \<and> \<not> list_ex is_group_id_separator (utf8_chars g)
     \<and> \<not> trim_changes g"

abbreviation valid_group_id :: "group_id \<Rightarrow> bool" where
  "valid_group_id \<equiv> group_id_ok MAX_GROUP_ID_BYTES"

lemma validate_chars_Ok:
  "try_fold validate_group_id_char u cs = Ok v \<longleftrightarrow>
     \<not> list_ex is_control cs \<and> \<not> list_ex is_group_id_separator cs"
proof (induction cs arbitrary: u)
  case Nil
  then show ?case by simp
next
  case (Cons c cs)
  have "validate_group_id_char u c = Ok w \<longleftrightarrow> \<not> is_control c \<and> \<not> is_group_id_separator c" for w
    by (auto simp: validate_group_id_char_def is_control_def)
  with Cons.IH show ?case by (auto simp: and_then_Ok_iff)
qed

lemma group_id_new_with_max_bytes_Ok:
  "group_id_new_with_max_bytes v n = Ok g \<longleftrightarrow> g = v \<and> group_id_ok n v"
  by (auto simp: group_id_new_with_max_bytes_def validate_group_id_def Let_def and_then_Ok_iff
      validate_chars_Ok group_id_ok_def Suc_le_eq split: if_splits)

lemma group_id_new_Ok [simp]: "group_id_new v = Ok g \<longleftrightarrow> g = v \<and> valid_group_id v"
  by (simp add: group_id_new_def group_id_new_with_max_bytes_Ok)

lemma group_id_new_valid [simp]: "valid_group_id v \<Longrightarrow> group_id_new v = Ok v"
  by simp

lemma valid_group_id_no_control:
  "valid_group_id g \<Longrightarrow> is_ascii g \<Longrightarrow> is_control (byte c) \<Longrightarrow> c \<notin> set g"
  by (auto simp: group_id_ok_def utf8_chars_ascii list_ex_iff)

section \<open>Configuration\<close>

type_synonym group_config_error = string
type_synonym relay_secret = string
type_synonym canonical_relay_url = string

definition config_require_lowercase_hex :: "string \<Rightarrow> string \<Rightarrow> nat \<Rightarrow> group_config_error + unit" where
  "config_require_lowercase_hex field value n =
     (if length value \<noteq> n
      then Err (field @ '' must be '' @ dec n @ '' lowercase hex characters'')
      else if \<not> list_all (\<lambda>b. is_ascii_digit b \<or> (97 \<le> byte b \<and> byte b \<le> 102)) value
      then Err (field @ '' must be lowercase hex'')
      else Ok ())"

definition relay_secret_from_hex :: "string \<Rightarrow> group_config_error + relay_secret" where
  "relay_secret_from_hex value =
     and_then (config_require_lowercase_hex ''groups.relay_secret'' value 64) (\<lambda>_. Ok value)"

definition starts_with :: "string \<Rightarrow> string \<Rightarrow> bool" where
  "starts_with s p \<longleftrightarrow> take (length p) s = p"

definition canonical_relay_url_new :: "string \<Rightarrow> group_config_error + canonical_relay_url" where
  "canonical_relay_url_new value =
     (if value = [] then Err ''groups.canonical_relay_url is required''
      else if trim_changes value
      then Err ''groups.canonical_relay_url must not contain leading or trailing whitespace''
      else if \<not> (starts_with value ''ws://'' \<or> starts_with value ''wss://'')
      then Err ''groups.canonical_relay_url must start with ws:// or wss://''
      else Ok value)"

record group_policy_config =
  gp_public_join :: bool
  gp_invites_enabled :: bool

definition group_policy_strict :: group_policy_config where
  "group_policy_strict = \<lparr>gp_public_join = False, gp_invites_enabled = False\<rparr>"

definition group_policy_validate :: "group_policy_config \<Rightarrow> group_config_error + unit" where
  "group_policy_validate c =
     (if gp_invites_enabled c
      then Err ''groups.policy.invites_enabled is not supported until invite flow is implemented''
      else Ok ())"

definition group_policy_new :: "bool \<Rightarrow> bool \<Rightarrow> group_config_error + group_policy_config" where
  "group_policy_new public_join invites =
     (let value = \<lparr>gp_public_join = public_join, gp_invites_enabled = invites\<rparr>
      in and_then (group_policy_validate value) (\<lambda>_. Ok value))"

record group_limits_config =
  gl_max_group_id_bytes :: u16
  gl_max_group_tags_per_event :: u16
  gl_max_supported_kinds :: u16
  gl_max_member_list_pubkeys :: u32
  gl_max_outbox_replay_batch :: u32

definition require_positive :: "string \<Rightarrow> 'w::len word \<Rightarrow> group_config_error + unit" where
  "require_positive field value =
     (if value = 0 then Err (field @ '' must be greater than zero'') else Ok ())"

definition group_limits_validate :: "group_limits_config \<Rightarrow> group_config_error + unit" where
  "group_limits_validate c =
     and_then (require_positive ''groups.limits.max_group_id_bytes'' (gl_max_group_id_bytes c)) (\<lambda>_.
     and_then (require_positive ''groups.limits.max_group_tags_per_event''
       (gl_max_group_tags_per_event c)) (\<lambda>_.
     and_then (require_positive ''groups.limits.max_supported_kinds'' (gl_max_supported_kinds c)) (\<lambda>_.
     and_then (require_positive ''groups.limits.max_member_list_pubkeys''
       (gl_max_member_list_pubkeys c)) (\<lambda>_.
     and_then (require_positive ''groups.limits.max_outbox_replay_batch''
       (gl_max_outbox_replay_batch c)) (\<lambda>_. Ok ())))))"

definition group_limits_new :: "u16 \<Rightarrow> u16 \<Rightarrow> u16 \<Rightarrow> u32 \<Rightarrow> u32 \<Rightarrow> group_config_error + group_limits_config" where
  "group_limits_new id_bytes tags kinds members batch =
     (let value = \<lparr>gl_max_group_id_bytes = id_bytes, gl_max_group_tags_per_event = tags,
        gl_max_supported_kinds = kinds, gl_max_member_list_pubkeys = members,
        gl_max_outbox_replay_batch = batch\<rparr>
      in and_then (group_limits_validate value) (\<lambda>_. Ok value))"

definition group_limits_default :: group_limits_config where
  "group_limits_default = \<lparr>gl_max_group_id_bytes = 128, gl_max_group_tags_per_event = 8,
     gl_max_supported_kinds = 512, gl_max_member_list_pubkeys = 100000,
     gl_max_outbox_replay_batch = 1000\<rparr>"

record group_settings =
  gs_policy :: group_policy_config
  gs_limits :: group_limits_config

definition group_settings_strict :: group_settings where
  "group_settings_strict = \<lparr>gs_policy = group_policy_strict, gs_limits = group_limits_default\<rparr>"

definition group_settings_validate :: "group_settings \<Rightarrow> group_config_error + unit" where
  "group_settings_validate s =
     and_then (group_policy_validate (gs_policy s)) (\<lambda>_. group_limits_validate (gs_limits s))"

definition group_settings_new ::
  "group_policy_config \<Rightarrow> group_limits_config \<Rightarrow> group_config_error + group_settings" where
  "group_settings_new policy limits =
     (let value = \<lparr>gs_policy = policy, gs_limits = limits\<rparr>
      in and_then (group_settings_validate value) (\<lambda>_. Ok value))"

record group_runtime_config =
  gr_enabled :: bool
  gr_canonical_relay_url :: "canonical_relay_url option"
  gr_relay_secret :: "relay_secret option"
  gr_owner_pubkeys :: "public_key_hex list"
  gr_admin_pubkeys :: "public_key_hex list"
  gr_settings :: group_settings

definition group_runtime_config_disabled :: group_runtime_config where
  "group_runtime_config_disabled = \<lparr>gr_enabled = False, gr_canonical_relay_url = None,
     gr_relay_secret = None, gr_owner_pubkeys = [], gr_admin_pubkeys = [],
     gr_settings = group_settings_strict\<rparr>"

definition group_runtime_config_new ::
  "bool \<Rightarrow> canonical_relay_url option \<Rightarrow> relay_secret option \<Rightarrow> public_key_hex list \<Rightarrow>
   public_key_hex list \<Rightarrow> group_settings \<Rightarrow> group_config_error + group_runtime_config" where
  "group_runtime_config_new enabled url secret owners admins settings =
     and_then (group_settings_validate settings) (\<lambda>_.
       if enabled \<and> url = None
       then Err ''groups.canonical_relay_url is required when groups are enabled''
       else if enabled \<and> secret = None
       then Err ''groups.relay_secret is required when groups are enabled''
       else Ok \<lparr>gr_enabled = enabled, gr_canonical_relay_url = url, gr_relay_secret = secret,
          gr_owner_pubkeys = owners, gr_admin_pubkeys = admins, gr_settings = settings\<rparr>)"

definition gr_policy :: "group_runtime_config \<Rightarrow> group_policy_config" where
  "gr_policy c = gs_policy (gr_settings c)"

definition gr_limits :: "group_runtime_config \<Rightarrow> group_limits_config" where
  "gr_limits c = gs_limits (gr_settings c)"

text \<open>What \<open>serde_json\<close> delivers of the configuration document, its field defaults applied.\<close>

record group_config_document =
  gd_enabled :: bool
  gd_canonical_relay_url :: "string option"
  gd_relay_secret :: "string option"
  gd_owner_pubkeys :: "string list"
  gd_admin_pubkeys :: "string list"
  gd_policy :: group_policy_config
  gd_limits :: group_limits_config

definition parse_pubkeys :: "string \<Rightarrow> string list \<Rightarrow> group_config_error + public_key_hex list" where
  "parse_pubkeys field values =
     traverse (\<lambda>value. map_err (\<lambda>error. field @ '' contains invalid pubkey: '' @ error)
       (public_key_new value)) values"

definition parse_group_runtime_config_json ::
  "(string \<Rightarrow> string + group_config_document) \<Rightarrow> string \<Rightarrow>
   group_config_error + group_runtime_config" where
  "parse_group_runtime_config_json serde_read raw =
     and_then (map_err (\<lambda>error. ''groups config JSON is invalid: '' @ error) (serde_read raw))
       (\<lambda>document.
     and_then (transpose (map_option canonical_relay_url_new (gd_canonical_relay_url document)))
       (\<lambda>url.
     and_then (transpose (map_option relay_secret_from_hex (gd_relay_secret document)))
       (\<lambda>secret.
     and_then (parse_pubkeys ''groups.owner_pubkeys'' (gd_owner_pubkeys document)) (\<lambda>owners.
     and_then (parse_pubkeys ''groups.admin_pubkeys'' (gd_admin_pubkeys document)) (\<lambda>admins.
     and_then (group_settings_new (gd_policy document) (gd_limits document)) (\<lambda>settings.
     group_runtime_config_new (gd_enabled document) url secret owners admins settings))))))"

subsection \<open>What an accepted configuration guarantees\<close>

definition valid_group_config :: "group_runtime_config \<Rightarrow> bool" where
  "valid_group_config c \<longleftrightarrow>
     (gr_enabled c \<longrightarrow> gr_canonical_relay_url c \<noteq> None \<and> gr_relay_secret c \<noteq> None)
     \<and> pred_option (\<lambda>u. starts_with u ''ws://'' \<or> starts_with u ''wss://'') (gr_canonical_relay_url c)
     \<and> pred_option (lower_hex 64) (gr_relay_secret c)
     \<and> list_all valid_pubkey (gr_owner_pubkeys c) \<and> list_all valid_pubkey (gr_admin_pubkeys c)
     \<and> \<not> gp_invites_enabled (gr_policy c)
     \<and> gl_max_group_id_bytes (gr_limits c) \<noteq> 0 \<and> gl_max_group_tags_per_event (gr_limits c) \<noteq> 0
     \<and> gl_max_supported_kinds (gr_limits c) \<noteq> 0 \<and> gl_max_member_list_pubkeys (gr_limits c) \<noteq> 0
     \<and> gl_max_outbox_replay_batch (gr_limits c) \<noteq> 0"

lemma relay_secret_from_hex_Ok [simp]: "relay_secret_from_hex v = Ok w \<longleftrightarrow> w = v \<and> lower_hex 64 v"
  by (auto simp: relay_secret_from_hex_def config_require_lowercase_hex_def result_iffs
      lower_hex_def lower_hex_char_def list_all_iff)

lemma parse_pubkeys_valid: "parse_pubkeys field vs = Ok ks \<Longrightarrow> list_all valid_pubkey ks"
  by (auto simp: parse_pubkeys_def list_all_iff dest!: traverse_Ok_set)

lemma transpose_Ok_iff [result_iffs]:
  "transpose x = Ok y \<longleftrightarrow> (case x of None \<Rightarrow> y = None | Some r \<Rightarrow> \<exists>z. r = Ok z \<and> y = Some z)"
  by (cases x) (auto simp: transpose_def map_ok_Ok_iff)

text \<open>
  A groups configuration that loads is safe to run with: when groups are enabled it
  carries a websocket URL and a 64-digit relay secret, every owner and admin key is a valid key,
  invites are off, and no limit is zero.
\<close>

theorem parse_group_config_sound:
  assumes "parse_group_runtime_config_json serde_read raw = Ok c"
  shows "valid_group_config c"
proof -
  obtain d :: group_config_document and url secret owners admins settings where
    parts: "transpose (map_option canonical_relay_url_new (gd_canonical_relay_url d)) = Ok url"
      "transpose (map_option relay_secret_from_hex (gd_relay_secret d)) = Ok secret"
      "parse_pubkeys ''groups.owner_pubkeys'' (gd_owner_pubkeys d) = Ok owners"
      "parse_pubkeys ''groups.admin_pubkeys'' (gd_admin_pubkeys d) = Ok admins"
      "group_settings_new (gd_policy d) (gd_limits d) = Ok settings"
    and made: "group_runtime_config_new (gd_enabled d) url secret owners admins settings = Ok c"
    using assms by (auto simp: parse_group_runtime_config_json_def and_then_Ok_iff intro: that)
  have "pred_option (\<lambda>u. starts_with u ''ws://'' \<or> starts_with u ''wss://'') url"
    using parts(1) by (auto simp: transpose_Ok_iff canonical_relay_url_new_def Let_def split: option.splits if_splits)
  moreover have "pred_option (lower_hex 64) secret"
    using parts(2) by (auto simp: transpose_Ok_iff split: option.splits)
  moreover have "list_all valid_pubkey owners" "list_all valid_pubkey admins"
    using parts(3,4) by (auto dest: parse_pubkeys_valid)
  moreover have "group_settings_validate settings = Ok ()"
    using parts(5) by (auto simp: group_settings_new_def Let_def and_then_Ok_iff)
  ultimately show ?thesis
    using made
    by (auto simp: group_runtime_config_new_def group_settings_validate_def group_policy_validate_def
        group_limits_validate_def require_positive_def valid_group_config_def gr_policy_def gr_limits_def
        and_then_Ok_iff split: if_splits)
qed

definition sample_config_read :: "string \<Rightarrow> string + group_config_document" where
  "sample_config_read raw = Ok \<lparr>gd_enabled = True,
     gd_canonical_relay_url = Some ''wss://relay.example'',
     gd_relay_secret = Some (replicate 64 CHR ''1''),
     gd_owner_pubkeys = [replicate 64 CHR ''a''], gd_admin_pubkeys = [],
     gd_policy = group_policy_strict, gd_limits = group_limits_default\<rparr>"

definition sample_group_config :: group_runtime_config where
  "sample_group_config = \<lparr>gr_enabled = True,
     gr_canonical_relay_url = Some ''wss://relay.example'',
     gr_relay_secret = Some (replicate 64 CHR ''1''),
     gr_owner_pubkeys = [replicate 64 CHR ''a''], gr_admin_pubkeys = [],
     gr_settings = group_settings_strict\<rparr>"

lemma ascii_trim_unchanged:
  "is_ascii s \<Longrightarrow> s \<noteq> [] \<Longrightarrow> \<not> is_whitespace (byte (hd s)) \<Longrightarrow> \<not> is_whitespace (byte (last s)) \<Longrightarrow>
   \<not> trim_changes s"
  by (simp add: trim_changes_def utf8_chars_ascii trim_chars_unchanged hd_map last_map)

lemma sample_config_loads: "parse_group_runtime_config_json sample_config_read raw = Ok sample_group_config"
proof -
  have url: "canonical_relay_url_new ''wss://relay.example'' = Ok ''wss://relay.example''"
    by (simp add: canonical_relay_url_new_def ascii_trim_unchanged is_ascii_def byte_def
        is_whitespace_def starts_with_def)
  have secret: "relay_secret_from_hex (replicate 64 CHR ''1'') = Ok (replicate 64 CHR ''1'')"
    by (simp add: lower_hex_replicate)
  have owner: "public_key_new (replicate 64 CHR ''a'') = Ok (replicate 64 CHR ''a'')"
    by (simp add: lower_hex_replicate)
  show ?thesis
    unfolding parse_group_runtime_config_json_def sample_config_read_def
    by (simp add: url secret owner parse_pubkeys_def group_settings_new_def
        group_settings_validate_def group_policy_validate_def group_policy_strict_def
        group_limits_validate_def group_limits_default_def require_positive_def
        group_runtime_config_new_def sample_group_config_def group_settings_strict_def)
qed

theorem parse_group_config_sound_witness: "valid_group_config sample_group_config"
  by (rule parse_group_config_sound [OF sample_config_loads])

end
