(* ===== verification/Group_Events.thy ===== *)
theory Group_Events
  imports Group_Base
begin

text \<open>
  How \<open>crates/tangle_groups\<close> reads an event: the view of a Pocket event (\<open>event_view.rs\<close>), group
  identity tags (\<open>tags.rs\<close>), the classification of events (\<open>classification.rs\<close>) and the structural
  gate for client submissions (\<open>write_gate.rs\<close>).
\<close>

section \<open>The event view\<close>

text \<open>
  A Pocket event is what its accessors return: the hex id and key, the 16-bit kind, the time, the
  tags (or the error of reading them), the content bytes and the outcome of \<open>verify\<close>.
\<close>

record pocket_event =
  pe_id :: string
  pe_pubkey :: string
  pe_kind :: u16
  pe_created_at :: u64
  pe_tags :: "string + string list list"
  pe_content :: string
  pe_verify :: "string + unit"

definition pocket_event_ok :: "pocket_event \<Rightarrow> bool" where
  "pocket_event_ok e \<longleftrightarrow> valid_event_id (pe_id e) \<and> valid_pubkey (pe_pubkey e)"

definition kind_u32 :: "pocket_event \<Rightarrow> u32" where
  "kind_u32 e = ucast (pe_kind e)"

definition view_id :: "pocket_event \<Rightarrow> group_error + event_id" where
  "view_id e = map_err error_internal (event_id_new (pe_id e))"

definition view_pubkey :: "pocket_event \<Rightarrow> group_error + public_key_hex" where
  "view_pubkey e = map_err error_internal (public_key_new (pe_pubkey e))"

definition view_kind :: "pocket_event \<Rightarrow> group_error + kind" where
  "view_kind e = map_err error_internal (kind_new (ucast (kind_u32 e)))"

definition view_created_at :: "pocket_event \<Rightarrow> unix_timestamp" where
  "view_created_at e = pe_created_at e"

text \<open>A \<open>GroupEventTag\<close> is the list of its values, each checked to be UTF-8.\<close>

type_synonym event_tag = "string list"

definition tag_value_utf8 :: "string \<Rightarrow> group_error + string" where
  "tag_value_utf8 value =
     (if valid_utf8 value then Ok value
      else Err (error_invalid MalformedGroupTag ''group event tag is not valid UTF-8''))"

definition event_tag_from_pocket :: "string list \<Rightarrow> group_error + event_tag" where
  "event_tag_from_pocket values = traverse tag_value_utf8 values"

definition first_value :: "event_tag \<Rightarrow> string option" where
  "first_value t = values_get t 0"

definition view_indexed_pair :: "event_tag \<Rightarrow> (string \<times> string) option" where
  "view_indexed_pair t =
     (case first_value t of
        None \<Rightarrow> None
      | Some name \<Rightarrow>
          if \<not> is_indexable_name name then None
          else map_option (\<lambda>value. (name, value)) (values_get t 1))"

text \<open>\<open>visit_tags\<close>: the visitor's captured variables are the state of the fold.\<close>

definition visit_tags ::
  "pocket_event \<Rightarrow> ('s \<Rightarrow> event_tag \<Rightarrow> group_error + 's) \<Rightarrow> 's \<Rightarrow> group_error + 's" where
  "visit_tags e visitor s =
     and_then (map_err (\<lambda>error. error_invalid MalformedGroupTag
         (''malformed Pocket event tags: '' @ error)) (pe_tags e))
       (try_fold (\<lambda>s tag. and_then (event_tag_from_pocket tag) (visitor s)) s)"

definition readable_tags :: "pocket_event \<Rightarrow> event_tag list \<Rightarrow> bool" where
  "readable_tags e ts \<longleftrightarrow> pe_tags e = Ok ts \<and> list_all (list_all valid_utf8) ts"

lemma event_tag_from_pocket_Ok:
  "event_tag_from_pocket vs = Ok t \<longleftrightarrow> t = vs \<and> list_all valid_utf8 vs"
proof (induction vs arbitrary: t)
  case Nil
  then show ?case by (auto simp: event_tag_from_pocket_def)
next
  case (Cons v vs)
  then show ?case
    by (auto simp: event_tag_from_pocket_def tag_value_utf8_def result_iffs)
qed

lemma visit_tags_Ok:
  "visit_tags e f s = Ok r \<longleftrightarrow> (\<exists>ts. readable_tags e ts \<and> try_fold f s ts = Ok r)"
proof -
  have "try_fold (\<lambda>s tag. and_then (event_tag_from_pocket tag) (f s)) s ts = Ok r
      \<longleftrightarrow> list_all (list_all valid_utf8) ts \<and> try_fold f s ts = Ok r" for ts
    by (induction ts arbitrary: s) (auto simp: result_iffs event_tag_from_pocket_Ok)
  then show ?thesis
    by (auto simp: visit_tags_def result_iffs readable_tags_def)
qed

lemma readable_tags_unique: "readable_tags e ts \<Longrightarrow> readable_tags e us \<Longrightarrow> ts = us"
  by (simp add: readable_tags_def)

lemma view_simps [simp]:
  "pocket_event_ok e \<Longrightarrow> view_id e = Ok (pe_id e)"
  "pocket_event_ok e \<Longrightarrow> view_pubkey e = Ok (pe_pubkey e)"
  "view_kind e = Ok (kind_u32 e)"
  by (simp_all add: pocket_event_ok_def view_id_def view_pubkey_def view_kind_def)

lemma view_Ok_iff [simp]:
  "view_id e = Ok i \<longleftrightarrow> i = pe_id e \<and> valid_event_id (pe_id e)"
  "view_pubkey e = Ok p \<longleftrightarrow> p = pe_pubkey e \<and> valid_pubkey (pe_pubkey e)"
  by (auto simp: view_id_def view_pubkey_def)

lemma first_value_Cons [simp]: "first_value [] = None" "first_value (n # vs) = Some n"
  by (simp_all add: first_value_def values_get_def)

lemma view_indexed_pair_Some:
  "view_indexed_pair t = Some (n, v) \<longleftrightarrow> (\<exists>r. t = n # v # r \<and> is_indexable_name n)"
  by (cases t; cases "tl t") (auto simp: view_indexed_pair_def values_get_def)

section \<open>Group identity tags\<close>

datatype group_tag_name = TagH | TagD

fun group_tag_name_str :: "group_tag_name \<Rightarrow> string" where
  "group_tag_name_str TagH = ''h''"
| "group_tag_name_str TagD = ''d''"

record group_tag =
  gt_name :: group_tag_name
  gt_group_id :: group_id

definition is_group_identity_tag_name :: "string \<Rightarrow> bool" where
  "is_group_identity_tag_name name \<longleftrightarrow>
     name = group_tag_name_str TagH \<or> name = group_tag_name_str TagD"

definition has_group_identity_tag :: "pocket_event \<Rightarrow> group_error + bool" where
  "has_group_identity_tag e =
     visit_tags e (\<lambda>found tag.
       Ok (if case first_value tag of None \<Rightarrow> False | Some name \<Rightarrow> is_group_identity_tag_name name
           then True else found)) False"

definition group_identity_tag_count :: "pocket_event \<Rightarrow> group_error + nat" where
  "group_identity_tag_count e =
     visit_tags e (\<lambda>n tag.
       Ok (if case first_value tag of None \<Rightarrow> False | Some name \<Rightarrow> is_group_identity_tag_name name
           then n + 1 else n)) 0"

definition ensure_group_tag_limit :: "pocket_event \<Rightarrow> group_limits_config \<Rightarrow> group_error + unit" where
  "ensure_group_tag_limit e limits =
     and_then (group_identity_tag_count e)
       (\<lambda>n. let max = unat (gl_max_group_tags_per_event limits) in
         if n > max
         then Err (error_invalid TooManyGroupTags
           (''group event has '' @ dec n @ '' group tags, maximum is '' @ dec max))
         else Ok ())"

definition extract_group_tag_visit ::
  "group_tag_name \<Rightarrow> group_limits_config \<Rightarrow> group_id option \<Rightarrow> event_tag \<Rightarrow>
   group_error + group_id option" where
  "extract_group_tag_visit name limits found tag =
     (if first_value tag \<noteq> Some (group_tag_name_str name) then Ok found
      else case view_indexed_pair tag of
        None \<Rightarrow> Err (error_invalid MalformedGroupTag
          (''malformed '' @ group_tag_name_str name @ '' group tag''))
      | Some (_, value) \<Rightarrow>
          and_then (group_id_new_with_max_bytes value (unat (gl_max_group_id_bytes limits)))
            (\<lambda>group_id. case found of
               Some first \<Rightarrow>
                 if first \<noteq> group_id
                 then Err (error_invalid ConflictingGroupTag
                   (''conflicting '' @ group_tag_name_str name @ '' group tags''))
                 else Ok found
             | None \<Rightarrow> Ok (Some group_id)))"

definition extract_group_tag ::
  "pocket_event \<Rightarrow> group_tag_name \<Rightarrow> group_limits_config \<Rightarrow> group_error + group_tag option" where
  "extract_group_tag e name limits =
     map_ok (map_option (\<lambda>group_id. \<lparr>gt_name = name, gt_group_id = group_id\<rparr>))
       (visit_tags e (extract_group_tag_visit name limits) None)"

definition require_group_tag ::
  "pocket_event \<Rightarrow> group_tag_name \<Rightarrow> group_limits_config \<Rightarrow> group_error + group_tag" where
  "require_group_tag e name limits =
     and_then (extract_group_tag e name limits)
       (\<lambda>t. ok_or t (error_invalid MissingGroupTag
          (''missing '' @ group_tag_name_str name @ '' group tag'')))"

subsection \<open>What extraction finds\<close>

text \<open>
  The values that the tags of one name carry, in event order; \<open>None\<close> for a tag with no value.
\<close>

definition named_values :: "string \<Rightarrow> event_tag list \<Rightarrow> string option list" where
  "named_values n ts = map (\<lambda>t. values_get t 1) (filter (\<lambda>t. first_value t = Some n) ts)"

definition group_id_within :: "group_limits_config \<Rightarrow> string \<Rightarrow> bool" where
  "group_id_within limits g \<longleftrightarrow> group_id_ok (unat (gl_max_group_id_bytes limits)) g"

lemma group_id_within_new:
  "group_id_within limits v \<Longrightarrow>
     group_id_new_with_max_bytes v (unat (gl_max_group_id_bytes limits)) = Ok v"
  by (simp add: group_id_within_def group_id_new_with_max_bytes_Ok)

lemma group_tag_names_indexable [simp]: "is_indexable_name (group_tag_name_str n)"
  by (cases n) (simp_all add: is_indexable_name_def is_ascii_alphabetic_def is_ascii_uppercase_def
      byte_def)

lemma view_indexed_pair_named:
  "first_value t = Some n \<Longrightarrow> is_indexable_name n \<Longrightarrow>
   view_indexed_pair t = map_option (\<lambda>v. (n, v)) (values_get t 1)"
  by (simp add: view_indexed_pair_def)

lemma extract_group_tag_fold:
  "try_fold (extract_group_tag_visit n limits) found ts = Ok r \<longleftrightarrow>
     list_all (\<lambda>v. v \<noteq> None \<and> group_id_within limits (the v)
         \<and> (case found of Some g \<Rightarrow> v = Some g | None \<Rightarrow> v = r))
       (named_values (group_tag_name_str n) ts)
     \<and> (case found of Some g \<Rightarrow> r = Some g
        | None \<Rightarrow> named_values (group_tag_name_str n) ts = [] \<longrightarrow> r = None)"
proof (induction ts arbitrary: found)
  case Nil
  then show ?case by (auto simp: named_values_def split: option.split)
next
  case (Cons t ts)
  show ?case
  proof (cases "first_value t = Some (group_tag_name_str n)")
    case False
    then have visit: "extract_group_tag_visit n limits found t = Ok found"
      and named: "named_values (group_tag_name_str n) (t # ts) = named_values (group_tag_name_str n) ts"
      by (simp_all add: extract_group_tag_visit_def named_values_def)
    show ?thesis unfolding try_fold.simps visit and_then_simps named by (rule Cons.IH)
  next
    case True
    then have named: "named_values (group_tag_name_str n) (t # ts)
        = values_get t 1 # named_values (group_tag_name_str n) ts"
      by (simp add: named_values_def)
    show ?thesis
    proof (cases "values_get t 1")
      case None
      then show ?thesis
        using True by (simp add: named extract_group_tag_visit_def view_indexed_pair_named)
    next
      case (Some v)
      then have visit: "extract_group_tag_visit n limits fnd t =
          and_then (group_id_new_with_max_bytes v (unat (gl_max_group_id_bytes limits)))
            (\<lambda>group_id. case fnd of
               Some first \<Rightarrow> if first \<noteq> group_id
                 then Err (error_invalid ConflictingGroupTag
                   (''conflicting '' @ group_tag_name_str n @ '' group tags''))
                 else Ok fnd
             | None \<Rightarrow> Ok (Some group_id))" for fnd
        using True by (simp add: extract_group_tag_visit_def view_indexed_pair_named)
      show ?thesis
      proof (cases "group_id_within limits v")
        case True
        then have "group_id_new_with_max_bytes v (unat (gl_max_group_id_bytes limits)) = Ok v"
          by (rule group_id_within_new)
        with True Some show ?thesis
          by (cases found) (auto simp add: named visit Cons.IH list_all_iff)
      next
        case False
        then show ?thesis
          using Some by (auto simp: named visit result_iffs group_id_within_def
              group_id_new_with_max_bytes_Ok)
      qed
    qed
  qed
qed

lemma extract_group_tag_Ok:
  "extract_group_tag e n limits = Ok r \<longleftrightarrow> (\<exists>ts. readable_tags e ts
     \<and> list_all (\<lambda>v. v \<noteq> None \<and> group_id_within limits (the v) \<and> v = map_option gt_group_id r)
         (named_values (group_tag_name_str n) ts)
     \<and> (named_values (group_tag_name_str n) ts = [] \<longrightarrow> r = None)
     \<and> (case r of Some t \<Rightarrow> gt_name t = n | None \<Rightarrow> True))"
proof -
  have shape: "(\<exists>x. P x \<and> r = map_option (\<lambda>g. \<lparr>gt_name = n, gt_group_id = g\<rparr>) x) \<longleftrightarrow>
      P (map_option gt_group_id r) \<and> (case r of Some t \<Rightarrow> gt_name t = n | None \<Rightarrow> True)" for P
  proof (cases r)
    case None
    then show ?thesis by simp
  next
    case (Some t)
    have "r = map_option (\<lambda>g. \<lparr>gt_name = n, gt_group_id = g\<rparr>) x \<longleftrightarrow>
        x = Some (gt_group_id t) \<and> gt_name t = n" for x
      using Some by (cases t; cases x) auto
    with Some show ?thesis by simp
  qed
  show ?thesis
    unfolding extract_group_tag_def map_ok_Ok_iff shape visit_tags_Ok extract_group_tag_fold
    by auto
qed

section \<open>Classification\<close>

datatype group_event_class =
    NonGroup
  | NormalEvent group_id
  | Moderation kind group_id
  | RelayGeneratedSnapshot kind group_id

fun class_group_id :: "group_event_class \<Rightarrow> group_id option" where
  "class_group_id NonGroup = None"
| "class_group_id (NormalEvent g) = Some g"
| "class_group_id (Moderation k g) = Some g"
| "class_group_id (RelayGeneratedSnapshot k g) = Some g"

definition class_is_group :: "group_event_class \<Rightarrow> bool" where
  "class_is_group c \<longleftrightarrow> c \<noteq> NonGroup"

definition classify_group_event ::
  "pocket_event \<Rightarrow> group_limits_config \<Rightarrow> group_error + group_event_class" where
  "classify_group_event e limits =
     and_then (view_kind e) (\<lambda>k.
       if is_relay_generated_kind k
       then map_ok (\<lambda>t. RelayGeneratedSnapshot k (gt_group_id t)) (require_group_tag e TagD limits)
       else if is_moderation_kind k
       then map_ok (\<lambda>t. Moderation k (gt_group_id t)) (require_group_tag e TagH limits)
       else if is_user_request_kind k
       then map_ok (\<lambda>t. NormalEvent (gt_group_id t)) (require_group_tag e TagH limits)
       else and_then (has_group_identity_tag e) (\<lambda>has.
         if has
         then and_then (extract_group_tag e TagH limits)
           (\<lambda>t. case t of Some group_tag \<Rightarrow> Ok (NormalEvent (gt_group_id group_tag))
              | None \<Rightarrow> Ok NonGroup)
         else Ok NonGroup))"

text \<open>The class an event has according to NIP-29: by kind, with the id its tags agree on.\<close>

definition event_class_spec ::
  "u32 \<Rightarrow> group_limits_config \<Rightarrow> event_tag list \<Rightarrow> group_event_class \<Rightarrow> bool" where
  "event_class_spec k limits ts c =
     (let ids = named_values (if is_relay_generated_kind k then ''d'' else ''h'') ts in
      list_all (\<lambda>v. v = class_group_id c \<and> v \<noteq> None \<and> group_id_within limits (the v)) ids
      \<and> (if ids = [] then \<not> is_group_specific_kind k \<and> c = NonGroup
         else c = (if is_relay_generated_kind k then RelayGeneratedSnapshot k (the (hd ids))
                   else if is_moderation_kind k then Moderation k (the (hd ids))
                   else NormalEvent (the (hd ids)))))"

lemma has_group_identity_tag_Ok:
  "has_group_identity_tag e = Ok b \<longleftrightarrow> (\<exists>ts. readable_tags e ts
     \<and> b = (named_values ''h'' ts \<noteq> [] \<or> named_values ''d'' ts \<noteq> []))"
proof -
  have fold: "try_fold (\<lambda>found tag.
       Ok (if case first_value tag of None \<Rightarrow> False | Some name \<Rightarrow> is_group_identity_tag_name name
           then True else found)) s ts = Ok b \<longleftrightarrow>
     b = (s \<or> named_values ''h'' ts \<noteq> [] \<or> named_values ''d'' ts \<noteq> [])" for s ts
  proof (induction ts arbitrary: s)
    case Nil
    then show ?case by (auto simp: named_values_def)
  next
    case (Cons t ts)
    then show ?case
      by (cases "first_value t") (auto simp: named_values_def is_group_identity_tag_name_def)
  qed
  show ?thesis unfolding has_group_identity_tag_def visit_tags_Ok fold by simp
qed

lemma require_group_tag_Ok:
  "require_group_tag e n limits = Ok t \<longleftrightarrow> (\<exists>ts. readable_tags e ts
     \<and> named_values (group_tag_name_str n) ts \<noteq> []
     \<and> list_all (\<lambda>v. v = Some (gt_group_id t) \<and> group_id_within limits (gt_group_id t))
         (named_values (group_tag_name_str n) ts)
     \<and> gt_name t = n)"
proof -
  have agree: "(\<lambda>v. v \<noteq> None \<and> group_id_within limits (the v) \<and> v = map_option gt_group_id (Some t))
      = (\<lambda>v. v = Some (gt_group_id t) \<and> group_id_within limits (gt_group_id t))"
    by (auto intro!: ext)
  have "require_group_tag e n limits = Ok t \<longleftrightarrow> extract_group_tag e n limits = Ok (Some t)"
    by (auto simp: require_group_tag_def and_then_Ok_iff)
  then show ?thesis unfolding extract_group_tag_Ok agree by auto
qed

lemma required_class_spec:
  assumes "require_group_tag e n limits = Ok t"
    and "group_tag_name_str n = (if is_relay_generated_kind k then ''d'' else ''h'')"
    and "c = (if is_relay_generated_kind k then RelayGeneratedSnapshot k (gt_group_id t)
              else if is_moderation_kind k then Moderation k (gt_group_id t)
              else NormalEvent (gt_group_id t))"
  shows "\<exists>ts. readable_tags e ts \<and> event_class_spec k limits ts c"
proof -
  obtain ts where "readable_tags e ts" and some: "named_values (group_tag_name_str n) ts \<noteq> []"
    and all: "list_all (\<lambda>v. v = Some (gt_group_id t) \<and> group_id_within limits (gt_group_id t))
         (named_values (group_tag_name_str n) ts)"
    using assms(1) unfolding require_group_tag_Ok by auto
  have "class_group_id c = Some (gt_group_id t)" using assms(3) by simp
  moreover obtain v vs where "named_values (group_tag_name_str n) ts = v # vs"
    using some by (cases "named_values (group_tag_name_str n) ts") auto
  ultimately have "event_class_spec k limits ts c"
    using all assms(3) unfolding event_class_spec_def Let_def assms(2) [symmetric]
    by (auto simp: list_all_iff)
  with \<open>readable_tags e ts\<close> show ?thesis by auto
qed

text \<open>
  Classification is exact. \<open>classify_group_event\<close> answers class \<open>c\<close> only when the tags
  are readable and \<open>c\<close> is the class NIP-29 gives: relay-generated kinds are snapshots of the group
  their d tags name, moderation and user-request kinds and any other kind with an h tag belong to
  the group their h tags name, the tags all carry the same well-formed id, and the rest is not a
  group event.
\<close>

theorem classify_group_event_sound:
  assumes "classify_group_event e limits = Ok c"
  shows "\<exists>ts. readable_tags e ts \<and> event_class_spec (kind_u32 e) limits ts c"
proof -
  let ?k = "kind_u32 e"
  consider (snapshot) "is_relay_generated_kind ?k" | (moderation) "is_moderation_kind ?k"
    | (request) "is_user_request_kind ?k" | (other) "\<not> is_group_specific_kind ?k"
    unfolding group_specific_kind_cases by blast
  then show ?thesis
  proof cases
    case other
    then have k: "\<not> is_relay_generated_kind ?k" "\<not> is_moderation_kind ?k" "\<not> is_user_request_kind ?k"
      by (auto simp: group_specific_kind_cases)
    obtain has ts where ts: "readable_tags e ts"
      and has: "has = (named_values ''h'' ts \<noteq> [] \<or> named_values ''d'' ts \<noteq> [])"
      and rest: "(if has then and_then (extract_group_tag e TagH limits)
           (\<lambda>t. case t of Some group_tag \<Rightarrow> Ok (NormalEvent (gt_group_id group_tag))
              | None \<Rightarrow> Ok NonGroup) else Ok NonGroup) = Ok c"
      using assms k by (auto simp: classify_group_event_def and_then_Ok_iff has_group_identity_tag_Ok)
    show ?thesis
    proof (cases "has \<and> named_values ''h'' ts \<noteq> []")
      case True
      then obtain r where r: "extract_group_tag e TagH limits = Ok r"
        and c: "c = (case r of Some t \<Rightarrow> NormalEvent (gt_group_id t) | None \<Rightarrow> NonGroup)"
        using rest by (auto simp: and_then_Ok_iff split: option.splits)
      have all: "list_all (\<lambda>v. v \<noteq> None \<and> group_id_within limits (the v) \<and> v = map_option gt_group_id r)
          (named_values ''h'' ts)"
        using r readable_tags_unique [OF ts] unfolding extract_group_tag_Ok by auto
      then obtain t where t: "r = Some t"
        using True by (cases r; cases "named_values ''h'' ts") auto
      with all True k other ts show ?thesis
        by (intro exI [of _ ts]) (cases "named_values ''h'' ts";
          auto simp: event_class_spec_def Let_def c list_all_iff)
    next
      case False
      then have "named_values ''h'' ts = []" using has by auto
      moreover have "c = NonGroup"
        using rest calculation readable_tags_unique [OF ts]
        by (auto simp: and_then_Ok_iff extract_group_tag_Ok split: if_splits option.splits)
      ultimately show ?thesis
        using k other ts by (intro exI [of _ ts]) (simp add: event_class_spec_def)
    qed
  next
    case snapshot
    with assms obtain t where c: "c = RelayGeneratedSnapshot ?k (gt_group_id t)"
      and t: "require_group_tag e TagD limits = Ok t"
      by (auto simp: classify_group_event_def map_ok_Ok_iff)
    show ?thesis by (rule required_class_spec [OF t]) (use snapshot c in auto)
  next
    case moderation
    note disjoint = kind_sets_disjoint(1) [OF moderation]
    with moderation assms obtain t where c: "c = Moderation ?k (gt_group_id t)"
      and t: "require_group_tag e TagH limits = Ok t"
      by (auto simp: classify_group_event_def map_ok_Ok_iff)
    show ?thesis by (rule required_class_spec [OF t]) (use moderation c disjoint in auto)
  next
    case request
    note disjoint = kind_sets_disjoint(2) [OF request]
    with request assms obtain t where c: "c = NormalEvent (gt_group_id t)"
      and t: "require_group_tag e TagH limits = Ok t"
      by (auto simp: classify_group_event_def map_ok_Ok_iff)
    show ?thesis by (rule required_class_spec [OF t]) (use request c disjoint in auto)
  qed
qed

section \<open>The structural gate for client submissions\<close>

text \<open>\<open>GroupAuthContext\<close> is the set of authenticated keys.\<close>

type_synonym group_auth_context = "public_key_hex set"

definition unauthenticated :: group_auth_context where
  "unauthenticated = {}"

definition require_indexed_visit ::
  "string \<Rightarrow> string option \<Rightarrow> event_tag \<Rightarrow> group_error + string option" where
  "require_indexed_visit name found tag =
     (if first_value tag \<noteq> Some name then Ok found
      else case view_indexed_pair tag of
        None \<Rightarrow> Err (error_invalid MalformedTargetTag (''malformed '' @ name @ '' target tag''))
      | Some (_, value) \<Rightarrow> Ok (Some value))"

definition require_indexed_tag_value :: "pocket_event \<Rightarrow> string \<Rightarrow> group_error + string" where
  "require_indexed_tag_value e name =
     and_then (visit_tags e (require_indexed_visit name) None)
       (\<lambda>found. ok_or found (error_invalid MissingTargetTag (''missing '' @ name @ '' target tag'')))"

definition require_valid_p_tag :: "pocket_event \<Rightarrow> group_error + unit" where
  "require_valid_p_tag e =
     and_then (require_indexed_tag_value e ''p'') (\<lambda>value.
     and_then (map_err (\<lambda>reason. error_invalid MalformedTargetTag
         (''malformed p target tag: '' @ reason)) (public_key_new value))
       (\<lambda>_. Ok ()))"

definition validate_moderation_targets :: "pocket_event \<Rightarrow> u32 \<Rightarrow> group_error + unit" where
  "validate_moderation_targets e k =
     (if k = KIND_GROUP_PUT_USER \<or> k = KIND_GROUP_REMOVE_USER then require_valid_p_tag e
      else if k = KIND_GROUP_DELETE_EVENT
      then map_ok (\<lambda>_. ()) (require_indexed_tag_value e ''e'')
      else Ok ())"

definition validate_client_group_event_structure ::
  "pocket_event \<Rightarrow> group_limits_config \<Rightarrow> group_error + group_event_class" where
  "validate_client_group_event_structure e limits =
     and_then (ensure_group_tag_limit e limits) (\<lambda>_.
     and_then (classify_group_event e limits) (\<lambda>c.
       case c of
         RelayGeneratedSnapshot _ _ \<Rightarrow> Err (error_blocked DirectRelayGeneratedSubmission
           ''relay-generated group state events cannot be submitted by clients'')
       | Moderation k _ \<Rightarrow> and_then (validate_moderation_targets e k) (\<lambda>_. Ok c)
       | NormalEvent _ \<Rightarrow> Ok c
       | NonGroup \<Rightarrow> Ok c))"

definition require_group_auth_as_author ::
  "pocket_event \<Rightarrow> group_event_class \<Rightarrow> group_auth_context \<Rightarrow> group_error + unit" where
  "require_group_auth_as_author e c auth =
     (if c = NonGroup then Ok ()
      else and_then (view_pubkey e) (\<lambda>pubkey.
        if pubkey \<in> auth then Ok ()
        else Err (error_auth_required ''group event author must authenticate with AUTH'')))"

text \<open>The target is the value of the last tag of its name.\<close>

definition last_named_value :: "string \<Rightarrow> event_tag list \<Rightarrow> string option" where
  "last_named_value n ts =
     (let vs = named_values n ts in if vs = [] then None else last vs)"

lemma last_named_value_Cons:
  "last_named_value n (t # ts) =
     (if first_value t \<noteq> Some n then last_named_value n ts
      else if named_values n ts = [] then values_get t 1 else last_named_value n ts)"
  by (auto simp: last_named_value_def named_values_def Let_def)

lemma require_indexed_fold:
  assumes "is_indexable_name n"
  shows "try_fold (require_indexed_visit n) found ts = Ok r \<longleftrightarrow>
    list_all (\<lambda>v. v \<noteq> None) (named_values n ts)
    \<and> r = (if named_values n ts = [] then found else last_named_value n ts)"
proof (induction ts arbitrary: found)
  case Nil
  then show ?case by (auto simp: named_values_def)
next
  case (Cons t ts)
  show ?case
  proof (cases "first_value t = Some n")
    case False
    then have "require_indexed_visit n found t = Ok found" and "named_values n (t # ts) = named_values n ts"
      by (simp_all add: require_indexed_visit_def named_values_def)
    with False show ?thesis by (simp add: Cons.IH last_named_value_Cons)
  next
    case True
    then have named: "named_values n (t # ts) = values_get t 1 # named_values n ts"
      by (simp add: named_values_def)
    have visit: "require_indexed_visit n found t = (case values_get t 1 of
        None \<Rightarrow> Err (error_invalid MalformedTargetTag (''malformed '' @ n @ '' target tag''))
      | Some v \<Rightarrow> Ok (Some v))"
      using True assms by (simp add: require_indexed_visit_def view_indexed_pair_named
          split: option.split)
    show ?thesis
      using True by (cases "values_get t 1")
        (auto simp: named visit Cons.IH last_named_value_Cons)
  qed
qed

lemma require_indexed_tag_value_Ok:
  assumes "is_indexable_name n"
  shows "require_indexed_tag_value e n = Ok v \<longleftrightarrow> (\<exists>ts. readable_tags e ts
    \<and> list_all (\<lambda>v. v \<noteq> None) (named_values n ts) \<and> last_named_value n ts = Some v)"
  unfolding require_indexed_tag_value_def and_then_Ok_iff visit_tags_Ok ok_or_Ok_iff
    require_indexed_fold [OF assms]
proof -
  have "(if named_values n ts = [] then None else last_named_value n ts) = last_named_value n ts" for ts
    by (simp add: last_named_value_def)
  then show "(\<exists>x. (\<exists>ts. readable_tags e ts \<and> list_all (\<lambda>v. v \<noteq> None) (named_values n ts)
        \<and> x = (if named_values n ts = [] then None else last_named_value n ts)) \<and> x = Some v) =
      (\<exists>ts. readable_tags e ts \<and> list_all (\<lambda>v. v \<noteq> None) (named_values n ts)
        \<and> last_named_value n ts = Some v)"
    by (auto; metis)
qed

lemma p_e_indexable [simp]: "is_indexable_name ''p''" "is_indexable_name ''e''"
  by (simp_all add: is_indexable_name_def is_ascii_alphabetic_def is_ascii_uppercase_def byte_def)

lemma snapshot_class:
  assumes "is_relay_generated_kind (kind_u32 e)" and "classify_group_event e limits = Ok c"
  obtains g where "c = RelayGeneratedSnapshot (kind_u32 e) g"
  using assms by (auto simp: classify_group_event_def map_ok_Ok_iff)

lemma validate_snapshot_rejected:
  "is_relay_generated_kind (kind_u32 e) \<Longrightarrow> validate_client_group_event_structure e limits \<noteq> Ok c"
  by (auto simp: validate_client_group_event_structure_def and_then_Ok_iff elim!: snapshot_class)

lemma validate_structure_Ok:
  assumes "validate_client_group_event_structure e limits = Ok c"
  shows "classify_group_event e limits = Ok c
    \<and> (\<forall>k g. c = Moderation k g \<longrightarrow> validate_moderation_targets e k = Ok ())"
proof -
  obtain d where "classify_group_event e limits = Ok d"
    using assms by (auto simp: validate_client_group_event_structure_def and_then_Ok_iff)
  with assms show ?thesis
    by (cases d) (auto simp: validate_client_group_event_structure_def and_then_Ok_iff)
qed

lemma moderation_class:
  assumes "classify_group_event e limits = Ok c" and "is_moderation_kind (kind_u32 e)"
  shows "\<exists>g. c = Moderation (kind_u32 e) g"
  using assms kind_sets_disjoint(1) [OF assms(2)]
  by (auto simp: classify_group_event_def map_ok_Ok_iff)

text \<open>
  Events of the relay-generated kinds are never accepted from a client: whatever the
  tags and the limits, the structural gate answers an error for them.
\<close>

theorem relay_generated_never_submitted:
  assumes "is_relay_generated_kind (kind_u32 e)"
  shows "\<not> is_ok (validate_client_group_event_structure e limits)"
  using validate_snapshot_rejected [OF assms] by (auto simp: is_ok_iff)

definition sample_pocket_event :: "u16 \<Rightarrow> string list list \<Rightarrow> pocket_event" where
  "sample_pocket_event k tags = \<lparr>pe_id = replicate 64 CHR ''a'', pe_pubkey = replicate 64 CHR ''b'',
     pe_kind = k, pe_created_at = 1714124433, pe_tags = Ok tags, pe_content = [],
     pe_verify = Ok ()\<rparr>"

lemma sample_pocket_event_ok: "pocket_event_ok (sample_pocket_event k tags)"
  by (simp add: pocket_event_ok_def sample_pocket_event_def lower_hex_replicate)

lemma sample_pocket_event_simps [simp]:
  "pe_tags (sample_pocket_event k tags) = Ok tags"
  "pe_created_at (sample_pocket_event k tags) = 1714124433"
  "kind_u32 (sample_pocket_event k tags) = ucast k"
  by (simp_all add: sample_pocket_event_def kind_u32_def)

theorem relay_generated_never_submitted_witness:
  "\<not> is_ok (validate_client_group_event_structure
      (sample_pocket_event 39000 [[''d'', ''welcome'']]) group_limits_default)"
  by (rule relay_generated_never_submitted) (simp add: kind_set_iffs)

text \<open>
  A client event that passes the structural gate keeps its class, and when it adds or
  removes a user its last p tag holds a valid public key and every p tag has a value; when it
  deletes an event every e tag has a value and there is one.
\<close>

theorem validated_moderation_targets:
  assumes "validate_client_group_event_structure e limits = Ok c"
  shows "classify_group_event e limits = Ok c
    \<and> (\<exists>ts. (kind_u32 e = KIND_GROUP_PUT_USER \<or> kind_u32 e = KIND_GROUP_REMOVE_USER \<longrightarrow>
           readable_tags e ts \<and> list_all (\<lambda>v. v \<noteq> None) (named_values ''p'' ts)
           \<and> (\<exists>p. last_named_value ''p'' ts = Some p \<and> valid_pubkey p))
        \<and> (kind_u32 e = KIND_GROUP_DELETE_EVENT \<longrightarrow>
           readable_tags e ts \<and> list_all (\<lambda>v. v \<noteq> None) (named_values ''e'' ts)
           \<and> (\<exists>v. last_named_value ''e'' ts = Some v)))"
proof -
  have cls: "classify_group_event e limits = Ok c" and targets: "\<And>k g. c = Moderation k g \<Longrightarrow>
      validate_moderation_targets e k = Ok ()"
    using validate_structure_Ok [OF assms] by auto
  have valid: "validate_moderation_targets e (kind_u32 e) = Ok ()"
    if "kind_u32 e \<in> {9000, 9001, 9005}"
    using moderation_class [OF cls] targets that by (auto simp: kind_set_iffs)
  have user: "\<exists>ts p. readable_tags e ts \<and> list_all (\<lambda>v. v \<noteq> None) (named_values ''p'' ts)
      \<and> last_named_value ''p'' ts = Some p \<and> valid_pubkey p" if "kind_u32 e \<in> {9000, 9001}"
    using valid that by (auto simp: validate_moderation_targets_def require_valid_p_tag_def
        and_then_Ok_iff require_indexed_tag_value_Ok)
  have delete: "\<exists>ts v. readable_tags e ts \<and> list_all (\<lambda>v. v \<noteq> None) (named_values ''e'' ts)
      \<and> last_named_value ''e'' ts = Some v" if "kind_u32 e = 9005"
    using valid that by (auto simp: validate_moderation_targets_def map_ok_Ok_iff
        require_indexed_tag_value_Ok)
  consider "kind_u32 e \<in> {9000, 9001}" | "kind_u32 e = 9005"
    | "kind_u32 e \<notin> {9000, 9001, 9005}" by blast
  then show ?thesis
    by cases (use cls user delete in auto)
qed

lemma sample_h_extract:
  assumes "list_all (list_all is_ascii) tags" and "named_values ''h'' tags = []"
  shows "extract_group_tag (sample_pocket_event k ([''h'', ''welcome''] # tags)) TagH group_limits_default
     = Ok (Some \<lparr>gt_name = TagH, gt_group_id = ''welcome''\<rparr>)"
proof -
  have "group_id_within group_limits_default ''welcome''"
    by (simp add: group_id_within_def group_id_ok_def group_limits_default_def
        is_group_id_separator_def utf8_chars_ascii is_ascii_def byte_def is_control_def ascii_trim_unchanged is_whitespace_def)
  moreover have "named_values ''h'' ([''h'', ''welcome''] # tags) = [Some ''welcome'']"
    using assms(2) by (simp add: named_values_def values_get_def)
  moreover have "readable_tags (sample_pocket_event k ([''h'', ''welcome''] # tags))
      ([''h'', ''welcome''] # tags)"
    using assms(1) by (auto simp: readable_tags_def list_all_iff byte_def intro: valid_utf8_ascii)
  ultimately show ?thesis unfolding extract_group_tag_Ok by fastforce
qed

lemma sample_moderation_class:
  assumes "list_all (list_all is_ascii) tags" and "named_values ''h'' tags = []"
    and "is_moderation_kind (ucast k)"
  shows "classify_group_event (sample_pocket_event k ([''h'', ''welcome''] # tags)) group_limits_default
     = Ok (Moderation (ucast k) ''welcome'')"
  using sample_h_extract [OF assms(1,2), of k] kind_sets_disjoint(1) [OF assms(3)] assms(3)
  by (simp add: classify_group_event_def require_group_tag_def)

theorem classify_group_event_sound_witness:
  "\<exists>ts. readable_tags (sample_pocket_event 9002 [[''h'', ''welcome'']]) ts
     \<and> event_class_spec (kind_u32 (sample_pocket_event 9002 [[''h'', ''welcome'']]))
         group_limits_default ts (Moderation 9002 ''welcome'')"
proof (rule classify_group_event_sound)
  show "classify_group_event (sample_pocket_event 9002 [[''h'', ''welcome'']]) group_limits_default
      = Ok (Moderation 9002 ''welcome'')"
    using sample_moderation_class [of "[]" 9002] by (simp add: named_values_def kind_set_iffs)
qed

abbreviation sample_target_tags :: "string list list" where
  "sample_target_tags \<equiv> [[''h'', ''welcome''], [''p'', replicate 64 CHR ''c'']]"

lemma sample_target_tags_ascii: "list_all is_ascii [''p'', replicate 64 CHR ''c'']"
  by (simp add: is_ascii_def byte_def)

lemma sample_validated:
  "validate_client_group_event_structure (sample_pocket_event 9000 sample_target_tags)
     group_limits_default = Ok (Moderation 9000 ''welcome'')"
proof -
  have cls: "classify_group_event (sample_pocket_event 9000 sample_target_tags) group_limits_default
      = Ok (Moderation 9000 ''welcome'')"
    using sample_moderation_class [of "[[''p'', replicate 64 CHR ''c'']]" 9000] sample_target_tags_ascii
    by (simp add: named_values_def kind_set_iffs)
  have utf8: "event_tag_from_pocket [''h'', ''welcome''] = Ok [''h'', ''welcome'']"
    "event_tag_from_pocket [''p'', replicate 64 CHR ''c''] = Ok [''p'', replicate 64 CHR ''c'']"
    by (simp_all add: event_tag_from_pocket_Ok valid_utf8_ascii is_ascii_def byte_def)
  have "ensure_group_tag_limit (sample_pocket_event 9000 sample_target_tags) group_limits_default = Ok ()"
    using utf8 by (simp add: ensure_group_tag_limit_def group_identity_tag_count_def visit_tags_def
        is_group_identity_tag_name_def group_limits_default_def)
  moreover have "require_valid_p_tag (sample_pocket_event 9000 sample_target_tags) = Ok ()"
  proof -
    have "readable_tags (sample_pocket_event 9000 sample_target_tags) sample_target_tags"
      by (simp add: readable_tags_def valid_utf8_ascii is_ascii_def byte_def)
    then have "require_indexed_tag_value (sample_pocket_event 9000 sample_target_tags) ''p''
        = Ok (replicate 64 CHR ''c'')"
      unfolding require_indexed_tag_value_Ok [OF p_e_indexable(1)]
      by (intro exI [of _ sample_target_tags])
         (simp add: named_values_def last_named_value_def values_get_def)
    moreover have "public_key_new (replicate 64 CHR ''c'') = Ok (replicate 64 CHR ''c'')"
      using lower_hex_replicate [of "CHR ''c''" 64] by simp
    ultimately show ?thesis by (simp add: require_valid_p_tag_def)
  qed
  ultimately show ?thesis
    by (simp add: validate_client_group_event_structure_def cls validate_moderation_targets_def)
qed

theorem validated_moderation_targets_witness:
  "let e = sample_pocket_event 9000 sample_target_tags in
   classify_group_event e group_limits_default = Ok (Moderation 9000 ''welcome'')
    \<and> (\<exists>ts. readable_tags e ts \<and> list_all (\<lambda>v. v \<noteq> None) (named_values ''p'' ts)
           \<and> (\<exists>p. last_named_value ''p'' ts = Some p \<and> valid_pubkey p))"
  using validated_moderation_targets [OF sample_validated] by (auto simp: Let_def)

end
