(* ===== verification/Group_Metadata.thy ===== *)
theory Group_Metadata
  imports Group_Events
begin

text \<open>
  Group metadata (\<open>crates/tangle_groups/src/metadata.rs\<close>): the record and its parser over the tags
  of a metadata event, with the size limits and the three readings of \<open>supported_kinds\<close>.
\<close>

datatype supported_kinds = UnspecifiedAll | NoKinds | Only "kind set"

record group_metadata =
  gm_name :: "string option"
  gm_picture :: "string option"
  gm_about :: "string option"
  gm_private :: bool
  gm_restricted :: bool
  gm_hidden :: bool
  gm_closed :: bool
  gm_supported_kinds :: supported_kinds

record group_metadata_text =
  gmt_name :: "string option"
  gmt_picture :: "string option"
  gmt_about :: "string option"

record group_metadata_flags =
  gmf_private :: bool
  gmf_restricted :: bool
  gmf_hidden :: bool
  gmf_closed :: bool

definition group_metadata_from_parts ::
  "group_metadata_text \<Rightarrow> group_metadata_flags \<Rightarrow> supported_kinds \<Rightarrow> group_metadata" where
  "group_metadata_from_parts text flags kinds = \<lparr>
     gm_name = gmt_name text, gm_picture = gmt_picture text, gm_about = gmt_about text,
     gm_private = gmf_private flags, gm_restricted = gmf_restricted flags,
     gm_hidden = gmf_hidden flags, gm_closed = gmf_closed flags, gm_supported_kinds = kinds\<rparr>"

definition group_metadata_empty :: group_metadata where
  "group_metadata_empty = \<lparr>gm_name = None, gm_picture = None, gm_about = None,
     gm_private = False, gm_restricted = False, gm_hidden = False, gm_closed = False,
     gm_supported_kinds = UnspecifiedAll\<rparr>"

record metadata_builder =
  mb_name :: "string option"
  mb_picture :: "string option"
  mb_about :: "string option"
  mb_private :: bool
  mb_restricted :: bool
  mb_hidden :: bool
  mb_closed :: bool
  mb_supported_kinds :: "supported_kinds option"

definition metadata_builder_default :: metadata_builder where
  "metadata_builder_default = \<lparr>mb_name = None, mb_picture = None, mb_about = None,
     mb_private = False, mb_restricted = False, mb_hidden = False, mb_closed = False,
     mb_supported_kinds = None\<rparr>"

definition parse_text_tag :: "event_tag \<Rightarrow> string \<Rightarrow> nat \<Rightarrow> group_error + string option" where
  "parse_text_tag tag field max_bytes =
     (let value = values_get tag 1 in
      case value of
        Some v \<Rightarrow> if length v > max_bytes
          then Err (error_invalid MetadataTooLarge
            (''metadata '' @ field @ '' must be at most '' @ dec max_bytes @ '' bytes''))
          else Ok value
      | None \<Rightarrow> Ok value)"

definition parse_supported_kind :: "kind set \<Rightarrow> string \<Rightarrow> group_error + kind set" where
  "parse_supported_kind kinds value =
     and_then (ok_or (parse_u64 value)
         (error_invalid UnsupportedGroupKind ''supported_kinds values must be unsigned integers''))
       (\<lambda>raw. map_ok (\<lambda>k. insert k kinds)
         (map_err (\<lambda>reason. error_invalid UnsupportedGroupKind
            (''supported_kinds value is invalid: '' @ reason)) (kind_new raw)))"

definition parse_supported_kinds_tag ::
  "event_tag \<Rightarrow> group_limits_config \<Rightarrow> group_error + supported_kinds" where
  "parse_supported_kinds_tag tag limits =
     (let values = drop 1 tag in
      if values = [] then Ok NoKinds
      else let max = unat (gl_max_supported_kinds limits) in
        if length values > max
        then Err (error_invalid TooManySupportedKinds
          (''supported_kinds has '' @ dec (length values) @ '' values, maximum is '' @ dec max))
        else map_ok Only (try_fold parse_supported_kind {} values))"

definition metadata_visit ::
  "group_limits_config \<Rightarrow> metadata_builder \<Rightarrow> event_tag \<Rightarrow> group_error + metadata_builder" where
  "metadata_visit limits b tag =
     (case first_value tag of
        None \<Rightarrow> Ok b
      | Some name \<Rightarrow>
          if name = ''name'' then map_ok (\<lambda>v. b\<lparr>mb_name := v\<rparr>) (parse_text_tag tag ''name'' 128)
          else if name = ''picture''
          then map_ok (\<lambda>v. b\<lparr>mb_picture := v\<rparr>) (parse_text_tag tag ''picture'' 2048)
          else if name = ''about''
          then map_ok (\<lambda>v. b\<lparr>mb_about := v\<rparr>) (parse_text_tag tag ''about'' 4096)
          else if name = ''private'' then Ok (b\<lparr>mb_private := True\<rparr>)
          else if name = ''restricted'' then Ok (b\<lparr>mb_restricted := True\<rparr>)
          else if name = ''hidden'' then Ok (b\<lparr>mb_hidden := True\<rparr>)
          else if name = ''closed'' then Ok (b\<lparr>mb_closed := True\<rparr>)
          else if name = ''supported_kinds''
          then if mb_supported_kinds b \<noteq> None
            then Err (error_invalid TooManySupportedKinds
              ''metadata must contain at most one supported_kinds tag'')
            else map_ok (\<lambda>k. b\<lparr>mb_supported_kinds := Some k\<rparr>) (parse_supported_kinds_tag tag limits)
          else Ok b)"

definition parse_group_metadata ::
  "pocket_event \<Rightarrow> group_limits_config \<Rightarrow> group_error + group_metadata" where
  "parse_group_metadata e limits =
     and_then (visit_tags e (metadata_visit limits) metadata_builder_default)
       (\<lambda>b. Ok \<lparr>gm_name = mb_name b, gm_picture = mb_picture b, gm_about = mb_about b,
          gm_private = mb_private b, gm_restricted = mb_restricted b, gm_hidden = mb_hidden b,
          gm_closed = mb_closed b,
          gm_supported_kinds = (case mb_supported_kinds b of Some k \<Rightarrow> k | None \<Rightarrow> UnspecifiedAll)\<rparr>)"

section \<open>Bounds of parsed metadata\<close>

definition opt_length_le :: "string option \<Rightarrow> nat \<Rightarrow> bool" where
  "opt_length_le s n \<longleftrightarrow> (case s of Some v \<Rightarrow> length v \<le> n | None \<Rightarrow> True)"

definition valid_metadata :: "group_limits_config \<Rightarrow> group_metadata \<Rightarrow> bool" where
  "valid_metadata limits m \<longleftrightarrow>
     opt_length_le (gm_name m) 128 \<and> opt_length_le (gm_picture m) 2048 \<and> opt_length_le (gm_about m) 4096
     \<and> (case gm_supported_kinds m of
          Only ks \<Rightarrow> finite ks \<and> ks \<noteq> {} \<and> card ks \<le> unat (gl_max_supported_kinds limits)
        | _ \<Rightarrow> True)"

lemma parse_supported_kind_insert:
  "parse_supported_kind ks v = Ok r \<Longrightarrow> \<exists>k. r = insert k ks"
  by (auto simp: parse_supported_kind_def and_then_Ok_iff map_ok_Ok_iff)

lemma parse_supported_kind_fold:
  "try_fold parse_supported_kind ks vs = Ok r \<Longrightarrow> finite ks \<Longrightarrow>
   finite r \<and> ks \<subseteq> r \<and> card r \<le> card ks + length vs \<and> (vs \<noteq> [] \<longrightarrow> r \<noteq> {})"
proof (induction vs arbitrary: ks)
  case Nil
  then show ?case by auto
next
  case (Cons v vs)
  then obtain k where "try_fold parse_supported_kind (insert k ks) vs = Ok r"
    by (auto simp: and_then_Ok_iff dest: parse_supported_kind_insert)
  from Cons.IH [OF this] Cons.prems(2) show ?case
    by (auto simp: card_insert_if split: if_splits)
qed

lemma parse_text_tag_le: "parse_text_tag tag field n = Ok v \<Longrightarrow> opt_length_le v n"
  by (auto simp: parse_text_tag_def opt_length_le_def Let_def split: option.splits if_splits)

lemma parse_supported_kinds_tag_bound:
  "parse_supported_kinds_tag tag limits = Ok (Only ks) \<Longrightarrow>
   finite ks \<and> ks \<noteq> {} \<and> card ks \<le> unat (gl_max_supported_kinds limits)"
  by (auto simp: parse_supported_kinds_tag_def Let_def map_ok_Ok_iff split: if_splits
      dest!: parse_supported_kind_fold)

definition builder_bounded :: "group_limits_config \<Rightarrow> metadata_builder \<Rightarrow> bool" where
  "builder_bounded limits b \<longleftrightarrow>
     opt_length_le (mb_name b) 128 \<and> opt_length_le (mb_picture b) 2048 \<and> opt_length_le (mb_about b) 4096
     \<and> (\<forall>ks. mb_supported_kinds b = Some (Only ks) \<longrightarrow>
          finite ks \<and> ks \<noteq> {} \<and> card ks \<le> unat (gl_max_supported_kinds limits))"

lemma metadata_visit_bounded:
  "metadata_visit limits b tag = Ok b' \<Longrightarrow> builder_bounded limits b \<Longrightarrow> builder_bounded limits b'"
  unfolding metadata_visit_def builder_bounded_def
  by (auto simp: map_ok_Ok_iff parse_text_tag_le dest: parse_supported_kinds_tag_bound
      split: option.splits if_splits)

lemma parse_group_metadata_valid:
  assumes "parse_group_metadata e limits = Ok m"
  shows "valid_metadata limits m"
proof -
  obtain ts b where fold: "try_fold (metadata_visit limits) metadata_builder_default ts = Ok b"
    and m: "m = \<lparr>gm_name = mb_name b, gm_picture = mb_picture b, gm_about = mb_about b,
          gm_private = mb_private b, gm_restricted = mb_restricted b, gm_hidden = mb_hidden b,
          gm_closed = mb_closed b,
          gm_supported_kinds = (case mb_supported_kinds b of Some k \<Rightarrow> k | None \<Rightarrow> UnspecifiedAll)\<rparr>"
    using assms by (auto simp: parse_group_metadata_def and_then_Ok_iff visit_tags_Ok)
  have "builder_bounded limits b"
    using fold
  proof (rule try_fold_invariant [where P = "builder_bounded limits"])
    show "builder_bounded limits metadata_builder_default"
      by (simp add: metadata_builder_default_def builder_bounded_def opt_length_le_def)
  qed (rule metadata_visit_bounded)
  then show ?thesis
    by (auto simp: m builder_bounded_def valid_metadata_def
        split: option.splits supported_kinds.splits)
qed

end
