(* ===== verification/Group_Roles.thy ===== *)
theory Group_Roles
  imports Group_Base
begin

text \<open>
  Roles and capabilities (\<open>crates/tangle_groups/src/roles.rs\<close>): role names, the eight capabilities
  with their labels and order, capability sets, role definitions and the resolution of the roles
  a member holds into capabilities.
\<close>

section \<open>Role names\<close>

type_synonym role_name = string

definition invalid_role :: "string \<Rightarrow> group_error" where
  "invalid_role message = error_invalid InvalidRole message"

abbreviation MAX_ROLE_NAME_BYTES :: nat where "MAX_ROLE_NAME_BYTES \<equiv> 64"
abbreviation PERMANENT_RELAY_OVERRIDE_ROLE :: role_name where
  "PERMANENT_RELAY_OVERRIDE_ROLE \<equiv> ''relay_owner''"

definition role_name_new :: "string \<Rightarrow> group_error + role_name" where
  "role_name_new value =
     (if value = [] then Err (invalid_role ''role name must not be empty'')
      else if length value > MAX_ROLE_NAME_BYTES
      then Err (invalid_role (''role name must be at most '' @ dec MAX_ROLE_NAME_BYTES @ '' bytes''))
      else if trim_changes value
      then Err (invalid_role ''role name must not contain leading or trailing whitespace'')
      else if list_ex is_control (utf8_chars value)
      then Err (invalid_role ''role name must not contain control characters'')
      else if list_ex is_whitespace (utf8_chars value)
      then Err (invalid_role ''role name must not contain whitespace'')
      else Ok value)"

definition is_permanent_relay_override :: "role_name \<Rightarrow> bool" where
  "is_permanent_relay_override r \<longleftrightarrow> r = PERMANENT_RELAY_OVERRIDE_ROLE"

definition valid_role_name :: "role_name \<Rightarrow> bool" where
  "valid_role_name r \<longleftrightarrow> r \<noteq> [] \<and> length r \<le> MAX_ROLE_NAME_BYTES \<and> \<not> trim_changes r
     \<and> \<not> list_ex is_control (utf8_chars r) \<and> \<not> list_ex is_whitespace (utf8_chars r)"

lemma role_name_new_Ok [simp]: "role_name_new v = Ok r \<longleftrightarrow> r = v \<and> valid_role_name v"
  by (auto simp: role_name_new_def valid_role_name_def)

lemma role_name_new_valid [simp]: "valid_role_name v \<Longrightarrow> role_name_new v = Ok v"
  by simp

section \<open>Capabilities\<close>

datatype capability =
    ManageMembers
  | ManageRoles
  | ManageMetadata
  | DeleteEvents
  | DeleteGroup
  | CreateInvites
  | ManageInvites
  | RelayOverride

definition capability_all :: "capability list" where
  "capability_all = [ManageMembers, ManageRoles, ManageMetadata, DeleteEvents, DeleteGroup,
     CreateInvites, ManageInvites, RelayOverride]"

text \<open>\<open>derive(Ord)\<close> orders by declaration.\<close>

fun capability_index :: "capability \<Rightarrow> nat" where
  "capability_index ManageMembers = 0"
| "capability_index ManageRoles = 1"
| "capability_index ManageMetadata = 2"
| "capability_index DeleteEvents = 3"
| "capability_index DeleteGroup = 4"
| "capability_index CreateInvites = 5"
| "capability_index ManageInvites = 6"
| "capability_index RelayOverride = 7"

lemma capability_index_inject: "capability_index a = capability_index b \<longleftrightarrow> a = b"
  by (cases a; cases b) simp_all

instantiation capability :: linorder
begin

definition less_eq_capability :: "capability \<Rightarrow> capability \<Rightarrow> bool" where
  "less_eq_capability a b \<longleftrightarrow> capability_index a \<le> capability_index b"

definition less_capability :: "capability \<Rightarrow> capability \<Rightarrow> bool" where
  "less_capability a b \<longleftrightarrow> capability_index a < capability_index b"

instance
  by standard (auto simp: less_eq_capability_def less_capability_def capability_index_inject
      dest: order.antisym)

end

fun capability_str :: "capability \<Rightarrow> string" where
  "capability_str ManageMembers = ''manage_members''"
| "capability_str ManageRoles = ''manage_roles''"
| "capability_str ManageMetadata = ''manage_metadata''"
| "capability_str DeleteEvents = ''delete_events''"
| "capability_str DeleteGroup = ''delete_group''"
| "capability_str CreateInvites = ''create_invites''"
| "capability_str ManageInvites = ''manage_invites''"
| "capability_str RelayOverride = ''relay_override''"

definition capability_from_label :: "string \<Rightarrow> group_error + capability" where
  "capability_from_label value =
     (if value = ''manage_members'' then Ok ManageMembers
      else if value = ''manage_roles'' then Ok ManageRoles
      else if value = ''manage_metadata'' then Ok ManageMetadata
      else if value = ''delete_events'' then Ok DeleteEvents
      else if value = ''delete_group'' then Ok DeleteGroup
      else if value = ''create_invites'' then Ok CreateInvites
      else if value = ''manage_invites'' then Ok ManageInvites
      else if value = ''relay_override'' then Ok RelayOverride
      else Err (error_invalid MissingCapability (''unknown group capability '' @ value)))"

lemma capability_from_label_str [simp]: "capability_from_label (capability_str c) = Ok c"
  by (cases c) (simp_all add: capability_from_label_def)

lemma UNIV_capability: "(UNIV :: capability set) = set capability_all"
proof -
  have "c \<in> set capability_all" for c by (cases c) (simp_all add: capability_all_def)
  then show ?thesis by auto
qed

lemma finite_capability [simp]: "finite (S :: capability set)"
proof (rule finite_subset)
  show "S \<subseteq> set capability_all" by (metis UNIV_capability subset_UNIV)
qed simp

text \<open>\<open>CapabilitySet\<close> is the \<open>BTreeSet\<close> of its capabilities.\<close>

type_synonym capability_set = "capability set"

definition capability_set_permanent_relay_override :: capability_set where
  "capability_set_permanent_relay_override = set capability_all"

definition capability_labels :: "capability_set \<Rightarrow> string list" where
  "capability_labels s = map capability_str (bs_iter s)"

definition capability_set_from_labels :: "string list \<Rightarrow> group_error + capability_set" where
  "capability_set_from_labels labels = map_ok set (traverse capability_from_label labels)"

lemma capability_labels_roundtrip [simp]:
  "capability_set_from_labels (capability_labels s) = Ok s"
proof -
  have "traverse capability_from_label (map capability_str cs) = Ok (map (\<lambda>c. c) cs)" for cs
    by (rule traverse_map_Ok) simp
  then show ?thesis
    by (simp add: capability_set_from_labels_def capability_labels_def)
qed

section \<open>Role definitions\<close>

record role_definition =
  rd_name :: role_name
  rd_capabilities :: capability_set
  rd_description :: "string option"

definition resolve_visit ::
  "(role_name, role_definition) btree \<Rightarrow> capability_set \<Rightarrow> role_name \<Rightarrow> group_error + capability_set" where
  "resolve_visit definitions resolved role =
     (if is_permanent_relay_override role
      then Ok (resolved \<union> capability_set_permanent_relay_override)
      else case bt_get definitions role of
        None \<Rightarrow> Err (error_restricted MissingCapability (''unknown group role '' @ role))
      | Some d \<Rightarrow> Ok (resolved \<union> rd_capabilities d))"

definition resolve_capabilities ::
  "role_definition list \<Rightarrow> role_name list \<Rightarrow> group_error + capability_set" where
  "resolve_capabilities definitions roles =
     (let definitions = bt_of_list (map (\<lambda>d. (rd_name d, d)) definitions)
      in try_fold (resolve_visit definitions) {} roles)"

text \<open>What a single role grants: the override role everything, another what its last definition says.\<close>

definition role_grant :: "role_definition list \<Rightarrow> role_name \<Rightarrow> capability_set option" where
  "role_grant definitions role =
     (if role = PERMANENT_RELAY_OVERRIDE_ROLE then Some UNIV
      else map_option rd_capabilities (find (\<lambda>d. rd_name d = role) (rev definitions)))"

lemma map_of_find_name:
  "map_of (map (\<lambda>d. (rd_name d, d)) ds) r = find (\<lambda>d. rd_name d = r) ds"
  by (induction ds) auto

lemma resolve_visit_grant:
  "resolve_visit (bt_of_list (map (\<lambda>d. (rd_name d, d)) ds)) s r =
     (case role_grant ds r of Some c \<Rightarrow> Ok (s \<union> c)
      | None \<Rightarrow> Err (error_restricted MissingCapability (''unknown group role '' @ r)))"
  by (auto simp: resolve_visit_def role_grant_def is_permanent_relay_override_def UNIV_capability
      capability_set_permanent_relay_override_def bt_get_of_list rev_map map_of_find_name
      split: option.splits)

lemma resolve_fold:
  "try_fold (resolve_visit (bt_of_list (map (\<lambda>d. (rd_name d, d)) ds))) s roles = Ok caps \<longleftrightarrow>
     list_all (\<lambda>r. role_grant ds r \<noteq> None) roles
     \<and> caps = s \<union> (\<Union>r\<in>set roles. the (role_grant ds r))"
proof (induction roles arbitrary: s)
  case Nil
  then show ?case by auto
next
  case (Cons r roles)
  show ?case
  proof (cases "role_grant ds r")
    case None
    then show ?thesis by (simp add: resolve_visit_grant [of ds s r])
  next
    case (Some c)
    have "resolve_visit (bt_of_list (map (\<lambda>d. (rd_name d, d)) ds)) s r = Ok (s \<union> c)"
      using Some by (simp add: resolve_visit_grant)
    with Some show ?thesis by (auto simp: Cons.IH)
  qed
qed

text \<open>
  Resolving roles is exact: it succeeds exactly when every role is the override role or
  has a definition, and then grants the union of what the roles grant, whatever their order or
  repetition; the override role grants all eight capabilities.
\<close>

theorem resolve_capabilities_exact:
  "(resolve_capabilities ds roles = Ok caps) =
     (list_all (\<lambda>r. role_grant ds r \<noteq> None) roles
      \<and> caps = \<Union> ((\<lambda>r. the (role_grant ds r)) ` set roles))
   \<and> resolve_capabilities ds [''relay_owner''] = Ok (set capability_all)"
proof -
  have "resolve_capabilities ds [''relay_owner''] = Ok UNIV"
    unfolding resolve_capabilities_def Let_def resolve_fold by (simp add: role_grant_def)
  then show ?thesis
    by (simp add: resolve_capabilities_def resolve_fold UNIV_capability)
qed

lemma resolve_capabilities_Nil [simp]: "resolve_capabilities ds [] = Ok {}"
  by (simp add: resolve_capabilities_def)

end
