(* ===== verification/Group_Projection.thy ===== *)
theory Group_Projection
  imports Group_Metadata Group_Roles
begin

text \<open>
  The group projection (\<open>crates/tangle_groups/src/projection.rs\<close>): the order tuple, the states of
  groups, members, roles, tombstones and event deletions, the operations that write them, the
  application of a canonical event, the rebuild from the event log and the storage keys.
  An operation on \<open>&mut self\<close> returns the new projection; every error of \<open>apply_canonical_event\<close>
  is raised before the first write, so an \<open>Err\<close> leaves the projection as it was.
\<close>

section \<open>Order tuples\<close>

type_synonym store_offset = u64

datatype projection_order_tuple =
  OrderTuple (ot_created_at: unix_timestamp) (ot_event_id: event_id) (ot_store_offset: store_offset)

text \<open>\<open>derive(Ord)\<close>: time first, then event id, then offset.\<close>

definition ot_key :: "projection_order_tuple \<Rightarrow> unix_timestamp \<times> event_id \<times> store_offset" where
  "ot_key t = (ot_created_at t, ot_event_id t, ot_store_offset t)"

lemma ot_key_inject: "ot_key a = ot_key b \<longleftrightarrow> a = b"
  by (cases a; cases b) (simp add: ot_key_def)

instantiation projection_order_tuple :: linorder
begin

definition less_eq_projection_order_tuple :: "projection_order_tuple \<Rightarrow> projection_order_tuple \<Rightarrow> bool" where
  "less_eq_projection_order_tuple a b \<longleftrightarrow> ot_key a \<le> ot_key b"

definition less_projection_order_tuple :: "projection_order_tuple \<Rightarrow> projection_order_tuple \<Rightarrow> bool" where
  "less_projection_order_tuple a b \<longleftrightarrow> ot_key a < ot_key b"

instance
  by standard (auto simp: less_eq_projection_order_tuple_def less_projection_order_tuple_def
      less_le_not_le ot_key_inject [symmetric] intro: order.antisym order.trans)

end

definition order_tuple_from_event_view :: "pocket_event \<Rightarrow> store_offset \<Rightarrow> group_error + projection_order_tuple" where
  "order_tuple_from_event_view e offset =
     and_then (view_id e) (\<lambda>id. Ok (OrderTuple (view_created_at e) id offset))"

section \<open>States\<close>

datatype group_lifecycle_state = Active | Deleted
datatype member_status = Member | Removed

record group_snapshot_ids =
  sn_metadata :: "event_id option"
  sn_admins :: "event_id option"
  sn_members :: "event_id option"
  sn_roles :: "event_id option"
  sn_state_39004 :: "event_id option"

definition snapshot_ids_empty :: group_snapshot_ids where
  "snapshot_ids_empty = \<lparr>sn_metadata = None, sn_admins = None, sn_members = None,
     sn_roles = None, sn_state_39004 = None\<rparr>"

definition set_for_kind :: "kind \<Rightarrow> event_id \<Rightarrow> group_snapshot_ids \<Rightarrow> group_snapshot_ids" where
  "set_for_kind k eid s =
     (if k = KIND_GROUP_METADATA then s\<lparr>sn_metadata := Some eid\<rparr>
      else if k = KIND_GROUP_ADMINS then s\<lparr>sn_admins := Some eid\<rparr>
      else if k = KIND_GROUP_MEMBERS then s\<lparr>sn_members := Some eid\<rparr>
      else if k = KIND_GROUP_ROLES then s\<lparr>sn_roles := Some eid\<rparr>
      else if k = KIND_GROUP_STATE_39004 then s\<lparr>sn_state_39004 := Some eid\<rparr>
      else s)"

record group_state =
  gst_id :: group_id
  gst_lifecycle :: group_lifecycle_state
  gst_metadata :: group_metadata
  gst_created_by :: public_key_hex
  gst_created_event_id :: event_id
  gst_created_tuple :: projection_order_tuple
  gst_metadata_tuple :: projection_order_tuple
  gst_deleted_at :: "unix_timestamp option"
  gst_delete_event_id :: "event_id option"
  gst_deleted_tuple :: "projection_order_tuple option"
  gst_snapshots :: group_snapshot_ids

definition group_state_new ::
  "group_id \<Rightarrow> group_metadata \<Rightarrow> public_key_hex \<Rightarrow> event_id \<Rightarrow> projection_order_tuple \<Rightarrow> group_state" where
  "group_state_new gid metadata created_by created_event_id created_tuple = \<lparr>
     gst_id = gid, gst_lifecycle = Active, gst_metadata = metadata, gst_created_by = created_by,
     gst_created_event_id = created_event_id, gst_created_tuple = created_tuple,
     gst_metadata_tuple = created_tuple, gst_deleted_at = None, gst_delete_event_id = None,
     gst_deleted_tuple = None, gst_snapshots = snapshot_ids_empty\<rparr>"

definition update_metadata :: "group_metadata \<Rightarrow> projection_order_tuple \<Rightarrow> group_state \<Rightarrow> group_state" where
  "update_metadata metadata tuple s =
     (if tuple \<ge> gst_metadata_tuple s
      then s\<lparr>gst_metadata := metadata, gst_metadata_tuple := tuple\<rparr> else s)"

definition mark_deleted ::
  "unix_timestamp \<Rightarrow> event_id \<Rightarrow> projection_order_tuple \<Rightarrow> group_state \<Rightarrow> group_state" where
  "mark_deleted deleted_at delete_event_id tuple s =
     (if (case gst_deleted_tuple s of None \<Rightarrow> True | Some current \<Rightarrow> tuple \<ge> current)
      then s\<lparr>gst_lifecycle := Deleted, gst_deleted_at := Some deleted_at,
             gst_delete_event_id := Some delete_event_id, gst_deleted_tuple := Some tuple\<rparr>
      else s)"

record member_state =
  ms_pubkey :: public_key_hex
  ms_status :: member_status
  ms_roles :: "role_name set"
  ms_last_event_id :: event_id
  ms_last_tuple :: projection_order_tuple

record projected_role =
  pr_definition :: role_definition
  pr_last_event_id :: event_id
  pr_last_tuple :: projection_order_tuple

record group_tombstone =
  ts_group_id :: group_id
  ts_delete_event_id :: event_id
  ts_deleted_at :: unix_timestamp
  ts_deleted_by :: public_key_hex
  ts_last_tuple :: projection_order_tuple

record group_event_deletion =
  ed_group_id :: group_id
  ed_target_event_id :: event_id
  ed_delete_event_id :: event_id
  ed_deleted_at :: unix_timestamp
  ed_deleted_by :: public_key_hex
  ed_last_tuple :: projection_order_tuple

abbreviation GROUP_PROJECTION_SCHEMA_VERSION :: u32 where "GROUP_PROJECTION_SCHEMA_VERSION \<equiv> 1"
abbreviation GROUP_POLICY_VERSION :: u32 where "GROUP_POLICY_VERSION \<equiv> 1"

record projection_checkpoint =
  cp_projection_version :: u32
  cp_policy_version :: u32
  cp_last_offset :: "store_offset option"
  cp_rebuilt_at :: unix_timestamp

definition checkpoint_current :: "store_offset option \<Rightarrow> unix_timestamp \<Rightarrow> projection_checkpoint" where
  "checkpoint_current last_offset rebuilt_at = \<lparr>
     cp_projection_version = GROUP_PROJECTION_SCHEMA_VERSION,
     cp_policy_version = GROUP_POLICY_VERSION,
     cp_last_offset = last_offset, cp_rebuilt_at = rebuilt_at\<rparr>"

definition matches_current_versions :: "projection_checkpoint \<Rightarrow> bool" where
  "matches_current_versions c \<longleftrightarrow>
     cp_projection_version c = GROUP_PROJECTION_SCHEMA_VERSION
     \<and> cp_policy_version c = GROUP_POLICY_VERSION"

section \<open>The projection\<close>

record group_projection =
  gp_groups :: "(group_id, group_state) btree"
  gp_members :: "(group_id \<times> public_key_hex, member_state) btree"
  gp_roles :: "(group_id \<times> role_name, projected_role) btree"
  gp_tombstones :: "(group_id, group_tombstone) btree"
  gp_event_deletions :: "(event_id, group_event_deletion) btree"
  gp_checkpoint :: "projection_checkpoint option"

definition projection_new :: group_projection where
  "projection_new = \<lparr>gp_groups = [], gp_members = [], gp_roles = [], gp_tombstones = [],
     gp_event_deletions = [], gp_checkpoint = None\<rparr>"

definition gp_group :: "group_projection \<Rightarrow> group_id \<Rightarrow> group_state option" where
  "gp_group p g = bt_get (gp_groups p) g"

definition gp_member :: "group_projection \<Rightarrow> group_id \<Rightarrow> public_key_hex \<Rightarrow> member_state option" where
  "gp_member p g pk = bt_get (gp_members p) (g, pk)"

definition gp_role :: "group_projection \<Rightarrow> group_id \<Rightarrow> role_name \<Rightarrow> projected_role option" where
  "gp_role p g r = bt_get (gp_roles p) (g, r)"

definition gp_tombstone :: "group_projection \<Rightarrow> group_id \<Rightarrow> group_tombstone option" where
  "gp_tombstone p g = bt_get (gp_tombstones p) g"

definition gp_event_deletion :: "group_projection \<Rightarrow> event_id \<Rightarrow> group_event_deletion option" where
  "gp_event_deletion p e = bt_get (gp_event_deletions p) e"

definition set_checkpoint :: "projection_checkpoint \<Rightarrow> group_projection \<Rightarrow> group_projection" where
  "set_checkpoint c p = p\<lparr>gp_checkpoint := Some c\<rparr>"

definition put_group :: "group_state \<Rightarrow> group_projection \<Rightarrow> group_projection" where
  "put_group s p = p\<lparr>gp_groups := bt_insert (gst_id s) s (gp_groups p)\<rparr>"

definition put_member :: "group_id \<Rightarrow> member_state \<Rightarrow> group_projection \<Rightarrow> group_projection" where
  "put_member g s p =
     (let key = (g, ms_pubkey s) in
      if (case bt_get (gp_members p) key of None \<Rightarrow> True
          | Some current \<Rightarrow> ms_last_tuple s \<ge> ms_last_tuple current)
      then p\<lparr>gp_members := bt_insert key s (gp_members p)\<rparr> else p)"

definition put_role :: "group_id \<Rightarrow> projected_role \<Rightarrow> group_projection \<Rightarrow> group_projection" where
  "put_role g r p =
     (let key = (g, rd_name (pr_definition r)) in
      if (case bt_get (gp_roles p) key of None \<Rightarrow> True
          | Some current \<Rightarrow> pr_last_tuple r \<ge> pr_last_tuple current)
      then p\<lparr>gp_roles := bt_insert key r (gp_roles p)\<rparr> else p)"

definition put_tombstone :: "group_tombstone \<Rightarrow> group_projection \<Rightarrow> group_projection" where
  "put_tombstone t p =
     (if (case bt_get (gp_tombstones p) (ts_group_id t) of None \<Rightarrow> True
          | Some current \<Rightarrow> ts_last_tuple t \<ge> ts_last_tuple current)
      then p\<lparr>gp_tombstones := bt_insert (ts_group_id t) t (gp_tombstones p)\<rparr> else p)"

definition put_event_deletion :: "group_event_deletion \<Rightarrow> group_projection \<Rightarrow> group_projection" where
  "put_event_deletion d p =
     (if (case bt_get (gp_event_deletions p) (ed_target_event_id d) of None \<Rightarrow> True
          | Some current \<Rightarrow> ed_last_tuple d \<ge> ed_last_tuple current)
      then p\<lparr>gp_event_deletions := bt_insert (ed_target_event_id d) d (gp_event_deletions p)\<rparr>
      else p)"

section \<open>Applying a canonical event\<close>

datatype projection_apply_outcome = Applied | Ignored | Skipped

text \<open>\<open>first_tag_value\<close>, despite its name, keeps the value of the last tag of that name.\<close>

definition first_tag_visit ::
  "string \<Rightarrow> string option \<Rightarrow> event_tag \<Rightarrow> group_error + string option" where
  "first_tag_visit name found tag =
     (if first_value tag \<noteq> Some name then Ok found
      else case view_indexed_pair tag of
        None \<Rightarrow> Err (error_invalid MalformedTargetTag (''malformed '' @ name @ '' target tag''))
      | Some (_, value) \<Rightarrow> Ok (Some value))"

definition first_tag_value :: "pocket_event \<Rightarrow> string \<Rightarrow> group_error + string" where
  "first_tag_value e name =
     and_then (visit_tags e (first_tag_visit name) None)
       (\<lambda>found. ok_or found (error_invalid MissingTargetTag (''missing '' @ name @ '' target tag'')))"

definition role_tag_visit :: "role_name set \<Rightarrow> event_tag \<Rightarrow> group_error + role_name set" where
  "role_tag_visit roles tag =
     (if first_value tag = Some ''role''
      then (case values_get tag 1 of
          Some value \<Rightarrow> map_ok (\<lambda>r. insert r roles) (role_name_new value)
        | None \<Rightarrow> Ok roles)
      else Ok roles)"

definition role_tags :: "pocket_event \<Rightarrow> group_error + role_name set" where
  "role_tags e = visit_tags e role_tag_visit {}"

definition target_error :: "string \<Rightarrow> string \<Rightarrow> group_error" where
  "target_error name reason =
     error_invalid MalformedTargetTag (''malformed '' @ name @ '' target tag: '' @ reason)"

definition apply_member_status ::
  "group_id \<Rightarrow> pocket_event \<Rightarrow> projection_order_tuple \<Rightarrow> member_status \<Rightarrow> group_projection \<Rightarrow>
   group_error + projection_apply_outcome \<times> group_projection" where
  "apply_member_status g e tuple status p =
     and_then (first_tag_value e ''p'') (\<lambda>target.
     and_then (map_err (target_error ''p'') (public_key_new target)) (\<lambda>pubkey.
     and_then (role_tags e) (\<lambda>roles.
     and_then (view_id e) (\<lambda>eid.
       let state = \<lparr>ms_pubkey = pubkey, ms_status = status, ms_roles = roles,
             ms_last_event_id = eid, ms_last_tuple = tuple\<rparr>
       in Ok (Applied, put_member g state p)))))"

definition apply_moderation_event ::
  "group_id \<Rightarrow> pocket_event \<Rightarrow> projection_order_tuple \<Rightarrow> group_limits_config \<Rightarrow> group_projection \<Rightarrow>
   group_error + projection_apply_outcome \<times> group_projection" where
  "apply_moderation_event g e tuple limits p =
     (if kind_u32 e = KIND_GROUP_CREATE_GROUP then
        and_then (parse_group_metadata e limits) (\<lambda>metadata.
        and_then (view_pubkey e) (\<lambda>pubkey.
        and_then (view_id e) (\<lambda>eid.
          let state = group_state_new g metadata pubkey eid tuple in
          if (case gp_group p g of None \<Rightarrow> True
              | Some current \<Rightarrow> gst_created_tuple state \<ge> gst_created_tuple current)
          then Ok (Applied, put_group state p) else Ok (Ignored, p))))
      else if kind_u32 e = KIND_GROUP_EDIT_METADATA then
        (case gp_group p g of
           None \<Rightarrow> Ok (Ignored, p)
         | Some grp \<Rightarrow> and_then (parse_group_metadata e limits) (\<lambda>metadata.
             Ok (Applied, p\<lparr>gp_groups := bt_insert g (update_metadata metadata tuple grp)
               (gp_groups p)\<rparr>)))
      else if kind_u32 e = KIND_GROUP_PUT_USER then apply_member_status g e tuple Member p
      else if kind_u32 e = KIND_GROUP_REMOVE_USER then apply_member_status g e tuple Removed p
      else if kind_u32 e = KIND_GROUP_DELETE_EVENT then
        and_then (first_tag_value e ''e'') (\<lambda>target.
        and_then (map_err (target_error ''e'') (event_id_new target)) (\<lambda>target_event_id.
        and_then (view_id e) (\<lambda>eid.
        and_then (view_pubkey e) (\<lambda>pubkey.
          let deletion = \<lparr>ed_group_id = g, ed_target_event_id = target_event_id,
                ed_delete_event_id = eid, ed_deleted_at = view_created_at e,
                ed_deleted_by = pubkey, ed_last_tuple = tuple\<rparr>
          in Ok (Applied, put_event_deletion deletion p)))))
      else if kind_u32 e = KIND_GROUP_DELETE_GROUP then
        and_then (view_id e) (\<lambda>eid.
        and_then (view_pubkey e) (\<lambda>pubkey.
          let tombstone = \<lparr>ts_group_id = g, ts_delete_event_id = eid,
                ts_deleted_at = view_created_at e, ts_deleted_by = pubkey, ts_last_tuple = tuple\<rparr>;
              p = (case gp_group p g of
                  Some grp \<Rightarrow> p\<lparr>gp_groups := bt_insert g
                    (mark_deleted (view_created_at e) eid tuple grp) (gp_groups p)\<rparr>
                | None \<Rightarrow> p)
          in if (case bt_get (gp_tombstones p) g of None \<Rightarrow> True
                 | Some current \<Rightarrow> tuple \<ge> ts_last_tuple current)
             then Ok (Applied, p\<lparr>gp_tombstones := bt_insert g tombstone (gp_tombstones p)\<rparr>)
             else Ok (Ignored, p)))
      else Ok (Ignored, p))"

definition apply_snapshot_event ::
  "group_id \<Rightarrow> kind \<Rightarrow> pocket_event \<Rightarrow> projection_order_tuple \<Rightarrow> group_limits_config \<Rightarrow> group_projection \<Rightarrow>
   group_error + projection_apply_outcome \<times> group_projection" where
  "apply_snapshot_event g k e tuple limits p =
     (if k = KIND_GROUP_METADATA then
        and_then (parse_group_metadata e limits) (\<lambda>metadata.
        and_then (view_id e) (\<lambda>eid.
          case gp_group p g of
            Some grp \<Rightarrow>
              let grp = update_metadata metadata tuple grp;
                  grp = grp\<lparr>gst_snapshots := set_for_kind k eid (gst_snapshots grp)\<rparr>
              in Ok (Applied, p\<lparr>gp_groups := bt_insert g grp (gp_groups p)\<rparr>)
          | None \<Rightarrow> and_then (view_pubkey e) (\<lambda>pubkey.
              let state = group_state_new g metadata pubkey eid tuple;
                  state = state\<lparr>gst_snapshots := set_for_kind k eid (gst_snapshots state)\<rparr>
              in Ok (Applied, put_group state p))))
      else case gp_group p g of
          Some grp \<Rightarrow> and_then (view_id e) (\<lambda>eid.
            Ok (Applied, p\<lparr>gp_groups := bt_insert g
              (grp\<lparr>gst_snapshots := set_for_kind k eid (gst_snapshots grp)\<rparr>) (gp_groups p)\<rparr>))
        | None \<Rightarrow> Ok (Applied, p))"

definition apply_canonical_event ::
  "pocket_event \<Rightarrow> store_offset \<Rightarrow> group_limits_config \<Rightarrow> group_projection \<Rightarrow>
   group_error + projection_apply_outcome \<times> group_projection" where
  "apply_canonical_event e offset limits p =
     and_then (classify_group_event e limits) (\<lambda>cls.
     and_then (order_tuple_from_event_view e offset) (\<lambda>tuple.
       case cls of
         NonGroup \<Rightarrow> Ok (Skipped, p)
       | NormalEvent _ \<Rightarrow> Ok (Ignored, p)
       | Moderation _ g \<Rightarrow> apply_moderation_event g e tuple limits p
       | RelayGeneratedSnapshot k g \<Rightarrow> apply_snapshot_event g k e tuple limits p))"

section \<open>Rebuilding\<close>

record canonical_group_event =
  ce_event :: pocket_event
  ce_store_offset :: store_offset

text \<open>\<open>tuple\<close> expects the id to be valid, which Pocket's hex printing guarantees.\<close>

definition ce_tuple :: "canonical_group_event \<Rightarrow> projection_order_tuple" where
  "ce_tuple c = OrderTuple (view_created_at (ce_event c)) (pe_id (ce_event c)) (ce_store_offset c)"

record projection_rebuild_report =
  rr_projection :: group_projection
  rr_applied_events :: nat
  rr_ignored_events :: nat
  rr_skipped_events :: nat
  rr_last_offset :: "store_offset option"

datatype group_recovery_readiness = Ready | FailedClosed string

definition readiness_from_projection_result :: "group_error + 'a \<Rightarrow> group_recovery_readiness" where
  "readiness_from_projection_result r =
     (case r of Inr _ \<Rightarrow> Ready | Inl error \<Rightarrow> FailedClosed (prefixed_message error))"

definition rebuild_step ::
  "group_limits_config \<Rightarrow> projection_rebuild_report \<Rightarrow> canonical_group_event \<Rightarrow>
   group_error + projection_rebuild_report" where
  "rebuild_step limits r item =
     (let last = (case rr_last_offset r of
            Some current \<Rightarrow> max current (ce_store_offset item) | None \<Rightarrow> ce_store_offset item)
      in and_then
        (apply_canonical_event (ce_event item) (ce_store_offset item) limits (rr_projection r))
        (\<lambda>(outcome, projection).
          let r = r\<lparr>rr_projection := projection, rr_last_offset := Some last\<rparr> in
          Ok (case outcome of
              Applied \<Rightarrow> r\<lparr>rr_applied_events := rr_applied_events r + 1\<rparr>
            | Ignored \<Rightarrow> r\<lparr>rr_ignored_events := rr_ignored_events r + 1\<rparr>
            | Skipped \<Rightarrow> r\<lparr>rr_skipped_events := rr_skipped_events r + 1\<rparr>)))"

definition rebuild_group_projection ::
  "canonical_group_event list \<Rightarrow> group_limits_config \<Rightarrow> unix_timestamp \<Rightarrow>
   group_error + projection_rebuild_report" where
  "rebuild_group_projection events limits rebuilt_at =
     (let events = sort_key ce_tuple events in
      and_then (try_fold (rebuild_step limits)
          \<lparr>rr_projection = projection_new, rr_applied_events = 0, rr_ignored_events = 0,
           rr_skipped_events = 0, rr_last_offset = None\<rparr> events)
        (\<lambda>r. Ok (r\<lparr>rr_projection := set_checkpoint
           (checkpoint_current (rr_last_offset r) rebuilt_at) (rr_projection r)\<rparr>)))"

section \<open>Storage keys\<close>

definition prefixed_key :: "string \<Rightarrow> string \<Rightarrow> string option \<Rightarrow> string" where
  "prefixed_key prefix first second =
     prefix @ [CHR 0x00] @ first
       @ (case second of Some s \<Rightarrow> CHR 0x00 # s | None \<Rightarrow> [])"

definition group_current_key :: "group_id \<Rightarrow> string" where
  "group_current_key g = prefixed_key ''group'' g None"

definition member_current_key :: "group_id \<Rightarrow> public_key_hex \<Rightarrow> string" where
  "member_current_key g pk = prefixed_key ''member'' g (Some pk)"

definition role_current_key :: "group_id \<Rightarrow> role_name \<Rightarrow> string" where
  "role_current_key g r = prefixed_key ''role'' g (Some r)"

definition tombstone_key :: "group_id \<Rightarrow> string" where
  "tombstone_key g = prefixed_key ''tombstone'' g None"

definition event_deletion_key :: "event_id \<Rightarrow> string" where
  "event_deletion_key e = prefixed_key ''event_deletion'' e None"

definition projection_checkpoint_key :: string where
  "projection_checkpoint_key = ''checkpoint'' @ [CHR 0x00] @ ''groups''"

end
