(* ===== verification/Projection_Facts.thy ===== *)
theory Projection_Facts
  imports Group_Projection
begin

text \<open>
  What the group projection guarantees: its last-writer-wins maps (the locale \<open>lww_map\<close>,
  interpreted on the four \<open>put_...\<close> operations) do not depend on the order of their updates, the
  rebuild from the log agrees with applying events one at a time, the projection invariant is
  kept by every event, and the storage keys do not collide.
\<close>

section \<open>Last-writer-wins maps\<close>

locale lww_map =
  fixes put :: "'x \<Rightarrow> 's \<Rightarrow> 's"
    and entries :: "'s \<Rightarrow> ('k::linorder, 'v) btree"
    and key :: "'x \<Rightarrow> 'k"
    and val :: "'x \<Rightarrow> 'v"
    and stamp :: "'v \<Rightarrow> 't::linorder"
  assumes get_put: "bt_get (entries (put x s)) k =
      (if k = key x \<and> (case bt_get (entries s) k of None \<Rightarrow> True | Some c \<Rightarrow> stamp c \<le> stamp (val x))
       then Some (val x) else bt_get (entries s) k)"
    and wf_put: "bt_wf (entries s) \<Longrightarrow> bt_wf (entries (put x s))"
begin

definition pick :: "'v option \<Rightarrow> 'v \<Rightarrow> 'v option" where
  "pick c v = (case c of None \<Rightarrow> Some v | Some w \<Rightarrow> if stamp w \<le> stamp v then Some v else Some w)"

lemma get_put_pick:
  "bt_get (entries (put x s)) k =
     (if k = key x then pick (bt_get (entries s) k) (val x) else bt_get (entries s) k)"
  by (auto simp: get_put pick_def split: option.splits)

lemma wf_fold: "bt_wf (entries s) \<Longrightarrow> bt_wf (entries (fold put xs s))"
  by (induction xs arbitrary: s) (auto simp: wf_put)

lemma get_fold:
  "bt_get (entries (fold put xs s)) k =
     fold (\<lambda>v c. pick c v) (map val (filter (\<lambda>x. key x = k) xs)) (bt_get (entries s) k)"
  by (induction xs arbitrary: s) (auto simp: get_put_pick)

lemma pick_commute: "(stamp v = stamp w \<Longrightarrow> v = w) \<Longrightarrow> pick (pick c v) w = pick (pick c w) v"
  by (cases "stamp v = stamp w") (auto simp: pick_def split: option.splits)

lemma fold_permute:
  assumes "mset xs = mset ys" and "bt_wf (entries s)"
    and ties: "\<And>x y. x \<in> set xs \<Longrightarrow> y \<in> set xs \<Longrightarrow> stamp (val x) = stamp (val y) \<Longrightarrow> val x = val y"
  shows "entries (fold put xs s) = entries (fold put ys s)"
proof (rule bt_wf_extensional)
  fix k
  let ?vs = "\<lambda>xs. map val (filter (\<lambda>x. key x = k) xs)"
  have "fold (\<lambda>v c. pick c v) (?vs xs) = fold (\<lambda>v c. pick c v) (?vs ys)"
  proof (rule fold_multiset_equiv)
    show "mset (?vs xs) = mset (?vs ys)" by (simp only: mset_map mset_filter assms(1))
    show "(\<lambda>c. pick c v) \<circ> (\<lambda>c. pick c w) = (\<lambda>c. pick c w) \<circ> (\<lambda>c. pick c v)"
      if "v \<in> set (?vs xs)" and "w \<in> set (?vs xs)" for v w
      using that ties by (auto intro!: ext pick_commute)
  qed
  then show "bt_get (entries (fold put xs s)) k = bt_get (entries (fold put ys s)) k"
    by (simp add: get_fold)
qed (use assms(2) wf_fold in auto)

text \<open>An update that was applied once changes nothing when it is applied again.\<close>

lemma put_idempotent:
  "bt_wf (entries s) \<Longrightarrow> entries (put x (put x s)) = entries (put x s)"
  by (rule bt_wf_extensional) (auto simp: wf_put get_put_pick pick_def split: option.splits)

text \<open>The stamp stored under a key never decreases.\<close>

lemma put_monotone:
  "bt_get (entries s) k = Some v \<Longrightarrow> \<exists>w. bt_get (entries (put x s)) k = Some w \<and> stamp v \<le> stamp w"
  by (auto simp: get_put)

lemma fold_monotone:
  "bt_get (entries s) k = Some v \<Longrightarrow> \<exists>w. bt_get (entries (fold put xs s)) k = Some w \<and> stamp v \<le> stamp w"
proof (induction xs arbitrary: s v)
  case Nil
  then show ?case by auto
next
  case (Cons x xs)
  obtain u where "bt_get (entries (put x s)) k = Some u" and "stamp v \<le> stamp u"
    using put_monotone [OF Cons.prems] by blast
  with Cons.IH [of "put x s" u] show ?case by fastforce
qed

end

interpretation member_map: lww_map "\<lambda>(g, m). put_member g m" gp_members
    "\<lambda>(g, m). (g, ms_pubkey m)" snd ms_last_tuple
  by unfold_locales
     (auto simp: put_member_def Let_def bt_get_insert bt_wf_insert split: option.splits if_split_asm if_split)

interpretation role_map: lww_map "\<lambda>(g, r). put_role g r" gp_roles
    "\<lambda>(g, r). (g, rd_name (pr_definition r))" snd pr_last_tuple
  by unfold_locales
     (auto simp: put_role_def Let_def bt_get_insert bt_wf_insert split: option.splits if_split_asm if_split)

interpretation tombstone_map: lww_map put_tombstone gp_tombstones ts_group_id "\<lambda>t. t" ts_last_tuple
  by unfold_locales
     (auto simp: put_tombstone_def bt_get_insert bt_wf_insert split: option.splits if_split_asm if_split)

interpretation deletion_map: lww_map put_event_deletion gp_event_deletions ed_target_event_id
    "\<lambda>d. d" ed_last_tuple
  by unfold_locales
     (auto simp: put_event_deletion_def bt_get_insert bt_wf_insert split: option.splits if_split_asm if_split)

section \<open>What an event updates\<close>

text \<open>\<open>first_tag_value\<close> finds the target that the structural gate validated.\<close>

lemma first_tag_value_gate: "first_tag_value e n = require_indexed_tag_value e n"
proof -
  have "first_tag_visit n = require_indexed_visit n"
    by (intro ext) (simp add: first_tag_visit_def require_indexed_visit_def)
  then show ?thesis by (simp add: first_tag_value_def require_indexed_tag_value_def)
qed

lemma map_ok_and_then: "map_ok f (and_then r g) = and_then r (\<lambda>x. map_ok f (g x))"
  by (cases r) auto

definition member_state_from ::
  "pocket_event \<Rightarrow> projection_order_tuple \<Rightarrow> member_status \<Rightarrow> group_error + member_state" where
  "member_state_from e tuple status =
     and_then (first_tag_value e ''p'') (\<lambda>target.
     and_then (map_err (target_error ''p'') (public_key_new target)) (\<lambda>pubkey.
     and_then (role_tags e) (\<lambda>roles.
     and_then (view_id e) (\<lambda>eid.
       Ok \<lparr>ms_pubkey = pubkey, ms_status = status, ms_roles = roles,
             ms_last_event_id = eid, ms_last_tuple = tuple\<rparr>))))"

lemma apply_member_status_alt:
  "apply_member_status g e tuple status p =
     map_ok (\<lambda>s. (Applied, put_member g s p)) (member_state_from e tuple status)"
  by (simp add: apply_member_status_def member_state_from_def Let_def map_ok_and_then)

definition event_group :: "group_limits_config \<Rightarrow> canonical_group_event \<Rightarrow> group_id option" where
  "event_group limits c =
     (case classify_group_event (ce_event c) limits of
        Ok (Moderation _ g) \<Rightarrow> Some g
      | _ \<Rightarrow> None)"

definition member_update ::
  "group_limits_config \<Rightarrow> canonical_group_event \<Rightarrow> (group_id \<times> member_state) option" where
  "member_update limits c =
     (case event_group limits c of
        None \<Rightarrow> None
      | Some g \<Rightarrow>
          let k = kind_u32 (ce_event c) in
          if k = KIND_GROUP_PUT_USER \<or> k = KIND_GROUP_REMOVE_USER
          then (case member_state_from (ce_event c) (ce_tuple c)
                  (if k = KIND_GROUP_PUT_USER then Member else Removed) of
              Ok s \<Rightarrow> Some (g, s) | Err _ \<Rightarrow> None)
          else None)"

definition tombstone_update ::
  "group_limits_config \<Rightarrow> canonical_group_event \<Rightarrow> group_tombstone option" where
  "tombstone_update limits c =
     (case event_group limits c of
        None \<Rightarrow> None
      | Some g \<Rightarrow>
          if kind_u32 (ce_event c) = KIND_GROUP_DELETE_GROUP
          then Some \<lparr>ts_group_id = g, ts_delete_event_id = pe_id (ce_event c),
            ts_deleted_at = view_created_at (ce_event c), ts_deleted_by = pe_pubkey (ce_event c),
            ts_last_tuple = ce_tuple c\<rparr>
          else None)"

definition deletion_update ::
  "group_limits_config \<Rightarrow> canonical_group_event \<Rightarrow> group_event_deletion option" where
  "deletion_update limits c =
     (case event_group limits c of
        None \<Rightarrow> None
      | Some g \<Rightarrow>
          if kind_u32 (ce_event c) = KIND_GROUP_DELETE_EVENT
          then (case first_tag_value (ce_event c) ''e'' of
              Ok target \<Rightarrow> Some \<lparr>ed_group_id = g, ed_target_event_id = target,
                ed_delete_event_id = pe_id (ce_event c),
                ed_deleted_at = view_created_at (ce_event c),
                ed_deleted_by = pe_pubkey (ce_event c), ed_last_tuple = ce_tuple c\<rparr>
            | Err _ \<Rightarrow> None)
          else None)"

definition opt_apply :: "('x \<Rightarrow> 's \<Rightarrow> 's) \<Rightarrow> 'x option \<Rightarrow> 's \<Rightarrow> 's" where
  "opt_apply f x s = (case x of None \<Rightarrow> s | Some y \<Rightarrow> f y s)"

definition apply_event ::
  "group_limits_config \<Rightarrow> group_projection \<Rightarrow> canonical_group_event \<Rightarrow> group_error + group_projection" where
  "apply_event limits p c =
     map_ok snd (apply_canonical_event (ce_event c) (ce_store_offset c) limits p)"

lemma put_member_other [simp]:
  "gp_groups (put_member g m p) = gp_groups p" "gp_tombstones (put_member g m p) = gp_tombstones p"
  "gp_event_deletions (put_member g m p) = gp_event_deletions p"
  "gp_roles (put_member g m p) = gp_roles p"
  by (simp_all add: put_member_def Let_def)

lemma put_deletion_other [simp]:
  "gp_groups (put_event_deletion d p) = gp_groups p"
  "gp_tombstones (put_event_deletion d p) = gp_tombstones p"
  "gp_members (put_event_deletion d p) = gp_members p"
  "gp_roles (put_event_deletion d p) = gp_roles p"
  by (simp_all add: put_event_deletion_def)

lemma put_group_other [simp]:
  "gp_members (put_group s p) = gp_members p" "gp_tombstones (put_group s p) = gp_tombstones p"
  "gp_event_deletions (put_group s p) = gp_event_deletions p" "gp_roles (put_group s p) = gp_roles p"
  "gp_groups (put_group s p) = bt_insert (gst_id s) s (gp_groups p)"
  by (simp_all add: put_group_def)

lemma apply_snapshot_other:
  assumes "apply_snapshot_event g k e t limits p = Ok (out, q)"
  shows "gp_members q = gp_members p \<and> gp_tombstones q = gp_tombstones p
    \<and> gp_event_deletions q = gp_event_deletions p \<and> gp_roles q = gp_roles p"
  using assms by (auto simp: apply_snapshot_event_def result_iffs Let_def split: if_splits option.splits)

lemma order_tuple_Ok [simp]:
  "order_tuple_from_event_view (ce_event c) (ce_store_offset c) = Ok t \<longleftrightarrow>
     valid_event_id (pe_id (ce_event c)) \<and> t = ce_tuple c"
  by (auto simp: order_tuple_from_event_view_def result_iffs ce_tuple_def)

lemma event_group_kind: "event_group limits c = Some g \<Longrightarrow> is_moderation_kind (kind_u32 (ce_event c))"
  by (auto simp: event_group_def classify_group_event_def result_iffs
      split: sum.splits group_event_class.splits if_splits option.splits)

lemma apply_canonical_group:
  assumes "apply_canonical_event (ce_event c) (ce_store_offset c) limits p = Ok (out, q)"
  shows "(case event_group limits c of
      Some g \<Rightarrow> apply_moderation_event g (ce_event c) (ce_tuple c) limits p = Ok (out, q)
    | None \<Rightarrow> gp_members q = gp_members p \<and> gp_tombstones q = gp_tombstones p
        \<and> gp_event_deletions q = gp_event_deletions p \<and> gp_roles q = gp_roles p)
    \<and> valid_event_id (pe_id (ce_event c))"
proof -
  obtain cls where cls: "classify_group_event (ce_event c) limits = Ok cls"
    and ok: "valid_event_id (pe_id (ce_event c))"
    and rest: "(case cls of NonGroup \<Rightarrow> Ok (Skipped, p) | NormalEvent _ \<Rightarrow> Ok (Ignored, p)
       | Moderation _ g \<Rightarrow> apply_moderation_event g (ce_event c) (ce_tuple c) limits p
       | RelayGeneratedSnapshot k g \<Rightarrow> apply_snapshot_event g k (ce_event c) (ce_tuple c) limits p)
      = Ok (out, q)"
    using assms by (auto simp: apply_canonical_event_def and_then_Ok_iff)
  then show ?thesis
    by (cases cls) (auto simp: event_group_def dest: apply_snapshot_other)
qed

lemma apply_event_updates:
  assumes "apply_canonical_event (ce_event c) (ce_store_offset c) limits p = Ok (out, q)"
  shows "gp_members q = gp_members (opt_apply (\<lambda>(g, m). put_member g m) (member_update limits c) p)"
    "gp_tombstones q = gp_tombstones (opt_apply put_tombstone (tombstone_update limits c) p)"
    "gp_event_deletions q = gp_event_deletions (opt_apply put_event_deletion (deletion_update limits c) p)"
proof -
  have id: "valid_event_id (pe_id (ce_event c))"
    using apply_canonical_group [OF assms] by simp
  have all: "gp_members q = gp_members (opt_apply (\<lambda>(g, m). put_member g m) (member_update limits c) p)
    \<and> gp_tombstones q = gp_tombstones (opt_apply put_tombstone (tombstone_update limits c) p)
    \<and> gp_event_deletions q = gp_event_deletions (opt_apply put_event_deletion (deletion_update limits c) p)"
  proof (cases "event_group limits c")
    case None
    then show ?thesis
      using apply_canonical_group [OF assms]
      by (simp add: member_update_def tombstone_update_def deletion_update_def opt_apply_def)
  next
    case (Some g)
    have mod: "apply_moderation_event g (ce_event c) (ce_tuple c) limits p = Ok (out, q)"
      using apply_canonical_group [OF assms] Some by simp
    let ?k = "kind_u32 (ce_event c)"
    consider "?k = 9000" | "?k = 9001" | "?k = 9005" | "?k = 9008" | "?k \<notin> {9000, 9001, 9005, 9008}"
      by blast
    then show ?thesis
    proof cases
      case 1
      then show ?thesis
        using mod by (auto simp: apply_moderation_event_def apply_member_status_alt map_ok_Ok_iff
            member_update_def tombstone_update_def deletion_update_def opt_apply_def Some)
    next
      case 2
      then show ?thesis
        using mod by (auto simp: apply_moderation_event_def apply_member_status_alt map_ok_Ok_iff
            member_update_def tombstone_update_def deletion_update_def opt_apply_def Some)
    next
      case 3
      then show ?thesis
        using mod by (auto simp: apply_moderation_event_def and_then_Ok_iff Let_def
            member_update_def tombstone_update_def deletion_update_def opt_apply_def Some)
    next
      case 4
      then show ?thesis
        using mod id by (auto simp: apply_moderation_event_def and_then_Ok_iff Let_def
            member_update_def tombstone_update_def deletion_update_def opt_apply_def Some
            put_tombstone_def split: option.splits if_splits)
    next
      case 5
      then show ?thesis
        using mod by (auto simp: apply_moderation_event_def and_then_Ok_iff Let_def
            member_update_def tombstone_update_def deletion_update_def opt_apply_def Some
            split: option.splits if_splits)
    qed
  qed
  then show "gp_members q = gp_members (opt_apply (\<lambda>(g, m). put_member g m) (member_update limits c) p)"
    "gp_tombstones q = gp_tombstones (opt_apply put_tombstone (tombstone_update limits c) p)"
    "gp_event_deletions q = gp_event_deletions (opt_apply put_event_deletion (deletion_update limits c) p)"
    by simp_all
qed

text \<open>Applying a list of events is folding the updates they carry.\<close>

definition apply_events ::
  "group_limits_config \<Rightarrow> canonical_group_event list \<Rightarrow> group_projection \<Rightarrow> group_error + group_projection" where
  "apply_events limits cs p = try_fold (apply_event limits) p cs"

lemma fold_update_cong:
  assumes step: "\<And>p q c. f p c = Ok q \<Longrightarrow> get q = get (opt_apply put (upd c) p)"
    and cong: "\<And>x p q. get p = get q \<Longrightarrow> get (put x p) = get (put x q)"
  shows "try_fold f p cs = Ok q \<Longrightarrow> get p = get p' \<Longrightarrow>
    get q = get (fold put (List.map_filter upd cs) p')"
proof (induction cs arbitrary: p p')
  case Nil
  then show ?case by (simp add: List.map_filter_def)
next
  case (Cons c cs)
  obtain r where r: "f p c = Ok r" and rest: "try_fold f r cs = Ok q"
    using Cons.prems(1) by (auto simp: and_then_Ok_iff)
  have eq: "get r = get (opt_apply put (upd c) p')"
    using step [OF r] cong [OF Cons.prems(2)] Cons.prems(2)
    by (cases "upd c") (auto simp: opt_apply_def)
  have "fold put (List.map_filter upd (c # cs)) p' = fold put (List.map_filter upd cs) (opt_apply put (upd c) p')"
    by (cases "upd c") (auto simp: opt_apply_def List.map_filter_simps)
  with Cons.IH [OF rest eq] show ?case by simp
qed

lemma apply_events_updates:
  assumes "apply_events limits cs p = Ok q"
  shows "gp_members q = gp_members (fold (\<lambda>(g, m). put_member g m) (List.map_filter (member_update limits) cs) p)"
    "gp_tombstones q = gp_tombstones (fold put_tombstone (List.map_filter (tombstone_update limits) cs) p)"
    "gp_event_deletions q =
       gp_event_deletions (fold put_event_deletion (List.map_filter (deletion_update limits) cs) p)"
proof -
  have step: "gp_members q = gp_members (opt_apply (\<lambda>(g, m). put_member g m) (member_update limits c) p)"
    "gp_tombstones q = gp_tombstones (opt_apply put_tombstone (tombstone_update limits c) p)"
    "gp_event_deletions q = gp_event_deletions (opt_apply put_event_deletion (deletion_update limits c) p)"
    if "apply_event limits p c = Ok q" for p q c
    using that apply_event_updates [of c limits p _ q] by (auto simp: apply_event_def map_ok_Ok_iff)
  note fold = assms [unfolded apply_events_def]
  show "gp_members q = gp_members (fold (\<lambda>(g, m). put_member g m) (List.map_filter (member_update limits) cs) p)"
    by (rule fold_update_cong [where get = gp_members, OF step(1) _ fold]) (auto simp: put_member_def Let_def)
  show "gp_tombstones q = gp_tombstones (fold put_tombstone (List.map_filter (tombstone_update limits) cs) p)"
    by (rule fold_update_cong [where get = gp_tombstones, OF step(2) _ fold]) (auto simp: put_tombstone_def)
  show "gp_event_deletions q =
       gp_event_deletions (fold put_event_deletion (List.map_filter (deletion_update limits) cs) p)"
    by (rule fold_update_cong [where get = gp_event_deletions, OF step(3) _ fold]) (auto simp: put_event_deletion_def)
qed

section \<open>Convergence\<close>

lemma rebuild_fold_apply:
  assumes "try_fold (rebuild_step limits) r cs = Ok r'"
  shows "apply_events limits cs (rr_projection r) = Ok (rr_projection r')"
  using assms
proof (induction cs arbitrary: r)
  case Nil
  then show ?case by (simp add: apply_events_def)
next
  case (Cons c cs)
  obtain s where s: "rebuild_step limits r c = Ok s" and rest: "try_fold (rebuild_step limits) s cs = Ok r'"
    using Cons.prems by (auto simp: and_then_Ok_iff)
  obtain out q where "apply_canonical_event (ce_event c) (ce_store_offset c) limits (rr_projection r)
      = Ok (out, q)"
    using s by (auto simp: rebuild_step_def Let_def and_then_Ok_iff)
  then have "apply_event limits (rr_projection r) c = Ok (rr_projection s)"
    using s by (cases out) (auto simp: rebuild_step_def Let_def apply_event_def)
  with Cons.IH [OF rest] show ?case by (simp add: apply_events_def)
qed

lemma rebuild_apply_events:
  assumes "rebuild_group_projection cs limits t = Ok r"
  obtains p where "apply_events limits (sort_key ce_tuple cs) projection_new = Ok p"
    and "rr_projection r = set_checkpoint (checkpoint_current (rr_last_offset r) t) p"
  using assms
  by (auto simp: rebuild_group_projection_def Let_def and_then_Ok_iff dest!: rebuild_fold_apply)

lemma updates_tuple:
  "member_update limits c = Some u \<Longrightarrow> ms_last_tuple (snd u) = ce_tuple c"
  "tombstone_update limits c = Some w \<Longrightarrow> ts_last_tuple w = ce_tuple c"
  "deletion_update limits c = Some d \<Longrightarrow> ed_last_tuple d = ce_tuple c"
  by (auto simp: member_update_def tombstone_update_def deletion_update_def member_state_from_def
      Let_def and_then_Ok_iff split: option.splits if_splits sum.splits)

lemma map_filter_ties:
  assumes "inj_on ce_tuple (set cs)" and "\<And>c u. upd c = Some u \<Longrightarrow> stamp u = ce_tuple c"
    and "x \<in> set (List.map_filter upd cs)" and "y \<in> set (List.map_filter upd cs)" and "stamp x = stamp y"
  shows "x = y"
proof -
  obtain c d where "c \<in> set cs" "upd c = Some x" "d \<in> set cs" "upd d = Some y"
    using assms(3,4) by (auto simp: List.map_filter_def)
  moreover from this have "ce_tuple c = ce_tuple d" using assms(2,5) by metis
  ultimately show ?thesis using assms(1) by (metis inj_onD option.inject)
qed

lemma mset_map_filter: "mset cs = mset ds \<Longrightarrow> mset (List.map_filter f cs) = mset (List.map_filter f ds)"
  by (simp only: List.map_filter_def mset_map mset_filter)

lemma apply_events_permute:
  assumes "apply_events limits cs p = Ok q" and "apply_events limits ds p = Ok r"
    and perm: "mset cs = mset ds" and inj: "inj_on ce_tuple (set cs)"
    and wf: "bt_wf (gp_members p)" "bt_wf (gp_tombstones p)" "bt_wf (gp_event_deletions p)"
  shows "gp_members q = gp_members r \<and> gp_tombstones q = gp_tombstones r
    \<and> gp_event_deletions q = gp_event_deletions r"
proof (intro conjI)
  note upd = apply_events_updates [OF assms(1)] apply_events_updates [OF assms(2)]
  show "gp_members q = gp_members r" unfolding upd
  proof (rule member_map.fold_permute [OF mset_map_filter [OF perm] wf(1)])
    show "snd x = snd y" if "x \<in> set (List.map_filter (member_update limits) cs)"
      and "y \<in> set (List.map_filter (member_update limits) cs)"
      and "ms_last_tuple (snd x) = ms_last_tuple (snd y)" for x y
      using map_filter_ties [where stamp = "\<lambda>u. ms_last_tuple (snd u)", OF inj _ that(1,2)]
        updates_tuple(1) [of limits] that(3) by simp
  qed
  show "gp_tombstones q = gp_tombstones r" unfolding upd
    by (rule tombstone_map.fold_permute [OF mset_map_filter [OF perm] wf(2)])
       (rule map_filter_ties [OF inj updates_tuple(2)])
  show "gp_event_deletions q = gp_event_deletions r" unfolding upd
    by (rule deletion_map.fold_permute [OF mset_map_filter [OF perm] wf(3)])
       (rule map_filter_ties [OF inj updates_tuple(3)])
qed

lemma projection_new_wf [simp]:
  "bt_wf (gp_groups projection_new)" "bt_wf (gp_members projection_new)"
  "bt_wf (gp_roles projection_new)" "bt_wf (gp_tombstones projection_new)"
  "bt_wf (gp_event_deletions projection_new)"
  by (simp_all add: projection_new_def)

text \<open>
  Claim C3. The log converges: applying the canonical events one at a time, in whatever order they
  arrive, gives the members, tombstones and event deletions of a rebuild from the sorted log,
  when no two events share an order tuple.
\<close>

theorem incremental_apply_converges:
  assumes "apply_events limits cs projection_new = Ok p"
    and "rebuild_group_projection ds limits t = Ok r"
    and "mset cs = mset ds" and "distinct (map ce_tuple cs)"
  shows "gp_members p = gp_members (rr_projection r)
    \<and> gp_tombstones p = gp_tombstones (rr_projection r)
    \<and> gp_event_deletions p = gp_event_deletions (rr_projection r)"
proof -
  obtain q where q: "apply_events limits (sort_key ce_tuple ds) projection_new = Ok q"
    and r: "rr_projection r = set_checkpoint (checkpoint_current (rr_last_offset r) t) q"
    using rebuild_apply_events [OF assms(2)] .
  have "inj_on ce_tuple (set cs)" using assms(4) by (simp add: distinct_map)
  with apply_events_permute [OF assms(1) q] assms(3) show ?thesis
    by (simp add: r set_checkpoint_def)
qed

text \<open>
  A rebuild does not depend on the order in which the log is read: any two orders of the
  same events, with pairwise different order tuples, give the same result, error or report.
\<close>

theorem rebuild_order_independent:
  assumes "mset cs = mset ds" and "distinct (map ce_tuple cs)"
  shows "rebuild_group_projection cs limits t = rebuild_group_projection ds limits t"
proof -
  have "inj_on ce_tuple (set cs)" using assms(2) by (simp add: distinct_map)
  then have "sort_key ce_tuple cs = sort_key ce_tuple ds"
    using assms mset_eq_imp_distinct_iff [of "map ce_tuple cs" "map ce_tuple (sort_key ce_tuple cs)"]
      mset_eq_imp_distinct_iff [of "map ce_tuple cs" "map ce_tuple (sort_key ce_tuple ds)"]
      mset_eq_setD [OF assms(1)]
    by (intro map_sorted_distinct_set_unique [of ce_tuple]) auto
  then show ?thesis by (simp add: rebuild_group_projection_def)
qed

definition sample_delete :: "store_offset \<Rightarrow> canonical_group_event" where
  "sample_delete off = \<lparr>ce_event = sample_pocket_event 9008 [[''h'', ''welcome'']], ce_store_offset = off\<rparr>"

lemma sample_delete_simps [simp]:
  "ce_event (sample_delete off) = sample_pocket_event 9008 [[''h'', ''welcome'']]"
  "ce_store_offset (sample_delete off) = off"
  by (simp_all add: sample_delete_def)

lemma sample_delete_tuples: "distinct (map ce_tuple [sample_delete 2, sample_delete 1])"
  by (simp add: ce_tuple_def)

lemma apply_delete_total:
  "\<exists>out q. apply_canonical_event (ce_event (sample_delete off)) off group_limits_default p = Ok (out, q)"
proof -
  have "pocket_event_ok (ce_event (sample_delete off))"
    by (simp add: sample_pocket_event_ok)
  moreover have "classify_group_event (ce_event (sample_delete off)) group_limits_default
      = Ok (Moderation 9008 ''welcome'')"
    using sample_moderation_class [of "[]" 9008] by (simp add: named_values_def kind_set_iffs)
  moreover have "kind_u32 (ce_event (sample_delete off)) = 9008" by simp
  ultimately show ?thesis
    by (simp add: apply_canonical_event_def order_tuple_from_event_view_def apply_moderation_event_def
        Let_def del: sample_delete_simps split: option.split)
qed

lemma apply_deletes_total:
  "\<exists>q. apply_events group_limits_default (map sample_delete offs) p = Ok q"
proof (induction offs arbitrary: p)
  case Nil
  then show ?case by (simp add: apply_events_def)
next
  case (Cons off offs)
  obtain out q where "apply_canonical_event (ce_event (sample_delete off)) off group_limits_default p = Ok (out, q)"
    using apply_delete_total by blast
  then have "apply_event group_limits_default p (sample_delete off) = Ok q"
    by (simp add: apply_event_def)
  with Cons.IH [of q] show ?case by (simp add: apply_events_def)
qed

lemma rebuild_deletes_total:
  "\<exists>r. rebuild_group_projection [sample_delete 1, sample_delete 2] group_limits_default t = Ok r"
proof -
  have step: "\<exists>s. rebuild_step group_limits_default r (sample_delete off) = Ok s" for r off
  proof -
    obtain out q where "apply_canonical_event (ce_event (sample_delete off)) off group_limits_default
        (rr_projection r) = Ok (out, q)"
      using apply_delete_total by blast
    then show ?thesis by (simp add: rebuild_step_def Let_def)
  qed
  have fold: "\<exists>s. try_fold (rebuild_step group_limits_default) r (map sample_delete offs) = Ok s" for r offs
  proof (induction offs arbitrary: r)
    case (Cons off offs)
    obtain s where "rebuild_step group_limits_default r (sample_delete off) = Ok s" using step by blast
    with Cons.IH [of s] show ?case by simp
  qed simp
  have "sort_key ce_tuple [sample_delete 1, sample_delete 2] = [sample_delete 1, sample_delete 2]
      \<or> sort_key ce_tuple [sample_delete 1, sample_delete 2] = [sample_delete 2, sample_delete 1]"
    by (simp add: insort_key.simps)
  then have "\<exists>offs. sort_key ce_tuple [sample_delete 1, sample_delete 2] = map sample_delete offs"
    by (metis list.simps(8,9))
  then obtain offs where offs: "sort_key ce_tuple [sample_delete 1, sample_delete 2] = map sample_delete offs" ..
  show ?thesis
    unfolding rebuild_group_projection_def Let_def offs and_then_Ok_iff using fold by blast
qed

theorem incremental_apply_converges_witness:
  "\<exists>p r. apply_events group_limits_default [sample_delete 2, sample_delete 1] projection_new = Ok p
    \<and> rebuild_group_projection [sample_delete 1, sample_delete 2] group_limits_default 0 = Ok r
    \<and> gp_members p = gp_members (rr_projection r)
    \<and> gp_tombstones p = gp_tombstones (rr_projection r)
    \<and> gp_event_deletions p = gp_event_deletions (rr_projection r)"
proof -
  obtain p r where p: "apply_events group_limits_default [sample_delete 2, sample_delete 1] projection_new = Ok p"
    and r: "rebuild_group_projection [sample_delete 1, sample_delete 2] group_limits_default 0 = Ok r"
    using apply_deletes_total [of "[2, 1]" projection_new] rebuild_deletes_total [of 0] by auto
  have "mset [sample_delete 2, sample_delete 1] = mset [sample_delete 1, sample_delete 2]" by simp
  from p r incremental_apply_converges [OF p r this sample_delete_tuples] show ?thesis by blast
qed

theorem rebuild_order_independent_witness:
  "rebuild_group_projection [sample_delete 2, sample_delete 1] group_limits_default 0
     = rebuild_group_projection [sample_delete 1, sample_delete 2] group_limits_default 0"
  by (rule rebuild_order_independent [OF _ sample_delete_tuples]) simp

section \<open>The projection invariant\<close>

definition group_state_wf :: "group_id \<Rightarrow> group_state \<Rightarrow> bool" where
  "group_state_wf g s \<longleftrightarrow> gst_id s = g \<and> valid_pubkey (gst_created_by s)
     \<and> gst_created_event_id s = ot_event_id (gst_created_tuple s)
     \<and> gst_created_tuple s \<le> gst_metadata_tuple s
     \<and> (gst_lifecycle s = Deleted \<longleftrightarrow> gst_deleted_tuple s \<noteq> None)
     \<and> gst_deleted_at s = map_option ot_created_at (gst_deleted_tuple s)
     \<and> gst_delete_event_id s = map_option ot_event_id (gst_deleted_tuple s)"

definition tombstone_covers :: "(group_id, group_tombstone) btree \<Rightarrow> group_id \<Rightarrow> group_state \<Rightarrow> bool" where
  "tombstone_covers ts g s \<longleftrightarrow> (case gst_deleted_tuple s of None \<Rightarrow> True
     | Some t \<Rightarrow> (case bt_get ts g of None \<Rightarrow> False | Some tomb \<Rightarrow> t \<le> ts_last_tuple tomb))"

definition member_wf :: "group_id \<times> public_key_hex \<Rightarrow> member_state \<Rightarrow> bool" where
  "member_wf k m \<longleftrightarrow> ms_pubkey m = snd k \<and> valid_pubkey (snd k) \<and> finite (ms_roles m)
     \<and> (\<forall>r\<in>ms_roles m. valid_role_name r) \<and> ms_last_event_id m = ot_event_id (ms_last_tuple m)"

definition tombstone_wf :: "group_id \<Rightarrow> group_tombstone \<Rightarrow> bool" where
  "tombstone_wf g t \<longleftrightarrow> ts_group_id t = g \<and> valid_pubkey (ts_deleted_by t)
     \<and> ts_delete_event_id t = ot_event_id (ts_last_tuple t)
     \<and> ts_deleted_at t = ot_created_at (ts_last_tuple t)"

definition deletion_wf :: "event_id \<Rightarrow> group_event_deletion \<Rightarrow> bool" where
  "deletion_wf i d \<longleftrightarrow> ed_target_event_id d = i \<and> valid_event_id i \<and> valid_pubkey (ed_deleted_by d)
     \<and> ed_delete_event_id d = ot_event_id (ed_last_tuple d)
     \<and> ed_deleted_at d = ot_created_at (ed_last_tuple d)"

definition projection_wf :: "group_projection \<Rightarrow> bool" where
  "projection_wf p \<longleftrightarrow>
     bt_wf (gp_groups p) \<and> bt_wf (gp_members p) \<and> bt_wf (gp_roles p) \<and> bt_wf (gp_tombstones p)
     \<and> bt_wf (gp_event_deletions p)
     \<and> (\<forall>(g, s)\<in>set (gp_groups p). group_state_wf g s \<and> tombstone_covers (gp_tombstones p) g s)
     \<and> (\<forall>(k, m)\<in>set (gp_members p). member_wf k m)
     \<and> (\<forall>(k, r)\<in>set (gp_roles p). rd_name (pr_definition r) = snd k)
     \<and> (\<forall>(g, t)\<in>set (gp_tombstones p). tombstone_wf g t)
     \<and> (\<forall>(i, d)\<in>set (gp_event_deletions p). deletion_wf i d)"

lemma projection_new_projection_wf: "projection_wf projection_new"
  by (simp add: projection_wf_def) (simp add: projection_new_def)

lemma projection_wfD:
  assumes "projection_wf p"
  shows "gp_group p g = Some s \<Longrightarrow> group_state_wf g s \<and> tombstone_covers (gp_tombstones p) g s"
    and "bt_get (gp_tombstones p) g = Some t \<Longrightarrow> tombstone_wf g t"
    and "bt_get (gp_members p) k = Some m \<Longrightarrow> member_wf k m"
  using assms by (auto simp: projection_wf_def gp_group_def dest!: map_of_SomeD)

text \<open>Which single writes keep the invariant.\<close>

lemma put_group_wf:
  assumes "projection_wf p" and "group_state_wf g s" and "tombstone_covers (gp_tombstones p) g s"
  shows "projection_wf (p\<lparr>gp_groups := bt_insert g s (gp_groups p)\<rparr>)"
  using assms by (auto simp: projection_wf_def bt_wf_insert dest!: bt_insert_set)

lemma put_member_wf:
  assumes "projection_wf p" and "member_wf (g, ms_pubkey m) m"
  shows "projection_wf (put_member g m p)"
  using assms by (auto simp: projection_wf_def put_member_def Let_def bt_wf_insert dest!: bt_insert_set)

lemma put_deletion_wf:
  assumes "projection_wf p" and "deletion_wf (ed_target_event_id d) d"
  shows "projection_wf (put_event_deletion d p)"
  using assms by (auto simp: projection_wf_def put_event_deletion_def bt_wf_insert dest!: bt_insert_set)

lemma tombstone_covers_mono:
  assumes "tombstone_covers ts g s"
    and "case bt_get ts k of None \<Rightarrow> True | Some current \<Rightarrow> ts_last_tuple current \<le> ts_last_tuple t"
  shows "tombstone_covers (bt_insert k t ts) g s"
  using assms by (auto simp: tombstone_covers_def bt_get_insert split: option.splits)

lemma put_tombstone_wf:
  assumes "projection_wf p" and "tombstone_wf g t"
    and "case bt_get (gp_tombstones p) g of None \<Rightarrow> True | Some c \<Rightarrow> ts_last_tuple c \<le> ts_last_tuple t"
  shows "projection_wf (p\<lparr>gp_tombstones := bt_insert g t (gp_tombstones p)\<rparr>)"
  using assms by (auto simp: projection_wf_def bt_wf_insert tombstone_covers_mono dest!: bt_insert_set)

lemma group_state_new_wf:
  "valid_pubkey pk \<Longrightarrow> group_state_wf g (group_state_new g m pk (ot_event_id t) t)
     \<and> tombstone_covers ts g (group_state_new g m pk (ot_event_id t) t)"
  by (simp add: group_state_wf_def group_state_new_def tombstone_covers_def)

lemma group_state_new_sel [simp]:
  "gst_id (group_state_new g m pk eid t) = g"
  "gst_created_tuple (group_state_new g m pk eid t) = t"
  by (simp_all add: group_state_new_def)

lemma update_metadata_wf:
  "group_state_wf g s \<Longrightarrow> group_state_wf g (update_metadata m t s)"
  "tombstone_covers ts g (update_metadata m t s) = tombstone_covers ts g s"
  by (auto simp: group_state_wf_def update_metadata_def tombstone_covers_def)

lemma snapshots_wf [simp]:
  "group_state_wf g (s\<lparr>gst_snapshots := n\<rparr>) = group_state_wf g s"
  "tombstone_covers ts g (s\<lparr>gst_snapshots := n\<rparr>) = tombstone_covers ts g s"
  by (simp_all add: group_state_wf_def tombstone_covers_def)

lemma mark_deleted_wf:
  "group_state_wf g s \<Longrightarrow> group_state_wf g (mark_deleted (ot_created_at t) (ot_event_id t) t s)"
  by (auto simp: group_state_wf_def mark_deleted_def split: option.splits)

lemma role_tags_valid:
  assumes "role_tags e = Ok rs"
  shows "finite rs \<and> (\<forall>r\<in>rs. valid_role_name r)"
proof -
  obtain ts where "try_fold role_tag_visit {} ts = Ok rs"
    using assms by (auto simp: role_tags_def visit_tags_Ok)
  then show ?thesis
    by (rule try_fold_invariant [where P = "\<lambda>rs. finite rs \<and> (\<forall>r\<in>rs. valid_role_name r)"])
       (auto simp: role_tag_visit_def map_ok_Ok_iff split: if_splits option.splits)
qed

lemma ce_tuple_sel [simp]:
  "ot_created_at (ce_tuple c) = view_created_at (ce_event c)"
  "ot_event_id (ce_tuple c) = pe_id (ce_event c)"
  by (simp_all add: ce_tuple_def)

lemma apply_member_status_wf:
  assumes "apply_member_status g e t status p = Ok (out, q)" and "projection_wf p"
    and "ot_event_id t = pe_id e"
  shows "projection_wf q"
  using assms role_tags_valid [of e]
  by (auto simp: apply_member_status_def and_then_Ok_iff Let_def member_wf_def intro!: put_member_wf)

lemma delete_group_wf:
  assumes "projection_wf p" and "valid_pubkey pk" and "eid = ot_event_id t" and "dat = ot_created_at t"
    and tomb: "tomb = \<lparr>ts_group_id = g, ts_delete_event_id = eid, ts_deleted_at = dat,
       ts_deleted_by = pk, ts_last_tuple = t\<rparr>"
  shows "projection_wf
    (let p' = (case gp_group p g of
          Some grp \<Rightarrow> p\<lparr>gp_groups := bt_insert g (mark_deleted dat eid t grp) (gp_groups p)\<rparr> | None \<Rightarrow> p)
     in if (case bt_get (gp_tombstones p') g of None \<Rightarrow> True | Some c \<Rightarrow> ts_last_tuple c \<le> t)
        then p'\<lparr>gp_tombstones := bt_insert g tomb (gp_tombstones p')\<rparr> else p')"
proof -
  let ?T = "if (case bt_get (gp_tombstones p) g of None \<Rightarrow> True | Some c \<Rightarrow> ts_last_tuple c \<le> t)
      then bt_insert g tomb (gp_tombstones p) else gp_tombstones p"
  have "tombstone_wf g tomb" using assms by (simp add: tombstone_wf_def)
  then have q: "projection_wf (p\<lparr>gp_tombstones := ?T\<rparr>)"
    using put_tombstone_wf [OF assms(1)] assms(1) tomb
    by (auto split: option.splits)
  have covered: "tombstone_covers ?T g (mark_deleted dat eid t grp)"
    if "tombstone_covers (gp_tombstones p) g grp" for grp
    using that tomb
    by (auto simp: tombstone_covers_def mark_deleted_def bt_get_insert split: option.splits)
  show ?thesis
  proof (cases "gp_group p g")
    case None
    with q show ?thesis by (auto simp: Let_def split: if_splits)
  next
    case (Some grp)
    have grp: "group_state_wf g grp" "tombstone_covers (gp_tombstones p) g grp"
      using projection_wfD(1) [OF assms(1) Some] by auto
    let ?G = "bt_insert g (mark_deleted dat eid t grp) (gp_groups p)"
    have swap: "p\<lparr>gp_groups := ?G, gp_tombstones := ?T\<rparr> = (p\<lparr>gp_tombstones := ?T\<rparr>)\<lparr>gp_groups :=
        bt_insert g (mark_deleted dat eid t grp) (gp_groups (p\<lparr>gp_tombstones := ?T\<rparr>))\<rparr>"
      by simp
    have "projection_wf (p\<lparr>gp_groups := ?G, gp_tombstones := ?T\<rparr>)"
      unfolding swap using covered [OF grp(2)] mark_deleted_wf [OF grp(1)] assms(3,4)
      by (intro put_group_wf [OF q]) auto
    with Some show ?thesis by (auto simp: Let_def split: if_splits)
  qed
qed

lemma apply_moderation_wf:
  assumes appl: "apply_moderation_event g (ce_event c) (ce_tuple c) limits p = Ok (out, q)"
    and wf: "projection_wf p"
  shows "projection_wf q"
proof -
  let ?k = "kind_u32 (ce_event c)"
  consider "?k = 9007" | "?k = 9002" | "?k = 9000" | "?k = 9001" | "?k = 9005" | "?k = 9008"
    | "?k \<notin> {9000, 9001, 9002, 9005, 9007, 9008}" by blast
  then show ?thesis
  proof cases
    case 1
    then show ?thesis
      using appl wf group_state_new_wf [of "pe_pubkey (ce_event c)" g _ "ce_tuple c"]
      by (auto simp: apply_moderation_event_def and_then_Ok_iff Let_def put_group_def
          intro!: put_group_wf split: if_splits)
  next
    case 2
    then show ?thesis
      using appl wf projection_wfD(1) [OF wf, of g]
      by (auto simp: apply_moderation_event_def and_then_Ok_iff update_metadata_wf
          intro!: put_group_wf split: option.splits)
  next
    case 3
    then show ?thesis
      using appl wf by (auto simp: apply_moderation_event_def intro: apply_member_status_wf)
  next
    case 4
    then show ?thesis
      using appl wf by (auto simp: apply_moderation_event_def intro: apply_member_status_wf)
  next
    case 5
    then show ?thesis
      using appl wf by (auto simp: apply_moderation_event_def and_then_Ok_iff Let_def deletion_wf_def
          intro!: put_deletion_wf)
  next
    case 6
    have pk: "valid_pubkey (pe_pubkey (ce_event c))"
      using appl 6 by (auto simp: apply_moderation_event_def and_then_Ok_iff)
    show ?thesis
      using appl 6 delete_group_wf [OF wf pk, of "pe_id (ce_event c)" "ce_tuple c"
          "view_created_at (ce_event c)" _ g]
      by (auto simp: apply_moderation_event_def and_then_Ok_iff Let_def split: if_splits)
  next
    case 7
    then show ?thesis using appl wf by (auto simp: apply_moderation_event_def)
  qed
qed

lemma apply_snapshot_wf:
  assumes "apply_snapshot_event g k (ce_event c) (ce_tuple c) limits p = Ok (out, q)" and wf: "projection_wf p"
  shows "projection_wf q"
  using assms(1) wf projection_wfD(1) [OF wf, of g]
    group_state_new_wf [of "pe_pubkey (ce_event c)" g _ "ce_tuple c"]
  by (auto simp: apply_snapshot_event_def and_then_Ok_iff Let_def put_group_def update_metadata_wf
      intro!: put_group_wf split: if_splits option.splits)

lemma apply_canonical_wf:
  fixes c :: canonical_group_event
  assumes "apply_canonical_event (ce_event c) (ce_store_offset c) limits p = Ok (out, q)"
    and "projection_wf p"
  shows "projection_wf q"
proof -
  obtain cls where "(case cls of NonGroup \<Rightarrow> Ok (Skipped, p) | NormalEvent _ \<Rightarrow> Ok (Ignored, p)
       | Moderation _ g \<Rightarrow> apply_moderation_event g (ce_event c) (ce_tuple c) limits p
       | RelayGeneratedSnapshot k g \<Rightarrow> apply_snapshot_event g k (ce_event c) (ce_tuple c) limits p)
      = Ok (out, q)"
    using assms(1) by (auto simp: apply_canonical_event_def and_then_Ok_iff)
  with assms(2) show ?thesis
    by (cases cls) (auto intro: apply_moderation_wf apply_snapshot_wf)
qed

text \<open>
  Claim C2. Every canonical event keeps the projection well formed: the maps stay sorted and keyed
  by their contents, a group is marked deleted exactly when it carries its delete tuple, time and
  event id, its metadata is never older than its creation, and a deleted group is always covered
  by a tombstone that is at least as recent.
\<close>

theorem apply_canonical_event_invariant:
  assumes "projection_wf p" and "apply_canonical_event e offset limits p = Ok (out, q)"
  shows "projection_wf q"
  using apply_canonical_wf [of "\<lparr>ce_event = e, ce_store_offset = offset\<rparr>"] assms by simp

theorem apply_canonical_event_invariant_witness:
  "\<exists>out q. apply_canonical_event (ce_event (sample_delete 1)) 1 group_limits_default projection_new
      = Ok (out, q) \<and> projection_wf q"
  using apply_delete_total [of 1 projection_new]
    apply_canonical_event_invariant [OF projection_new_projection_wf] by blast

text \<open>
  Claim C33. Deletion is permanent: once a group has a tombstone, whatever event is applied, the
  group still has a tombstone afterwards, and its order tuple never decreases.
\<close>

theorem tombstone_permanent:
  assumes "gp_tombstone p g = Some t" and "apply_canonical_event e offset limits p = Ok (out, q)"
  shows "\<exists>u. gp_tombstone q g = Some u \<and> ts_last_tuple t \<le> ts_last_tuple u"
proof -
  let ?c = "\<lparr>ce_event = e, ce_store_offset = offset\<rparr>"
  have "gp_tombstones q = gp_tombstones (opt_apply put_tombstone (tombstone_update limits ?c) p)"
    using apply_event_updates(2) [of ?c] assms(2) by simp
  with assms(1) show ?thesis
    using tombstone_map.put_monotone [of p g t]
    by (cases "tombstone_update limits ?c") (auto simp: gp_tombstone_def opt_apply_def)
qed

definition sample_tombstone :: group_tombstone where
  "sample_tombstone = \<lparr>ts_group_id = ''welcome'', ts_delete_event_id = replicate 64 CHR ''0'',
     ts_deleted_at = 0, ts_deleted_by = replicate 64 CHR ''b'',
     ts_last_tuple = OrderTuple 0 (replicate 64 CHR ''0'') 0\<rparr>"

theorem tombstone_permanent_witness:
  "\<exists>out q u. apply_canonical_event (ce_event (sample_delete 1)) 1 group_limits_default
      (put_tombstone sample_tombstone projection_new) = Ok (out, q)
    \<and> gp_tombstone q ''welcome'' = Some u \<and> ts_last_tuple sample_tombstone \<le> ts_last_tuple u"
proof -
  have "gp_tombstone (put_tombstone sample_tombstone projection_new) ''welcome'' = Some sample_tombstone"
    by (simp add: gp_tombstone_def put_tombstone_def projection_new_def sample_tombstone_def)
  then show ?thesis
    using apply_delete_total [of 1 "put_tombstone sample_tombstone projection_new"]
      tombstone_permanent by blast
qed

section \<open>The rebuild report\<close>

lemma rebuild_step_report:
  assumes "rebuild_step limits r c = Ok s"
  shows "rr_applied_events s + rr_ignored_events s + rr_skipped_events s
      = Suc (rr_applied_events r + rr_ignored_events r + rr_skipped_events r)"
    and "rr_last_offset s = Some (case rr_last_offset r of
        Some o' \<Rightarrow> max o' (ce_store_offset c) | None \<Rightarrow> ce_store_offset c)"
    and "projection_wf (rr_projection r) \<Longrightarrow> projection_wf (rr_projection s)"
proof -
  obtain out q where appl: "apply_canonical_event (ce_event c) (ce_store_offset c) limits
      (rr_projection r) = Ok (out, q)"
    using assms by (auto simp: rebuild_step_def Let_def and_then_Ok_iff)
  then show "rr_applied_events s + rr_ignored_events s + rr_skipped_events s
      = Suc (rr_applied_events r + rr_ignored_events r + rr_skipped_events r)"
    "rr_last_offset s = Some (case rr_last_offset r of
        Some o' \<Rightarrow> max o' (ce_store_offset c) | None \<Rightarrow> ce_store_offset c)"
    using assms by (cases out; auto simp: rebuild_step_def Let_def)+
  have "rr_projection s = q" using appl assms by (cases out) (auto simp: rebuild_step_def Let_def)
  then show "projection_wf (rr_projection r) \<Longrightarrow> projection_wf (rr_projection s)"
    using apply_canonical_wf [OF appl] by simp
qed

lemma rebuild_fold_report:
  assumes "try_fold (rebuild_step limits) r cs = Ok s"
  shows "rr_applied_events s + rr_ignored_events s + rr_skipped_events s
      = rr_applied_events r + rr_ignored_events r + rr_skipped_events r + length cs"
    and "rr_last_offset s = fold (\<lambda>c l. Some (case l of
        Some o' \<Rightarrow> max o' (ce_store_offset c) | None \<Rightarrow> ce_store_offset c)) cs (rr_last_offset r)"
    and "projection_wf (rr_projection r) \<Longrightarrow> projection_wf (rr_projection s)"
proof -
  have "rr_applied_events s + rr_ignored_events s + rr_skipped_events s
      = rr_applied_events r + rr_ignored_events r + rr_skipped_events r + length cs
    \<and> rr_last_offset s = fold (\<lambda>c l. Some (case l of
        Some o' \<Rightarrow> max o' (ce_store_offset c) | None \<Rightarrow> ce_store_offset c)) cs (rr_last_offset r)
    \<and> (projection_wf (rr_projection r) \<longrightarrow> projection_wf (rr_projection s))"
    using assms
  proof (induction cs arbitrary: r)
    case Nil
    then show ?case by simp
  next
    case (Cons c cs)
    obtain u where u: "rebuild_step limits r c = Ok u" and rest: "try_fold (rebuild_step limits) u cs = Ok s"
      using Cons.prems by (auto simp: and_then_Ok_iff)
    show ?case
      using Cons.IH [OF rest] rebuild_step_report [OF u] by simp
  qed
  then show "rr_applied_events s + rr_ignored_events s + rr_skipped_events s
      = rr_applied_events r + rr_ignored_events r + rr_skipped_events r + length cs"
    "rr_last_offset s = fold (\<lambda>c l. Some (case l of
        Some o' \<Rightarrow> max o' (ce_store_offset c) | None \<Rightarrow> ce_store_offset c)) cs (rr_last_offset r)"
    "projection_wf (rr_projection r) \<Longrightarrow> projection_wf (rr_projection s)"
    by auto
qed

lemma fold_max_offset:
  "fold (\<lambda>c l. Some (case l of Some o' \<Rightarrow> max o' (f c) | None \<Rightarrow> f c)) cs l =
     (if cs = [] then l else Some (Max (f ` set cs \<union> set_option l)))"
proof (induction cs arbitrary: l)
  case Nil
  then show ?case by simp
next
  case (Cons c cs)
  then show ?case
    by (cases l; cases "cs = []") (auto simp: max.commute max.assoc insert_commute)
qed

text \<open>
  A rebuild that succeeds accounts for every event of the log exactly once, reports the
  greatest store offset (none for an empty log), stores it in a checkpoint of the current
  versions, and leaves a well-formed projection.
\<close>

theorem rebuild_report_exact:
  assumes "rebuild_group_projection cs limits t = Ok r"
  shows "rr_applied_events r + rr_ignored_events r + rr_skipped_events r = length cs
    \<and> rr_last_offset r = (if cs = [] then None else Some (Max (ce_store_offset ` set cs)))
    \<and> gp_checkpoint (rr_projection r) = Some (checkpoint_current (rr_last_offset r) t)
    \<and> projection_wf (rr_projection r)"
proof -
  obtain s where s: "try_fold (rebuild_step limits)
          \<lparr>rr_projection = projection_new, rr_applied_events = 0, rr_ignored_events = 0,
           rr_skipped_events = 0, rr_last_offset = None\<rparr> (sort_key ce_tuple cs) = Ok s"
    and r: "r = s\<lparr>rr_projection := set_checkpoint (checkpoint_current (rr_last_offset s) t) (rr_projection s)\<rparr>"
    using assms by (auto simp: rebuild_group_projection_def Let_def and_then_Ok_iff)
  have wf: "projection_wf (p\<lparr>gp_checkpoint := x\<rparr>) = projection_wf p" for x p
    by (simp add: projection_wf_def)
  have empty: "sort_key ce_tuple cs = [] \<longleftrightarrow> cs = []"
    by (metis length_0_conv length_sort)
  show ?thesis
    using rebuild_fold_report [OF s] projection_new_projection_wf
    by (simp add: r wf fold_max_offset empty set_checkpoint_def)
qed

theorem rebuild_report_exact_witness:
  "\<exists>r. rebuild_group_projection [sample_delete 1, sample_delete 2] group_limits_default 7 = Ok r
    \<and> rr_applied_events r + rr_ignored_events r + rr_skipped_events r = 2
    \<and> rr_last_offset r = Some 2 \<and> projection_wf (rr_projection r)"
proof -
  obtain r where r: "rebuild_group_projection [sample_delete 1, sample_delete 2] group_limits_default 7 = Ok r"
    using rebuild_deletes_total by blast
  show ?thesis using rebuild_report_exact [OF r] r by (simp add: max_def)
qed

section \<open>Storage keys\<close>

text \<open>The keys of the extra tables, and the bytes each is stored under.\<close>

datatype storage_key =
    GroupKey group_id
  | MemberKey group_id public_key_hex
  | RoleKey group_id role_name
  | TombstoneKey group_id
  | DeletionKey event_id
  | CheckpointKey

fun storage_key_bytes :: "storage_key \<Rightarrow> string" where
  "storage_key_bytes (GroupKey g) = group_current_key g"
| "storage_key_bytes (MemberKey g pk) = member_current_key g pk"
| "storage_key_bytes (RoleKey g r) = role_current_key g r"
| "storage_key_bytes (TombstoneKey g) = tombstone_key g"
| "storage_key_bytes (DeletionKey e) = event_deletion_key e"
| "storage_key_bytes CheckpointKey = projection_checkpoint_key"

text \<open>The parts \<open>GroupId\<close>, \<open>PublicKeyHex\<close>, \<open>RoleName\<close> and \<open>EventId\<close> values, as UTF-8 strings, give.\<close>

fun valid_storage_key :: "storage_key \<Rightarrow> bool" where
  "valid_storage_key (GroupKey g) = (valid_group_id g \<and> valid_utf8 g)"
| "valid_storage_key (MemberKey g pk) = (valid_group_id g \<and> valid_utf8 g \<and> valid_pubkey pk)"
| "valid_storage_key (RoleKey g r) = (valid_group_id g \<and> valid_utf8 g \<and> valid_role_name r \<and> valid_utf8 r)"
| "valid_storage_key (TombstoneKey g) = (valid_group_id g \<and> valid_utf8 g)"
| "valid_storage_key (DeletionKey e) = valid_event_id e"
| "valid_storage_key CheckpointKey = True"

lemma byte_NUL: "byte c = 0 \<longleftrightarrow> c = CHR 0x00"
  using byte_inject [of c "CHR 0x00"] by (simp add: byte_def)

lemma continuation_not_NUL: "is_continuation b \<Longrightarrow> b \<noteq> CHR 0x00"
  by (auto simp: is_continuation_def byte_def)

lemma utf8_NUL: "valid_utf8 s \<Longrightarrow> CHR 0x00 \<in> set s \<Longrightarrow> 0 \<in> set (utf8_chars s)"
proof (induction s rule: length_induct)
  case (1 s)
  show ?case
  proof (cases s)
    case Nil
    with 1 show ?thesis by simp
  next
    case (Cons a s0)
    show ?thesis
    proof (cases "byte a < 128")
      case True
      then have "a = CHR 0x00 \<or> 0 \<in> set (utf8_chars s0)" using 1 Cons by auto
      with True Cons show ?thesis by (auto simp: byte_NUL [symmetric])
    next
      case False
      then have a: "a \<noteq> CHR 0x00" by (auto simp: byte_def)
      obtain b s1 where s0: "s0 = b # s1" using 1(2) Cons False by (cases s0) auto
      show ?thesis
      proof (cases "byte a < 224")
        case True
        have "194 \<le> byte a"
        proof (rule ccontr)
          assume "\<not> 194 \<le> byte a"
          with 1(2) Cons False s0 True show False by (cases s1) (auto split: list.splits)
        qed
        with True have b: "is_continuation b" and v: "valid_utf8 s1"
          using 1(2) Cons False s0 by simp_all
        have "0 \<in> set (utf8_chars s1)"
          using 1 v a continuation_not_NUL [OF b] by (auto simp: Cons s0)
        with Cons s0 False True show ?thesis by simp
      next
        case F2: False
        obtain c s2 where s1: "s1 = c # s2" using 1(2) Cons False F2 s0 by (cases s1) auto
        show ?thesis
        proof (cases "byte a < 240")
          case True
          then have b: "is_continuation b" and c: "is_continuation c" and v: "valid_utf8 s2"
            using 1(2) Cons False F2 s0 s1 by simp_all
          have "0 \<in> set (utf8_chars s2)"
            using 1 v a continuation_not_NUL [OF b] continuation_not_NUL [OF c] by (auto simp: Cons s0 s1)
          with Cons s0 s1 False F2 True show ?thesis by simp
        next
          case F3: False
          obtain d s3 where s2: "s2 = d # s3" using 1(2) Cons False F2 F3 s0 s1 by (cases s2) auto
          then have b: "is_continuation b" and c: "is_continuation c" and d: "is_continuation d"
            and v: "valid_utf8 s3"
            using 1(2) Cons False F2 F3 s0 s1 by simp_all
          have "0 \<in> set (utf8_chars s3)"
            using 1 v a continuation_not_NUL [OF b] continuation_not_NUL [OF c] continuation_not_NUL [OF d]
            by (auto simp: Cons s0 s1 s2)
          with Cons s0 s1 s2 False F2 F3 show ?thesis by simp
        qed
      qed
    qed
  qed
qed
lemma no_NUL:
  "valid_group_id g \<Longrightarrow> valid_utf8 g \<Longrightarrow> CHR 0x00 \<notin> set g"
  "valid_role_name r \<Longrightarrow> valid_utf8 r \<Longrightarrow> CHR 0x00 \<notin> set r"
  "lower_hex n h \<Longrightarrow> CHR 0x00 \<notin> set h"
proof -
  have ctrl: "list_ex is_control cs" if "0 \<in> set cs" for cs
    using that by (auto simp: list_ex_iff is_control_def intro: bexI [of _ 0])
  show "valid_group_id g \<Longrightarrow> valid_utf8 g \<Longrightarrow> CHR 0x00 \<notin> set g"
    using utf8_NUL [of g] ctrl [of "utf8_chars g"] by (auto simp: group_id_ok_def)
  show "valid_role_name r \<Longrightarrow> valid_utf8 r \<Longrightarrow> CHR 0x00 \<notin> set r"
    using utf8_NUL [of r] ctrl [of "utf8_chars r"] by (auto simp: valid_role_name_def)
  show "lower_hex n h \<Longrightarrow> CHR 0x00 \<notin> set h"
    using lower_hex_no_char [of n h "CHR 0x00"]
    by (auto simp: lower_hex_char_def is_ascii_digit_def byte_def)
qed

fun storage_key_parts :: "storage_key \<Rightarrow> string list" where
  "storage_key_parts (GroupKey g) = [''group'', g]"
| "storage_key_parts (MemberKey g pk) = [''member'', g, pk]"
| "storage_key_parts (RoleKey g r) = [''role'', g, r]"
| "storage_key_parts (TombstoneKey g) = [''tombstone'', g]"
| "storage_key_parts (DeletionKey e) = [''event_deletion'', e]"
| "storage_key_parts CheckpointKey = [''checkpoint'', ''groups'']"

lemma split_storage_key:
  "valid_storage_key k \<Longrightarrow> split_char CHR 0x00 (storage_key_bytes k) = storage_key_parts k"
  by (cases k) (auto simp: group_current_key_def member_current_key_def role_current_key_def
      tombstone_key_def event_deletion_key_def projection_checkpoint_key_def prefixed_key_def
      split_char_append split_char_plain no_NUL)

lemma storage_key_parts_inject: "storage_key_parts a = storage_key_parts b \<longleftrightarrow> a = b"
  by (cases a; cases b) auto

text \<open>
  Storage keys never collide: two records with well-formed ids have the same bytes as
  their key only when they are the same kind of record with the same ids. Group ids and role
  names cannot hold the NUL byte that separates the parts.
\<close>

theorem storage_keys_injective:
  assumes "valid_storage_key a" and "valid_storage_key b"
    and "storage_key_bytes a = storage_key_bytes b"
  shows "a = b"
  using assms split_storage_key storage_key_parts_inject by metis

lemma welcome_valid: "valid_group_id ''welcome''" "valid_utf8 ''welcome''"
proof -
  show "valid_utf8 ''welcome''" by (simp add: byte_def)
  show "valid_group_id ''welcome''"
    by (simp add: group_id_ok_def utf8_chars_ascii is_group_id_separator_def
        is_ascii_def byte_def is_control_def ascii_trim_unchanged is_whitespace_def)
qed

theorem storage_keys_injective_witness:
  "MemberKey ''welcome'' (replicate 64 CHR ''a'') = MemberKey ''welcome'' (replicate 64 CHR ''a'')
   \<and> valid_storage_key (MemberKey ''welcome'' (replicate 64 CHR ''a''))"
  using storage_keys_injective [of "MemberKey ''welcome'' (replicate 64 CHR ''a'')"
      "MemberKey ''welcome'' (replicate 64 CHR ''a'')"] welcome_valid
    lower_hex_replicate [of "CHR ''a''" 64]
  by simp

end
