(* ===== verification/Group_Policy.thy ===== *)
theory Group_Policy
  imports Projection_Facts
begin

text \<open>
  Who may write and who may read (\<open>crates/tangle_groups/src/policy.rs\<close>, \<open>read_gate.rs\<close>): the relay
  authority, the write policy over the projection with its checks per kind, and the read gate.
  \<open>GroupWritePolicy\<close> and \<open>GroupReadGate\<close> only hold references, so their methods take the
  projection, the authority and the policy configuration as arguments.
\<close>

section \<open>Authority\<close>

record group_authority =
  ga_owner_pubkeys :: "public_key_hex set"
  ga_admin_pubkeys :: "public_key_hex set"

definition authority_new :: "public_key_hex list \<Rightarrow> public_key_hex list \<Rightarrow> group_authority" where
  "authority_new owners admins = \<lparr>ga_owner_pubkeys = set owners, ga_admin_pubkeys = set admins\<rparr>"

definition is_owner :: "group_authority \<Rightarrow> public_key_hex \<Rightarrow> bool" where
  "is_owner a pk \<longleftrightarrow> pk \<in> ga_owner_pubkeys a"

definition is_admin :: "group_authority \<Rightarrow> public_key_hex \<Rightarrow> bool" where
  "is_admin a pk \<longleftrightarrow> pk \<in> ga_admin_pubkeys a \<or> is_owner a pk"

definition is_permanent_admin :: "group_authority \<Rightarrow> public_key_hex \<Rightarrow> bool" where
  "is_permanent_admin a pk \<longleftrightarrow> is_admin a pk"

section \<open>The write policy\<close>

datatype group_write_decision = Accept | IgnoreNonGroup

definition non_enumerating_group_error :: group_error where
  "non_enumerating_group_error = error_restricted GroupUnavailable ''group is unavailable''"

definition is_current_member :: "group_projection \<Rightarrow> group_id \<Rightarrow> public_key_hex \<Rightarrow> bool" where
  "is_current_member p g pk =
     (case gp_member p g pk of None \<Rightarrow> False | Some m \<Rightarrow> ms_status m = Member)"

definition can_read_group ::
  "group_projection \<Rightarrow> group_authority \<Rightarrow> group_id \<Rightarrow> public_key_hex option \<Rightarrow> bool" where
  "can_read_group p a g reader =
     (case reader of None \<Rightarrow> False | Some r \<Rightarrow> is_admin a r \<or> is_current_member p g r)"

definition has_relay_override ::
  "group_projection \<Rightarrow> group_authority \<Rightarrow> group_id \<Rightarrow> public_key_hex \<Rightarrow> bool" where
  "has_relay_override p a g pk =
     (if is_admin a pk then True
      else case gp_member p g pk of
        None \<Rightarrow> False
      | Some m \<Rightarrow> ms_status m = Member \<and> PERMANENT_RELAY_OVERRIDE_ROLE \<in> ms_roles m)"

definition is_protected_admin ::
  "group_projection \<Rightarrow> group_authority \<Rightarrow> group_id \<Rightarrow> public_key_hex \<Rightarrow> bool" where
  "is_protected_admin p a g pk \<longleftrightarrow> is_permanent_admin a pk \<or> has_relay_override p a g pk"

definition require_active_group :: "group_projection \<Rightarrow> group_id \<Rightarrow> group_error + group_state" where
  "require_active_group p g =
     (case gp_group p g of
        None \<Rightarrow> Err non_enumerating_group_error
      | Some grp \<Rightarrow>
          if gst_lifecycle grp = Deleted \<or> gp_tombstone p g \<noteq> None
          then Err (error_blocked GroupDeleted ''group is deleted'')
          else Ok grp)"

definition actor_capabilities ::
  "group_projection \<Rightarrow> group_id \<Rightarrow> public_key_hex \<Rightarrow> group_error + capability_set" where
  "actor_capabilities p g actor =
     (case gp_member p g actor of
        None \<Rightarrow> Ok {}
      | Some m \<Rightarrow>
          if ms_status m \<noteq> Member then Ok {}
          else
            let definitions = map (\<lambda>(_, role). pr_definition role)
                  (filter (\<lambda>((candidate, _), _). candidate = g) (gp_roles p))
            in resolve_capabilities definitions (bs_iter (ms_roles m)))"

definition require_capability ::
  "group_projection \<Rightarrow> group_authority \<Rightarrow> group_id \<Rightarrow> public_key_hex \<Rightarrow> capability \<Rightarrow> group_error + unit" where
  "require_capability p a g actor required =
     (if is_admin a actor then Ok ()
      else and_then (actor_capabilities p g actor) (\<lambda>capabilities.
        if required \<in> capabilities then Ok ()
        else Err (error_restricted MissingCapability
          (''missing group capability '' @ capability_str required))))"

definition has_role_tag :: "pocket_event \<Rightarrow> group_error + bool" where
  "has_role_tag e =
     visit_tags e (\<lambda>found tag. Ok (if first_value tag = Some ''role'' then True else found)) False"

definition required_capability :: "u32 \<Rightarrow> pocket_event \<Rightarrow> group_error + capability option" where
  "required_capability k e =
     (if k = KIND_GROUP_PUT_USER
      then and_then (has_role_tag e) (\<lambda>has.
        if has then Ok (Some ManageRoles) else Ok (Some ManageMembers))
      else if k = KIND_GROUP_REMOVE_USER then Ok (Some ManageMembers)
      else if k = KIND_GROUP_EDIT_METADATA then Ok (Some ManageMetadata)
      else if k = KIND_GROUP_DELETE_EVENT then Ok (Some DeleteEvents)
      else if k = KIND_GROUP_DELETE_GROUP then Ok (Some DeleteGroup)
      else if k = KIND_GROUP_CREATE_INVITE then Ok (Some CreateInvites)
      else Ok None)"

definition target_pubkey_visit ::
  "string \<Rightarrow> public_key_hex option \<Rightarrow> event_tag \<Rightarrow> group_error + public_key_hex option" where
  "target_pubkey_visit tag_name found tag =
     (if first_value tag \<noteq> Some tag_name then Ok found
      else case view_indexed_pair tag of
        None \<Rightarrow> Err (error_invalid MalformedTargetTag (''malformed '' @ tag_name @ '' target tag''))
      | Some (_, value) \<Rightarrow> map_ok Some (map_err (target_error tag_name) (public_key_new value)))"

definition target_pubkey :: "pocket_event \<Rightarrow> string \<Rightarrow> group_error + public_key_hex" where
  "target_pubkey e tag_name =
     and_then (visit_tags e (target_pubkey_visit tag_name) None)
       (\<lambda>found. ok_or found (error_invalid MissingTargetTag
          (''missing '' @ tag_name @ '' target tag'')))"

definition check_create_group ::
  "group_projection \<Rightarrow> group_authority \<Rightarrow> pocket_event \<Rightarrow> group_id \<Rightarrow> group_error + group_write_decision" where
  "check_create_group p a e g =
     and_then (view_pubkey e) (\<lambda>pubkey.
       if \<not> is_owner a pubkey
       then Err (error_restricted MissingCapability ''group creation is restricted to relay owners'')
       else if gp_tombstone p g \<noteq> None
       then Err (error_blocked GroupDeleted ''group is deleted'')
       else if gp_group p g \<noteq> None
       then Err (error_invalid GroupAlreadyExists ''group already exists'')
       else Ok Accept)"

definition check_moderation_event ::
  "group_projection \<Rightarrow> group_authority \<Rightarrow> group_policy_config \<Rightarrow> pocket_event \<Rightarrow> u32 \<Rightarrow> group_id \<Rightarrow>
   group_error + group_write_decision" where
  "check_moderation_event p a policy e k g =
     (if k = KIND_GROUP_CREATE_GROUP then check_create_group p a e g
      else and_then (require_active_group p g) (\<lambda>grp.
        if k = KIND_GROUP_CREATE_INVITE \<and> \<not> gp_invites_enabled policy
        then Err (error_restricted MissingCapability ''invites not enabled'')
        else and_then (view_pubkey e) (\<lambda>actor.
        and_then (required_capability k e) (\<lambda>required.
        and_then (case required of Some r \<Rightarrow> require_capability p a g actor r | None \<Rightarrow> Ok ()) (\<lambda>_.
        and_then
          (if k = KIND_GROUP_REMOVE_USER
           then and_then (target_pubkey e ''p'') (\<lambda>target.
             if is_protected_admin p a g target
             then Err (error_restricted MissingCapability ''permanent group admins cannot be removed'')
             else Ok ())
           else Ok ()) (\<lambda>_.
        if k = KIND_GROUP_EDIT_METADATA \<and> gm_hidden (gst_metadata grp)
           \<and> \<not> can_read_group p a g (Some actor)
        then Err non_enumerating_group_error
        else Ok Accept))))))"

definition check_join ::
  "group_projection \<Rightarrow> group_policy_config \<Rightarrow> pocket_event \<Rightarrow> group_id \<Rightarrow> group_error + group_write_decision" where
  "check_join p policy e g =
     and_then (require_active_group p g) (\<lambda>grp.
     and_then (view_pubkey e) (\<lambda>pubkey.
       if is_current_member p g pubkey
       then Err (error_duplicate DuplicateMember ''group member already exists'')
       else if gm_closed (gst_metadata grp) \<or> \<not> gp_public_join policy
       then Err non_enumerating_group_error
       else Ok Accept))"

definition check_leave :: "group_projection \<Rightarrow> pocket_event \<Rightarrow> group_id \<Rightarrow> group_error + group_write_decision" where
  "check_leave p e g =
     and_then (require_active_group p g) (\<lambda>_.
     and_then (view_pubkey e) (\<lambda>pubkey.
       if \<not> is_current_member p g pubkey
       then Err (error_duplicate DuplicateMember ''group member does not exist'')
       else Ok Accept))"

definition check_normal_event ::
  "group_projection \<Rightarrow> group_authority \<Rightarrow> group_policy_config \<Rightarrow> pocket_event \<Rightarrow> group_id \<Rightarrow>
   group_error + group_write_decision" where
  "check_normal_event p a policy e g =
     and_then (require_active_group p g) (\<lambda>grp.
       if kind_u32 e = KIND_GROUP_JOIN_REQUEST then check_join p policy e g
       else if kind_u32 e = KIND_GROUP_LEAVE_REQUEST then check_leave p e g
       else and_then (view_pubkey e) (\<lambda>actor.
         if gm_restricted (gst_metadata grp) \<and> \<not> can_read_group p a g (Some actor)
         then Err non_enumerating_group_error
         else and_then (view_kind e) (\<lambda>k.
           case gm_supported_kinds (gst_metadata grp) of
             UnspecifiedAll \<Rightarrow> Ok Accept
           | NoKinds \<Rightarrow> Err (error_restricted UnsupportedGroupKind
               ''group does not accept normal event kinds'')
           | Only kinds \<Rightarrow>
               if k \<notin> kinds
               then Err (error_restricted UnsupportedGroupKind
                 ''event kind is not supported by this group'')
               else Ok Accept)))"

definition check_event ::
  "group_projection \<Rightarrow> group_authority \<Rightarrow> group_policy_config \<Rightarrow> pocket_event \<Rightarrow> group_event_class \<Rightarrow>
   group_auth_context \<Rightarrow> group_error + group_write_decision" where
  "check_event p a policy e cls auth =
     and_then (require_group_auth_as_author e cls auth) (\<lambda>_.
       case cls of
         NonGroup \<Rightarrow> Ok IgnoreNonGroup
       | RelayGeneratedSnapshot _ _ \<Rightarrow> Err (error_blocked DirectRelayGeneratedSubmission
           ''relay-generated group state events cannot be submitted by clients'')
       | Moderation k g \<Rightarrow> check_moderation_event p a policy e k g
       | NormalEvent g \<Rightarrow> check_normal_event p a policy e g)"

section \<open>The read gate\<close>

datatype group_read_decision = Visible | Hidden

definition gate_can_read_group ::
  "group_projection \<Rightarrow> group_authority \<Rightarrow> group_id \<Rightarrow> public_key_hex option \<Rightarrow> bool" where
  "gate_can_read_group p a g reader =
     (case reader of
        None \<Rightarrow> False
      | Some r \<Rightarrow>
          if is_admin a r then True
          else (case gp_member p g r of None \<Rightarrow> False | Some m \<Rightarrow> ms_status m = Member))"

definition is_public_when_private_snapshot :: "u32 \<Rightarrow> bool" where
  "is_public_when_private_snapshot k \<longleftrightarrow> k = KIND_GROUP_METADATA \<or> k = KIND_GROUP_ADMINS"

definition screen_normal_event ::
  "group_projection \<Rightarrow> group_authority \<Rightarrow> group_id \<Rightarrow> public_key_hex option \<Rightarrow> group_read_decision" where
  "screen_normal_event p a g reader =
     (case gp_group p g of
        None \<Rightarrow> Hidden
      | Some grp \<Rightarrow>
          if gp_tombstone p g \<noteq> None then Hidden
          else if (gm_hidden (gst_metadata grp) \<or> gm_private (gst_metadata grp))
            \<and> \<not> gate_can_read_group p a g reader then Hidden
          else Visible)"

definition screen_delete_group_marker ::
  "group_projection \<Rightarrow> group_authority \<Rightarrow> event_id \<Rightarrow> group_id \<Rightarrow> public_key_hex option \<Rightarrow> group_read_decision" where
  "screen_delete_group_marker p a eid g reader =
     (case gp_group p g of
        None \<Rightarrow> Hidden
      | Some grp \<Rightarrow>
          if (case gp_tombstone p g of None \<Rightarrow> True | Some t \<Rightarrow> ts_delete_event_id t \<noteq> eid)
          then screen_normal_event p a g reader
          else if (gm_hidden (gst_metadata grp) \<or> gm_private (gst_metadata grp))
            \<and> \<not> gate_can_read_group p a g reader then Hidden
          else Visible)"

definition screen_snapshot_event ::
  "group_projection \<Rightarrow> group_authority \<Rightarrow> u32 \<Rightarrow> group_id \<Rightarrow> public_key_hex option \<Rightarrow> group_read_decision" where
  "screen_snapshot_event p a k g reader =
     (case gp_group p g of
        None \<Rightarrow> Hidden
      | Some grp \<Rightarrow>
          if gp_tombstone p g \<noteq> None then Hidden
          else if gm_hidden (gst_metadata grp) \<and> \<not> gate_can_read_group p a g reader then Hidden
          else if gm_private (gst_metadata grp) \<and> \<not> is_public_when_private_snapshot k
            \<and> \<not> gate_can_read_group p a g reader then Hidden
          else Visible)"

definition screen_event ::
  "group_projection \<Rightarrow> group_authority \<Rightarrow> pocket_event \<Rightarrow> public_key_hex option \<Rightarrow> group_limits_config \<Rightarrow>
   group_error + group_read_decision" where
  "screen_event p a e reader limits =
     and_then (view_id e) (\<lambda>eid.
       if gp_event_deletion p eid \<noteq> None then Ok Hidden
       else and_then (classify_group_event e limits) (\<lambda>cls.
         case cls of
           NonGroup \<Rightarrow> Ok Visible
         | NormalEvent g \<Rightarrow> Ok (screen_normal_event p a g reader)
         | Moderation _ g \<Rightarrow>
             if kind_u32 e = KIND_GROUP_DELETE_GROUP
             then Ok (screen_delete_group_marker p a eid g reader)
             else Ok (screen_normal_event p a g reader)
         | RelayGeneratedSnapshot k g \<Rightarrow> Ok (screen_snapshot_event p a k g reader)))"

definition require_visible ::
  "group_projection \<Rightarrow> group_authority \<Rightarrow> pocket_event \<Rightarrow> public_key_hex option \<Rightarrow> group_limits_config \<Rightarrow>
   group_error + unit" where
  "require_visible p a e reader limits =
     and_then (screen_event p a e reader limits) (\<lambda>decision.
       case decision of Visible \<Rightarrow> Ok () | Hidden \<Rightarrow> Err non_enumerating_group_error)"

end
