(* ===== verification/Policy_Facts.thy ===== *)
theory Policy_Facts
  imports Group_Policy
begin

text \<open>
  What the write policy and the read gate guarantee: nothing is written to a deleted group, only
  owners create groups, an accepted moderation event has an authorised author, protected members
  are not removed, normal events follow the group's settings exactly; a visible group event is
  readable by the reader, and authenticating never hides an event. Two theorems record weaknesses
  of the code: an accepted event can make every later rebuild fail, and a role-less put-user event
  takes the protection of an override member away.
\<close>

section \<open>Writes\<close>

lemma require_active_group_Ok:
  "require_active_group p g = Ok grp \<longleftrightarrow>
     gp_group p g = Some grp \<and> gst_lifecycle grp = Active \<and> gp_tombstone p g = None"
  by (auto simp: require_active_group_def split: option.splits if_splits
      intro: group_lifecycle_state.exhaust)

lemma require_auth_Ok:
  "require_group_auth_as_author e cls auth = Ok u \<longleftrightarrow>
     cls = NonGroup \<or> (valid_pubkey (pe_pubkey e) \<and> pe_pubkey e \<in> auth)"
  by (auto simp: require_group_auth_as_author_def and_then_Ok_iff)

text \<open>
  Nothing can be written to a group that has a tombstone: the write policy rejects every
  event of that group, whoever signs it and whatever its class.
\<close>

theorem deleted_group_rejects_writes:
  assumes "gp_tombstone p g \<noteq> None" and "class_group_id cls = Some g"
  shows "\<not> is_ok (check_event p a policy e cls auth)"
  using assms
  by (cases cls) (auto simp: is_ok_iff check_event_def and_then_Ok_iff check_moderation_event_def
      check_create_group_def check_normal_event_def require_active_group_Ok split: if_splits)

theorem deleted_group_rejects_writes_witness:
  "\<not> is_ok (check_event (put_tombstone sample_tombstone projection_new) (authority_new [] [])
      group_policy_strict (sample_pocket_event 9 [[''h'', ''welcome'']]) (NormalEvent ''welcome'')
      {replicate 64 CHR ''b''})"
  by (rule deleted_group_rejects_writes [of _ "''welcome''"])
     (simp_all add: gp_tombstone_def put_tombstone_def projection_new_def sample_tombstone_def)

text \<open>
  Creating a group is accepted exactly when the author is authenticated and a relay owner,
  and the group id was never used: it has neither a group nor a tombstone.
\<close>

theorem create_group_exact:
  "(check_event p a policy e (Moderation KIND_GROUP_CREATE_GROUP g) auth = Ok d) =
     (d = Accept \<and> valid_pubkey (pe_pubkey e) \<and> pe_pubkey e \<in> auth \<and> is_owner a (pe_pubkey e)
      \<and> gp_tombstone p g = None \<and> gp_group p g = None)"
  by (auto simp: check_event_def and_then_Ok_iff require_auth_Ok check_moderation_event_def
      check_create_group_def)

lemma check_moderation_Ok:
  assumes "check_moderation_event p a policy e k g = Ok d" and "k \<noteq> KIND_GROUP_CREATE_GROUP"
  shows "d = Accept \<and> (\<exists>grp. require_active_group p g = Ok grp) \<and> valid_pubkey (pe_pubkey e)
    \<and> (\<exists>required. required_capability k e = Ok required
        \<and> (\<forall>r. required = Some r \<longrightarrow> require_capability p a g (pe_pubkey e) r = Ok ()))
    \<and> (k = KIND_GROUP_REMOVE_USER \<longrightarrow>
        (\<exists>t. target_pubkey e ''p'' = Ok t \<and> \<not> is_protected_admin p a g t))"
proof -
  obtain grp required where grp: "require_active_group p g = Ok grp"
    and pk: "view_pubkey e = Ok (pe_pubkey e)" and req: "required_capability k e = Ok required"
    and cap: "(case required of Some r \<Rightarrow> require_capability p a g (pe_pubkey e) r | None \<Rightarrow> Ok ()) = Ok ()"
    and remove: "(if k = KIND_GROUP_REMOVE_USER
           then and_then (target_pubkey e ''p'') (\<lambda>target.
             if is_protected_admin p a g target
             then Err (error_restricted MissingCapability ''permanent group admins cannot be removed'')
             else Ok ())
           else Ok ()) = Ok ()"
    and d: "d = Accept"
    using assms unfolding check_moderation_event_def
    by (auto simp: and_then_Ok_iff split: if_splits)
  moreover have "\<forall>r. required = Some r \<longrightarrow> require_capability p a g (pe_pubkey e) r = Ok ()"
    using cap by auto
  moreover have "k = KIND_GROUP_REMOVE_USER \<longrightarrow>
      (\<exists>t. target_pubkey e ''p'' = Ok t \<and> \<not> is_protected_admin p a g t)"
    using remove by (auto simp: and_then_Ok_iff split: if_splits)
  ultimately show ?thesis by auto
qed

lemma require_capability_Ok:
  "require_capability p a g pk r = Ok u \<longleftrightarrow> is_admin a pk
     \<or> (\<exists>caps. actor_capabilities p g pk = Ok caps \<and> r \<in> caps)"
  by (auto simp: require_capability_def and_then_Ok_iff)

lemma actor_capabilities_member:
  "actor_capabilities p g pk = Ok caps \<Longrightarrow> r \<in> caps \<Longrightarrow> is_current_member p g pk"
  by (auto simp: actor_capabilities_def is_current_member_def split: option.splits if_splits)

text \<open>The capability that each kind of moderation event needs; adding a user with roles needs its own.\<close>

definition needs_capability :: "pocket_event \<Rightarrow> u32 \<Rightarrow> capability \<Rightarrow> bool" where
  "needs_capability e k r \<longleftrightarrow>
     (k, r) \<in> set [(9001, ManageMembers), (9002, ManageMetadata), (9005, DeleteEvents), (9008, DeleteGroup),
       (9009, CreateInvites)]
     \<or> k = 9000 \<and> (\<exists>roles. has_role_tag e = Ok roles \<and> r = (if roles then ManageRoles else ManageMembers))"

lemma required_capability_needed:
  "required_capability k e = Ok required \<Longrightarrow> needs_capability e k r \<Longrightarrow> required = Some r"
  by (auto simp: required_capability_def needs_capability_def split: if_splits)

text \<open>
  Claim C1. An accepted moderation event has an authenticated author. When it creates a group the author is an
  owner of the relay, and the group neither exists nor was deleted. Every other one is for a group that
  exists and is not deleted, and when its kind needs a capability the author is a relay admin or a
  current member of the group whose roles resolve to a set that holds it.
\<close>

theorem accepted_moderation_authorized:
  assumes "check_event p a policy e (Moderation k g) auth = Ok d"
  shows "pe_pubkey e \<in> auth
    \<and> (if k = 9007 then is_owner a (pe_pubkey e) \<and> gp_group p g = None \<and> gp_tombstone p g = None
       else (\<exists>grp. require_active_group p g = Ok grp)
         \<and> (\<forall>r. needs_capability e k r \<longrightarrow>
              is_admin a (pe_pubkey e) \<or> (is_current_member p g (pe_pubkey e)
                \<and> (\<exists>caps. actor_capabilities p g (pe_pubkey e) = Ok caps \<and> r \<in> caps))))"
proof -
  have auth: "pe_pubkey e \<in> auth" and check: "check_moderation_event p a policy e k g = Ok d"
    using assms by (auto simp: check_event_def and_then_Ok_iff require_auth_Ok)
  show ?thesis
  proof (cases "k = 9007")
    case True
    then have "check_create_group p a e g = Ok d" using check by (simp add: check_moderation_event_def)
    then show ?thesis using auth True by (auto simp: check_create_group_def and_then_Ok_iff split: if_splits)
  next
    case False
    then have moderation: "(\<exists>grp. require_active_group p g = Ok grp)"
      "\<exists>required. required_capability k e = Ok required
        \<and> (\<forall>r. required = Some r \<longrightarrow> require_capability p a g (pe_pubkey e) r = Ok ())"
      using check_moderation_Ok [OF check] by simp_all
    have "is_admin a (pe_pubkey e) \<or> (is_current_member p g (pe_pubkey e)
        \<and> (\<exists>caps. actor_capabilities p g (pe_pubkey e) = Ok caps \<and> r \<in> caps))" if "needs_capability e k r" for r
    proof -
      have "require_capability p a g (pe_pubkey e) r = Ok ()"
        using moderation(2) required_capability_needed that by blast
      then show ?thesis unfolding require_capability_Ok using actor_capabilities_member by blast
    qed
    with auth moderation(1) False show ?thesis by simp
  qed
qed

subsection \<open>The target of a moderation event\<close>

lemma target_fold:
  assumes "is_indexable_name n"
  shows "try_fold (target_pubkey_visit n) f0 ts = Ok r \<Longrightarrow> try_fold (first_tag_visit n) f0 ts = Ok r"
proof (induction ts arbitrary: f0)
  case Nil
  then show ?case by simp
next
  case (Cons t ts)
  then obtain f1 where f1: "target_pubkey_visit n f0 t = Ok f1"
    and rest: "try_fold (target_pubkey_visit n) f1 ts = Ok r"
    by (auto simp: and_then_Ok_iff)
  have "first_tag_visit n f0 t = Ok f1"
    using f1 by (auto simp: target_pubkey_visit_def first_tag_visit_def map_ok_Ok_iff
        split: if_splits option.splits)
  with Cons.IH [OF rest] show ?case by simp
qed

lemma target_fold_valid:
  "try_fold (target_pubkey_visit n) f0 ts = Ok r \<Longrightarrow> pred_option valid_pubkey f0 \<Longrightarrow> pred_option valid_pubkey r"
  by (erule try_fold_invariant [where P = "pred_option valid_pubkey"])
     (auto simp: target_pubkey_visit_def map_ok_Ok_iff split: if_splits option.splits)

lemma target_agrees:
  assumes "target_pubkey e ''p'' = Ok t"
  shows "first_tag_value e ''p'' = Ok t" and "valid_pubkey t"
proof -
  obtain ts where ts: "readable_tags e ts" and fold: "try_fold (target_pubkey_visit ''p'') None ts = Ok (Some t)"
    using assms by (auto simp: target_pubkey_def and_then_Ok_iff visit_tags_Ok)
  show "first_tag_value e ''p'' = Ok t"
    using ts target_fold [OF p_e_indexable(1) fold]
    by (auto simp: first_tag_value_def and_then_Ok_iff visit_tags_Ok)
  show "valid_pubkey t" using target_fold_valid [OF fold] by simp
qed

text \<open>
  Claim C31. A removal that the policy accepts never removes a protected admin: the member that
  applying the event marks as removed is the very target the policy examined, and it was neither
  a relay owner or admin nor a current member holding the override role.
\<close>

theorem accepted_removal_spares_protected:
  assumes "check_moderation_event p a policy e KIND_GROUP_REMOVE_USER g = Ok d"
    and "kind_u32 e = KIND_GROUP_REMOVE_USER"
    and "apply_moderation_event g e tuple limits p' = Ok (out, q)"
  shows "\<exists>target roles. \<not> is_protected_admin p a g target
    \<and> q = put_member g \<lparr>ms_pubkey = target, ms_status = Removed, ms_roles = roles,
        ms_last_event_id = pe_id e, ms_last_tuple = tuple\<rparr> p'"
proof -
  obtain t where t: "target_pubkey e ''p'' = Ok t" and free: "\<not> is_protected_admin p a g t"
    using check_moderation_Ok [OF assms(1)] by auto
  show ?thesis
    using assms(2,3) target_agrees [OF t] free
    by (auto simp: apply_moderation_event_def apply_member_status_def and_then_Ok_iff Let_def)
qed

section \<open>Normal events\<close>

text \<open>
  Claim C30. A normal group event is accepted exactly when its author is authenticated, the group is
  active and: a join request comes from a non-member of an open group with public join enabled; a
  leave request comes from a current member; any other kind is one the group supports, and in a
  restricted group its author is a member or a relay admin.
\<close>

theorem normal_event_exact:
  "(check_event p a policy e (NormalEvent g) auth = Ok d) =
     (d = Accept \<and> valid_pubkey (pe_pubkey e) \<and> pe_pubkey e \<in> auth
      \<and> (case gp_group p g of
           None \<Rightarrow> False
         | Some grp \<Rightarrow> gst_lifecycle grp = Active \<and> gp_tombstone p g = None
             \<and> (if kind_u32 e = KIND_GROUP_JOIN_REQUEST
                then \<not> is_current_member p g (pe_pubkey e) \<and> \<not> gm_closed (gst_metadata grp)
                  \<and> gp_public_join policy
                else if kind_u32 e = KIND_GROUP_LEAVE_REQUEST
                then is_current_member p g (pe_pubkey e)
                else (if gm_restricted (gst_metadata grp)
                      then is_admin a (pe_pubkey e) \<or> is_current_member p g (pe_pubkey e) else True)
                  \<and> (case gm_supported_kinds (gst_metadata grp) of
                       UnspecifiedAll \<Rightarrow> True | NoKinds \<Rightarrow> False | Only ks \<Rightarrow> kind_u32 e \<in> ks))))"
proof (cases "gp_group p g")
  case None
  then show ?thesis
    by (simp add: check_event_def and_then_Ok_iff check_normal_event_def require_active_group_Ok)
next
  case (Some grp)
  then show ?thesis
    by (cases "gm_supported_kinds (gst_metadata grp)")
       (auto simp: check_event_def and_then_Ok_iff require_auth_Ok check_normal_event_def
          require_active_group_Ok check_join_def check_leave_def can_read_group_def split: if_splits)
qed

section \<open>Reads\<close>

lemma can_read_agree: "gate_can_read_group p a g r = can_read_group p a g r"
  by (auto simp: gate_can_read_group_def can_read_group_def is_current_member_def split: option.split)

text \<open>
  Claim C19. A group event that the gate shows was not deleted, its group exists, and either the
  reader may read the group (by the same rule the write policy uses) or the group is not hidden
  and is public for that kind (metadata and admin lists of a private group are public). In a
  deleted group only the event that deleted it is shown.
\<close>

theorem visible_event_authorized:
  assumes "screen_event p a e reader limits = Ok Visible"
    and "classify_group_event e limits = Ok cls" and "class_group_id cls = Some g"
  shows "\<exists>grp. gp_group p g = Some grp \<and> gp_event_deletion p (pe_id e) = None
    \<and> (can_read_group p a g reader \<or> (\<not> gm_hidden (gst_metadata grp)
        \<and> (\<not> gm_private (gst_metadata grp) \<or> kind_u32 e = KIND_GROUP_METADATA
           \<or> kind_u32 e = KIND_GROUP_ADMINS)))
    \<and> (gp_tombstone p g = None
       \<or> (kind_u32 e = KIND_GROUP_DELETE_GROUP \<and> ts_delete_event_id (the (gp_tombstone p g)) = pe_id e))"
proof -
  have del: "gp_event_deletion p (pe_id e) = None"
    using assms(1) by (auto simp: screen_event_def and_then_Ok_iff split: if_splits)
  have kind: "k = kind_u32 e" if "cls = RelayGeneratedSnapshot k g" for k
    using assms(2) that by (auto simp: classify_group_event_def map_ok_Ok_iff and_then_Ok_iff
        split: if_splits option.splits)
  show ?thesis
    using assms(1,2,3) del kind
    by (cases cls)
       (auto simp: screen_event_def and_then_Ok_iff screen_normal_event_def
          screen_delete_group_marker_def screen_snapshot_event_def can_read_agree
          is_public_when_private_snapshot_def split: if_splits option.splits)
qed

lemma screen_mono:
  "(can_read_group p a g r \<longrightarrow> can_read_group p a g s) \<Longrightarrow>
     (screen_normal_event p a g r = Visible \<longrightarrow> screen_normal_event p a g s = Visible)
   \<and> (screen_delete_group_marker p a i g r = Visible \<longrightarrow> screen_delete_group_marker p a i g s = Visible)
   \<and> (screen_snapshot_event p a k g r = Visible \<longrightarrow> screen_snapshot_event p a k g s = Visible)"
  by (auto simp: screen_normal_event_def screen_delete_group_marker_def screen_snapshot_event_def
      can_read_agree split: option.splits if_splits)

text \<open>
  Authenticating never hides an event: what an anonymous reader sees, every reader sees.
\<close>

theorem anonymous_visible_to_all:
  assumes "screen_event p a e None limits = Ok Visible"
  shows "screen_event p a e reader limits = Ok Visible"
proof -
  obtain cls where id: "valid_event_id (pe_id e)" and cls: "classify_group_event e limits = Ok cls"
    and del: "gp_event_deletion p (pe_id e) = None"
    using assms by (auto simp: screen_event_def and_then_Ok_iff split: if_splits)
  have anon: "can_read_group p a g None \<longrightarrow> can_read_group p a g reader" for g
    by (simp add: can_read_group_def)
  have screen: "screen_event p a e r limits = (case cls of
         NonGroup \<Rightarrow> Ok Visible
       | NormalEvent g \<Rightarrow> Ok (screen_normal_event p a g r)
       | Moderation _ g \<Rightarrow>
           if kind_u32 e = KIND_GROUP_DELETE_GROUP
           then Ok (screen_delete_group_marker p a (pe_id e) g r)
           else Ok (screen_normal_event p a g r)
       | RelayGeneratedSnapshot k g \<Rightarrow> Ok (screen_snapshot_event p a k g r))" for r
    using id cls del by (simp add: screen_event_def view_id_def)
  show ?thesis
    using assms screen_mono [OF anon] unfolding screen
    by (cases cls) (auto split: if_splits)
qed

section \<open>Weaknesses\<close>

lemma apply_events_each:
  assumes "apply_events limits cs p = Ok q" and "c \<in> set cs"
  shows "\<exists>p q. apply_event limits p c = Ok q"
  using assms
proof (induction cs arbitrary: p)
  case Nil
  then show ?case by simp
next
  case (Cons d cs)
  then obtain r where "apply_event limits p d = Ok r" and "apply_events limits cs r = Ok q"
    by (auto simp: apply_events_def and_then_Ok_iff)
  with Cons show ?case by auto
qed

lemma unappliable_event_blocks_rebuild:
  assumes "\<And>p q. apply_event limits p c \<noteq> Ok q" and "c \<in> set cs"
  shows "\<not> is_ok (rebuild_group_projection cs limits t)"
proof
  assume "is_ok (rebuild_group_projection cs limits t)"
  then obtain r p where "apply_events limits (sort_key ce_tuple cs) projection_new = Ok p"
    unfolding is_ok_iff using rebuild_apply_events by metis
  from apply_events_each [OF this, of c] assms show False by simp
qed

lemma ascii_event_tag: "list_all is_ascii t \<Longrightarrow> event_tag_from_pocket t = Ok t"
  by (auto simp: event_tag_from_pocket_Ok list_all_iff intro: valid_utf8_ascii)

lemma sample_visit:
  assumes "list_all (list_all is_ascii) tags"
  shows "visit_tags (sample_pocket_event k tags) f s = try_fold f s tags"
proof -
  have "try_fold (\<lambda>s tag. and_then (event_tag_from_pocket tag) (f s)) s tags = try_fold f s tags"
    using assms
  proof (induction tags arbitrary: s)
    case Nil
    then show ?case by simp
  next
    case (Cons t tags)
    then show ?case by (cases "f s t") (auto simp: ascii_event_tag)
  qed
  then show ?thesis by (simp add: visit_tags_def)
qed

abbreviation sample_key :: public_key_hex where "sample_key \<equiv> replicate 64 CHR ''b''"
abbreviation sample_target :: public_key_hex where "sample_target \<equiv> replicate 64 CHR ''c''"
abbreviation sample_id :: event_id where "sample_id \<equiv> replicate 64 CHR ''0''"

lemma sample_pubkey [simp]:
  "pe_pubkey (sample_pocket_event k tags) = sample_key"
  by (simp add: sample_pocket_event_def)

lemma sample_hex [simp]: "valid_pubkey sample_key" "valid_pubkey sample_target" "valid_event_id sample_id"
  using lower_hex_replicate lower_hex_char_samples by blast+

lemma sample_key_neq [simp]: "sample_key \<noteq> sample_target" "sample_target \<noteq> sample_key"
  by (simp_all add: numeral_eq_Suc)

text \<open>A group with a moderator who may manage members, and a member with the override role.\<close>

definition sample_projection :: group_projection where
  "sample_projection = projection_new\<lparr>
     gp_groups := [(''welcome'', group_state_new ''welcome'' group_metadata_empty sample_key sample_id
       (OrderTuple 0 sample_id 0))],
     gp_members := [
       ((''welcome'', sample_key), \<lparr>ms_pubkey = sample_key, ms_status = Member,
          ms_roles = {''moderator''}, ms_last_event_id = sample_id,
          ms_last_tuple = OrderTuple 0 sample_id 1\<rparr>),
       ((''welcome'', sample_target), \<lparr>ms_pubkey = sample_target, ms_status = Member,
          ms_roles = {''relay_owner''}, ms_last_event_id = sample_id,
          ms_last_tuple = OrderTuple 0 sample_id 2\<rparr>)],
     gp_roles := [((''welcome'', ''moderator''),
       \<lparr>pr_definition = \<lparr>rd_name = ''moderator'', rd_capabilities = {ManageMembers, ManageMetadata},
          rd_description = None\<rparr>, pr_last_event_id = sample_id,
        pr_last_tuple = OrderTuple 0 sample_id 3\<rparr>)]\<rparr>"

lemma sample_projection_simps [simp]:
  "gp_group sample_projection ''welcome'' = Some (group_state_new ''welcome'' group_metadata_empty
     sample_key sample_id (OrderTuple 0 sample_id 0))"
  "gp_tombstone sample_projection g = None"
  "gp_event_deletion sample_projection i = None"
  "gp_member sample_projection ''welcome'' sample_key = Some \<lparr>ms_pubkey = sample_key, ms_status = Member,
     ms_roles = {''moderator''}, ms_last_event_id = sample_id,
     ms_last_tuple = OrderTuple 0 sample_id 1\<rparr>"
  "gp_member sample_projection ''welcome'' sample_target = Some \<lparr>ms_pubkey = sample_target,
     ms_status = Member, ms_roles = {''relay_owner''}, ms_last_event_id = sample_id,
     ms_last_tuple = OrderTuple 0 sample_id 2\<rparr>"
  by (simp_all add: sample_projection_def gp_group_def gp_tombstone_def gp_event_deletion_def
      gp_member_def projection_new_def)

lemma sample_active [simp]:
  "require_active_group sample_projection ''welcome'' = Ok (group_state_new ''welcome''
     group_metadata_empty sample_key sample_id (OrderTuple 0 sample_id 0))"
  by (simp add: require_active_group_def) (simp add: group_state_new_def)

lemma sample_capabilities:
  "actor_capabilities sample_projection ''welcome'' sample_key = Ok {ManageMembers, ManageMetadata}"
  by (simp add: actor_capabilities_def)
     (simp add: sample_projection_def resolve_capabilities_def resolve_visit_def bt_of_list_def
        is_permanent_relay_override_def)

text \<open>A member whose role manages the metadata edits the metadata, and is no admin of the relay.\<close>

theorem accepted_moderation_authorized_witness:
  "check_event sample_projection (authority_new [] []) group_policy_strict
      (sample_pocket_event 9002 []) (Moderation 9002 ''welcome'') {sample_key} = Ok Accept
   \<and> \<not> is_admin (authority_new [] []) sample_key
   \<and> is_current_member sample_projection ''welcome'' sample_key
   \<and> (\<exists>caps. actor_capabilities sample_projection ''welcome'' sample_key = Ok caps \<and> ManageMetadata \<in> caps)"
proof -
  have accepted: "check_event sample_projection (authority_new [] []) group_policy_strict
      (sample_pocket_event 9002 []) (Moderation 9002 ''welcome'') {sample_key} = Ok Accept"
    by (simp add: check_event_def require_group_auth_as_author_def view_pubkey_def
        check_moderation_event_def required_capability_def require_capability_def sample_capabilities)
       (simp add: group_state_new_def group_metadata_empty_def)
  have "needs_capability (sample_pocket_event 9002 []) 9002 ManageMetadata"
    "\<not> is_admin (authority_new [] []) sample_key"
    by (simp_all add: needs_capability_def is_admin_def is_owner_def authority_new_def)
  with accepted_moderation_authorized [OF accepted] accepted show ?thesis by auto
qed

definition sample_target_event :: "u16 \<Rightarrow> pocket_event" where
  "sample_target_event k = sample_pocket_event k [[''h'', ''welcome''], [''p'', sample_target]]"

lemma sample_target_visit:
  "visit_tags (sample_target_event k) f s = and_then (f s [''h'', ''welcome''])
     (\<lambda>s. and_then (f s [''p'', sample_target]) Ok)"
proof -
  have "list_all (list_all is_ascii) [[''h'', ''welcome''], [''p'', sample_target]]"
    by (simp add: is_ascii_def byte_def)
  then show ?thesis by (simp add: sample_target_event_def sample_visit)
qed

lemma sample_target_event_simps [simp]:
  "pocket_event_ok (sample_target_event k)"
  "pe_pubkey (sample_target_event k) = sample_key"
  "kind_u32 (sample_target_event k) = ucast k"
  "view_pubkey (sample_target_event k) = Ok sample_key"
  by (simp_all add: sample_target_event_def view_pubkey_def sample_pocket_event_ok)

lemma sample_target_read:
  "first_tag_value (sample_target_event k) ''p'' = Ok sample_target"
  "target_pubkey (sample_target_event k) ''p'' = Ok sample_target"
  "has_role_tag (sample_target_event k) = Ok False"
  by (simp_all add: first_tag_value_def target_pubkey_def has_role_tag_def sample_target_visit
      first_tag_visit_def target_pubkey_visit_def view_indexed_pair_def values_get_def)

lemma no_role_tags:
  assumes "has_role_tag e = Ok False"
  shows "role_tags e = Ok {}"
proof -
  let ?f = "\<lambda>found tag. Ok (if first_value tag = Some ''role'' then True else found)"
  obtain ts where ts: "readable_tags e ts" and fold: "try_fold ?f False ts = (Ok False :: group_error + bool)"
    using assms by (auto simp: has_role_tag_def visit_tags_Ok)
  have stays: "try_fold ?f True ts = (Ok b :: group_error + bool) \<longleftrightarrow> b" for b ts
    by (induction ts) auto
  have "try_fold role_tag_visit {} ts = Ok {}"
    using fold
  proof (induction ts)
    case (Cons t ts)
    then show ?case by (cases "first_value t = Some ''role''") (auto simp: stays role_tag_visit_def)
  qed simp
  with ts show ?thesis by (auto simp: role_tags_def visit_tags_Ok)
qed

text \<open>
  Protection can be stripped: a put-user event without role tags needs only the
  manage-members capability, also when its target holds the override role; the policy accepts
  it, and once it is applied the target (no relay admin itself) is no longer protected from
  removal.
\<close>

theorem put_user_strips_protection:
  assumes "require_active_group p g = Ok grp" and "valid_pubkey (pe_pubkey e)"
    and "pe_pubkey e \<in> auth" and "has_role_tag e = Ok False"
    and "require_capability p a g (pe_pubkey e) ManageMembers = Ok ()"
    and "kind_u32 e = KIND_GROUP_PUT_USER" and "valid_event_id (pe_id e)"
    and "first_tag_value e ''p'' = Ok target" and "valid_pubkey target" and "\<not> is_admin a target"
    and "gp_member p g target = Some m" and "ms_last_tuple m \<le> tuple"
  shows "check_event p a policy e (Moderation KIND_GROUP_PUT_USER g) auth = Ok Accept
    \<and> (\<exists>q. apply_moderation_event g e tuple limits p = Ok (Applied, q) \<and> \<not> is_protected_admin q a g target)"
proof
  have pk: "view_pubkey e = Ok (pe_pubkey e)" "view_id e = Ok (pe_id e)"
    using assms(2,7) by (simp_all add: view_pubkey_def view_id_def)
  show "check_event p a policy e (Moderation KIND_GROUP_PUT_USER g) auth = Ok Accept"
    unfolding check_event_def check_moderation_event_def require_group_auth_as_author_def
      required_capability_def pk assms(4)
    using assms(1,3,5) by simp
  let ?s = "\<lparr>ms_pubkey = target, ms_status = Member, ms_roles = {}, ms_last_event_id = pe_id e,
      ms_last_tuple = tuple\<rparr>"
  have "apply_moderation_event g e tuple limits p = Ok (Applied, put_member g ?s p)"
    unfolding apply_moderation_event_def apply_member_status_def assms(6,8) no_role_tags [OF assms(4)] pk
    using assms(9) by (simp add: Let_def)
  moreover have "gp_member (put_member g ?s p) g target = Some ?s"
    using assms(11,12) by (simp add: gp_member_def put_member_def Let_def bt_get_insert)
  then have "\<not> is_protected_admin (put_member g ?s p) a g target"
    using assms(10) by (simp add: is_protected_admin_def is_permanent_admin_def has_relay_override_def)
  ultimately show "\<exists>q. apply_moderation_event g e tuple limits p = Ok (Applied, q)
      \<and> \<not> is_protected_admin q a g target" by blast
qed

theorem put_user_strips_protection_witness:
  "is_protected_admin sample_projection (authority_new [] []) ''welcome'' sample_target
   \<and> check_event sample_projection (authority_new [] []) group_policy_strict (sample_target_event 9000)
       (Moderation 9000 ''welcome'') {sample_key} = Ok Accept
   \<and> (\<exists>q. apply_moderation_event ''welcome'' (sample_target_event 9000) (OrderTuple 5 sample_id 9)
         group_limits_default sample_projection = Ok (Applied, q)
       \<and> \<not> is_protected_admin q (authority_new [] []) ''welcome'' sample_target)"
proof (rule conjI)
  show "is_protected_admin sample_projection (authority_new [] []) ''welcome'' sample_target"
    by (simp add: is_protected_admin_def has_relay_override_def)
  show "check_event sample_projection (authority_new [] []) group_policy_strict (sample_target_event 9000)
       (Moderation 9000 ''welcome'') {sample_key} = Ok Accept
   \<and> (\<exists>q. apply_moderation_event ''welcome'' (sample_target_event 9000) (OrderTuple 5 sample_id 9)
         group_limits_default sample_projection = Ok (Applied, q)
       \<and> \<not> is_protected_admin q (authority_new [] []) ''welcome'' sample_target)"
  proof (rule put_user_strips_protection)
    show "require_active_group sample_projection ''welcome'' = Ok (group_state_new ''welcome''
        group_metadata_empty sample_key sample_id (OrderTuple 0 sample_id 0))" by simp
    show "require_capability sample_projection (authority_new [] []) ''welcome''
        (pe_pubkey (sample_target_event 9000)) ManageMembers = Ok ()"
      by (simp add: require_capability_def sample_capabilities)
    show "valid_event_id (pe_id (sample_target_event 9000))"
      by (simp add: sample_target_event_def sample_pocket_event_def lower_hex_replicate)
    show "ms_last_tuple \<lparr>ms_pubkey = sample_target, ms_status = Member, ms_roles = {''relay_owner''},
        ms_last_event_id = sample_id, ms_last_tuple = OrderTuple 0 sample_id 2\<rparr> \<le> OrderTuple 5 sample_id 9"
      by (simp add: less_eq_projection_order_tuple_def ot_key_def)
  qed (simp_all add: sample_target_read is_admin_def is_owner_def authority_new_def)
qed

theorem accepted_removal_spares_protected_witness:
  "\<exists>target roles out q. apply_moderation_event ''welcome'' (sample_target_event 9001) (OrderTuple 5 sample_id 9)
        group_limits_default sample_projection = Ok (out, q)
     \<and> \<not> is_protected_admin (sample_projection\<lparr>gp_members := [hd (gp_members sample_projection)]\<rparr>)
         (authority_new [] []) ''welcome'' target
     \<and> q = put_member ''welcome'' \<lparr>ms_pubkey = target, ms_status = Removed, ms_roles = roles,
         ms_last_event_id = pe_id (sample_target_event 9001), ms_last_tuple = OrderTuple 5 sample_id 9\<rparr>
         sample_projection"
proof -
  let ?p = "sample_projection\<lparr>gp_members := [hd (gp_members sample_projection)]\<rparr>"
  have none: "gp_member ?p ''welcome'' sample_target = None"
    by (simp add: gp_member_def sample_projection_def)
  have mod: "gp_member ?p ''welcome'' sample_key = gp_member sample_projection ''welcome'' sample_key"
    by (simp add: gp_member_def sample_projection_def)
  have active: "require_active_group ?p ''welcome'' = require_active_group sample_projection ''welcome''"
  proof -
    have "gp_group ?p ''welcome'' = gp_group sample_projection ''welcome''"
      and "gp_tombstone ?p ''welcome'' = gp_tombstone sample_projection ''welcome''"
      by (simp_all add: gp_group_def gp_tombstone_def del: sample_projection_simps)
    then show ?thesis by (simp only: require_active_group_def)
  qed
  have caps: "actor_capabilities ?p ''welcome'' sample_key = Ok {ManageMembers, ManageMetadata}"
    using sample_capabilities by (simp add: actor_capabilities_def mod)
  have check: "check_moderation_event ?p (authority_new [] []) group_policy_strict (sample_target_event 9001)
      9001 ''welcome'' = Ok Accept"
    by (simp add: check_moderation_event_def active required_capability_def require_capability_def caps
        sample_target_read is_protected_admin_def is_permanent_admin_def has_relay_override_def none
        is_admin_def is_owner_def authority_new_def)
  have "\<exists>out q. apply_moderation_event ''welcome'' (sample_target_event 9001) (OrderTuple 5 sample_id 9)
        group_limits_default sample_projection = Ok (out, q)"
    using no_role_tags [OF sample_target_read(3)]
    by (simp add: apply_moderation_event_def apply_member_status_def sample_target_read Let_def)
  then obtain out q where q: "apply_moderation_event ''welcome'' (sample_target_event 9001)
      (OrderTuple 5 sample_id 9) group_limits_default sample_projection = Ok (out, q)" by blast
  from accepted_removal_spares_protected [OF check _ q] q show ?thesis by auto
qed

definition sample_poison_event :: pocket_event where
  "sample_poison_event = sample_pocket_event 9000
     [[''h'', ''welcome''], [''p'', sample_target], [''role'', ''bad role'']]"

lemma sample_poison_visit:
  "visit_tags sample_poison_event f s = and_then (f s [''h'', ''welcome''])
     (\<lambda>s. and_then (f s [''p'', sample_target]) (\<lambda>s. and_then (f s [''role'', ''bad role'']) Ok))"
proof -
  have "list_all (list_all is_ascii) [[''h'', ''welcome''], [''p'', sample_target], [''role'', ''bad role'']]"
    by (simp add: is_ascii_def byte_def)
  then show ?thesis by (simp add: sample_poison_event_def sample_visit)
qed

lemma sample_poison_simps [simp]:
  "kind_u32 sample_poison_event = 9000" "pe_pubkey sample_poison_event = sample_key"
  "view_pubkey sample_poison_event = Ok sample_key"
  by (simp_all add: sample_poison_event_def view_pubkey_def)

lemma welcome_within: "group_id_new_with_max_bytes ''welcome'' 128 = Ok ''welcome''"
  by (simp add: group_id_new_with_max_bytes_Ok group_id_ok_def utf8_chars_ascii
      is_group_id_separator_def is_ascii_def byte_def is_control_def
      ascii_trim_unchanged is_whitespace_def)

lemma sample_poison_class:
  "classify_group_event sample_poison_event group_limits_default = Ok (Moderation 9000 ''welcome'')"
  by (simp add: classify_group_event_def kind_set_iffs require_group_tag_def extract_group_tag_def
      sample_poison_visit extract_group_tag_visit_def view_indexed_pair_def values_get_def
      group_limits_default_def welcome_within is_indexable_name_def is_ascii_alphabetic_def
      is_ascii_uppercase_def byte_def)

lemma sample_poison_roles: "\<not> is_ok (role_tags sample_poison_event)"
proof -
  have "\<not> is_ok (role_name_new ''bad role'')"
    by (simp add: is_ok_iff valid_role_name_def utf8_chars_ascii is_ascii_def byte_def is_whitespace_def)
  then show ?thesis
    by (auto simp: role_tags_def sample_poison_visit role_tag_visit_def values_get_def is_ok_iff
        and_then_Ok_iff map_ok_Ok_iff)
qed

lemma sample_poison_unappliable:
  "apply_event group_limits_default p \<lparr>ce_event = sample_poison_event, ce_store_offset = off\<rparr> \<noteq> Ok q"
  using sample_poison_roles
  by (auto simp: apply_event_def apply_canonical_event_def sample_poison_class map_ok_Ok_iff and_then_Ok_iff
      apply_moderation_event_def apply_member_status_def is_ok_iff)

text \<open>
  Claim C32. An accepted event can make every later rebuild fail: there is a put-user event, signed
  by a relay owner, that passes the structural gate and the write policy in an active group but
  whose role tag is not a role name; once it is in the log, rebuilding the projection is an
  error, whatever the other events are.
\<close>

theorem accepted_event_blocks_rebuild:
  "\<exists>e. validate_client_group_event_structure e group_limits_default = Ok (Moderation 9000 ''welcome'')
     \<and> check_event sample_projection (authority_new [sample_key] []) group_policy_strict e
         (Moderation 9000 ''welcome'') {sample_key} = Ok Accept
     \<and> (\<forall>xs off ys t. \<not> is_ok (rebuild_group_projection
          (xs @ [\<lparr>ce_event = e, ce_store_offset = off\<rparr>] @ ys) group_limits_default t))"
proof (rule exI [of _ sample_poison_event], intro conjI allI)
  have "ensure_group_tag_limit sample_poison_event group_limits_default = Ok ()"
    by (simp add: ensure_group_tag_limit_def group_identity_tag_count_def sample_poison_visit
        is_group_identity_tag_name_def group_limits_default_def)
  moreover have "require_valid_p_tag sample_poison_event = Ok ()"
    by (simp add: require_valid_p_tag_def require_indexed_tag_value_def sample_poison_visit
        require_indexed_visit_def view_indexed_pair_def values_get_def)
  ultimately show "validate_client_group_event_structure sample_poison_event group_limits_default
      = Ok (Moderation 9000 ''welcome'')"
    by (simp add: validate_client_group_event_structure_def sample_poison_class
        validate_moderation_targets_def)
  show "check_event sample_projection (authority_new [sample_key] []) group_policy_strict
      sample_poison_event (Moderation 9000 ''welcome'') {sample_key} = Ok Accept"
    by (simp add: check_event_def require_group_auth_as_author_def check_moderation_event_def
        required_capability_def has_role_tag_def sample_poison_visit require_capability_def
        is_admin_def is_owner_def authority_new_def)
  show "\<not> is_ok (rebuild_group_projection
      (xs @ [\<lparr>ce_event = sample_poison_event, ce_store_offset = off\<rparr>] @ ys) group_limits_default t)" for xs off ys t
    by (rule unappliable_event_blocks_rebuild [of _ "\<lparr>ce_event = sample_poison_event, ce_store_offset = off\<rparr>"])
       (simp_all add: sample_poison_unappliable)
qed

section \<open>Reading, at concrete inputs\<close>

lemma sample_target_class:
  "classify_group_event (sample_target_event 9000) group_limits_default = Ok (Moderation 9000 ''welcome'')"
  by (simp add: classify_group_event_def kind_set_iffs require_group_tag_def extract_group_tag_def
      sample_target_visit extract_group_tag_visit_def view_indexed_pair_def values_get_def
      group_limits_default_def welcome_within is_indexable_name_def is_ascii_alphabetic_def
      is_ascii_uppercase_def byte_def)

lemma sample_target_visible:
  "screen_event sample_projection (authority_new [] []) (sample_target_event 9000) None group_limits_default
     = Ok Visible"
proof -
  show ?thesis
    by (simp add: screen_event_def sample_target_class screen_normal_event_def)
       (simp add: group_state_new_def group_metadata_empty_def)
qed

theorem visible_event_authorized_witness:
  "\<exists>grp. gp_group sample_projection ''welcome'' = Some grp
     \<and> gp_event_deletion sample_projection (pe_id (sample_target_event 9000)) = None"
  using visible_event_authorized [OF sample_target_visible sample_target_class] by auto

theorem anonymous_visible_to_all_witness:
  "screen_event sample_projection (authority_new [] []) (sample_target_event 9000) (Some sample_key)
     group_limits_default = Ok Visible"
  by (rule anonymous_visible_to_all [OF sample_target_visible])

end
