(* ===== verification/Group_Documents.thy ===== *)
theory Group_Documents
  imports Group_Projection
begin

text \<open>
  The stored form of the projection (\<open>crates/tangle_groups/src/projection.rs\<close>, from
  \<open>TupleDocument\<close> on): one document type per state, the conversions to and from it and the
  \<open>to_json_bytes\<close> / \<open>from_json_bytes\<close> pairs. The reading of a document is checked: every id, key,
  role and label goes through its constructor again. \<open>serde_json\<close> itself is a parameter, the
  record \<open>codec\<close> of the two library calls the code makes for a document type.
\<close>

section \<open>Documents\<close>

text \<open>
  The contract of a document type: a valid value survives being written and read, and reading
  only ever produces valid values.
\<close>

locale document =
  fixes to_doc :: "'a \<Rightarrow> 'd"
    and of_doc :: "'d \<Rightarrow> group_error + 'a"
    and valid :: "'a \<Rightarrow> bool"
  assumes roundtrip: "valid a \<Longrightarrow> of_doc (to_doc a) = Ok a"
    and sound: "of_doc d = Ok a \<Longrightarrow> valid a"
begin

lemma to_doc_inject: "valid a \<Longrightarrow> valid b \<Longrightarrow> to_doc a = to_doc b \<Longrightarrow> a = b"
  by (metis roundtrip sum.inject(2))

lemma reread: "of_doc d = Ok a \<Longrightarrow> of_doc (to_doc a) = Ok a"
  by (simp add: roundtrip sound)

lemma unreadable: "\<not> valid a \<Longrightarrow> of_doc (to_doc a) \<noteq> Ok a"
  using sound by blast

lemma option_roundtrip:
  "pred_option valid x \<Longrightarrow> transpose (map_option of_doc (map_option to_doc x)) = Ok x"
  by (cases x) (simp_all add: roundtrip)

lemma option_sound: "transpose (map_option of_doc x) = Ok y \<Longrightarrow> pred_option valid y"
  by (cases x) (auto simp: transpose_def map_ok_Ok_iff dest: sound)

lemma list_roundtrip: "list_all valid xs \<Longrightarrow> traverse of_doc (map to_doc xs) = Ok xs"
  by (induction xs) (simp_all add: roundtrip)

lemma list_sound: "traverse of_doc ds = Ok xs \<Longrightarrow> list_all valid xs"
  by (auto simp: list_all_iff dest: traverse_Ok_set sound)

end

text \<open>What \<open>serde_json::to_vec\<close> and \<open>serde_json::from_slice\<close> do for one document type.\<close>

record 'd codec =
  cd_to_vec :: "'d \<Rightarrow> string + string"
  cd_from_slice :: "string \<Rightarrow> string + 'd"

definition codec_lawful :: "'d codec \<Rightarrow> bool" where
  "codec_lawful c \<longleftrightarrow> (\<forall>d raw. cd_to_vec c d = Ok raw \<longrightarrow> cd_from_slice c raw = Ok d)"

definition encode_document :: "'d codec \<Rightarrow> string \<Rightarrow> 'd \<Rightarrow> group_error + string" where
  "encode_document c label d =
     map_err (\<lambda>error. error_internal (label @ '' JSON encode failed: '' @ error)) (cd_to_vec c d)"

definition decode_document :: "'d codec \<Rightarrow> string \<Rightarrow> string \<Rightarrow> group_error + 'd" where
  "decode_document c label raw =
     map_err (\<lambda>error. error_internal (label @ '' JSON decode failed: '' @ error)) (cd_from_slice c raw)"

lemma decode_encode:
  "codec_lawful c \<Longrightarrow> encode_document c l d = Ok raw \<Longrightarrow> decode_document c l raw = Ok d"
  by (simp add: codec_lawful_def encode_document_def decode_document_def)

context document
begin

lemma bytes_roundtrip:
  "codec_lawful c \<Longrightarrow> valid a \<Longrightarrow> encode_document c l (to_doc a) = Ok raw \<Longrightarrow>
   and_then (decode_document c l raw) of_doc = Ok a"
  by (simp add: decode_encode roundtrip)

lemma bytes_sound: "and_then (decode_document c l raw) of_doc = Ok a \<Longrightarrow> valid a"
  by (auto simp: and_then_Ok_iff dest: sound)

end

section \<open>Tuples\<close>

record tuple_document =
  td_created_at :: u64
  td_event_id :: string
  td_store_offset :: u64

definition tuple_document_from_tuple :: "projection_order_tuple \<Rightarrow> tuple_document" where
  "tuple_document_from_tuple t = \<lparr>td_created_at = ot_created_at t, td_event_id = ot_event_id t,
     td_store_offset = ot_store_offset t\<rparr>"

definition tuple_document_into_tuple :: "tuple_document \<Rightarrow> group_error + projection_order_tuple" where
  "tuple_document_into_tuple d =
     and_then (map_err error_internal (event_id_new (td_event_id d)))
       (\<lambda>eid. Ok (OrderTuple (td_created_at d) eid (td_store_offset d)))"

definition valid_tuple :: "projection_order_tuple \<Rightarrow> bool" where
  "valid_tuple t \<longleftrightarrow> valid_event_id (ot_event_id t)"

interpretation tuple_doc: document tuple_document_from_tuple tuple_document_into_tuple valid_tuple
  by unfold_locales
     (auto simp: tuple_document_from_tuple_def tuple_document_into_tuple_def valid_tuple_def
        and_then_Ok_iff)

definition parse_optional_event_id :: "string option \<Rightarrow> group_error + event_id option" where
  "parse_optional_event_id value =
     map_err error_internal (transpose (map_option event_id_new value))"

lemma parse_optional_event_id_Ok [simp]:
  "parse_optional_event_id v = Ok w \<longleftrightarrow> w = v \<and> pred_option valid_event_id v"
  by (cases v) (auto simp: parse_optional_event_id_def transpose_def map_ok_Ok_iff)

section \<open>Metadata\<close>

datatype supported_kinds_document = KindsUnspecifiedAll | KindsNone | KindsOnly "u32 list"

definition supported_kinds_document_from :: "supported_kinds \<Rightarrow> supported_kinds_document" where
  "supported_kinds_document_from v =
     (case v of
        UnspecifiedAll \<Rightarrow> KindsUnspecifiedAll
      | NoKinds \<Rightarrow> KindsNone
      | Only kinds \<Rightarrow> KindsOnly (bs_iter kinds))"

definition supported_kinds_document_into :: "supported_kinds_document \<Rightarrow> group_error + supported_kinds" where
  "supported_kinds_document_into d =
     (case d of
        KindsUnspecifiedAll \<Rightarrow> Ok UnspecifiedAll
      | KindsNone \<Rightarrow> Ok NoKinds
      | KindsOnly values \<Rightarrow>
          map_ok (\<lambda>ks. Only (set ks))
            (traverse (\<lambda>value. map_err (\<lambda>reason. error_invalid UnsupportedGroupKind
                (''supported kind is invalid: '' @ reason)) (kind_new (ucast value))) values))"

lemma finite_word32 [simp]: "finite (A :: u32 set)"
  by (rule finite)

interpretation supported_kinds_doc:
  document supported_kinds_document_from supported_kinds_document_into "\<lambda>_. True"
proof
  fix s :: supported_kinds
  have "traverse (\<lambda>value. map_err (\<lambda>reason. error_invalid UnsupportedGroupKind
      (''supported kind is invalid: '' @ reason)) (kind_new (ucast value))) ks = Ok ks" for ks :: "u32 list"
    by (induction ks) simp_all
  then show "supported_kinds_document_into (supported_kinds_document_from s) = Ok s"
    by (cases s) (simp_all add: supported_kinds_document_from_def supported_kinds_document_into_def)
qed simp

record metadata_document =
  md_name :: "string option"
  md_picture :: "string option"
  md_about :: "string option"
  md_private :: bool
  md_restricted :: bool
  md_hidden :: bool
  md_closed :: bool
  md_supported_kinds :: supported_kinds_document

definition metadata_document_from :: "group_metadata \<Rightarrow> metadata_document" where
  "metadata_document_from m = \<lparr>md_name = gm_name m, md_picture = gm_picture m, md_about = gm_about m,
     md_private = gm_private m, md_restricted = gm_restricted m, md_hidden = gm_hidden m,
     md_closed = gm_closed m,
     md_supported_kinds = supported_kinds_document_from (gm_supported_kinds m)\<rparr>"

definition metadata_document_into :: "metadata_document \<Rightarrow> group_error + group_metadata" where
  "metadata_document_into d =
     and_then (supported_kinds_document_into (md_supported_kinds d))
       (\<lambda>kinds. Ok (group_metadata_from_parts
          \<lparr>gmt_name = md_name d, gmt_picture = md_picture d, gmt_about = md_about d\<rparr>
          \<lparr>gmf_private = md_private d, gmf_restricted = md_restricted d, gmf_hidden = md_hidden d,
           gmf_closed = md_closed d\<rparr> kinds))"

interpretation metadata_doc: document metadata_document_from metadata_document_into "\<lambda>_. True"
  by unfold_locales
     (simp_all add: metadata_document_from_def metadata_document_into_def
        group_metadata_from_parts_def supported_kinds_doc.roundtrip)

record snapshot_ids_document =
  sd_metadata :: "string option"
  sd_admins :: "string option"
  sd_members :: "string option"
  sd_roles :: "string option"
  sd_state_39004 :: "string option"

definition snapshot_ids_document_from :: "group_snapshot_ids \<Rightarrow> snapshot_ids_document" where
  "snapshot_ids_document_from s = \<lparr>sd_metadata = sn_metadata s, sd_admins = sn_admins s,
     sd_members = sn_members s, sd_roles = sn_roles s, sd_state_39004 = sn_state_39004 s\<rparr>"

definition snapshot_ids_document_into :: "snapshot_ids_document \<Rightarrow> group_error + group_snapshot_ids" where
  "snapshot_ids_document_into d =
     and_then (parse_optional_event_id (sd_metadata d)) (\<lambda>metadata.
     and_then (parse_optional_event_id (sd_admins d)) (\<lambda>admins.
     and_then (parse_optional_event_id (sd_members d)) (\<lambda>members.
     and_then (parse_optional_event_id (sd_roles d)) (\<lambda>roles.
     and_then (parse_optional_event_id (sd_state_39004 d)) (\<lambda>state_39004.
       Ok \<lparr>sn_metadata = metadata, sn_admins = admins, sn_members = members, sn_roles = roles,
           sn_state_39004 = state_39004\<rparr>)))))"

definition valid_snapshot_ids :: "group_snapshot_ids \<Rightarrow> bool" where
  "valid_snapshot_ids s \<longleftrightarrow>
     list_all (pred_option valid_event_id)
       [sn_metadata s, sn_admins s, sn_members s, sn_roles s, sn_state_39004 s]"

interpretation snapshot_ids_doc:
  document snapshot_ids_document_from snapshot_ids_document_into valid_snapshot_ids
  by unfold_locales
     (auto simp: snapshot_ids_document_from_def snapshot_ids_document_into_def valid_snapshot_ids_def
        and_then_Ok_iff)

section \<open>States\<close>

fun lifecycle_label :: "group_lifecycle_state \<Rightarrow> string" where
  "lifecycle_label Active = ''active''"
| "lifecycle_label Deleted = ''deleted''"

definition parse_lifecycle :: "string \<Rightarrow> group_error + group_lifecycle_state" where
  "parse_lifecycle value =
     (if value = ''active'' then Ok Active
      else if value = ''deleted'' then Ok Deleted
      else Err (error_internal (''unknown group lifecycle '' @ value)))"

fun member_status_label :: "member_status \<Rightarrow> string" where
  "member_status_label Member = ''member''"
| "member_status_label Removed = ''removed''"

definition parse_member_status :: "string \<Rightarrow> group_error + member_status" where
  "parse_member_status value =
     (if value = ''member'' then Ok Member
      else if value = ''removed'' then Ok Removed
      else Err (error_internal (''unknown member status '' @ value)))"

lemma label_roundtrips [simp]:
  "parse_lifecycle (lifecycle_label l) = Ok l" "parse_member_status (member_status_label s) = Ok s"
  by (cases l; simp add: parse_lifecycle_def) (cases s; simp add: parse_member_status_def)

record group_state_document =
  gd_id :: string
  gd_lifecycle :: string
  gd_metadata :: metadata_document
  gd_created_by :: string
  gd_created_event_id :: string
  gd_created_tuple :: tuple_document
  gd_metadata_tuple :: tuple_document
  gd_deleted_at :: "u64 option"
  gd_delete_event_id :: "string option"
  gd_deleted_tuple :: "tuple_document option"
  gd_snapshots :: snapshot_ids_document

definition group_state_document_from :: "group_state \<Rightarrow> group_state_document" where
  "group_state_document_from s = \<lparr>
     gd_id = gst_id s, gd_lifecycle = lifecycle_label (gst_lifecycle s),
     gd_metadata = metadata_document_from (gst_metadata s), gd_created_by = gst_created_by s,
     gd_created_event_id = gst_created_event_id s,
     gd_created_tuple = tuple_document_from_tuple (gst_created_tuple s),
     gd_metadata_tuple = tuple_document_from_tuple (gst_metadata_tuple s),
     gd_deleted_at = gst_deleted_at s, gd_delete_event_id = gst_delete_event_id s,
     gd_deleted_tuple = map_option tuple_document_from_tuple (gst_deleted_tuple s),
     gd_snapshots = snapshot_ids_document_from (gst_snapshots s)\<rparr>"

definition group_state_document_into :: "group_state_document \<Rightarrow> group_error + group_state" where
  "group_state_document_into d =
     and_then (group_id_new (gd_id d)) (\<lambda>gid.
     and_then (parse_lifecycle (gd_lifecycle d)) (\<lambda>lifecycle.
     and_then (metadata_document_into (gd_metadata d)) (\<lambda>metadata.
     and_then (map_err error_internal (public_key_new (gd_created_by d))) (\<lambda>created_by.
     and_then (map_err error_internal (event_id_new (gd_created_event_id d))) (\<lambda>created_event_id.
     and_then (tuple_document_into_tuple (gd_created_tuple d)) (\<lambda>created_tuple.
     and_then (tuple_document_into_tuple (gd_metadata_tuple d)) (\<lambda>metadata_tuple.
     and_then (parse_optional_event_id (gd_delete_event_id d)) (\<lambda>delete_event_id.
     and_then (transpose (map_option tuple_document_into_tuple (gd_deleted_tuple d))) (\<lambda>deleted_tuple.
     and_then (snapshot_ids_document_into (gd_snapshots d)) (\<lambda>snapshots.
       Ok \<lparr>gst_id = gid, gst_lifecycle = lifecycle, gst_metadata = metadata,
           gst_created_by = created_by, gst_created_event_id = created_event_id,
           gst_created_tuple = created_tuple, gst_metadata_tuple = metadata_tuple,
           gst_deleted_at = gd_deleted_at d, gst_delete_event_id = delete_event_id,
           gst_deleted_tuple = deleted_tuple, gst_snapshots = snapshots\<rparr>))))))))))"

definition valid_group_state :: "group_state \<Rightarrow> bool" where
  "valid_group_state s \<longleftrightarrow> valid_group_id (gst_id s) \<and> valid_pubkey (gst_created_by s)
     \<and> valid_event_id (gst_created_event_id s) \<and> valid_tuple (gst_created_tuple s)
     \<and> valid_tuple (gst_metadata_tuple s) \<and> pred_option valid_event_id (gst_delete_event_id s)
     \<and> pred_option valid_tuple (gst_deleted_tuple s) \<and> valid_snapshot_ids (gst_snapshots s)"

interpretation group_state_doc:
  document group_state_document_from group_state_document_into valid_group_state
proof
  fix s assume "valid_group_state s"
  then show "group_state_document_into (group_state_document_from s) = Ok s"
    unfolding group_state_document_into_def group_state_document_from_def valid_group_state_def
    by (simp add: tuple_doc.roundtrip tuple_doc.option_roundtrip metadata_doc.roundtrip
        snapshot_ids_doc.roundtrip and_then_Ok_iff)
next
  fix d s assume "group_state_document_into d = Ok s"
  then show "valid_group_state s"
    unfolding group_state_document_into_def valid_group_state_def
    by (auto simp: and_then_Ok_iff dest: tuple_doc.sound tuple_doc.option_sound snapshot_ids_doc.sound)
qed

record member_state_document =
  mbd_pubkey :: string
  mbd_status :: string
  mbd_roles :: "string list"
  mbd_last_event_id :: string
  mbd_last_tuple :: tuple_document

definition member_state_document_from :: "member_state \<Rightarrow> member_state_document" where
  "member_state_document_from s = \<lparr>mbd_pubkey = ms_pubkey s,
     mbd_status = member_status_label (ms_status s), mbd_roles = bs_iter (ms_roles s),
     mbd_last_event_id = ms_last_event_id s,
     mbd_last_tuple = tuple_document_from_tuple (ms_last_tuple s)\<rparr>"

definition member_state_document_into :: "member_state_document \<Rightarrow> group_error + member_state" where
  "member_state_document_into d =
     and_then (map_err error_internal (public_key_new (mbd_pubkey d))) (\<lambda>pubkey.
     and_then (parse_member_status (mbd_status d)) (\<lambda>status.
     and_then (map_ok set (traverse role_name_new (mbd_roles d))) (\<lambda>roles.
     and_then (map_err error_internal (event_id_new (mbd_last_event_id d))) (\<lambda>last_event_id.
     and_then (tuple_document_into_tuple (mbd_last_tuple d)) (\<lambda>last_tuple.
       Ok \<lparr>ms_pubkey = pubkey, ms_status = status, ms_roles = roles,
           ms_last_event_id = last_event_id, ms_last_tuple = last_tuple\<rparr>)))))"

definition valid_role_set :: "role_name set \<Rightarrow> bool" where
  "valid_role_set rs \<longleftrightarrow> finite rs \<and> (\<forall>r\<in>rs. valid_role_name r)"

definition valid_member_state :: "member_state \<Rightarrow> bool" where
  "valid_member_state s \<longleftrightarrow> valid_pubkey (ms_pubkey s) \<and> valid_role_set (ms_roles s)
     \<and> valid_event_id (ms_last_event_id s) \<and> valid_tuple (ms_last_tuple s)"

lemma role_set_read: "traverse role_name_new rs = Ok qs \<longleftrightarrow> qs = rs \<and> list_all valid_role_name rs"
  by (induction rs arbitrary: qs) (auto simp: and_then_Ok_iff)

interpretation member_state_doc:
  document member_state_document_from member_state_document_into valid_member_state
proof
  fix s assume "valid_member_state s"
  then show "member_state_document_into (member_state_document_from s) = Ok s"
    unfolding member_state_document_into_def member_state_document_from_def valid_member_state_def
    by (simp add: tuple_doc.roundtrip role_set_read valid_role_set_def list_all_iff
        and_then_Ok_iff map_ok_Ok_iff)
next
  fix d s assume "member_state_document_into d = Ok s"
  then show "valid_member_state s"
    unfolding member_state_document_into_def valid_member_state_def
    by (auto simp: and_then_Ok_iff map_ok_Ok_iff role_set_read valid_role_set_def list_all_iff
        dest: tuple_doc.sound)
qed

record projected_role_document =
  prd_name :: string
  prd_capabilities :: "string list"
  prd_description :: "string option"
  prd_last_event_id :: string
  prd_last_tuple :: tuple_document

definition projected_role_document_from :: "projected_role \<Rightarrow> projected_role_document" where
  "projected_role_document_from r = \<lparr>prd_name = rd_name (pr_definition r),
     prd_capabilities = capability_labels (rd_capabilities (pr_definition r)),
     prd_description = rd_description (pr_definition r), prd_last_event_id = pr_last_event_id r,
     prd_last_tuple = tuple_document_from_tuple (pr_last_tuple r)\<rparr>"

definition projected_role_document_into :: "projected_role_document \<Rightarrow> group_error + projected_role" where
  "projected_role_document_into d =
     and_then (role_name_new (prd_name d)) (\<lambda>name.
     and_then (capability_set_from_labels (prd_capabilities d)) (\<lambda>capabilities.
     and_then (map_err error_internal (event_id_new (prd_last_event_id d))) (\<lambda>last_event_id.
     and_then (tuple_document_into_tuple (prd_last_tuple d)) (\<lambda>last_tuple.
       Ok \<lparr>pr_definition = \<lparr>rd_name = name, rd_capabilities = capabilities,
             rd_description = prd_description d\<rparr>,
           pr_last_event_id = last_event_id, pr_last_tuple = last_tuple\<rparr>))))"

definition valid_projected_role :: "projected_role \<Rightarrow> bool" where
  "valid_projected_role r \<longleftrightarrow> valid_role_name (rd_name (pr_definition r))
     \<and> valid_event_id (pr_last_event_id r) \<and> valid_tuple (pr_last_tuple r)"

interpretation projected_role_doc:
  document projected_role_document_from projected_role_document_into valid_projected_role
  by unfold_locales
     (auto simp: projected_role_document_from_def projected_role_document_into_def
        valid_projected_role_def tuple_doc.roundtrip and_then_Ok_iff dest: tuple_doc.sound)

record group_tombstone_document =
  gtd_group_id :: string
  gtd_delete_event_id :: string
  gtd_deleted_at :: u64
  gtd_deleted_by :: string
  gtd_last_tuple :: tuple_document

definition group_tombstone_document_from :: "group_tombstone \<Rightarrow> group_tombstone_document" where
  "group_tombstone_document_from t = \<lparr>gtd_group_id = ts_group_id t,
     gtd_delete_event_id = ts_delete_event_id t, gtd_deleted_at = ts_deleted_at t,
     gtd_deleted_by = ts_deleted_by t,
     gtd_last_tuple = tuple_document_from_tuple (ts_last_tuple t)\<rparr>"

definition group_tombstone_document_into :: "group_tombstone_document \<Rightarrow> group_error + group_tombstone" where
  "group_tombstone_document_into d =
     and_then (group_id_new (gtd_group_id d)) (\<lambda>gid.
     and_then (map_err error_internal (event_id_new (gtd_delete_event_id d))) (\<lambda>delete_event_id.
     and_then (map_err error_internal (public_key_new (gtd_deleted_by d))) (\<lambda>deleted_by.
     and_then (tuple_document_into_tuple (gtd_last_tuple d)) (\<lambda>last_tuple.
       Ok \<lparr>ts_group_id = gid, ts_delete_event_id = delete_event_id,
           ts_deleted_at = gtd_deleted_at d, ts_deleted_by = deleted_by,
           ts_last_tuple = last_tuple\<rparr>))))"

definition valid_tombstone :: "group_tombstone \<Rightarrow> bool" where
  "valid_tombstone t \<longleftrightarrow> valid_group_id (ts_group_id t) \<and> valid_event_id (ts_delete_event_id t)
     \<and> valid_pubkey (ts_deleted_by t) \<and> valid_tuple (ts_last_tuple t)"

interpretation tombstone_doc:
  document group_tombstone_document_from group_tombstone_document_into valid_tombstone
  by unfold_locales
     (auto simp: group_tombstone_document_from_def group_tombstone_document_into_def
        valid_tombstone_def tuple_doc.roundtrip and_then_Ok_iff dest: tuple_doc.sound)

record group_event_deletion_document =
  gedd_group_id :: string
  gedd_target_event_id :: string
  gedd_delete_event_id :: string
  gedd_deleted_at :: u64
  gedd_deleted_by :: string
  gedd_last_tuple :: tuple_document

definition group_event_deletion_document_from ::
  "group_event_deletion \<Rightarrow> group_event_deletion_document" where
  "group_event_deletion_document_from d = \<lparr>gedd_group_id = ed_group_id d,
     gedd_target_event_id = ed_target_event_id d, gedd_delete_event_id = ed_delete_event_id d,
     gedd_deleted_at = ed_deleted_at d, gedd_deleted_by = ed_deleted_by d,
     gedd_last_tuple = tuple_document_from_tuple (ed_last_tuple d)\<rparr>"

definition group_event_deletion_document_into ::
  "group_event_deletion_document \<Rightarrow> group_error + group_event_deletion" where
  "group_event_deletion_document_into d =
     and_then (group_id_new (gedd_group_id d)) (\<lambda>gid.
     and_then (map_err error_internal (event_id_new (gedd_target_event_id d))) (\<lambda>target_event_id.
     and_then (map_err error_internal (event_id_new (gedd_delete_event_id d))) (\<lambda>delete_event_id.
     and_then (map_err error_internal (public_key_new (gedd_deleted_by d))) (\<lambda>deleted_by.
     and_then (tuple_document_into_tuple (gedd_last_tuple d)) (\<lambda>last_tuple.
       Ok \<lparr>ed_group_id = gid, ed_target_event_id = target_event_id,
           ed_delete_event_id = delete_event_id, ed_deleted_at = gedd_deleted_at d,
           ed_deleted_by = deleted_by, ed_last_tuple = last_tuple\<rparr>)))))"

definition valid_event_deletion :: "group_event_deletion \<Rightarrow> bool" where
  "valid_event_deletion d \<longleftrightarrow> valid_group_id (ed_group_id d) \<and> valid_event_id (ed_target_event_id d)
     \<and> valid_event_id (ed_delete_event_id d) \<and> valid_pubkey (ed_deleted_by d)
     \<and> valid_tuple (ed_last_tuple d)"

interpretation event_deletion_doc:
  document group_event_deletion_document_from group_event_deletion_document_into valid_event_deletion
  by unfold_locales
     (auto simp: group_event_deletion_document_from_def group_event_deletion_document_into_def
        valid_event_deletion_def tuple_doc.roundtrip and_then_Ok_iff dest: tuple_doc.sound)

record projection_checkpoint_document =
  pcd_projection_version :: u32
  pcd_policy_version :: u32
  pcd_last_offset :: "u64 option"
  pcd_rebuilt_at :: u64

definition projection_checkpoint_document_from ::
  "projection_checkpoint \<Rightarrow> projection_checkpoint_document" where
  "projection_checkpoint_document_from c = \<lparr>pcd_projection_version = cp_projection_version c,
     pcd_policy_version = cp_policy_version c, pcd_last_offset = cp_last_offset c,
     pcd_rebuilt_at = cp_rebuilt_at c\<rparr>"

definition projection_checkpoint_document_into ::
  "projection_checkpoint_document \<Rightarrow> projection_checkpoint" where
  "projection_checkpoint_document_into d = \<lparr>cp_projection_version = pcd_projection_version d,
     cp_policy_version = pcd_policy_version d, cp_last_offset = pcd_last_offset d,
     cp_rebuilt_at = pcd_rebuilt_at d\<rparr>"

interpretation checkpoint_doc: document projection_checkpoint_document_from
  "\<lambda>d. Ok (projection_checkpoint_document_into d)" "\<lambda>_. True"
  by unfold_locales
     (simp_all add: projection_checkpoint_document_from_def projection_checkpoint_document_into_def)

section \<open>Bytes\<close>

record projection_codecs =
  pc_group :: "group_state_document codec"
  pc_member :: "member_state_document codec"
  pc_role :: "projected_role_document codec"
  pc_tombstone :: "group_tombstone_document codec"
  pc_deletion :: "group_event_deletion_document codec"
  pc_checkpoint :: "projection_checkpoint_document codec"

definition group_state_to_json_bytes :: "projection_codecs \<Rightarrow> group_state \<Rightarrow> group_error + string" where
  "group_state_to_json_bytes c s = encode_document (pc_group c) ''group state'' (group_state_document_from s)"

definition group_state_from_json_bytes :: "projection_codecs \<Rightarrow> string \<Rightarrow> group_error + group_state" where
  "group_state_from_json_bytes c raw = and_then (decode_document (pc_group c) ''group state'' raw) group_state_document_into"

definition member_state_to_json_bytes :: "projection_codecs \<Rightarrow> member_state \<Rightarrow> group_error + string" where
  "member_state_to_json_bytes c s = encode_document (pc_member c) ''member state'' (member_state_document_from s)"

definition member_state_from_json_bytes :: "projection_codecs \<Rightarrow> string \<Rightarrow> group_error + member_state" where
  "member_state_from_json_bytes c raw = and_then (decode_document (pc_member c) ''member state'' raw) member_state_document_into"

definition projected_role_to_json_bytes :: "projection_codecs \<Rightarrow> projected_role \<Rightarrow> group_error + string" where
  "projected_role_to_json_bytes c s = encode_document (pc_role c) ''role state'' (projected_role_document_from s)"

definition projected_role_from_json_bytes :: "projection_codecs \<Rightarrow> string \<Rightarrow> group_error + projected_role" where
  "projected_role_from_json_bytes c raw = and_then (decode_document (pc_role c) ''role state'' raw) projected_role_document_into"

definition group_tombstone_to_json_bytes :: "projection_codecs \<Rightarrow> group_tombstone \<Rightarrow> group_error + string" where
  "group_tombstone_to_json_bytes c s = encode_document (pc_tombstone c) ''tombstone'' (group_tombstone_document_from s)"

definition group_tombstone_from_json_bytes :: "projection_codecs \<Rightarrow> string \<Rightarrow> group_error + group_tombstone" where
  "group_tombstone_from_json_bytes c raw = and_then (decode_document (pc_tombstone c) ''tombstone'' raw) group_tombstone_document_into"

definition group_event_deletion_to_json_bytes :: "projection_codecs \<Rightarrow> group_event_deletion \<Rightarrow> group_error + string" where
  "group_event_deletion_to_json_bytes c s = encode_document (pc_deletion c) ''event deletion'' (group_event_deletion_document_from s)"

definition group_event_deletion_from_json_bytes :: "projection_codecs \<Rightarrow> string \<Rightarrow> group_error + group_event_deletion" where
  "group_event_deletion_from_json_bytes c raw = and_then (decode_document (pc_deletion c) ''event deletion'' raw) group_event_deletion_document_into"

definition checkpoint_to_json_bytes :: "projection_codecs \<Rightarrow> projection_checkpoint \<Rightarrow> group_error + string" where
  "checkpoint_to_json_bytes c s =
     encode_document (pc_checkpoint c) ''checkpoint'' (projection_checkpoint_document_from s)"

definition checkpoint_from_json_bytes :: "projection_codecs \<Rightarrow> string \<Rightarrow> group_error + projection_checkpoint" where
  "checkpoint_from_json_bytes c raw =
     and_then (decode_document (pc_checkpoint c) ''checkpoint'' raw)
       (\<lambda>d. Ok (projection_checkpoint_document_into d))"

definition projection_codecs_lawful :: "projection_codecs \<Rightarrow> bool" where
  "projection_codecs_lawful c \<longleftrightarrow> codec_lawful (pc_group c) \<and> codec_lawful (pc_member c)
     \<and> codec_lawful (pc_role c) \<and> codec_lawful (pc_tombstone c) \<and> codec_lawful (pc_deletion c)
     \<and> codec_lawful (pc_checkpoint c)"

lemmas json_bytes_defs = group_state_to_json_bytes_def group_state_from_json_bytes_def
  member_state_to_json_bytes_def member_state_from_json_bytes_def
  projected_role_to_json_bytes_def projected_role_from_json_bytes_def
  group_tombstone_to_json_bytes_def group_tombstone_from_json_bytes_def
  group_event_deletion_to_json_bytes_def group_event_deletion_from_json_bytes_def
  checkpoint_to_json_bytes_def checkpoint_from_json_bytes_def

lemma state_bytes_roundtrip:
  assumes "projection_codecs_lawful c"
  shows
    "valid_group_state g \<Longrightarrow> group_state_to_json_bytes c g = Ok raw \<Longrightarrow> group_state_from_json_bytes c raw = Ok g"
    "valid_member_state m \<Longrightarrow> member_state_to_json_bytes c m = Ok raw \<Longrightarrow> member_state_from_json_bytes c raw = Ok m"
    "valid_projected_role r \<Longrightarrow> projected_role_to_json_bytes c r = Ok raw \<Longrightarrow>
       projected_role_from_json_bytes c raw = Ok r"
    "valid_tombstone t \<Longrightarrow> group_tombstone_to_json_bytes c t = Ok raw \<Longrightarrow>
       group_tombstone_from_json_bytes c raw = Ok t"
    "valid_event_deletion d \<Longrightarrow> group_event_deletion_to_json_bytes c d = Ok raw \<Longrightarrow>
       group_event_deletion_from_json_bytes c raw = Ok d"
    "checkpoint_to_json_bytes c k = Ok raw \<Longrightarrow> checkpoint_from_json_bytes c raw = Ok k"
  using assms unfolding projection_codecs_lawful_def json_bytes_defs
  by (auto intro: group_state_doc.bytes_roundtrip member_state_doc.bytes_roundtrip
      projected_role_doc.bytes_roundtrip tombstone_doc.bytes_roundtrip
      event_deletion_doc.bytes_roundtrip checkpoint_doc.bytes_roundtrip)

end
