(* ===== verification/Group_Outbox.thy ===== *)
theory Group_Outbox
  imports Group_Documents
begin

text \<open>
  The group outbox (\<open>crates/tangle_groups/src/outbox.rs\<close>): the effects a source event owes, their
  keys and payloads, the life of an outbox record, the merge that makes planning idempotent, the
  replay plan, the crash hooks and the stored form of a record.
\<close>

section \<open>Effects and keys\<close>

datatype group_outbox_effect =
    MetadataSnapshot
  | AdminListSnapshot
  | MemberListSnapshot
  | RoleListSnapshot
  | State39004Snapshot
  | JoinAccepted
  | LeaveAccepted

fun effect_index :: "group_outbox_effect \<Rightarrow> nat" where
  "effect_index MetadataSnapshot = 0"
| "effect_index AdminListSnapshot = 1"
| "effect_index MemberListSnapshot = 2"
| "effect_index RoleListSnapshot = 3"
| "effect_index State39004Snapshot = 4"
| "effect_index JoinAccepted = 5"
| "effect_index LeaveAccepted = 6"

lemma effect_index_inject: "effect_index a = effect_index b \<longleftrightarrow> a = b"
  by (cases a; cases b) simp_all

instantiation group_outbox_effect :: linorder
begin

definition less_eq_group_outbox_effect :: "group_outbox_effect \<Rightarrow> group_outbox_effect \<Rightarrow> bool" where
  "less_eq_group_outbox_effect a b \<longleftrightarrow> effect_index a \<le> effect_index b"

definition less_group_outbox_effect :: "group_outbox_effect \<Rightarrow> group_outbox_effect \<Rightarrow> bool" where
  "less_group_outbox_effect a b \<longleftrightarrow> effect_index a < effect_index b"

instance
  by standard (auto simp: less_eq_group_outbox_effect_def less_group_outbox_effect_def
      effect_index_inject dest: order.antisym)

end

fun effect_str :: "group_outbox_effect \<Rightarrow> string" where
  "effect_str MetadataSnapshot = ''metadata_snapshot''"
| "effect_str AdminListSnapshot = ''admin_list_snapshot''"
| "effect_str MemberListSnapshot = ''member_list_snapshot''"
| "effect_str RoleListSnapshot = ''role_list_snapshot''"
| "effect_str State39004Snapshot = ''state_39004_snapshot''"
| "effect_str JoinAccepted = ''join_accepted''"
| "effect_str LeaveAccepted = ''leave_accepted''"

definition effect_from_label :: "string \<Rightarrow> group_error + group_outbox_effect" where
  "effect_from_label value =
     (if value = ''metadata_snapshot'' then Ok MetadataSnapshot
      else if value = ''admin_list_snapshot'' then Ok AdminListSnapshot
      else if value = ''member_list_snapshot'' then Ok MemberListSnapshot
      else if value = ''role_list_snapshot'' then Ok RoleListSnapshot
      else if value = ''state_39004_snapshot'' then Ok State39004Snapshot
      else if value = ''join_accepted'' then Ok JoinAccepted
      else if value = ''leave_accepted'' then Ok LeaveAccepted
      else Err (error_internal (''unknown outbox effect '' @ value)))"

lemma effect_from_label_str [simp]: "effect_from_label (effect_str e) = Ok e"
  by (cases e) (simp_all add: effect_from_label_def)

datatype group_outbox_key =
  OutboxKey (ok_source_event_id: event_id) (ok_effect: group_outbox_effect)
    (ok_group_id: group_id) (ok_target_pubkey: "public_key_hex option")

text \<open>\<open>derive(Ord)\<close>: field by field, \<open>None\<close> before every \<open>Some\<close>.\<close>

definition ok_key ::
  "group_outbox_key \<Rightarrow> event_id \<times> group_outbox_effect \<times> group_id \<times> public_key_hex option" where
  "ok_key k = (ok_source_event_id k, ok_effect k, ok_group_id k, ok_target_pubkey k)"

lemma ok_key_inject: "ok_key a = ok_key b \<longleftrightarrow> a = b"
  by (cases a; cases b) (simp add: ok_key_def)

instantiation group_outbox_key :: linorder
begin

definition less_eq_group_outbox_key :: "group_outbox_key \<Rightarrow> group_outbox_key \<Rightarrow> bool" where
  "less_eq_group_outbox_key a b \<longleftrightarrow> ok_key a \<le> ok_key b"

definition less_group_outbox_key :: "group_outbox_key \<Rightarrow> group_outbox_key \<Rightarrow> bool" where
  "less_group_outbox_key a b \<longleftrightarrow> ok_key a < ok_key b"

instance
  by standard (auto simp: less_eq_group_outbox_key_def less_group_outbox_key_def
      less_le_not_le ok_key_inject [symmetric] intro: order.antisym order.trans)

end

definition outbox_storage_key :: "group_outbox_key \<Rightarrow> string" where
  "outbox_storage_key k =
     ok_source_event_id k @ [CHR 0x00] @ effect_str (ok_effect k) @ [CHR 0x00]
       @ ok_group_id k @ [CHR 0x00]
       @ (case ok_target_pubkey k of Some pubkey \<Rightarrow> pubkey | None \<Rightarrow> [])"

section \<open>Records\<close>

datatype group_outbox_status =
    Pending
  | Stored event_id
  | Skipped string
  | Failed bool

record group_outbox_payload =
  op_generated_kind :: u32
  op_generated_created_at :: unix_timestamp
  op_tags :: "string list list"
  op_content :: string

record group_outbox_record =
  or_key :: group_outbox_key
  or_status :: group_outbox_status
  or_payload :: group_outbox_payload
  or_attempts :: u32
  or_last_error :: "string option"

definition outbox_record_pending :: "group_outbox_key \<Rightarrow> group_outbox_payload \<Rightarrow> group_outbox_record" where
  "outbox_record_pending k p = \<lparr>or_key = k, or_status = Pending, or_payload = p, or_attempts = 0,
     or_last_error = None\<rparr>"

definition mark_stored :: "event_id \<Rightarrow> group_outbox_record \<Rightarrow> group_outbox_record" where
  "mark_stored generated_event_id r =
     r\<lparr>or_status := Stored generated_event_id, or_last_error := None\<rparr>"

definition mark_skipped :: "string \<Rightarrow> group_outbox_record \<Rightarrow> group_outbox_record" where
  "mark_skipped reason r = r\<lparr>or_status := Skipped reason\<rparr>"

definition mark_failed :: "bool \<Rightarrow> string \<Rightarrow> group_outbox_record \<Rightarrow> group_outbox_record" where
  "mark_failed retryable error r =
     r\<lparr>or_status := Failed retryable, or_attempts := saturating_add (or_attempts r) 1,
       or_last_error := Some error\<rparr>"

definition is_retryable :: "group_outbox_record \<Rightarrow> bool" where
  "is_retryable r \<longleftrightarrow>
     (case or_status r of Pending \<Rightarrow> True | Failed retryable \<Rightarrow> retryable | _ \<Rightarrow> False)"

lemma outbox_record_simps [simp]:
  "or_key (outbox_record_pending k p) = k" "or_payload (outbox_record_pending k p) = p"
  "is_retryable (outbox_record_pending k p)"
  "or_key (mark_stored i r) = or_key r" "or_key (mark_skipped s r) = or_key r"
  "or_key (mark_failed b s r) = or_key r"
  "or_payload (mark_stored i r) = or_payload r" "or_payload (mark_skipped s r) = or_payload r"
  "or_payload (mark_failed b s r) = or_payload r"
  "\<not> is_retryable (mark_stored i r)" "\<not> is_retryable (mark_skipped s r)"
  "is_retryable (mark_failed b s r) = b"
  by (simp_all add: outbox_record_pending_def mark_stored_def mark_skipped_def mark_failed_def
      is_retryable_def)

section \<open>The outbox\<close>

type_synonym group_outbox = "(group_outbox_key, group_outbox_record) btree"

definition outbox_new :: group_outbox where
  "outbox_new = []"

definition merge_idempotent ::
  "group_outbox_record \<Rightarrow> group_outbox \<Rightarrow> group_error + bool \<times> group_outbox" where
  "merge_idempotent r ob =
     (case bt_get ob (or_key r) of
        Some existing \<Rightarrow>
          if or_payload existing = or_payload r then Ok (False, ob)
          else Err (error_internal ''outbox record key already exists with different payload'')
      | None \<Rightarrow> Ok (True, bt_insert (or_key r) r ob))"

definition outbox_get :: "group_outbox \<Rightarrow> group_outbox_key \<Rightarrow> group_outbox_record option" where
  "outbox_get ob k = bt_get ob k"

definition outbox_update :: "group_outbox_record \<Rightarrow> group_outbox \<Rightarrow> group_outbox" where
  "outbox_update r ob = bt_insert (or_key r) r ob"

definition replay_order ::
  "group_outbox_record \<Rightarrow> group_id \<times> unix_timestamp \<times> event_id \<times> group_outbox_effect \<times> public_key_hex option" where
  "replay_order r = (ok_group_id (or_key r), op_generated_created_at (or_payload r),
     ok_source_event_id (or_key r), ok_effect (or_key r), ok_target_pubkey (or_key r))"

definition replay_plan_matching ::
  "(group_outbox_record \<Rightarrow> bool) \<Rightarrow> group_outbox \<Rightarrow> group_outbox_record list" where
  "replay_plan_matching include ob =
     sort_key replay_order (filter (\<lambda>r. is_retryable r \<and> include r) (map snd ob))"

definition replay_plan :: "group_outbox \<Rightarrow> group_outbox_record list" where
  "replay_plan ob = replay_plan_matching (\<lambda>_. True) ob"

definition replay_plan_for_group :: "group_outbox \<Rightarrow> group_id \<Rightarrow> group_outbox_record list" where
  "replay_plan_for_group ob g = replay_plan_matching (\<lambda>r. ok_group_id (or_key r) = g) ob"

text \<open>The invariant of the outbox: sorted by key, each record under its own key.\<close>

definition outbox_wf :: "group_outbox \<Rightarrow> bool" where
  "outbox_wf ob \<longleftrightarrow> bt_wf ob \<and> list_all (\<lambda>(k, r). or_key r = k) ob"

lemma outbox_new_wf [simp]: "outbox_wf outbox_new"
  by (simp add: outbox_wf_def outbox_new_def)

lemma outbox_update_wf: "outbox_wf ob \<Longrightarrow> outbox_wf (outbox_update r ob)"
  by (auto simp: outbox_wf_def outbox_update_def bt_wf_insert list_all_iff dest!: bt_insert_set)

lemma merge_idempotent_wf:
  "merge_idempotent r ob = Ok (b, ob') \<Longrightarrow> outbox_wf ob \<Longrightarrow> outbox_wf ob'"
  using outbox_update_wf [of ob r]
  by (auto simp: merge_idempotent_def outbox_update_def split: option.splits if_splits)

lemma outbox_get_update:
  "outbox_get (outbox_update r ob) k = (if k = or_key r then Some r else outbox_get ob k)"
  by (simp add: outbox_get_def outbox_update_def bt_simps)

lemma outbox_wf_key: "outbox_wf ob \<Longrightarrow> (k, r) \<in> set ob \<Longrightarrow> or_key r = k"
  by (auto simp: outbox_wf_def list_all_iff)

lemma outbox_records:
  assumes "outbox_wf ob"
  shows "r \<in> set (map snd ob) \<longleftrightarrow> outbox_get ob (or_key r) = Some r"
proof -
  have "distinct (map fst ob)" using assms bt_wf_distinct by (auto simp: outbox_wf_def)
  then have "outbox_get ob (or_key r) = Some r \<longleftrightarrow> (or_key r, r) \<in> set ob"
    by (simp add: outbox_get_def)
  moreover have "r \<in> set (map snd ob) \<longleftrightarrow> (or_key r, r) \<in> set ob"
    using outbox_wf_key [OF assms] by (metis (no_types, lifting) imageE image_eqI list.set_map prod.collapse snd_conv)
  ultimately show ?thesis by simp
qed

lemma outbox_records_distinct:
  assumes "outbox_wf ob"
  shows "distinct (map or_key (map snd ob))"
proof -
  have "map or_key (map snd ob) = map fst ob"
    using outbox_wf_key [OF assms] by (simp add: case_prod_beta)
  moreover have "distinct (map fst ob)" using assms bt_wf_distinct by (auto simp: outbox_wf_def)
  ultimately show ?thesis by metis
qed

lemma replay_order_key: "replay_order r = replay_order s \<Longrightarrow> or_key r = or_key s"
  by (cases "or_key r"; cases "or_key s") (simp add: replay_order_def)

lemma distinct_map_finer:
  assumes "distinct (map f xs)" and "\<And>x y. g x = g y \<Longrightarrow> f x = f y"
  shows "distinct (map g xs)"
proof -
  have "inj_on g (set xs)"
    using assms by (meson distinct_map inj_on_def)
  then show ?thesis using assms(1) by (simp add: distinct_map)
qed

text \<open>
  Claim C35. The replay plan of a well-formed outbox holds exactly its retryable records, each once, ordered
  by group, time of the generated event, source event, effect and target; the plan of one group is
  the part of the full plan that belongs to the group, in the same order.
\<close>

theorem replay_plan_exact:
  assumes "outbox_wf ob"
  shows "set (replay_plan ob) = {r. outbox_get ob (or_key r) = Some r \<and> is_retryable r}
     \<and> sorted_wrt (\<lambda>r s. replay_order r < replay_order s) (replay_plan ob)
     \<and> replay_plan_for_group ob g = filter (\<lambda>r. ok_group_id (or_key r) = g) (replay_plan ob)"
proof (intro conjI)
  show "set (replay_plan ob) = {r. outbox_get ob (or_key r) = Some r \<and> is_retryable r}"
    using outbox_records [OF assms] by (auto simp: replay_plan_def replay_plan_matching_def)
  have "distinct (map or_key (filter is_retryable (map snd ob)))"
    using outbox_records_distinct [OF assms] by (rule distinct_map_filter)
  then have "distinct (map replay_order (filter is_retryable (map snd ob)))"
    using replay_order_key by (rule distinct_map_finer)
  then have "distinct (map replay_order (replay_plan ob))"
    by (simp add: replay_plan_def replay_plan_matching_def distinct_map)
  moreover have "sorted (map replay_order (replay_plan ob))"
    by (simp add: replay_plan_def replay_plan_matching_def)
  ultimately show "sorted_wrt (\<lambda>r s. replay_order r < replay_order s) (replay_plan ob)"
    using strict_sorted_iff [of "map replay_order (replay_plan ob)"] by (simp add: sorted_wrt_map)
  show "replay_plan_for_group ob g = filter (\<lambda>r. ok_group_id (or_key r) = g) (replay_plan ob)"
    by (simp add: replay_plan_for_group_def replay_plan_def replay_plan_matching_def filter_sort
        conj_commute)
qed

definition sample_outbox_record :: group_outbox_record where
  "sample_outbox_record = outbox_record_pending
     (OutboxKey (replicate 64 CHR ''a'') MemberListSnapshot ''welcome'' None)
     \<lparr>op_generated_kind = 39002, op_generated_created_at = 5, op_tags = [[''d'', ''welcome'']],
      op_content = []\<rparr>"

theorem replay_plan_exact_witness:
  "set (replay_plan (outbox_update sample_outbox_record outbox_new)) = {sample_outbox_record}"
proof -
  let ?ob = "outbox_update sample_outbox_record outbox_new"
  have "outbox_get outbox_new k = None" for k by (simp add: outbox_get_def outbox_new_def)
  then have "outbox_get ?ob k =
      (if k = or_key sample_outbox_record then Some sample_outbox_record else None)" for k
    by (simp add: outbox_get_update)
  moreover have "is_retryable sample_outbox_record"
    by (simp add: sample_outbox_record_def outbox_record_pending_def is_retryable_def)
  moreover have "set (replay_plan ?ob) = {r. outbox_get ?ob (or_key r) = Some r \<and> is_retryable r}"
    using replay_plan_exact [OF outbox_update_wf [OF outbox_new_wf]] by blast
  ultimately show ?thesis by (auto split: if_splits)
qed

section \<open>Crash hooks and readiness\<close>

datatype group_crash_point =
    SourceParsedBeforeStore
  | SourceStoreBeforeProjection
  | ProjectionUpdateBeforeOutboxPersist
  | OutboxPersistBeforeGeneratedStore
  | GeneratedStoreBeforeOutboxMark
  | OutboxMarkBeforeBroadcast
  | ProjectionRebuildPoint

fun crash_point_debug :: "group_crash_point \<Rightarrow> string" where
  "crash_point_debug SourceParsedBeforeStore = ''SourceParsedBeforeStore''"
| "crash_point_debug SourceStoreBeforeProjection = ''SourceStoreBeforeProjection''"
| "crash_point_debug ProjectionUpdateBeforeOutboxPersist = ''ProjectionUpdateBeforeOutboxPersist''"
| "crash_point_debug OutboxPersistBeforeGeneratedStore = ''OutboxPersistBeforeGeneratedStore''"
| "crash_point_debug GeneratedStoreBeforeOutboxMark = ''GeneratedStoreBeforeOutboxMark''"
| "crash_point_debug OutboxMarkBeforeBroadcast = ''OutboxMarkBeforeBroadcast''"
| "crash_point_debug ProjectionRebuildPoint = ''ProjectionRebuild''"

type_synonym group_crash_hooks = "group_crash_point set"

definition crash_hooks_disabled :: group_crash_hooks where
  "crash_hooks_disabled = {}"

definition crash_hooks_failing_at :: "group_crash_point list \<Rightarrow> group_crash_hooks" where
  "crash_hooks_failing_at points = set points"

definition crash_hooks_check :: "group_crash_hooks \<Rightarrow> group_crash_point \<Rightarrow> group_error + unit" where
  "crash_hooks_check hooks point =
     (if point \<in> hooks
      then Err (error_internal (''injected group crash at '' @ crash_point_debug point))
      else Ok ())"

datatype outbox_recovery_readiness = OutboxReady | OutboxFailedClosed string

definition readiness_from_replay_result :: "group_error + 'a \<Rightarrow> outbox_recovery_readiness" where
  "readiness_from_replay_result r =
     (case r of Inr _ \<Rightarrow> OutboxReady | Inl error \<Rightarrow> OutboxFailedClosed (prefixed_message error))"

section \<open>The stored form\<close>

record outbox_key_document =
  okd_source_event_id :: string
  okd_effect :: string
  okd_group_id :: string
  okd_target_pubkey :: "string option"

definition outbox_key_document_from :: "group_outbox_key \<Rightarrow> outbox_key_document" where
  "outbox_key_document_from k = \<lparr>okd_source_event_id = ok_source_event_id k,
     okd_effect = effect_str (ok_effect k), okd_group_id = ok_group_id k,
     okd_target_pubkey = ok_target_pubkey k\<rparr>"

definition outbox_key_document_into :: "outbox_key_document \<Rightarrow> group_error + group_outbox_key" where
  "outbox_key_document_into d =
     and_then (map_err error_internal (event_id_new (okd_source_event_id d))) (\<lambda>source_event_id.
     and_then (effect_from_label (okd_effect d)) (\<lambda>effect.
     and_then (group_id_new (okd_group_id d)) (\<lambda>gid.
     and_then (map_err error_internal (transpose (map_option public_key_new (okd_target_pubkey d))))
       (\<lambda>target. Ok (OutboxKey source_event_id effect gid target)))))"

definition valid_outbox_key :: "group_outbox_key \<Rightarrow> bool" where
  "valid_outbox_key k \<longleftrightarrow> valid_event_id (ok_source_event_id k) \<and> valid_group_id (ok_group_id k)
     \<and> pred_option valid_pubkey (ok_target_pubkey k)"

lemma transpose_pubkey:
  "transpose (map_option public_key_new x) = Ok y \<longleftrightarrow> y = x \<and> pred_option valid_pubkey x"
  by (cases x) (auto simp: transpose_def map_ok_Ok_iff)

interpretation outbox_key_doc:
  document outbox_key_document_from outbox_key_document_into valid_outbox_key
  by unfold_locales
     (auto simp: outbox_key_document_from_def outbox_key_document_into_def valid_outbox_key_def
        and_then_Ok_iff transpose_pubkey)

datatype outbox_status_document =
    PendingDoc
  | StoredDoc string
  | SkippedDoc string
  | FailedDoc bool

fun outbox_status_document_from :: "group_outbox_status \<Rightarrow> outbox_status_document" where
  "outbox_status_document_from Pending = PendingDoc"
| "outbox_status_document_from (Stored i) = StoredDoc i"
| "outbox_status_document_from (Skipped reason) = SkippedDoc reason"
| "outbox_status_document_from (Failed retryable) = FailedDoc retryable"

fun outbox_status_document_into :: "outbox_status_document \<Rightarrow> group_error + group_outbox_status" where
  "outbox_status_document_into PendingDoc = Ok Pending"
| "outbox_status_document_into (StoredDoc i) =
     and_then (map_err error_internal (event_id_new i)) (\<lambda>j. Ok (Stored j))"
| "outbox_status_document_into (SkippedDoc reason) = Ok (Skipped reason)"
| "outbox_status_document_into (FailedDoc retryable) = Ok (Failed retryable)"

fun valid_outbox_status :: "group_outbox_status \<Rightarrow> bool" where
  "valid_outbox_status (Stored i) = valid_event_id i"
| "valid_outbox_status _ = True"

interpretation outbox_status_doc:
  document outbox_status_document_from outbox_status_document_into valid_outbox_status
proof
  show "outbox_status_document_into (outbox_status_document_from s) = Ok s"
    if "valid_outbox_status s" for s using that by (cases s) simp_all
  show "valid_outbox_status s" if "outbox_status_document_into d = Ok s" for d s
    using that by (cases d) (auto simp: and_then_Ok_iff)
qed

record outbox_payload_document =
  opd_generated_kind :: u32
  opd_generated_created_at :: u64
  opd_tags :: "string list list"
  opd_content :: string

definition outbox_payload_document_from :: "group_outbox_payload \<Rightarrow> outbox_payload_document" where
  "outbox_payload_document_from p = \<lparr>opd_generated_kind = op_generated_kind p,
     opd_generated_created_at = op_generated_created_at p, opd_tags = op_tags p,
     opd_content = op_content p\<rparr>"

definition outbox_payload_document_into :: "outbox_payload_document \<Rightarrow> group_outbox_payload" where
  "outbox_payload_document_into d = \<lparr>op_generated_kind = opd_generated_kind d,
     op_generated_created_at = opd_generated_created_at d, op_tags = opd_tags d,
     op_content = opd_content d\<rparr>"

lemma outbox_payload_document_roundtrip [simp]:
  "outbox_payload_document_into (outbox_payload_document_from p) = p"
  by (simp add: outbox_payload_document_into_def outbox_payload_document_from_def)

record outbox_record_document =
  ord_key :: outbox_key_document
  ord_status :: outbox_status_document
  ord_payload :: outbox_payload_document
  ord_attempts :: u32
  ord_last_error :: "string option"

definition outbox_record_document_from :: "group_outbox_record \<Rightarrow> outbox_record_document" where
  "outbox_record_document_from r = \<lparr>ord_key = outbox_key_document_from (or_key r),
     ord_status = outbox_status_document_from (or_status r),
     ord_payload = outbox_payload_document_from (or_payload r), ord_attempts = or_attempts r,
     ord_last_error = or_last_error r\<rparr>"

definition outbox_record_document_into :: "outbox_record_document \<Rightarrow> group_error + group_outbox_record" where
  "outbox_record_document_into d =
     and_then (outbox_key_document_into (ord_key d)) (\<lambda>key.
     and_then (outbox_status_document_into (ord_status d)) (\<lambda>status.
       Ok \<lparr>or_key = key, or_status = status,
           or_payload = outbox_payload_document_into (ord_payload d),
           or_attempts = ord_attempts d, or_last_error = ord_last_error d\<rparr>))"

definition valid_outbox_record :: "group_outbox_record \<Rightarrow> bool" where
  "valid_outbox_record r \<longleftrightarrow> valid_outbox_key (or_key r) \<and> valid_outbox_status (or_status r)"

interpretation outbox_record_doc:
  document outbox_record_document_from outbox_record_document_into valid_outbox_record
  by unfold_locales
     (auto simp: outbox_record_document_from_def outbox_record_document_into_def
        valid_outbox_record_def and_then_Ok_iff outbox_key_doc.roundtrip outbox_status_doc.roundtrip
        dest: outbox_key_doc.sound outbox_status_doc.sound)

definition outbox_record_to_json_bytes ::
  "outbox_record_document codec \<Rightarrow> group_outbox_record \<Rightarrow> group_error + string" where
  "outbox_record_to_json_bytes c r =
     encode_document c ''outbox record'' (outbox_record_document_from r)"

definition outbox_record_from_json_bytes ::
  "outbox_record_document codec \<Rightarrow> string \<Rightarrow> group_error + group_outbox_record" where
  "outbox_record_from_json_bytes c raw =
     and_then (decode_document c ''outbox record'' raw) outbox_record_document_into"

lemma outbox_record_bytes_roundtrip:
  "codec_lawful c \<Longrightarrow> valid_outbox_record r \<Longrightarrow> outbox_record_to_json_bytes c r = Ok raw \<Longrightarrow>
   outbox_record_from_json_bytes c raw = Ok r"
  unfolding outbox_record_to_json_bytes_def outbox_record_from_json_bytes_def
  by (rule outbox_record_doc.bytes_roundtrip)

end
