(* ===== verification/Group_Signing.thy ===== *)
theory Group_Signing
  imports Group_Outbox Group_Policy
begin

text \<open>
  The events the relay generates for a group (\<open>crates/tangle_groups/src/signing.rs\<close>): the payloads
  of the snapshots and of accepted joins and leaves, and their signing. Pocket's tag builder and
  the Schnorr signer are parameters: the record \<open>pocket_api\<close> holds the two library calls, with the
  type \<open>'t\<close> for the tags the library builds.
\<close>

section \<open>Parameters\<close>

record 't pocket_api =
  pk_tags_new :: "string list list \<Rightarrow> string + 't"
  pk_sign_event :: "u16 \<Rightarrow> 't \<Rightarrow> u64 \<Rightarrow> string \<Rightarrow> string + pocket_event"

record 't generated_event_builder =
  gb_relay_pubkey :: public_key_hex
  gb_api :: "'t pocket_api"

section \<open>Payloads\<close>

definition payload_new :: "u32 \<Rightarrow> unix_timestamp \<Rightarrow> string list list \<Rightarrow> string \<Rightarrow> group_outbox_payload" where
  "payload_new k created_at tags content = \<lparr>op_generated_kind = k,
     op_generated_created_at = created_at, op_tags = tags, op_content = content\<rparr>"

definition validate_pocket_tags :: "'t pocket_api \<Rightarrow> string list list \<Rightarrow> group_error + unit" where
  "validate_pocket_tags api tags =
     map_ok (\<lambda>_. ()) (map_err (\<lambda>error. error_internal (''generated Pocket tags are invalid: '' @ error))
       (pk_tags_new api tags))"

definition optional_tag :: "string \<Rightarrow> string option \<Rightarrow> string list list" where
  "optional_tag name v = (case v of Some value \<Rightarrow> [[name, value]] | None \<Rightarrow> [])"

definition flag_tag :: "string \<Rightarrow> bool \<Rightarrow> string list list" where
  "flag_tag name b = (if b then [[name]] else [])"

definition metadata_tag_list :: "group_id \<Rightarrow> group_metadata \<Rightarrow> string list list" where
  "metadata_tag_list g m =
     [[''d'', g]]
     @ optional_tag ''name'' (gm_name m)
     @ optional_tag ''picture'' (gm_picture m)
     @ optional_tag ''about'' (gm_about m)
     @ flag_tag ''private'' (gm_private m)
     @ flag_tag ''restricted'' (gm_restricted m)
     @ flag_tag ''hidden'' (gm_hidden m)
     @ flag_tag ''closed'' (gm_closed m)
     @ (case gm_supported_kinds m of
          UnspecifiedAll \<Rightarrow> []
        | NoKinds \<Rightarrow> [[''supported_kinds'']]
        | Only kinds \<Rightarrow> [''supported_kinds'' # map (\<lambda>k. dec (unat k)) (bs_iter kinds)])"

definition metadata_tags ::
  "'t pocket_api \<Rightarrow> group_id \<Rightarrow> group_metadata \<Rightarrow> group_error + string list list" where
  "metadata_tags api g m =
     (let tags = metadata_tag_list g m in
      and_then (validate_pocket_tags api tags) (\<lambda>_. Ok tags))"

definition metadata_snapshot_payload ::
  "'t pocket_api \<Rightarrow> group_state \<Rightarrow> unix_timestamp \<Rightarrow> group_error + group_outbox_payload" where
  "metadata_snapshot_payload api grp created_at =
     and_then (metadata_tags api (gst_id grp) (gst_metadata grp))
       (\<lambda>tags. Ok (payload_new KIND_GROUP_METADATA created_at tags []))"

definition admin_list_pubkeys ::
  "group_id \<Rightarrow> group_projection \<Rightarrow> group_authority \<Rightarrow> public_key_hex set" where
  "admin_list_pubkeys g p a =
     ga_owner_pubkeys a \<union> ga_admin_pubkeys a
     \<union> set (map (\<lambda>((_, pubkey), _). pubkey)
         (filter (\<lambda>((candidate, _), m). candidate = g \<and> ms_status m = Member
            \<and> PERMANENT_RELAY_OVERRIDE_ROLE \<in> ms_roles m) (gp_members p)))"

definition admin_list_snapshot_payload ::
  "group_id \<Rightarrow> group_projection \<Rightarrow> group_authority \<Rightarrow> unix_timestamp \<Rightarrow> group_error + group_outbox_payload" where
  "admin_list_snapshot_payload g p a created_at =
     Ok (payload_new KIND_GROUP_ADMINS created_at
       ([''d'', g] # map (\<lambda>pubkey. [''p'', pubkey]) (bs_iter (admin_list_pubkeys g p a))) [])"

definition member_list_pubkeys :: "group_id \<Rightarrow> group_projection \<Rightarrow> public_key_hex list" where
  "member_list_pubkeys g p =
     sort (map (\<lambda>((_, pubkey), _). pubkey)
       (filter (\<lambda>((candidate, _), m). candidate = g \<and> ms_status m = Member) (gp_members p)))"

definition member_list_snapshot_payload ::
  "group_id \<Rightarrow> group_projection \<Rightarrow> unix_timestamp \<Rightarrow> u32 \<Rightarrow> group_error + group_outbox_payload option" where
  "member_list_snapshot_payload g p created_at cap =
     (let members = member_list_pubkeys g p in
      if length members > unat cap then Ok None
      else Ok (Some (payload_new KIND_GROUP_MEMBERS created_at
        ([''d'', g] # map (\<lambda>pubkey. [''p'', pubkey]) members) [])))"

definition membership_payload ::
  "u32 \<Rightarrow> group_id \<Rightarrow> public_key_hex \<Rightarrow> unix_timestamp \<Rightarrow> group_outbox_payload" where
  "membership_payload k g target created_at =
     payload_new k created_at [[''h'', g], [''p'', target]] []"

definition join_accepted_payload ::
  "group_id \<Rightarrow> public_key_hex \<Rightarrow> unix_timestamp \<Rightarrow> group_outbox_payload" where
  "join_accepted_payload g target created_at =
     membership_payload KIND_GROUP_PUT_USER g target created_at"

definition leave_accepted_payload ::
  "group_id \<Rightarrow> public_key_hex \<Rightarrow> unix_timestamp \<Rightarrow> group_outbox_payload" where
  "leave_accepted_payload g target created_at =
     membership_payload KIND_GROUP_REMOVE_USER g target created_at"

section \<open>Signing\<close>

definition u16_try_from :: "u32 \<Rightarrow> u16 option" where
  "u16_try_from k = (if unat k < 2 ^ 16 then Some (ucast k) else None)"

definition sign_payload_pocket ::
  "'t generated_event_builder \<Rightarrow> group_outbox_payload \<Rightarrow> group_error + pocket_event" where
  "sign_payload_pocket b payload =
     and_then (ok_or (u16_try_from (op_generated_kind payload))
         (error_internal ''generated event kind exceeds Pocket kind'')) (\<lambda>k.
     and_then (map_err (\<lambda>error. error_internal (''generated Pocket tags are invalid: '' @ error))
         (pk_tags_new (gb_api b) (op_tags payload))) (\<lambda>tags.
     and_then (map_err error_internal
         (pk_sign_event (gb_api b) k tags (op_generated_created_at payload) (op_content payload))) (\<lambda>event.
     and_then (map_err (\<lambda>error. error_internal
           (''generated Pocket event failed verification: '' @ error)) (pe_verify event)) (\<lambda>_.
       Ok event))))"

section \<open>What the snapshots say\<close>

lemma parse_kinds_dec:
  "try_fold parse_supported_kind s (map (\<lambda>k. dec (unat k)) ks) = Ok (s \<union> set ks)"
proof (induction ks arbitrary: s)
  case Nil
  then show ?case by simp
next
  case (Cons k ks)
  have "parse_u64 (dec (unat k)) = Some (ucast k)"
    using unat_u32_less [of k]
    by (subst parse_u64_dec) (auto simp flip: unat_ucast_u32_u64)
  then have "parse_supported_kind s (dec (unat k)) = Ok (insert k s)"
    by (simp add: parse_supported_kind_def)
  then show ?case by (simp add: Cons.IH)
qed

lemma try_fold_optional_tag:
  "try_fold f s (optional_tag n v @ ts) =
     (case v of Some x \<Rightarrow> and_then (f s [n, x]) (\<lambda>t. try_fold f t ts) | None \<Rightarrow> try_fold f s ts)"
  by (cases v) (simp_all add: optional_tag_def)

lemma try_fold_flag_tag:
  "try_fold f s (flag_tag n b @ ts) = (if b then and_then (f s [n]) (\<lambda>t. try_fold f t ts) else try_fold f s ts)"
  by (simp add: flag_tag_def)

lemma try_fold_flag_tag_last: "try_fold f s (flag_tag n b) = (if b then f s [n] else Ok s)"
  by (cases "f s [n]") (simp_all add: flag_tag_def)

lemma parse_text_tag_value:
  "opt_length_le (Some v) n \<Longrightarrow> parse_text_tag [t, v] field n = Ok (Some v)"
  by (simp add: parse_text_tag_def opt_length_le_def values_get_def)

lemma metadata_visit_values [simp]:
  "metadata_visit limits b [''d'', g] = Ok b"
  "opt_length_le (Some v) 128 \<Longrightarrow> metadata_visit limits b [''name'', v] = Ok (b\<lparr>mb_name := Some v\<rparr>)"
  "opt_length_le (Some v) 2048 \<Longrightarrow> metadata_visit limits b [''picture'', v] = Ok (b\<lparr>mb_picture := Some v\<rparr>)"
  "opt_length_le (Some v) 4096 \<Longrightarrow> metadata_visit limits b [''about'', v] = Ok (b\<lparr>mb_about := Some v\<rparr>)"
  "metadata_visit limits b [''private''] = Ok (b\<lparr>mb_private := True\<rparr>)"
  "metadata_visit limits b [''restricted''] = Ok (b\<lparr>mb_restricted := True\<rparr>)"
  "metadata_visit limits b [''hidden''] = Ok (b\<lparr>mb_hidden := True\<rparr>)"
  "metadata_visit limits b [''closed''] = Ok (b\<lparr>mb_closed := True\<rparr>)"
  by (simp_all add: metadata_visit_def parse_text_tag_value)

lemma metadata_visit_kinds:
  assumes "mb_supported_kinds b = None"
  shows "metadata_visit limits b [''supported_kinds''] = Ok (b\<lparr>mb_supported_kinds := Some NoKinds\<rparr>)"
    and "ks \<noteq> {} \<Longrightarrow> card ks \<le> unat (gl_max_supported_kinds limits) \<Longrightarrow>
      metadata_visit limits b (''supported_kinds'' # map (\<lambda>k. dec (unat k)) (bs_iter ks))
        = Ok (b\<lparr>mb_supported_kinds := Some (Only ks)\<rparr>)"
  using assms by (simp_all add: metadata_visit_def parse_supported_kinds_tag_def Let_def
      parse_kinds_dec)

lemma metadata_tags_fold:
  assumes "valid_metadata limits m"
  shows "try_fold (metadata_visit limits) metadata_builder_default (metadata_tag_list g m)
     = Ok \<lparr>mb_name = gm_name m, mb_picture = gm_picture m, mb_about = gm_about m,
         mb_private = gm_private m, mb_restricted = gm_restricted m, mb_hidden = gm_hidden m,
         mb_closed = gm_closed m, mb_supported_kinds =
           (case gm_supported_kinds m of UnspecifiedAll \<Rightarrow> None | k \<Rightarrow> Some k)\<rparr>"
proof -
  have lengths: "opt_length_le (gm_name m) 128" "opt_length_le (gm_picture m) 2048"
    "opt_length_le (gm_about m) 4096" using assms by (auto simp: valid_metadata_def)
  have kinds: "ks \<noteq> {}" "card ks \<le> unat (gl_max_supported_kinds limits)"
    if "gm_supported_kinds m = Only ks" for ks
    using assms that by (auto simp: valid_metadata_def)
  show ?thesis
    using lengths unfolding metadata_tag_list_def
    by (cases "gm_name m"; cases "gm_picture m"; cases "gm_about m"; cases "gm_supported_kinds m")
       (simp_all add: try_fold_optional_tag try_fold_flag_tag try_fold_flag_tag_last
          metadata_builder_default_def
          metadata_visit_kinds kinds)
qed

text \<open>
  Claim C38. The metadata snapshot says what the group state says: an event that carries the tags of a
  metadata payload, when its tags are readable, is parsed back to exactly the metadata it was
  generated from, for every metadata within the limits the parser enforces.
\<close>

theorem metadata_snapshot_roundtrip:
  assumes "metadata_snapshot_payload api grp t = Ok payload"
    and "valid_metadata limits (gst_metadata grp)"
    and "readable_tags e (op_tags payload)"
  shows "parse_group_metadata e limits = Ok (gst_metadata grp)"
proof -
  let ?m = "gst_metadata grp"
  have "op_tags payload = metadata_tag_list (gst_id grp) ?m"
    using assms(1) by (auto simp: metadata_snapshot_payload_def metadata_tags_def Let_def
        and_then_Ok_iff payload_new_def)
  then have "visit_tags e (metadata_visit limits) metadata_builder_default
     = Ok \<lparr>mb_name = gm_name ?m, mb_picture = gm_picture ?m, mb_about = gm_about ?m,
         mb_private = gm_private ?m, mb_restricted = gm_restricted ?m, mb_hidden = gm_hidden ?m,
         mb_closed = gm_closed ?m, mb_supported_kinds =
           (case gm_supported_kinds ?m of UnspecifiedAll \<Rightarrow> None | k \<Rightarrow> Some k)\<rparr>"
    using assms(3) metadata_tags_fold [OF assms(2)] by (auto simp: visit_tags_Ok)
  then show ?thesis
    by (cases "gm_supported_kinds ?m") (simp_all add: parse_group_metadata_def)
qed

lemma is_current_member_entry:
  assumes "bt_wf (gp_members p)"
  shows "is_current_member p g pk \<longleftrightarrow> (\<exists>m. ((g, pk), m) \<in> set (gp_members p) \<and> ms_status m = Member)"
proof -
  have "gp_member p g pk = Some m \<longleftrightarrow> ((g, pk), m) \<in> set (gp_members p)" for m
    using bt_wf_distinct [OF assms] by (simp add: gp_member_def)
  then show ?thesis
    unfolding is_current_member_def by (cases "gp_member p g pk") (auto, metis+)
qed

text \<open>
  The member list snapshot is exact: for a well-formed member map it lists every current member
  of the group once, in ascending order of the keys, and nobody else; above the cap there is none.
\<close>

theorem member_list_snapshot_exact:
  assumes "bt_wf (gp_members p)"
  shows "(member_list_snapshot_payload g p t cap = Ok None \<longleftrightarrow>
        unat cap < card {pk. is_current_member p g pk})
    \<and> (\<forall>payload. member_list_snapshot_payload g p t cap = Ok (Some payload) \<longrightarrow>
        op_tags payload = [''d'', g] # map (\<lambda>pk. [''p'', pk]) (bs_iter {pk. is_current_member p g pk})
        \<and> op_generated_kind payload = 39002 \<and> op_generated_created_at payload = t)"
proof -
  let ?f = "filter (\<lambda>((candidate, _), m). candidate = g \<and> ms_status m = Member) (gp_members p)"
  let ?ks = "map (\<lambda>((_, pubkey), _). pubkey) ?f"
  have fst: "distinct (map fst (gp_members p))" using assms by (rule bt_wf_distinct)
  have set: "set ?ks = {pk. is_current_member p g pk}"
    using is_current_member_entry [OF assms] by force
  have "distinct (map fst ?f)" using fst by (rule distinct_map_filter)
  then have "distinct ?f" by (simp add: distinct_map)
  then have "distinct ?ks"
    using fst by (fastforce simp: distinct_map inj_on_def)
  then have "member_list_pubkeys g p = bs_iter {pk. is_current_member p g pk}"
    unfolding member_list_pubkeys_def using set
    by (metis sorted_list_of_set_sort_remdups distinct_remdups_id)
  moreover have "length (bs_iter {pk. is_current_member p g pk}) = card {pk. is_current_member p g pk}"
    by simp
  ultimately show ?thesis
    by (auto simp: member_list_snapshot_payload_def Let_def payload_new_def split: if_splits)
qed

section \<open>Samples\<close>

text \<open>A tag builder that accepts every tag list and a signer with a fixed key and event id.\<close>

definition sample_api :: "string list list pocket_api" where
  "sample_api = \<lparr>pk_tags_new = Ok, pk_sign_event = (\<lambda>k tags t content. Ok
     \<lparr>pe_id = replicate 64 CHR ''d'', pe_pubkey = replicate 64 CHR ''e'', pe_kind = k,
      pe_created_at = t, pe_tags = Ok tags, pe_content = content, pe_verify = Ok ()\<rparr>)\<rparr>"

definition sample_group :: group_state where
  "sample_group = group_state_new ''welcome''
     \<lparr>gm_name = Some ''Welcome'', gm_picture = None, gm_about = None, gm_private = True,
      gm_restricted = False, gm_hidden = False, gm_closed = True, gm_supported_kinds = Only {1, 9}\<rparr>
     (replicate 64 CHR ''b'') (replicate 64 CHR ''0'') (OrderTuple 0 (replicate 64 CHR ''0'') 0)"

lemma sample_group_metadata:
  "gst_metadata sample_group = \<lparr>gm_name = Some ''Welcome'', gm_picture = None, gm_about = None,
     gm_private = True, gm_restricted = False, gm_hidden = False, gm_closed = True,
     gm_supported_kinds = Only {1, 9}\<rparr>" "gst_id sample_group = ''welcome''"
  by (simp_all add: sample_group_def group_state_new_def)

theorem metadata_snapshot_roundtrip_witness:
  "parse_group_metadata (sample_pocket_event 39000 (metadata_tag_list ''welcome'' (gst_metadata sample_group)))
     group_limits_default = Ok (gst_metadata sample_group)"
proof (rule metadata_snapshot_roundtrip)
  show "metadata_snapshot_payload sample_api sample_group 5
      = Ok (payload_new 39000 5 (metadata_tag_list ''welcome'' (gst_metadata sample_group)) [])"
    by (simp add: metadata_snapshot_payload_def metadata_tags_def validate_pocket_tags_def sample_api_def
        sample_group_metadata Let_def)
  show "valid_metadata group_limits_default (gst_metadata sample_group)"
    by (simp add: valid_metadata_def sample_group_metadata opt_length_le_def group_limits_default_def)
  have "dec 1 = ''1''" "dec 9 = ''9''" by (simp_all add: dec.simps digit_char_def char_of_def bit_simps)
  then show "readable_tags (sample_pocket_event 39000 (metadata_tag_list ''welcome'' (gst_metadata sample_group)))
      (op_tags (payload_new 39000 5 (metadata_tag_list ''welcome'' (gst_metadata sample_group)) []))"
    by (simp add: readable_tags_def payload_new_def metadata_tag_list_def sample_group_metadata
        optional_tag_def flag_tag_def byte_def)
qed

theorem member_list_snapshot_exact_witness:
  "member_list_snapshot_payload ''welcome'' projection_new 5 10 = Ok (Some (payload_new 39002 5 [[''d'', ''welcome'']] []))
   \<and> \<not> 10 < card {pk. is_current_member projection_new ''welcome'' pk}"
proof -
  have p: "member_list_snapshot_payload ''welcome'' projection_new 5 10
      = Ok (Some (payload_new 39002 5 [[''d'', ''welcome'']] []))"
    by (simp add: member_list_snapshot_payload_def member_list_pubkeys_def projection_new_def)
  have "bt_wf (gp_members projection_new)" by (simp add: projection_new_def)
  from member_list_snapshot_exact [OF this, of "''welcome''" 5 10] p show ?thesis by simp
qed

end
