(* ===== verification/Tangle_Actions.thy ===== *)
theory Tangle_Actions
  imports Tangle_Prelude
begin

text \<open>
  Stateful fallible code: a method on \<open>&mut self\<close> that returns a \<open>Result\<close> is a function from the
  state to the result and the new state, or to \<open>None\<close> when it does not return (a loop that runs
  forever). The state changes made before an error stay, as they do in the program. The
  combinators are the program's own control flow: sequencing with \<open>?\<close>, reading and writing a field,
  loops over a list and matching on a result. The judgements \<open>act_keeps\<close> (an invariant survives the
  call) and \<open>act_total\<close> (the call returns) carry the proofs about sequences of calls.
\<close>

named_theorems act_intros \<open>how invariants pass through sequences of stateful calls\<close>

type_synonym ('s, 'e, 'a) action = "'s \<Rightarrow> (('e + 'a) \<times> 's) option"

definition act_return :: "'a \<Rightarrow> ('s, 'e, 'a) action" where
  "act_return x = (\<lambda>s. Some (Ok x, s))"

definition act_lift :: "'e + 'a \<Rightarrow> ('s, 'e, 'a) action" where
  "act_lift r = (\<lambda>s. Some (r, s))"

definition act_get :: "('s \<Rightarrow> 'a) \<Rightarrow> ('s, 'e, 'a) action" where
  "act_get f = (\<lambda>s. Some (Ok (f s), s))"

definition act_read :: "('s \<Rightarrow> 'e + 'a) \<Rightarrow> ('s, 'e, 'a) action" where
  "act_read f = (\<lambda>s. Some (f s, s))"

definition act_modify :: "('s \<Rightarrow> 's) \<Rightarrow> ('s, 'e, unit) action" where
  "act_modify f = (\<lambda>s. Some (Ok (), f s))"

definition act_bind :: "('s, 'e, 'a) action \<Rightarrow> ('a \<Rightarrow> ('s, 'e, 'b) action) \<Rightarrow> ('s, 'e, 'b) action" where
  "act_bind m f = (\<lambda>s. case m s of
       None \<Rightarrow> None
     | Some (Inl e, t) \<Rightarrow> Some (Inl e, t)
     | Some (Inr x, t) \<Rightarrow> f x t)"

text \<open>\<open>match\<close> on the result of a call.\<close>

definition act_match ::
  "('s, 'e, 'a) action \<Rightarrow> ('a \<Rightarrow> ('s, 'f, 'b) action) \<Rightarrow> ('e \<Rightarrow> ('s, 'f, 'b) action) \<Rightarrow> ('s, 'f, 'b) action" where
  "act_match m on_ok on_err = (\<lambda>s. case m s of
       None \<Rightarrow> None
     | Some (Inl e, t) \<Rightarrow> on_err e t
     | Some (Inr x, t) \<Rightarrow> on_ok x t)"

definition act_map_err :: "('e \<Rightarrow> 'f) \<Rightarrow> ('s, 'e, 'a) action \<Rightarrow> ('s, 'f, 'a) action" where
  "act_map_err g m = (\<lambda>s. map_option (\<lambda>(r, t). (map_err g r, t)) (m s))"

text \<open>A call on a component of the state.\<close>

definition act_on ::
  "('s \<Rightarrow> 'c) \<Rightarrow> ('c \<Rightarrow> 's \<Rightarrow> 's) \<Rightarrow> ('c, 'e, 'a) action \<Rightarrow> ('s, 'e, 'a) action" where
  "act_on getter setter m = (\<lambda>s. map_option (\<lambda>(r, c). (r, setter c s)) (m (getter s)))"

fun act_each :: "('a \<Rightarrow> ('s, 'e, unit) action) \<Rightarrow> 'a list \<Rightarrow> ('s, 'e, unit) action" where
  "act_each f [] = act_return ()"
| "act_each f (x # xs) = act_bind (f x) (\<lambda>_. act_each f xs)"

fun act_try_fold ::
  "('b \<Rightarrow> 'a \<Rightarrow> ('s, 'e, 'b) action) \<Rightarrow> 'b \<Rightarrow> 'a list \<Rightarrow> ('s, 'e, 'b) action" where
  "act_try_fold f b [] = act_return b"
| "act_try_fold f b (x # xs) = act_bind (f b x) (\<lambda>c. act_try_fold f c xs)"

lemmas act_defs = act_return_def act_lift_def act_get_def act_read_def act_modify_def

lemma act_simps [simp]:
  "act_return x s = Some (Ok x, s)"
  "act_lift r s = Some (r, s)"
  "act_get g s = Some (Ok (g s), s)"
  "act_read h s = Some (h s, s)"
  "act_modify m s = Some (Ok (), m s)"
  by (simp_all add: act_defs)

lemma act_bind_Some [simp]:
  "m s = None \<Longrightarrow> act_bind m f s = None"
  "m s = Some (Err e, t) \<Longrightarrow> act_bind m f s = Some (Err e, t)"
  "m s = Some (Ok x, t) \<Longrightarrow> act_bind m f s = f x t"
  by (simp_all add: act_bind_def)

lemma act_bind_iff:
  "act_bind m f s = Some (r, u) \<longleftrightarrow>
     (\<exists>e. m s = Some (Err e, u) \<and> r = Err e) \<or> (\<exists>x t. m s = Some (Ok x, t) \<and> f x t = Some (r, u))"
  by (auto simp: act_bind_def split: option.splits prod.splits sum.splits)

lemma act_bind_Ok_iff:
  "act_bind m f s = Some (Ok y, u) \<longleftrightarrow> (\<exists>x t. m s = Some (Ok x, t) \<and> f x t = Some (Ok y, u))"
  by (auto simp: act_bind_iff)

lemma act_match_iff:
  "act_match m f g s = Some (r, u) \<longleftrightarrow>
     (\<exists>e t. m s = Some (Err e, t) \<and> g e t = Some (r, u)) \<or>
     (\<exists>x t. m s = Some (Ok x, t) \<and> f x t = Some (r, u))"
  by (auto simp: act_match_def split: option.splits prod.splits sum.splits)

lemma act_map_err_iff:
  "act_map_err g m s = Some (r, t) \<longleftrightarrow> (\<exists>q. m s = Some (q, t) \<and> r = map_err g q)"
  by (auto simp: act_map_err_def)

lemma act_on_iff:
  "act_on gt st m s = Some (r, t) \<longleftrightarrow> (\<exists>c. m (gt s) = Some (r, c) \<and> t = st c s)"
  by (auto simp: act_on_def)

lemma act_bind_assoc: "act_bind (act_bind m f) g = act_bind m (\<lambda>x. act_bind (f x) g)"
  by (auto simp: act_bind_def fun_eq_iff split: option.split prod.split sum.split)

section \<open>Invariants\<close>

text \<open>An action keeps a property when every run that starts in it ends in it, error or not.\<close>

definition act_keeps :: "('s \<Rightarrow> bool) \<Rightarrow> ('s, 'e, 'a) action \<Rightarrow> bool" where
  "act_keeps P m \<longleftrightarrow> (\<forall>s r t. P s \<longrightarrow> m s = Some (r, t) \<longrightarrow> P t)"

lemma act_keepsI: "(\<And>s r t. P s \<Longrightarrow> m s = Some (r, t) \<Longrightarrow> P t) \<Longrightarrow> act_keeps P m"
  by (auto simp: act_keeps_def)

lemma act_keepsD: "act_keeps P m \<Longrightarrow> P s \<Longrightarrow> m s = Some (r, t) \<Longrightarrow> P t"
  by (auto simp: act_keeps_def)

lemma act_keeps_basic [act_intros]:
  "act_keeps P (act_return x)" "act_keeps P (act_lift r)" "act_keeps P (act_get g)"
  "act_keeps P (act_read h)"
  by (auto simp: act_keeps_def)

lemma act_keeps_modify [act_intros]: "(\<And>s. P s \<Longrightarrow> P (f s)) \<Longrightarrow> act_keeps P (act_modify f)"
  by (auto simp: act_keeps_def)

lemma act_keeps_bind [act_intros]:
  "act_keeps P m \<Longrightarrow> (\<And>x. act_keeps P (f x)) \<Longrightarrow> act_keeps P (act_bind m f)"
  unfolding act_keeps_def act_bind_iff by blast

lemma act_keeps_match [act_intros]:
  "act_keeps P m \<Longrightarrow> (\<And>x. act_keeps P (f x)) \<Longrightarrow> (\<And>e. act_keeps P (g e)) \<Longrightarrow>
   act_keeps P (act_match m f g)"
  unfolding act_keeps_def act_match_iff by blast

lemma act_keeps_map_err [act_intros]: "act_keeps P m \<Longrightarrow> act_keeps P (act_map_err g m)"
  unfolding act_keeps_def act_map_err_iff by blast

lemma act_keeps_each [act_intros]:
  "(\<And>x. x \<in> set xs \<Longrightarrow> act_keeps P (f x)) \<Longrightarrow> act_keeps P (act_each f xs)"
  by (induction xs) (auto intro!: act_intros)

lemma act_keeps_try_fold [act_intros]:
  "(\<And>b x. x \<in> set xs \<Longrightarrow> act_keeps P (f b x)) \<Longrightarrow> act_keeps P (act_try_fold f b xs)"
  by (induction xs arbitrary: b) (auto intro!: act_intros)

lemma act_keeps_on:
  "(\<And>c s. P s \<Longrightarrow> P (st c s)) \<Longrightarrow> act_keeps P (act_on gt st m)"
  by (auto simp: act_keeps_def act_on_iff)

lemma act_keeps_if [act_intros]:
  "(b \<Longrightarrow> act_keeps P m) \<Longrightarrow> (\<not> b \<Longrightarrow> act_keeps P n) \<Longrightarrow> act_keeps P (if b then m else n)"
  by simp

lemma act_keeps_option [act_intros]:
  "(x = None \<Longrightarrow> act_keeps P m) \<Longrightarrow> (\<And>y. x = Some y \<Longrightarrow> act_keeps P (f y)) \<Longrightarrow>
   act_keeps P (case x of None \<Rightarrow> m | Some y \<Rightarrow> f y)"
  by (cases x) simp_all

text \<open>Reading the state, computing a new value from it and writing that value back.\<close>

lemma act_keeps_read_modify:
  assumes "\<And>s x. P s \<Longrightarrow> h s = Ok x \<Longrightarrow> P (g x s)" and "\<And>x. act_keeps P (m x)"
  shows "act_keeps P (act_bind (act_read h) (\<lambda>x. act_bind (act_modify (g x)) (\<lambda>_. m x)))"
proof (rule act_keepsI)
  fix s r t
  assume "P s" and run: "act_bind (act_read h) (\<lambda>x. act_bind (act_modify (g x)) (\<lambda>_. m x)) s = Some (r, t)"
  show "P t"
  proof (cases "h s")
    case (Inl e)
    with run \<open>P s\<close> show ?thesis by simp
  next
    case (Inr x)
    with run have "m x (g x s) = Some (r, t)" by simp
    with assms(2) [of x] assms(1) [OF \<open>P s\<close> Inr] show ?thesis by (rule act_keepsD)
  qed
qed

text \<open>Total actions: they always return.\<close>

definition act_total :: "('s, 'e, 'a) action \<Rightarrow> bool" where
  "act_total m \<longleftrightarrow> (\<forall>s. m s \<noteq> None)"

lemma act_totalD: "act_total m \<Longrightarrow> \<exists>r t. m s = Some (r, t)"
  by (auto simp: act_total_def)

lemma act_total_basic [act_intros]:
  "act_total (act_return x)" "act_total (act_lift r)" "act_total (act_get g)"
  "act_total (act_read h)" "act_total (act_modify f)"
  by (simp_all add: act_total_def)

lemma act_total_bind [act_intros]:
  "act_total m \<Longrightarrow> (\<And>x. act_total (f x)) \<Longrightarrow> act_total (act_bind m f)"
  by (auto simp: act_total_def act_bind_def split: option.splits prod.splits sum.splits)

lemma act_total_match [act_intros]:
  "act_total m \<Longrightarrow> (\<And>x. act_total (f x)) \<Longrightarrow> (\<And>e. act_total (g e)) \<Longrightarrow> act_total (act_match m f g)"
  by (auto simp: act_total_def act_match_def split: option.splits prod.splits sum.splits)

lemma act_total_map_err [act_intros]: "act_total m \<Longrightarrow> act_total (act_map_err g m)"
  by (simp add: act_total_def act_map_err_def)

lemma act_total_on [act_intros]: "act_total m \<Longrightarrow> act_total (act_on gt st m)"
  by (simp add: act_total_def act_on_def)

lemma act_total_each [act_intros]: "(\<And>x. act_total (f x)) \<Longrightarrow> act_total (act_each f xs)"
  by (induction xs) (auto intro!: act_intros)

lemma act_total_try_fold [act_intros]:
  "(\<And>b x. act_total (f b x)) \<Longrightarrow> act_total (act_try_fold f b xs)"
  by (induction xs arbitrary: b) (auto intro!: act_intros)

lemma act_total_if [act_intros]:
  "(b \<Longrightarrow> act_total m) \<Longrightarrow> (\<not> b \<Longrightarrow> act_total n) \<Longrightarrow> act_total (if b then m else n)"
  by simp

lemma act_total_option [act_intros]:
  "(x = None \<Longrightarrow> act_total m) \<Longrightarrow> (\<And>y. x = Some y \<Longrightarrow> act_total (f y)) \<Longrightarrow>
   act_total (case x of None \<Rightarrow> m | Some y \<Rightarrow> f y)"
  by (cases x) simp_all

lemma act_total_prod [act_intros]:
  "(\<And>a b. act_total (f a b)) \<Longrightarrow> act_total (case x of (a, b) \<Rightarrow> f a b)"
  by (cases x) simp

lemma act_keeps_prod [act_intros]:
  "(\<And>a b. act_keeps P (f a b)) \<Longrightarrow> act_keeps P (case x of (a, b) \<Rightarrow> f a b)"
  by (cases x) simp

text \<open>Loops: the recursive call of a partial function may stand after \<open>act_bind\<close>.\<close>

lemma act_bind_mono [partial_function_mono]:
  fixes g :: "('k \<Rightarrow> 'd option) \<Rightarrow> 'a \<Rightarrow> ('s, 'e, 'b) action"
  assumes "\<And>t y. mono_option (\<lambda>f. g f y t)"
  shows "mono_option (\<lambda>f. act_bind m (\<lambda>y. g f y) s)"
proof (rule monotoneI)
  fix f h :: "'k \<Rightarrow> 'd option"
  assume le: "option.le_fun f h"
  have "option_ord (g f y t) (g h y t)" for y t
    using assms [where y = y and t = t] le unfolding monotone_def by blast
  then show "option_ord (act_bind m (\<lambda>y. g f y) s) (act_bind m (\<lambda>y. g h y) s)"
    by (auto simp: act_bind_def flat_ord_def split: option.splits prod.splits sum.splits)
qed

end
