(* ===== verification/Store_Pocket.thy ===== *)
theory Store_Pocket
  imports Group_Events Tangle_Actions
begin

text \<open>
  The store handle (\<open>crates/tangle_store_pocket/src/lib.rs\<close>): a thin layer over the Pocket database
  that adds error texts, the sync policy and the scan of the event map by offset. The database is
  a parameter, the record \<open>pocket_db\<close> of the calls the handle makes, over an abstract state \<open>'st\<close>.
  A \<open>PocketStoreError\<close> is its message.
\<close>

section \<open>The database\<close>

datatype table_write = TablePut string string | TableDelete string

text \<open>
  The calls on an extra table report, with an error, the stage that failed (write transaction,
  put, delete, commit, read transaction, get, scan), which the handle puts in the message.
\<close>

record 'st pocket_db =
  db_store_event :: "pocket_event \<Rightarrow> 'st \<Rightarrow> (string + u64) \<times> 'st"
  db_sync :: "'st \<Rightarrow> (string + unit) \<times> 'st"
  db_event_by_id :: "'st \<Rightarrow> event_id \<Rightarrow> string + pocket_event option"
  db_event_by_offset :: "'st \<Rightarrow> u64 \<Rightarrow> string + pocket_event"
  db_event_len :: "pocket_event \<Rightarrow> u64"
  db_event_bytes :: "'st \<Rightarrow> string + u64"
  db_has_table :: "string \<Rightarrow> bool"
  db_table_write :: "string \<Rightarrow> table_write \<Rightarrow> 'st \<Rightarrow> ((string \<times> string) + unit) \<times> 'st"
  db_table_get :: "string \<Rightarrow> string \<Rightarrow> 'st \<Rightarrow> (string \<times> string) + string option"
  db_table_scan :: "string \<Rightarrow> 'st \<Rightarrow> (string \<times> string) + (string \<times> string) list"

datatype pocket_sync_policy = FlushOnWrite | FlushOnShutdown

record 'st pocket_store_handle =
  sh_db :: "'st pocket_db"
  sh_sync_policy :: pocket_sync_policy

abbreviation TANGLE_GROUP_PROJECTION_TABLE :: string where
  "TANGLE_GROUP_PROJECTION_TABLE \<equiv> ''group_projection''"
abbreviation TANGLE_GROUP_OUTBOX_TABLE :: string where
  "TANGLE_GROUP_OUTBOX_TABLE \<equiv> ''group_outbox''"
abbreviation TANGLE_GROUP_CHECKPOINT_TABLE :: string where
  "TANGLE_GROUP_CHECKPOINT_TABLE \<equiv> ''group_checkpoint''"

definition missing_table :: "string \<Rightarrow> string" where
  "missing_table table = ''missing Pocket extra table '' @ table"

definition from_extra_table :: "string \<Rightarrow> string \<times> string \<Rightarrow> string" where
  "from_extra_table table failure =
     ''Pocket extra table '' @ table @ '' '' @ fst failure @ '' failed: '' @ snd failure"

definition extra_table :: "'st pocket_store_handle \<Rightarrow> string \<Rightarrow> string + unit" where
  "extra_table h table = (if db_has_table (sh_db h) table then Ok () else Err (missing_table table))"

section \<open>Writes\<close>

definition act_prim :: "('s \<Rightarrow> ('e + 'a) \<times> 's) \<Rightarrow> ('s, 'e, 'a) action" where
  "act_prim f = (\<lambda>s. Some (f s))"

definition store_sync :: "'st pocket_store_handle \<Rightarrow> ('st, string, unit) action" where
  "store_sync h = act_prim (db_sync (sh_db h))"

definition sync_after_write :: "'st pocket_store_handle \<Rightarrow> ('st, string, unit) action" where
  "sync_after_write h =
     (case sh_sync_policy h of FlushOnWrite \<Rightarrow> store_sync h | FlushOnShutdown \<Rightarrow> act_return ())"

definition store_event :: "'st pocket_store_handle \<Rightarrow> pocket_event \<Rightarrow> ('st, string, u64) action" where
  "store_event h e =
     act_bind (act_prim (db_store_event (sh_db h) e)) (\<lambda>offset.
     act_bind (sync_after_write h) (\<lambda>_. act_return offset))"

definition table_write ::
  "'st pocket_store_handle \<Rightarrow> string \<Rightarrow> table_write \<Rightarrow> ('st, string, unit) action" where
  "table_write h table w =
     act_bind (act_lift (extra_table h table)) (\<lambda>_.
     act_bind (act_map_err (from_extra_table table) (act_prim (db_table_write (sh_db h) table w)))
       (\<lambda>_. sync_after_write h))"

definition put_extra_record ::
  "'st pocket_store_handle \<Rightarrow> string \<Rightarrow> string \<Rightarrow> string \<Rightarrow> ('st, string, unit) action" where
  "put_extra_record h table key value = table_write h table (TablePut key value)"

definition delete_extra_record ::
  "'st pocket_store_handle \<Rightarrow> string \<Rightarrow> string \<Rightarrow> ('st, string, unit) action" where
  "delete_extra_record h table key = table_write h table (TableDelete key)"

section \<open>Reads\<close>

definition event_by_id :: "'st pocket_store_handle \<Rightarrow> event_id \<Rightarrow> 'st \<Rightarrow> string + pocket_event option" where
  "event_by_id h eid st = db_event_by_id (sh_db h) st eid"

definition event_by_offset :: "'st pocket_store_handle \<Rightarrow> u64 \<Rightarrow> 'st \<Rightarrow> string + pocket_event" where
  "event_by_offset h offset st = db_event_by_offset (sh_db h) st offset"

definition get_extra_record ::
  "'st pocket_store_handle \<Rightarrow> string \<Rightarrow> string \<Rightarrow> 'st \<Rightarrow> string + string option" where
  "get_extra_record h table key st =
     and_then (extra_table h table)
       (\<lambda>_. map_err (from_extra_table table) (db_table_get (sh_db h) table key st))"

definition scan_extra_records ::
  "'st pocket_store_handle \<Rightarrow> string \<Rightarrow> 'st \<Rightarrow> string + (string \<times> string) list" where
  "scan_extra_records h table st =
     and_then (extra_table h table)
       (\<lambda>_. map_err (from_extra_table table) (db_table_scan (sh_db h) table st))"

section \<open>The event map\<close>

text \<open>
  Offsets are 64-bit and aligned to eight bytes; the first event follows the eight-byte header.
  \<open>align_event_offset\<close> adds without a check, so it wraps at the top of the range.
\<close>

definition event_map_start_offset :: u64 where
  "event_map_start_offset = 8"

definition align_event_offset :: "u64 \<Rightarrow> u64" where
  "align_event_offset offset =
     (if unat offset mod 8 = 0 then offset else offset + (8 - offset mod 8))"

definition next_event_offset :: "'st pocket_db \<Rightarrow> u64 \<Rightarrow> pocket_event \<Rightarrow> string + u64" where
  "next_event_offset db offset e =
     and_then (ok_or (checked_add offset (db_event_len db e)) ''Pocket event offset exceeds u64'')
       (\<lambda>n. Ok (align_event_offset n))"

type_synonym pocket_stored_event = "u64 \<times> pocket_event"

text \<open>The \<open>while\<close> loop of \<open>scan_events_after\<close>; \<open>None\<close> is a loop that never ends.\<close>

partial_function (option) scan_events_loop ::
  "'st pocket_db \<Rightarrow> 'st \<Rightarrow> u64 \<Rightarrow> u64 \<Rightarrow> pocket_stored_event list \<Rightarrow>
   (string + pocket_stored_event list) option" where
  "scan_events_loop db st end offset events =
     (if offset < end
      then (case db_event_by_offset db st offset of
          Inl error \<Rightarrow> Some (Inl error)
        | Inr event \<Rightarrow>
            (case next_event_offset db offset event of
               Inl error \<Rightarrow> Some (Inl error)
             | Inr next \<Rightarrow> scan_events_loop db st end next (events @ [(offset, event)])))
      else Some (Ok events))"

definition scan_start :: "'st pocket_db \<Rightarrow> 'st \<Rightarrow> u64 option \<Rightarrow> string + u64" where
  "scan_start db st last_offset =
     (case last_offset of
        Some offset \<Rightarrow> and_then (db_event_by_offset db st offset) (next_event_offset db offset)
      | None \<Rightarrow> Ok event_map_start_offset)"

definition scan_events_after ::
  "'st pocket_store_handle \<Rightarrow> u64 option \<Rightarrow> ('st, string, pocket_stored_event list) action" where
  "scan_events_after h last_offset = (\<lambda>st.
     let db = sh_db h in
     case and_then (db_event_bytes db st) (\<lambda>end. map_ok (Pair end) (scan_start db st last_offset)) of
       Inl error \<Rightarrow> Some (Inl error, st)
     | Inr (end, offset) \<Rightarrow> map_option (\<lambda>r. (r, st)) (scan_events_loop db st end offset []))"

definition scan_events :: "'st pocket_store_handle \<Rightarrow> ('st, string, pocket_stored_event list) action" where
  "scan_events h = scan_events_after h None"

section \<open>Queries\<close>

datatype pocket_screen_result = ScreenMatch | ScreenMismatch | ScreenRedacted

record pocket_query_config =
  qc_allow_scraping :: bool
  qc_allow_scrape_if_limited_to :: u32
  qc_allow_scrape_if_max_seconds :: u64

definition pocket_query_config_default :: pocket_query_config where
  "pocket_query_config_default = \<lparr>qc_allow_scraping = False, qc_allow_scrape_if_limited_to = 100,
     qc_allow_scrape_if_max_seconds = 3600\<rparr>"

definition exact_count :: "pocket_query_config \<Rightarrow> pocket_query_config" where
  "exact_count q = q\<lparr>qc_allow_scraping := True\<rparr>"

record pocket_screened_events =
  pse_events :: "pocket_event list"
  pse_redacted :: bool

text \<open>
  The query of the database, with the type \<open>'f\<close> of its filters, is a parameter of its own. It calls
  the screen on the candidates it visits; what a screen writes to captured cells is a state \<open>'c\<close>
  that the query threads through its calls.
\<close>

type_synonym 'c pocket_screen = "pocket_event \<Rightarrow> 'c \<Rightarrow> pocket_screen_result \<times> 'c"

type_synonym ('st, 'f, 'c) pocket_find =
  "'f \<Rightarrow> bool \<Rightarrow> u32 \<Rightarrow> u64 \<Rightarrow> 'c pocket_screen \<Rightarrow> 'c \<Rightarrow> 'st \<Rightarrow>
   (string + pocket_event list \<times> bool) \<times> 'c"

definition find_events_with_screen ::
  "('st, 'f, 'c) pocket_find \<Rightarrow> 'f \<Rightarrow> pocket_query_config \<Rightarrow> 'c pocket_screen \<Rightarrow> 'c \<Rightarrow> 'st \<Rightarrow>
   (string + pocket_screened_events) \<times> 'c" where
  "find_events_with_screen query f q screen c st =
     (let (found, c) = query f (qc_allow_scraping q) (qc_allow_scrape_if_limited_to q)
         (qc_allow_scrape_if_max_seconds q) screen c st
      in (map_ok (\<lambda>(events, redacted). \<lparr>pse_events = events, pse_redacted = redacted\<rparr>) found, c))"

definition find_events ::
  "('st, 'f, unit) pocket_find \<Rightarrow> 'f \<Rightarrow> pocket_query_config \<Rightarrow> 'st \<Rightarrow> string + pocket_event list" where
  "find_events query f q st =
     map_ok pse_events (fst (find_events_with_screen query f q (\<lambda>_ c. (ScreenMatch, c)) () st))"

definition count_events ::
  "('st, 'f, unit) pocket_find \<Rightarrow> 'f \<Rightarrow> pocket_query_config \<Rightarrow> 'st \<Rightarrow> string + u64" where
  "count_events query f q st = map_ok (\<lambda>events. of_nat (length events)) (find_events query f q st)"

text \<open>
  What the query does with its screen: it screens a list of candidates one after the other; the
  events it returns were screened as a match, and it reports a redaction exactly when a candidate
  was screened as redacted.
\<close>

fun screen_all :: "'c pocket_screen \<Rightarrow> 'c \<Rightarrow> pocket_event list \<Rightarrow> (pocket_event \<times> pocket_screen_result) list \<times> 'c" where
  "screen_all screen c [] = ([], c)"
| "screen_all screen c (e # es) =
     (let (r, c) = screen e c; (rs, c) = screen_all screen c es in ((e, r) # rs, c))"

definition find_lawful :: "('st, 'f, 'c) pocket_find \<Rightarrow> bool" where
  "find_lawful query \<longleftrightarrow> (\<forall>f scraping limited seconds screen c st events redacted d.
     query f scraping limited seconds screen c st = (Ok (events, redacted), d) \<longrightarrow>
     (\<exists>candidates visits. screen_all screen c candidates = (visits, d)
        \<and> set events \<subseteq> {e. (e, ScreenMatch) \<in> set visits}
        \<and> (redacted \<longleftrightarrow> (\<exists>e. (e, ScreenRedacted) \<in> set visits))))"

section \<open>Reading JSON and opening\<close>

text \<open>\<open>saturating_mul\<close> and \<open>max\<close> on a 64-bit \<open>usize\<close>.\<close>

definition pocket_json_buffer_len :: "nat \<Rightarrow> nat" where
  "pocket_json_buffer_len raw_len = max (min (raw_len * 2) (2 ^ 64 - 1)) 4096"

definition parse_pocket_event_json ::
  "(string \<Rightarrow> nat \<Rightarrow> string + pocket_event) \<Rightarrow> string \<Rightarrow> string + pocket_event" where
  "parse_pocket_event_json from_json raw =
     (if raw = [] then Err ''pocket event JSON must not be empty''
      else from_json raw (pocket_json_buffer_len (length raw)))"

definition parse_pocket_filter_json ::
  "(string \<Rightarrow> nat \<Rightarrow> string + 'f) \<Rightarrow> string \<Rightarrow> string + 'f" where
  "parse_pocket_filter_json from_json raw =
     (if raw = [] then Err ''pocket filter JSON must not be empty''
      else from_json raw (pocket_json_buffer_len (length raw)))"

record pocket_store_config =
  sc_data_directory :: string
  sc_sync_policy :: pocket_sync_policy

definition pocket_store_config_validate :: "pocket_store_config \<Rightarrow> string + unit" where
  "pocket_store_config_validate c =
     (if sc_data_directory c = [] then Err ''pocket.data_directory must not be empty'' else Ok ())"

definition pocket_store_config_new ::
  "string \<Rightarrow> pocket_sync_policy \<Rightarrow> string + pocket_store_config" where
  "pocket_store_config_new dir policy =
     (let config = \<lparr>sc_data_directory = dir, sc_sync_policy = policy\<rparr>
      in and_then (pocket_store_config_validate config) (\<lambda>_. Ok config))"

section \<open>The scan ends and is in order\<close>

text \<open>Below the last eight bytes of the range alignment rounds up to the next multiple of eight.\<close>

lemma round_up_8:
  assumes "n mod 8 \<noteq> (0::nat)"
  shows "n + (8 - n mod 8) = (n + 7) div 8 * 8"
proof -
  obtain r where r: "n mod 8 = Suc r" using assms by (cases "n mod 8") auto
  then have "r < 8" using mod_less_divisor [of 8 n] by linarith
  obtain q where n: "n = Suc r + q * 8" using r by (metis mod_div_mult_eq)
  then have "n + 7 = r + (q + 1) * 8" by simp
  then have "(n + 7) div 8 = q + 1" using \<open>r < 8\<close> by (simp only: div_mult_self3) simp
  then show ?thesis using n r \<open>r < 8\<close> by simp
qed

lemma unat_align_event_offset:
  assumes "unat offset \<le> 2 ^ 64 - 8"
  shows "unat (align_event_offset offset) = (unat offset + 7) div 8 * 8"
proof -
  let ?n = "unat offset"
  have md: "unat (offset mod 8) = ?n mod 8" by (simp add: unat_mod)
  have sub: "unat (8 - offset mod 8) = 8 - ?n mod 8"
    using md by (subst unat_sub) (simp_all add: word_le_nat_alt)
  show ?thesis
  proof (cases "?n mod 8 = 0")
    case True
    then show ?thesis by (auto simp: align_event_offset_def)
  next
    case False
    have fits: "?n + (8 - ?n mod 8) < 2 ^ 64"
    proof -
      have "?n \<noteq> 2 ^ 64 - 8" using False by auto
      with assms have "?n < 2 ^ 64 - 8" by simp
      then show ?thesis by simp
    qed
    have "unat (align_event_offset offset) = ?n + (8 - ?n mod 8)"
      using False fits sub by (simp add: align_event_offset_def unat_add_no_overflow)
    also have "\<dots> = (?n + 7) div 8 * 8" using False by (rule round_up_8)
    finally show ?thesis .
  qed
qed

lemma align_bounds:
  assumes "unat offset \<le> 2 ^ 64 - 8"
  shows "unat offset \<le> unat (align_event_offset offset)"
    and "unat (align_event_offset offset) < unat offset + 8"
    and "unat (align_event_offset offset) mod 8 = 0"
  unfolding unat_align_event_offset [OF assms] by presburger+

text \<open>What the layout of the event map promises: every event below the end is non-empty and fits.\<close>

definition event_map_ok :: "'st pocket_db \<Rightarrow> 'st \<Rightarrow> u64 \<Rightarrow> bool" where
  "event_map_ok db st end \<longleftrightarrow> unat end \<le> 2 ^ 64 - 8 \<and>
     (\<forall>offset e. offset < end \<longrightarrow> db_event_by_offset db st offset = Ok e \<longrightarrow>
        0 < unat (db_event_len db e) \<and> unat offset + unat (db_event_len db e) \<le> unat end)"

lemma next_event_offset_progress:
  assumes "event_map_ok db st end" and "offset < end" and "db_event_by_offset db st offset = Ok e"
  shows "\<exists>n. next_event_offset db offset e = Ok n \<and> offset < n"
proof -
  let ?l = "db_event_len db e"
  have l: "0 < unat ?l" "unat offset + unat ?l \<le> unat end" "unat end \<le> 2 ^ 64 - 8"
    using assms by (auto simp: event_map_ok_def)
  then have small: "unat offset + unat ?l < 2 ^ 64" by simp
  then have sum: "checked_add offset ?l = Some (offset + ?l)"
    "unat (offset + ?l) = unat offset + unat ?l"
    by (simp_all add: checked_add_def unat_add_no_overflow)
  have "unat (offset + ?l) \<le> unat (align_event_offset (offset + ?l))"
    using l sum by (intro align_bounds) simp
  with l sum show ?thesis by (simp add: next_event_offset_def word_less_nat_alt)
qed

text \<open>
  A laid out event map: from \<open>a\<close> on, each event is stored at the next multiple of eight after the one
  before, up to the end.
\<close>

definition next_multiple :: "nat \<Rightarrow> nat" where
  "next_multiple n = (n + 7) div 8 * 8"

fun event_layout :: "'st pocket_db \<Rightarrow> 'st \<Rightarrow> nat \<Rightarrow> nat \<Rightarrow> pocket_stored_event list \<Rightarrow> bool" where
  "event_layout db st end a [] \<longleftrightarrow> end \<le> a"
| "event_layout db st end a ((offset, e) # evs) \<longleftrightarrow> a < end \<and> unat offset = a
     \<and> db_event_by_offset db st offset = Ok e
     \<and> event_layout db st end (next_multiple (a + unat (db_event_len db e))) evs"

lemma next_event_offset_layout:
  assumes "event_map_ok db st end" and "offset < end" and "db_event_by_offset db st offset = Ok e"
  shows "\<exists>n. next_event_offset db offset e = Ok n \<and> offset < n
    \<and> unat n = next_multiple (unat offset + unat (db_event_len db e))"
proof -
  obtain n where n: "next_event_offset db offset e = Ok n" "offset < n"
    using next_event_offset_progress [OF assms] by blast
  let ?l = "db_event_len db e"
  have l: "unat offset + unat ?l \<le> unat end" "unat end \<le> 2 ^ 64 - 8"
    using assms by (auto simp: event_map_ok_def)
  then have "unat offset + unat ?l < 2 ^ 64" by simp
  then have sum: "checked_add offset ?l = Some (offset + ?l)" "unat (offset + ?l) = unat offset + unat ?l"
    by (simp_all add: checked_add_def unat_add_no_overflow)
  have "unat (align_event_offset (offset + ?l)) = next_multiple (unat offset + unat ?l)"
    using l sum by (subst unat_align_event_offset) (simp_all add: next_multiple_def)
  with n sum show ?thesis by (auto simp: next_event_offset_def)
qed

lemma unat_eq_iff_eq: "unat a = unat b \<longleftrightarrow> a = (b :: u64)"
  by (auto intro: unsigned_word_eqI)

lemma scan_events_loop_returns:
  assumes "event_map_ok db st end"
  shows "\<exists>r. scan_events_loop db st end offset acc = Some r \<and>
     (\<forall>evs. r = Ok evs \<longleftrightarrow> (\<exists>new. evs = acc @ new \<and> event_layout db st (unat end) (unat offset) new))"
proof (induction "unat end - unat offset" arbitrary: offset acc rule: less_induct)
  case less
  show ?case
  proof (cases "offset < end")
    case False
    then have "event_layout db st (unat end) (unat offset) new \<longleftrightarrow> new = []" for new
      by (cases new) (auto simp: word_less_nat_alt)
    with False show ?thesis by (subst scan_events_loop.simps) auto
  next
    case True
    have here: "event_layout db st (unat end) (unat offset) new \<longleftrightarrow>
        (\<exists>e rest. new = (offset, e) # rest \<and> db_event_by_offset db st offset = Ok e
          \<and> event_layout db st (unat end) (next_multiple (unat offset + unat (db_event_len db e))) rest)" for new
      using True by (cases new) (auto simp: word_less_nat_alt unat_eq_iff_eq)
    show ?thesis
    proof (cases "db_event_by_offset db st offset")
      case (Inl err)
      with True here show ?thesis by (subst scan_events_loop.simps) simp
    next
      case (Inr e)
      obtain n where n: "next_event_offset db offset e = Ok n" "offset < n"
        "unat n = next_multiple (unat offset + unat (db_event_len db e))"
        using next_event_offset_layout [OF assms True Inr] by blast
      have smaller: "unat end - unat n < unat end - unat offset"
        using n(2) True by (simp add: word_less_nat_alt)
      have "scan_events_loop db st end offset acc = scan_events_loop db st end n (acc @ [(offset, e)])"
        using True Inr n(1) by (subst scan_events_loop.simps) simp
      with less.hyps [OF smaller, of "acc @ [(offset, e)]"] here Inr n(3) show ?thesis by auto
    qed
  qed
qed

lemma align_multiple: "unat (align_event_offset offset) mod 8 = 0"
proof (cases "unat offset \<le> 2 ^ 64 - 8")
  case True
  then show ?thesis by (rule align_bounds)
next
  case False
  let ?k = "8 - unat offset mod 8"
  have md: "unat (offset mod 8) = unat offset mod 8" by (simp add: unat_mod)
  have sub: "unat (8 - offset mod 8) = ?k"
    using md by (subst unat_sub) (simp_all add: word_le_nat_alt)
  have "(unat offset + ?k) mod 8 = 0" by presburger
  then have "unat (offset + (8 - offset mod 8)) mod 8 = 0"
    by (simp add: unat_word_ariths(1) sub mod_mod_cancel)
  then show ?thesis by (simp add: align_event_offset_def)
qed

lemma next_event_offset_multiple: "next_event_offset db offset e = Ok n \<Longrightarrow> unat n mod 8 = 0"
  by (auto simp: next_event_offset_def and_then_Ok_iff align_multiple)

lemma scan_start_multiple: "scan_start db st last_offset = Ok offset \<Longrightarrow> unat offset mod 8 = 0"
  by (auto simp: scan_start_def event_map_start_offset_def and_then_Ok_iff next_event_offset_multiple
      split: option.splits)

lemma next_multiple_less: "0 < l \<Longrightarrow> a < next_multiple (a + l)"
  unfolding next_multiple_def by presburger

lemma next_multiple_mod: "next_multiple n mod 8 = 0"
  by (simp add: next_multiple_def)

lemma event_layout_facts:
  assumes nonempty: "\<And>offset e. unat offset < end \<Longrightarrow> db_event_by_offset db st offset = Ok e \<Longrightarrow>
     0 < unat (db_event_len db e)"
  shows "event_layout db st end a evs \<Longrightarrow> a mod 8 = 0 \<Longrightarrow>
   sorted_wrt (<) (map fst evs) \<and> (\<forall>(offset, e)\<in>set evs. db_event_by_offset db st offset = Ok e
     \<and> a \<le> unat offset \<and> unat offset < end \<and> unat offset mod 8 = 0)"
proof (induction evs arbitrary: a)
  case (Cons x evs)
  obtain offset e where x: "x = (offset, e)" by (cases x)
  let ?n = "next_multiple (a + unat (db_event_len db e))"
  have here: "a < end" "unat offset = a" "db_event_by_offset db st offset = Ok e" "event_layout db st end ?n evs"
    using Cons.prems(1) x by auto
  have "0 < unat (db_event_len db e)" using nonempty here by metis
  then have "a < ?n" by (rule next_multiple_less)
  have evs: "sorted_wrt (<) (map fst evs)" "\<And>b f. (b, f) \<in> set evs \<Longrightarrow>
      db_event_by_offset db st b = Ok f \<and> ?n \<le> unat b \<and> unat b < end \<and> unat b mod 8 = 0"
    using Cons.IH [OF here(4) next_multiple_mod] by auto
  have "\<forall>b\<in>set (map fst evs). offset < b"
  proof
    fix b assume "b \<in> set (map fst evs)"
    then obtain f where "(b, f) \<in> set evs" by auto
    from evs(2) [OF this] \<open>a < ?n\<close> here(2) show "offset < b" by (simp add: word_less_nat_alt)
  qed
  moreover have "a \<le> unat b" if "(b, f) \<in> set evs" for b f using evs(2) [OF that] \<open>a < ?n\<close> by linarith
  moreover have "\<forall>(b, f)\<in>set evs. db_event_by_offset db st b = Ok f \<and> a \<le> unat b \<and> unat b < end \<and> unat b mod 8 = 0"
    using evs(2) calculation(2) by (intro ballI case_prodI2) blast
  moreover have "offset = offset \<and> unat offset mod 8 = 0" using here(2) Cons.prems(2) by blast
  ultimately show ?case unfolding x using evs(1) here by (simp del: event_layout.simps)
qed simp

text \<open>Where the scan starts: at the first event, or at the next multiple of eight after the given one.\<close>

definition layout_start :: "'st pocket_db \<Rightarrow> 'st \<Rightarrow> u64 option \<Rightarrow> nat option" where
  "layout_start db st last_offset = (case last_offset of
       None \<Rightarrow> Some 8
     | Some offset \<Rightarrow> (case db_event_by_offset db st offset of
           Inl _ \<Rightarrow> None
         | Inr e \<Rightarrow> Some (next_multiple (unat offset + unat (db_event_len db e)))))"

lemma layout_start_scan_start:
  assumes "event_map_ok db st end" and "pred_option (\<lambda>offset. offset < end) last_offset"
  shows "layout_start db st last_offset = Some a \<longleftrightarrow> (\<exists>offset. scan_start db st last_offset = Ok offset \<and> unat offset = a)"
proof (cases last_offset)
  case None
  then show ?thesis by (auto simp: layout_start_def scan_start_def event_map_start_offset_def)
next
  case (Some l)
  show ?thesis
  proof (cases "db_event_by_offset db st l")
    case (Inr e)
    moreover have "l < end" using Some assms(2) by simp
    ultimately show ?thesis
      using next_event_offset_layout [OF assms(1) _ Inr] Some by (auto simp: layout_start_def scan_start_def)
  qed (simp add: Some layout_start_def scan_start_def)
qed

lemma scan_events_after_returns:
  assumes "db_event_bytes (sh_db h) st = Ok end" and "event_map_ok (sh_db h) st end"
  shows "\<exists>r. scan_events_after h last_offset st = Some (r, st) \<and>
     (\<forall>evs. r = Ok evs \<longleftrightarrow> (\<exists>offset. scan_start (sh_db h) st last_offset = Ok offset
        \<and> event_layout (sh_db h) st (unat end) (unat offset) evs))"
proof (cases "scan_start (sh_db h) st last_offset")
  case (Inl err)
  then show ?thesis using assms(1) by (simp add: scan_events_after_def Let_def)
next
  case (Inr offset)
  obtain r where "scan_events_loop (sh_db h) st end offset [] = Some r"
    "\<forall>evs. r = Ok evs \<longleftrightarrow> event_layout (sh_db h) st (unat end) (unat offset) evs"
    using scan_events_loop_returns [OF assms(2), of offset "[]"] by auto
  with Inr assms(1) show ?thesis by (simp add: scan_events_after_def Let_def)
qed

text \<open>
  Claim C39. On an event map with the promised layout the scan always returns, from every start, and leaves the
  store as it is. What it returns are events stored at their offsets, which are multiples of eight
  below the end in strictly ascending order. From the first event, or from after an event of the map,
  it returns exactly the whole rest of the map: event after event, each at the next multiple of eight
  after the one before, until the end is reached.
\<close>

theorem scan_events_after_ends:
  assumes "db_event_bytes (sh_db h) st = Ok end" and "event_map_ok (sh_db h) st end"
  shows "\<exists>r. scan_events_after h last_offset st = Some (r, st) \<and>
     (\<forall>evs. r = Ok evs \<longrightarrow> sorted_wrt (<) (map fst evs)
        \<and> (\<forall>(offset, e)\<in>set evs. db_event_by_offset (sh_db h) st offset = Ok e \<and> offset < end
             \<and> unat offset mod 8 = 0))
     \<and> (pred_option (\<lambda>offset. offset < end) last_offset \<longrightarrow>
        (\<forall>evs. r = Ok evs \<longleftrightarrow> (\<exists>a. layout_start (sh_db h) st last_offset = Some a
           \<and> event_layout (sh_db h) st (unat end) a evs)))"
proof -
  obtain r where r: "scan_events_after h last_offset st = Some (r, st)"
    "\<And>evs. r = Ok evs \<longleftrightarrow> (\<exists>offset. scan_start (sh_db h) st last_offset = Ok offset
        \<and> event_layout (sh_db h) st (unat end) (unat offset) evs)"
    using scan_events_after_returns [OF assms] by blast
  have nonempty: "0 < unat (db_event_len (sh_db h) e)"
    if "unat offset < unat end" "db_event_by_offset (sh_db h) st offset = Ok e" for offset e
    using assms(2) that by (simp add: event_map_ok_def word_less_nat_alt)
  have "sorted_wrt (<) (map fst evs) \<and> (\<forall>(offset, e)\<in>set evs. db_event_by_offset (sh_db h) st offset = Ok e \<and> offset < end
             \<and> unat offset mod 8 = 0)" if evs: "r = Ok evs" for evs
  proof -
    obtain start where start: "scan_start (sh_db h) st last_offset = Ok start"
      "event_layout (sh_db h) st (unat end) (unat start) evs" using r(2) evs by blast
    have "sorted_wrt (<) (map fst evs) \<and> (\<forall>(offset, e)\<in>set evs. db_event_by_offset (sh_db h) st offset = Ok e
        \<and> unat start \<le> unat offset \<and> unat offset < unat end \<and> unat offset mod 8 = 0)"
      by (rule event_layout_facts [OF _ start(2) scan_start_multiple [OF start(1)]]) (rule nonempty)
    then show ?thesis by (auto simp: word_less_nat_alt)
  qed
  moreover have "\<forall>evs. r = Ok evs \<longleftrightarrow> (\<exists>a. layout_start (sh_db h) st last_offset = Some a
           \<and> event_layout (sh_db h) st (unat end) a evs)" if "pred_option (\<lambda>offset. offset < end) last_offset"
    unfolding layout_start_scan_start [OF assms(2) that] r(2) by blast
  ultimately show ?thesis using r(1) by (intro exI [of _ r] conjI allI impI) blast+
qed

section \<open>A concrete database\<close>

text \<open>
  A small database for the witnesses: the tables are maps, the event map holds one event at the
  first offset, and it takes no further events.
\<close>

type_synonym table_state = "string \<Rightarrow> (string, string) btree"

definition table_apply :: "table_write \<Rightarrow> (string, string) btree \<Rightarrow> (string, string) btree" where
  "table_apply w m = (case w of TablePut k v \<Rightarrow> bt_insert k v m | TableDelete k \<Rightarrow> bt_remove k m)"

definition sample_db :: "table_state pocket_db" where
  "sample_db = \<lparr>
     db_store_event = (\<lambda>e st. (Err ''the event map is full'', st)),
     db_sync = (\<lambda>st. (Ok (), st)),
     db_event_by_id = (\<lambda>st i. Ok None),
     db_event_by_offset = (\<lambda>st off. if off = 8 then Ok (sample_pocket_event 1 []) else Err ''no event''),
     db_event_len = (\<lambda>e. 8),
     db_event_bytes = (\<lambda>st. Ok 16),
     db_has_table = (\<lambda>t. True),
     db_table_write = (\<lambda>t w st. (Ok (), st(t := table_apply w (st t)))),
     db_table_get = (\<lambda>t k st. Ok (bt_get (st t) k)),
     db_table_scan = (\<lambda>t st. Ok (st t))\<rparr>"

definition sample_store :: "table_state pocket_store_handle" where
  "sample_store = \<lparr>sh_db = sample_db, sh_sync_policy = FlushOnWrite\<rparr>"

lemma sample_db_simps [simp]:
  "db_store_event sample_db e st = (Err ''the event map is full'', st)"
  "db_sync sample_db st = (Ok (), st)"
  "db_event_by_id sample_db st i = Ok None"
  "db_event_by_offset sample_db st off = (if off = 8 then Ok (sample_pocket_event 1 []) else Err ''no event'')"
  "db_event_len sample_db e = 8"
  "db_event_bytes sample_db st = Ok 16"
  "db_has_table sample_db t"
  "db_table_write sample_db t w st = (Ok (), st(t := table_apply w (st t)))"
  "db_table_get sample_db t k st = Ok (bt_get (st t) k)"
  "db_table_scan sample_db t st = Ok (st t)"
  "sh_db sample_store = sample_db"
  "sh_sync_policy sample_store = FlushOnWrite"
  by (simp_all add: sample_db_def sample_store_def)

lemma sample_event_map_ok: "event_map_ok sample_db st 16"
  by (auto simp: event_map_ok_def)

text \<open>The scan of the sample store returns its one event.\<close>

theorem scan_events_after_ends_witness:
  "scan_events_after sample_store None (\<lambda>t. []) = Some (Ok [(8, sample_pocket_event 1 [])], \<lambda>t. [])"
proof -
  obtain r where "scan_events_after sample_store None (\<lambda>t. []) = Some (r, \<lambda>t. [])"
    "\<forall>evs. r = Ok evs \<longleftrightarrow> (\<exists>a. layout_start sample_db (\<lambda>t. []) None = Some a \<and> event_layout sample_db (\<lambda>t. []) 16 a evs)"
    using scan_events_after_ends [of sample_store "\<lambda>t. []" 16 None] sample_event_map_ok by auto
  moreover have "event_layout sample_db (\<lambda>t. []) 16 8 [(8, sample_pocket_event 1 [])]"
    by (simp add: next_multiple_def)
  ultimately show ?thesis by (auto simp: layout_start_def)
qed

lemma sample_scan_returns: "scan_events sample_store st \<noteq> None"
  using scan_events_after_returns [of sample_store st 16 None] sample_event_map_ok
  by (auto simp: scan_events_def)

end
