(* ===== verification/Runtime_Errors.thy ===== *)
theory Runtime_Errors
  imports Group_Base Protocol_Messages
begin

text \<open>
  The error type of the runtime (\<open>crates/tangle_runtime/src/errors.rs\<close>): a prefix the client can act
  on and a message, and the \<open>OK\<close> replies to an event.
\<close>

record base_relay_error =
  be_prefix :: string
  be_message :: string

definition base_invalid :: "string \<Rightarrow> base_relay_error" where
  "base_invalid message = \<lparr>be_prefix = ''invalid'', be_message = message\<rparr>"

definition base_auth_required :: "string \<Rightarrow> base_relay_error" where
  "base_auth_required message = \<lparr>be_prefix = ''auth-required'', be_message = message\<rparr>"

definition base_rate_limited :: "string \<Rightarrow> base_relay_error" where
  "base_rate_limited message = \<lparr>be_prefix = ''rate-limited'', be_message = message\<rparr>"

definition base_restricted :: "string \<Rightarrow> base_relay_error" where
  "base_restricted message = \<lparr>be_prefix = ''restricted'', be_message = message\<rparr>"

definition base_error :: "string \<Rightarrow> base_relay_error" where
  "base_error message = \<lparr>be_prefix = ''error'', be_message = message\<rparr>"

definition base_prefixed_message :: "base_relay_error \<Rightarrow> string" where
  "base_prefixed_message e = be_prefix e @ '': '' @ be_message e"

definition base_from_group_error :: "group_error \<Rightarrow> base_relay_error" where
  "base_from_group_error e = base_error (prefixed_message e)"

definition ok_accepted :: "event_id \<Rightarrow> string \<Rightarrow> relay_message" where
  "ok_accepted i message = RelayOk i True message"

definition ok_rejected :: "event_id \<Rightarrow> string \<Rightarrow> relay_message" where
  "ok_rejected i message = RelayOk i False message"

end
