(* ===== verification/Runtime_Groups.thy ===== *)
theory Runtime_Groups
  imports Group_Signing Store_Pocket Runtime_Errors
begin

text \<open>
  The group service of the relay (\<open>crates/tangle_runtime/src/groups.rs\<close>):
  checking and storing a group event, planning and materialising what it owes the
  group, persisting and loading the projection and the outbox, and starting up from a store.
  The state of a call is the service state together with the state of the store; \<open>runtime_env\<close>
  holds what the service is configured with and cannot change: the store handle, the JSON codecs,
  the clock and the signer's constructor. The lock around the service is not modelled: every
  operation runs under it from start to end.
\<close>

section \<open>State and environment\<close>

record 't group_service_state =
  sv_builder :: "'t generated_event_builder"
  sv_authority :: group_authority
  sv_projection :: group_projection
  sv_outbox :: group_outbox
  sv_policy :: group_policy_config
  sv_limits :: group_limits_config
  sv_member_snapshot_cap :: u32
  sv_outbox_replay_batch_cap :: u32

record ('t, 'st) group_world =
  gw_service :: "'t group_service_state"
  gw_store :: 'st

record ('t, 'st) runtime_env =
  re_store :: "'st pocket_store_handle"
  re_codecs :: projection_codecs
  re_outbox_codec :: "outbox_record_document codec"
  re_unix_now :: "string + u64"
  re_utf8_error :: "string \<Rightarrow> string"
  re_read_id_hex :: "string \<Rightarrow> string + event_id"
  re_builder_from_secret :: "string \<Rightarrow> string + 't generated_event_builder"

type_synonym ('st, 'a) store_action = "('st, base_relay_error, 'a) action"
type_synonym ('t, 'st, 'a) group_action = "(('t, 'st) group_world, base_relay_error, 'a) action"

text \<open>A store call made by the service: its error becomes a \<open>BaseRelayError\<close>.\<close>

definition base_store :: "('st, string, 'a) action \<Rightarrow> ('st, 'a) store_action" where
  "base_store m = act_map_err base_error m"

definition in_store :: "('st, 'a) store_action \<Rightarrow> ('t, 'st, 'a) group_action" where
  "in_store m = act_on gw_store (\<lambda>st w. w\<lparr>gw_store := st\<rparr>) m"

definition from_group :: "group_error + 'a \<Rightarrow> base_relay_error + 'a" where
  "from_group r = map_err base_from_group_error r"

definition set_projection :: "group_projection \<Rightarrow> ('t, 'st) group_world \<Rightarrow> ('t, 'st) group_world" where
  "set_projection p w = w\<lparr>gw_service := (gw_service w)\<lparr>sv_projection := p\<rparr>\<rparr>"

definition set_outbox :: "group_outbox \<Rightarrow> ('t, 'st) group_world \<Rightarrow> ('t, 'st) group_world" where
  "set_outbox ob w = w\<lparr>gw_service := (gw_service w)\<lparr>sv_outbox := ob\<rparr>\<rparr>"

abbreviation world_projection :: "('t, 'st) group_world \<Rightarrow> group_projection" where
  "world_projection w \<equiv> sv_projection (gw_service w)"

abbreviation world_outbox :: "('t, 'st) group_world \<Rightarrow> group_outbox" where
  "world_outbox w \<equiv> sv_outbox (gw_service w)"

abbreviation world_limits :: "('t, 'st) group_world \<Rightarrow> group_limits_config" where
  "world_limits w \<equiv> sv_limits (gw_service w)"

section \<open>Targets\<close>

definition delete_target_visit ::
  "event_id option \<Rightarrow> event_tag \<Rightarrow> group_error + event_id option" where
  "delete_target_visit target tag =
     (if first_value tag \<noteq> Some ''e'' then Ok target
      else case view_indexed_pair tag of
        None \<Rightarrow> Err (error_invalid MalformedTargetTag ''malformed e target tag'')
      | Some (_, value) \<Rightarrow> map_ok Some (map_err (target_error ''e'') (event_id_new value)))"

definition delete_target_event_id :: "pocket_event \<Rightarrow> group_error + event_id" where
  "delete_target_event_id e =
     and_then (visit_tags e delete_target_visit None)
       (\<lambda>target. ok_or target (error_invalid MissingTargetTag ''missing e target tag''))"

definition membership_target_visit ::
  "public_key_hex option \<Rightarrow> event_tag \<Rightarrow> group_error + public_key_hex option" where
  "membership_target_visit target tag =
     (if first_value tag \<noteq> Some ''p'' then Ok target
      else case view_indexed_pair tag of
        None \<Rightarrow> Err (error_invalid MalformedTargetTag ''malformed p target tag'')
      | Some (_, value) \<Rightarrow> map_ok Some (map_err (target_error ''p'') (public_key_new value)))"

definition membership_target_pubkey :: "pocket_event \<Rightarrow> group_error + public_key_hex" where
  "membership_target_pubkey e =
     and_then (visit_tags e membership_target_visit None)
       (\<lambda>target. ok_or target (error_invalid MissingTargetTag ''missing p target tag''))"

section \<open>Planning outbox records\<close>

definition member_is_relay_override_admin ::
  "group_projection \<Rightarrow> group_id \<Rightarrow> public_key_hex \<Rightarrow> bool" where
  "member_is_relay_override_admin p g pubkey =
     (case gp_member p g pubkey of
        Some m \<Rightarrow> ms_status m = Member \<and> PERMANENT_RELAY_OVERRIDE_ROLE \<in> ms_roles m
      | None \<Rightarrow> False)"

definition membership_admin_snapshot_state ::
  "group_projection \<Rightarrow> pocket_event \<Rightarrow> group_event_class \<Rightarrow> group_error + bool option" where
  "membership_admin_snapshot_state p e cls =
     (case cls of
        Moderation k g \<Rightarrow>
          if k = KIND_GROUP_PUT_USER \<or> k = KIND_GROUP_REMOVE_USER
          then and_then (membership_target_pubkey e)
            (\<lambda>target. Ok (Some (member_is_relay_override_admin p g target)))
          else Ok None
      | _ \<Rightarrow> Ok None)"

definition pending_record ::
  "pocket_event \<Rightarrow> group_outbox_effect \<Rightarrow> group_id \<Rightarrow> public_key_hex option \<Rightarrow> group_outbox_payload \<Rightarrow>
   group_error + group_outbox_record" where
  "pending_record e effect g target payload =
     and_then (view_id e) (\<lambda>eid. Ok (outbox_record_pending (OutboxKey eid effect g target) payload))"

definition require_projected_group :: "group_projection \<Rightarrow> group_id \<Rightarrow> group_error + group_state" where
  "require_projected_group p g =
     ok_or (gp_group p g) (error_internal ''group projection is missing after accepted write'')"

definition member_snapshot_record ::
  "pocket_event \<Rightarrow> group_id \<Rightarrow> group_projection \<Rightarrow> unix_timestamp \<Rightarrow> u32 \<Rightarrow>
   group_error + group_outbox_record list" where
  "member_snapshot_record e g p created_at cap =
     and_then (view_id e) (\<lambda>eid.
       let key = OutboxKey eid MemberListSnapshot g None in
       and_then (member_list_snapshot_payload g p created_at cap) (\<lambda>payload.
         Ok [case payload of
               Some payload \<Rightarrow> outbox_record_pending key payload
             | None \<Rightarrow> mark_skipped ''member snapshot exceeds configured cap''
                 (outbox_record_pending key
                   (payload_new KIND_GROUP_MEMBERS created_at [[''d'', g]] []))]))"

definition member_snapshot_records ::
  "pocket_event \<Rightarrow> group_id \<Rightarrow> group_projection \<Rightarrow> group_authority \<Rightarrow> unix_timestamp \<Rightarrow> u32 \<Rightarrow>
   bool option \<Rightarrow> group_error + group_outbox_record list" where
  "member_snapshot_records e g p a created_at cap before_admin =
     and_then (member_snapshot_record e g p created_at cap) (\<lambda>records.
       case before_admin of
         None \<Rightarrow> Ok records
       | Some before \<Rightarrow>
           and_then (membership_target_pubkey e) (\<lambda>target.
             if before \<noteq> member_is_relay_override_admin p g target
             then and_then (admin_list_snapshot_payload g p a created_at) (\<lambda>payload.
               and_then (pending_record e AdminListSnapshot g None payload)
                 (\<lambda>r. Ok (records @ [r])))
             else Ok records))"

definition plan_group_outbox_records ::
  "'t pocket_api \<Rightarrow> pocket_event \<Rightarrow> group_event_class \<Rightarrow> group_projection \<Rightarrow> group_authority \<Rightarrow> u32 \<Rightarrow>
   bool option \<Rightarrow> group_error + group_outbox_record list" where
  "plan_group_outbox_records api e cls p a cap before_admin =
     (let created_at = view_created_at e in
      case cls of
        Moderation k g \<Rightarrow>
          if k = KIND_GROUP_CREATE_GROUP then
            and_then (require_projected_group p g) (\<lambda>grp.
            and_then (metadata_snapshot_payload api grp created_at) (\<lambda>metadata.
            and_then (pending_record e MetadataSnapshot g None metadata) (\<lambda>r1.
            and_then (admin_list_snapshot_payload g p a created_at) (\<lambda>admins.
            and_then (pending_record e AdminListSnapshot g None admins) (\<lambda>r2. Ok [r1, r2])))))
          else if k = KIND_GROUP_EDIT_METADATA then
            and_then (require_projected_group p g) (\<lambda>grp.
            and_then (metadata_snapshot_payload api grp created_at) (\<lambda>metadata.
            and_then (pending_record e MetadataSnapshot g None metadata) (\<lambda>r. Ok [r])))
          else if k = KIND_GROUP_PUT_USER \<or> k = KIND_GROUP_REMOVE_USER then
            member_snapshot_records e g p a created_at cap before_admin
          else Ok []
      | NormalEvent g \<Rightarrow>
          if kind_u32 e = KIND_GROUP_JOIN_REQUEST then
            and_then (view_pubkey e) (\<lambda>pubkey.
            and_then (pending_record e JoinAccepted g (Some pubkey)
              (join_accepted_payload g pubkey created_at)) (\<lambda>r. Ok [r]))
          else if kind_u32 e = KIND_GROUP_LEAVE_REQUEST then
            and_then (view_pubkey e) (\<lambda>pubkey.
            and_then (pending_record e LeaveAccepted g (Some pubkey)
              (leave_accepted_payload g pubkey created_at)) (\<lambda>r. Ok [r]))
          else Ok []
      | NonGroup \<Rightarrow> Ok []
      | RelayGeneratedSnapshot _ _ \<Rightarrow> Ok [])"

section \<open>Checking and reading\<close>

definition check_delete_event_target ::
  "('t, 'st) runtime_env \<Rightarrow> ('t, 'st) group_world \<Rightarrow> pocket_event \<Rightarrow> group_id \<Rightarrow> group_error + unit" where
  "check_delete_event_target env w e g =
     and_then (delete_target_event_id e) (\<lambda>target_id.
     and_then (map_err (\<lambda>error. error_internal (base_prefixed_message (base_error error)))
         (re_read_id_hex env target_id)) (\<lambda>pocket_id.
     and_then (map_err error_internal (event_by_id (re_store env) pocket_id (gw_store w))) (\<lambda>found.
       case found of
         None \<Rightarrow> Err (error_invalid MalformedTargetTag ''delete target event is unavailable'')
       | Some target \<Rightarrow>
           and_then (classify_group_event target (world_limits w)) (\<lambda>cls.
             if class_group_id cls \<noteq> Some g
             then Err (error_invalid MalformedTargetTag ''delete target event is not in group'')
             else Ok ()))))"

definition check_runtime_write_constraints ::
  "('t, 'st) runtime_env \<Rightarrow> ('t, 'st) group_world \<Rightarrow> pocket_event \<Rightarrow> group_event_class \<Rightarrow>
   group_error + unit" where
  "check_runtime_write_constraints env w e cls =
     (case cls of
        Moderation k g \<Rightarrow>
          if k = KIND_GROUP_DELETE_EVENT then check_delete_event_target env w e g else Ok ()
      | _ \<Rightarrow> Ok ())"

definition service_check_event ::
  "('t, 'st) runtime_env \<Rightarrow> ('t, 'st) group_world \<Rightarrow> pocket_event \<Rightarrow> group_event_class \<Rightarrow>
   group_auth_context \<Rightarrow> group_error + unit" where
  "service_check_event env w e cls auth =
     (let s = gw_service w in
      and_then (check_event (sv_projection s) (sv_authority s) (sv_policy s) e cls auth) (\<lambda>_.
        check_runtime_write_constraints env w e cls))"

text \<open>The loop over the authenticated keys stops at the first that may see the event.\<close>

fun visible_to_any ::
  "(public_key_hex \<Rightarrow> group_error + group_read_decision) \<Rightarrow> public_key_hex list \<Rightarrow> group_error + bool" where
  "visible_to_any screen [] = Ok False"
| "visible_to_any screen (pubkey # rest) =
     and_then (screen pubkey) (\<lambda>decision.
       if decision = Visible then Ok True else visible_to_any screen rest)"

definition event_visible_to_auth ::
  "'t group_service_state \<Rightarrow> pocket_event \<Rightarrow> group_auth_context \<Rightarrow> group_error + bool" where
  "event_visible_to_auth s e auth =
     (if auth = {}
      then map_ok (\<lambda>decision. decision = Visible)
        (screen_event (sv_projection s) (sv_authority s) e None (sv_limits s))
      else visible_to_any (\<lambda>pubkey. screen_event (sv_projection s) (sv_authority s) e (Some pubkey)
          (sv_limits s)) (bs_iter auth))"

definition outbox_pending_events :: "'t group_service_state \<Rightarrow> nat" where
  "outbox_pending_events s = length (replay_plan (sv_outbox s))"

section \<open>Persisting\<close>

definition put_encoded ::
  "('t, 'st) runtime_env \<Rightarrow> string \<Rightarrow> string \<Rightarrow> group_error + string \<Rightarrow> ('st, unit) store_action" where
  "put_encoded env table key encoded =
     act_bind (act_lift (from_group encoded))
       (\<lambda>value. base_store (put_extra_record (re_store env) table key value))"

definition persist_outbox_record ::
  "('t, 'st) runtime_env \<Rightarrow> group_outbox_record \<Rightarrow> ('st, unit) store_action" where
  "persist_outbox_record env r =
     put_encoded env TANGLE_GROUP_OUTBOX_TABLE (outbox_storage_key (or_key r))
       (outbox_record_to_json_bytes (re_outbox_codec env) r)"

text \<open>One entry of each map of the projection, under its storage key.\<close>

definition put_group_entry ::
  "('t, 'st) runtime_env \<Rightarrow> group_id \<times> group_state \<Rightarrow> ('st, unit) store_action" where
  "put_group_entry env = (\<lambda>(g, grp). put_encoded env TANGLE_GROUP_PROJECTION_TABLE
     (group_current_key g) (group_state_to_json_bytes (re_codecs env) grp))"

definition put_member_entry ::
  "('t, 'st) runtime_env \<Rightarrow> (group_id \<times> public_key_hex) \<times> member_state \<Rightarrow> ('st, unit) store_action" where
  "put_member_entry env = (\<lambda>((g, pubkey), m). put_encoded env TANGLE_GROUP_PROJECTION_TABLE
     (member_current_key g pubkey) (member_state_to_json_bytes (re_codecs env) m))"

definition put_role_entry ::
  "('t, 'st) runtime_env \<Rightarrow> (group_id \<times> role_name) \<times> projected_role \<Rightarrow> ('st, unit) store_action" where
  "put_role_entry env = (\<lambda>((g, name), r). put_encoded env TANGLE_GROUP_PROJECTION_TABLE
     (role_current_key g name) (projected_role_to_json_bytes (re_codecs env) r))"

definition put_tombstone_entry ::
  "('t, 'st) runtime_env \<Rightarrow> group_id \<times> group_tombstone \<Rightarrow> ('st, unit) store_action" where
  "put_tombstone_entry env = (\<lambda>(g, t). put_encoded env TANGLE_GROUP_PROJECTION_TABLE
     (tombstone_key g) (group_tombstone_to_json_bytes (re_codecs env) t))"

definition put_deletion_entry ::
  "('t, 'st) runtime_env \<Rightarrow> event_id \<times> group_event_deletion \<Rightarrow> ('st, unit) store_action" where
  "put_deletion_entry env = (\<lambda>(target, d). put_encoded env TANGLE_GROUP_PROJECTION_TABLE
     (event_deletion_key target) (group_event_deletion_to_json_bytes (re_codecs env) d))"

definition persist_group_projection ::
  "('t, 'st) runtime_env \<Rightarrow> group_projection \<Rightarrow> group_id \<Rightarrow> ('st, unit) store_action" where
  "persist_group_projection env p g =
     act_bind (case gp_group p g of Some grp \<Rightarrow> put_group_entry env (g, grp) | None \<Rightarrow> act_return ()) (\<lambda>_.
     act_bind (act_each (put_member_entry env)
       (filter (\<lambda>((candidate, _), _). candidate = g) (gp_members p))) (\<lambda>_.
     act_bind (act_each (put_role_entry env)
       (filter (\<lambda>((candidate, _), _). candidate = g) (gp_roles p))) (\<lambda>_.
     act_bind (case gp_tombstone p g of Some t \<Rightarrow> put_tombstone_entry env (g, t) | None \<Rightarrow> act_return ()) (\<lambda>_.
     act_each (put_deletion_entry env)
       (filter (\<lambda>(_, d). ed_group_id d = g) (gp_event_deletions p))))))"

definition clear_extra_table :: "('t, 'st) runtime_env \<Rightarrow> string \<Rightarrow> ('st, unit) store_action" where
  "clear_extra_table env table =
     act_bind (base_store (act_read (scan_extra_records (re_store env) table)))
       (act_each (\<lambda>(key, _). base_store (delete_extra_record (re_store env) table key)))"

definition persist_group_projection_snapshot ::
  "('t, 'st) runtime_env \<Rightarrow> group_projection \<Rightarrow> ('st, unit) store_action" where
  "persist_group_projection_snapshot env p =
     act_bind (clear_extra_table env TANGLE_GROUP_PROJECTION_TABLE) (\<lambda>_.
     act_bind (act_each (put_group_entry env) (gp_groups p)) (\<lambda>_.
     act_bind (act_each (put_member_entry env) (gp_members p)) (\<lambda>_.
     act_bind (act_each (put_role_entry env) (gp_roles p)) (\<lambda>_.
     act_bind (act_each (put_tombstone_entry env) (gp_tombstones p)) (\<lambda>_.
     act_bind (act_each (put_deletion_entry env) (gp_event_deletions p)) (\<lambda>_.
     act_bind (act_lift (ok_or (gp_checkpoint p)
         (base_error ''group projection rebuild checkpoint is missing''))) (\<lambda>checkpoint.
     put_encoded env TANGLE_GROUP_CHECKPOINT_TABLE projection_checkpoint_key
       (checkpoint_to_json_bytes (re_codecs env) checkpoint))))))))"

section \<open>Materialising the outbox\<close>

definition generated_event_already_stored ::
  "('t, 'st) runtime_env \<Rightarrow> event_id \<Rightarrow> ('st, bool) store_action" where
  "generated_event_already_stored env eid =
     act_bind (base_store (act_read (event_by_id (re_store env) eid))) (\<lambda>found.
       if found \<noteq> None then act_return True
       else act_bind (base_store (scan_events (re_store env)))
         (\<lambda>stored. act_return (list_ex (\<lambda>(_, e). pe_id e = eid) stored)))"

definition store_generated_event ::
  "('t, 'st) runtime_env \<Rightarrow> group_outbox_record \<Rightarrow>
   ('t, 'st, event_id \<times> store_offset option) group_action" where
  "store_generated_event env r =
     act_bind (act_read (\<lambda>w. from_group (sign_payload_pocket (sv_builder (gw_service w)) (or_payload r)))) (\<lambda>event.
     act_bind (act_lift (map_err base_error (event_id_new (pe_id event)))) (\<lambda>event_id.
     act_bind (in_store (generated_event_already_stored env (pe_id event))) (\<lambda>stored.
       if stored then act_return (event_id, None)
       else act_bind (in_store (base_store (store_event (re_store env) event))) (\<lambda>offset.
         act_bind (act_read (\<lambda>w. from_group (map_ok snd
             (apply_canonical_event event offset (world_limits w) (world_projection w))))) (\<lambda>p.
         act_bind (act_modify (set_projection p)) (\<lambda>_.
         act_bind (act_get world_projection) (\<lambda>p.
         act_bind (in_store (persist_group_projection env p (ok_group_id (or_key r)))) (\<lambda>_.
         act_return (event_id, Some offset)))))))))"

definition update_and_persist ::
  "('t, 'st) runtime_env \<Rightarrow> group_outbox_record \<Rightarrow> ('t, 'st, unit) group_action" where
  "update_and_persist env r =
     act_bind (act_modify (\<lambda>w. set_outbox (outbox_update r (world_outbox w)) w))
       (\<lambda>_. in_store (persist_outbox_record env r))"

definition materialize_record ::
  "('t, 'st) runtime_env \<Rightarrow> group_outbox_record \<Rightarrow> ('t, 'st, store_offset option) group_action" where
  "materialize_record env r =
     (if ok_effect (or_key r) = RoleListSnapshot \<or> ok_effect (or_key r) = State39004Snapshot
      then act_bind (update_and_persist env (mark_skipped ''generated group effect is not supported'' r))
        (\<lambda>_. act_return None)
      else act_match (store_generated_event env r)
        (\<lambda>(generated_event_id, stored_offset).
           act_bind (update_and_persist env (mark_stored generated_event_id r))
             (\<lambda>_. act_return stored_offset))
        (\<lambda>error.
           act_bind (update_and_persist env (mark_failed True (base_prefixed_message error) r))
             (\<lambda>_. act_lift (Err error))))"

definition materialize_visit ::
  "('t, 'st) runtime_env \<Rightarrow> store_offset list \<Rightarrow> group_outbox_record \<Rightarrow>
   ('t, 'st, store_offset list) group_action" where
  "materialize_visit env offsets r =
     act_bind (materialize_record env r)
       (\<lambda>offset. act_return (offsets @ (case offset of Some n \<Rightarrow> [n] | None \<Rightarrow> [])))"

definition materialize_records ::
  "('t, 'st) runtime_env \<Rightarrow> group_outbox_record list \<Rightarrow> ('t, 'st, store_offset list) group_action" where
  "materialize_records env records = act_try_fold (materialize_visit env) [] records"

definition outbox_replay_batch_cap :: "'t group_service_state \<Rightarrow> nat" where
  "outbox_replay_batch_cap s = unat (sv_outbox_replay_batch_cap s)"

text \<open>The \<open>loop\<close> of \<open>materialize_outbox\<close> and \<open>materialize_outbox_for_group\<close>, over the plan each takes.\<close>

partial_function (option) materialize_loop ::
  "('t, 'st) runtime_env \<Rightarrow> (group_outbox \<Rightarrow> group_outbox_record list) \<Rightarrow> store_offset list \<Rightarrow>
   ('t, 'st) group_world \<Rightarrow> ((base_relay_error + store_offset list) \<times> ('t, 'st) group_world) option" where
  "materialize_loop env plan offsets w =
     (let records = take (outbox_replay_batch_cap (gw_service w)) (plan (world_outbox w)) in
      if records = [] then Some (Ok offsets, w)
      else act_bind (materialize_records env records)
        (\<lambda>stored. materialize_loop env plan (offsets @ stored)) w)"

definition materialize_outbox :: "('t, 'st) runtime_env \<Rightarrow> ('t, 'st, store_offset list) group_action" where
  "materialize_outbox env = materialize_loop env replay_plan []"

definition materialize_outbox_for_group ::
  "('t, 'st) runtime_env \<Rightarrow> group_id \<Rightarrow> ('t, 'st, store_offset list) group_action" where
  "materialize_outbox_for_group env g = materialize_loop env (\<lambda>ob. replay_plan_for_group ob g) []"

section \<open>Storing a group event\<close>

definition merge_and_persist ::
  "('t, 'st) runtime_env \<Rightarrow> group_outbox_record \<Rightarrow> ('t, 'st, unit) group_action" where
  "merge_and_persist env r =
     act_bind (act_read (\<lambda>w. from_group (merge_idempotent r (world_outbox w)))) (\<lambda>(inserted, ob).
     act_bind (act_modify (set_outbox ob)) (\<lambda>_.
       if inserted then in_store (persist_outbox_record env r) else act_return ()))"

definition plan_outbox_records ::
  "pocket_event \<Rightarrow> group_event_class \<Rightarrow> bool option \<Rightarrow> 't group_service_state \<Rightarrow>
   group_error + group_outbox_record list" where
  "plan_outbox_records e cls before_admin s =
     plan_group_outbox_records (gb_api (sv_builder s)) e cls (sv_projection s) (sv_authority s)
       (sv_member_snapshot_cap s) before_admin"

definition after_source_event_stored ::
  "('t, 'st) runtime_env \<Rightarrow> pocket_event \<Rightarrow> group_event_class \<Rightarrow> store_offset \<Rightarrow>
   ('t, 'st, store_offset list) group_action" where
  "after_source_event_stored env e cls offset =
     act_bind (act_read (\<lambda>w. from_group (membership_admin_snapshot_state (world_projection w) e cls))) (\<lambda>before_admin.
     act_bind (act_read (\<lambda>w. from_group (map_ok snd
         (apply_canonical_event e offset (world_limits w) (world_projection w))))) (\<lambda>p.
     act_bind (act_modify (set_projection p)) (\<lambda>_.
     act_bind (case class_group_id cls of
         Some g \<Rightarrow> in_store (persist_group_projection env p g) | None \<Rightarrow> act_return ()) (\<lambda>_.
     act_bind (act_read (\<lambda>w. from_group (plan_outbox_records e cls before_admin (gw_service w)))) (\<lambda>records.
     act_bind (act_each (merge_and_persist env) records) (\<lambda>_.
       case class_group_id cls of
         Some g \<Rightarrow> materialize_outbox_for_group env g
       | None \<Rightarrow> act_return []))))))"

datatype group_event_write = StoredAt "store_offset list" | DuplicateEvent
datatype group_event_write_error = Rejected group_error | Storage base_relay_error

definition store_group_pocket_event ::
  "('t, 'st) runtime_env \<Rightarrow> pocket_event \<Rightarrow> group_event_class \<Rightarrow> group_auth_context \<Rightarrow>
   (('t, 'st) group_world, group_event_write_error, group_event_write) action" where
  "store_group_pocket_event env e cls auth =
     act_bind (act_read (\<lambda>w. map_err Rejected (service_check_event env w e cls auth))) (\<lambda>_.
     act_bind (act_map_err Storage (in_store (base_store (act_read (event_by_id (re_store env) (pe_id e)))))) (\<lambda>found.
       if found \<noteq> None then act_return DuplicateEvent
       else act_map_err Storage
         (act_bind (in_store (base_store (store_event (re_store env) e))) (\<lambda>offset.
          act_bind (after_source_event_stored env e cls offset) (\<lambda>offsets.
          act_return (StoredAt (offset # offsets)))))))"

section \<open>Scanning\<close>

record canonical_group_event_scan =
  cs_events :: "canonical_group_event list"
  cs_scanned_events :: nat
  cs_skipped_events :: nat

definition scan_visit ::
  "group_limits_config \<Rightarrow> canonical_group_event list \<times> nat \<Rightarrow> pocket_stored_event \<Rightarrow>
   group_error + canonical_group_event list \<times> nat" where
  "scan_visit limits acc stored =
     and_then (classify_group_event (snd stored) limits) (\<lambda>cls.
       if cls = NonGroup then Ok (fst acc, snd acc + 1)
       else Ok (fst acc @ [\<lparr>ce_event = snd stored, ce_store_offset = fst stored\<rparr>], snd acc))"

definition scan_canonical_group_events_after ::
  "('t, 'st) runtime_env \<Rightarrow> store_offset option \<Rightarrow> group_limits_config \<Rightarrow>
   ('st, canonical_group_event_scan) store_action" where
  "scan_canonical_group_events_after env last_offset limits =
     act_bind (base_store (scan_events_after (re_store env) last_offset)) (\<lambda>stored.
     act_bind (act_lift (from_group (try_fold (scan_visit limits) ([], 0) stored))) (\<lambda>(events, skipped).
       act_return \<lparr>cs_events = events, cs_scanned_events = length stored,
         cs_skipped_events = skipped\<rparr>))"

definition scan_canonical_group_events ::
  "('t, 'st) runtime_env \<Rightarrow> group_limits_config \<Rightarrow> ('st, canonical_group_event_scan) store_action" where
  "scan_canonical_group_events env limits = scan_canonical_group_events_after env None limits"

section \<open>Checkpoint and validation\<close>

datatype group_checkpoint_status =
    CheckpointMissing
  | CheckpointCurrent projection_checkpoint
  | CheckpointStale projection_checkpoint

fun requires_rebuild :: "group_checkpoint_status \<Rightarrow> bool" where
  "requires_rebuild (CheckpointCurrent _) = False"
| "requires_rebuild _ = True"

fun status_checkpoint :: "group_checkpoint_status \<Rightarrow> projection_checkpoint option" where
  "status_checkpoint CheckpointMissing = None"
| "status_checkpoint (CheckpointCurrent c) = Some c"
| "status_checkpoint (CheckpointStale c) = Some c"

definition validate_group_checkpoint ::
  "('t, 'st) runtime_env \<Rightarrow> ('st, group_checkpoint_status) store_action" where
  "validate_group_checkpoint env =
     act_bind (base_store (act_read (get_extra_record (re_store env) TANGLE_GROUP_CHECKPOINT_TABLE
       projection_checkpoint_key))) (\<lambda>found.
       case found of
         None \<Rightarrow> act_return CheckpointMissing
       | Some raw \<Rightarrow>
           act_bind (act_lift (from_group (checkpoint_from_json_bytes (re_codecs env) raw))) (\<lambda>c.
             act_return (if matches_current_versions c then CheckpointCurrent c else CheckpointStale c)))"

definition projection_key_parts :: "('t, 'st) runtime_env \<Rightarrow> string \<Rightarrow> base_relay_error + string list" where
  "projection_key_parts env key =
     (if valid_utf8 key then Ok (split_char CHR 0x00 key) else Err (base_error (re_utf8_error env key)))"

text \<open>Only reached for keys that are UTF-8, which the lossy conversion leaves alone.\<close>

definition projection_key_label :: "string \<Rightarrow> string" where
  "projection_key_label key = concat (map (\<lambda>c. if c = CHR 0x00 then [CHR 0x5C, CHR ''0''] else [c]) key)"

definition unknown_projection_key :: "string \<Rightarrow> base_relay_error" where
  "unknown_projection_key key =
     base_error (''unknown group projection extra-table key: '' @ projection_key_label key)"

definition validate_projection_record ::
  "('t, 'st) runtime_env \<Rightarrow> string \<times> string \<Rightarrow> base_relay_error + unit" where
  "validate_projection_record env = (\<lambda>(key, value).
     and_then (projection_key_parts env key) (\<lambda>parts.
       case parts of
         [tag, _] \<Rightarrow>
           if tag = ''group''
           then map_ok (\<lambda>_. ()) (from_group (group_state_from_json_bytes (re_codecs env) value))
           else if tag = ''tombstone''
           then map_ok (\<lambda>_. ()) (from_group (group_tombstone_from_json_bytes (re_codecs env) value))
           else if tag = ''event_deletion''
           then map_ok (\<lambda>_. ()) (from_group (group_event_deletion_from_json_bytes (re_codecs env) value))
           else Err (unknown_projection_key key)
       | [tag, _, _] \<Rightarrow>
           if tag = ''member''
           then map_ok (\<lambda>_. ()) (from_group (member_state_from_json_bytes (re_codecs env) value))
           else if tag = ''role''
           then map_ok (\<lambda>_. ()) (from_group (projected_role_from_json_bytes (re_codecs env) value))
           else Err (unknown_projection_key key)
       | _ \<Rightarrow> Err (unknown_projection_key key)))"

definition validate_group_projection_records ::
  "('t, 'st) runtime_env \<Rightarrow> ('st, nat) store_action" where
  "validate_group_projection_records env =
     act_bind (base_store (act_read (scan_extra_records (re_store env) TANGLE_GROUP_PROJECTION_TABLE))) (\<lambda>records.
     act_bind (act_each (\<lambda>r. act_lift (validate_projection_record env r)) records)
       (\<lambda>_. act_return (length records)))"

definition validate_group_outbox_records :: "('t, 'st) runtime_env \<Rightarrow> ('st, nat) store_action" where
  "validate_group_outbox_records env =
     act_bind (base_store (act_read (scan_extra_records (re_store env) TANGLE_GROUP_OUTBOX_TABLE))) (\<lambda>records.
     act_bind (act_each (\<lambda>(_, value). act_lift (map_ok (\<lambda>_. ())
         (from_group (outbox_record_from_json_bytes (re_outbox_codec env) value)))) records)
       (\<lambda>_. act_return (length records)))"

record group_extra_table_validation =
  gv_projection_records :: nat
  gv_outbox_records :: nat
  gv_checkpoint_status :: group_checkpoint_status

definition validate_group_extra_tables ::
  "('t, 'st) runtime_env \<Rightarrow> ('st, group_extra_table_validation) store_action" where
  "validate_group_extra_tables env =
     act_bind (validate_group_projection_records env) (\<lambda>projection_records.
     act_bind (validate_group_outbox_records env) (\<lambda>outbox_records.
     act_bind (validate_group_checkpoint env) (\<lambda>status.
       act_return \<lparr>gv_projection_records = projection_records, gv_outbox_records = outbox_records,
         gv_checkpoint_status = status\<rparr>)))"

definition validate_rebuilt_group_projection :: "('t, 'st) runtime_env \<Rightarrow> ('st, unit) store_action" where
  "validate_rebuilt_group_projection env =
     act_bind (validate_group_extra_tables env) (\<lambda>validation.
       if requires_rebuild (gv_checkpoint_status validation)
       then act_lift (Err (base_error ''group projection checkpoint is not current after rebuild''))
       else act_return ())"

definition projection_rebuilt_at :: "('t, 'st) runtime_env \<Rightarrow> base_relay_error + unix_timestamp" where
  "projection_rebuilt_at env =
     map_err (\<lambda>error. base_error (''system clock is before UNIX epoch: '' @ error)) (re_unix_now env)"

section \<open>Loading\<close>

definition load_projection_record ::
  "('t, 'st) runtime_env \<Rightarrow> group_projection \<Rightarrow> string \<times> string \<Rightarrow> base_relay_error + group_projection" where
  "load_projection_record env p = (\<lambda>(key, value).
     and_then (projection_key_parts env key) (\<lambda>parts.
       case parts of
         [tag, _] \<Rightarrow>
           if tag = ''group''
           then map_ok (\<lambda>s. put_group s p) (from_group (group_state_from_json_bytes (re_codecs env) value))
           else if tag = ''tombstone''
           then map_ok (\<lambda>t. put_tombstone t p) (from_group (group_tombstone_from_json_bytes (re_codecs env) value))
           else if tag = ''event_deletion''
           then map_ok (\<lambda>d. put_event_deletion d p)
             (from_group (group_event_deletion_from_json_bytes (re_codecs env) value))
           else Err (unknown_projection_key key)
       | [tag, g, _] \<Rightarrow>
           if tag = ''member''
           then and_then (from_group (group_id_new g)) (\<lambda>gid.
             map_ok (\<lambda>m. put_member gid m p) (from_group (member_state_from_json_bytes (re_codecs env) value)))
           else if tag = ''role''
           then and_then (from_group (group_id_new g)) (\<lambda>gid.
             map_ok (\<lambda>r. put_role gid r p) (from_group (projected_role_from_json_bytes (re_codecs env) value)))
           else Err (unknown_projection_key key)
       | _ \<Rightarrow> Err (unknown_projection_key key)))"

definition load_group_projection ::
  "('t, 'st) runtime_env \<Rightarrow> (string \<times> string) list \<Rightarrow> projection_checkpoint option \<Rightarrow>
   base_relay_error + group_projection" where
  "load_group_projection env records checkpoint =
     and_then (try_fold (load_projection_record env) projection_new records) (\<lambda>p.
       Ok (case checkpoint of Some c \<Rightarrow> set_checkpoint c p | None \<Rightarrow> p))"

definition load_group_outbox ::
  "('t, 'st) runtime_env \<Rightarrow> (string \<times> string) list \<Rightarrow> base_relay_error + group_outbox" where
  "load_group_outbox env records =
     try_fold (\<lambda>ob (_, value). map_ok (\<lambda>r. outbox_update r ob)
       (from_group (outbox_record_from_json_bytes (re_outbox_codec env) value))) outbox_new records"

definition apply_scanned ::
  "group_limits_config \<Rightarrow> group_projection \<Rightarrow> canonical_group_event \<Rightarrow> base_relay_error + group_projection" where
  "apply_scanned limits p item =
     from_group (map_ok snd (apply_canonical_event (ce_event item) (ce_store_offset item) limits p))"

text \<open>The changes to \<open>&mut projection\<close> are the returned projection; on an error the caller drops it.\<close>

definition apply_canonical_events_after_checkpoint ::
  "('t, 'st) runtime_env \<Rightarrow> group_projection \<Rightarrow> group_limits_config \<Rightarrow> ('st, group_projection) store_action" where
  "apply_canonical_events_after_checkpoint env p limits =
     act_bind (scan_canonical_group_events_after env
         (case gp_checkpoint p of Some c \<Rightarrow> cp_last_offset c | None \<Rightarrow> None) limits) (\<lambda>scan.
       if cs_events scan = [] then act_return p
       else
         let next_offset = Some (Max (ce_store_offset ` set (cs_events scan)));
             events = sort_key ce_tuple (cs_events scan)
         in act_bind (act_lift (try_fold (apply_scanned limits) p events)) (\<lambda>p.
            act_bind (act_lift (projection_rebuilt_at env)) (\<lambda>now.
              let p = set_checkpoint (checkpoint_current next_offset now) p in
              act_bind (persist_group_projection_snapshot env p) (\<lambda>_.
              act_bind (validate_rebuilt_group_projection env) (\<lambda>_. act_return p)))))"

record group_storage_state =
  gss_projection :: group_projection
  gss_outbox :: group_outbox

definition load_group_storage ::
  "('t, 'st) runtime_env \<Rightarrow> group_limits_config \<Rightarrow> ('st, group_storage_state) store_action" where
  "load_group_storage env limits =
     act_bind (validate_group_checkpoint env) (\<lambda>status.
     act_bind (base_store (act_read (scan_extra_records (re_store env) TANGLE_GROUP_OUTBOX_TABLE))) (\<lambda>outbox_records.
       if requires_rebuild status then
         act_bind (scan_canonical_group_events env limits) (\<lambda>scan.
         act_bind (act_lift (projection_rebuilt_at env)) (\<lambda>now.
         act_bind (act_lift (from_group (rebuild_group_projection (cs_events scan) limits now))) (\<lambda>report.
         act_bind (persist_group_projection_snapshot env (rr_projection report)) (\<lambda>_.
         act_bind (validate_rebuilt_group_projection env) (\<lambda>_.
         act_bind (act_lift (load_group_outbox env outbox_records)) (\<lambda>ob.
           act_return \<lparr>gss_projection = rr_projection report, gss_outbox = ob\<rparr>))))))
       else
         act_bind (base_store (act_read (scan_extra_records (re_store env) TANGLE_GROUP_PROJECTION_TABLE))) (\<lambda>records.
         act_bind (act_lift (load_group_projection env records (status_checkpoint status))) (\<lambda>p.
         act_bind (apply_canonical_events_after_checkpoint env p limits) (\<lambda>p.
         act_bind (act_lift (load_group_outbox env outbox_records)) (\<lambda>ob.
           act_return \<lparr>gss_projection = p, gss_outbox = ob\<rparr>))))))"

section \<open>Starting up\<close>

text \<open>
  \<open>derive_missing_outbox_records\<close> replays the log in tuple order on an empty projection, kept
  beside the service's own, and plans again what every event owed.
\<close>

definition derive_visit ::
  "('t, 'st) runtime_env \<Rightarrow> public_key_hex \<Rightarrow> group_projection \<Rightarrow> canonical_group_event \<Rightarrow>
   ('t, 'st, group_projection) group_action" where
  "derive_visit env relay_pubkey p item =
     act_bind (act_read (\<lambda>w. from_group (classify_group_event (ce_event item) (world_limits w)))) (\<lambda>cls.
     act_bind (act_lift (from_group (membership_admin_snapshot_state p (ce_event item) cls))) (\<lambda>before_admin.
     act_bind (act_read (\<lambda>w. from_group (map_ok snd (apply_canonical_event (ce_event item)
         (ce_store_offset item) (world_limits w) p)))) (\<lambda>p.
       if pe_pubkey (ce_event item) = relay_pubkey then act_return p
       else
         act_bind (act_read (\<lambda>w. from_group (plan_group_outbox_records
             (gb_api (sv_builder (gw_service w))) (ce_event item) cls p
             (sv_authority (gw_service w)) (sv_member_snapshot_cap (gw_service w)) before_admin))) (\<lambda>records.
         act_bind (act_each (merge_and_persist env) records) (\<lambda>_. act_return p)))))"

definition derive_missing_outbox_records :: "('t, 'st) runtime_env \<Rightarrow> ('t, 'st, unit) group_action" where
  "derive_missing_outbox_records env =
     act_bind (act_get (\<lambda>w. gb_relay_pubkey (sv_builder (gw_service w)))) (\<lambda>relay_pubkey.
     act_bind (act_get world_limits) (\<lambda>limits.
     act_bind (in_store (scan_canonical_group_events env limits)) (\<lambda>scan.
     act_bind (act_try_fold (derive_visit env relay_pubkey) projection_new
         (sort_key ce_tuple (cs_events scan))) (\<lambda>_. act_return ()))))"

definition initial_service ::
  "'t generated_event_builder \<Rightarrow> group_runtime_config \<Rightarrow> group_storage_state \<Rightarrow> 't group_service_state" where
  "initial_service builder config storage =
     \<lparr>sv_builder = builder,
      sv_authority = authority_new (gr_owner_pubkeys config) (gr_admin_pubkeys config),
      sv_projection = gss_projection storage, sv_outbox = gss_outbox storage,
      sv_policy = gs_policy (gr_settings config), sv_limits = gs_limits (gr_settings config),
      sv_member_snapshot_cap = gl_max_member_list_pubkeys (gs_limits (gr_settings config)),
      sv_outbox_replay_batch_cap = gl_max_outbox_replay_batch (gs_limits (gr_settings config))\<rparr>"

text \<open>Run a service action from a service state, on the store, and return the service it leaves.\<close>

definition run_service ::
  "'t group_service_state \<Rightarrow> ('t, 'st, unit) group_action \<Rightarrow> ('st, 't group_service_state) store_action" where
  "run_service s m = (\<lambda>st. map_option
     (\<lambda>(r, w). (map_ok (\<lambda>_. gw_service w) r, gw_store w)) (m \<lparr>gw_service = s, gw_store = st\<rparr>))"

definition service_from_config ::
  "('t, 'st) runtime_env \<Rightarrow> group_runtime_config \<Rightarrow> ('st, 't group_service_state option) store_action" where
  "service_from_config env config =
     (if \<not> gr_enabled config then act_return None
      else
        act_bind (act_lift (ok_or (gr_relay_secret config)
            (base_invalid ''groups.relay_secret is required''))) (\<lambda>secret.
        act_bind (act_lift (map_err base_invalid (re_builder_from_secret env secret))) (\<lambda>builder.
        act_bind (load_group_storage env (gs_limits (gr_settings config))) (\<lambda>storage.
        act_bind (run_service (initial_service builder config storage)
          (act_bind (derive_missing_outbox_records env) (\<lambda>_.
           act_bind (materialize_outbox env) (\<lambda>_. act_return ())))) (\<lambda>s.
        act_return (Some s))))))"

end
