(* ===== verification/Runtime_Facts.thy ===== *)
theory Runtime_Facts
  imports Runtime_Groups Policy_Facts
begin

text \<open>
  What the group service guarantees: rejected and duplicate events change nothing, the invariants
  of the projection and of the outbox survive every operation, the replay loop of the outbox ends
  and leaves nothing to retry. The last section shows by concrete events where the composition of
  planning and replay goes wrong.
\<close>

section \<open>Invariants of the service\<close>

definition world_wf :: "('t, 'st) group_world \<Rightarrow> bool" where
  "world_wf w \<longleftrightarrow> projection_wf (world_projection w) \<and> outbox_wf (world_outbox w)"

lemma world_simps [simp]:
  "world_projection (set_projection p w) = p" "world_outbox (set_projection p w) = world_outbox w"
  "world_projection (set_outbox ob w) = world_projection w" "world_outbox (set_outbox ob w) = ob"
  "gw_store (set_projection p w) = gw_store w" "gw_store (set_outbox ob w) = gw_store w"
  by (simp_all add: set_projection_def set_outbox_def)

lemma from_group_Ok [simp]: "from_group r = Ok x \<longleftrightarrow> r = Ok x"
  by (simp add: from_group_def)

lemma keeps_in_store [act_intros]:
  "(\<And>st w. P w \<Longrightarrow> P (w\<lparr>gw_store := st\<rparr>)) \<Longrightarrow> act_keeps P (in_store m)"
  unfolding in_store_def by (rule act_keeps_on)

lemma map_ok_snd_Ok: "map_ok snd r = Ok p \<Longrightarrow> \<exists>x. r = Ok (x, p)"
  by (auto simp: map_ok_Ok_iff)

lemma apply_keeps_wf:
  "map_ok snd (apply_canonical_event e off limits p) = Ok q \<Longrightarrow> projection_wf p \<Longrightarrow> projection_wf q"
  using apply_canonical_wf [of "\<lparr>ce_event = e, ce_store_offset = off\<rparr>"]
  by (auto dest!: map_ok_snd_Ok)

lemma keeps_update_and_persist: "act_keeps world_wf (update_and_persist env r)"
  unfolding update_and_persist_def
  by (intro act_intros) (simp_all add: world_wf_def outbox_update_wf)

lemma keeps_store_generated: "act_keeps world_wf (store_generated_event env r)"
  unfolding store_generated_event_def
  by (intro act_intros act_keeps_read_modify) (auto simp: world_wf_def dest: apply_keeps_wf)

lemma keeps_materialize_record: "act_keeps world_wf (materialize_record env r)"
  unfolding materialize_record_def
  by (intro act_intros keeps_update_and_persist keeps_store_generated)

lemma keeps_materialize_records: "act_keeps world_wf (materialize_records env rs)"
  unfolding materialize_records_def materialize_visit_def
  by (intro act_intros keeps_materialize_record)

lemma keeps_materialize_loop:
  assumes "\<And>rs. act_keeps P (materialize_records env rs)"
  shows "act_keeps P (materialize_loop env plan offsets)"
proof (rule act_keepsI)
  fix s r t
  assume P: "P s" and ret: "materialize_loop env plan offsets s = Some (r, t)"
  have "env = env \<longrightarrow> P s \<longrightarrow> P (snd (r, t))"
  proof (rule materialize_loop.raw_induct [where P = "\<lambda>e pl os s y. e = env \<longrightarrow> P s \<longrightarrow> P (snd y)", OF _ ret], intro impI)
    fix f e pl os u y
    assume IH: "\<And>e pl os s y. f e pl os s = Some y \<Longrightarrow> e = env \<longrightarrow> P s \<longrightarrow> P (snd y)"
      and step: "(let records = take (outbox_replay_batch_cap (gw_service u)) (pl (world_outbox u)) in
        if records = [] then Some (Ok os, u)
        else act_bind (materialize_records e records) (\<lambda>stored. f e pl (os @ stored)) u) = Some y"
      and e: "e = env" and Pu: "P u"
    let ?rs = "take (outbox_replay_batch_cap (gw_service u)) (pl (world_outbox u))"
    show "P (snd y)"
    proof (cases "?rs = []")
      case True
      with step Pu show ?thesis by (auto simp: Let_def)
    next
      case False
      obtain q v where y: "y = (q, v)" by (cases y)
      with step False have "act_bind (materialize_records e ?rs) (\<lambda>stored. f e pl (os @ stored)) u = Some (q, v)"
        by (simp add: Let_def)
      then show ?thesis
        using act_keepsD [OF assms Pu] IH e unfolding act_bind_iff y by fastforce
    qed
  qed
  with P show "P t" by simp
qed

lemma keeps_merge_and_persist: "act_keeps world_wf (merge_and_persist env r)"
  unfolding merge_and_persist_def case_prod_beta
  by (intro act_intros act_keeps_read_modify) (auto simp: world_wf_def dest: merge_idempotent_wf)

lemma keeps_after_source_event_stored: "act_keeps world_wf (after_source_event_stored env e cls off)"
  unfolding after_source_event_stored_def materialize_outbox_for_group_def
  by (intro act_intros act_keeps_read_modify keeps_merge_and_persist keeps_materialize_loop
        keeps_materialize_records)
     (auto simp: world_wf_def dest: apply_keeps_wf)

text \<open>
  Claim C16. Every run of \<open>store_group_pocket_event\<close> keeps the service well formed, whether it stores the
  event, finds it stored already, rejects it or fails half way, and whatever the store does: the
  projection keeps its invariant and the outbox stays sorted with each record under its own key.
\<close>

theorem store_group_event_invariant:
  assumes "world_wf w" and "store_group_pocket_event env e cls auth w = Some (r, w')"
  shows "world_wf w'"
proof -
  have "act_keeps world_wf (store_group_pocket_event env e cls auth)"
    unfolding store_group_pocket_event_def
    by (intro act_intros keeps_after_source_event_stored) (auto simp: world_wf_def)
  then show ?thesis using assms by (rule act_keepsD)
qed

text \<open>The ways a call of \<open>store_group_pocket_event\<close> can go.\<close>

lemma store_group_event_cases:
  assumes "store_group_pocket_event env e cls auth w = Some (r, w')"
  shows "(\<exists>err. service_check_event env w e cls auth = Err err \<and> r = Err (Rejected err) \<and> w' = w)
     \<or> (service_check_event env w e cls auth = Ok () \<and>
         ((\<exists>err. event_by_id (re_store env) (pe_id e) (gw_store w) = Err err
              \<and> r = Err (Storage (base_error err)) \<and> w' = w)
        \<or> (\<exists>stored. event_by_id (re_store env) (pe_id e) (gw_store w) = Ok (Some stored)
              \<and> r = Ok DuplicateEvent \<and> w' = w)
        \<or> (event_by_id (re_store env) (pe_id e) (gw_store w) = Ok None
              \<and> ((\<exists>err. r = Err (Storage err)) \<or> (\<exists>offset offsets. r = Ok (StoredAt (offset # offsets)))))))"
proof (cases "service_check_event env w e cls auth")
  case (Inl err)
  with assms show ?thesis by (auto simp: store_group_pocket_event_def)
next
  case (Inr u)
  let ?look = "act_map_err Storage (in_store (base_store (act_read (event_by_id (re_store env) (pe_id e)))))"
  show ?thesis
  proof (cases "event_by_id (re_store env) (pe_id e) (gw_store w)")
    case err: (Inl err)
    then have "?look w = Some (Err (Storage (base_error err)), w)"
      by (simp add: act_map_err_def in_store_def act_on_def base_store_def)
    with Inr err assms show ?thesis by (auto simp: store_group_pocket_event_def)
  next
    case found: (Inr found)
    then have call: "?look w = Some (Ok found, w)"
      by (simp add: act_map_err_def in_store_def act_on_def base_store_def)
    show ?thesis
    proof (cases found)
      case (Some stored)
      with Inr call found assms show ?thesis by (auto simp: store_group_pocket_event_def)
    next
      case None
      with Inr call found assms show ?thesis
        by (auto simp: store_group_pocket_event_def act_map_err_iff act_bind_iff)
    qed
  qed
qed

text \<open>
  Claim C17. A rejected event changes nothing: when \<open>store_group_pocket_event\<close> rejects an event, the policy or
  the runtime check has given the error, and the service and the store are what they were. The
  same holds for an event the store already has.
\<close>

theorem rejected_event_changes_nothing:
  assumes "store_group_pocket_event env e cls auth w = Some (r, w')"
    and "(\<exists>err. r = Err (Rejected err)) \<or> r = Ok DuplicateEvent"
  shows "w' = w \<and> (\<forall>err. r = Err (Rejected err) \<longrightarrow> service_check_event env w e cls auth = Err err)
     \<and> (r = Ok DuplicateEvent \<longrightarrow> service_check_event env w e cls auth = Ok ()
          \<and> (\<exists>stored. event_by_id (re_store env) (pe_id e) (gw_store w) = Ok (Some stored)))"
  using store_group_event_cases [OF assms(1)] assms(2) by auto

section \<open>The replay loop ends\<close>

definition scan_returns :: "('t, 'st) runtime_env \<Rightarrow> bool" where
  "scan_returns env \<longleftrightarrow> (\<forall>st. scan_events (re_store env) st \<noteq> None)"

lemma total_prim: "act_total (act_prim f)"
  by (simp add: act_total_def act_prim_def)

lemma total_store_calls [act_intros]:
  "act_total (put_extra_record h t k v)" "act_total (delete_extra_record h t k)"
  "act_total (store_event h e)"
proof -
  have sync: "act_total (sync_after_write h)"
    unfolding sync_after_write_def store_sync_def
    by (cases "sh_sync_policy h") (simp_all add: total_prim act_intros)
  show "act_total (put_extra_record h t k v)" "act_total (delete_extra_record h t k)"
    unfolding put_extra_record_def delete_extra_record_def table_write_def
    by (intro act_intros total_prim sync)+
  show "act_total (store_event h e)"
    unfolding store_event_def by (intro act_intros total_prim sync)
qed

lemma total_persist:
  "act_total (persist_outbox_record env r)" "act_total (persist_group_projection env p g)"
  unfolding persist_outbox_record_def persist_group_projection_def put_encoded_def base_store_def
    put_group_entry_def put_member_entry_def put_role_entry_def put_tombstone_entry_def
    put_deletion_entry_def case_prod_beta
  by (intro act_intros)+

lemma total_materialize_record:
  assumes "scan_returns env"
  shows "act_total (materialize_record env r)"
proof -
  have scan: "act_total (scan_events (re_store env))"
    using assms by (simp add: scan_returns_def act_total_def)
  show ?thesis
    unfolding materialize_record_def store_generated_event_def update_and_persist_def in_store_def
      generated_event_already_stored_def base_store_def
    by (intro act_intros scan total_persist)
qed

text \<open>What a record's turn does to the outbox: its own entry, and no other, is replaced.\<close>

lemma keeps_outbox_generated: "act_keeps (\<lambda>w. world_outbox w = ob) (store_generated_event env r)"
  unfolding store_generated_event_def
  by (intro act_intros act_keeps_read_modify) simp_all

lemma keeps_cap:
  "act_keeps (\<lambda>w. sv_outbox_replay_batch_cap (gw_service w) = n) (materialize_record env r)"
  unfolding materialize_record_def store_generated_event_def update_and_persist_def
  by (intro act_intros act_keeps_read_modify) (simp_all add: set_projection_def set_outbox_def)

lemma update_and_persist_outbox:
  "update_and_persist env r w = Some (q, w') \<Longrightarrow> world_outbox w' = outbox_update r (world_outbox w)"
  by (auto simp: update_and_persist_def act_bind_iff in_store_def act_on_iff)

lemma mark_status:
  "or_status (mark_stored i r) \<noteq> Pending" "or_status (mark_skipped reason r) \<noteq> Pending"
  "or_status (mark_failed b reason r) \<noteq> Pending"
  by (simp_all add: mark_stored_def mark_skipped_def mark_failed_def)

lemma materialize_record_outbox:
  assumes "materialize_record env r w = Some (res, w')"
  shows "\<exists>r'. world_outbox w' = outbox_update r' (world_outbox w) \<and> or_key r' = or_key r
     \<and> or_payload r' = or_payload r \<and> or_status r' \<noteq> Pending \<and> (is_ok res \<longrightarrow> \<not> is_retryable r')"
proof (cases "ok_effect (or_key r) = RoleListSnapshot \<or> ok_effect (or_key r) = State39004Snapshot")
  case True
  with assms obtain q where "update_and_persist env
      (mark_skipped ''generated group effect is not supported'' r) w = Some (q, w')"
    by (auto simp: materialize_record_def act_bind_iff)
  from update_and_persist_outbox [OF this] show ?thesis
    by (intro exI [of _ "mark_skipped ''generated group effect is not supported'' r"]) (simp add: mark_status)
next
  case False
  with assms have m: "act_match (store_generated_event env r)
        (\<lambda>(generated_event_id, stored_offset).
           act_bind (update_and_persist env (mark_stored generated_event_id r))
             (\<lambda>_. act_return stored_offset))
        (\<lambda>error.
           act_bind (update_and_persist env (mark_failed True (base_prefixed_message error) r))
             (\<lambda>_. act_lift (Err error))) w = Some (res, w')"
    by (auto simp: materialize_record_def)
  obtain q v where gen: "store_generated_event env r w = Some (q, v)"
    using m by (auto simp: act_match_iff)
  have ob: "world_outbox v = world_outbox w"
    using act_keepsD [OF keeps_outbox_generated refl gen] .
  show ?thesis
  proof (cases q)
    case (Inl error)
    with m gen have "act_bind (update_and_persist env (mark_failed True (base_prefixed_message error) r))
             (\<lambda>_. act_lift (Err error)) v = Some (res, w')"
      by (simp add: act_match_def)
    then obtain p where "update_and_persist env (mark_failed True (base_prefixed_message error) r) v = Some (p, w')"
      and failed: "\<not> is_ok res" by (auto simp: act_bind_iff)
    from update_and_persist_outbox [OF this(1)] ob failed show ?thesis
      by (intro exI [of _ "mark_failed True (base_prefixed_message error) r"]) (simp add: mark_status)
  next
    case (Inr x)
    with m gen have "act_bind (update_and_persist env (mark_stored (fst x) r))
             (\<lambda>_. act_return (snd x)) v = Some (res, w')"
      by (simp add: act_match_def case_prod_beta)
    then obtain p where "update_and_persist env (mark_stored (fst x) r) v = Some (p, w')"
      by (auto simp: act_bind_iff)
    from update_and_persist_outbox [OF this] ob show ?thesis
      by (intro exI [of _ "mark_stored (fst x) r"]) (simp add: mark_status)
  qed
qed

definition retryable_keys :: "group_outbox \<Rightarrow> group_outbox_key set" where
  "retryable_keys ob = {k. \<exists>r. outbox_get ob k = Some r \<and> is_retryable r}"

lemma finite_retryable_keys [simp]: "finite (retryable_keys ob)"
proof (rule finite_subset)
  show "retryable_keys ob \<subseteq> dom (outbox_get ob)" by (auto simp: retryable_keys_def)
  show "finite (dom (outbox_get ob))" 
    by (rule finite_subset [OF _ finite_imageI [of "set ob" fst]])
       (auto simp: outbox_get_def dest!: map_of_SomeD intro: rev_image_eqI)
qed

text \<open>
  The outbox is only settled on the way: it holds records under the same keys and with the same payloads,
  and a record either is as it was, or it was to be retried and is now stored, skipped or failed.
\<close>

definition record_settled :: "group_outbox_record \<Rightarrow> group_outbox_record \<Rightarrow> bool" where
  "record_settled r r' \<longleftrightarrow> or_key r' = or_key r \<and> or_payload r' = or_payload r
     \<and> (r' = r \<or> is_retryable r \<and> or_status r' \<noteq> Pending)"

definition outbox_settled :: "group_outbox \<Rightarrow> group_outbox \<Rightarrow> bool" where
  "outbox_settled ob ob' \<longleftrightarrow> (\<forall>k. rel_option record_settled (outbox_get ob k) (outbox_get ob' k))"

lemma outbox_settled_refl [simp]: "outbox_settled ob ob"
  by (simp add: outbox_settled_def option.rel_refl record_settled_def)

lemma record_settled_trans: "record_settled a b \<Longrightarrow> record_settled b c \<Longrightarrow> record_settled a c"
  by (auto simp: record_settled_def)

lemma outbox_settled_trans: "outbox_settled a b \<Longrightarrow> outbox_settled b c \<Longrightarrow> outbox_settled a c"
  using option.rel_transp [of record_settled] record_settled_trans
  unfolding outbox_settled_def transp_def by meson

lemma outbox_settled_update:
  assumes "outbox_get ob (or_key r) = Some r" and "is_retryable r"
    and "or_key r' = or_key r" "or_payload r' = or_payload r" "or_status r' \<noteq> Pending"
  shows "outbox_settled ob (outbox_update r' ob)"
  using assms by (auto simp: outbox_settled_def outbox_get_update record_settled_def option.rel_refl)

lemma retryable_keys_update:
  "\<not> is_retryable r \<Longrightarrow> retryable_keys (outbox_update r ob) = retryable_keys ob - {or_key r}"
  by (auto simp: retryable_keys_def outbox_get_update)

lemma materialize_fold:
  assumes "scan_returns env"
    and "\<forall>r\<in>set rs. outbox_get (world_outbox w) (or_key r) = Some r \<and> is_retryable r" and "distinct (map or_key rs)"
  shows "\<exists>q w'. act_try_fold (materialize_visit env) offsets rs w = Some (q, w')
     \<and> outbox_settled (world_outbox w) (world_outbox w')
     \<and> sv_outbox_replay_batch_cap (gw_service w') = sv_outbox_replay_batch_cap (gw_service w)
     \<and> (is_ok q \<longrightarrow> retryable_keys (world_outbox w') \<subseteq> retryable_keys (world_outbox w) - or_key ` set rs)"
  using assms(2,3)
proof (induction rs arbitrary: offsets w)
  case Nil
  then show ?case by simp
next
  case (Cons r rs)
  obtain q v where run: "materialize_record env r w = Some (q, v)"
    using act_totalD [OF total_materialize_record [OF assms(1)]] by blast
  obtain r' where r': "world_outbox v = outbox_update r' (world_outbox w)" "or_key r' = or_key r"
    "or_payload r' = or_payload r" "or_status r' \<noteq> Pending" "is_ok q \<longrightarrow> \<not> is_retryable r'"
    using materialize_record_outbox [OF run] by blast
  have ext: "outbox_settled (world_outbox w) (world_outbox v)"
    unfolding r'(1) using Cons.prems(1) r' by (intro outbox_settled_update [of _ r]) simp_all
  have cap: "sv_outbox_replay_batch_cap (gw_service v) = sv_outbox_replay_batch_cap (gw_service w)"
    using act_keepsD [OF keeps_cap refl run] .
  show ?case
  proof (cases q)
    case (Inl error)
    with run ext cap show ?thesis by (simp add: materialize_visit_def)
  next
    case (Inr x)
    let ?offs = "offsets @ (case x of Some n \<Rightarrow> [n] | None \<Rightarrow> [])"
    have "\<forall>r\<in>set rs. outbox_get (world_outbox v) (or_key r) = Some r \<and> is_retryable r"
    proof
      fix x assume x: "x \<in> set rs"
      have "or_key x \<in> set (map or_key rs)" using x by simp
      moreover have "or_key r \<notin> set (map or_key rs)" using Cons.prems(2) by simp
      ultimately have "or_key x \<noteq> or_key r" by metis
      with x Cons.prems(1) show "outbox_get (world_outbox v) (or_key x) = Some x \<and> is_retryable x"
        unfolding r'(1) outbox_get_update r'(2) by simp
    qed
    from Cons.IH [OF this, of ?offs] Cons.prems(2) obtain q' w' where
      rest: "act_try_fold (materialize_visit env) ?offs rs v = Some (q', w')"
      "outbox_settled (world_outbox v) (world_outbox w')"
      "sv_outbox_replay_batch_cap (gw_service w') = sv_outbox_replay_batch_cap (gw_service v)"
      "is_ok q' \<longrightarrow> retryable_keys (world_outbox w') \<subseteq> retryable_keys (world_outbox v) - or_key ` set rs"
      by auto
    have keys: "retryable_keys (world_outbox v) = retryable_keys (world_outbox w) - {or_key r}"
      using r' Inr by (simp add: retryable_keys_update)
    have step: "act_try_fold (materialize_visit env) offsets (r # rs) w = Some (q', w')"
      using run Inr rest(1) by (simp add: materialize_visit_def act_bind_assoc)
    have "is_ok q' \<longrightarrow> retryable_keys (world_outbox w') \<subseteq> retryable_keys (world_outbox w) - or_key ` set (r # rs)"
      using rest(4) keys by auto
    then show ?thesis
      using step outbox_settled_trans [OF ext rest(2)] rest(3) cap by (intro exI [of _ q'] exI [of _ w']) simp
  qed
qed

text \<open>Both plans only offer retryable records of the outbox.\<close>

definition plan_sound :: "(group_outbox \<Rightarrow> group_outbox_record list) \<Rightarrow> bool" where
  "plan_sound plan \<longleftrightarrow> (\<forall>ob. outbox_wf ob \<longrightarrow>
     distinct (map or_key (plan ob)) \<and>
     (\<forall>r\<in>set (plan ob). outbox_get ob (or_key r) = Some r \<and> is_retryable r))"

lemma outbox_wf_keys: "outbox_wf ob \<Longrightarrow> map or_key (map snd ob) = map fst ob"
  by (auto simp: outbox_wf_def list_all_iff)

lemma plan_keys_distinct:
  assumes "outbox_wf ob"
  shows "distinct (map or_key (replay_plan_matching include ob))"
proof -
  have "distinct (map or_key (map snd ob))"
    using assms unfolding outbox_wf_keys [OF assms] by (auto simp: outbox_wf_def bt_wf_def strict_sorted_iff)
  then have "distinct (map or_key (filter (\<lambda>r. is_retryable r \<and> include r) (map snd ob)))"
    by (rule distinct_map_filter)
  then show ?thesis by (simp add: replay_plan_matching_def distinct_map)
qed

lemma plans_sound: "plan_sound replay_plan" "plan_sound (\<lambda>ob. replay_plan_for_group ob g)"
  unfolding plan_sound_def replay_plan_def replay_plan_for_group_def
  by (auto simp: plan_keys_distinct) (auto simp: replay_plan_matching_def simp flip: outbox_records)

lemma materialize_loop_ends:
  assumes "scan_returns env" and "plan_sound plan" and "world_wf w"
  shows "\<exists>q w'. materialize_loop env plan offsets w = Some (q, w')
     \<and> outbox_settled (world_outbox w) (world_outbox w')
     \<and> (is_ok q \<longrightarrow> 0 < outbox_replay_batch_cap (gw_service w) \<longrightarrow> plan (world_outbox w') = [])"
  using assms(3)
proof (induction "card (retryable_keys (world_outbox w))" arbitrary: w offsets rule: less_induct)
  case less
  let ?rs = "take (outbox_replay_batch_cap (gw_service w)) (plan (world_outbox w))"
  have plan: "distinct (map or_key (plan (world_outbox w)))"
    "\<forall>r\<in>set (plan (world_outbox w)). outbox_get (world_outbox w) (or_key r) = Some r \<and> is_retryable r"
    using assms(2) less.prems unfolding plan_sound_def world_wf_def by blast+
  have sound: "\<forall>r\<in>set ?rs. outbox_get (world_outbox w) (or_key r) = Some r \<and> is_retryable r"
    using plan(2) by (auto dest: in_set_takeD)
  have distinct: "distinct (map or_key ?rs)"
    using plan(1) by (simp add: take_map [symmetric] distinct_take)
  show ?case
  proof (cases "?rs = []")
    case True
    then have "0 < outbox_replay_batch_cap (gw_service w) \<longrightarrow> plan (world_outbox w) = []" by auto
    then show ?thesis using True by (subst materialize_loop.simps) simp
  next
    case False
    from materialize_fold [OF assms(1) sound distinct, of "[]"] obtain q v where
      run: "materialize_records env ?rs w = Some (q, v)"
      and ext: "outbox_settled (world_outbox w) (world_outbox v)"
      and cap: "sv_outbox_replay_batch_cap (gw_service v) = sv_outbox_replay_batch_cap (gw_service w)"
      and keys: "is_ok q \<longrightarrow> retryable_keys (world_outbox v) \<subseteq> retryable_keys (world_outbox w) - or_key ` set ?rs"
      by (auto simp: materialize_records_def)
    have wf: "world_wf v" using act_keepsD [OF keeps_materialize_records less.prems run] .
    have unfold: "materialize_loop env plan offsets w
        = act_bind (materialize_records env ?rs) (\<lambda>stored. materialize_loop env plan (offsets @ stored)) w"
      using False by (subst materialize_loop.simps) (simp add: Let_def)
    show ?thesis
    proof (cases q)
      case (Inl error)
      with run ext show ?thesis unfolding unfold by simp
    next
      case (Inr stored)
      obtain r where r: "r \<in> set ?rs" using False by (meson list.set_sel(1))
      with sound have "or_key r \<in> retryable_keys (world_outbox w)" by (auto simp: retryable_keys_def)
      with keys Inr r have "retryable_keys (world_outbox v) \<subset> retryable_keys (world_outbox w)" by auto
      then have smaller: "card (retryable_keys (world_outbox v)) < card (retryable_keys (world_outbox w))"
        by (intro psubset_card_mono) simp_all
      have cap': "outbox_replay_batch_cap (gw_service v) = outbox_replay_batch_cap (gw_service w)"
        using cap by (simp add: outbox_replay_batch_cap_def)
      obtain q' w' where rest: "materialize_loop env plan (offsets @ stored) v = Some (q', w')"
        "outbox_settled (world_outbox v) (world_outbox w')"
        "is_ok q' \<longrightarrow> 0 < outbox_replay_batch_cap (gw_service w) \<longrightarrow> plan (world_outbox w') = []"
        using less.hyps [OF smaller wf, of "offsets @ stored"] cap' by auto
      have "materialize_loop env plan offsets w = Some (q', w')"
        unfolding unfold using run Inr rest(1) by simp
      then show ?thesis
        using outbox_settled_trans [OF ext rest(2)] rest(3) by (intro exI [of _ q'] exI [of _ w']) simp
    qed
  qed
qed

text \<open>
  Claim C18. Replaying the outbox always ends when the service is well formed and the scan of the store returns,
  whatever the store answers. It only settles records: none is added, lost or given another payload, and
  one that changes was to be retried and is stored, skipped or failed afterwards, never pending again.
  When it returns without an error and the batch cap is positive, as the configuration requires,
  nothing is left to retry.
\<close>

theorem materialize_outbox_ends:
  assumes "scan_returns env" and "world_wf w"
  shows "\<exists>q w'. materialize_outbox env w = Some (q, w')
     \<and> outbox_settled (world_outbox w) (world_outbox w')
     \<and> (is_ok q \<longrightarrow> 0 < outbox_replay_batch_cap (gw_service w) \<longrightarrow> outbox_pending_events (gw_service w') = 0)"
proof -
  obtain q w' where "materialize_loop env replay_plan [] w = Some (q, w')"
    "outbox_settled (world_outbox w) (world_outbox w')"
    "is_ok q \<longrightarrow> 0 < outbox_replay_batch_cap (gw_service w) \<longrightarrow> replay_plan (world_outbox w') = []"
    using materialize_loop_ends [OF assms(1) plans_sound(1) assms(2)] by blast
  then show ?thesis by (auto simp: materialize_outbox_def outbox_pending_events_def)
qed

section \<open>Samples\<close>

definition sample_codecs :: projection_codecs where
  "sample_codecs = \<lparr>
     pc_group = \<lparr>cd_to_vec = (\<lambda>_. Err ''unsupported''), cd_from_slice = (\<lambda>_. Err ''unsupported'')\<rparr>,
     pc_member = \<lparr>cd_to_vec = (\<lambda>_. Err ''unsupported''), cd_from_slice = (\<lambda>_. Err ''unsupported'')\<rparr>,
     pc_role = \<lparr>cd_to_vec = (\<lambda>_. Err ''unsupported''), cd_from_slice = (\<lambda>_. Err ''unsupported'')\<rparr>,
     pc_tombstone = \<lparr>cd_to_vec = (\<lambda>_. Err ''unsupported''), cd_from_slice = (\<lambda>_. Err ''unsupported'')\<rparr>,
     pc_deletion = \<lparr>cd_to_vec = (\<lambda>_. Err ''unsupported''), cd_from_slice = (\<lambda>_. Err ''unsupported'')\<rparr>,
     pc_checkpoint = \<lparr>cd_to_vec = (\<lambda>_. Err ''unsupported''), cd_from_slice = (\<lambda>_. Err ''unsupported'')\<rparr>\<rparr>"

definition sample_env :: "(string list list, table_state) runtime_env" where
  "sample_env = \<lparr>re_store = sample_store, re_codecs = sample_codecs,
     re_outbox_codec = \<lparr>cd_to_vec = (\<lambda>_. Ok ''record''), cd_from_slice = (\<lambda>_. Err ''unsupported'')\<rparr>,
     re_unix_now = Ok 1714124433, re_utf8_error = (\<lambda>_. ''invalid utf-8''), re_read_id_hex = Ok,
     re_builder_from_secret = (\<lambda>_. Ok \<lparr>gb_relay_pubkey = replicate 64 CHR ''e'', gb_api = sample_api\<rparr>)\<rparr>"

definition sample_world :: "(string list list, table_state) group_world" where
  "sample_world = \<lparr>gw_service = \<lparr>
       sv_builder = \<lparr>gb_relay_pubkey = replicate 64 CHR ''e'', gb_api = sample_api\<rparr>,
       sv_authority = authority_new [sample_key] [], sv_projection = projection_new,
       sv_outbox = outbox_update sample_outbox_record outbox_new, sv_policy = group_policy_strict,
       sv_limits = group_limits_default, sv_member_snapshot_cap = 100,
       sv_outbox_replay_batch_cap = 10\<rparr>, gw_store = (\<lambda>t. [])\<rparr>"

lemma sample_world_wf: "world_wf sample_world"
  using outbox_update_wf [OF outbox_new_wf] projection_new_projection_wf
  by (simp add: world_wf_def sample_world_def)

lemma sample_scan: "scan_returns sample_env"
  using sample_scan_returns by (simp add: scan_returns_def sample_env_def)

theorem materialize_outbox_ends_witness:
  "\<exists>q w'. materialize_outbox sample_env sample_world = Some (q, w')
     \<and> outbox_settled (world_outbox sample_world) (world_outbox w')
     \<and> (is_ok q \<longrightarrow> outbox_pending_events (gw_service w') = 0)"
  using materialize_outbox_ends [OF sample_scan sample_world_wf]
  by (auto simp: outbox_replay_batch_cap_def sample_world_def)

lemma sample_rejected:
  "store_group_pocket_event sample_env (sample_target_event 9000) (Moderation 9000 ''welcome'') {sample_key} sample_world
     = Some (Err (Rejected non_enumerating_group_error), sample_world)"
proof -
  have "require_active_group projection_new ''welcome'' = Err non_enumerating_group_error"
    by (simp add: require_active_group_def gp_group_def projection_new_def)
  then have "service_check_event sample_env sample_world (sample_target_event 9000) (Moderation 9000 ''welcome'') {sample_key}
      = Err non_enumerating_group_error"
    by (simp add: service_check_event_def check_event_def require_group_auth_as_author_def
        check_moderation_event_def sample_world_def)
  then show ?thesis by (simp add: store_group_pocket_event_def)
qed

text \<open>A store that takes events, in a relay with one group, whose owner deletes the group.\<close>

definition accepting_codec :: "'a codec" where
  "accepting_codec = \<lparr>cd_to_vec = (\<lambda>_. Ok ''record''), cd_from_slice = (\<lambda>_. Err ''unsupported'')\<rparr>"

definition accepting_env :: "(string list list, table_state) runtime_env" where
  "accepting_env = sample_env\<lparr>
     re_store := sample_store\<lparr>sh_db :=
       sample_db\<lparr>db_store_event := (\<lambda>e st. (Ok 16, st(''events'' := [(pe_id e, [])])))\<rparr>\<rparr>,
     re_codecs := \<lparr>pc_group = accepting_codec, pc_member = accepting_codec, pc_role = accepting_codec,
       pc_tombstone = accepting_codec, pc_deletion = accepting_codec, pc_checkpoint = accepting_codec\<rparr>\<rparr>"

definition one_group :: group_projection where
  "one_group = put_group (group_state_new ''welcome'' group_metadata_empty sample_key sample_id
     (OrderTuple 0 sample_id 0)) projection_new"

definition one_group_world :: "(string list list, table_state) group_world" where
  "one_group_world = sample_world\<lparr>gw_service := (gw_service sample_world)\<lparr>sv_projection := one_group,
     sv_outbox := outbox_new\<rparr>\<rparr>"

abbreviation group_deletion :: pocket_event where
  "group_deletion \<equiv> sample_pocket_event 9008 [[''h'', ''welcome'']]"

lemma one_group_simps [simp]:
  "gp_group one_group ''welcome'' = Some (group_state_new ''welcome'' group_metadata_empty sample_key sample_id
     (OrderTuple 0 sample_id 0))"
  "gp_tombstone one_group g = None" "gp_members one_group = []" "gp_roles one_group = []"
  "gp_event_deletions one_group = []" "gp_tombstones one_group = []"
  by (simp_all add: one_group_def put_group_def group_state_new_def projection_new_def gp_group_def gp_tombstone_def)

lemma one_group_active: "require_active_group one_group ''welcome'' = Ok (group_state_new ''welcome''
     group_metadata_empty sample_key sample_id (OrderTuple 0 sample_id 0))"
  by (simp add: require_active_group_Ok) (simp add: group_state_new_def)

lemma one_group_world_wf: "world_wf one_group_world"
proof -
  have "projection_wf one_group"
    by (simp add: projection_wf_def)
      (simp add: one_group_def put_group_def projection_new_def group_state_new_def group_state_wf_def tombstone_covers_def bt_wf_def)
  then show ?thesis by (simp add: world_wf_def one_group_world_def)
qed

lemma group_deletion_class: "classify_group_event group_deletion group_limits_default = Ok (Moderation 9008 ''welcome'')"
  using sample_moderation_class [of "[]" 9008] by (simp add: named_values_def kind_set_iffs)

lemma group_deletion_checked:
  "service_check_event env one_group_world group_deletion (Moderation 9008 ''welcome'') {sample_key} = Ok ()"
proof -
  have world: "sv_projection (gw_service one_group_world) = one_group"
    "sv_authority (gw_service one_group_world) = authority_new [sample_key] []"
    "sv_policy (gw_service one_group_world) = group_policy_strict"
    by (simp_all add: one_group_world_def sample_world_def)
  have "is_admin (authority_new [sample_key] []) sample_key"
    by (simp add: is_admin_def is_owner_def authority_new_def)
  then show ?thesis
    by (simp add: service_check_event_def world check_event_def require_group_auth_as_author_def view_pubkey_def
        check_moderation_event_def one_group_active required_capability_def require_capability_def
        check_runtime_write_constraints_def Let_def)
qed

definition deleted_group :: group_projection where
  "deleted_group = (let tuple = OrderTuple 1714124433 (replicate 64 CHR ''a'') 16 in
     one_group\<lparr>gp_groups := bt_insert ''welcome'' (mark_deleted 1714124433 (replicate 64 CHR ''a'') tuple
         (group_state_new ''welcome'' group_metadata_empty sample_key sample_id (OrderTuple 0 sample_id 0))) (gp_groups one_group),
       gp_tombstones := [(''welcome'', \<lparr>ts_group_id = ''welcome'', ts_delete_event_id = replicate 64 CHR ''a'',
         ts_deleted_at = 1714124433, ts_deleted_by = sample_key, ts_last_tuple = tuple\<rparr>)]\<rparr>)"

lemma group_deletion_applied: "apply_canonical_event group_deletion 16 group_limits_default one_group = Ok (Applied, deleted_group)"
proof -
  have view: "view_id group_deletion = Ok (replicate 64 CHR ''a'')" "view_pubkey group_deletion = Ok sample_key"
    using view_simps(1) [OF sample_pocket_event_ok, of 9008] by (simp_all add: sample_pocket_event_def view_pubkey_def)
  show ?thesis
    by (simp add: apply_canonical_event_def group_deletion_class order_tuple_from_event_view_def view
      apply_moderation_event_def view_created_at_def deleted_group_def Let_def del: view_Ok_iff)
qed

lemma deleted_group_entries:
  "\<exists>grp. gp_group deleted_group ''welcome'' = Some grp" "\<exists>t. gp_tombstone deleted_group ''welcome'' = Some t"
  "gp_members deleted_group = []" "gp_roles deleted_group = []" "gp_event_deletions deleted_group = []"
  by (simp_all add: deleted_group_def gp_group_def gp_tombstone_def Let_def bt_simps)

lemma deleted_group_persisted:
  "\<exists>st'. persist_group_projection accepting_env deleted_group ''welcome'' st = Some (Ok (), st')"
proof -
  obtain grp t where entries: "gp_group deleted_group ''welcome'' = Some grp" "gp_tombstone deleted_group ''welcome'' = Some t"
    using deleted_group_entries by blast
  have env: "sh_db (re_store accepting_env) = sample_db\<lparr>db_store_event := (\<lambda>e st. (Ok 16, st(''events'' := [(pe_id e, [])])))\<rparr>"
    "sh_sync_policy (re_store accepting_env) = FlushOnWrite"
    "pc_group (re_codecs accepting_env) = accepting_codec" "pc_tombstone (re_codecs accepting_env) = accepting_codec"
    by (simp_all add: accepting_env_def)
  have put: "put_extra_record (re_store accepting_env) table key v st
      = Some (Ok (), st(table := bt_insert key v (st table)))" for table key v st
    by (simp add: put_extra_record_def table_write_def extra_table_def env sync_after_write_def store_sync_def act_bind_def
        act_map_err_def act_prim_def table_apply_def sample_db_def)
  show ?thesis
    by (simp add: persist_group_projection_def entries deleted_group_entries put_group_entry_def put_tombstone_entry_def
        put_encoded_def group_state_to_json_bytes_def group_tombstone_to_json_bytes_def encode_document_def env
        accepting_codec_def base_store_def act_map_err_def put act_bind_def from_group_def)
qed

lemma group_deletion_stored:
  "\<exists>w'. store_group_pocket_event accepting_env group_deletion (Moderation 9008 ''welcome'') {sample_key} one_group_world
     = Some (Ok (StoredAt [16]), w') \<and> world_projection w' = deleted_group"
proof -
  have env: "event_by_id (re_store accepting_env) i st = Ok None"
    "store_event (re_store accepting_env) e st = Some (Ok 16, st(''events'' := [(pe_id e, [])]))" for i e st
    by (simp_all add: accepting_env_def event_by_id_def store_event_def sync_after_write_def store_sync_def act_bind_def
        act_prim_def sample_db_def)
  let ?st = "(gw_store one_group_world)(''events'' := [(pe_id group_deletion, [])])"
  obtain st' where persist: "persist_group_projection accepting_env deleted_group ''welcome'' ?st = Some (Ok (), st')"
    using deleted_group_persisted by blast
  have world: "world_projection one_group_world = one_group" "world_limits one_group_world = group_limits_default"
    "world_outbox one_group_world = outbox_new"
    by (simp_all add: one_group_world_def sample_world_def)
  have plan: "replay_plan_for_group outbox_new ''welcome'' = []"
    by (simp add: replay_plan_for_group_def replay_plan_matching_def outbox_new_def)
  show ?thesis
    by (simp add: store_group_pocket_event_def group_deletion_checked env base_store_def in_store_def act_on_def
        act_map_err_def act_bind_def after_source_event_stored_def membership_admin_snapshot_state_def
        group_deletion_applied world persist plan_outbox_records_def plan_group_outbox_records_def
        materialize_outbox_for_group_def materialize_loop.simps plan from_group_def Let_def)
qed

text \<open>The owner's event deletes the group: it is stored, and the group has a tombstone.\<close>

theorem store_group_event_invariant_witness:
  "\<exists>w'. store_group_pocket_event accepting_env group_deletion (Moderation 9008 ''welcome'') {sample_key} one_group_world
       = Some (Ok (StoredAt [16]), w')
     \<and> gp_tombstone (world_projection one_group_world) ''welcome'' = None
     \<and> gp_tombstone (world_projection w') ''welcome'' \<noteq> None \<and> world_wf w'"
proof -
  obtain w' where run: "store_group_pocket_event accepting_env group_deletion (Moderation 9008 ''welcome'') {sample_key}
      one_group_world = Some (Ok (StoredAt [16]), w')" "world_projection w' = deleted_group"
    using group_deletion_stored by blast
  have "world_wf w'" by (rule store_group_event_invariant [OF one_group_world_wf run(1)])
  moreover have "gp_tombstone (world_projection one_group_world) ''welcome'' = None"
    by (simp add: one_group_world_def)
  ultimately show ?thesis using run deleted_group_entries(2) by auto
qed

theorem rejected_event_changes_nothing_witness:
  "service_check_event sample_env sample_world (sample_target_event 9000) (Moderation 9000 ''welcome'') {sample_key}
     = Err non_enumerating_group_error"
  using rejected_event_changes_nothing [OF sample_rejected] by simp

end
