(* ===== verification/Runtime_Conflicts.thy ===== *)
theory Runtime_Conflicts
  imports Runtime_Facts
begin

text \<open>
  Where the group service does not do what it means to do, shown on concrete events: planning again
  at start-up does not reproduce what was planned when the events arrived, a metadata edit loses
  against the relay's own snapshot of an older edit, and a group id longer than 128 bytes is
  accepted but cannot be read back.
\<close>

section \<open>Planning depends on the order of arrival\<close>

text \<open>A moderator's event that adds one member, with a chosen id; all have the same time.\<close>

definition put_user_event :: "event_id \<Rightarrow> public_key_hex \<Rightarrow> pocket_event" where
  "put_user_event i target =
     (sample_pocket_event 9000 [[''h'', ''welcome''], [''p'', target]])\<lparr>pe_id := i\<rparr>"

lemma put_user_event_simps [simp]:
  "pe_id (put_user_event i t) = i" "pe_pubkey (put_user_event i t) = sample_key"
  "kind_u32 (put_user_event i t) = 9000" "view_created_at (put_user_event i t) = 1714124433"
  "view_pubkey (put_user_event i t) = Ok sample_key"
  by (simp_all add: put_user_event_def sample_pocket_event_def kind_u32_def view_created_at_def
      view_pubkey_def lower_hex_replicate)

lemma put_user_event_ok [simp]: "valid_event_id i \<Longrightarrow> pocket_event_ok (put_user_event i t)"
  by (simp add: pocket_event_ok_def lower_hex_replicate)

lemma put_user_event_visit:
  assumes "valid_pubkey t"
  shows "visit_tags (put_user_event i t) f s
     = and_then (f s [''h'', ''welcome'']) (\<lambda>s. and_then (f s [''p'', t]) Ok)"
proof -
  have "visit_tags (put_user_event i t) f s
      = visit_tags (sample_pocket_event 9000 [[''h'', ''welcome''], [''p'', t]]) f s"
    by (simp add: visit_tags_def put_user_event_def)
  also have "\<dots> = try_fold f s [[''h'', ''welcome''], [''p'', t]]"
    using lower_hex_ascii [OF assms] by (intro sample_visit) (simp add: is_ascii_def byte_def)
  finally show ?thesis by simp
qed

lemma put_user_event_class:
  assumes "valid_pubkey t"
  shows "classify_group_event (put_user_event i t) group_limits_default = Ok (Moderation 9000 ''welcome'')"
  using assms
  by (simp add: classify_group_event_def kind_set_iffs require_group_tag_def extract_group_tag_def
      put_user_event_visit extract_group_tag_visit_def view_indexed_pair_def values_get_def
      group_limits_default_def welcome_within is_indexable_name_def is_ascii_alphabetic_def
      is_ascii_uppercase_def byte_def)

lemma put_user_event_target:
  assumes "valid_pubkey t"
  shows "first_tag_value (put_user_event i t) ''p'' = Ok t"
    and "membership_target_pubkey (put_user_event i t) = Ok t"
    and "role_tags (put_user_event i t) = Ok {}" and "has_role_tag (put_user_event i t) = Ok False"
  using assms
  by (simp_all add: first_tag_value_def membership_target_pubkey_def role_tags_def has_role_tag_def
      put_user_event_visit first_tag_visit_def membership_target_visit_def role_tag_visit_def
      view_indexed_pair_def values_get_def)

definition put_user_member :: "event_id \<Rightarrow> public_key_hex \<Rightarrow> store_offset \<Rightarrow> member_state" where
  "put_user_member i t off = \<lparr>ms_pubkey = t, ms_status = Member, ms_roles = {},
     ms_last_event_id = i, ms_last_tuple = OrderTuple 1714124433 i off\<rparr>"

lemma put_user_event_apply:
  assumes "valid_event_id i" and "valid_pubkey t"
  shows "apply_canonical_event (put_user_event i t) off group_limits_default p
     = Ok (Applied, put_member ''welcome'' (put_user_member i t off) p)"
proof -
  have "view_id (put_user_event i t) = Ok i" unfolding view_simps(1) [OF put_user_event_ok [OF assms(1)]] by simp
  then show ?thesis
    using put_user_event_target [OF assms(2)] assms(2)
    by (simp add: apply_canonical_event_def put_user_event_class order_tuple_from_event_view_def
        apply_moderation_event_def apply_member_status_def put_user_member_def Let_def del: view_Ok_iff)
qed

lemma put_user_event_accepted:
  assumes "require_active_group p ''welcome'' = Ok grp" and "is_admin a sample_key" and "valid_pubkey t"
  shows "check_event p a policy (put_user_event i t) (Moderation 9000 ''welcome'') {sample_key} = Ok Accept"
  using assms put_user_event_target(4) [OF assms(3), of i]
  by (simp add: check_event_def require_group_auth_as_author_def check_moderation_event_def
      required_capability_def require_capability_def)

definition member_record :: "event_id \<Rightarrow> public_key_hex list \<Rightarrow> group_outbox_record" where
  "member_record i members = outbox_record_pending (OutboxKey i MemberListSnapshot ''welcome'' None)
     (payload_new 39002 1714124433 ([''d'', ''welcome''] # map (\<lambda>pk. [''p'', pk]) members) [])"

lemma put_user_event_plan:
  assumes "valid_event_id i" and "valid_pubkey t"
    and "p = put_member ''welcome'' (put_user_member i t off) p0"
    and "gp_member p0 ''welcome'' t = None"
    and "length (member_list_pubkeys ''welcome'' p) \<le> unat cap"
  shows "plan_group_outbox_records api (put_user_event i t) (Moderation 9000 ''welcome'') p a cap (Some False)
     = Ok [member_record i (member_list_pubkeys ''welcome'' p)]"
proof -
  note id = view_simps(1) [OF put_user_event_ok [OF assms(1)]]
  have "gp_member p ''welcome'' t = Some (put_user_member i t off)"
    using assms(3,4) by (simp add: put_member_def gp_member_def put_user_member_def bt_simps)
  then have "\<not> member_is_relay_override_admin p ''welcome'' t"
    by (simp add: member_is_relay_override_admin_def put_user_member_def)
  then show ?thesis
    using put_user_event_target [OF assms(2)] assms(5)
    by (simp add: id plan_group_outbox_records_def member_snapshot_records_def member_snapshot_record_def
        member_list_snapshot_payload_def member_record_def Let_def)
qed

lemma replicate_less: "0 < n \<Longrightarrow> a < b \<Longrightarrow> replicate n a < replicate n (b :: char)"
  by (cases n) simp_all

text \<open>The first event to arrive has the greater id.\<close>

abbreviation first_arrival :: pocket_event where
  "first_arrival \<equiv> put_user_event (replicate 64 CHR ''c'') (replicate 64 CHR ''1'')"

abbreviation second_arrival :: pocket_event where
  "second_arrival \<equiv> put_user_event (replicate 64 CHR ''a'') (replicate 64 CHR ''2'')"

lemma arrivals_valid [simp]:
  "valid_event_id (replicate 64 CHR ''c'')" "valid_event_id (replicate 64 CHR ''a'')"
  "valid_pubkey (replicate 64 CHR ''1'')" "valid_pubkey (replicate 64 CHR ''2'')"
  by (simp_all add: lower_hex_replicate)

lemma put_member_empty:
  "gp_members p = [] \<Longrightarrow> gp_members (put_member g m p) = [((g, ms_pubkey m), m)]"
  by (simp add: put_member_def)

lemma put_member_group [simp]:
  "require_active_group (put_member g m p) h = require_active_group p h"
proof -
  have "gp_group (put_member g m p) h = gp_group p h" "gp_tombstone (put_member g m p) h = gp_tombstone p h"
    by (simp_all add: put_member_def gp_group_def gp_tombstone_def Let_def)
  then show ?thesis by (simp only: require_active_group_def)
qed

lemma arrivals_members:
  fixes p :: group_projection and o1 o2 :: store_offset
  assumes "gp_members p = []"
  defines "p1 \<equiv> put_member ''welcome'' (put_user_member (replicate 64 CHR ''c'') (replicate 64 CHR ''1'') o1) p"
  defines "p2 \<equiv> put_member ''welcome'' (put_user_member (replicate 64 CHR ''a'') (replicate 64 CHR ''2'') o2) p1"
  shows "gp_member p1 ''welcome'' (replicate 64 CHR ''2'') = None"
    and "member_list_pubkeys ''welcome'' p2 = [replicate 64 CHR ''1'', replicate 64 CHR ''2'']"
proof -
  have neq: "replicate 64 CHR ''2'' \<noteq> replicate 64 CHR ''1''" by (simp add: numeral_eq_Suc)
  have p1: "gp_members p1 = [((''welcome'', replicate 64 CHR ''1''),
      put_user_member (replicate 64 CHR ''c'') (replicate 64 CHR ''1'') o1)]"
    unfolding p1_def put_member_empty [OF assms(1)] by (simp add: put_user_member_def)
  show "gp_member p1 ''welcome'' (replicate 64 CHR ''2'') = None"
    using neq by (simp add: gp_member_def p1)
  have "replicate 64 CHR ''1'' < replicate 64 CHR ''2''" by (rule replicate_less) (simp_all add: less_char_def)
  then have "\<not> replicate 64 CHR ''2'' \<le> replicate 64 CHR ''1''" "replicate 64 CHR ''1'' \<le> replicate 64 CHR ''2''"
    by (simp_all only: not_le less_imp_le)
  then show "member_list_pubkeys ''welcome'' p2 = [replicate 64 CHR ''1'', replicate 64 CHR ''2'']"
    using neq unfolding p2_def by (simp add: put_member_def p1 member_list_pubkeys_def put_user_member_def Let_def)
qed

subsection \<open>The replay at start-up\<close>

text \<open>Only the events that add or remove a user change the members.\<close>

lemma apply_keeps_members:
  assumes "apply_canonical_event e off limits p = Ok (outcome, p')"
    and "kind_u32 e \<noteq> KIND_GROUP_PUT_USER" and "kind_u32 e \<noteq> KIND_GROUP_REMOVE_USER"
  shows "gp_members p' = gp_members p"
proof -
  have "gp_members p' = gp_members p" if "apply_moderation_event g e t limits p = Ok (outcome, p')" for g t
    using that assms(2,3)
    by (auto simp: apply_moderation_event_def put_group_def put_event_deletion_def Let_def result_iffs
        split: if_splits option.splits)
  moreover have "gp_members p' = gp_members p" if "apply_snapshot_event g k e t limits p = Ok (outcome, p')" for g k t
    using that
    by (auto simp: apply_snapshot_event_def put_group_def Let_def result_iffs split: if_splits option.splits)
  moreover obtain cls t where "(case cls of NonGroup \<Rightarrow> Ok (projection_apply_outcome.Skipped, p) | NormalEvent _ \<Rightarrow> Ok (Ignored, p)
      | Moderation _ g \<Rightarrow> apply_moderation_event g e t limits p
      | RelayGeneratedSnapshot k g \<Rightarrow> apply_snapshot_event g k e t limits p) = Ok (outcome, p')"
    using assms(1) by (auto simp: apply_canonical_event_def and_then_Ok_iff)
  ultimately show ?thesis by (cases cls) auto
qed

text \<open>What the replay leaves alone: the settings it uses and a payload that the outbox holds.\<close>

definition owes_payload ::
  "group_outbox_key \<Rightarrow> group_outbox_payload \<Rightarrow> u32 \<Rightarrow> public_key_hex \<Rightarrow> ('t, 'st) group_world \<Rightarrow> bool" where
  "owes_payload k payload cap relay_pubkey w \<longleftrightarrow>
     (\<exists>r. outbox_get (world_outbox w) k = Some r \<and> or_payload r = payload)
     \<and> world_limits w = group_limits_default \<and> sv_member_snapshot_cap (gw_service w) = cap
     \<and> gb_relay_pubkey (sv_builder (gw_service w)) = relay_pubkey"

lemma merge_keeps_payload:
  assumes "merge_idempotent r ob = Ok (inserted, ob')" and "outbox_get ob k = Some r0"
  shows "outbox_get ob' k = Some r0"
  using assms by (auto simp: merge_idempotent_def outbox_get_def bt_simps split: option.splits if_splits)

lemma keeps_owes_payload: "act_keeps (owes_payload k payload cap relay_pubkey) (derive_visit env author q c)"
proof -
  have merge: "act_keeps (owes_payload k payload cap relay_pubkey) (merge_and_persist env r)" for r
    unfolding merge_and_persist_def case_prod_beta
    by (intro act_intros act_keeps_read_modify)
       (auto simp: owes_payload_def set_outbox_def dest: merge_keeps_payload)
  show ?thesis
    unfolding derive_visit_def by (intro act_intros merge)
qed

lemma total_derive_visit: "act_total (derive_visit env author q c)"
  unfolding derive_visit_def merge_and_persist_def in_store_def
  by (intro act_intros total_persist)

lemma derive_visit_members:
  assumes "derive_visit env author q c w = Some (Ok q', w')"
    and "kind_u32 (ce_event c) \<noteq> KIND_GROUP_PUT_USER" and "kind_u32 (ce_event c) \<noteq> KIND_GROUP_REMOVE_USER"
  shows "gp_members q' = gp_members q"
proof -
  from assms(1) obtain outcome where
    "apply_canonical_event (ce_event c) (ce_store_offset c) (world_limits w) q = Ok (outcome, q')"
    by (auto simp: derive_visit_def act_bind_iff map_ok_snd_Ok split: if_splits dest!: map_ok_snd_Ok)
  then show ?thesis using assms(2,3) by (rule apply_keeps_members)
qed

text \<open>The record that the second event owed when it arrived, and the one it owes on a group without members.\<close>

abbreviation owed_on_arrival :: group_outbox_record where
  "owed_on_arrival \<equiv> member_record (replicate 64 CHR ''a'') [replicate 64 CHR ''1'', replicate 64 CHR ''2'']"

abbreviation second_stored :: "store_offset \<Rightarrow> canonical_group_event" where
  "second_stored off \<equiv> \<lparr>ce_event = second_arrival, ce_store_offset = off\<rparr>"

lemma second_visit_conflicts:
  assumes "owes_payload (or_key owed_on_arrival) (or_payload owed_on_arrival) cap author w" and "1 \<le> unat cap"
    and "gp_members q = []" and "author \<noteq> sample_key"
  shows "derive_visit env author q (second_stored off) w
     = Some (Err (base_error ''error: outbox record key already exists with different payload''), w)"
proof -
  let ?a = "replicate 64 CHR ''a''"
  let ?m = "put_user_member ?a (replicate 64 CHR ''2'') off"
  let ?q = "put_member ''welcome'' ?m q"
  from assms(1) obtain r0 where stored: "outbox_get (world_outbox w) (or_key owed_on_arrival) = Some r0"
    "or_payload r0 = or_payload owed_on_arrival"
    and w: "world_limits w = group_limits_default" "sv_member_snapshot_cap (gw_service w) = cap"
    by (auto simp: owes_payload_def)
  have none: "gp_member q ''welcome'' (replicate 64 CHR ''2'') = None"
    by (simp add: gp_member_def assms(3))
  have one: "length (member_list_pubkeys ''welcome'' ?q) = 1"
    unfolding member_list_pubkeys_def put_member_empty [OF assms(3)] by (simp add: put_user_member_def)
  have replanned: "plan_group_outbox_records (gb_api (sv_builder (gw_service w))) second_arrival
      (Moderation 9000 ''welcome'') ?q (sv_authority (gw_service w)) cap (Some False)
      = Ok [member_record ?a (member_list_pubkeys ''welcome'' ?q)]" (is "_ = Ok [?s]")
    by (rule put_user_event_plan [OF _ _ refl none]) (use one assms(2) in simp_all)
  have "or_payload ?s \<noteq> or_payload owed_on_arrival"
    using one by (auto simp: member_record_def payload_new_def dest!: map_injective [OF _ injI])
  then have merge: "merge_idempotent ?s (world_outbox w)
      = Err (error_internal ''outbox record key already exists with different payload'')"
    using stored by (simp add: merge_idempotent_def outbox_get_def member_record_def)
  have before: "membership_admin_snapshot_state q second_arrival (Moderation 9000 ''welcome'') = Ok (Some False)"
    by (simp add: membership_admin_snapshot_state_def put_user_event_target
        member_is_relay_override_admin_def none)
  show ?thesis
    using assms(4)
    by (simp add: derive_visit_def w put_user_event_class before put_user_event_apply
        replanned merge_and_persist_def merge from_group_def base_from_group_error_def error_defs
        prefixed_message_def)
qed

lemma arrivals_order:
  "ce_tuple (second_stored off) < ce_tuple \<lparr>ce_event = first_arrival, ce_store_offset = off1\<rparr>"
  using replicate_less [of 64 "CHR ''a''" "CHR ''c''"]
  by (simp add: ce_tuple_def less_projection_order_tuple_def ot_key_def less_char_def)

text \<open>The replay of a log without an earlier change of the members fails at the second event, if not before.\<close>

lemma replay_fails:
  assumes "1 \<le> unat cap" and "author \<noteq> sample_key"
    and "\<forall>c\<in>set before. kind_u32 (ce_event c) \<noteq> KIND_GROUP_PUT_USER \<and> kind_u32 (ce_event c) \<noteq> KIND_GROUP_REMOVE_USER"
  shows "owes_payload (or_key owed_on_arrival) (or_payload owed_on_arrival) cap author w \<Longrightarrow> gp_members q = [] \<Longrightarrow>
    \<exists>error w'. act_try_fold (derive_visit env author) q (before @ second_stored off # after) w = Some (Err error, w')"
  using assms(3)
proof (induction before arbitrary: q w)
  case Nil
  then show ?case using second_visit_conflicts [OF Nil.prems(1) assms(1) Nil.prems(2) assms(2)] by simp
next
  case (Cons c before)
  obtain r w' where visit: "derive_visit env author q c w = Some (r, w')"
    using act_totalD [OF total_derive_visit] by blast
  show ?case
  proof (cases r)
    case (Inl error)
    with visit show ?thesis by simp
  next
    case (Inr q')
    have "gp_members q' = []"
      using derive_visit_members [OF visit [unfolded Inr]] Cons.prems(2,3) by simp
    moreover have "owes_payload (or_key owed_on_arrival) (or_payload owed_on_arrival) cap author w'"
      using act_keepsD [OF keeps_owes_payload Cons.prems(1) visit] .
    ultimately show ?thesis using Cons.IH [of w' q'] Cons.prems(3) visit Inr by simp
  qed
qed

lemma sorted_log_split:
  fixes f :: "'a \<Rightarrow> 'b :: linorder"
  assumes "x \<in> set xs" and "\<forall>y\<in>set xs. f y \<le> f x \<longrightarrow> y = x \<or> P y"
  shows "\<exists>before after. sort_key f xs = before @ x # after \<and> (\<forall>y\<in>set before. P y)"
proof -
  obtain before after where split: "sort_key f xs = before @ x # after" "x \<notin> set before"
    using assms(1) split_list_first [of x "sort_key f xs"] by auto
  have "P y" if "y \<in> set before" for y
  proof -
    have "sorted (map f (before @ x # after))" using sorted_sort_key [of f xs] split(1) by simp
    then have "f y \<le> f x" using that by (auto simp: sorted_append)
    moreover have "y \<in> set xs" using that split(1) by (metis Un_iff set_append set_sort)
    ultimately show ?thesis using assms(2) that split(2) by blast
  qed
  with split(1) show ?thesis by blast
qed

lemma start_fails:
  assumes "gr_enabled config" and "gr_relay_secret config = Some secret" and "re_builder_from_secret env secret = Ok builder"
    and "gb_relay_pubkey builder \<noteq> sample_key" and "gs_limits (gr_settings config) = group_limits_default"
    and "load_group_storage env group_limits_default st = Some (Ok storage, st1)"
    and "outbox_get (gss_outbox storage) (or_key owed_on_arrival) = Some r0" and "or_payload r0 = or_payload owed_on_arrival"
    and "scan_canonical_group_events env group_limits_default st1 = Some (Ok scan, st2)"
    and "second_stored off \<in> set (cs_events scan)"
    and "\<forall>c\<in>set (cs_events scan). ce_tuple c \<le> ce_tuple (second_stored off) \<longrightarrow>
       c = second_stored off \<or> kind_u32 (ce_event c) \<noteq> KIND_GROUP_PUT_USER \<and> kind_u32 (ce_event c) \<noteq> KIND_GROUP_REMOVE_USER"
  shows "\<exists>error st'. service_from_config env config st = Some (Err error, st')"
proof -
  let ?w = "\<lparr>gw_service = initial_service builder config storage, gw_store = st1\<rparr>"
  let ?cap = "gl_max_member_list_pubkeys group_limits_default"
  have world: "world_limits ?w = group_limits_default" "world_outbox ?w = gss_outbox storage"
    "sv_builder (gw_service ?w) = builder" "sv_member_snapshot_cap (gw_service ?w) = ?cap"
    by (simp_all add: initial_service_def assms(5))
  obtain before after where split: "sort_key ce_tuple (cs_events scan) = before @ second_stored off # after"
    "\<forall>c\<in>set before. kind_u32 (ce_event c) \<noteq> KIND_GROUP_PUT_USER \<and> kind_u32 (ce_event c) \<noteq> KIND_GROUP_REMOVE_USER"
    using sorted_log_split [OF assms(10,11)] by blast
  have owes: "owes_payload (or_key owed_on_arrival) (or_payload owed_on_arrival) ?cap (gb_relay_pubkey builder)
      (?w\<lparr>gw_store := st2\<rparr>)"
    using world assms(7,8) by (simp add: owes_payload_def)
  have "1 \<le> unat ?cap" by (simp add: group_limits_default_def)
  moreover have "gp_members projection_new = []" by (simp add: projection_new_def)
  ultimately obtain error w' where "act_try_fold (derive_visit env (gb_relay_pubkey builder)) projection_new
      (sort_key ce_tuple (cs_events scan)) (?w\<lparr>gw_store := st2\<rparr>) = Some (Err error, w')"
    unfolding split(1) using replay_fails [OF _ assms(4) split(2) owes] by blast
  then have "derive_missing_outbox_records env ?w = Some (Err error, w')"
    using assms(9) world by (simp add: derive_missing_outbox_records_def in_store_def act_on_def)
  then show ?thesis
    using assms(1-3,5,6) by (simp add: service_from_config_def run_service_def)
qed

text \<open>
  Claim C34. A moderator adds two members to a group without members in the same second, and the event
  that arrives first has the greater id. Both events are accepted and applied, and the second owes a
  member list snapshot with both members. When the service starts again from a store that holds
  this record and whose log has no other change of members before the second event in tuple order,
  \<open>service_from_config\<close> returns an error, so the relay cannot start: the replay
  of \<open>derive_missing_outbox_records\<close> reaches the second event before the first and plans a snapshot with
  one member under the key of the stored record.
\<close>

theorem replanned_snapshot_blocks_restart:
  assumes "require_active_group p ''welcome'' = Ok grp" and "gp_members p = []"
    and "is_admin (authority_new (gr_owner_pubkeys config) (gr_admin_pubkeys config)) sample_key"
    and "gr_enabled config" and "gr_relay_secret config = Some secret" and "re_builder_from_secret env secret = Ok builder"
    and "gb_relay_pubkey builder \<noteq> sample_key" and "gs_limits (gr_settings config) = group_limits_default"
    and "load_group_storage env group_limits_default st = Some (Ok storage, st1)"
    and "outbox_get (gss_outbox storage) (or_key owed_on_arrival) = Some r0" and "or_payload r0 = or_payload owed_on_arrival"
    and "scan_canonical_group_events env group_limits_default st1 = Some (Ok scan, st2)"
    and "second_stored off \<in> set (cs_events scan)"
    and "\<forall>c\<in>set (cs_events scan). ce_tuple c \<le> ce_tuple (second_stored off) \<longrightarrow>
       c = second_stored off \<or> kind_u32 (ce_event c) \<noteq> KIND_GROUP_PUT_USER \<and> kind_u32 (ce_event c) \<noteq> KIND_GROUP_REMOVE_USER"
  shows "\<exists>p1 p2 error st'.
     check_event p (authority_new (gr_owner_pubkeys config) (gr_admin_pubkeys config)) (gs_policy (gr_settings config))
       first_arrival (Moderation 9000 ''welcome'') {sample_key} = Ok Accept
     \<and> apply_canonical_event first_arrival off1 group_limits_default p = Ok (Applied, p1)
     \<and> check_event p1 (authority_new (gr_owner_pubkeys config) (gr_admin_pubkeys config)) (gs_policy (gr_settings config))
         second_arrival (Moderation 9000 ''welcome'') {sample_key} = Ok Accept
     \<and> apply_canonical_event second_arrival off group_limits_default p1 = Ok (Applied, p2)
     \<and> plan_group_outbox_records (gb_api builder) second_arrival (Moderation 9000 ''welcome'') p2
         (authority_new (gr_owner_pubkeys config) (gr_admin_pubkeys config))
         (gl_max_member_list_pubkeys group_limits_default) (Some False) = Ok [owed_on_arrival]
     \<and> ce_tuple (second_stored off) < ce_tuple \<lparr>ce_event = first_arrival, ce_store_offset = off1\<rparr>
     \<and> service_from_config env config st = Some (Err error, st')"
proof -
  let ?p1 = "put_member ''welcome'' (put_user_member (replicate 64 CHR ''c'') (replicate 64 CHR ''1'') off1) p"
  let ?p2 = "put_member ''welcome'' (put_user_member (replicate 64 CHR ''a'') (replicate 64 CHR ''2'') off) ?p1"
  have planned: "plan_group_outbox_records (gb_api builder) second_arrival (Moderation 9000 ''welcome'') ?p2
      (authority_new (gr_owner_pubkeys config) (gr_admin_pubkeys config))
      (gl_max_member_list_pubkeys group_limits_default) (Some False) = Ok [owed_on_arrival]"
  proof -
    have "plan_group_outbox_records (gb_api builder) second_arrival (Moderation 9000 ''welcome'') ?p2
        (authority_new (gr_owner_pubkeys config) (gr_admin_pubkeys config))
        (gl_max_member_list_pubkeys group_limits_default) (Some False)
        = Ok [member_record (replicate 64 CHR ''a'') (member_list_pubkeys ''welcome'' ?p2)]"
      by (rule put_user_event_plan [OF _ _ refl arrivals_members(1) [OF assms(2)]])
         (simp_all add: arrivals_members(2) [OF assms(2)] group_limits_default_def)
    then show ?thesis by (simp only: arrivals_members(2) [OF assms(2)])
  qed
  obtain error st' where "service_from_config env config st = Some (Err error, st')"
    using start_fails [OF assms(4-14)] by blast
  then show ?thesis
    by (intro exI [of _ ?p1] exI [of _ ?p2] exI [of _ error] exI [of _ st'] conjI)
       (use assms in \<open>simp_all add: put_user_event_accepted put_user_event_apply planned arrivals_order\<close>)
qed

definition empty_group_projection :: group_projection where
  "empty_group_projection = sample_projection\<lparr>gp_members := []\<rparr>"

lemma empty_group_projection_simps [simp]:
  "gp_members empty_group_projection = []"
  "gp_group empty_group_projection ''welcome'' = Some (group_state_new ''welcome'' group_metadata_empty
     sample_key sample_id (OrderTuple 0 sample_id 0))"
  "require_active_group empty_group_projection ''welcome'' = Ok (group_state_new ''welcome''
     group_metadata_empty sample_key sample_id (OrderTuple 0 sample_id 0))"
proof -
  have "gp_group empty_group_projection g = gp_group sample_projection g"
    "gp_tombstone empty_group_projection g = gp_tombstone sample_projection g" for g
    by (simp_all only: empty_group_projection_def gp_group_def gp_tombstone_def) simp_all
  then show "gp_group empty_group_projection ''welcome'' = Some (group_state_new ''welcome''
      group_metadata_empty sample_key sample_id (OrderTuple 0 sample_id 0))"
    "require_active_group empty_group_projection ''welcome'' = Ok (group_state_new ''welcome''
      group_metadata_empty sample_key sample_id (OrderTuple 0 sample_id 0))"
    by (simp_all add: require_active_group_Ok) (simp add: group_state_new_def)
qed (simp add: empty_group_projection_def)

text \<open>A codec that knows one document.\<close>

definition one_document_codec :: "'d \<Rightarrow> string \<Rightarrow> 'd codec" where
  "one_document_codec d raw = \<lparr>cd_to_vec = (\<lambda>x. if x = d then Ok raw else Err ''unsupported''),
     cd_from_slice = (\<lambda>x. if x = raw then Ok d else Err ''unsupported'')\<rparr>"

lemma one_document_codec_lawful: "codec_lawful (one_document_codec d raw)"
  by (simp add: codec_lawful_def one_document_codec_def)

text \<open>
  A store after a run of the relay: its log holds the creation of the group and the two events in the
  order of arrival, its outbox table the record that the second event owed, and its checkpoint is current.
\<close>

definition group_creation :: pocket_event where
  "group_creation = (sample_pocket_event 9007 [[''h'', ''welcome'']])\<lparr>pe_id := replicate 64 CHR ''0''\<rparr>"

definition restart_db :: "table_state pocket_db" where
  "restart_db = sample_db\<lparr>
     db_event_by_offset := (\<lambda>st off. if off = 8 then Ok group_creation else if off = 16 then Ok first_arrival
       else if off = 24 then Ok second_arrival else Err ''no event''),
     db_event_bytes := (\<lambda>st. Ok 32)\<rparr>"

definition restart_tables :: table_state where
  "restart_tables = (\<lambda>_. [])(TANGLE_GROUP_OUTBOX_TABLE := [(''key'', ''record'')],
     TANGLE_GROUP_CHECKPOINT_TABLE := [(projection_checkpoint_key, ''checkpoint'')])"

definition restart_env :: "(string list list, table_state) runtime_env" where
  "restart_env = sample_env\<lparr>
     re_store := sample_store\<lparr>sh_db := restart_db\<rparr>,
     re_codecs := sample_codecs\<lparr>pc_checkpoint := one_document_codec
       (projection_checkpoint_document_from (checkpoint_current (Some 24) 0)) ''checkpoint''\<rparr>,
     re_outbox_codec := one_document_codec (outbox_record_document_from owed_on_arrival) ''record''\<rparr>"

definition restart_config :: group_runtime_config where
  "restart_config = group_runtime_config_disabled\<lparr>gr_enabled := True, gr_relay_secret := Some ''secret'',
     gr_owner_pubkeys := [sample_key]\<rparr>"

lemma restart_db_simps [simp]:
  "db_event_by_offset restart_db st off = (if off = 8 then Ok group_creation else if off = 16 then Ok first_arrival
       else if off = 24 then Ok second_arrival else Err ''no event'')"
  "db_event_bytes restart_db st = Ok 32" "db_event_len restart_db e = 8" "db_has_table restart_db t"
  "db_table_get restart_db t k st = Ok (bt_get (st t) k)" "db_table_scan restart_db t st = Ok (st t)"
  "sh_db (re_store restart_env) = restart_db"
  by (simp_all add: restart_db_def restart_env_def)

lemma restart_next: "off \<in> {8, 16, 24} \<Longrightarrow> next_event_offset restart_db off e = Ok (off + 8)"
  by (elim insertE) (simp_all add: next_event_offset_def checked_add_def align_event_offset_def)

lemma restart_scans:
  "scan_events_after (re_store restart_env) None st
     = Some (Ok [(8, group_creation), (16, first_arrival), (24, second_arrival)], st)"
  "scan_events_after (re_store restart_env) (Some 24) st = Some (Ok [], st)"
  by (simp_all add: scan_events_after_def scan_start_def event_map_start_offset_def scan_events_loop.simps
      restart_next)

lemma group_creation_visit:
  "visit_tags group_creation f s = visit_tags (sample_pocket_event 9007 [[''h'', ''welcome'']]) f s"
  "kind_u32 group_creation = kind_u32 (sample_pocket_event 9007 [[''h'', ''welcome'']])"
  by (simp_all add: visit_tags_def group_creation_def kind_u32_def)

lemma group_creation_class:
  "classify_group_event group_creation group_limits_default = Ok (Moderation 9007 ''welcome'')"
proof -
  have "extract_group_tag group_creation TagH group_limits_default
      = extract_group_tag (sample_pocket_event 9007 [[''h'', ''welcome'']]) TagH group_limits_default"
    by (simp add: extract_group_tag_def group_creation_visit)
  then show ?thesis
    using sample_h_extract [of "[]" 9007]
    by (simp add: classify_group_event_def require_group_tag_def kind_set_iffs named_values_def group_creation_visit)
qed

lemma restart_scan:
  "scan_canonical_group_events restart_env group_limits_default restart_tables
     = Some (Ok \<lparr>cs_events = [\<lparr>ce_event = group_creation, ce_store_offset = 8\<rparr>,
         \<lparr>ce_event = first_arrival, ce_store_offset = 16\<rparr>, second_stored 24],
         cs_scanned_events = 3, cs_skipped_events = 0\<rparr>, restart_tables)"
  by (simp add: scan_canonical_group_events_def scan_canonical_group_events_after_def base_store_def act_map_err_def
      restart_scans act_bind_def scan_visit_def group_creation_class put_user_event_class from_group_def)

lemma restart_load:
  "\<exists>storage. load_group_storage restart_env group_limits_default restart_tables = Some (Ok storage, restart_tables)
     \<and> outbox_get (gss_outbox storage) (or_key owed_on_arrival) = Some owed_on_arrival"
proof -
  have decoded: "outbox_record_document_into (outbox_record_document_from owed_on_arrival) = Ok owed_on_arrival"
    by (rule outbox_record_doc.roundtrip)
       (simp add: valid_outbox_record_def member_record_def outbox_record_pending_def valid_outbox_key_def welcome_valid)
  have tables: "TANGLE_GROUP_OUTBOX_TABLE \<noteq> TANGLE_GROUP_CHECKPOINT_TABLE"
    "TANGLE_GROUP_PROJECTION_TABLE \<noteq> TANGLE_GROUP_CHECKPOINT_TABLE" "TANGLE_GROUP_PROJECTION_TABLE \<noteq> TANGLE_GROUP_OUTBOX_TABLE"
    by simp_all
  have codecs: "pc_checkpoint (re_codecs restart_env) = one_document_codec
      (projection_checkpoint_document_from (checkpoint_current (Some 24) 0)) ''checkpoint''"
    "re_outbox_codec restart_env = one_document_codec (outbox_record_document_from owed_on_arrival) ''record''"
    by (simp_all add: restart_env_def)
  have status: "validate_group_checkpoint restart_env restart_tables
      = Some (Ok (CheckpointCurrent (checkpoint_current (Some 24) 0)), restart_tables)"
    using checkpoint_doc.roundtrip [of "checkpoint_current (Some 24) 0"]
    by (simp add: validate_group_checkpoint_def base_store_def act_map_err_def get_extra_record_def extra_table_def
        restart_tables_def tables checkpoint_from_json_bytes_def decode_document_def codecs one_document_codec_def
        act_bind_def from_group_def matches_current_versions_def checkpoint_current_def)
  have scanned: "scan_extra_records (re_store restart_env) TANGLE_GROUP_OUTBOX_TABLE restart_tables = Ok [(''key'', ''record'')]"
    "scan_extra_records (re_store restart_env) TANGLE_GROUP_PROJECTION_TABLE restart_tables = Ok []"
    by (simp_all add: scan_extra_records_def extra_table_def restart_tables_def tables)
  have outbox: "load_group_outbox restart_env [(''key'', ''record'')] = Ok (outbox_update owed_on_arrival outbox_new)"
    by (simp add: load_group_outbox_def outbox_record_from_json_bytes_def decode_document_def codecs
        one_document_codec_def decoded from_group_def)
  have events: "scan_canonical_group_events_after restart_env (Some 24) group_limits_default restart_tables
      = Some (Ok \<lparr>cs_events = [], cs_scanned_events = 0, cs_skipped_events = 0\<rparr>, restart_tables)"
    by (simp add: scan_canonical_group_events_after_def base_store_def act_map_err_def restart_scans act_bind_def
        from_group_def)
  have "apply_canonical_events_after_checkpoint restart_env (set_checkpoint (checkpoint_current (Some 24) 0) p)
      group_limits_default restart_tables = Some (Ok (set_checkpoint (checkpoint_current (Some 24) 0) p), restart_tables)" for p
  proof -
    have "cp_last_offset (checkpoint_current (Some 24) 0) = Some 24"
      "gp_checkpoint (set_checkpoint c p) = Some c" for c
      by (simp_all add: checkpoint_current_def set_checkpoint_def)
    then show ?thesis by (simp add: apply_canonical_events_after_checkpoint_def events)
  qed
  then show ?thesis
    by (simp add: load_group_storage_def status base_store_def act_map_err_def scanned act_bind_def
        load_group_projection_def outbox outbox_get_update)
qed

theorem replanned_snapshot_blocks_restart_witness:
  "\<exists>error st'. service_from_config restart_env restart_config restart_tables = Some (Err error, st')"
proof -
  obtain storage where "load_group_storage restart_env group_limits_default restart_tables = Some (Ok storage, restart_tables)"
    "outbox_get (gss_outbox storage) (or_key owed_on_arrival) = Some owed_on_arrival"
    using restart_load by blast
  note stored = this
  have config: "gr_enabled restart_config" "gr_relay_secret restart_config = Some ''secret''"
    "gs_limits (gr_settings restart_config) = group_limits_default"
    "authority_new (gr_owner_pubkeys restart_config) (gr_admin_pubkeys restart_config) = authority_new [sample_key] []"
    by (simp_all add: restart_config_def group_runtime_config_disabled_def group_settings_strict_def)
  have builder: "re_builder_from_secret restart_env ''secret''
      = Ok \<lparr>gb_relay_pubkey = replicate 64 CHR ''e'', gb_api = sample_api\<rparr>"
    by (simp add: restart_env_def sample_env_def)
  have admin: "is_admin (authority_new [sample_key] []) sample_key"
    by (simp add: is_admin_def is_owner_def authority_new_def)
  have other: "(replicate 64 CHR ''e'' :: string) \<noteq> sample_key" by (simp add: numeral_eq_Suc)
  have kind: "kind_u32 group_creation = 9007" by (simp add: group_creation_visit)
  have late: "\<not> ce_tuple \<lparr>ce_event = first_arrival, ce_store_offset = 16\<rparr> \<le> ce_tuple (second_stored 24)"
    using arrivals_order [of 24 16] by (simp add: not_le)
  show ?thesis
    using replanned_snapshot_blocks_restart [of empty_group_projection _ restart_config "''secret''" restart_env
        _ restart_tables storage restart_tables owed_on_arrival _ restart_tables 24, OF
        empty_group_projection_simps(3) empty_group_projection_simps(1) _ config(1,2) builder _ config(3)
        stored(1,2) refl restart_scan] other late
    by (auto simp: config(4) admin kind)
qed

section \<open>A snapshot outranks a later edit\<close>

definition group_metadata_of :: "group_projection \<Rightarrow> group_id \<Rightarrow> group_metadata option" where
  "group_metadata_of p g = map_option gst_metadata (gp_group p g)"

lemma edit_metadata_apply:
  assumes "classify_group_event e limits = Ok (Moderation 9002 g)"
    and "order_tuple_from_event_view e off = Ok t" and "parse_group_metadata e limits = Ok m"
    and "gp_group p g = Some grp" and "kind_u32 e = 9002"
  shows "\<exists>q. apply_canonical_event e off limits p = Ok (Applied, q)
     \<and> gp_group q g = Some (update_metadata m t grp)"
  using assms by (simp add: apply_canonical_event_def apply_moderation_event_def)
    (simp add: gp_group_def bt_simps)

lemma metadata_snapshot_apply:
  assumes "classify_group_event e limits = Ok (RelayGeneratedSnapshot 39000 g)"
    and "order_tuple_from_event_view e off = Ok t" and "parse_group_metadata e limits = Ok m"
    and "gp_group p g = Some grp"
  shows "\<exists>q grp'. apply_canonical_event e off limits p = Ok (Applied, q) \<and> gp_group q g = Some grp'
     \<and> gst_metadata grp' = gst_metadata (update_metadata m t grp)
     \<and> gst_metadata_tuple grp' = gst_metadata_tuple (update_metadata m t grp)"
proof -
  obtain i where i: "view_id e = Ok i"
    using assms(2) by (auto simp: order_tuple_from_event_view_def and_then_Ok_iff)
  let ?u = "update_metadata m t grp"
  let ?grp = "?u\<lparr>gst_snapshots := set_for_kind 39000 i (gst_snapshots ?u)\<rparr>"
  have "apply_canonical_event e off limits p = Ok (Applied, p\<lparr>gp_groups := bt_insert g ?grp (gp_groups p)\<rparr>)"
    using assms i by (simp add: apply_canonical_event_def apply_snapshot_event_def Let_def del: view_Ok_iff)
  then show ?thesis
    by (intro exI [of _ "p\<lparr>gp_groups := bt_insert g ?grp (gp_groups p)\<rparr>"] exI [of _ ?grp] conjI)
       (simp_all add: gp_group_def bt_simps)
qed

text \<open>
  The relay's own metadata snapshot takes part in the last-writer-wins order. When the snapshot of
  an earlier edit carries the same second and a greater id than a later edit, the later edit is
  applied without effect: on the state before the snapshot it sets its metadata, on the state
  after the snapshot the old metadata stays, although nothing else has changed.
\<close>

theorem snapshot_shadows_edit:
  assumes "gp_group p g = Some grp"
    and "classify_group_event edit limits = Ok (Moderation 9002 g)" and "kind_u32 edit = 9002"
    and "order_tuple_from_event_view edit o2 = Ok t2" and "parse_group_metadata edit limits = Ok m2"
    and "classify_group_event snap limits = Ok (RelayGeneratedSnapshot 39000 g)"
    and "order_tuple_from_event_view snap o1 = Ok t1"
    and "parse_group_metadata snap limits = Ok (gst_metadata grp)"
    and "gst_metadata_tuple grp \<le> t2" and "t2 < t1"
  shows "(\<exists>q. apply_canonical_event edit o2 limits p = Ok (Applied, q) \<and> group_metadata_of q g = Some m2)
     \<and> (\<exists>p1 p2. apply_canonical_event snap o1 limits p = Ok (Applied, p1)
          \<and> apply_canonical_event edit o2 limits p1 = Ok (Applied, p2)
          \<and> group_metadata_of p2 g = Some (gst_metadata grp))"
proof (intro conjI)
  show "\<exists>q. apply_canonical_event edit o2 limits p = Ok (Applied, q) \<and> group_metadata_of q g = Some m2"
    using edit_metadata_apply [OF assms(2,4,5,1,3)] assms(9)
    by (auto simp: group_metadata_of_def update_metadata_def)
  obtain p1 grp1 where p1: "apply_canonical_event snap o1 limits p = Ok (Applied, p1)" "gp_group p1 g = Some grp1"
    "gst_metadata grp1 = gst_metadata (update_metadata (gst_metadata grp) t1 grp)"
    "gst_metadata_tuple grp1 = gst_metadata_tuple (update_metadata (gst_metadata grp) t1 grp)"
    using metadata_snapshot_apply [OF assms(6-8,1)] by blast
  have "gst_metadata grp1 = gst_metadata grp" "gst_metadata_tuple grp1 = t1"
    using p1(3,4) assms(9,10) by (auto simp: update_metadata_def)
  moreover obtain p2 where "apply_canonical_event edit o2 limits p1 = Ok (Applied, p2)"
    "gp_group p2 g = Some (update_metadata m2 t2 grp1)"
    using edit_metadata_apply [OF assms(2,4,5) p1(2) assms(3)] by blast
  ultimately show "\<exists>p1 p2. apply_canonical_event snap o1 limits p = Ok (Applied, p1)
      \<and> apply_canonical_event edit o2 limits p1 = Ok (Applied, p2)
      \<and> group_metadata_of p2 g = Some (gst_metadata grp)"
    using p1(1) assms(10) by (auto simp: group_metadata_of_def update_metadata_def)
qed

definition sample_edit :: pocket_event where
  "sample_edit = (sample_pocket_event 9002 [[''h'', ''welcome''], [''name'', ''two'']])\<lparr>pe_id := replicate 64 CHR ''b''\<rparr>"

definition sample_snapshot :: pocket_event where
  "sample_snapshot = (sample_pocket_event 39000 [[''d'', ''welcome'']])\<lparr>pe_id := replicate 64 CHR ''c''\<rparr>"

lemma sample_metadata_visits:
  "visit_tags sample_edit f s = and_then (f s [''h'', ''welcome'']) (\<lambda>s. and_then (f s [''name'', ''two'']) Ok)"
  "visit_tags sample_snapshot f s = and_then (f s [''d'', ''welcome'']) Ok"
proof -
  have "visit_tags sample_edit f s = visit_tags (sample_pocket_event 9002 [[''h'', ''welcome''], [''name'', ''two'']]) f s"
    by (simp add: visit_tags_def sample_edit_def)
  also have "\<dots> = try_fold f s [[''h'', ''welcome''], [''name'', ''two'']]"
    by (intro sample_visit) (simp add: is_ascii_def byte_def)
  finally show "visit_tags sample_edit f s
      = and_then (f s [''h'', ''welcome'']) (\<lambda>s. and_then (f s [''name'', ''two'']) Ok)" by simp
  have "visit_tags sample_snapshot f s = visit_tags (sample_pocket_event 39000 [[''d'', ''welcome'']]) f s"
    by (simp add: visit_tags_def sample_snapshot_def)
  also have "\<dots> = try_fold f s [[''d'', ''welcome'']]"
    by (intro sample_visit) (simp add: is_ascii_def byte_def)
  finally show "visit_tags sample_snapshot f s = and_then (f s [''d'', ''welcome'']) Ok" by simp
qed

lemma sample_metadata_events:
  "kind_u32 sample_edit = 9002" "kind_u32 sample_snapshot = 39000"
  "order_tuple_from_event_view sample_edit 24 = Ok (OrderTuple 1714124433 (replicate 64 CHR ''b'') 24)"
  "order_tuple_from_event_view sample_snapshot 16 = Ok (OrderTuple 1714124433 (replicate 64 CHR ''c'') 16)"
  by (simp_all add: sample_edit_def sample_snapshot_def sample_pocket_event_def kind_u32_def
      order_tuple_from_event_view_def view_created_at_def view_id_def lower_hex_replicate)

lemma sample_metadata_classes:
  "classify_group_event sample_edit group_limits_default = Ok (Moderation 9002 ''welcome'')"
  "classify_group_event sample_snapshot group_limits_default = Ok (RelayGeneratedSnapshot 39000 ''welcome'')"
  by (simp_all add: classify_group_event_def kind_set_iffs require_group_tag_def extract_group_tag_def
      sample_metadata_visits sample_metadata_events extract_group_tag_visit_def view_indexed_pair_def
      values_get_def group_limits_default_def welcome_within is_indexable_name_def
      is_ascii_alphabetic_def is_ascii_uppercase_def byte_def)

lemma sample_metadata_parsed:
  "parse_group_metadata sample_edit group_limits_default = Ok (group_metadata_empty\<lparr>gm_name := Some ''two''\<rparr>)"
  "parse_group_metadata sample_snapshot group_limits_default = Ok group_metadata_empty"
  by (simp_all add: parse_group_metadata_def sample_metadata_visits metadata_visit_def parse_text_tag_def
      values_get_def metadata_builder_default_def group_metadata_empty_def)

theorem snapshot_shadows_edit_witness:
  "\<exists>p1 p2. apply_canonical_event sample_snapshot 16 group_limits_default empty_group_projection = Ok (Applied, p1)
     \<and> apply_canonical_event sample_edit 24 group_limits_default p1 = Ok (Applied, p2)
     \<and> group_metadata_of p2 ''welcome'' = Some group_metadata_empty"
proof -
  have "OrderTuple 0 sample_id 0 \<le> OrderTuple 1714124433 (replicate 64 CHR ''b'') 24"
    by (simp add: less_eq_projection_order_tuple_def ot_key_def)
  moreover have "OrderTuple 1714124433 (replicate 64 CHR ''b'') 24 < OrderTuple 1714124433 (replicate 64 CHR ''c'') 16"
    using replicate_less [of 64 "CHR ''b''" "CHR ''c''"]
    by (simp add: less_projection_order_tuple_def ot_key_def less_char_def)
  ultimately show ?thesis
    using snapshot_shadows_edit [OF empty_group_projection_simps(2) sample_metadata_classes(1)
        sample_metadata_events(1,3) sample_metadata_parsed(1) sample_metadata_classes(2)
        sample_metadata_events(4)] sample_metadata_parsed(2)
    by (simp add: group_state_new_def)
qed

section \<open>Group ids that cannot be read back\<close>

abbreviation long_group_id :: group_id where
  "long_group_id \<equiv> replicate 129 CHR ''a''"

definition long_id_limits :: group_limits_config where
  "long_id_limits = group_limits_default\<lparr>gl_max_group_id_bytes := 200\<rparr>"

definition long_create_event :: pocket_event where
  "long_create_event = sample_pocket_event 9007 [[''h'', long_group_id]]"

lemma long_create_visit:
  "visit_tags long_create_event f s = and_then (f s [''h'', long_group_id]) Ok"
  unfolding long_create_event_def by (subst sample_visit) (simp_all add: is_ascii_def byte_def)

lemma long_create_class:
  "classify_group_event long_create_event long_id_limits = Ok (Moderation 9007 long_group_id)"
proof -
  have ascii: "is_ascii long_group_id" by (simp add: is_ascii_def byte_def)
  have "group_id_ok 200 long_group_id"
    using ascii by (simp add: group_id_ok_def utf8_chars_ascii is_group_id_separator_def byte_def
        is_control_def ascii_trim_unchanged is_whitespace_def list_ex_iff)
  then have "group_id_new_with_max_bytes long_group_id 200 = Ok long_group_id"
    by (simp add: group_id_new_with_max_bytes_Ok)
  moreover have "kind_u32 long_create_event = 9007" by (simp add: long_create_event_def)
  ultimately show ?thesis
    by (simp add: classify_group_event_def kind_set_iffs require_group_tag_def extract_group_tag_def
        long_create_visit extract_group_tag_visit_def view_indexed_pair_def values_get_def long_id_limits_def
        group_limits_default_def is_indexable_name_def is_ascii_alphabetic_def is_ascii_uppercase_def byte_def)
qed

lemma long_create_metadata: "parse_group_metadata long_create_event long_id_limits = Ok group_metadata_empty"
  by (simp add: parse_group_metadata_def long_create_visit metadata_visit_def metadata_builder_default_def
      group_metadata_empty_def)

text \<open>
  Claim C37. The limits may allow group ids of more than 128 bytes: such a configuration is valid, an event
  that creates a group with such an id is classified and applied, and the group state is written
  to the store. But no stored group state with that id is ever read back, so the next start that
  loads the projection fails.
\<close>

theorem long_group_id_not_reloadable:
  "group_limits_validate long_id_limits = Ok ()
   \<and> classify_group_event long_create_event long_id_limits = Ok (Moderation 9007 long_group_id)
   \<and> (\<exists>p s. apply_canonical_event long_create_event 8 long_id_limits projection_new = Ok (Applied, p)
        \<and> gp_group p long_group_id = Some s
        \<and> (\<forall>raw env q. codec_lawful (pc_group (re_codecs env)) \<longrightarrow>
             group_state_to_json_bytes (re_codecs env) s = Ok raw \<longrightarrow>
             \<not> is_ok (load_projection_record env q (group_current_key long_group_id, raw))))"
proof (intro conjI)
  show "group_limits_validate long_id_limits = Ok ()"
    by (simp add: group_limits_validate_def long_id_limits_def group_limits_default_def require_positive_def)
  show "classify_group_event long_create_event long_id_limits = Ok (Moderation 9007 long_group_id)"
    by (rule long_create_class)
  let ?s = "group_state_new long_group_id group_metadata_empty sample_key (replicate 64 CHR ''a'')
      (OrderTuple 1714124433 (replicate 64 CHR ''a'') 8)"
  have "pocket_event_ok long_create_event" by (simp add: long_create_event_def sample_pocket_event_ok)
  then have "apply_canonical_event long_create_event 8 long_id_limits projection_new
      = Ok (Applied, put_group ?s projection_new)"
    by (simp add: apply_canonical_event_def long_create_class order_tuple_from_event_view_def
        apply_moderation_event_def long_create_metadata Let_def)
       (simp add: long_create_event_def sample_pocket_event_def kind_u32_def view_created_at_def
        gp_group_def projection_new_def)
  moreover have "gp_group (put_group ?s projection_new) long_group_id = Some ?s"
    by (simp add: gp_group_def put_group_def group_state_new_def bt_simps)
  moreover have "\<not> is_ok (load_projection_record env q (group_current_key long_group_id, raw))"
    if "codec_lawful (pc_group (re_codecs env))" "group_state_to_json_bytes (re_codecs env) ?s = Ok raw"
    for env :: "('t, 'st) runtime_env" and q raw
  proof -
    have "decode_document (pc_group (re_codecs env)) ''group state'' raw = Ok (group_state_document_from ?s)"
      using decode_encode [OF that(1)] that(2) by (simp add: group_state_to_json_bytes_def)
    then have "group_state_from_json_bytes (re_codecs env) raw = group_state_document_into (group_state_document_from ?s)"
      by (simp add: group_state_from_json_bytes_def)
    moreover have "\<not> valid_group_id long_group_id" by (simp add: group_id_ok_def)
    ultimately have "\<not> is_ok (group_state_from_json_bytes (re_codecs env) raw)"
      by (auto simp: is_ok_iff group_state_document_into_def group_state_document_from_def
          group_state_new_def and_then_Ok_iff)
    moreover have "split_char CHR 0x00 (group_current_key long_group_id) = [''group'', long_group_id]"
      by (simp add: group_current_key_def prefixed_key_def split_char_append split_char_plain)
    ultimately show ?thesis
      by (auto simp: load_projection_record_def is_ok_iff and_then_Ok_iff map_ok_Ok_iff
          projection_key_parts_def split: if_splits)
  qed
  ultimately show "\<exists>p s. apply_canonical_event long_create_event 8 long_id_limits projection_new = Ok (Applied, p)
        \<and> gp_group p long_group_id = Some s
        \<and> (\<forall>raw (env :: ('t, 'st) runtime_env) q. codec_lawful (pc_group (re_codecs env)) \<longrightarrow>
             group_state_to_json_bytes (re_codecs env) s = Ok raw \<longrightarrow>
             \<not> is_ok (load_projection_record env q (group_current_key long_group_id, raw)))"
    by blast
qed

theorem long_group_id_not_reloadable_witness:
  "\<exists>(env :: (string list list, table_state) runtime_env) s. gst_id s = long_group_id
     \<and> group_state_to_json_bytes (re_codecs env) s = Ok ''{}''
     \<and> \<not> is_ok (load_projection_record env projection_new (group_current_key long_group_id, ''{}''))"
proof -
  obtain p s where applied: "apply_canonical_event long_create_event 8 long_id_limits projection_new = Ok (Applied, p)"
      "gp_group p long_group_id = Some s"
    and lost: "\<And>raw env q. codec_lawful (pc_group (re_codecs env)) \<Longrightarrow>
      group_state_to_json_bytes (re_codecs env) s = Ok raw \<Longrightarrow>
      \<not> is_ok (load_projection_record (env :: (string list list, table_state) runtime_env) q
          (group_current_key long_group_id, raw))"
    using long_group_id_not_reloadable by blast
  have "projection_wf p"
    by (rule apply_keeps_wf [of long_create_event 8 long_id_limits projection_new, OF _ projection_new_projection_wf])
       (simp add: applied(1))
  then have id: "gst_id s = long_group_id"
    using applied(2) by (auto simp: group_state_wf_def dest: projection_wfD(1))
  let ?env = "sample_env\<lparr>re_codecs := sample_codecs\<lparr>pc_group :=
      one_document_codec (group_state_document_from s) ''{}''\<rparr>\<rparr>"
  have "group_state_to_json_bytes (re_codecs ?env) s = Ok ''{}''"
    by (simp add: group_state_to_json_bytes_def encode_document_def one_document_codec_def)
  moreover from this have "\<not> is_ok (load_projection_record ?env projection_new (group_current_key long_group_id, ''{}''))"
    by (rule lost [rotated]) (simp add: one_document_codec_lawful)
  ultimately show ?thesis using id by blast
qed

end
