(* ===== verification/Relay_Limits.thy ===== *)
theory Relay_Limits
  imports Runtime_Errors "HOL-Library.AList"
begin

text \<open>
  The limits of the relay: the fixed-window rate limiter
  (\<open>crates/tangle_runtime/src/rate_limits.rs\<close>), whose entries are a map from keys to the hits of the
  current window, and the counters of connections and subscriptions shared by all relays of a host
  (\<open>resource_limits.rs\<close>), which threads change with a compare-and-swap loop. The order of the
  \<open>BTreeMap\<close> of entries is never observed, so the entries are an association list without order.
\<close>

section \<open>Rules, keys and decisions\<close>

datatype rate_limit_scope = ScopeAuth | ScopeEvent | ScopeGroupWrite | ScopeReq | ScopeCount

datatype rate_limit_query_class = Broad

text \<open>\<open>std::net::IpAddr\<close>.\<close>

datatype ip_addr = IpV4 u32 | IpV6 "128 word"

datatype rate_limit_key =
    RateIp rate_limit_scope ip_addr
  | RatePubkey rate_limit_scope public_key_hex
  | RateGroup rate_limit_scope group_id
  | RateKind rate_limit_scope kind
  | RateAuthFailure "ip_addr option" "public_key_hex option"
  | RateJoinFlowIp group_id ip_addr
  | RateJoinFlow group_id public_key_hex
  | RateConnection rate_limit_scope u64
  | RateQueryClass rate_limit_scope rate_limit_query_class

record rate_limit_rule =
  rr_window_seconds :: u64
  rr_max_hits :: u64

definition rate_limit_rule_new :: "u64 \<Rightarrow> u64 \<Rightarrow> base_relay_error + rate_limit_rule" where
  "rate_limit_rule_new window_seconds max_hits =
     (if window_seconds = 0
      then Err (base_invalid ''rate limit window seconds must be greater than zero'')
      else if max_hits = 0
      then Err (base_invalid ''rate limit max hits must be greater than zero'')
      else Ok \<lparr>rr_window_seconds = window_seconds, rr_max_hits = max_hits\<rparr>)"

record auth_rate_limit_config =
  arl_per_ip :: rate_limit_rule
  arl_per_pubkey :: rate_limit_rule
  arl_failures :: rate_limit_rule
  arl_failures_per_ip :: rate_limit_rule

record event_rate_limit_config =
  erl_per_ip :: rate_limit_rule
  erl_per_pubkey :: rate_limit_rule
  erl_per_kind :: rate_limit_rule

record group_rate_limit_config =
  grl_write_per_ip :: rate_limit_rule
  grl_write_per_pubkey :: rate_limit_rule
  grl_write_per_group :: rate_limit_rule
  grl_write_per_kind :: rate_limit_rule
  grl_join_flow :: rate_limit_rule
  grl_join_flow_per_ip :: rate_limit_rule

record query_rate_limit_config =
  qrl_per_ip :: rate_limit_rule
  qrl_per_connection :: rate_limit_rule
  qrl_per_pubkey :: rate_limit_rule
  qrl_per_group :: rate_limit_rule
  qrl_per_kind :: rate_limit_rule
  qrl_broad :: rate_limit_rule

record rate_limit_config =
  rlc_auth :: auth_rate_limit_config
  rlc_event :: event_rate_limit_config
  rlc_group :: group_rate_limit_config
  rlc_req :: query_rate_limit_config
  rlc_count :: query_rate_limit_config

datatype rate_limit_decision = RateAllowed u64 unix_timestamp | RateRejected unix_timestamp

fun is_allowed :: "rate_limit_decision \<Rightarrow> bool" where
  "is_allowed (RateAllowed _ _) = True"
| "is_allowed (RateRejected _) = False"

fun decision_reset_at :: "rate_limit_decision \<Rightarrow> unix_timestamp" where
  "decision_reset_at (RateAllowed _ reset) = reset"
| "decision_reset_at (RateRejected reset) = reset"

fun decision_remaining :: "rate_limit_decision \<Rightarrow> u64" where
  "decision_remaining (RateAllowed remaining _) = remaining"
| "decision_remaining (RateRejected _) = 0"

section \<open>The limiter\<close>

record rate_limit_entry =
  rle_reset_at :: unix_timestamp
  rle_hits :: u64

definition reset_at :: "rate_limit_rule \<Rightarrow> unix_timestamp \<Rightarrow> unix_timestamp" where
  "reset_at rule now = saturating_add now (rr_window_seconds rule)"

definition rate_limit_entry_new :: "rate_limit_rule \<Rightarrow> unix_timestamp \<Rightarrow> rate_limit_entry" where
  "rate_limit_entry_new rule now = \<lparr>rle_reset_at = reset_at rule now, rle_hits = 0\<rparr>"

definition reset_if_expired ::
  "rate_limit_rule \<Rightarrow> unix_timestamp \<Rightarrow> rate_limit_entry \<Rightarrow> rate_limit_entry" where
  "reset_if_expired rule now entry =
     (if now \<ge> rle_reset_at entry then rate_limit_entry_new rule now else entry)"

type_synonym rate_limiter = "(rate_limit_key \<times> rate_limit_entry) list"

definition rate_limiter_new :: rate_limiter where
  "rate_limiter_new = []"

text \<open>\<open>entry(key).and_modify(..).or_insert_with(..)\<close>: the entry of a key as a request finds it.\<close>

definition current_entry ::
  "rate_limit_rule \<Rightarrow> unix_timestamp \<Rightarrow> rate_limit_entry option \<Rightarrow> rate_limit_entry" where
  "current_entry rule now found =
     (case found of Some entry \<Rightarrow> reset_if_expired rule now entry | None \<Rightarrow> rate_limit_entry_new rule now)"

definition rate_limit_record ::
  "rate_limit_key \<Rightarrow> rate_limit_rule \<Rightarrow> unix_timestamp \<Rightarrow> rate_limiter \<Rightarrow> rate_limit_decision \<times> rate_limiter" where
  "rate_limit_record key rule now entries =
     (let entry = current_entry rule now (map_of entries key) in
      if rle_hits entry \<ge> rr_max_hits rule
      then (RateRejected (rle_reset_at entry), AList.update key entry entries)
      else
        let entry = entry\<lparr>rle_hits := saturating_add (rle_hits entry) 1\<rparr> in
        (RateAllowed (saturating_sub (rr_max_hits rule) (rle_hits entry)) (rle_reset_at entry),
         AList.update key entry entries))"

definition rate_limit_hits :: "rate_limit_key \<Rightarrow> rate_limiter \<Rightarrow> u64" where
  "rate_limit_hits key entries =
     (case map_of entries key of Some entry \<Rightarrow> rle_hits entry | None \<Rightarrow> 0)"

definition retain_active :: "unix_timestamp \<Rightarrow> rate_limiter \<Rightarrow> rate_limiter" where
  "retain_active now entries = filter (\<lambda>(_, entry). now < rle_reset_at entry) entries"

definition tracked_key_count :: "rate_limiter \<Rightarrow> nat" where
  "tracked_key_count entries = length entries"

section \<open>Runs of requests\<close>

text \<open>
  A run serves a list of requests, each with the time it arrives at; every key has its rule. The
  requests that are admitted are those the limiter answers with \<open>Allowed\<close>.
\<close>

fun rate_run ::
  "(rate_limit_key \<Rightarrow> rate_limit_rule) \<Rightarrow> rate_limiter \<Rightarrow> (rate_limit_key \<times> unix_timestamp) list \<Rightarrow>
   rate_limit_decision list \<times> rate_limiter" where
  "rate_run rules entries [] = ([], entries)"
| "rate_run rules entries ((key, now) # requests) =
     (let (decision, entries) = rate_limit_record key (rules key) now entries;
          (decisions, entries) = rate_run rules entries requests
      in (decision # decisions, entries))"

definition admitted_requests ::
  "(rate_limit_key \<Rightarrow> rate_limit_rule) \<Rightarrow> rate_limiter \<Rightarrow> (rate_limit_key \<times> unix_timestamp) list \<Rightarrow>
   (rate_limit_key \<times> unix_timestamp) list" where
  "admitted_requests rules entries requests =
     map fst (filter (\<lambda>(_, decision). is_allowed decision)
       (zip requests (fst (rate_run rules entries requests))))"

text \<open>What one key sees of a run: the entry it finds, and the times of its admitted requests.\<close>

definition key_step :: "rate_limit_rule \<Rightarrow> unix_timestamp \<Rightarrow> rate_limit_entry option \<Rightarrow> bool \<times> rate_limit_entry" where
  "key_step rule now found =
     (let entry = current_entry rule now found in
      if rle_hits entry \<ge> rr_max_hits rule then (False, entry)
      else (True, entry\<lparr>rle_hits := saturating_add (rle_hits entry) 1\<rparr>))"

fun key_admitted :: "rate_limit_rule \<Rightarrow> rate_limit_entry option \<Rightarrow> unix_timestamp list \<Rightarrow> unix_timestamp list" where
  "key_admitted rule found [] = []"
| "key_admitted rule found (now # ts) =
     (let (ok, entry) = key_step rule now found in
      (if ok then [now] else []) @ key_admitted rule (Some entry) ts)"

lemma rate_limit_record_step:
  "is_allowed (fst (rate_limit_record key rule now entries)) = fst (key_step rule now (map_of entries key))"
  "map_of (snd (rate_limit_record key rule now entries)) k =
     (if k = key then Some (snd (key_step rule now (map_of entries key))) else map_of entries k)"
  by (simp_all add: rate_limit_record_def key_step_def Let_def update_conv')

lemma admitted_requests_simps:
  "admitted_requests rules entries [] = []"
  "admitted_requests rules entries ((key, now) # requests) =
     (if is_allowed (fst (rate_limit_record key (rules key) now entries)) then [(key, now)] else [])
     @ admitted_requests rules (snd (rate_limit_record key (rules key) now entries)) requests"
  by (simp_all add: admitted_requests_def case_prod_beta Let_def)

lemma admitted_requests_key:
  "map snd (filter (\<lambda>r. fst r = k) (admitted_requests rules entries requests)) =
     key_admitted (rules k) (map_of entries k) (map snd (filter (\<lambda>r. fst r = k) requests))"
proof (induction requests arbitrary: entries)
  case Nil
  then show ?case by (simp add: admitted_requests_simps)
next
  case (Cons request requests)
  obtain key now where "request = (key, now)" by (cases request)
  with Cons.IH show ?case
    by (auto simp: admitted_requests_simps rate_limit_record_step case_prod_beta Let_def)
qed

lemma key_admitted_set: "set (key_admitted rule found ts) \<subseteq> set ts"
proof (induction ts arbitrary: found)
  case Nil
  then show ?case by simp
next
  case (Cons now ts)
  show ?case
    using Cons.IH [of "Some (snd (key_step rule now found))"]
    by (auto simp: case_prod_beta Let_def)
qed

section \<open>How many requests a window admits\<close>

lemma key_step_fresh:
  "found = None \<or> (\<exists>e. found = Some e \<and> rle_reset_at e \<le> now) \<Longrightarrow>
   key_step rule now found = key_step rule now None"
  by (auto simp: key_step_def current_entry_def reset_if_expired_def)

lemma unat_step_hits:
  assumes "\<not> m \<le> (h :: u64)"
  shows "unat (saturating_add h 1) = Suc (unat h)" and "unat h < unat m"
proof -
  show less: "unat h < unat m" using assms by (simp add: word_le_nat_alt)
  then have "unat h + 1 \<le> unat m" by simp
  also have "unat m < 2 ^ 64" by simp
  finally have "unat h + 1 < 2 ^ 64" .
  then show "unat (saturating_add h 1) = Suc (unat h)"
    by (simp add: unat_saturating_add min_def)
qed

definition hits_positive :: "rate_limit_rule \<Rightarrow> rate_limit_entry option \<Rightarrow> bool" where
  "hits_positive rule found \<longleftrightarrow> (\<forall>e. found = Some e \<longrightarrow> 0 < unat (rle_hits e))"

lemma key_step_positive:
  assumes "hits_positive rule found" and "0 < unat (rr_max_hits rule)"
  shows "hits_positive rule (Some (snd (key_step rule now found)))"
proof (cases "rr_max_hits rule \<le> rle_hits (current_entry rule now found)")
  case True
  then have "unat (rr_max_hits rule) \<le> unat (rle_hits (current_entry rule now found))"
    by (simp add: word_le_nat_alt)
  with True assms(2) show ?thesis by (simp add: key_step_def hits_positive_def)
next
  case False
  then show ?thesis
    using unat_step_hits [OF False] by (simp add: key_step_def hits_positive_def Let_def)
qed

lemma length_filter_mono: "(\<And>x. P x \<Longrightarrow> Q x) \<Longrightarrow> length (filter P xs) \<le> length (filter Q xs)"
  by (induction xs) auto

text \<open>
  A request of the key opens a window when it has no entry or its entry has been reset. If every
  request that can open one has at most \<open>n\<close> windows ahead of it before \<open>b\<close>, then at most \<open>n\<close> full windows
  are admitted before \<open>b\<close>, beside the hits that the current entry has left.
\<close>

lemma key_admitted_windows:
  assumes "0 < unat (rr_max_hits rule)"
  shows "sorted ts \<Longrightarrow>
    \<forall>s\<in>set ts. (\<forall>e. found = Some e \<longrightarrow> rle_reset_at e \<le> s) \<longrightarrow> unat b \<le> unat s + n * unat (rr_window_seconds rule) \<Longrightarrow>
    length (filter (\<lambda>s. s < b) (key_admitted rule found ts))
      \<le> n * unat (rr_max_hits rule)
        + (case found of None \<Rightarrow> 0 | Some e \<Rightarrow> unat (rr_max_hits rule) - unat (rle_hits e))"
proof (induction ts arbitrary: found n)
  case Nil
  then show ?case by simp
next
  case (Cons now ts)
  let ?m = "unat (rr_max_hits rule)" and ?w = "unat (rr_window_seconds rule)"
  let ?opens = "\<forall>e. found = Some e \<longrightarrow> rle_reset_at e \<le> now"
  show ?case
  proof (cases "b \<le> now")
    case True
    then have "\<forall>s\<in>set (now # ts). \<not> s < b" using Cons.prems(1) by fastforce
    then have "filter (\<lambda>s. s < b) (key_admitted rule found (now # ts)) = []"
      using key_admitted_set [of rule found "now # ts"] by (auto simp: filter_empty_conv)
    then show ?thesis by simp
  next
    case early: False
    show ?thesis
    proof (cases ?opens)
      case True
      let ?e = "rate_limit_entry_new rule now"
      let ?e1 = "?e\<lparr>rle_hits := saturating_add (rle_hits ?e) 1\<rparr>"
      have less: "\<not> rr_max_hits rule \<le> 0" using assms by (auto simp: word_le_nat_alt)
      have "key_step rule now found = (True, ?e1)"
        using True less by (auto simp: key_step_def current_entry_def reset_if_expired_def Let_def
            rate_limit_entry_new_def split: option.splits)
      then have step: "key_admitted rule found (now # ts) = now # key_admitted rule (Some ?e1) ts" by simp
      have hits: "unat (rle_hits ?e1) = 1"
        using unat_step_hits [OF less] by (simp add: rate_limit_entry_new_def)
      from Cons.prems(2) True have ahead: "unat b \<le> unat now + n * ?w" by simp
      with early have "n \<noteq> 0" by (cases n) (auto simp: word_le_nat_alt)
      then obtain j where n: "n = Suc j" by (cases n) auto
      have "unat b \<le> unat s + j * ?w" if "rle_reset_at ?e1 \<le> s" for s
      proof -
        have "min (unat now + ?w) 18446744073709551615 \<le> unat s"
          using that by (simp add: rate_limit_entry_new_def reset_at_def word_le_nat_alt unat_saturating_add)
        moreover have "unat b \<le> 18446744073709551615" using unat_u64_less [of b] by linarith
        ultimately show ?thesis using ahead by (simp add: n min_def split: if_splits)
      qed
      then have "length (filter (\<lambda>s. s < b) (key_admitted rule (Some ?e1) ts)) \<le> j * ?m + (?m - 1)"
        using Cons.IH [of "Some ?e1" j] Cons.prems(1) hits by simp
      then have "length (filter (\<lambda>s. s < b) (key_admitted rule found (now # ts))) \<le> n * ?m"
        using assms unfolding step n by (cases "now < b") auto
      then show ?thesis by simp
    next
      case False
      then obtain e where e: "found = Some e" "now < rle_reset_at e" by (cases found) auto
      then have current: "current_entry rule now found = e"
        by (simp add: current_entry_def reset_if_expired_def)
      show ?thesis
      proof (cases "rr_max_hits rule \<le> rle_hits e")
        case True
        then show ?thesis using Cons.IH [of "Some e" n] Cons.prems current e(1) by (simp add: key_step_def Let_def)
      next
        case False
        then show ?thesis
          using Cons.IH [of "Some (e\<lparr>rle_hits := saturating_add (rle_hits e) 1\<rparr>)" n] Cons.prems current
            unat_step_hits [OF False] e(1) by (simp add: key_step_def Let_def) arith
      qed
    qed
  qed
qed

lemma key_admitted_interval:
  assumes "sorted ts" and "0 < unat (rr_max_hits rule)" and "hits_positive rule found"
    and "unat b \<le> unat a + n * unat (rr_window_seconds rule)"
  shows "length (filter (\<lambda>s. a \<le> s \<and> s < b) (key_admitted rule found ts)) \<le> (n + 1) * unat (rr_max_hits rule) - 1"
  using assms(1,3)
proof (induction ts arbitrary: found)
  case Nil
  then show ?case by simp
next
  case (Cons now ts)
  let ?m = "unat (rr_max_hits rule)"
  show ?case
  proof (cases "a \<le> now")
    case True
    then have after: "\<forall>s\<in>set (now # ts). a \<le> s" using Cons.prems(1) by fastforce
    have "unat b \<le> unat s + n * unat (rr_window_seconds rule)" if "s \<in> set (now # ts)" for s
    proof -
      have "unat a \<le> unat s" using after that by (auto simp: word_le_nat_alt)
      with assms(4) show ?thesis by simp
    qed
    with key_admitted_windows [OF assms(2) Cons.prems(1), of found b n]
    have "length (filter (\<lambda>s. s < b) (key_admitted rule found (now # ts))) \<le> (n + 1) * ?m - 1"
      using assms(2) Cons.prems(2) by (auto simp: hits_positive_def split: option.splits)
    then show ?thesis
      by (rule order_trans [rotated]) (rule length_filter_mono, simp)
  next
    case False
    then show ?thesis
      using Cons.IH [of "Some (snd (key_step rule now found))"] Cons.prems
        key_step_positive [OF Cons.prems(2) assms(2)] by (simp add: case_prod_beta Let_def)
  qed
qed

text \<open>The number of windows of \<open>w\<close> seconds that it takes to cover the interval from \<open>a\<close> to \<open>b\<close>.\<close>

definition windows_to_cover :: "u64 \<Rightarrow> unix_timestamp \<Rightarrow> unix_timestamp \<Rightarrow> nat" where
  "windows_to_cover w a b = (unat b - unat a + (unat w - 1)) div unat w"

lemma windows_to_cover_enough: "w \<noteq> 0 \<Longrightarrow> unat b \<le> unat a + windows_to_cover w a b * unat w"
proof -
  assume "w \<noteq> 0"
  then have "0 < unat w" by (simp add: unat_gt_0)
  moreover define d where "d = unat b - unat a"
  ultimately have "d \<le> (d + (unat w - 1)) div unat w * unat w"
    using div_mult_mod_eq [of "d + (unat w - 1)" "unat w"] mod_less_divisor [of "unat w" "d + (unat w - 1)"]
    by linarith
  then show ?thesis unfolding windows_to_cover_def d_def by linarith
qed

lemma rate_limit_rule_new_Ok:
  "rate_limit_rule_new w m = Ok rule \<longleftrightarrow> w \<noteq> 0 \<and> m \<noteq> 0 \<and> rule = \<lparr>rr_window_seconds = w, rr_max_hits = m\<rparr>"
  by (auto simp: rate_limit_rule_new_def)

text \<open>
  Claim C27. The limiter counts in windows that open with the first request after the last one closed, so
  the requests of one key in an interval can fall into one window more than it takes to cover the
  interval, but not all of them into the first. Whatever the other keys do, if the requests of a key
  arrive in the order of time and \<open>n\<close> windows cover the interval from \<open>a\<close> to \<open>b\<close>, then at most
  \<open>(n + 1) * max_hits - 1\<close> of them are admitted in it.
\<close>

theorem rate_limit_interval_bound:
  assumes "rate_limit_rule_new w m = Ok (rules k)"
    and "sorted (map snd (filter (\<lambda>r. fst r = k) requests))"
  shows "length (filter (\<lambda>(key, s). key = k \<and> a \<le> s \<and> s < b)
       (admitted_requests rules rate_limiter_new requests)) \<le> (windows_to_cover w a b + 1) * unat m - 1"
proof -
  have rule: "rr_max_hits (rules k) = m" "rr_window_seconds (rules k) = w" "0 < unat m" "w \<noteq> 0"
    using assms(1) by (auto simp: rate_limit_rule_new_Ok unat_gt_0)
  let ?ts = "map snd (filter (\<lambda>r. fst r = k) requests)"
  have "filter (\<lambda>(key, s). key = k \<and> a \<le> s \<and> s < b) rs
      = filter (\<lambda>r. a \<le> snd r \<and> snd r < b) (filter (\<lambda>r. fst r = k) rs)" for rs :: "(rate_limit_key \<times> u64) list"
    by (induction rs) auto
  then have "length (filter (\<lambda>(key, s). key = k \<and> a \<le> s \<and> s < b) (admitted_requests rules rate_limiter_new requests))
      = length (filter (\<lambda>s. a \<le> s \<and> s < b) (key_admitted (rules k) None ?ts))"
    unfolding admitted_requests_key [of k rules rate_limiter_new requests, simplified rate_limiter_new_def map_of.simps, symmetric]
    by (simp add: filter_map comp_def rate_limiter_new_def)
  also have "\<dots> \<le> (windows_to_cover w a b + 1) * unat m - 1"
    using key_admitted_interval [OF assms(2), of "rules k" None b a "windows_to_cover w a b"] rule
      windows_to_cover_enough [OF rule(4), of b a] by (simp add: hits_positive_def)
  finally show ?thesis .
qed

text \<open>The bound is reached: two hits per ten seconds admit three requests within nine seconds.\<close>

theorem rate_limit_interval_bound_witness:
  "let requests = map (Pair (RateAuthFailure None None)) [0, 9, 10, 11];
       admitted = admitted_requests (\<lambda>_. \<lparr>rr_window_seconds = 10, rr_max_hits = 2\<rparr>) rate_limiter_new requests;
       inside = filter (\<lambda>(key, s). key = RateAuthFailure None None \<and> 2 \<le> s \<and> s < 12) admitted
   in length inside = 3 \<and> length inside \<le> (windows_to_cover 10 2 12 + 1) * 2 - 1
        \<and> windows_to_cover 10 2 12 = 1"
proof -
  have "length (filter (\<lambda>(key, s). key = RateAuthFailure None None \<and> 2 \<le> s \<and> s < 12)
      (admitted_requests (\<lambda>_. \<lparr>rr_window_seconds = 10, rr_max_hits = 2\<rparr>) rate_limiter_new
        (map (Pair (RateAuthFailure None None)) [0, 9, 10, 11]))) \<le> (windows_to_cover 10 2 12 + 1) * unat (2 :: u64) - 1"
    by (rule rate_limit_interval_bound) (simp_all add: rate_limit_rule_new_def)
  moreover have "admitted_requests (\<lambda>_. \<lparr>rr_window_seconds = 10, rr_max_hits = 2\<rparr>) rate_limiter_new
      (map (Pair (RateAuthFailure None None)) [0, 9, 10, 11])
    = map (Pair (RateAuthFailure None None)) [0, 9, 10, 11]"
    by (simp add: admitted_requests_simps rate_limit_record_def current_entry_def rate_limit_entry_new_def
        reset_if_expired_def reset_at_def rate_limiter_new_def saturating_add_def saturating_sub_def Let_def
        word_le_nat_alt)
  ultimately show ?thesis by (simp add: Let_def windows_to_cover_def)
qed

section \<open>Dropping expired entries\<close>

definition limiter_wf :: "rate_limiter \<Rightarrow> bool" where
  "limiter_wf entries \<longleftrightarrow> distinct (map fst entries)"

lemma rate_limit_record_wf [wf_intros]:
  "limiter_wf entries \<Longrightarrow> limiter_wf (snd (rate_limit_record key rule now entries))"
  by (simp add: limiter_wf_def rate_limit_record_def Let_def distinct_update)

lemma map_of_retain_active:
  assumes "limiter_wf entries"
  shows "map_of (retain_active now entries) k =
     (case map_of entries k of Some e \<Rightarrow> if now < rle_reset_at e then Some e else None | None \<Rightarrow> None)"
  using assms
  by (induction entries) (auto simp: limiter_wf_def retain_active_def map_of_eq_None_iff image_iff split: option.splits)

text \<open>Two limiters that a request at \<open>now\<close> or later cannot tell apart.\<close>

definition same_from :: "unix_timestamp \<Rightarrow> rate_limiter \<Rightarrow> rate_limiter \<Rightarrow> bool" where
  "same_from now xs ys \<longleftrightarrow> (\<forall>k. map_of ys k = map_of xs k \<or>
     (map_of ys k = None \<and> (\<exists>e. map_of xs k = Some e \<and> rle_reset_at e \<le> now)))"

lemma same_from_step:
  assumes "same_from t xs ys" and "t \<le> now"
  shows "key_step rule now (map_of ys k) = key_step rule now (map_of xs k)"
proof -
  have "map_of ys k = map_of xs k \<or>
      (map_of ys k = None \<and> (\<exists>e. map_of xs k = Some e \<and> rle_reset_at e \<le> now))"
    using assms unfolding same_from_def by (meson order_trans)
  then show ?thesis using key_step_fresh [of "map_of xs k" now rule] by auto
qed

lemma rate_limit_record_decision:
  "fst (rate_limit_record key rule now entries) =
     (let (ok, entry) = key_step rule now (map_of entries key) in
      if ok then RateAllowed (saturating_sub (rr_max_hits rule) (rle_hits entry)) (rle_reset_at entry)
      else RateRejected (rle_reset_at entry))"
  by (simp add: rate_limit_record_def key_step_def Let_def)

lemma same_from_record:
  assumes "same_from t xs ys" and "t \<le> now"
  shows "fst (rate_limit_record key rule now ys) = fst (rate_limit_record key rule now xs)"
    and "same_from t (snd (rate_limit_record key rule now xs)) (snd (rate_limit_record key rule now ys))"
  using same_from_step [OF assms] assms(1)
  by (simp_all add: rate_limit_record_decision same_from_def rate_limit_record_step)

lemma same_from_run:
  "same_from t xs ys \<Longrightarrow> \<forall>r\<in>set requests. t \<le> snd r \<Longrightarrow>
   fst (rate_run rules ys requests) = fst (rate_run rules xs requests)"
proof (induction requests arbitrary: xs ys)
  case Nil
  then show ?case by simp
next
  case (Cons request requests)
  obtain key now where r: "request = (key, now)" by (cases request)
  with Cons.prems have "t \<le> now" by simp
  from same_from_record [OF Cons.prems(1) this, of key "rules key"] Cons.IH Cons.prems(2)
  show ?case by (simp add: r case_prod_beta Let_def)
qed

text \<open>
  Dropping the expired entries is invisible: every request that arrives no earlier than the
  clean-up gets the decision it would have got without it, and only live entries are kept.
\<close>

theorem retain_active_invisible:
  assumes "limiter_wf entries" and "\<forall>r\<in>set requests. now \<le> snd r"
  shows "fst (rate_run rules (retain_active now entries) requests) = fst (rate_run rules entries requests)
     \<and> (\<forall>k. rate_limit_hits k (retain_active now entries) \<noteq> 0 \<longrightarrow>
          (\<exists>e. map_of entries k = Some e \<and> now < rle_reset_at e))"
proof
  have "same_from now entries (retain_active now entries)"
    by (auto simp: same_from_def map_of_retain_active [OF assms(1)] split: option.splits)
  then show "fst (rate_run rules (retain_active now entries) requests) = fst (rate_run rules entries requests)"
    using assms(2) by (rule same_from_run)
  show "\<forall>k. rate_limit_hits k (retain_active now entries) \<noteq> 0 \<longrightarrow>
      (\<exists>e. map_of entries k = Some e \<and> now < rle_reset_at e)"
    by (simp add: rate_limit_hits_def map_of_retain_active [OF assms(1)] split: option.splits)
qed

theorem retain_active_invisible_witness:
  "let entries = [(RateAuthFailure None None, \<lparr>rle_reset_at = 5, rle_hits = 2\<rparr>)]
   in retain_active 5 entries = [] \<and>
      fst (rate_run (\<lambda>_. \<lparr>rr_window_seconds = 10, rr_max_hits = 2\<rparr>) (retain_active 5 entries)
          [(RateAuthFailure None None, 6)])
      = fst (rate_run (\<lambda>_. \<lparr>rr_window_seconds = 10, rr_max_hits = 2\<rparr>) entries
          [(RateAuthFailure None None, 6)])"
  using retain_active_invisible [of "[(RateAuthFailure None None, \<lparr>rle_reset_at = 5, rle_hits = 2\<rparr>)]"
      "[(RateAuthFailure None None, 6)]" 5 "\<lambda>_. \<lparr>rr_window_seconds = 10, rr_max_hits = 2\<rparr>"]
  by (simp add: limiter_wf_def retain_active_def Let_def word_le_nat_alt)

end
