(* ===== verification/Relay_Resources.thy ===== *)
theory Relay_Resources
  imports Runtime_Errors
begin

text \<open>
  The connection and subscription counters of a host (\<open>crates/tangle_runtime/src/resource_limits.rs\<close>).
  A counter is an atomic 64-bit \<open>usize\<close> that threads raise with a compare-and-swap loop and lower
  when a permit is released or dropped. The operations are first given without interference; then
  the loop of \<open>increment_with_limit\<close> is a step relation in which threads interleave between every
  two accesses to the counter.
\<close>

section \<open>The operations without interference\<close>

record resource_limiter =
  rl_max_connections :: u64
  rl_max_subscriptions :: u64
  rl_active_connections :: u64
  rl_active_subscriptions :: u64

definition resource_limiter_new :: "u64 \<Rightarrow> u64 \<Rightarrow> resource_limiter" where
  "resource_limiter_new max_connections max_subscriptions =
     \<lparr>rl_max_connections = max_connections, rl_max_subscriptions = max_subscriptions,
      rl_active_connections = 0, rl_active_subscriptions = 0\<rparr>"

text \<open>The value the loop tries to install over the value it has read.\<close>

definition next_count :: "u64 \<Rightarrow> u64 \<Rightarrow> string \<Rightarrow> u64 \<Rightarrow> base_relay_error + u64" where
  "next_count limit amount message current =
     and_then (ok_or (checked_add current amount) (base_restricted message))
       (\<lambda>next. if next > limit then Err (base_restricted message) else Ok next)"

definition try_open_connection :: "resource_limiter \<Rightarrow> base_relay_error + resource_limiter" where
  "try_open_connection r =
     map_ok (\<lambda>n. r\<lparr>rl_active_connections := n\<rparr>)
       (next_count (rl_max_connections r) 1 ''host total connection limit exceeded''
         (rl_active_connections r))"

text \<open>The second component is the count the permit gives back.\<close>

definition try_open_subscriptions ::
  "u64 \<Rightarrow> resource_limiter \<Rightarrow> base_relay_error + resource_limiter \<times> u64" where
  "try_open_subscriptions amount r =
     (if amount = 0
      then Err (base_invalid ''subscription reservation count must be greater than zero'')
      else map_ok (\<lambda>n. (r\<lparr>rl_active_subscriptions := n\<rparr>, amount))
        (next_count (rl_max_subscriptions r) amount ''host total subscription limit exceeded''
          (rl_active_subscriptions r)))"

definition release_connection :: "resource_limiter \<Rightarrow> resource_limiter" where
  "release_connection r = r\<lparr>rl_active_connections := rl_active_connections r - 1\<rparr>"

definition release_subscriptions :: "u64 \<Rightarrow> resource_limiter \<Rightarrow> resource_limiter" where
  "release_subscriptions amount r = r\<lparr>rl_active_subscriptions := rl_active_subscriptions r - amount\<rparr>"

lemma next_count_Ok:
  "next_count limit amount message current = Ok n \<longleftrightarrow>
     unat current + unat amount \<le> unat limit \<and> n = current + amount"
proof -
  have "unat current + unat amount < 2 ^ 64" if "unat current + unat amount \<le> unat limit"
    using order_le_less_trans [OF that, of "2 ^ 64"] by simp
  then show ?thesis
    by (auto simp: next_count_def result_iffs checked_add_def unat_add_no_overflow word_le_nat_alt
        word_less_nat_alt split: if_splits)
qed

lemma next_count_unat:
  "next_count limit amount message current = Ok n \<Longrightarrow>
   unat n = unat current + unat amount \<and> unat n \<le> unat limit"
  using order_le_less_trans [of "unat current + unat amount" "unat limit" "2 ^ 64"]
  by (auto simp: next_count_Ok unat_add_no_overflow)

section \<open>Interleaved threads\<close>

text \<open>
  Where a thread is in its call: it wants an amount, has read the counter and is about to try to
  swap, holds a permit, was refused, or has released its permit.
\<close>

datatype permit_thread =
    Wanting u64
  | Trying u64 u64
  | Holding u64
  | Refused base_relay_error
  | Released

inductive counter_step ::
  "u64 \<Rightarrow> string \<Rightarrow> u64 \<times> permit_thread list \<Rightarrow> u64 \<times> permit_thread list \<Rightarrow> bool"
  for limit message
  where
  load: "i < length ts \<Longrightarrow> ts ! i = Wanting amount \<Longrightarrow>
    counter_step limit message (c, ts) (c, ts[i := Trying amount c])"
| refuse: "i < length ts \<Longrightarrow> ts ! i = Trying amount current \<Longrightarrow>
    next_count limit amount message current = Err e \<Longrightarrow>
    counter_step limit message (c, ts) (c, ts[i := Refused e])"
| swap: "i < length ts \<Longrightarrow> ts ! i = Trying amount current \<Longrightarrow>
    next_count limit amount message current = Ok n \<Longrightarrow> c = current \<Longrightarrow>
    counter_step limit message (c, ts) (n, ts[i := Holding amount])"
| retry: "i < length ts \<Longrightarrow> ts ! i = Trying amount current \<Longrightarrow>
    next_count limit amount message current = Ok n \<Longrightarrow> c \<noteq> current \<Longrightarrow>
    counter_step limit message (c, ts) (c, ts[i := Trying amount c])"
| release: "i < length ts \<Longrightarrow> ts ! i = Holding amount \<Longrightarrow>
    counter_step limit message (c, ts) (c - amount, ts[i := Released])"

inductive_cases counter_stepE: "counter_step limit message s t"

abbreviation counter_reachable ::
  "u64 \<Rightarrow> string \<Rightarrow> u64 list \<Rightarrow> u64 \<times> permit_thread list \<Rightarrow> bool" where
  "counter_reachable limit message amounts \<equiv> (counter_step limit message)\<^sup>*\<^sup>* (0, map Wanting amounts)"

fun held :: "permit_thread \<Rightarrow> nat" where
  "held (Holding amount) = unat amount"
| "held _ = 0"

definition counter_ok :: "u64 \<Rightarrow> u64 \<times> permit_thread list \<Rightarrow> bool" where
  "counter_ok limit = (\<lambda>(c, ts). unat c = sum_list (map held ts) \<and> unat c \<le> unat limit)"

lemma sum_held_update:
  "i < length ts \<Longrightarrow> sum_list (map held (ts[i := t])) + held (ts ! i) = sum_list (map held ts) + held t"
proof (induction ts arbitrary: i)
  case Nil
  then show ?case by simp
next
  case (Cons s ts)
  then show ?case by (cases i) auto
qed

lemma counter_step_ok:
  assumes "counter_step limit message s t" and "counter_ok limit s"
  shows "counter_ok limit t"
  using assms
proof (cases rule: counter_step.cases)
  case (load i ts amount c)
  then show ?thesis using assms(2) sum_held_update [of i ts "Trying amount c"] by (simp add: counter_ok_def)
next
  case (refuse i ts amount current e c)
  then show ?thesis using assms(2) sum_held_update [of i ts "Refused e"] by (simp add: counter_ok_def)
next
  case (swap i ts amount current n c)
  then have "unat n = unat c + unat amount" "unat n \<le> unat limit" using next_count_unat [OF swap(5)] swap(6) by simp_all
  then show ?thesis
    using swap assms(2) sum_held_update [of i ts "Holding amount"] by (simp add: counter_ok_def)
next
  case (retry i ts amount current n c)
  then show ?thesis using assms(2) sum_held_update [of i ts "Trying amount c"] by (simp add: counter_ok_def)
next
  case (release i ts amount c)
  have sum: "sum_list (map held (ts[i := Released])) + unat amount = unat c"
    using release assms(2) sum_held_update [of i ts Released] by (simp add: counter_ok_def)
  then have "unat (c - amount) = unat c - unat amount"
    by (intro unat_sub) (simp add: word_le_nat_alt)
  with sum have "unat (c - amount) = sum_list (map held (ts[i := Released]))" by simp
  moreover have "unat (c - amount) \<le> unat limit"
    using \<open>unat (c - amount) = unat c - unat amount\<close> release(1) assms(2)
      order_trans [of "unat c - unat amount" "unat c" "unat limit"] by (simp add: counter_ok_def)
  ultimately show ?thesis using release(2) by (simp add: counter_ok_def)
qed

text \<open>
  Claim C28. However the threads interleave, the counter is the sum of the permits that are held, and it never
  exceeds the limit. So permits are never lost or counted twice, and when all are released the
  counter is back at zero.
\<close>

theorem resource_limit_respected:
  assumes "counter_reachable limit message amounts (c, ts)"
  shows "unat c = sum_list (map held ts) \<and> unat c \<le> unat limit"
proof -
  have "counter_ok limit (0, map Wanting amounts)"
    by (simp add: counter_ok_def comp_def)
  with assms have "counter_ok limit (c, ts)"
    by (induction rule: rtranclp_induct) (auto intro: counter_step_ok)
  then show ?thesis by (simp add: counter_ok_def)
qed

text \<open>Two threads race for the last connection; the second finds the counter changed and is refused.\<close>

lemma sample_race:
  "counter_reachable 1 ''full'' [1, 1] (1, [Holding 1, Refused (base_restricted ''full'')])"
proof -
  let ?step = "counter_step 1 ''full''"
  have a: "?step (0, [Wanting 1, Wanting 1]) (0, [Trying 1 0, Wanting 1])"
    using counter_step.load [of 0 "[Wanting 1, Wanting 1]" 1] by simp
  have b: "?step (0, [Trying 1 0, Wanting 1]) (0, [Trying 1 0, Trying 1 0])"
    using counter_step.load [of 1 "[Trying 1 0, Wanting 1]" 1] by simp
  have c: "?step (0, [Trying 1 0, Trying 1 0]) (1, [Holding 1, Trying 1 0])"
    using counter_step.swap [of 0 "[Trying 1 0, Trying 1 0]" 1 0 1 "''full''" 1] by (simp add: next_count_Ok)
  have d: "?step (1, [Holding 1, Trying 1 0]) (1, [Holding 1, Trying 1 1])"
    using counter_step.retry [of 1 "[Holding 1, Trying 1 0]" 1 0 1 "''full''" 1] by (simp add: next_count_Ok)
  have e: "?step (1, [Holding 1, Trying 1 1]) (1, [Holding 1, Refused (base_restricted ''full'')])"
    using counter_step.refuse [of 1 "[Holding 1, Trying 1 1]" 1 1 1 "''full''"]
    by (simp add: next_count_def checked_add_def word_less_nat_alt)
  show ?thesis
    using a b c d e by (simp add: converse_rtranclp_into_rtranclp)
qed

theorem resource_limit_respected_witness:
  "unat (1 :: u64) = sum_list (map held [Holding 1, Refused (base_restricted ''full'')])"
  using resource_limit_respected [OF sample_race] by simp

end
