(* ===== verification/Relay_Auth.thy ===== *)
theory Relay_Auth
  imports Runtime_Errors Group_Events
begin

text \<open>
  Authentication of a connection (\<open>crates/tangle_runtime/src/relay/auth.rs\<close>) and the checks on the
  shape of a submitted event (\<open>pocket_event_validation.rs\<close>). A method that returns a \<open>Result\<close> and
  leaves \<open>self\<close> alone on an error gives the new state with its result. The random bytes of a
  challenge and the text of a UTF-8 error come from outside and are arguments.
\<close>

section \<open>Reading a Pocket event\<close>

definition runtime_event_id :: "pocket_event \<Rightarrow> base_relay_error + event_id" where
  "runtime_event_id e = map_err base_error (event_id_new (pe_id e))"

definition runtime_event_pubkey :: "pocket_event \<Rightarrow> base_relay_error + public_key_hex" where
  "runtime_event_pubkey e = map_err base_error (public_key_new (pe_pubkey e))"

definition runtime_event_kind :: "pocket_event \<Rightarrow> base_relay_error + kind" where
  "runtime_event_kind e = map_err base_error (kind_new (ucast (pe_kind e)))"

definition runtime_event_created_at :: "pocket_event \<Rightarrow> unix_timestamp" where
  "runtime_event_created_at e = pe_created_at e"

definition malformed_tags :: "string \<Rightarrow> string" where
  "malformed_tags error = ''malformed Pocket event tags: '' @ error"

definition validate_pocket_event_shape :: "pocket_event \<Rightarrow> nat \<Rightarrow> nat \<Rightarrow> base_relay_error + unit" where
  "validate_pocket_event_shape e max_event_tags max_content_length =
     and_then (map_err (\<lambda>error. base_invalid (malformed_tags error)) (pe_tags e)) (\<lambda>tags.
       if length tags > max_event_tags
       then Err (base_invalid (''event tag count exceeds runtime max_event_tags '' @ dec max_event_tags))
       else if length (pe_content e) > max_content_length
       then Err (base_invalid (''event content length exceeds runtime max_content_length ''
         @ dec max_content_length))
       else Ok ())"

definition is_nip70_protected_event :: "pocket_event \<Rightarrow> base_relay_error + bool" where
  "is_nip70_protected_event e =
     map_ok (list_ex (\<lambda>tag. case tag of [] \<Rightarrow> False | value # _ \<Rightarrow> value = ''-''))
       (map_err (\<lambda>error. base_invalid (malformed_tags error)) (pe_tags e))"

definition verify_event_signature :: "pocket_event \<Rightarrow> base_relay_error + unit" where
  "verify_event_signature e = map_err base_invalid (pe_verify e)"

lemma runtime_event_Ok_iff [simp]:
  "runtime_event_id e = Ok i \<longleftrightarrow> i = pe_id e \<and> valid_event_id (pe_id e)"
  "runtime_event_pubkey e = Ok p \<longleftrightarrow> p = pe_pubkey e \<and> valid_pubkey (pe_pubkey e)"
  "verify_event_signature e = Ok u \<longleftrightarrow> pe_verify e = Ok ()"
  using view_Ok_iff [of e]
  by (auto simp: runtime_event_id_def runtime_event_pubkey_def view_id_def view_pubkey_def
      verify_event_signature_def)

lemma runtime_event_kind_simp [simp]: "runtime_event_kind e = Ok (kind_u32 e)"
proof -
  have "(ucast (pe_kind e) :: u64) = ucast (kind_u32 e)"
    by (rule bit_word_eqI) (auto simp: kind_u32_def bit_simps dest: bit_imp_le_length)
  moreover have "kind_new (ucast (kind_u32 e)) = Ok (kind_u32 e)"
    using view_simps(3) [of e] by (simp add: view_kind_def)
  ultimately show ?thesis by (simp add: runtime_event_kind_def)
qed

section \<open>Challenges\<close>

text \<open>\<open>HEX[n as usize]\<close> for a half of a byte.\<close>

definition hex_digit :: "nat \<Rightarrow> char" where
  "hex_digit n = ''0123456789abcdef'' ! n"

definition auth_lower_hex :: "string \<Rightarrow> string" where
  "auth_lower_hex bytes = concat (map (\<lambda>b. [hex_digit (byte b div 16), hex_digit (byte b mod 16)]) bytes)"

text \<open>\<open>fill\<close> is \<open>getrandom::fill\<close> on 32 bytes: the bytes, or the text of its error.\<close>

definition generate_auth_challenge :: "string + string \<Rightarrow> base_relay_error + string" where
  "generate_auth_challenge fill =
     map_ok auth_lower_hex (map_err (\<lambda>error. base_error (''auth challenge generation failed: '' @ error)) fill)"

record base_auth_challenge =
  ac_value :: string
  ac_issued_at :: unix_timestamp

record base_auth_state =
  as_relay_url :: string
  as_accepted_relay_urls :: "string set"
  as_challenge_ttl_seconds :: u64
  as_created_at_skew_seconds :: u64
  as_challenge :: "base_auth_challenge option"
  as_authenticated_pubkeys :: "public_key_hex set"

definition blank :: "string \<Rightarrow> bool" where
  "blank s \<longleftrightarrow> trim_chars (utf8_chars s) = []"

definition base_auth_state_new :: "string \<Rightarrow> u64 \<Rightarrow> u64 \<Rightarrow> base_relay_error + base_auth_state" where
  "base_auth_state_new relay_url challenge_ttl_seconds created_at_skew_seconds =
     (if blank relay_url then Err (base_invalid ''auth relay URL must not be empty'')
      else if challenge_ttl_seconds = 0
      then Err (base_invalid ''auth challenge ttl must be greater than zero'')
      else if created_at_skew_seconds = 0
      then Err (base_invalid ''auth created_at skew must be greater than zero'')
      else Ok \<lparr>as_relay_url = relay_url, as_accepted_relay_urls = {},
        as_challenge_ttl_seconds = challenge_ttl_seconds,
        as_created_at_skew_seconds = created_at_skew_seconds,
        as_challenge = None, as_authenticated_pubkeys = {}\<rparr>)"

definition accept_relay_url :: "string \<Rightarrow> base_auth_state \<Rightarrow> base_relay_error + base_auth_state" where
  "accept_relay_url relay_url s =
     (if blank relay_url then Err (base_invalid ''auth relay URL must not be empty'')
      else Ok (s\<lparr>as_accepted_relay_urls := insert relay_url (as_accepted_relay_urls s)\<rparr>))"

definition issue_challenge ::
  "string \<Rightarrow> unix_timestamp \<Rightarrow> base_auth_state \<Rightarrow> base_relay_error + relay_message \<times> base_auth_state" where
  "issue_challenge challenge issued_at s =
     (if challenge = [] then Err (base_invalid ''auth challenge must not be empty'')
      else Ok (RelayAuth challenge,
        s\<lparr>as_challenge := Some \<lparr>ac_value = challenge, ac_issued_at = issued_at\<rparr>\<rparr>))"

definition accepts_relay_url :: "base_auth_state \<Rightarrow> string \<Rightarrow> bool" where
  "accepts_relay_url s relay_url \<longleftrightarrow>
     relay_url = as_relay_url s \<or> relay_url \<in> as_accepted_relay_urls s"

section \<open>The AUTH event\<close>

record base_relay_auth_event =
  ra_pubkey :: public_key_hex
  ra_created_at :: unix_timestamp
  ra_relay :: string
  ra_challenge :: string

definition from_utf8 :: "(string \<Rightarrow> string) \<Rightarrow> string \<Rightarrow> string + string" where
  "from_utf8 utf8_error s = (if valid_utf8 s then Ok s else Err (utf8_error s))"

text \<open>The body of the loop over the tags; the state is \<open>matched\<close>.\<close>

definition required_tag_visit ::
  "(string \<Rightarrow> string) \<Rightarrow> string \<Rightarrow> string option \<Rightarrow> string list \<Rightarrow> string + string option" where
  "required_tag_visit utf8_error name matched tag =
     (case tag of
        [] \<Rightarrow> Ok matched
      | tag_name # values \<Rightarrow>
          and_then (from_utf8 utf8_error tag_name) (\<lambda>tag_name.
            if tag_name \<noteq> name then Ok matched
            else if matched \<noteq> None then Err (''tag `'' @ name @ ''` must not be repeated'')
            else case values of
                [] \<Rightarrow> Err (''tag `'' @ name @ ''` must include a value'')
              | value # _ \<Rightarrow> map_ok Some (from_utf8 utf8_error value)))"

definition required_single_tag_value ::
  "(string \<Rightarrow> string) \<Rightarrow> pocket_event \<Rightarrow> string \<Rightarrow> string + string" where
  "required_single_tag_value utf8_error e name =
     and_then (map_err malformed_tags (pe_tags e)) (\<lambda>tags.
     and_then (try_fold (required_tag_visit utf8_error name) None tags)
       (\<lambda>matched. ok_or matched (''tag `'' @ name @ ''` is required'')))"

definition parse_auth_event ::
  "(string \<Rightarrow> string) \<Rightarrow> pocket_event \<Rightarrow> string + base_relay_auth_event option" where
  "parse_auth_event utf8_error e =
     and_then (map_err be_message (runtime_event_kind e)) (\<lambda>kind.
       if kind \<noteq> 22242 then Ok None
       else and_then (required_single_tag_value utf8_error e ''relay'') (\<lambda>relay.
         and_then (required_single_tag_value utf8_error e ''challenge'') (\<lambda>challenge.
           if relay = [] then Err ''relay auth relay tag must not be empty''
           else if challenge = [] then Err ''relay auth challenge tag must not be empty''
           else and_then (map_err be_message (runtime_event_pubkey e)) (\<lambda>pubkey.
             Ok (Some \<lparr>ra_pubkey = pubkey, ra_created_at = runtime_event_created_at e,
               ra_relay = relay, ra_challenge = challenge\<rparr>)))))"

definition authenticate_pocket ::
  "(string \<Rightarrow> string) \<Rightarrow> pocket_event \<Rightarrow> unix_timestamp \<Rightarrow> base_auth_state \<Rightarrow>
   base_relay_error + public_key_hex \<times> base_auth_state" where
  "authenticate_pocket utf8_error e now s =
     and_then (verify_event_signature e) (\<lambda>_.
     and_then (map_err base_invalid (parse_auth_event utf8_error e)) (\<lambda>parsed.
     and_then (ok_or parsed (base_invalid ''AUTH message must contain kind 22242'')) (\<lambda>auth.
     and_then (ok_or (as_challenge s) (base_auth_required ''auth challenge is missing'')) (\<lambda>challenge.
       if \<not> accepts_relay_url s (ra_relay auth)
       then Err (base_auth_required ''auth relay does not match accepted relay URL'')
       else if ra_challenge auth \<noteq> ac_value challenge
       then Err (base_auth_required ''auth challenge does not match'')
       else if now > saturating_add (ac_issued_at challenge) (as_challenge_ttl_seconds s)
       then Err (base_auth_required ''auth challenge expired'')
       else if saturating_add (ra_created_at auth) (as_created_at_skew_seconds s) < now
         \<or> ra_created_at auth > saturating_add now (as_created_at_skew_seconds s)
       then Err (base_auth_required ''auth event created_at is outside configured skew'')
       else Ok (ra_pubkey auth,
         s\<lparr>as_authenticated_pubkeys := insert (ra_pubkey auth) (as_authenticated_pubkeys s)\<rparr>)))))"

section \<open>What authentication accepts\<close>

text \<open>The one value of the tag \<open>name\<close>, in an event whose tag names can all be read.\<close>

definition single_tag_value :: "pocket_event \<Rightarrow> string \<Rightarrow> string \<Rightarrow> bool" where
  "single_tag_value e name value \<longleftrightarrow> (\<exists>tags rest. pe_tags e = Ok tags
     \<and> list_all (\<lambda>t. t = [] \<or> valid_utf8 (hd t)) tags
     \<and> filter (\<lambda>t. t \<noteq> [] \<and> hd t = name) tags = [name # value # rest] \<and> valid_utf8 value)"

lemma required_tag_visit_Ok:
  "required_tag_visit u name m tag = Ok m' \<longleftrightarrow> (tag = [] \<or> valid_utf8 (hd tag)) \<and>
     (if tag = [] \<or> hd tag \<noteq> name then m' = m
      else m = None \<and> (\<exists>value rest. tag = name # value # rest \<and> valid_utf8 value \<and> m' = Some value))"
  by (cases tag; cases "tl tag")
     (auto simp: required_tag_visit_def from_utf8_def result_iffs split: if_splits)

lemma required_tag_fold:
  "try_fold (required_tag_visit u name) m tags = Ok (Some value) \<longleftrightarrow>
     list_all (\<lambda>t. t = [] \<or> valid_utf8 (hd t)) tags \<and>
     (let hits = filter (\<lambda>t. t \<noteq> [] \<and> hd t = name) tags in
      (case m of
         Some v \<Rightarrow> v = value \<and> hits = []
       | None \<Rightarrow> \<exists>rest. hits = [name # value # rest] \<and> valid_utf8 value))"
proof (induction tags arbitrary: m)
  case Nil
  then show ?case by (cases m) auto
next
  case (Cons tag tags)
  have "try_fold (required_tag_visit u name) m (tag # tags) = Ok (Some value) \<longleftrightarrow>
      (\<exists>m'. required_tag_visit u name m tag = Ok m' \<and> try_fold (required_tag_visit u name) m' tags = Ok (Some value))"
    by (simp add: and_then_Ok_iff)
  then have step: "try_fold (required_tag_visit u name) m (tag # tags) = Ok (Some value) \<longleftrightarrow>
      (\<exists>m'. required_tag_visit u name m tag = Ok m' \<and> list_all (\<lambda>t. t = [] \<or> valid_utf8 (hd t)) tags \<and>
         (let hits = filter (\<lambda>t. t \<noteq> [] \<and> hd t = name) tags in
          (case m' of Some v \<Rightarrow> v = value \<and> hits = []
           | None \<Rightarrow> \<exists>rest. hits = [name # value # rest] \<and> valid_utf8 value)))"
    by (simp add: Cons.IH)
  show ?case
  proof (cases "tag = [] \<or> hd tag \<noteq> name")
    case True
    then show ?thesis unfolding step by (auto simp: required_tag_visit_Ok Let_def)
  next
    case False
    then show ?thesis
    proof (cases m)
      case None
      with False show ?thesis
        unfolding step by (cases tag) (auto simp: required_tag_visit_Ok Let_def)
    next
      case (Some v)
      with False show ?thesis unfolding step by (auto simp: required_tag_visit_Ok Let_def)
    qed
  qed
qed

lemma required_single_tag_value_Ok:
  "required_single_tag_value u e name = Ok value \<longleftrightarrow> single_tag_value e name value"
  by (auto simp: required_single_tag_value_def single_tag_value_def and_then_Ok_iff required_tag_fold Let_def)

lemma saturated_less: "saturating_add a b < (c :: u64) \<longleftrightarrow> unat a + unat b < unat c"
proof -
  have "unat c \<le> 18446744073709551615" using unat_u64_less [of c] by linarith
  then show ?thesis by (auto simp: word_less_nat_alt unat_saturating_add min_def)
qed

text \<open>
  The event is signed and of kind 22242, names the relay by an accepted URL and repeats the
  challenge of this connection, each in exactly one tag; the challenge is at most \<open>ttl\<close> seconds old
  and the event at most \<open>skew\<close> seconds away from the clock, without overflow at the top of the range.
\<close>

definition auth_event_accepted :: "base_auth_state \<Rightarrow> unix_timestamp \<Rightarrow> pocket_event \<Rightarrow> bool" where
  "auth_event_accepted s now e \<longleftrightarrow>
     pe_verify e = Ok () \<and> kind_u32 e = 22242 \<and> valid_pubkey (pe_pubkey e) \<and>
     (\<exists>relay. single_tag_value e ''relay'' relay \<and> relay \<noteq> [] \<and> accepts_relay_url s relay) \<and>
     (\<exists>c. as_challenge s = Some c \<and> single_tag_value e ''challenge'' (ac_value c) \<and> ac_value c \<noteq> []
       \<and> unat now \<le> unat (ac_issued_at c) + unat (as_challenge_ttl_seconds s)) \<and>
     unat now \<le> unat (pe_created_at e) + unat (as_created_at_skew_seconds s) \<and>
     unat (pe_created_at e) \<le> unat now + unat (as_created_at_skew_seconds s)"

lemma single_tag_value_unique:
  "single_tag_value e name v \<Longrightarrow> single_tag_value e name w \<Longrightarrow> v = w"
  by (auto simp: single_tag_value_def)

lemma parse_auth_event_Ok:
  "parse_auth_event u e = Ok (Some a) \<longleftrightarrow> kind_u32 e = 22242 \<and> valid_pubkey (pe_pubkey e)
     \<and> single_tag_value e ''relay'' (ra_relay a) \<and> ra_relay a \<noteq> []
     \<and> single_tag_value e ''challenge'' (ra_challenge a) \<and> ra_challenge a \<noteq> []
     \<and> ra_pubkey a = pe_pubkey e \<and> ra_created_at a = pe_created_at e"
  by (cases a) (auto simp: parse_auth_event_def and_then_Ok_iff required_single_tag_value_Ok
      runtime_event_created_at_def)

text \<open>
  Claim C13. \<open>authenticate_pocket\<close> succeeds exactly on the accepted events; it then adds the author to the
  authenticated keys of the connection and changes nothing else.
\<close>

theorem authenticate_pocket_exact:
  "authenticate_pocket utf8_error e now s = Ok (pubkey, t) \<longleftrightarrow>
     auth_event_accepted s now e \<and> pubkey = pe_pubkey e \<and>
     t = s\<lparr>as_authenticated_pubkeys := insert (pe_pubkey e) (as_authenticated_pubkeys s)\<rparr>"
proof -
  have "authenticate_pocket utf8_error e now s = Ok (pubkey, t) \<longleftrightarrow>
      pe_verify e = Ok () \<and> (\<exists>a c. parse_auth_event utf8_error e = Ok (Some a) \<and> as_challenge s = Some c
        \<and> accepts_relay_url s (ra_relay a) \<and> ra_challenge a = ac_value c
        \<and> \<not> now > saturating_add (ac_issued_at c) (as_challenge_ttl_seconds s)
        \<and> \<not> saturating_add (ra_created_at a) (as_created_at_skew_seconds s) < now
        \<and> \<not> ra_created_at a > saturating_add now (as_created_at_skew_seconds s)
        \<and> pubkey = ra_pubkey a
        \<and> t = s\<lparr>as_authenticated_pubkeys := insert (ra_pubkey a) (as_authenticated_pubkeys s)\<rparr>)"
    by (auto simp: authenticate_pocket_def and_then_Ok_iff split: if_splits)
  also have "\<dots> \<longleftrightarrow> auth_event_accepted s now e \<and> pubkey = pe_pubkey e \<and>
      t = s\<lparr>as_authenticated_pubkeys := insert (pe_pubkey e) (as_authenticated_pubkeys s)\<rparr>"
    (is "?l \<longleftrightarrow> ?r")
  proof
    assume ?l
    then show ?r
      unfolding parse_auth_event_Ok saturated_less auth_event_accepted_def by (auto simp: not_less)
  next
    assume r: ?r
    then obtain relay c where rc: "single_tag_value e ''relay'' relay" "relay \<noteq> []" "accepts_relay_url s relay"
        "as_challenge s = Some c" "single_tag_value e ''challenge'' (ac_value c)" "ac_value c \<noteq> []"
        "unat now \<le> unat (ac_issued_at c) + unat (as_challenge_ttl_seconds s)"
      by (auto simp: auth_event_accepted_def)
    let ?a = "\<lparr>ra_pubkey = pe_pubkey e, ra_created_at = pe_created_at e, ra_relay = relay, ra_challenge = ac_value c\<rparr>"
    have "parse_auth_event utf8_error e = Ok (Some ?a)"
      unfolding parse_auth_event_Ok using r rc by (simp add: auth_event_accepted_def)
    then show ?l
      using r rc unfolding saturated_less
      by (intro conjI exI [of _ ?a] exI [of _ c]) (auto simp: auth_event_accepted_def not_less)
  qed
  finally show ?thesis .
qed

end
