(* ===== verification/Relay_Live.thy ===== *)
theory Relay_Live
  imports Runtime_Errors Group_Events
begin

text \<open>
  The live subscriptions of a connection (\<open>crates/tangle_runtime/src/relay/live.rs\<close>) with the context
  of a matched filter (\<open>relay/filter.rs\<close>) and the outbound messages (\<open>relay/outbound.rs\<close>). A
  Pocket filter is a value of the parameter type \<open>'f\<close>; \<open>pocket_filter_api\<close> holds what the code calls
  on it.
\<close>

section \<open>Pocket filters\<close>

record 'f pocket_filter_api =
  pf_num_ids :: "'f \<Rightarrow> nat"
  pf_num_authors :: "'f \<Rightarrow> nat"
  pf_num_kinds :: "'f \<Rightarrow> nat"
  pf_ids :: "'f \<Rightarrow> event_id list"
  pf_authors :: "'f \<Rightarrow> public_key_hex list"
  pf_kinds :: "'f \<Rightarrow> u16 list"
  pf_tags :: "'f \<Rightarrow> string + string list list"
  pf_since :: "'f \<Rightarrow> u64"
  pf_until :: "'f \<Rightarrow> u64"
  pf_limit :: "'f \<Rightarrow> u32"
  pf_event_matches :: "'f \<Rightarrow> pocket_event \<Rightarrow> string + bool"
  pf_completes :: "'f \<Rightarrow> bool"
  pf_hyperloglog_offset :: "'f \<Rightarrow> string + nat option"
  pf_time_min :: u64
  pf_time_max :: u64
  pf_new :: "event_id list \<Rightarrow> public_key_hex list \<Rightarrow> u16 list \<Rightarrow> string list list \<Rightarrow>
    u64 option \<Rightarrow> u64 option \<Rightarrow> u32 option \<Rightarrow> string + 'f"

datatype requested_kinds = KindsAbsent | KindsExplicit "u32 set"

record matched_filter_context =
  mfc_filter_index :: nat
  mfc_requested_kinds :: requested_kinds

definition requested_kinds_from_filter :: "'f pocket_filter_api \<Rightarrow> 'f \<Rightarrow> requested_kinds" where
  "requested_kinds_from_filter api f =
     (if pf_num_kinds api f = 0 then KindsAbsent else KindsExplicit (ucast ` set (pf_kinds api f)))"

definition matched_filter_context_from ::
  "'f pocket_filter_api \<Rightarrow> nat \<Rightarrow> 'f \<Rightarrow> matched_filter_context" where
  "matched_filter_context_from api filter_index f =
     \<lparr>mfc_filter_index = filter_index, mfc_requested_kinds = requested_kinds_from_filter api f\<rparr>"

section \<open>Live subscriptions\<close>

record 'f live_subscription_set =
  ls_subscriptions :: "(subscription_id, 'f list) btree"
  ls_max_subscriptions :: nat

record 'f live_subscription_match =
  lm_subscription_id :: subscription_id
  lm_matched_filters :: "(nat \<times> 'f) list"

definition matched_filter_contexts ::
  "'f pocket_filter_api \<Rightarrow> 'f live_subscription_match \<Rightarrow> matched_filter_context list" where
  "matched_filter_contexts api m = map (\<lambda>(i, f). matched_filter_context_from api i f) (lm_matched_filters m)"

definition live_subscription_set_new :: "nat \<Rightarrow> nat \<Rightarrow> base_relay_error + 'f live_subscription_set" where
  "live_subscription_set_new max_pending_events max_subscriptions =
     (if max_pending_events = 0
      then Err (base_invalid ''live subscription pending event limit must be greater than zero'')
      else if max_subscriptions = 0
      then Err (base_invalid ''live subscription count limit must be greater than zero'')
      else Ok \<lparr>ls_subscriptions = [], ls_max_subscriptions = max_subscriptions\<rparr>)"

definition live_contains :: "'f live_subscription_set \<Rightarrow> subscription_id \<Rightarrow> bool" where
  "live_contains s sid \<longleftrightarrow> bt_get (ls_subscriptions s) sid \<noteq> None"

definition ensure_can_subscribe ::
  "'f live_subscription_set \<Rightarrow> subscription_id \<Rightarrow> 'f list \<Rightarrow> base_relay_error + unit" where
  "ensure_can_subscribe s sid filters =
     (if filters = [] then Err (base_invalid ''subscription must include at least one filter'')
      else if \<not> live_contains s sid \<and> length (ls_subscriptions s) \<ge> ls_max_subscriptions s
      then Err (base_invalid ''connection subscription limit exceeded'')
      else Ok ())"

definition live_subscribe ::
  "subscription_id \<Rightarrow> 'f list \<Rightarrow> 'f live_subscription_set \<Rightarrow> base_relay_error + 'f live_subscription_set" where
  "live_subscribe sid filters s =
     and_then (ensure_can_subscribe s sid filters) (\<lambda>_.
       Ok (s\<lparr>ls_subscriptions := bt_insert sid filters (ls_subscriptions s)\<rparr>))"

datatype close_result = Closed | NotFound

definition live_close ::
  "subscription_id \<Rightarrow> 'f live_subscription_set \<Rightarrow> close_result \<times> 'f live_subscription_set" where
  "live_close sid s =
     (if live_contains s sid
      then (Closed, s\<lparr>ls_subscriptions := bt_remove sid (ls_subscriptions s)\<rparr>) else (NotFound, s))"

definition live_close_all :: "'f live_subscription_set \<Rightarrow> nat \<times> 'f live_subscription_set" where
  "live_close_all s = (length (ls_subscriptions s), s\<lparr>ls_subscriptions := []\<rparr>)"

definition live_active_count :: "'f live_subscription_set \<Rightarrow> nat" where
  "live_active_count s = length (ls_subscriptions s)"

text \<open>The inner loop of \<open>fanout\<close>: the filters of one subscription that match, with their indices.\<close>

definition match_visit ::
  "'f pocket_filter_api \<Rightarrow> pocket_event \<Rightarrow> (nat \<times> 'f) list \<Rightarrow> nat \<times> 'f \<Rightarrow>
   base_relay_error + (nat \<times> 'f) list" where
  "match_visit api e matched = (\<lambda>(i, f).
     map_ok (\<lambda>hit. if hit then matched @ [(i, f)] else matched)
       (map_err base_error (pf_event_matches api f e)))"

definition match_filters ::
  "'f pocket_filter_api \<Rightarrow> pocket_event \<Rightarrow> 'f list \<Rightarrow> base_relay_error + (nat \<times> 'f) list" where
  "match_filters api e filters = try_fold (match_visit api e) [] (enumerate 0 filters)"

definition fanout_visit ::
  "'f pocket_filter_api \<Rightarrow> pocket_event \<Rightarrow> bool \<Rightarrow> 'f live_subscription_match list \<Rightarrow>
   subscription_id \<times> 'f list \<Rightarrow> base_relay_error + 'f live_subscription_match list" where
  "fanout_visit api e visible matched = (\<lambda>(sid, filters).
     and_then (match_filters api e filters) (\<lambda>hits.
       if hits = [] then Ok matched
       else if visible
       then Ok (matched @ [\<lparr>lm_subscription_id = sid, lm_matched_filters = hits\<rparr>])
       else Ok matched))"

definition live_fanout ::
  "'f pocket_filter_api \<Rightarrow> 'f live_subscription_set \<Rightarrow> pocket_event \<Rightarrow> group_auth_context \<Rightarrow>
   (pocket_event \<Rightarrow> group_auth_context \<Rightarrow> bool) \<Rightarrow> base_relay_error + 'f live_subscription_match list" where
  "live_fanout api s e auth visible_to_auth =
     try_fold (fanout_visit api e (visible_to_auth e auth)) [] (ls_subscriptions s)"

section \<open>Outbound messages\<close>

datatype runtime_relay_message =
    RuntimeEvent subscription_id pocket_event
  | RuntimeProtocol relay_message

text \<open>\<open>serde_json\<close> and the JSON printer of Pocket events are arguments.\<close>

record outbound_codec =
  oc_print :: "json \<Rightarrow> string"
  oc_string_to_json :: "string \<Rightarrow> string + string"
  oc_event_as_json :: "pocket_event \<Rightarrow> string + string"
  oc_utf8_error :: "string \<Rightarrow> string"

definition encode_pocket_event_message ::
  "outbound_codec \<Rightarrow> subscription_id \<Rightarrow> pocket_event \<Rightarrow> base_relay_error + string" where
  "encode_pocket_event_message c sid e =
     and_then (map_err (\<lambda>error. base_error (''outbound subscription encode failed: '' @ error))
       (oc_string_to_json c sid)) (\<lambda>subscription.
     and_then (map_err (\<lambda>error. base_error (''outbound Pocket event encode failed: '' @ error))
       (oc_event_as_json c e)) (\<lambda>event_json.
       if \<not> valid_utf8 event_json
       then Err (base_error (''outbound Pocket event JSON is not UTF-8: '' @ oc_utf8_error c event_json))
       else Ok (''['' @ [CHR 0x22] @ ''EVENT'' @ [CHR 0x22, CHR '',''] @ subscription @ '','' @ event_json @ '']'')))"

fun runtime_message_encode :: "outbound_codec \<Rightarrow> runtime_relay_message \<Rightarrow> base_relay_error + string" where
  "runtime_message_encode c (RuntimeEvent sid e) = encode_pocket_event_message c sid e"
| "runtime_message_encode c (RuntimeProtocol m) = Ok (encode_relay_message (oc_print c) m)"

fun map_protocol :: "(relay_message \<Rightarrow> relay_message) \<Rightarrow> runtime_relay_message \<Rightarrow> runtime_relay_message" where
  "map_protocol mapper (RuntimeEvent sid e) = RuntimeEvent sid e"
| "map_protocol mapper (RuntimeProtocol m) = RuntimeProtocol (mapper m)"

fun into_protocol_control_message :: "runtime_relay_message \<Rightarrow> base_relay_error + relay_message" where
  "into_protocol_control_message (RuntimeEvent _ _) =
     Err (base_error ''event-bearing runtime messages must be encoded from Pocket events'')"
| "into_protocol_control_message (RuntimeProtocol m) = Ok m"

definition protocol_control_messages ::
  "runtime_relay_message list \<Rightarrow> base_relay_error + relay_message list" where
  "protocol_control_messages messages = traverse into_protocol_control_message messages"

section \<open>The subscription set as a bounded map\<close>

definition live_wf :: "'f live_subscription_set \<Rightarrow> bool" where
  "live_wf s \<longleftrightarrow> bt_wf (ls_subscriptions s) \<and> length (ls_subscriptions s) \<le> ls_max_subscriptions s
     \<and> (\<forall>(sid, filters)\<in>set (ls_subscriptions s). filters \<noteq> [])"

definition live_map :: "'f live_subscription_set \<Rightarrow> subscription_id \<Rightarrow> 'f list option" where
  "live_map s = bt_get (ls_subscriptions s)"

lemma bt_insert_length:
  assumes "bt_wf m"
  shows "length (bt_insert k v m) = (if k \<in> fst ` set m then length m else Suc (length m))"
proof -
  have len: "length n = card (fst ` set n)" if "bt_wf n" for n :: "('a \<times> 'b) list"
    using distinct_card [OF bt_wf_distinct [OF that]] by simp
  have "fst ` set (bt_insert k v m) = insert k (fst ` set m)"
    using bt_insert_keys [of k v m] by simp
  then have "length (bt_insert k v m) = card (insert k (fst ` set m))"
    using len [OF bt_wf_insert [OF assms]] by metis
  then show ?thesis
    unfolding len [OF assms] by (simp add: card_insert_if)
qed

lemma live_contains_iff: "live_contains s sid \<longleftrightarrow> sid \<in> fst ` set (ls_subscriptions s)"
  by (simp add: live_contains_def map_of_eq_None_iff)

lemma live_set_new:
  "live_subscription_set_new p m = Ok s \<Longrightarrow> live_wf s \<and> live_map s = (\<lambda>_. None) \<and> ls_max_subscriptions s = m"
  by (auto simp: live_subscription_set_new_def live_wf_def live_map_def split: if_splits)

lemma live_subscribe_spec:
  assumes "live_wf s" and "live_subscribe sid filters s = Ok t"
  shows "live_wf t \<and> live_map t = (live_map s)(sid \<mapsto> filters) \<and> ls_max_subscriptions t = ls_max_subscriptions s"
proof -
  have t: "t = s\<lparr>ls_subscriptions := bt_insert sid filters (ls_subscriptions s)\<rparr>" "filters \<noteq> []"
    "live_contains s sid \<or> length (ls_subscriptions s) < ls_max_subscriptions s"
    using assms(2) by (auto simp: live_subscribe_def ensure_can_subscribe_def split: if_splits)
  have wf: "bt_wf (ls_subscriptions s)" using assms(1) by (simp add: live_wf_def)
  have "\<forall>(sid, filters)\<in>set (ls_subscriptions t). filters \<noteq> []"
    using assms(1) t by (auto simp: live_wf_def dest!: bt_insert_set)
  then show ?thesis
    using assms(1) t wf
    by (auto simp: live_wf_def live_map_def bt_wf_insert bt_get_insert bt_insert_length live_contains_iff fun_eq_iff)
qed

lemma live_close_spec:
  assumes "live_wf s"
  shows "live_wf (snd (live_close sid s)) \<and> live_map (snd (live_close sid s)) = (live_map s)(sid := None)
     \<and> (fst (live_close sid s) = Closed \<longleftrightarrow> live_map s sid \<noteq> None)"
proof -
  let ?subs = "bt_remove sid (ls_subscriptions s)"
  have "length ?subs \<le> length (ls_subscriptions s)" "set ?subs \<subseteq> set (ls_subscriptions s)"
    by (auto simp: bt_remove_def)
  moreover from this(1) have "length ?subs \<le> ls_max_subscriptions s"
    using assms by (simp add: live_wf_def)
  ultimately show ?thesis
    using assms
    by (auto simp: live_close_def live_wf_def live_map_def live_contains_def bt_wf_remove bt_get_remove
        fun_eq_iff)
qed

lemma live_close_all_wf: "live_wf s \<Longrightarrow> live_wf (snd (live_close_all s))"
  by (simp add: live_close_all_def live_wf_def)

section \<open>What a live event reaches\<close>

definition filter_hits :: "'f pocket_filter_api \<Rightarrow> pocket_event \<Rightarrow> 'f \<Rightarrow> bool" where
  "filter_hits api e f \<longleftrightarrow> pf_event_matches api f e = Ok True"

lemma match_fold:
  "try_fold (match_visit api e) acc (enumerate n filters) = Ok hits \<Longrightarrow>
   hits = acc @ filter (\<lambda>(i, f). filter_hits api e f) (enumerate n filters)"
proof (induction filters arbitrary: acc n)
  case Nil
  then show ?case by simp
next
  case (Cons f filters)
  then obtain hit where "pf_event_matches api f e = Ok hit"
    by (auto simp: and_then_Ok_iff match_visit_def map_ok_Ok_iff)
  with Cons.prems Cons.IH [of "if hit then acc @ [(n, f)] else acc" "Suc n"] show ?case
    by (cases hit) (simp_all add: filter_hits_def match_visit_def)
qed

lemma match_filters_hits:
  "match_filters api e filters = Ok hits \<Longrightarrow>
   hits = filter (\<lambda>(i, f). filter_hits api e f) (enumerate 0 filters)"
  unfolding match_filters_def by (drule match_fold) simp

lemma enumerate_hits:
  "filter (\<lambda>(i, f). P f) (enumerate n fs) = [] \<longleftrightarrow> (\<forall>f\<in>set fs. \<not> P f)"
  by (induction fs arbitrary: n) auto

definition live_match :: "'f pocket_filter_api \<Rightarrow> pocket_event \<Rightarrow> subscription_id \<times> 'f list \<Rightarrow> 'f live_subscription_match" where
  "live_match api e = (\<lambda>(sid, filters). \<lparr>lm_subscription_id = sid,
     lm_matched_filters = filter (\<lambda>(i, f). filter_hits api e f) (enumerate 0 filters)\<rparr>)"

lemma fanout_fold:
  "try_fold (fanout_visit api e visible) acc subs = Ok matched \<Longrightarrow>
   matched = acc @ map (live_match api e)
     (filter (\<lambda>(sid, filters). visible \<and> (\<exists>f\<in>set filters. filter_hits api e f)) subs)"
proof (induction subs arbitrary: acc)
  case Nil
  then show ?case by simp
next
  case (Cons sub subs)
  obtain sid filters where sub: "sub = (sid, filters)" by (cases sub)
  with Cons.prems obtain hits where "match_filters api e filters = Ok hits"
    by (auto simp: and_then_Ok_iff fanout_visit_def)
  moreover from this have "live_match api e sub = \<lparr>lm_subscription_id = sid, lm_matched_filters = hits\<rparr>"
    "hits = [] \<longleftrightarrow> \<not> (\<exists>f\<in>set filters. filter_hits api e f)"
    using enumerate_hits [of "filter_hits api e" 0 filters] match_filters_hits [of api e filters hits]
    by (simp_all add: sub live_match_def)
  ultimately have step: "fanout_visit api e visible acc sub
      = Ok (if visible \<and> (\<exists>f\<in>set filters. filter_hits api e f) then acc @ [live_match api e sub] else acc)"
    by (auto simp: sub fanout_visit_def)
  show ?case
    using Cons.prems Cons.IH [of "if visible \<and> (\<exists>f\<in>set filters. filter_hits api e f)
        then acc @ [live_match api e sub] else acc"]
    by (simp only: try_fold.simps step and_then_simps filter.simps) (auto simp: sub)
qed

lemma live_fanout_spec:
  assumes "live_fanout api s e auth visible = Ok matched"
  shows "matched = map (live_match api e)
     (filter (\<lambda>(sid, filters). visible e auth \<and> (\<exists>f\<in>set filters. filter_hits api e f)) (ls_subscriptions s))"
  using fanout_fold [of api e "visible e auth" "[]"] assms by (simp add: live_fanout_def)

end
