(* ===== verification/Relay_Core.thy ===== *)
theory Relay_Core
  imports Runtime_Groups Relay_Auth Relay_Live
begin

text \<open>
  The relay (\<open>crates/tangle_runtime/src/relay/core.rs\<close>): its limits, the handling of a submitted
  event, REQ and COUNT queries with the read gate and the HyperLogLog of a count, live fan-out and
  shutdown. The services shared by the connections are the group service and the store; the relay
  of one connection adds its subscriptions. Audit logging is not modelled.
\<close>

section \<open>Limits\<close>

text \<open>\<open>usize\<close> is 64 bits wide; its saturating addition, on natural numbers.\<close>

definition usize_max :: nat where
  "usize_max = 2 ^ 64 - 1"

definition usize_add :: "nat \<Rightarrow> nat \<Rightarrow> nat" where
  "usize_add a b = min (a + b) usize_max"

record base_relay_limits =
  bl_max_pending_events :: nat
  bl_max_subscription_id_length :: nat
  bl_max_subscriptions :: nat
  bl_max_filters_per_request :: nat
  bl_max_tag_values_per_filter :: nat
  bl_max_query_complexity :: nat
  bl_max_event_tags :: nat
  bl_max_content_length :: nat
  bl_max_limit :: u64
  bl_default_limit :: u64

definition limit_positive :: "string \<Rightarrow> bool \<Rightarrow> base_relay_error + unit" where
  "limit_positive name zero =
     (if zero then Err (base_invalid (''runtime '' @ name @ '' must be greater than zero'')) else Ok ())"

text \<open>The settings have the fields of the limits.\<close>

definition base_relay_limits_new :: "base_relay_limits \<Rightarrow> base_relay_error + base_relay_limits" where
  "base_relay_limits_new s =
     and_then (limit_positive ''max pending events'' (bl_max_pending_events s = 0)) (\<lambda>_.
     and_then (limit_positive ''max subscription id length'' (bl_max_subscription_id_length s = 0)) (\<lambda>_.
     and_then (limit_positive ''max subscriptions per connection'' (bl_max_subscriptions s = 0)) (\<lambda>_.
     and_then (limit_positive ''max filters per request'' (bl_max_filters_per_request s = 0)) (\<lambda>_.
     and_then (limit_positive ''max tag values per filter'' (bl_max_tag_values_per_filter s = 0)) (\<lambda>_.
     and_then (limit_positive ''max query complexity'' (bl_max_query_complexity s = 0)) (\<lambda>_.
     and_then (limit_positive ''max event tags'' (bl_max_event_tags s = 0)) (\<lambda>_.
     and_then (limit_positive ''max content length'' (bl_max_content_length s = 0)) (\<lambda>_.
     and_then (limit_positive ''max filter limit'' (bl_max_limit s = 0)) (\<lambda>_.
     and_then (limit_positive ''default filter limit'' (bl_default_limit s = 0)) (\<lambda>_.
       if bl_default_limit s > bl_max_limit s
       then Err (base_invalid ''runtime default filter limit must not exceed max filter limit'')
       else if unat (bl_default_limit s) > bl_max_query_complexity s
       then Err (base_invalid ''runtime default filter limit must not exceed max query complexity'')
       else Ok s))))))))))"

definition limits_validate_event :: "base_relay_limits \<Rightarrow> pocket_event \<Rightarrow> base_relay_error + unit" where
  "limits_validate_event l e = validate_pocket_event_shape e (bl_max_event_tags l) (bl_max_content_length l)"

definition validate_subscription_id :: "base_relay_limits \<Rightarrow> subscription_id \<Rightarrow> base_relay_error + unit" where
  "validate_subscription_id l sid =
     (if char_count sid > bl_max_subscription_id_length l
      then Err (base_invalid (''subscription id length exceeds runtime max_subid_length ''
        @ dec (bl_max_subscription_id_length l)))
      else Ok ())"

definition effective_filter_limit :: "'f pocket_filter_api \<Rightarrow> base_relay_limits \<Rightarrow> 'f \<Rightarrow> nat" where
  "effective_filter_limit api l f =
     (if pf_limit api f = - 1 then unat (bl_default_limit l) else unat (pf_limit api f))"

definition filter_complexity :: "'f pocket_filter_api \<Rightarrow> base_relay_limits \<Rightarrow> 'f \<Rightarrow> nat" where
  "filter_complexity api l f =
     (let tag_score = (case pf_tags api f of
            Inr tags \<Rightarrow> fold (\<lambda>tag n. usize_add n (usize_add 1 (length (drop 1 tag)))) tags 0
          | Inl _ \<Rightarrow> usize_max)
      in usize_add (usize_add (usize_add (usize_add (usize_add (usize_add (usize_add 1
           (pf_num_ids api f)) (pf_num_authors api f)) (pf_num_kinds api f)) tag_score)
           (of_bool (pf_since api f \<noteq> pf_time_min api))) (of_bool (pf_until api f \<noteq> pf_time_max api)))
           (effective_filter_limit api l f))"

definition validate_query_complexity ::
  "'f pocket_filter_api \<Rightarrow> base_relay_limits \<Rightarrow> 'f list \<Rightarrow> base_relay_error + unit" where
  "validate_query_complexity api l filters =
     (let score = fold (\<lambda>f n. usize_add n (filter_complexity api l f)) filters 0 in
      if score > bl_max_query_complexity l
      then Err (base_invalid (''query complexity '' @ dec score
        @ '' exceeds runtime max_query_complexity '' @ dec (bl_max_query_complexity l)))
      else Ok ())"

definition validate_filter ::
  "'f pocket_filter_api \<Rightarrow> base_relay_limits \<Rightarrow> 'f \<Rightarrow> base_relay_error + unit" where
  "validate_filter api l f =
     and_then (map_err base_error (pf_tags api f)) (\<lambda>tags.
       if sum_list (map (\<lambda>tag. length (drop 1 tag)) tags) > bl_max_tag_values_per_filter l
       then Err (base_invalid (''filter tag value count exceeds runtime max_tag_values_per_filter ''
         @ dec (bl_max_tag_values_per_filter l)))
       else if pf_limit api f \<noteq> - 1 \<and> (ucast (pf_limit api f) :: u64) > bl_max_limit l
       then Err (base_invalid (''filter limit exceeds runtime max_limit '' @ dec (unat (bl_max_limit l))))
       else Ok ())"

definition validate_filters ::
  "'f pocket_filter_api \<Rightarrow> base_relay_limits \<Rightarrow> 'f list \<Rightarrow> base_relay_error + unit" where
  "validate_filters api l filters =
     (if filters = [] then Err (base_invalid ''request must include at least one filter'')
      else if length filters > bl_max_filters_per_request l
      then Err (base_invalid (''filter count exceeds runtime max_filters_per_request ''
        @ dec (bl_max_filters_per_request l)))
      else and_then (try_fold (\<lambda>_ f. validate_filter api l f) () filters)
        (\<lambda>_. validate_query_complexity api l filters))"

section \<open>Services and relay\<close>

record ('t, 'st) relay_services =
  rs_groups :: "'t group_service_state option"
  rs_store :: 'st

record ('t, 'st, 'f) base_relay =
  br_services :: "('t, 'st) relay_services"
  br_subscriptions :: "'f live_subscription_set"
  br_limits :: base_relay_limits
  br_query :: pocket_query_config

type_synonym ('t, 'st, 'a) service_action = "(('t, 'st) relay_services, base_relay_error, 'a) action"

definition on_store :: "('st, 'a) store_action \<Rightarrow> ('t, 'st, 'a) service_action" where
  "on_store m = act_on rs_store (\<lambda>st rs. rs\<lparr>rs_store := st\<rparr>) m"

text \<open>A call on the group service, which is there.\<close>

definition on_groups ::
  "'t group_service_state \<Rightarrow> (('t, 'st) group_world, 'e, 'a) action \<Rightarrow>
   (('t, 'st) relay_services, 'e, 'a) action" where
  "on_groups s m = act_on (\<lambda>rs. \<lparr>gw_service = s, gw_store = rs_store rs\<rparr>)
     (\<lambda>w rs. rs\<lparr>rs_groups := Some (gw_service w), rs_store := gw_store w\<rparr>) m"

definition group_limits_of :: "'t group_service_state option \<Rightarrow> group_limits_config" where
  "group_limits_of groups = (case groups of Some s \<Rightarrow> sv_limits s | None \<Rightarrow> group_limits_default)"

definition read_gate_visible ::
  "'t group_service_state option \<Rightarrow> pocket_event \<Rightarrow> group_auth_context \<Rightarrow> base_relay_error + bool" where
  "read_gate_visible groups e auth =
     (case groups of Some s \<Rightarrow> from_group (event_visible_to_auth s e auth) | None \<Rightarrow> Ok True)"

definition group_outbox_pending_events :: "('t, 'st, 'f) base_relay \<Rightarrow> nat" where
  "group_outbox_pending_events r =
     (case rs_groups (br_services r) of Some s \<Rightarrow> outbox_pending_events s | None \<Rightarrow> 0)"

definition base_relay_new_with_groups ::
  "('t, 'st) runtime_env \<Rightarrow> base_relay_limits \<Rightarrow> group_runtime_config \<Rightarrow> pocket_query_config \<Rightarrow>
   'st \<Rightarrow> (base_relay_error + ('t, 'st, 'f) base_relay) option" where
  "base_relay_new_with_groups env limits config query st = map_option
     (\<lambda>(r, st). and_then r (\<lambda>groups.
        map_ok (\<lambda>subscriptions. \<lparr>br_services = \<lparr>rs_groups = groups, rs_store = st\<rparr>,
            br_subscriptions = subscriptions, br_limits = limits, br_query = query\<rparr>)
          (live_subscription_set_new (bl_max_pending_events limits) (bl_max_subscriptions limits))))
     (service_from_config env config st)"

section \<open>Submitted events\<close>

record event_write =
  ew_message :: relay_message
  ew_stored_offsets :: "store_offset list"

definition write_stored :: "relay_message \<Rightarrow> store_offset list \<Rightarrow> event_write" where
  "write_stored message offsets = \<lparr>ew_message = message, ew_stored_offsets = offsets\<rparr>"

definition write_unstored :: "relay_message \<Rightarrow> event_write" where
  "write_unstored message = \<lparr>ew_message = message, ew_stored_offsets = []\<rparr>"

definition reject_event :: "event_id \<Rightarrow> string \<Rightarrow> ('t, 'st, event_write) service_action" where
  "reject_event eid message = act_return (write_unstored (ok_rejected eid message))"

definition write_group_event ::
  "('t, 'st) runtime_env \<Rightarrow> pocket_event \<Rightarrow> group_event_class \<Rightarrow> group_auth_context \<Rightarrow> event_id \<Rightarrow>
   't group_service_state option \<Rightarrow> ('t, 'st, event_write) service_action" where
  "write_group_event env e cls auth eid groups =
     (case groups of
        None \<Rightarrow> reject_event eid ''blocked: NIP-29 group events are not accepted before group service''
      | Some s \<Rightarrow> act_match (on_groups s (store_group_pocket_event env e cls auth))
          (\<lambda>write. case write of
             StoredAt offsets \<Rightarrow> act_return (write_stored (ok_accepted eid []) offsets)
           | DuplicateEvent \<Rightarrow>
               act_return (write_unstored (ok_accepted eid ''duplicate: already have this event'')))
          (\<lambda>failure. case failure of
             Rejected error \<Rightarrow> reject_event eid (prefixed_message error)
           | Storage error \<Rightarrow> act_lift (Err error)))"

definition write_plain_event ::
  "('t, 'st) runtime_env \<Rightarrow> pocket_event \<Rightarrow> event_id \<Rightarrow> ('t, 'st, event_write) service_action" where
  "write_plain_event env e eid =
     act_bind (act_lift (runtime_event_kind e)) (\<lambda>kind.
       if kind_is_ephemeral kind then act_return (write_unstored (ok_accepted eid []))
       else act_bind (on_store (base_store (act_read (event_by_id (re_store env) (pe_id e))))) (\<lambda>found.
         if found \<noteq> None
         then act_return (write_unstored (ok_accepted eid ''duplicate: already have this event''))
         else act_bind (on_store (base_store (store_event (re_store env) e))) (\<lambda>offset.
           act_return (write_stored (ok_accepted eid []) [offset]))))"

definition handle_pocket_event ::
  "('t, 'st) runtime_env \<Rightarrow> base_relay_limits \<Rightarrow> pocket_event \<Rightarrow> group_auth_context \<Rightarrow>
   ('t, 'st, event_write) service_action" where
  "handle_pocket_event env limits e auth =
     act_bind (act_lift (runtime_event_id e)) (\<lambda>eid.
     case limits_validate_event limits e of
       Inl error \<Rightarrow> reject_event eid (base_prefixed_message error)
     | Inr _ \<Rightarrow>
     (case verify_event_signature e of
       Inl error \<Rightarrow> reject_event eid (base_prefixed_message error)
     | Inr _ \<Rightarrow>
     act_bind (act_lift (runtime_event_pubkey e)) (\<lambda>pubkey.
     act_bind (act_lift (is_nip70_protected_event e)) (\<lambda>protected.
       if protected \<and> pubkey \<notin> auth
       then reject_event eid (base_prefixed_message
         (base_auth_required ''protected event requires authenticated event author''))
       else act_bind (act_get rs_groups) (\<lambda>groups.
         case validate_client_group_event_structure e (group_limits_of groups) of
           Inl error \<Rightarrow> reject_event eid (prefixed_message error)
         | Inr cls \<Rightarrow>
             if cls \<noteq> NonGroup then write_group_event env e cls auth eid groups
             else write_plain_event env e eid)))))"

text \<open>\<open>None\<close> is the panic of the \<open>expect\<close> on the event id.\<close>

definition handle_pocket_auth ::
  "(string \<Rightarrow> string) \<Rightarrow> base_relay_limits \<Rightarrow> pocket_event \<Rightarrow> unix_timestamp \<Rightarrow> base_auth_state \<Rightarrow>
   (relay_message list \<times> base_auth_state) option" where
  "handle_pocket_auth utf8_error limits e now auth =
     (case runtime_event_id e of
        Inl _ \<Rightarrow> None
      | Inr eid \<Rightarrow> Some (case limits_validate_event limits e of
            Inl error \<Rightarrow> ([RelayOk eid False (base_prefixed_message error)], auth)
          | Inr _ \<Rightarrow> (case authenticate_pocket utf8_error e now auth of
                Inl error \<Rightarrow> ([RelayOk eid False (base_prefixed_message error)], auth)
              | Inr (_, auth) \<Rightarrow> ([RelayOk eid True []], auth))))"

section \<open>Queries\<close>

datatype filter_limit_mode = ApplyDefaultLimit | PreserveCountLimitless | OverrideLimit u32

definition filter_with_limit_mode ::
  "'f pocket_filter_api \<Rightarrow> base_relay_limits \<Rightarrow> 'f \<Rightarrow> filter_limit_mode \<Rightarrow> base_relay_error + 'f" where
  "filter_with_limit_mode api limits f mode =
     and_then (case mode of
         ApplyDefaultLimit \<Rightarrow>
           if pf_limit api f = - 1
           then (if unat (bl_default_limit limits) < 2 ^ 32 then Ok (ucast (bl_default_limit limits))
                 else Err (base_invalid ''default filter limit exceeds u32''))
           else Ok (pf_limit api f)
       | PreserveCountLimitless \<Rightarrow> Ok (- 1)
       | OverrideLimit limit \<Rightarrow> Ok limit) (\<lambda>limit :: u32.
     and_then (map_err base_error (pf_tags api f)) (\<lambda>tags.
       map_err base_error (pf_new api (pf_ids api f) (pf_authors api f) (pf_kinds api f) tags
         (if pf_since api f \<noteq> pf_time_min api then Some (pf_since api f) else None)
         (if pf_until api f \<noteq> pf_time_max api then Some (pf_until api f) else None)
         (if limit \<noteq> - 1 then Some limit else None))))"

record query_metrics =
  qm_candidates_scanned :: u64
  qm_returned_events :: u64
  qm_redacted_events :: u64

definition query_metrics_default :: query_metrics where
  "query_metrics_default = \<lparr>qm_candidates_scanned = 0, qm_returned_events = 0, qm_redacted_events = 0\<rparr>"

definition query_metrics_add :: "query_metrics \<Rightarrow> query_metrics \<Rightarrow> query_metrics" where
  "query_metrics_add a b = \<lparr>
     qm_candidates_scanned = saturating_add (qm_candidates_scanned a) (qm_candidates_scanned b),
     qm_returned_events = saturating_add (qm_returned_events a) (qm_returned_events b),
     qm_redacted_events = saturating_add (qm_redacted_events a) (qm_redacted_events b)\<rparr>"

definition with_returned_events :: "query_metrics \<Rightarrow> nat \<Rightarrow> query_metrics" where
  "with_returned_events m n = m\<lparr>qm_returned_events := of_nat n\<rparr>"

record event_query_report =
  eq_events :: "pocket_event list"
  eq_group_read_denied :: bool
  eq_metrics :: query_metrics

text \<open>The cells captured by the screen of a query.\<close>

record screen_cells =
  sc_error :: "base_relay_error option"
  sc_candidates_scanned :: u64
  sc_redacted_events :: u64

definition query_screen ::
  "'f pocket_filter_api \<Rightarrow> 't group_service_state option \<Rightarrow> 'f \<Rightarrow> group_auth_context \<Rightarrow>
   screen_cells pocket_screen" where
  "query_screen api groups f auth e c =
     (let c = c\<lparr>sc_candidates_scanned := saturating_add (sc_candidates_scanned c) 1\<rparr> in
      if sc_error c \<noteq> None then (ScreenMismatch, c)
      else case pf_event_matches api f e of
          Inr False \<Rightarrow> (ScreenMismatch, c)
        | Inr True \<Rightarrow>
            (case read_gate_visible groups e auth of
               Inr True \<Rightarrow> (ScreenMatch, c)
             | Inr False \<Rightarrow>
                 (ScreenRedacted, c\<lparr>sc_redacted_events := saturating_add (sc_redacted_events c) 1\<rparr>)
             | Inl error \<Rightarrow> (ScreenMismatch, c\<lparr>sc_error := Some error\<rparr>))
        | Inl error \<Rightarrow> (ScreenMismatch, c\<lparr>sc_error := Some (base_error error)\<rparr>))"

definition query_filter_events ::
  "'f pocket_filter_api \<Rightarrow> ('st, 'f, screen_cells) pocket_find \<Rightarrow> ('t, 'st) relay_services \<Rightarrow>
   base_relay_limits \<Rightarrow> pocket_query_config \<Rightarrow> 'f \<Rightarrow> group_auth_context \<Rightarrow> filter_limit_mode \<Rightarrow>
   base_relay_error + event_query_report" where
  "query_filter_events api find_query rs limits query f auth mode =
     and_then (filter_with_limit_mode api limits f mode) (\<lambda>pocket_filter.
       let (screened, cells) = find_events_with_screen find_query pocket_filter query
             (query_screen api (rs_groups rs) pocket_filter auth)
             \<lparr>sc_error = None, sc_candidates_scanned = 0, sc_redacted_events = 0\<rparr> (rs_store rs)
       in and_then (map_err base_error screened) (\<lambda>screened.
          case sc_error cells of
            Some error \<Rightarrow> Err error
          | None \<Rightarrow> Ok \<lparr>eq_events = pse_events screened, eq_group_read_denied = pse_redacted screened,
              eq_metrics = \<lparr>qm_candidates_scanned = sc_candidates_scanned cells,
                qm_returned_events = 0, qm_redacted_events = sc_redacted_events cells\<rparr>\<rparr>))"

text \<open>Newest first, then by id; of events with the same id the first stays.\<close>

definition query_order :: "pocket_event \<Rightarrow> u64 \<times> event_id" where
  "query_order e = (- 1 - pe_created_at e, pe_id e)"

fun dedupe_events :: "event_id set \<Rightarrow> pocket_event list \<Rightarrow> pocket_event list" where
  "dedupe_events seen [] = []"
| "dedupe_events seen (e # es) =
     (if pe_id e \<in> seen then dedupe_events seen es else e # dedupe_events (insert (pe_id e) seen) es)"

definition sort_and_dedupe :: "pocket_event list \<Rightarrow> pocket_event list" where
  "sort_and_dedupe events = dedupe_events {} (sort_key query_order events)"

definition query_events_visit ::
  "'f pocket_filter_api \<Rightarrow> ('st, 'f, screen_cells) pocket_find \<Rightarrow> ('t, 'st) relay_services \<Rightarrow>
   base_relay_limits \<Rightarrow> pocket_query_config \<Rightarrow> group_auth_context \<Rightarrow> event_query_report \<Rightarrow> 'f \<Rightarrow>
   base_relay_error + event_query_report" where
  "query_events_visit api find_query rs limits query auth output f =
     map_ok (\<lambda>report. \<lparr>
         eq_events = eq_events output
           @ take (effective_filter_limit api limits f) (sort_and_dedupe (eq_events report)),
         eq_group_read_denied = (eq_group_read_denied output \<or> eq_group_read_denied report),
         eq_metrics = query_metrics_add (eq_metrics output) (eq_metrics report)\<rparr>)
       (query_filter_events api find_query rs limits query f auth ApplyDefaultLimit)"

definition query_events ::
  "'f pocket_filter_api \<Rightarrow> ('st, 'f, screen_cells) pocket_find \<Rightarrow> ('t, 'st) relay_services \<Rightarrow>
   base_relay_limits \<Rightarrow> pocket_query_config \<Rightarrow> 'f list \<Rightarrow> group_auth_context \<Rightarrow>
   base_relay_error + event_query_report" where
  "query_events api find_query rs limits query filters auth =
     map_ok (\<lambda>output.
         let events = sort_and_dedupe (eq_events output) in
         output\<lparr>eq_events := events, eq_metrics := with_returned_events (eq_metrics output) (length events)\<rparr>)
       (try_fold (query_events_visit api find_query rs limits query auth)
         \<lparr>eq_events = [], eq_group_read_denied = False, eq_metrics = query_metrics_default\<rparr> filters)"

section \<open>REQ\<close>

record query_report =
  qr_messages :: "runtime_relay_message list"
  qr_group_read_denied :: bool
  qr_metrics :: query_metrics

definition unsupported_search_closed :: "subscription_id \<Rightarrow> bool \<Rightarrow> relay_message option" where
  "unsupported_search_closed sid search_present =
     (if search_present then Some (RelayClosed sid ''unsupported: search filters are not supported'') else None)"

definition redacted_req_closed :: "subscription_id \<Rightarrow> group_auth_context \<Rightarrow> relay_message" where
  "redacted_req_closed sid auth = RelayClosed sid
     (if auth = {}
      then base_prefixed_message (base_auth_required ''authentication required to read group events'')
      else base_prefixed_message (base_restricted ''group is unavailable''))"

definition search_report :: "relay_message \<Rightarrow> query_report" where
  "search_report message = \<lparr>qr_messages = [RuntimeProtocol message], qr_group_read_denied = False,
     qr_metrics = query_metrics_default\<rparr>"

definition query_req ::
  "'f pocket_filter_api \<Rightarrow> ('st, 'f, screen_cells) pocket_find \<Rightarrow> ('t, 'st) relay_services \<Rightarrow>
   base_relay_limits \<Rightarrow> pocket_query_config \<Rightarrow> subscription_id \<Rightarrow> 'f list \<Rightarrow> bool \<Rightarrow> group_auth_context \<Rightarrow>
   base_relay_error + query_report" where
  "query_req api find_query rs limits query sid filters search_present auth =
     and_then (validate_subscription_id limits sid) (\<lambda>_.
     and_then (validate_filters api limits filters) (\<lambda>_.
       case unsupported_search_closed sid search_present of
         Some message \<Rightarrow> Ok (search_report message)
       | None \<Rightarrow>
           map_ok (\<lambda>report. \<lparr>
               qr_messages = map (RuntimeEvent sid) (eq_events report)
                 @ [RuntimeProtocol (if eq_group_read_denied report then redacted_req_closed sid auth
                     else RelayEose sid)],
               qr_group_read_denied = eq_group_read_denied report, qr_metrics = eq_metrics report\<rparr>)
             (query_events api find_query rs limits query filters auth)))"

definition filters_complete :: "'f pocket_filter_api \<Rightarrow> 'f list \<Rightarrow> bool" where
  "filters_complete api filters \<longleftrightarrow> filters \<noteq> [] \<and> list_all (pf_completes api) filters"

text \<open>A request changes the subscriptions of the relay and nothing else.\<close>

definition handle_pocket_req ::
  "'f pocket_filter_api \<Rightarrow> ('st, 'f, screen_cells) pocket_find \<Rightarrow> subscription_id \<Rightarrow> 'f list \<Rightarrow> bool \<Rightarrow>
   group_auth_context \<Rightarrow> ('t, 'st, 'f) base_relay \<Rightarrow>
   base_relay_error + query_report \<times> ('t, 'st, 'f) base_relay" where
  "handle_pocket_req api find_query sid filters search_present auth r =
     and_then (validate_subscription_id (br_limits r) sid) (\<lambda>_.
     and_then (validate_filters api (br_limits r) filters) (\<lambda>_.
       let run = query_req api find_query (br_services r) (br_limits r) (br_query r) sid filters False auth in
       case unsupported_search_closed sid search_present of
         Some message \<Rightarrow> Ok (search_report message, r)
       | None \<Rightarrow>
           if \<not> filters_complete api filters then
             and_then (ensure_can_subscribe (br_subscriptions r) sid filters) (\<lambda>_.
             and_then run (\<lambda>report.
               if qr_group_read_denied report then Ok (report, r)
               else map_ok (\<lambda>subscriptions. (report, r\<lparr>br_subscriptions := subscriptions\<rparr>))
                 (live_subscribe sid filters (br_subscriptions r))))
           else map_ok (\<lambda>report. (report, r)) run))"

section \<open>COUNT\<close>

text \<open>The HyperLogLog counter is a library type \<open>'h\<close>.\<close>

record 'h hll_api =
  hll_new :: 'h
  hll_add_element :: "public_key_hex \<Rightarrow> nat \<Rightarrow> 'h \<Rightarrow> string + 'h"
  hll_to_hex :: "'h \<Rightarrow> string"

record 'h count_hll =
  ch_offset :: "nat option"
  ch_hll :: "'h option"
  ch_suppressed :: bool

datatype hll_group_targets = TargetsNone | TargetsSuppress | Targets "group_id list"
datatype hll_target_policy = HllEligible | HllSuppress
datatype hll_d_tag_mode = DIgnore | DTarget | DSuppress

definition count_hll_offset :: "'f pocket_filter_api \<Rightarrow> 'f list \<Rightarrow> base_relay_error + nat option" where
  "count_hll_offset api filters =
     (case filters of [f] \<Rightarrow> map_err base_error (pf_hyperloglog_offset api f) | _ \<Rightarrow> Ok None)"

definition count_hll_new :: "'f pocket_filter_api \<Rightarrow> 'h hll_api \<Rightarrow> 'f list \<Rightarrow> base_relay_error + 'h count_hll" where
  "count_hll_new api hapi filters =
     map_ok (\<lambda>offset. \<lparr>ch_offset = offset, ch_hll = map_option (\<lambda>_. hll_new hapi) offset, ch_suppressed = False\<rparr>)
       (count_hll_offset api filters)"

definition hll_suppress :: "'h count_hll \<Rightarrow> 'h count_hll" where
  "hll_suppress h = (if ch_offset h \<noteq> None then h\<lparr>ch_suppressed := True\<rparr> else h)"

definition filter_d_tag_mode :: "'f pocket_filter_api \<Rightarrow> 'f \<Rightarrow> hll_d_tag_mode" where
  "filter_d_tag_mode api f =
     (if pf_num_kinds api f = 0 then DSuppress
      else if list_ex (\<lambda>k. (ucast k :: u32) \<in> set NIP29_RELAY_GENERATED_KIND_VALUES) (pf_kinds api f)
      then DTarget else DIgnore)"

definition hll_filter_has_group_target :: "'f pocket_filter_api \<Rightarrow> 'f \<Rightarrow> bool" where
  "hll_filter_has_group_target api f =
     (case pf_tags api f of
        Inl _ \<Rightarrow> True
      | Inr tags \<Rightarrow> list_ex (\<lambda>tag. case tag of
            [] \<Rightarrow> False
          | name # _ \<Rightarrow> name = ''h'' \<or> (filter_d_tag_mode api f \<noteq> DIgnore \<and> name = ''d'')) tags)"

text \<open>
  The loop over the values of one tag and the loop over the tags of \<open>count_hll_group_targets\<close>;
  \<open>None\<close> is the early return of \<open>Suppress\<close>.
\<close>

fun hll_tag_values :: "nat \<Rightarrow> group_id list \<Rightarrow> string list \<Rightarrow> group_id list option" where
  "hll_tag_values max_bytes group_ids [] = Some group_ids"
| "hll_tag_values max_bytes group_ids (value # values) =
     (if \<not> valid_utf8 value then None
      else case group_id_new_with_max_bytes value max_bytes of
          Inl _ \<Rightarrow> None
        | Inr group_id \<Rightarrow> hll_tag_values max_bytes (group_ids @ [group_id]) values)"

fun hll_tags :: "hll_d_tag_mode \<Rightarrow> nat \<Rightarrow> group_id list \<Rightarrow> string list list \<Rightarrow> group_id list option" where
  "hll_tags mode max_bytes group_ids [] = Some group_ids"
| "hll_tags mode max_bytes group_ids ([] # tags) = hll_tags mode max_bytes group_ids tags"
| "hll_tags mode max_bytes group_ids ((name # values) # tags) =
     (if name = ''d'' \<and> mode = DIgnore then hll_tags mode max_bytes group_ids tags
      else if name = ''d'' \<and> mode = DSuppress then None
      else if name \<noteq> ''d'' \<and> name \<noteq> ''h'' then hll_tags mode max_bytes group_ids tags
      else if values = [] then None
      else case hll_tag_values max_bytes group_ids values of
          None \<Rightarrow> None
        | Some group_ids \<Rightarrow> hll_tags mode max_bytes group_ids tags)"

definition filter_group_targets :: "'f pocket_filter_api \<Rightarrow> 'f \<Rightarrow> nat \<Rightarrow> hll_group_targets" where
  "filter_group_targets api f max_bytes =
     (case pf_tags api f of
        Inl _ \<Rightarrow> TargetsSuppress
      | Inr tags \<Rightarrow> (case hll_tags (filter_d_tag_mode api f) max_bytes [] tags of
            None \<Rightarrow> TargetsSuppress
          | Some [] \<Rightarrow> TargetsNone
          | Some group_ids \<Rightarrow> Targets (sorted_list_of_set (set group_ids))))"

definition public_group :: "group_projection \<Rightarrow> group_id \<Rightarrow> bool" where
  "public_group p g \<longleftrightarrow> (case gp_group p g of
       None \<Rightarrow> False
     | Some grp \<Rightarrow> gp_tombstone p g = None \<and> \<not> gm_private (gst_metadata grp) \<and> \<not> gm_hidden (gst_metadata grp))"

definition hll_filter_target_policy ::
  "'f pocket_filter_api \<Rightarrow> 't group_service_state option \<Rightarrow> 'f \<Rightarrow> hll_target_policy" where
  "hll_filter_target_policy api groups f =
     (case groups of
        None \<Rightarrow> if hll_filter_has_group_target api f then HllSuppress else HllEligible
      | Some s \<Rightarrow>
          (case filter_group_targets api f (unat (gl_max_group_id_bytes (sv_limits s))) of
             TargetsNone \<Rightarrow> HllEligible
           | TargetsSuppress \<Rightarrow> HllSuppress
           | Targets group_ids \<Rightarrow>
               if list_all (public_group (sv_projection s)) group_ids then HllEligible else HllSuppress))"

definition hll_suppress_for_filter_targets ::
  "'f pocket_filter_api \<Rightarrow> 't group_service_state option \<Rightarrow> 'f list \<Rightarrow> 'h count_hll \<Rightarrow> 'h count_hll" where
  "hll_suppress_for_filter_targets api groups filters h =
     (if ch_offset h = None then h
      else case filters of
          [f] \<Rightarrow> if hll_filter_target_policy api groups f = HllSuppress then hll_suppress h else h
        | _ \<Rightarrow> h)"

definition event_suppresses_count_hll ::
  "'t group_service_state option \<Rightarrow> pocket_event \<Rightarrow> base_relay_error + bool" where
  "event_suppresses_count_hll groups e =
     (case groups of
        None \<Rightarrow> Ok False
      | Some s \<Rightarrow> map_ok (\<lambda>cls. case class_group_id cls of
            None \<Rightarrow> False
          | Some g \<Rightarrow> (case gp_group (sv_projection s) g of
                None \<Rightarrow> True
              | Some grp \<Rightarrow> gp_tombstone (sv_projection s) g \<noteq> None \<or> gm_private (gst_metadata grp)
                  \<or> gm_hidden (gst_metadata grp)))
          (from_group (classify_group_event e (sv_limits s))))"

text \<open>An \<open>add_element\<close> that fails ends the count.\<close>

definition hll_observe ::
  "'h hll_api \<Rightarrow> 't group_service_state option \<Rightarrow> pocket_event \<Rightarrow> 'h count_hll \<Rightarrow> base_relay_error + 'h count_hll" where
  "hll_observe hapi groups e h =
     (case ch_offset h of
        None \<Rightarrow> Ok h
      | Some offset \<Rightarrow> and_then (event_suppresses_count_hll groups e) (\<lambda>suppresses.
          if suppresses then Ok (h\<lparr>ch_suppressed := True\<rparr>)
          else case ch_hll h of
              None \<Rightarrow> Ok h
            | Some value \<Rightarrow> map_ok (\<lambda>value. h\<lparr>ch_hll := Some value\<rparr>)
                (map_err base_error (hll_add_element hapi (pe_pubkey e) offset value))))"

definition hll_into_hex :: "'h hll_api \<Rightarrow> 'h count_hll \<Rightarrow> string option" where
  "hll_into_hex hapi h = (if ch_suppressed h then None else map_option (hll_to_hex hapi) (ch_hll h))"

record 'h count_state =
  cst_seen :: "event_id set"
  cst_denied :: bool
  cst_metrics :: query_metrics
  cst_hll :: "'h count_hll"

definition count_visit_event ::
  "'h hll_api \<Rightarrow> 't group_service_state option \<Rightarrow> 'h count_state \<Rightarrow> pocket_event \<Rightarrow> base_relay_error + 'h count_state" where
  "count_visit_event hapi groups s e =
     map_ok (\<lambda>h. s\<lparr>cst_hll := h, cst_seen := insert (pe_id e) (cst_seen s)\<rparr>)
       (hll_observe hapi groups e (cst_hll s))"

definition count_visit_filter ::
  "'f pocket_filter_api \<Rightarrow> ('st, 'f, screen_cells) pocket_find \<Rightarrow> 'h hll_api \<Rightarrow> ('t, 'st) relay_services \<Rightarrow>
   base_relay_limits \<Rightarrow> pocket_query_config \<Rightarrow> group_auth_context \<Rightarrow> 'h count_state \<Rightarrow> 'f \<Rightarrow>
   base_relay_error + 'h count_state" where
  "count_visit_filter api find_query hapi rs limits count_query auth s f =
     and_then (query_filter_events api find_query rs limits count_query f auth PreserveCountLimitless) (\<lambda>report.
       try_fold (count_visit_event hapi (rs_groups rs))
         (s\<lparr>cst_denied := cst_denied s \<or> eq_group_read_denied report,
            cst_hll := (if eq_group_read_denied report then hll_suppress (cst_hll s) else cst_hll s),
            cst_metrics := query_metrics_add (cst_metrics s) (eq_metrics report)\<rparr>)
         (eq_events report))"

record count_events_report =
  cr_count :: u64
  cr_hll :: "string option"
  cr_group_read_denied :: bool
  cr_metrics :: query_metrics

definition relay_count_events ::
  "'f pocket_filter_api \<Rightarrow> ('st, 'f, screen_cells) pocket_find \<Rightarrow> 'h hll_api \<Rightarrow> ('t, 'st) relay_services \<Rightarrow>
   base_relay_limits \<Rightarrow> pocket_query_config \<Rightarrow> 'f list \<Rightarrow> group_auth_context \<Rightarrow>
   base_relay_error + count_events_report" where
  "relay_count_events api find_query hapi rs limits query filters auth =
     and_then (count_hll_new api hapi filters) (\<lambda>h.
     map_ok (\<lambda>s. \<lparr>cr_count = of_nat (card (cst_seen s)), cr_hll = hll_into_hex hapi (cst_hll s),
         cr_group_read_denied = cst_denied s, cr_metrics = cst_metrics s\<rparr>)
       (try_fold (count_visit_filter api find_query hapi rs limits (exact_count query) auth)
         \<lparr>cst_seen = {}, cst_denied = False, cst_metrics = query_metrics_default,
          cst_hll = hll_suppress_for_filter_targets api (rs_groups rs) filters h\<rparr> filters))"

record count_report =
  cp_message :: relay_message
  cp_group_read_denied :: bool
  cp_metrics :: query_metrics

definition handle_count ::
  "'f pocket_filter_api \<Rightarrow> ('st, 'f, screen_cells) pocket_find \<Rightarrow> 'h hll_api \<Rightarrow> ('t, 'st) relay_services \<Rightarrow>
   base_relay_limits \<Rightarrow> pocket_query_config \<Rightarrow> subscription_id \<Rightarrow> 'f list \<Rightarrow> bool \<Rightarrow> group_auth_context \<Rightarrow>
   base_relay_error + count_report" where
  "handle_count api find_query hapi rs limits query sid filters search_present auth =
     and_then (validate_subscription_id limits sid) (\<lambda>_.
     and_then (validate_filters api limits filters) (\<lambda>_.
       case unsupported_search_closed sid search_present of
         Some message \<Rightarrow> Ok \<lparr>cp_message = message, cp_group_read_denied = False,
             cp_metrics = query_metrics_default\<rparr>
       | None \<Rightarrow> map_ok (\<lambda>report. \<lparr>cp_message = RelayCount sid (cr_count report) (cr_hll report),
             cp_group_read_denied = cr_group_read_denied report, cp_metrics = cr_metrics report\<rparr>)
           (relay_count_events api find_query hapi rs limits query filters auth)))"

section \<open>Reading by offset, closing, fan-out and shutdown\<close>

definition event_by_offset_with_auth ::
  "('t, 'st) runtime_env \<Rightarrow> ('t, 'st, 'f) base_relay \<Rightarrow> store_offset \<Rightarrow> group_auth_context \<Rightarrow>
   base_relay_error + pocket_event option" where
  "event_by_offset_with_auth env r offset auth =
     and_then (map_err base_error (event_by_offset (re_store env) offset (rs_store (br_services r)))) (\<lambda>e.
       map_ok (\<lambda>visible. if visible then Some e else None)
         (read_gate_visible (rs_groups (br_services r)) e auth))"

definition handle_close :: "subscription_id \<Rightarrow> ('t, 'st, 'f) base_relay \<Rightarrow> close_result \<times> ('t, 'st, 'f) base_relay" where
  "handle_close sid r =
     (let (result, subscriptions) = live_close sid (br_subscriptions r)
      in (result, r\<lparr>br_subscriptions := subscriptions\<rparr>))"

text \<open>\<open>None\<close> is the panic of the \<open>expect\<close> when a filter cannot be matched.\<close>

definition fanout_pocket ::
  "'f pocket_filter_api \<Rightarrow> pocket_event \<Rightarrow> group_auth_context \<Rightarrow> ('t, 'st, 'f) base_relay \<Rightarrow>
   runtime_relay_message list option" where
  "fanout_pocket api e auth r =
     (case live_fanout api (br_subscriptions r) e auth
         (\<lambda>e auth. read_gate_visible (rs_groups (br_services r)) e auth = Ok True) of
        Inl _ \<Rightarrow> None
      | Inr matched \<Rightarrow> Some (map (\<lambda>m. RuntimeEvent (lm_subscription_id m) e) matched))"

definition relay_shutdown ::
  "('t, 'st) runtime_env \<Rightarrow> (('t, 'st, 'f) base_relay, base_relay_error, nat) action" where
  "relay_shutdown env =
     act_bind (act_get (\<lambda>r. fst (live_close_all (br_subscriptions r)))) (\<lambda>closed.
     act_bind (act_modify (\<lambda>r. r\<lparr>br_subscriptions := snd (live_close_all (br_subscriptions r))\<rparr>)) (\<lambda>_.
     act_bind (act_on (\<lambda>r. rs_store (br_services r))
         (\<lambda>st r. r\<lparr>br_services := (br_services r)\<lparr>rs_store := st\<rparr>\<rparr>)
         (base_store (store_sync (re_store env)))) (\<lambda>_. act_return closed)))"

end
