(* ===== verification/Relay_Facts.thy ===== *)
theory Relay_Facts
  imports Relay_Core Runtime_Facts
begin

text \<open>
  What the relay promises to its clients: what an answer to a REQ or COUNT holds and reveals, when a
  request subscribes, what a live event reaches, and when a submitted event is stored.
\<close>

section \<open>Query results\<close>

lemma dedupe_events_set: "set (dedupe_events seen es) \<subseteq> set es"
  by (induction es arbitrary: seen) auto

lemma dedupe_events_ids:
  "distinct (map pe_id (dedupe_events seen es)) \<and> pe_id ` set (dedupe_events seen es) = pe_id ` set es - seen"
proof (induction es arbitrary: seen)
  case Nil
  then show ?case by simp
next
  case (Cons e es)
  show ?case
  proof (cases "pe_id e \<in> seen")
    case True
    with Cons.IH [of seen] show ?thesis by auto
  next
    case False
    have "pe_id e \<notin> pe_id ` set (dedupe_events (insert (pe_id e) seen) es)"
      using Cons.IH [of "insert (pe_id e) seen"] by blast
    with False Cons.IH [of "insert (pe_id e) seen"] show ?thesis by auto
  qed
qed

lemma dedupe_events_sorted: "sorted (map query_order es) \<Longrightarrow> sorted (map query_order (dedupe_events seen es))"
proof (induction es arbitrary: seen)
  case Nil
  then show ?case by simp
next
  case (Cons e es)
  then show ?case
    using dedupe_events_set [of "insert (pe_id e) seen" es] by (auto simp: image_iff)
qed

lemma sort_and_dedupe:
  "set (sort_and_dedupe es) \<subseteq> set es" "distinct (map pe_id (sort_and_dedupe es))"
  "pe_id ` set (sort_and_dedupe es) = pe_id ` set es" "sorted (map query_order (sort_and_dedupe es))"
  using dedupe_events_set [of "{}" "sort_key query_order es"] dedupe_events_ids [of "{}" "sort_key query_order es"]
    dedupe_events_sorted [of "sort_key query_order es" "{}"]
  by (auto simp: sort_and_dedupe_def)

lemma sort_and_dedupe_length: "length (sort_and_dedupe es) \<le> length es"
proof -
  have "length (dedupe_events seen xs) \<le> length xs" for seen xs
    by (induction xs arbitrary: seen) (auto intro: le_SucI)
  from this [of "{}" "sort_key query_order es"] show ?thesis by (simp add: sort_and_dedupe_def)
qed

text \<open>What a query may answer with: a visible event that one of the filters matches.\<close>

definition answer_for ::
  "'f pocket_filter_api \<Rightarrow> base_relay_limits \<Rightarrow> 't group_service_state option \<Rightarrow> group_auth_context \<Rightarrow>
   filter_limit_mode \<Rightarrow> 'f \<Rightarrow> pocket_event \<Rightarrow> bool" where
  "answer_for api limits groups auth mode f e \<longleftrightarrow> read_gate_visible groups e auth = Ok True
     \<and> (\<exists>pf. filter_with_limit_mode api limits f mode = Ok pf \<and> filter_hits api e pf)"

lemma query_screen_match:
  "fst (query_screen api groups f auth e c) = ScreenMatch \<Longrightarrow>
   read_gate_visible groups e auth = Ok True \<and> filter_hits api e f"
  by (auto simp: query_screen_def filter_hits_def Let_def split: if_splits sum.splits bool.splits)

lemma screen_all_match:
  "screen_all (query_screen api groups f auth) c es = (visits, d) \<Longrightarrow> (e, ScreenMatch) \<in> set visits \<Longrightarrow>
   read_gate_visible groups e auth = Ok True \<and> filter_hits api e f"
proof (induction es arbitrary: c visits)
  case Nil
  then show ?case by simp
next
  case (Cons x es)
  obtain r c' where r: "query_screen api groups f auth x c = (r, c')" by fastforce
  obtain vs d' where vs: "screen_all (query_screen api groups f auth) c' es = (vs, d')" by fastforce
  have split: "visits = (x, r) # vs" "d' = d" using Cons.prems(1) r vs by simp_all
  show ?case
  proof (cases "(e, ScreenMatch) \<in> set vs")
    case True
    then show ?thesis using Cons.IH vs split by blast
  next
    case False
    then have "x = e" "r = ScreenMatch" using Cons.prems(2) split by auto
    then show ?thesis using query_screen_match [of api groups f auth e c] r by simp
  qed
qed

lemma query_filter_events_sound:
  assumes "find_lawful find_query"
    and "query_filter_events api find_query rs limits query f auth mode = Ok report"
    and "e \<in> set (eq_events report)"
  shows "answer_for api limits (rs_groups rs) auth mode f e"
proof -
  from assms(2) obtain pf where pf: "filter_with_limit_mode api limits f mode = Ok pf"
    by (auto simp: query_filter_events_def and_then_Ok_iff)
  let ?screen = "query_screen api (rs_groups rs) pf auth"
  let ?cells = "\<lparr>sc_error = None, sc_candidates_scanned = 0, sc_redacted_events = 0\<rparr>"
  obtain found d where found: "find_query pf (qc_allow_scraping query) (qc_allow_scrape_if_limited_to query)
      (qc_allow_scrape_if_max_seconds query) ?screen ?cells (rs_store rs) = (found, d)" by fastforce
  have run: "query_filter_events api find_query rs limits query f auth mode =
      and_then (map_err base_error (map_ok (\<lambda>(events, redacted). \<lparr>pse_events = events, pse_redacted = redacted\<rparr>) found))
        (\<lambda>screened. case sc_error d of Some error \<Rightarrow> Err error | None \<Rightarrow>
           Ok \<lparr>eq_events = pse_events screened, eq_group_read_denied = pse_redacted screened,
             eq_metrics = \<lparr>qm_candidates_scanned = sc_candidates_scanned d,
               qm_returned_events = 0, qm_redacted_events = sc_redacted_events d\<rparr>\<rparr>)"
    by (simp add: query_filter_events_def pf find_events_with_screen_def found)
  obtain events redacted where ok: "found = Ok (events, redacted)" "e \<in> set events"
  proof (cases found)
    case (Inr x)
    then show ?thesis
      using that [of "fst x" "snd x"] assms(2,3) run by (cases x) (auto split: option.splits)
  qed (use assms(2) run in simp)
  then obtain candidates visits where visits: "screen_all ?screen ?cells candidates = (visits, d)"
      "set events \<subseteq> {e. (e, ScreenMatch) \<in> set visits}"
    using assms(1) found unfolding find_lawful_def by blast
  have "read_gate_visible (rs_groups rs) e auth = Ok True \<and> filter_hits api e pf"
    by (rule screen_all_match [OF visits(1)]) (use visits(2) ok(2) in blast)
  with pf show ?thesis by (auto simp: answer_for_def)
qed

text \<open>
  What the query of Pocket promises about the store. An event is stored when it is found by its id. The
  query screens stored events only, and returns each event screened as a match at most once. When it
  returned fewer events than its filter allows it has screened every stored event that the filter
  matches and returned all the matches. A filter is made with the limit it is given, and without a
  limit its limit is the greatest number.
\<close>

definition stored_event :: "'st pocket_db \<Rightarrow> 'st \<Rightarrow> pocket_event \<Rightarrow> bool" where
  "stored_event db st e \<longleftrightarrow> db_event_by_id db st (pe_id e) = Ok (Some e)"

definition below_limit :: "u32 \<Rightarrow> nat \<Rightarrow> bool" where
  "below_limit limit n \<longleftrightarrow> limit = - 1 \<or> n < unat limit"

definition find_in_store :: "'f pocket_filter_api \<Rightarrow> 'st pocket_db \<Rightarrow> ('st, 'f, 'c) pocket_find \<Rightarrow> bool" where
  "find_in_store api db query \<longleftrightarrow> (\<forall>f scraping limited seconds screen c st events redacted d.
     query f scraping limited seconds screen c st = (Ok (events, redacted), d) \<longrightarrow>
     (\<exists>candidates visits. screen_all screen c candidates = (visits, d)
        \<and> list_all (stored_event db st) candidates \<and> distinct events
        \<and> set events \<subseteq> {e. (e, ScreenMatch) \<in> set visits}
        \<and> (redacted \<longleftrightarrow> (\<exists>e. (e, ScreenRedacted) \<in> set visits))
        \<and> (below_limit (pf_limit api f) (length events) \<longrightarrow>
             {e. (e, ScreenMatch) \<in> set visits} \<subseteq> set events
             \<and> (\<forall>e. stored_event db st e \<longrightarrow> pf_event_matches api f e = Ok True \<longrightarrow> e \<in> set candidates))))"

definition filter_keeps_limit :: "'f pocket_filter_api \<Rightarrow> bool" where
  "filter_keeps_limit api \<longleftrightarrow> (\<forall>ids authors kinds tags since until limit f.
     pf_new api ids authors kinds tags since until limit = Ok f \<longrightarrow>
     pf_limit api f = (case limit of None \<Rightarrow> - 1 | Some n \<Rightarrow> n))"

lemma find_in_store_lawful: "find_in_store api db query \<Longrightarrow> find_lawful query"
  unfolding find_in_store_def find_lawful_def by blast

text \<open>When no error was met, a stored event was screened by whether it matches and may be seen.\<close>

lemma query_screen_error: "sc_error c \<noteq> None \<Longrightarrow> sc_error (snd (query_screen api groups f auth e c)) \<noteq> None"
  by (simp add: query_screen_def Let_def)

lemma screen_all_error:
  "screen_all (query_screen api groups f auth) c es = (visits, d) \<Longrightarrow> sc_error c \<noteq> None \<Longrightarrow> sc_error d \<noteq> None"
proof (induction es arbitrary: c visits)
  case (Cons e es)
  obtain r c' where step: "query_screen api groups f auth e c = (r, c')" by fastforce
  with query_screen_error [OF Cons.prems(2), of api groups f auth e] have "sc_error c' \<noteq> None" by simp
  with Cons step show ?case by (auto split: prod.splits)
qed simp

lemma query_screen_result:
  assumes "query_screen api groups f auth e c = (r, d)" and "sc_error d = None"
  shows "(r = ScreenMatch \<longleftrightarrow> filter_hits api e f \<and> read_gate_visible groups e auth = Ok True)
    \<and> (r = ScreenRedacted \<longleftrightarrow> filter_hits api e f \<and> read_gate_visible groups e auth = Ok False)"
  using assms
  by (auto simp: query_screen_def filter_hits_def Let_def split: if_splits sum.splits bool.splits)

lemma screen_all_candidates:
  "screen_all (query_screen api groups f auth) c es = (visits, d) \<Longrightarrow> sc_error d = None \<Longrightarrow>
   map fst visits = es \<and> (\<forall>(e, r)\<in>set visits.
     (r = ScreenMatch \<longleftrightarrow> filter_hits api e f \<and> read_gate_visible groups e auth = Ok True)
     \<and> (r = ScreenRedacted \<longleftrightarrow> filter_hits api e f \<and> read_gate_visible groups e auth = Ok False))"
proof (induction es arbitrary: c visits)
  case (Cons e es)
  obtain r c' where step: "query_screen api groups f auth e c = (r, c')" by fastforce
  obtain rest d' where rest: "screen_all (query_screen api groups f auth) c' es = (rest, d')" by fastforce
  have split: "visits = (e, r) # rest" "d' = d" using Cons.prems(1) step rest by simp_all
  have "sc_error c' = None" using screen_all_error [OF rest] Cons.prems(2) split(2) by (cases "sc_error c'") auto
  from query_screen_result [OF step this] Cons.IH [OF rest [unfolded split(2)] Cons.prems(2)] split(1)
  show ?case by simp
qed simp

definition matching_events ::
  "'f pocket_filter_api \<Rightarrow> 'st pocket_db \<Rightarrow> ('t, 'st) relay_services \<Rightarrow> base_relay_limits \<Rightarrow> group_auth_context \<Rightarrow>
   filter_limit_mode \<Rightarrow> 'f \<Rightarrow> pocket_event set" where
  "matching_events api db rs limits auth mode f =
     {e. stored_event db (rs_store rs) e \<and> answer_for api limits (rs_groups rs) auth mode f e}"

text \<open>The answer of one filter, against the store.\<close>

lemma query_filter_events_matching:
  assumes "find_in_store api db find_query"
    and "query_filter_events api find_query rs limits query f auth mode = Ok report"
  shows "\<exists>pf. filter_with_limit_mode api limits f mode = Ok pf \<and> distinct (eq_events report)
    \<and> set (eq_events report) \<subseteq> matching_events api db rs limits auth mode f
    \<and> (below_limit (pf_limit api pf) (length (eq_events report)) \<longrightarrow>
         set (eq_events report) = matching_events api db rs limits auth mode f
         \<and> (eq_group_read_denied report \<longleftrightarrow>
             (\<exists>e. stored_event db (rs_store rs) e \<and> filter_hits api e pf \<and> read_gate_visible (rs_groups rs) e auth = Ok False)))"
proof -
  from assms(2) obtain pf where pf: "filter_with_limit_mode api limits f mode = Ok pf"
    by (auto simp: query_filter_events_def and_then_Ok_iff)
  let ?screen = "query_screen api (rs_groups rs) pf auth"
  let ?cells = "\<lparr>sc_error = None, sc_candidates_scanned = 0, sc_redacted_events = 0\<rparr>"
  obtain found d where found: "find_query pf (qc_allow_scraping query) (qc_allow_scrape_if_limited_to query)
      (qc_allow_scrape_if_max_seconds query) ?screen ?cells (rs_store rs) = (found, d)" by fastforce
  have "\<exists>events redacted. found = Ok (events, redacted) \<and> sc_error d = None
      \<and> eq_events report = events \<and> eq_group_read_denied report = redacted"
    using assms(2)
    by (cases found; cases "sc_error d")
      (auto simp: query_filter_events_def pf find_events_with_screen_def found)
  then obtain events redacted where ok: "found = Ok (events, redacted)" "sc_error d = None"
    "eq_events report = events" "eq_group_read_denied report = redacted" by blast
  then obtain candidates visits where v: "screen_all ?screen ?cells candidates = (visits, d)"
    "list_all (stored_event db (rs_store rs)) candidates" "distinct events"
    "set events \<subseteq> {e. (e, ScreenMatch) \<in> set visits}" "redacted \<longleftrightarrow> (\<exists>e. (e, ScreenRedacted) \<in> set visits)"
    "below_limit (pf_limit api pf) (length events) \<longrightarrow> {e. (e, ScreenMatch) \<in> set visits} \<subseteq> set events
       \<and> (\<forall>e. stored_event db (rs_store rs) e \<longrightarrow> pf_event_matches api pf e = Ok True \<longrightarrow> e \<in> set candidates)"
    using assms(1) [unfolded find_in_store_def, THEN spec, THEN spec, THEN spec, THEN spec, THEN spec, THEN spec,
      THEN spec, THEN spec, THEN spec, THEN spec, THEN mp, OF found [unfolded ok(1)]] by blast
  note screened = screen_all_candidates [OF v(1) ok(2)]
  have candidate: "e \<in> set candidates \<longleftrightarrow> (\<exists>r. (e, r) \<in> set visits)" for e
    using conjunct1 [OF screened] by force
  have answer: "answer_for api limits (rs_groups rs) auth mode f e \<longleftrightarrow>
      filter_hits api e pf \<and> read_gate_visible (rs_groups rs) e auth = Ok True" for e
    by (auto simp: answer_for_def pf)
  have visit: "(r = ScreenMatch \<longleftrightarrow> answer_for api limits (rs_groups rs) auth mode f e)
      \<and> (r = ScreenRedacted \<longleftrightarrow> filter_hits api e pf \<and> read_gate_visible (rs_groups rs) e auth = Ok False)"
    if "(e, r) \<in> set visits" for e r
    using conjunct2 [OF screened] that answer by auto
  have matched: "filter_hits api e pf \<longleftrightarrow> pf_event_matches api pf e = Ok True" for e
    by (auto simp: filter_hits_def)
  have here: "stored_event db (rs_store rs) e" if "e \<in> set candidates" for e
    using that v(2) by (simp add: list_all_iff)
  have redacted: "redacted \<longleftrightarrow> (\<exists>e. stored_event db (rs_store rs) e \<and> filter_hits api e pf
      \<and> read_gate_visible (rs_groups rs) e auth = Ok False)" if "below_limit (pf_limit api pf) (length events)"
  proof
    assume redacted
    then obtain e where e: "(e, ScreenRedacted) \<in> set visits" using v(5) by blast
    then have "stored_event db (rs_store rs) e" using here candidate by blast
    with visit [OF e] show "\<exists>e. stored_event db (rs_store rs) e \<and> filter_hits api e pf
      \<and> read_gate_visible (rs_groups rs) e auth = Ok False" by blast
  next
    assume "\<exists>e. stored_event db (rs_store rs) e \<and> filter_hits api e pf
      \<and> read_gate_visible (rs_groups rs) e auth = Ok False"
    then obtain e where e: "stored_event db (rs_store rs) e" "filter_hits api e pf"
      "read_gate_visible (rs_groups rs) e auth = Ok False" by blast
    have "pf_event_matches api pf e = Ok True" using e(2) matched by simp
    with e(1) v(6) that have "e \<in> set candidates" by simp
    then obtain r where r: "(e, r) \<in> set visits" using candidate [of e] by blast
    with visit [OF r] e have "r = ScreenRedacted" by blast
    with r show redacted using v(5) by blast
  qed
  have complete: "e \<in> set events" if "below_limit (pf_limit api pf) (length events)"
      "stored_event db (rs_store rs) e" "answer_for api limits (rs_groups rs) auth mode f e" for e
  proof -
    have "pf_event_matches api pf e = Ok True" using that(3) answer matched by simp
    with that(1,2) v(6) have "e \<in> set candidates" by simp
    then obtain r where r: "(e, r) \<in> set visits" using candidate [of e] by blast
    with visit [OF r] that(3) have "(e, ScreenMatch) \<in> set visits" by simp
    then show ?thesis using v(6) that(1) by auto
  qed
  have sound: "stored_event db (rs_store rs) e \<and> answer_for api limits (rs_groups rs) auth mode f e"
    if "e \<in> set events" for e
  proof -
    have e: "(e, ScreenMatch) \<in> set visits" using that v(4) by blast
    then have "e \<in> set candidates" using candidate by blast
    with here visit [OF e] show ?thesis by simp
  qed
  have subset: "set (eq_events report) \<subseteq> matching_events api db rs limits auth mode f"
    unfolding ok(3) matching_events_def using sound by blast
  moreover have "matching_events api db rs limits auth mode f \<subseteq> set (eq_events report)"
    if "below_limit (pf_limit api pf) (length (eq_events report))"
    using complete that unfolding ok(3) matching_events_def by blast
  ultimately have "below_limit (pf_limit api pf) (length (eq_events report)) \<longrightarrow>
      set (eq_events report) = matching_events api db rs limits auth mode f" by blast
  with pf subset redacted v(3) show ?thesis by (intro exI [of _ pf]) (simp add: ok(3,4))
qed

lemma query_events_fold:
  assumes "find_lawful find_query"
  shows "try_fold (query_events_visit api find_query rs limits query auth) start filters = Ok report \<Longrightarrow>
    (\<forall>e\<in>set (eq_events report). e \<in> set (eq_events start) \<or>
       (\<exists>f\<in>set filters. answer_for api limits (rs_groups rs) auth ApplyDefaultLimit f e))
    \<and> length (eq_events report) \<le> length (eq_events start) + sum_list (map (effective_filter_limit api limits) filters)"
proof (induction filters arbitrary: start)
  case Nil
  then show ?case by simp
next
  case (Cons f filters)
  then obtain mid where mid: "query_events_visit api find_query rs limits query auth start f = Ok mid"
    "try_fold (query_events_visit api find_query rs limits query auth) mid filters = Ok report"
    by (auto simp: and_then_Ok_iff)
  then obtain sub where sub: "query_filter_events api find_query rs limits query f auth ApplyDefaultLimit = Ok sub"
    "eq_events mid = eq_events start
       @ take (effective_filter_limit api limits f) (sort_and_dedupe (eq_events sub))"
    by (auto simp: query_events_visit_def map_ok_Ok_iff)
  have "answer_for api limits (rs_groups rs) auth ApplyDefaultLimit f e"
    if "e \<in> set (take (effective_filter_limit api limits f) (sort_and_dedupe (eq_events sub)))" for e
  proof -
    have "e \<in> set (eq_events sub)" using that sort_and_dedupe(1) by (meson in_set_takeD subsetD)
    then show ?thesis by (rule query_filter_events_sound [OF assms sub(1)])
  qed
  moreover have "length (eq_events mid) \<le> length (eq_events start) + effective_filter_limit api limits f"
    by (simp add: sub(2))
  ultimately show ?case using Cons.IH [OF mid(2)] sub(2) by fastforce
qed

lemma query_events_sound:
  assumes "find_lawful find_query" and "query_events api find_query rs limits query filters auth = Ok report"
  shows "(\<forall>e\<in>set (eq_events report). \<exists>f\<in>set filters. answer_for api limits (rs_groups rs) auth ApplyDefaultLimit f e)
     \<and> distinct (map pe_id (eq_events report)) \<and> sorted (map query_order (eq_events report))
     \<and> length (eq_events report) \<le> sum_list (map (effective_filter_limit api limits) filters)"
proof -
  let ?start = "\<lparr>eq_events = [], eq_group_read_denied = False, eq_metrics = query_metrics_default\<rparr>"
  obtain result where out: "try_fold (query_events_visit api find_query rs limits query auth) ?start filters = Ok result"
    "eq_events report = sort_and_dedupe (eq_events result)"
    using assms(2) by (auto simp: query_events_def map_ok_Ok_iff Let_def)
  show ?thesis
    using query_events_fold [OF assms(1) out(1)] sort_and_dedupe [of "eq_events result"]
      sort_and_dedupe_length [of "eq_events result"]
    by (auto simp: out(2) subset_iff)
qed

text \<open>Stored events are told apart by their ids.\<close>

lemma stored_event_unique: "stored_event db st e \<Longrightarrow> stored_event db st e' \<Longrightarrow> pe_id e = pe_id e' \<Longrightarrow> e = e'"
  by (simp add: stored_event_def)

lemma stored_ids_inj: "\<forall>e\<in>A. stored_event db st e \<Longrightarrow> inj_on pe_id A"
  by (rule inj_onI) (rule stored_event_unique, blast+)

lemma sort_and_dedupe_stored: "\<forall>e\<in>set es. stored_event db st e \<Longrightarrow> set (sort_and_dedupe es) = set es"
  using inj_on_image_eq_iff [OF stored_ids_inj [of "set es" db st] sort_and_dedupe(1) subset_refl] sort_and_dedupe(3) [of es]
  by simp

lemma default_limit_filter:
  assumes "filter_keeps_limit api" and "filter_with_limit_mode api limits f ApplyDefaultLimit = Ok pf"
    and "n < effective_filter_limit api limits f"
  shows "below_limit (pf_limit api pf) n"
proof (cases "pf_limit api f = - 1")
  case True
  then have "unat (bl_default_limit limits) < 2 ^ 32" "pf_limit api pf = ucast (bl_default_limit limits)"
    using assms(1,2)
    by (auto simp: filter_with_limit_mode_def filter_keeps_limit_def result_iffs split: if_splits)
  then have "unat (pf_limit api pf) = unat (bl_default_limit limits)"
    by (simp add: unsigned_ucast_eq take_bit_nat_eq_self)
  with True assms(3) show ?thesis by (simp add: effective_filter_limit_def below_limit_def)
next
  case False
  then have "pf_limit api pf = pf_limit api f"
    using assms(1,2)
    by (auto simp: filter_with_limit_mode_def filter_keeps_limit_def result_iffs split: if_splits)
  with False assms(3) show ?thesis by (simp add: effective_filter_limit_def below_limit_def)
qed

lemma query_events_visit_complete:
  assumes "find_in_store api db find_query" and "filter_keeps_limit api"
    and "query_events_visit api find_query rs limits query auth start f = Ok mid"
    and "finite (matching_events api db rs limits auth ApplyDefaultLimit f)"
    and "card (matching_events api db rs limits auth ApplyDefaultLimit f) < effective_filter_limit api limits f"
  shows "matching_events api db rs limits auth ApplyDefaultLimit f \<subseteq> set (eq_events mid)"
proof -
  let ?found = "matching_events api db rs limits auth ApplyDefaultLimit f"
  obtain sub where sub: "query_filter_events api find_query rs limits query f auth ApplyDefaultLimit = Ok sub"
    "eq_events mid = eq_events start
       @ take (effective_filter_limit api limits f) (sort_and_dedupe (eq_events sub))"
    using assms(3) by (auto simp: query_events_visit_def map_ok_Ok_iff)
  obtain pf where pf: "filter_with_limit_mode api limits f ApplyDefaultLimit = Ok pf"
    "distinct (eq_events sub)" "set (eq_events sub) \<subseteq> ?found"
    "below_limit (pf_limit api pf) (length (eq_events sub)) \<longrightarrow> set (eq_events sub) = ?found"
    using query_filter_events_matching [OF assms(1) sub(1)] by blast
  have "length (eq_events sub) \<le> card ?found"
    using card_mono [OF assms(4) pf(3)] distinct_card [OF pf(2)] by simp
  with assms(5) have short: "length (eq_events sub) < effective_filter_limit api limits f" by simp
  have "set (sort_and_dedupe (eq_events sub)) = set (eq_events sub)"
    using pf(3) by (intro sort_and_dedupe_stored [of _ db "rs_store rs"]) (auto simp: matching_events_def)
  moreover have "set (eq_events sub) = ?found"
    using pf(4) default_limit_filter [OF assms(2) pf(1) short] by blast
  moreover have "length (sort_and_dedupe (eq_events sub)) < effective_filter_limit api limits f"
    using short sort_and_dedupe_length [of "eq_events sub"] by simp
  ultimately show ?thesis using sub(2) by simp
qed

lemma query_events_visit_stored:
  assumes "find_in_store api db find_query"
    and "query_events_visit api find_query rs limits query auth start f = Ok mid"
    and "\<forall>e\<in>set (eq_events start). stored_event db (rs_store rs) e"
  shows "(\<forall>e\<in>set (eq_events mid). stored_event db (rs_store rs) e) \<and> set (eq_events start) \<subseteq> set (eq_events mid)"
proof -
  obtain sub where sub: "query_filter_events api find_query rs limits query f auth ApplyDefaultLimit = Ok sub"
    "eq_events mid = eq_events start
       @ take (effective_filter_limit api limits f) (sort_and_dedupe (eq_events sub))"
    using assms(2) by (auto simp: query_events_visit_def map_ok_Ok_iff)
  have "\<forall>e\<in>set (eq_events sub). stored_event db (rs_store rs) e"
    using query_filter_events_matching [OF assms(1) sub(1)] by (auto simp: matching_events_def)
  with assms(3) sub(2) sort_and_dedupe(1) show ?thesis by (auto dest!: in_set_takeD)
qed

lemma query_events_complete:
  assumes "find_in_store api db find_query" and "filter_keeps_limit api"
  shows "try_fold (query_events_visit api find_query rs limits query auth) start filters = Ok report \<Longrightarrow>
    \<forall>e\<in>set (eq_events start). stored_event db (rs_store rs) e \<Longrightarrow>
    (\<forall>e\<in>set (eq_events report). stored_event db (rs_store rs) e) \<and> set (eq_events start) \<subseteq> set (eq_events report)
    \<and> (\<forall>f\<in>set filters. finite (matching_events api db rs limits auth ApplyDefaultLimit f) \<longrightarrow>
         card (matching_events api db rs limits auth ApplyDefaultLimit f) < effective_filter_limit api limits f \<longrightarrow>
         matching_events api db rs limits auth ApplyDefaultLimit f \<subseteq> set (eq_events report))"
proof (induction filters arbitrary: start)
  case Nil
  then show ?case by simp
next
  case (Cons f filters)
  then obtain mid where mid: "query_events_visit api find_query rs limits query auth start f = Ok mid"
    "try_fold (query_events_visit api find_query rs limits query auth) mid filters = Ok report"
    by (auto simp: and_then_Ok_iff)
  note step = query_events_visit_stored [OF assms(1) mid(1) Cons.prems(2)]
  note rest = Cons.IH [OF mid(2) conjunct1 [OF step]]
  show ?case using step rest query_events_visit_complete [OF assms mid(1)] by fastforce
qed


section \<open>Subscriptions\<close>

text \<open>
  Against the abstract view of the subscriptions, a map from ids to filters of bounded size: a REQ
  that is answered subscribes under its id, replacing an earlier subscription, exactly when it has
  no search filter, its filters can still match later events and no event was withheld; it changes
  nothing else.
\<close>

theorem req_refines_subscription_map:
  assumes "live_wf (br_subscriptions r)"
    and "handle_pocket_req api find_query sid filters search_present auth r = Ok (report, r')"
  shows "live_wf (br_subscriptions r') \<and> br_services r' = br_services r \<and>
    live_map (br_subscriptions r') =
      (if \<not> search_present \<and> \<not> filters_complete api filters \<and> \<not> qr_group_read_denied report
       then (live_map (br_subscriptions r))(sid \<mapsto> filters) else live_map (br_subscriptions r))"
proof (cases "search_present \<or> filters_complete api filters \<or> qr_group_read_denied report")
  case True
  then have "r' = r"
    using assms(2)
    by (cases search_present; cases "filters_complete api filters")
       (auto simp: handle_pocket_req_def and_then_Ok_iff map_ok_Ok_iff unsupported_search_closed_def Let_def
         split: if_splits)
  with True assms(1) show ?thesis by auto
next
  case False
  then obtain s where "live_subscribe sid filters (br_subscriptions r) = Ok s" "r' = r\<lparr>br_subscriptions := s\<rparr>"
    using assms(2)
    by (auto simp: handle_pocket_req_def and_then_Ok_iff map_ok_Ok_iff unsupported_search_closed_def Let_def
        split: if_splits)
  with live_subscribe_spec [OF assms(1)] False show ?thesis by auto
qed

section \<open>Counts\<close>

definition hll_public :: "'t group_service_state option \<Rightarrow> pocket_event \<Rightarrow> bool" where
  "hll_public groups e \<longleftrightarrow> event_suppresses_count_hll groups e = Ok False"

text \<open>
  While the HyperLogLog of a count is not suppressed, every event counted so far is public and no
  event was withheld.
\<close>

definition count_ok ::
  "(pocket_event \<Rightarrow> bool) \<Rightarrow> 't group_service_state option \<Rightarrow> bool \<Rightarrow> 'h count_state \<Rightarrow> bool" where
  "count_ok P groups single s \<longleftrightarrow> finite (cst_seen s)
     \<and> (ch_hll (cst_hll s) \<noteq> None \<longrightarrow> ch_offset (cst_hll s) \<noteq> None)
     \<and> (ch_offset (cst_hll s) \<noteq> None \<longrightarrow> single)
     \<and> (\<exists>counted. cst_seen s = pe_id ` counted \<and> (\<forall>e\<in>counted. P e) \<and>
          (ch_offset (cst_hll s) \<noteq> None \<longrightarrow> \<not> ch_suppressed (cst_hll s) \<longrightarrow>
             \<not> cst_denied s \<and> (\<forall>e\<in>counted. hll_public groups e)))"

lemma hll_observe_Ok:
  assumes "hll_observe hapi groups e h = Ok h'"
  shows "ch_offset h' = ch_offset h \<and> (ch_hll h' = None \<longleftrightarrow> ch_hll h = None) \<and>
    (ch_offset h \<noteq> None \<longrightarrow> \<not> ch_suppressed h' \<longrightarrow> \<not> ch_suppressed h \<and> hll_public groups e)"
proof (cases "ch_offset h")
  case None
  with assms show ?thesis by (simp add: hll_observe_def)
next
  case (Some offset)
  then obtain suppresses where "event_suppresses_count_hll groups e = Ok suppresses"
    using assms by (auto simp: hll_observe_def and_then_Ok_iff)
  with Some assms show ?thesis
    by (cases suppresses; cases "ch_hll h") (auto simp: hll_observe_def hll_public_def map_ok_Ok_iff)
qed

lemma count_visit_event_ok:
  assumes "count_visit_event hapi groups s e = Ok s'" and "count_ok P groups single s" and "P e"
  shows "count_ok P groups single s'"
proof -
  obtain h where h: "hll_observe hapi groups e (cst_hll s) = Ok h"
    "s' = s\<lparr>cst_hll := h, cst_seen := insert (pe_id e) (cst_seen s)\<rparr>"
    using assms(1) by (auto simp: count_visit_event_def map_ok_Ok_iff)
  obtain counted where c: "cst_seen s = pe_id ` counted" "\<forall>e\<in>counted. P e"
    "ch_offset (cst_hll s) \<noteq> None \<longrightarrow> \<not> ch_suppressed (cst_hll s) \<longrightarrow>
       \<not> cst_denied s \<and> (\<forall>e\<in>counted. hll_public groups e)"
    using assms(2) unfolding count_ok_def by blast
  have "\<exists>counted. cst_seen s' = pe_id ` counted \<and> (\<forall>e\<in>counted. P e) \<and>
          (ch_offset (cst_hll s') \<noteq> None \<longrightarrow> \<not> ch_suppressed (cst_hll s') \<longrightarrow>
             \<not> cst_denied s' \<and> (\<forall>e\<in>counted. hll_public groups e))"
    using hll_observe_Ok [OF h(1)] c assms(3) h(2) by (intro exI [of _ "insert e counted"]) auto
  moreover have "finite (cst_seen s')" "ch_hll (cst_hll s') \<noteq> None \<longrightarrow> ch_offset (cst_hll s') \<noteq> None"
    "ch_offset (cst_hll s') \<noteq> None \<longrightarrow> single"
    using assms(2) hll_observe_Ok [OF h(1)] h(2) by (simp_all add: count_ok_def)
  ultimately show ?thesis unfolding count_ok_def by blast
qed

lemma count_visit_events_ok:
  "try_fold (count_visit_event hapi groups) s es = Ok s' \<Longrightarrow> count_ok P groups single s \<Longrightarrow>
   \<forall>e\<in>set es. P e \<Longrightarrow> count_ok P groups single s'"
proof (induction es arbitrary: s)
  case Nil
  then show ?case by simp
next
  case (Cons e es)
  then obtain t where "count_visit_event hapi groups s e = Ok t"
    "try_fold (count_visit_event hapi groups) t es = Ok s'" by (auto simp: and_then_Ok_iff)
  with Cons show ?case using count_visit_event_ok by (metis list.set_intros)
qed

text \<open>An event that matches the filter of a count and is withheld from the reader.\<close>

definition withheld_events ::
  "'f pocket_filter_api \<Rightarrow> 'st pocket_db \<Rightarrow> ('t, 'st) relay_services \<Rightarrow> base_relay_limits \<Rightarrow> group_auth_context \<Rightarrow>
   filter_limit_mode \<Rightarrow> 'f \<Rightarrow> pocket_event set" where
  "withheld_events api db rs limits auth mode f =
     {e. stored_event db (rs_store rs) e \<and> read_gate_visible (rs_groups rs) e auth = Ok False
       \<and> (\<exists>pf. filter_with_limit_mode api limits f mode = Ok pf \<and> filter_hits api e pf)}"

lemma count_filter_found:
  assumes "find_in_store api db find_query" and "filter_keeps_limit api"
    and "query_filter_events api find_query rs limits query f auth PreserveCountLimitless = Ok report"
  shows "set (eq_events report) = matching_events api db rs limits auth PreserveCountLimitless f"
    and "eq_group_read_denied report \<longleftrightarrow> withheld_events api db rs limits auth PreserveCountLimitless f \<noteq> {}"
proof -
  obtain pf where pf: "filter_with_limit_mode api limits f PreserveCountLimitless = Ok pf"
    "below_limit (pf_limit api pf) (length (eq_events report)) \<longrightarrow>
       set (eq_events report) = matching_events api db rs limits auth PreserveCountLimitless f
       \<and> (eq_group_read_denied report \<longleftrightarrow>
           (\<exists>e. stored_event db (rs_store rs) e \<and> filter_hits api e pf \<and> read_gate_visible (rs_groups rs) e auth = Ok False))"
    using query_filter_events_matching [OF assms(1,3)] by blast
  have "pf_limit api pf = - 1"
    using assms(2) pf(1) by (auto simp: filter_with_limit_mode_def filter_keeps_limit_def result_iffs)
  then have "below_limit (pf_limit api pf) (length (eq_events report))" by (simp add: below_limit_def)
  with pf show "set (eq_events report) = matching_events api db rs limits auth PreserveCountLimitless f"
    "eq_group_read_denied report \<longleftrightarrow> withheld_events api db rs limits auth PreserveCountLimitless f \<noteq> {}"
    by (auto simp: withheld_events_def)
qed

lemma count_visit_event_seen:
  "count_visit_event hapi groups s e = Ok s' \<Longrightarrow>
   cst_seen s' = insert (pe_id e) (cst_seen s) \<and> cst_denied s' = cst_denied s"
  by (auto simp: count_visit_event_def map_ok_Ok_iff)

lemma count_visit_events_seen:
  "try_fold (count_visit_event hapi groups) s es = Ok s' \<Longrightarrow>
   cst_seen s' = cst_seen s \<union> pe_id ` set es \<and> cst_denied s' = cst_denied s"
  by (induction es arbitrary: s) (auto simp: and_then_Ok_iff dest: count_visit_event_seen)

lemma count_visit_filter_ok:
  assumes "find_in_store api db find_query" and "filter_keeps_limit api"
    and "count_visit_filter api find_query hapi rs limits query auth s f = Ok t"
    and "count_ok P (rs_groups rs) single s"
    and "\<forall>e\<in>matching_events api db rs limits auth PreserveCountLimitless f. P e"
  shows "count_ok P (rs_groups rs) single t"
    "cst_seen t = cst_seen s \<union> pe_id ` matching_events api db rs limits auth PreserveCountLimitless f"
    "cst_denied t \<longleftrightarrow> cst_denied s \<or> withheld_events api db rs limits auth PreserveCountLimitless f \<noteq> {}"
proof -
  obtain report where report:
    "query_filter_events api find_query rs limits query f auth PreserveCountLimitless = Ok report"
    "try_fold (count_visit_event hapi (rs_groups rs))
         (s\<lparr>cst_denied := cst_denied s \<or> eq_group_read_denied report,
            cst_hll := (if eq_group_read_denied report then hll_suppress (cst_hll s) else cst_hll s),
            cst_metrics := query_metrics_add (cst_metrics s) (eq_metrics report)\<rparr>)
         (eq_events report) = Ok t"
    using assms(3) by (auto simp: count_visit_filter_def and_then_Ok_iff)
  note found = count_filter_found [OF assms(1,2) report(1)]
  have "count_ok P (rs_groups rs) single (s\<lparr>cst_denied := cst_denied s \<or> eq_group_read_denied report,
            cst_hll := (if eq_group_read_denied report then hll_suppress (cst_hll s) else cst_hll s),
            cst_metrics := query_metrics_add (cst_metrics s) (eq_metrics report)\<rparr>)"
    using assms(4) by (fastforce simp: count_ok_def hll_suppress_def)
  then show "count_ok P (rs_groups rs) single t"
    using count_visit_events_ok [OF report(2)] assms(5) found(1) by blast
  show "cst_seen t = cst_seen s \<union> pe_id ` matching_events api db rs limits auth PreserveCountLimitless f"
    "cst_denied t \<longleftrightarrow> cst_denied s \<or> withheld_events api db rs limits auth PreserveCountLimitless f \<noteq> {}"
    using count_visit_events_seen [OF report(2)] found by simp_all
qed

lemma count_visit_filters_ok:
  assumes "find_in_store api db find_query" and "filter_keeps_limit api"
  shows "try_fold (count_visit_filter api find_query hapi rs limits query auth) s filters = Ok s' \<Longrightarrow>
    count_ok P (rs_groups rs) single s \<Longrightarrow>
    \<forall>f\<in>set filters. \<forall>e\<in>matching_events api db rs limits auth PreserveCountLimitless f. P e \<Longrightarrow>
    count_ok P (rs_groups rs) single s'
    \<and> cst_seen s' = cst_seen s \<union> pe_id ` (\<Union>f\<in>set filters. matching_events api db rs limits auth PreserveCountLimitless f)
    \<and> (cst_denied s' \<longleftrightarrow> cst_denied s
        \<or> (\<exists>f\<in>set filters. withheld_events api db rs limits auth PreserveCountLimitless f \<noteq> {}))"
proof (induction filters arbitrary: s)
  case Nil
  then show ?case by simp
next
  case (Cons f filters)
  then obtain t where t: "count_visit_filter api find_query hapi rs limits query auth s f = Ok t"
    "try_fold (count_visit_filter api find_query hapi rs limits query auth) t filters = Ok s'"
    by (auto simp: and_then_Ok_iff)
  have P: "\<forall>e\<in>matching_events api db rs limits auth PreserveCountLimitless f. P e" using Cons.prems(3) by simp
  note step = count_visit_filter_ok [OF assms t(1) Cons.prems(2) P]
  from Cons.IH [OF t(2) step(1)] Cons.prems(3) step(2,3) show ?case by (simp add: image_Un Un_assoc)
qed


section \<open>Live events\<close>

text \<open>
  Claim C20. A live event is sent once to every subscription that has a filter which matches it, in the order
  of the subscription ids, when the read gate shows it to the reader; otherwise to none.
\<close>

theorem fanout_exact:
  assumes "fanout_pocket api e auth r = Some messages"
  shows "messages = (if read_gate_visible (rs_groups (br_services r)) e auth = Ok True
    then map (\<lambda>(sid, _). RuntimeEvent sid e)
      (filter (\<lambda>(_, filters). \<exists>f\<in>set filters. filter_hits api e f) (ls_subscriptions (br_subscriptions r)))
    else [])"
proof -
  let ?visible = "\<lambda>e auth. read_gate_visible (rs_groups (br_services r)) e auth = Ok True"
  obtain matched where m: "live_fanout api (br_subscriptions r) e auth ?visible = Ok matched"
    "messages = map (\<lambda>m. RuntimeEvent (lm_subscription_id m) e) matched"
    using assms by (auto simp: fanout_pocket_def split: sum.splits)
  have "lm_subscription_id (live_match api e sub) = fst sub" for sub
    by (simp add: live_match_def case_prod_beta)
  then show ?thesis
    using live_fanout_spec [OF m(1)] m(2)
    by (cases "?visible e auth") (simp_all add: comp_def case_prod_unfold)
qed

section \<open>Submitted events\<close>

text \<open>What an event must be before the relay changes anything for it.\<close>

definition event_admissible ::
  "('t, 'st) runtime_env \<Rightarrow> base_relay_limits \<Rightarrow> pocket_event \<Rightarrow> group_auth_context \<Rightarrow>
   ('t, 'st) relay_services \<Rightarrow> bool" where
  "event_admissible env limits e auth rs \<longleftrightarrow>
     pocket_event_ok e \<and> pe_verify e = Ok () \<and> limits_validate_event limits e = Ok ()
     \<and> (is_nip70_protected_event e = Ok True \<longrightarrow> pe_pubkey e \<in> auth)
     \<and> event_by_id (re_store env) (pe_id e) (rs_store rs) = Ok None
     \<and> (\<exists>cls. validate_client_group_event_structure e (group_limits_of (rs_groups rs)) = Ok cls
        \<and> (if cls = NonGroup then \<not> kind_is_ephemeral (kind_u32 e)
           else \<exists>s. rs_groups rs = Some s
             \<and> service_check_event env \<lparr>gw_service = s, gw_store = rs_store rs\<rparr> e cls auth = Ok ()))"

text \<open>A reply of the relay, and what it says about the change it made.\<close>

definition write_outcome ::
  "pocket_event \<Rightarrow> ('t, 'st) relay_services \<Rightarrow> base_relay_error + event_write \<Rightarrow> ('t, 'st) relay_services \<Rightarrow> bool" where
  "write_outcome e rs r rs' \<longleftrightarrow> (\<forall>w. r = Ok w \<longrightarrow> (\<exists>accepted message.
     ew_message w = RelayOk (pe_id e) accepted message \<and>
     (\<not> accepted \<longrightarrow> rs' = rs \<and> ew_stored_offsets w = [])))"

lemma write_outcome_rejected: "write_outcome e rs (Ok (write_unstored (ok_rejected (pe_id e) m))) rs"
  and write_outcome_Err: "write_outcome e rs (Err err) rs'"
  and write_outcome_accepted: "write_outcome e rs (Ok (write_unstored (ok_accepted (pe_id e) m))) rs'"
    "write_outcome e rs (Ok (write_stored (ok_accepted (pe_id e) m) offsets)) rs'"
  by (simp_all add: write_outcome_def write_unstored_def write_stored_def ok_accepted_def ok_rejected_def
      ex_bool_eq)

lemmas write_outcomes = write_outcome_rejected write_outcome_Err write_outcome_accepted

lemma reject_event_run [simp]: "reject_event eid m rs = Some (Ok (write_unstored (ok_rejected eid m)), rs)"
  by (simp add: reject_event_def)

lemma write_plain_event_cases:
  assumes "write_plain_event env e (pe_id e) rs = Some (r, rs')"
  shows "(rs' = rs \<or> (\<not> kind_is_ephemeral (kind_u32 e) \<and>
      event_by_id (re_store env) (pe_id e) (rs_store rs) = Ok None)) \<and> write_outcome e rs r rs'"
proof (cases "kind_is_ephemeral (kind_u32 e)")
  case True
  with assms show ?thesis by (auto simp: write_plain_event_def write_outcomes)
next
  case False
  let ?look = "on_store (base_store (act_read (event_by_id (re_store env) (pe_id e))))"
  have look: "?look rs = Some (map_err base_error (event_by_id (re_store env) (pe_id e) (rs_store rs)), rs)"
    by (simp add: on_store_def base_store_def act_on_def act_map_err_def)
  show ?thesis
  proof (cases "event_by_id (re_store env) (pe_id e) (rs_store rs)")
    case (Inl err)
    with look False assms show ?thesis by (auto simp: write_plain_event_def write_outcomes)
  next
    case (Inr found)
    with look False assms show ?thesis
      by (cases found) (auto simp: write_plain_event_def act_bind_iff write_outcomes)
  qed
qed

lemma write_group_event_cases:
  assumes "write_group_event env e cls auth (pe_id e) groups rs = Some (r, rs')" and "rs_groups rs = groups"
  shows "(rs' = rs \<or> (\<exists>s. groups = Some s \<and> event_by_id (re_store env) (pe_id e) (rs_store rs) = Ok None
      \<and> service_check_event env \<lparr>gw_service = s, gw_store = rs_store rs\<rparr> e cls auth = Ok ()))
    \<and> write_outcome e rs r rs'"
proof (cases groups)
  case None
  with assms show ?thesis by (auto simp: write_group_event_def write_outcomes)
next
  case (Some s)
  let ?w = "\<lparr>gw_service = s, gw_store = rs_store rs\<rparr>"
  have same: "rs\<lparr>rs_groups := Some (gw_service ?w), rs_store := gw_store ?w\<rparr> = rs"
    using assms(2) Some by simp
  obtain q w' where run: "store_group_pocket_event env e cls auth ?w = Some (q, w')"
    using assms(1) Some
    by (auto simp: write_group_event_def act_match_iff on_groups_def act_on_iff)
  then have on: "on_groups s (store_group_pocket_event env e cls auth) rs
      = Some (q, rs\<lparr>rs_groups := Some (gw_service w'), rs_store := gw_store w'\<rparr>)"
    by (simp add: on_groups_def act_on_def)
  show ?thesis
    using store_group_event_cases [OF run] assms(1) Some on same
    by (elim disjE exE conjE)
       (auto simp: write_group_event_def act_match_def write_outcomes)
qed

lemma handle_pocket_event_cases:
  assumes "handle_pocket_event env limits e auth rs = Some (r, rs')"
  shows "(rs' = rs \<or> event_admissible env limits e auth rs) \<and> write_outcome e rs r rs'"
proof (cases "pocket_event_ok e")
  case False
  show ?thesis
  proof (cases "valid_event_id (pe_id e)")
    case True
    then have "runtime_event_id e = Ok (pe_id e)" by simp
    moreover obtain err where "runtime_event_pubkey e = Err err"
      using False True by (cases "runtime_event_pubkey e") (auto simp: pocket_event_ok_def)
    ultimately show ?thesis
      using assms by (auto simp: handle_pocket_event_def write_outcomes split: sum.splits)
  next
    case False
    then obtain err where "runtime_event_id e = Err err" by (cases "runtime_event_id e") auto
    then show ?thesis using assms by (auto simp: handle_pocket_event_def write_outcomes)
  qed
next
  case True
  then have id: "runtime_event_id e = Ok (pe_id e)" "runtime_event_pubkey e = Ok (pe_pubkey e)"
    by (simp_all add: pocket_event_ok_def)
  show ?thesis
  proof (cases "limits_validate_event limits e = Ok () \<and> verify_event_signature e = Ok ()")
    case False
    then show ?thesis
      using assms id
      by (cases "limits_validate_event limits e"; cases "verify_event_signature e")
         (auto simp: handle_pocket_event_def write_outcomes)
  next
    case checked: True
    then obtain tags where "pe_tags e = Ok tags"
      by (auto simp: limits_validate_event_def validate_pocket_event_shape_def and_then_Ok_iff)
    then obtain protected where protected: "is_nip70_protected_event e = Ok protected"
      by (simp add: is_nip70_protected_event_def)
    show ?thesis
    proof (cases "protected \<and> pe_pubkey e \<notin> auth")
      case True
      with assms id checked protected show ?thesis
        by (auto simp: handle_pocket_event_def write_outcomes)
    next
      case author: False
      show ?thesis
      proof (cases "validate_client_group_event_structure e (group_limits_of (rs_groups rs))")
        case (Inl err)
        with assms id checked protected author show ?thesis
          by (auto simp: handle_pocket_event_def write_outcomes)
      next
        case (Inr cls)
        with assms id checked protected author
        have "(if cls \<noteq> NonGroup then write_group_event env e cls auth (pe_id e) (rs_groups rs)
            else write_plain_event env e (pe_id e)) rs = Some (r, rs')"
          by (auto simp: handle_pocket_event_def)
        with write_plain_event_cases [of env e rs r rs'] write_group_event_cases [of env e cls auth "rs_groups rs" rs r rs']
          True checked protected author Inr
        show ?thesis
          by (cases "cls = NonGroup") (auto simp: event_admissible_def)
      qed
    qed
  qed
qed

text \<open>
  Claim C4. The relay changes its state only for an admissible event: well formed, signed, within the limits,
  from an authenticated author when it is protected, not yet stored, past the structural gate, and
  then either a regular event outside the groups or one the group service has checked. Its reply
  carries the id of the event, and a negative reply means that nothing has changed.
\<close>

theorem submission_sound:
  assumes "handle_pocket_event env limits e auth rs = Some (r, rs')"
  shows "(rs' = rs \<or> event_admissible env limits e auth rs) \<and> write_outcome e rs r rs'"
  by (rule handle_pocket_event_cases [OF assms])

section \<open>Samples\<close>

text \<open>A filter is its limit and matches everything; the store holds one note and finds it.\<close>

definition sample_filter_api :: "u32 pocket_filter_api" where
  "sample_filter_api = \<lparr>pf_num_ids = (\<lambda>_. 0), pf_num_authors = (\<lambda>_. 0), pf_num_kinds = (\<lambda>_. 0),
     pf_ids = (\<lambda>_. []), pf_authors = (\<lambda>_. []), pf_kinds = (\<lambda>_. []), pf_tags = (\<lambda>_. Ok []),
     pf_since = (\<lambda>_. 0), pf_until = (\<lambda>_. - 1), pf_limit = (\<lambda>f. f), pf_event_matches = (\<lambda>_ _. Ok True),
     pf_completes = (\<lambda>_. False), pf_hyperloglog_offset = (\<lambda>_. Ok (Some 0)), pf_time_min = 0, pf_time_max = - 1,
     pf_new = (\<lambda>_ _ _ _ _ _ limit. Ok (case limit of Some n \<Rightarrow> n | None \<Rightarrow> - 1))\<rparr>"

definition sample_find :: "(table_state, u32, 'c) pocket_find" where
  "sample_find f scraping limited seconds screen c st =
     (let (visits, d) = screen_all screen c [sample_pocket_event 1 []] in
      (Ok (map fst (filter (\<lambda>v. snd v = ScreenMatch) visits),
         list_ex (\<lambda>v. snd v = ScreenRedacted) visits), d))"

lemma sample_find_lawful: "find_lawful sample_find"
  unfolding find_lawful_def
proof (intro allI impI)
  fix f scraping limited seconds screen c st events redacted d
  assume run: "sample_find f scraping limited seconds screen c st = (Ok (events, redacted), d)"
  obtain visits d' where v: "screen_all screen c [sample_pocket_event 1 []] = (visits, d')" by fastforce
  with run show "\<exists>candidates visits. screen_all screen c candidates = (visits, d)
      \<and> set events \<subseteq> {e. (e, ScreenMatch) \<in> set visits}
      \<and> (redacted \<longleftrightarrow> (\<exists>e. (e, ScreenRedacted) \<in> set visits))"
    unfolding sample_find_def v
    by (intro exI [of _ "[sample_pocket_event 1 []]"] exI [of _ visits])
       (fastforce simp: v list_ex_iff simp del: screen_all.simps)
qed

lemma sample_filter_api_simps [simp]:
  "pf_num_ids sample_filter_api f = 0" "pf_num_authors sample_filter_api f = 0"
  "pf_num_kinds sample_filter_api f = 0" "pf_tags sample_filter_api f = Ok []"
  "pf_since sample_filter_api f = pf_time_min sample_filter_api"
  "pf_until sample_filter_api f = pf_time_max sample_filter_api" "pf_limit sample_filter_api f = f"
  "pf_event_matches sample_filter_api f e = Ok True" "\<not> pf_completes sample_filter_api f"
  "pf_hyperloglog_offset sample_filter_api f = Ok (Some 0)"
  "pf_new sample_filter_api a b c d g h l = Ok (case l of Some n \<Rightarrow> n | None \<Rightarrow> - 1)"
  by (simp_all add: sample_filter_api_def)

definition sample_limits :: base_relay_limits where
  "sample_limits = \<lparr>bl_max_pending_events = 10, bl_max_subscription_id_length = 64, bl_max_subscriptions = 2,
     bl_max_filters_per_request = 5, bl_max_tag_values_per_filter = 10, bl_max_query_complexity = 100,
     bl_max_event_tags = 10, bl_max_content_length = 100, bl_max_limit = 50, bl_default_limit = 20\<rparr>"

definition sample_services :: "(string list list, table_state) relay_services" where
  "sample_services = \<lparr>rs_groups = None, rs_store = (\<lambda>t. [])\<rparr>"

lemma sample_services_simps [simp]: "rs_groups sample_services = None"
  by (simp add: sample_services_def)

definition sample_relay :: "(string list list, table_state, u32) base_relay" where
  "sample_relay = \<lparr>br_services = sample_services,
     br_subscriptions = \<lparr>ls_subscriptions = [], ls_max_subscriptions = 2\<rparr>,
     br_limits = sample_limits, br_query = pocket_query_config_default\<rparr>"

lemma sample_checks [simp]:
  "validate_subscription_id sample_limits ''s'' = Ok ()"
  "validate_filters sample_filter_api sample_limits [10] = Ok ()"
  by (simp_all add: validate_subscription_id_def sample_limits_def char_count_ascii is_ascii_def byte_def
      validate_filters_def validate_filter_def  validate_query_complexity_def
      filter_complexity_def effective_filter_limit_def usize_add_def usize_max_def word_less_nat_alt)

lemma sample_query:
  "query_filter_events sample_filter_api sample_find sample_services sample_limits q 10 auth mode =
     Ok \<lparr>eq_events = [sample_pocket_event 1 []], eq_group_read_denied = False,
       eq_metrics = \<lparr>qm_candidates_scanned = 1, qm_returned_events = 0, qm_redacted_events = 0\<rparr>\<rparr>"
  by (cases mode) (simp_all add: query_filter_events_def filter_with_limit_mode_def 
      find_events_with_screen_def sample_find_def query_screen_def read_gate_visible_def sample_services_def
      saturating_add_def Let_def)

lemma sample_req:
  "\<exists>report. query_req sample_filter_api sample_find sample_services sample_limits pocket_query_config_default
      ''s'' [10] False auth = Ok report
    \<and> qr_messages report = [RuntimeEvent ''s'' (sample_pocket_event 1 []), RuntimeProtocol (RelayEose ''s'')]
    \<and> \<not> qr_group_read_denied report"
  by (simp add: query_req_def unsupported_search_closed_def query_events_def query_events_visit_def sample_query
      sort_and_dedupe_def effective_filter_limit_def  Let_def)

text \<open>A database that holds one note.\<close>

definition note_db :: "table_state pocket_db" where
  "note_db = sample_db\<lparr>db_event_by_id := (\<lambda>st i. Ok (if i = pe_id (sample_pocket_event 1 [])
     then Some (sample_pocket_event 1 []) else None))\<rparr>"

lemma note_stored: "stored_event note_db st e \<longleftrightarrow> e = sample_pocket_event 1 []"
  by (auto simp: stored_event_def note_db_def)

lemma note_find_in_store: "find_in_store sample_filter_api note_db sample_find"
  unfolding find_in_store_def
proof (intro allI impI)
  fix f scraping limited seconds screen c st events redacted d
  assume run: "sample_find f scraping limited seconds screen c st = (Ok (events, redacted), d)"
  obtain r d' where v: "screen (sample_pocket_event 1 []) c = (r, d')" by fastforce
  have "events = (if r = ScreenMatch then [sample_pocket_event 1 []] else [])" "redacted \<longleftrightarrow> r = ScreenRedacted" "d = d'"
    using run by (auto simp: sample_find_def v)
  then show "\<exists>candidates visits. screen_all screen c candidates = (visits, d)
      \<and> list_all (stored_event note_db st) candidates \<and> distinct events
      \<and> set events \<subseteq> {e. (e, ScreenMatch) \<in> set visits}
      \<and> (redacted \<longleftrightarrow> (\<exists>e. (e, ScreenRedacted) \<in> set visits))
      \<and> (below_limit (pf_limit sample_filter_api f) (length events) \<longrightarrow>
           {e. (e, ScreenMatch) \<in> set visits} \<subseteq> set events
           \<and> (\<forall>e. stored_event note_db st e \<longrightarrow> pf_event_matches sample_filter_api f e = Ok True \<longrightarrow> e \<in> set candidates))"
    by (intro exI [of _ "[sample_pocket_event 1 []]"] exI [of _ "[(sample_pocket_event 1 [], r)]"])
       (auto simp: v note_stored)
qed

lemma sample_keeps_limit: "filter_keeps_limit sample_filter_api"
  by (auto simp: filter_keeps_limit_def)

lemma sample_matching: "matching_events sample_filter_api note_db sample_services sample_limits auth mode 10 = {sample_pocket_event 1 []}"
proof -
  have "filter_with_limit_mode sample_filter_api sample_limits 10 mode
      = Ok (case mode of ApplyDefaultLimit \<Rightarrow> 10 | PreserveCountLimitless \<Rightarrow> - 1 | OverrideLimit l \<Rightarrow> l)"
    by (cases mode) (simp_all add: filter_with_limit_mode_def)
  then show ?thesis
    by (auto simp: matching_events_def note_stored answer_for_def read_gate_visible_def filter_hits_def)
qed


lemma sample_relay_wf: "live_wf (br_subscriptions sample_relay)"
  by (simp add: sample_relay_def live_wf_def)

lemma sample_subscribed:
  "\<exists>report r. handle_pocket_req sample_filter_api sample_find ''s'' [10] False {} sample_relay = Ok (report, r)
    \<and> \<not> qr_group_read_denied report"
proof -
  obtain report where "query_req sample_filter_api sample_find sample_services sample_limits
      pocket_query_config_default ''s'' [10] False {} = Ok report" "\<not> qr_group_read_denied report"
    using sample_req [of "{}"] by blast
  moreover have "\<not> filters_complete sample_filter_api [10]"
    by (simp add: filters_complete_def)
  ultimately show ?thesis
    by (simp add: handle_pocket_req_def sample_relay_def unsupported_search_closed_def
        ensure_can_subscribe_def live_contains_def live_subscribe_def)
qed

theorem req_refines_subscription_map_witness:
  "\<exists>report r. handle_pocket_req sample_filter_api sample_find ''s'' [10] False {} sample_relay = Ok (report, r)
    \<and> live_map (br_subscriptions r) ''s'' = Some [10]"
proof -
  obtain report r where run: "handle_pocket_req sample_filter_api sample_find ''s'' [10] False {} sample_relay
      = Ok (report, r)" "\<not> qr_group_read_denied report"
    using sample_subscribed by blast
  have "\<not> filters_complete sample_filter_api [10]"
    by (simp add: filters_complete_def)
  with req_refines_subscription_map [OF sample_relay_wf run(1)] run show ?thesis by auto
qed

definition sample_hll :: "nat hll_api" where
  "sample_hll = \<lparr>hll_new = 0, hll_add_element = (\<lambda>_ _ n. Ok (n + 1)), hll_to_hex = dec\<rparr>"


theorem fanout_exact_witness:
  "fanout_pocket sample_filter_api (sample_pocket_event 1 []) {}
     (sample_relay\<lparr>br_subscriptions := \<lparr>ls_subscriptions = [(''s'', [10])], ls_max_subscriptions = 2\<rparr>\<rparr>)
   = Some [RuntimeEvent ''s'' (sample_pocket_event 1 [])]"
proof -
  let ?r = "sample_relay\<lparr>br_subscriptions := \<lparr>ls_subscriptions = [(''s'', [10])], ls_max_subscriptions = 2\<rparr>\<rparr>"
  have visible: "read_gate_visible (rs_groups (br_services ?r)) (sample_pocket_event 1 []) {} = Ok True"
    by (simp add: sample_relay_def sample_services_def read_gate_visible_def)
  have hits: "filter_hits sample_filter_api e f" for e f
    by (simp add: filter_hits_def)
  have "\<exists>messages. fanout_pocket sample_filter_api (sample_pocket_event 1 []) {} ?r = Some messages"
    by (simp add: fanout_pocket_def live_fanout_def fanout_visit_def match_filters_def match_visit_def)
  then obtain messages where "fanout_pocket sample_filter_api (sample_pocket_event 1 []) {} ?r = Some messages"
    by blast
  with fanout_exact [OF this] visible hits show ?thesis by simp
qed

text \<open>A store that takes one event.\<close>

definition storing_env :: "(string list list, table_state) runtime_env" where
  "storing_env = sample_env\<lparr>re_store := sample_store\<lparr>sh_db :=
     sample_db\<lparr>db_store_event := (\<lambda>e st. (Ok 16, st(''events'' := [(pe_id e, [])])))\<rparr>\<rparr>\<rparr>"

lemma sample_gate:
  "validate_client_group_event_structure (sample_pocket_event 1 []) group_limits_default = Ok NonGroup"
proof -
  have v: "visit_tags (sample_pocket_event 1 []) f x = Ok x" for f :: "'s \<Rightarrow> _" and x :: 's
    by (simp add: visit_tags_def sample_pocket_event_def)
  have "kind_u32 (sample_pocket_event 1 []) = 1" by (simp add: kind_u32_def sample_pocket_event_def)
  then show ?thesis
    by (simp add: validate_client_group_event_structure_def ensure_group_tag_limit_def
        group_identity_tag_count_def classify_group_event_def has_group_identity_tag_def v kind_set_iffs Let_def)
qed

lemma storing_env_store:
  "event_by_id (re_store storing_env) i st = Ok None"
  "store_event (re_store storing_env) e st = Some (Ok 16, st(''events'' := [(pe_id e, [])]))"
proof -
  have store: "re_store storing_env = sample_store\<lparr>sh_db :=
     sample_db\<lparr>db_store_event := (\<lambda>e st. (Ok 16, st(''events'' := [(pe_id e, [])])))\<rparr>\<rparr>"
    by (simp add: storing_env_def)
  show "event_by_id (re_store storing_env) i st = Ok None"
    unfolding store by (simp add: event_by_id_def sample_db_def)
  show "store_event (re_store storing_env) e st = Some (Ok 16, st(''events'' := [(pe_id e, [])]))"
    unfolding store store_event_def sync_after_write_def store_sync_def
    by (simp add: act_bind_def act_prim_def sample_db_def)
qed

lemma sample_plain:
  "write_plain_event storing_env (sample_pocket_event 1 []) eid sample_services
     = Some (Ok (write_stored (ok_accepted eid []) [16]),
         sample_services\<lparr>rs_store := (\<lambda>t. [])(''events'' := [(replicate 64 CHR ''a'', [])])\<rparr>)"
proof -
  let ?e = "sample_pocket_event 1 []"
  have "kind_u32 ?e = 1" by (simp add: kind_u32_def sample_pocket_event_def)
  moreover have "\<not> kind_is_ephemeral 1" by code_simp
  moreover have "pe_id ?e = replicate 64 CHR ''a''" by (simp add: sample_pocket_event_def)
  moreover have "rs_store sample_services = (\<lambda>t. [])" by (simp add: sample_services_def)
  ultimately show ?thesis
    by (simp add: write_plain_event_def on_store_def base_store_def act_on_def act_map_err_def act_bind_def
        runtime_event_kind_def storing_env_store)
qed

lemma sample_stored:
  "handle_pocket_event storing_env sample_limits (sample_pocket_event 1 []) {} sample_services
     = Some (Ok (write_stored (ok_accepted (replicate 64 CHR ''a'') []) [16]),
         sample_services\<lparr>rs_store := (\<lambda>t. [])(''events'' := [(replicate 64 CHR ''a'', [])])\<rparr>)"
proof -
  let ?e = "sample_pocket_event 1 []"
  have limits: "limits_validate_event sample_limits ?e = Ok ()"
    by (simp add: limits_validate_event_def validate_pocket_event_shape_def sample_limits_def sample_pocket_event_def)
  have event: "runtime_event_id ?e = Ok (replicate 64 CHR ''a'')" "runtime_event_pubkey ?e = Ok (replicate 64 CHR ''b'')"
    "verify_event_signature ?e = Ok ()" "is_nip70_protected_event ?e = Ok False"
    by (simp_all add: sample_pocket_event_def lower_hex_replicate is_nip70_protected_event_def)
  have groups: "rs_groups sample_services = None" by (simp add: sample_services_def)
  show ?thesis
    unfolding handle_pocket_event_def limits event groups
    by (simp only: act_bind_def act_simps option.case sum.case prod.case groups sample_gate group_limits_of_def
        sample_plain HOL.simp_thms if_False if_True)
qed

theorem submission_sound_witness:
  "event_admissible storing_env sample_limits (sample_pocket_event 1 []) {} sample_services"
proof -
  have "sample_services\<lparr>rs_store := (\<lambda>t. [])(''events'' := [(replicate 64 CHR ''a'', [])])\<rparr> \<noteq> sample_services"
    by (auto simp: sample_services_def fun_eq_iff)
  with submission_sound [OF sample_stored] show ?thesis by blast
qed

end
