(* ===== verification/Runtime_Metrics.thy ===== *)
theory Runtime_Metrics
  imports Relay_Core
begin

text \<open>
  The counters of the runtime (\<open>TangleRuntimeMetrics\<close> in \<open>crates/tangle_runtime/src/runtime.rs\<close>) and
  their snapshot as Prometheus text. A counter is an atomic 64-bit word: additions wrap, and the two
  gauges that are lowered stop at zero. The values the operations return are used by no caller; the
  operations are given as functions on the counters, which are named by \<open>metric\<close>. The time a runtime has been up is
  an argument of the snapshot.
\<close>

section \<open>Counters\<close>

datatype metric =
    ActiveSessions | TotalSessions | ClientMessages | EventMessages | ReqMessages | CountMessages
   | AuthMessages | CloseMessages | ActiveSubscriptions | OpenedSubscriptions | ClosedSubscriptions
   | StoredEventOffsets | RateLimitRejections | AuthSuccesses | AuthFailures | EventAdmissions
   | EventRejections | GroupReadDenials | GroupWriteDenials | EventBusReceiversCurrent
   | EventBusPublishedOffsets | EventBusLaggedReceivers | EventBusLaggedOffsets
   | OutboundQueueFullCloses | OutboxPendingEvents | OutboxReplayedEvents | DiskUsedBytes
   | EventAdmissionLatencyTotalMicros | EventAdmissionLatencyCount | QueryLatencyTotalMicros
   | QueryLatencyCount | QueryCandidatesScanned | QueryReturnedEvents | QueryRedactedEvents
   | CountRefusals | BroadQueryRejections

type_synonym runtime_metrics = "metric \<Rightarrow> u64"

definition runtime_metrics_new :: runtime_metrics where
  "runtime_metrics_new = (\<lambda>_. 0)"

datatype client_message_metric_kind = MetricEvent | MetricReq | MetricCount | MetricAuth | MetricClose | MetricNegentropy

definition record_session_opened :: "runtime_metrics \<Rightarrow> runtime_metrics" where
  "record_session_opened m = m(TotalSessions := m TotalSessions + 1, ActiveSessions := m ActiveSessions + 1)"

definition record_session_closed :: "runtime_metrics \<Rightarrow> runtime_metrics" where
  "record_session_closed m =
     (if m ActiveSessions = 0 then m else m(ActiveSessions := m ActiveSessions - 1))"

definition record_client_message :: "client_message_metric_kind \<Rightarrow> runtime_metrics \<Rightarrow> runtime_metrics" where
  "record_client_message kind m =
     (let m = m(ClientMessages := m ClientMessages + 1) in case kind of
        MetricEvent \<Rightarrow> m(EventMessages := m EventMessages + 1)
      | MetricReq \<Rightarrow> m(ReqMessages := m ReqMessages + 1)
      | MetricCount \<Rightarrow> m(CountMessages := m CountMessages + 1)
      | MetricAuth \<Rightarrow> m(AuthMessages := m AuthMessages + 1)
      | MetricClose \<Rightarrow> m(CloseMessages := m CloseMessages + 1)
      | MetricNegentropy \<Rightarrow> m)"

definition record_subscription_opened :: "runtime_metrics \<Rightarrow> runtime_metrics" where
  "record_subscription_opened m = m(ActiveSubscriptions := m ActiveSubscriptions + 1, OpenedSubscriptions := m OpenedSubscriptions + 1)"

definition record_subscriptions_closed :: "u64 \<Rightarrow> runtime_metrics \<Rightarrow> runtime_metrics" where
  "record_subscriptions_closed n m =
     m(ActiveSubscriptions := saturating_sub (m ActiveSubscriptions) n, ClosedSubscriptions := m ClosedSubscriptions + n)"

definition record_stored_event_offset :: "runtime_metrics \<Rightarrow> runtime_metrics" where
  "record_stored_event_offset m = m(StoredEventOffsets := m StoredEventOffsets + 1)"

definition record_rate_limit_rejection :: "runtime_metrics \<Rightarrow> runtime_metrics" where
  "record_rate_limit_rejection m = m(RateLimitRejections := m RateLimitRejections + 1)"

definition record_auth_success :: "runtime_metrics \<Rightarrow> runtime_metrics" where
  "record_auth_success m = m(AuthSuccesses := m AuthSuccesses + 1)"

definition record_auth_failure :: "runtime_metrics \<Rightarrow> runtime_metrics" where
  "record_auth_failure m = m(AuthFailures := m AuthFailures + 1)"

definition record_event_admission :: "runtime_metrics \<Rightarrow> runtime_metrics" where
  "record_event_admission m = m(EventAdmissions := m EventAdmissions + 1)"

definition record_event_rejection :: "runtime_metrics \<Rightarrow> runtime_metrics" where
  "record_event_rejection m = m(EventRejections := m EventRejections + 1)"

definition record_group_read_denial :: "runtime_metrics \<Rightarrow> runtime_metrics" where
  "record_group_read_denial m = m(GroupReadDenials := m GroupReadDenials + 1)"

definition record_group_write_denial :: "runtime_metrics \<Rightarrow> runtime_metrics" where
  "record_group_write_denial m = m(GroupWriteDenials := m GroupWriteDenials + 1)"

definition record_event_bus_receivers :: "u64 \<Rightarrow> runtime_metrics \<Rightarrow> runtime_metrics" where
  "record_event_bus_receivers n m = m(EventBusReceiversCurrent := n)"

definition record_event_bus_publish :: "u64 \<Rightarrow> runtime_metrics \<Rightarrow> runtime_metrics" where
  "record_event_bus_publish receivers m =
     (let m = record_event_bus_receivers receivers m
      in m(EventBusPublishedOffsets := m EventBusPublishedOffsets + 1))"

definition record_event_bus_lagged :: "u64 \<Rightarrow> runtime_metrics \<Rightarrow> runtime_metrics" where
  "record_event_bus_lagged skipped m =
     m(EventBusLaggedReceivers := m EventBusLaggedReceivers + 1, EventBusLaggedOffsets := m EventBusLaggedOffsets + skipped)"

definition record_outbound_queue_full_close :: "runtime_metrics \<Rightarrow> runtime_metrics" where
  "record_outbound_queue_full_close m = m(OutboundQueueFullCloses := m OutboundQueueFullCloses + 1)"

definition record_outbox_pending_events :: "u64 \<Rightarrow> runtime_metrics \<Rightarrow> runtime_metrics" where
  "record_outbox_pending_events n m = m(OutboxPendingEvents := n)"

definition record_outbox_replayed_event :: "runtime_metrics \<Rightarrow> runtime_metrics" where
  "record_outbox_replayed_event m = m(OutboxReplayedEvents := m OutboxReplayedEvents + 1)"

definition record_disk_used_bytes :: "u64 \<Rightarrow> runtime_metrics \<Rightarrow> runtime_metrics" where
  "record_disk_used_bytes bytes m = m(DiskUsedBytes := bytes)"

definition record_event_admission_latency :: "u64 \<Rightarrow> runtime_metrics \<Rightarrow> runtime_metrics" where
  "record_event_admission_latency micros m =
     m(EventAdmissionLatencyTotalMicros := m EventAdmissionLatencyTotalMicros + micros, EventAdmissionLatencyCount := m EventAdmissionLatencyCount + 1)"

definition record_query_latency :: "u64 \<Rightarrow> runtime_metrics \<Rightarrow> runtime_metrics" where
  "record_query_latency micros m =
     m(QueryLatencyTotalMicros := m QueryLatencyTotalMicros + micros, QueryLatencyCount := m QueryLatencyCount + 1)"

definition record_query_metrics :: "query_metrics \<Rightarrow> runtime_metrics \<Rightarrow> runtime_metrics" where
  "record_query_metrics q m =
     m(QueryCandidatesScanned := m QueryCandidatesScanned + qm_candidates_scanned q, QueryReturnedEvents := m QueryReturnedEvents + qm_returned_events q, QueryRedactedEvents := m QueryRedactedEvents + qm_redacted_events q)"

definition record_count_refusal :: "runtime_metrics \<Rightarrow> runtime_metrics" where
  "record_count_refusal m = m(CountRefusals := m CountRefusals + 1)"

definition record_broad_query_rejection :: "runtime_metrics \<Rightarrow> runtime_metrics" where
  "record_broad_query_rejection m = m(BroadQueryRejections := m BroadQueryRejections + 1)"

lemmas metric_defs = record_client_message_def record_session_opened_def record_session_closed_def record_subscription_opened_def
  record_subscriptions_closed_def record_stored_event_offset_def record_rate_limit_rejection_def
  record_auth_success_def record_auth_failure_def record_event_admission_def record_event_rejection_def
  record_group_read_denial_def record_group_write_denial_def record_event_bus_receivers_def
  record_event_bus_publish_def record_event_bus_lagged_def record_outbound_queue_full_close_def
  record_outbox_pending_events_def record_outbox_replayed_event_def record_disk_used_bytes_def
  record_event_admission_latency_def record_query_latency_def record_query_metrics_def
  record_count_refusal_def record_broad_query_rejection_def

section \<open>Snapshot and Prometheus text\<close>

record runtime_metrics_snapshot =
  sn_runtime_uptime_seconds :: u64
  sn_readiness_ready :: bool
  sn_counters :: runtime_metrics

definition snapshot_with_readiness :: "u64 \<Rightarrow> bool \<Rightarrow> runtime_metrics \<Rightarrow> runtime_metrics_snapshot" where
  "snapshot_with_readiness uptime_seconds readiness_ready m =
     \<lparr>sn_runtime_uptime_seconds = uptime_seconds, sn_readiness_ready = readiness_ready, sn_counters = m\<rparr>"

definition session_samples :: "runtime_metrics_snapshot \<Rightarrow> (string \<times> string \<times> string) list" where
  "session_samples s = (let value = (\<lambda>metric. dec (unat (sn_counters s metric))) in [
     (''tangle_runtime_uptime_seconds'', ''gauge'', dec (unat (sn_runtime_uptime_seconds s))),
     (''tangle_readiness_ready'', ''gauge'', dec (of_bool (sn_readiness_ready s))),
     (''tangle_ws_connections_current'', ''gauge'', value ActiveSessions),
     (''tangle_ws_connections_total'', ''counter'', value TotalSessions),
     (''tangle_client_messages_total'', ''counter'', value ClientMessages),
     (''tangle_event_messages_total'', ''counter'', value EventMessages),
     (''tangle_req_messages_total'', ''counter'', value ReqMessages),
     (''tangle_count_messages_total'', ''counter'', value CountMessages),
     (''tangle_auth_messages_total'', ''counter'', value AuthMessages),
     (''tangle_close_messages_total'', ''counter'', value CloseMessages),
     (''tangle_subscriptions_current'', ''gauge'', value ActiveSubscriptions),
     (''tangle_subscriptions_opened_total'', ''counter'', value OpenedSubscriptions),
     (''tangle_subscriptions_closed_total'', ''counter'', value ClosedSubscriptions),
     (''tangle_stored_event_offsets_total'', ''counter'', value StoredEventOffsets),
     (''tangle_rate_limit_rejections_total'', ''counter'', value RateLimitRejections),
     (''tangle_auth_success_total'', ''counter'', value AuthSuccesses),
     (''tangle_auth_failure_total'', ''counter'', value AuthFailures),
     (''tangle_event_admitted_total'', ''counter'', value EventAdmissions),
     (''tangle_event_rejected_total'', ''counter'', value EventRejections),
     (''tangle_group_read_denied_total'', ''counter'', value GroupReadDenials),
     (''tangle_group_write_denied_total'', ''counter'', value GroupWriteDenials)])"

definition service_samples :: "runtime_metrics_snapshot \<Rightarrow> (string \<times> string \<times> string) list" where
  "service_samples s = (let value = (\<lambda>metric. dec (unat (sn_counters s metric))) in [
     (''tangle_event_bus_receivers_current'', ''gauge'', value EventBusReceiversCurrent),
     (''tangle_event_bus_published_offsets_total'', ''counter'', value EventBusPublishedOffsets),
     (''tangle_event_bus_lagged_receivers_total'', ''counter'', value EventBusLaggedReceivers),
     (''tangle_event_bus_lagged_offsets_total'', ''counter'', value EventBusLaggedOffsets),
     (''tangle_outbound_queue_full_closes_total'', ''counter'', value OutboundQueueFullCloses),
     (''tangle_outbox_pending_events'', ''gauge'', value OutboxPendingEvents),
     (''tangle_outbox_replayed_events_total'', ''counter'', value OutboxReplayedEvents),
     (''tangle_disk_used_bytes'', ''gauge'', value DiskUsedBytes),
     (''tangle_event_admission_latency_total_micros'', ''counter'', value EventAdmissionLatencyTotalMicros),
     (''tangle_event_admission_latency_count'', ''counter'', value EventAdmissionLatencyCount),
     (''tangle_query_latency_total_micros'', ''counter'', value QueryLatencyTotalMicros),
     (''tangle_query_latency_count'', ''counter'', value QueryLatencyCount),
     (''tangle_query_candidates_scanned_total'', ''counter'', value QueryCandidatesScanned),
     (''tangle_query_returned_events_total'', ''counter'', value QueryReturnedEvents),
     (''tangle_query_redacted_events_total'', ''counter'', value QueryRedactedEvents),
     (''tangle_count_refusals_total'', ''counter'', value CountRefusals),
     (''tangle_broad_query_rejections_total'', ''counter'', value BroadQueryRejections)])"

definition prometheus_sample :: "string \<times> string \<times> string \<Rightarrow> string" where
  "prometheus_sample = (\<lambda>(name, metric_type, value).
     ''# TYPE '' @ name @ '' '' @ metric_type @ [CHR 0x0A] @ name @ '' '' @ value @ [CHR 0x0A])"

definition prometheus_text :: "runtime_metrics_snapshot \<Rightarrow> string" where
  "prometheus_text s = concat (map prometheus_sample (session_samples s @ service_samples s))"

end
