(* ===== verification/Runtime_Text.thy ===== *)
theory Runtime_Text
  imports Relay_Auth
begin

text \<open>
  Operations of \<open>str\<close> that the configuration, the hosts and the client messages of the runtime use,
  on strings as lists of UTF-8 bytes: \<open>trim\<close>, \<open>to_ascii_lowercase\<close>, and \<open>contains\<close> and \<open>split_once\<close>
  with a separator of several bytes.
\<close>

text \<open>\<open>split_once\<close>: what is before the first occurrence of the separator, and what is after it.\<close>

fun before :: "string \<Rightarrow> string \<Rightarrow> string option" where
  "before separator [] = (if separator = [] then Some [] else None)"
| "before separator (c # cs) =
     (if take (length separator) (c # cs) = separator then Some []
      else map_option ((#) c) (before separator cs))"

definition split_once_str :: "string \<Rightarrow> string \<Rightarrow> (string \<times> string) option" where
  "split_once_str separator s =
     map_option (\<lambda>head. (head, drop (length head + length separator) s)) (before separator s)"

definition contains_str :: "string \<Rightarrow> string \<Rightarrow> bool" where
  "contains_str needle s \<longleftrightarrow> before needle s \<noteq> None"

lemma before_Some: "before p s = Some a \<Longrightarrow> \<exists>b. s = a @ p @ b"
proof (induction s arbitrary: a)
  case (Cons c s)
  show ?case
  proof (cases "take (length p) (c # s) = p")
    case True
    with Cons.prems have "a = []" by simp
    moreover have "c # s = p @ drop (length p) (c # s)"
      using append_take_drop_id [of "length p" "c # s"] True by simp
    ultimately show ?thesis by auto
  next
    case False
    with Cons show ?thesis by auto
  qed
qed (simp split: if_splits)

lemma split_once_str_Some: "split_once_str p s = Some (a, b) \<Longrightarrow> s = a @ p @ b"
proof -
  assume h: "split_once_str p s = Some (a, b)"
  then have "before p s = Some a" and b: "b = drop (length a + length p) s"
    by (auto simp: split_once_str_def)
  from before_Some [OF this(1)] obtain r where "s = a @ p @ r" by blast
  with b show ?thesis by simp
qed

lemma before_missing: "set p \<inter> - set s \<noteq> {} \<Longrightarrow> before p s = None"
  using before_Some [of p s] by (cases "before p s") auto

lemma before_head:
  "hd p \<notin> set a \<Longrightarrow> p \<noteq> [] \<Longrightarrow> before p (a @ p @ b) = Some a"
proof (induction a)
  case Nil
  then show ?case by (cases p) auto
next
  case (Cons c a)
  then have "take (length p) ((c # a) @ p @ b) \<noteq> p" by (cases p) auto
  with Cons show ?case by simp
qed

text \<open>\<open>trim\<close>, on the characters of the string, each with its continuation bytes.\<close>

function utf8_groups :: "string \<Rightarrow> string list" where
  "utf8_groups [] = []"
| "utf8_groups (a # s) = (a # takeWhile is_continuation s) # utf8_groups (dropWhile is_continuation s)"
  by pat_completeness auto
termination
  by (relation "measure length") (auto simp: less_Suc_eq_le length_dropWhile_le)

definition whitespace_group :: "string \<Rightarrow> bool" where
  "whitespace_group g \<longleftrightarrow> list_all is_whitespace (utf8_chars g)"

definition trim_str :: "string \<Rightarrow> string" where
  "trim_str s = concat (rev (dropWhile whitespace_group (rev (dropWhile whitespace_group (utf8_groups s)))))"

definition ascii_lower_char :: "char \<Rightarrow> char" where
  "ascii_lower_char c = (if is_ascii_uppercase c then char_of (byte c + 32) else c)"

definition to_ascii_lowercase :: "string \<Rightarrow> string" where
  "to_ascii_lowercase s = map ascii_lower_char s"

definition is_ascii_lowercase :: "char \<Rightarrow> bool" where
  "is_ascii_lowercase c \<longleftrightarrow> 97 \<le> byte c \<and> byte c \<le> 122"

lemma byte_ascii_lower_char: "byte (ascii_lower_char c) = (if 65 \<le> byte c \<and> byte c \<le> 90 then byte c + 32 else byte c)"
  by (auto simp: ascii_lower_char_def is_ascii_uppercase_def byte_def)

lemma ascii_lower_char_idem [simp]: "ascii_lower_char (ascii_lower_char c) = ascii_lower_char c"
proof -
  have "\<not> is_ascii_uppercase (ascii_lower_char c)"
    by (simp add: is_ascii_uppercase_def byte_ascii_lower_char)
  then show ?thesis by (simp add: ascii_lower_char_def [of "ascii_lower_char c"])
qed

lemma to_ascii_lowercase_idem [simp]: "to_ascii_lowercase (to_ascii_lowercase s) = to_ascii_lowercase s"
  by (simp add: to_ascii_lowercase_def)

lemma to_ascii_lowercase_length [simp]: "length (to_ascii_lowercase s) = length s"
  by (simp add: to_ascii_lowercase_def)

text \<open>What a string is when none of its bytes is an upper-case letter, a space or outside ASCII.\<close>

lemma lowercase_fixed: "\<forall>c\<in>set s. \<not> is_ascii_uppercase c \<Longrightarrow> to_ascii_lowercase s = s"
  by (simp add: to_ascii_lowercase_def ascii_lower_char_def map_idI)

lemma no_whitespace_trim:
  assumes "s \<noteq> []" and "\<forall>c\<in>set s. byte c < 128 \<and> \<not> is_whitespace (byte c)"
  shows "\<not> blank s" and "\<not> trim_changes s" and "\<not> list_ex is_whitespace (utf8_chars s)"
proof -
  have ascii: "utf8_chars s = map byte s"
    using assms(2) by (intro utf8_chars_ascii) (simp add: is_ascii_def)
  have ends: "\<not> is_whitespace (hd (map byte s))" "\<not> is_whitespace (last (map byte s))"
    using assms by (simp_all add: hd_map last_map)
  have fixed: "trim_chars (map byte s) = map byte s"
    using assms(1) ends by (intro trim_chars_unchanged) simp_all
  show "\<not> blank s" using assms(1) by (simp add: blank_def ascii fixed)
  show "\<not> trim_changes s" by (simp add: trim_changes_def ascii fixed)
  show "\<not> list_ex is_whitespace (utf8_chars s)"
    using assms(2) by (auto simp: ascii list_ex_iff)
qed

end
