(* ===== verification/Runtime_Messages.thy ===== *)
theory Runtime_Messages
  imports Runtime_Text Relay_Live
begin

text \<open>
  The client messages a session reads (\<open>crates/tangle_runtime/src/client_message.rs\<close>). The text of a
  message is split by \<open>serde_json\<close> into raw values, which stay unparsed until they are needed: events
  and filters are read by Pocket, and a filter is first checked field by field by a visitor over its
  entries. \<open>raw_api\<close> holds what \<open>serde_json\<close> and Pocket answer; everything the file itself decides
  is defined here.
\<close>

section \<open>Raw JSON\<close>

text \<open>
  An error of \<open>serde_json\<close>: of the category \<open>Data\<close>, or another one, with its text. The entries of a
  raw value are what \<open>next_key\<close> and \<open>next_value\<close> return one after the other, and the error that ends
  them, if any.
\<close>

datatype serde_error = DataError string | SyntaxError string

record map_source =
  src_entries :: "(string \<times> (serde_error + json)) list"
  src_failure :: "serde_error option"

record ('raw, 'f) raw_api =
  ra_values :: "string \<Rightarrow> string + 'raw list"
  ra_string :: "'raw \<Rightarrow> string option"
  ra_map :: "'raw \<Rightarrow> serde_error + map_source"
  ra_position :: "'raw \<Rightarrow> string"
  ra_end :: "'raw \<Rightarrow> string option"
  ra_event :: "'raw \<Rightarrow> string + pocket_event"
  ra_filter :: "json \<Rightarrow> string + 'f"

section \<open>The shape of a filter\<close>

record filter_shape =
  fsh_search :: bool
  fsh_pocket_fields :: "(string, json) btree"

definition filter_shape_default :: filter_shape where
  "filter_shape_default = \<lparr>fsh_search = False, fsh_pocket_fields = []\<rparr>"

definition validate_non_empty_array :: "string \<Rightarrow> json \<Rightarrow> string + unit" where
  "validate_non_empty_array field v =
     (case as_array v of
        Some (_ # _) \<Rightarrow> Ok ()
      | _ \<Rightarrow> Err (''filter field `'' @ field @ ''` must be a non-empty array''))"

definition validate_u64_field :: "string \<Rightarrow> json \<Rightarrow> string + unit" where
  "validate_u64_field field v =
     map_ok (\<lambda>_. ()) (ok_or (as_u64 v) (''filter field `'' @ field @ ''` must be an unsigned integer''))"

definition validate_limit_field :: "string \<Rightarrow> json \<Rightarrow> string + unit" where
  "validate_limit_field field v =
     and_then (ok_or (as_u64 v) (''filter field `'' @ field @ ''` must be an unsigned integer''))
       (\<lambda>limit. if unat limit < 2 ^ 32 then Ok ()
                else Err (''filter field `'' @ field @ ''` exceeds Pocket range''))"

definition validate_tag_filter_field :: "string \<Rightarrow> json \<Rightarrow> string + unit" where
  "validate_tag_filter_field field v =
     and_then (map_err (\<lambda>reason. ''filter field `'' @ field @ ''` is invalid: '' @ reason)
         (tag_name_new (tl field)))
       (\<lambda>tag_name. if \<not> is_indexable_name tag_name
          then Err (''filter field `'' @ field @ ''` is invalid: tag name must be a single ASCII letter'')
          else validate_non_empty_array field v)"

text \<open>The errors of the visitor: its own, or one of the reader.\<close>

datatype visit_error = Custom string | Reader serde_error

definition keep_field :: "string \<Rightarrow> json \<Rightarrow> filter_shape \<Rightarrow> string + unit \<Rightarrow> visit_error + filter_shape" where
  "keep_field field v shape checked =
     map_err Custom (map_ok (\<lambda>_. shape\<lparr>fsh_pocket_fields := bt_insert field v (fsh_pocket_fields shape)\<rparr>)
       checked)"

definition visit_field :: "string \<Rightarrow> json \<Rightarrow> filter_shape \<Rightarrow> visit_error + filter_shape" where
  "visit_field field v shape =
     (if field \<in> {''ids'', ''authors'', ''kinds''}
      then keep_field field v shape (validate_non_empty_array field v)
      else if field \<in> {''since'', ''until''} then keep_field field v shape (validate_u64_field field v)
      else if field = ''limit'' then keep_field field v shape (validate_limit_field field v)
      else if field = ''search''
      then (if as_str v = None then Err (Custom (''filter field `'' @ field @ ''` must be a string''))
            else Ok (shape\<lparr>fsh_search := True\<rparr>))
      else if field \<noteq> [] \<and> hd field = CHR ''#''
      then keep_field field v shape (validate_tag_filter_field field v)
      else Err (Custom (''filter field `'' @ field @ ''` is unsupported'')))"

definition visit_entry ::
  "string set \<times> filter_shape \<Rightarrow> string \<times> (serde_error + json) \<Rightarrow> visit_error + string set \<times> filter_shape" where
  "visit_entry = (\<lambda>(fields, shape) (field, v).
     if field \<in> fields then Err (Custom (''duplicate object field `'' @ field @ ''`''))
     else and_then (map_err Reader v) (\<lambda>v.
       map_ok (\<lambda>shape. (insert field fields, shape)) (visit_field field v shape)))"

definition visit_map :: "map_source \<Rightarrow> visit_error + filter_shape" where
  "visit_map source =
     and_then (try_fold visit_entry ({}, filter_shape_default) (src_entries source)) (\<lambda>(_, shape).
       case src_failure source of Some e \<Rightarrow> Err (Reader e) | None \<Rightarrow> Ok shape)"

text \<open>\<open>serde_json\<close> gives an error of the visitor the position it has reached.\<close>

definition located :: "string \<Rightarrow> visit_error \<Rightarrow> serde_error" where
  "located position e =
     (case e of Custom message \<Rightarrow> DataError (message @ '' at line '' @ position) | Reader e \<Rightarrow> e)"

definition filter_shape_deserialize :: "('raw, 'f) raw_api \<Rightarrow> 'raw \<Rightarrow> serde_error + filter_shape" where
  "filter_shape_deserialize api raw =
     and_then (ra_map api raw) (\<lambda>source. map_err (located (ra_position api raw)) (visit_map source))"

definition strip_json_location :: "string \<Rightarrow> string" where
  "strip_json_location message = (case before '' at line '' message of None \<Rightarrow> message | Some head \<Rightarrow> head)"

definition filter_deserialize_error :: "serde_error \<Rightarrow> string" where
  "filter_deserialize_error e =
     (case e of DataError message \<Rightarrow> strip_json_location message
      | SyntaxError message \<Rightarrow> ''filter JSON is invalid: '' @ message)"

definition inspect_filter_shape :: "('raw, 'f) raw_api \<Rightarrow> 'raw \<Rightarrow> string + filter_shape" where
  "inspect_filter_shape api raw =
     and_then (map_err filter_deserialize_error (filter_shape_deserialize api raw)) (\<lambda>shape.
       case ra_end api raw of
         Some message \<Rightarrow> Err (''filter JSON is invalid: '' @ message) | None \<Rightarrow> Ok shape)"

section \<open>Messages\<close>

record 'f parsed_filter =
  prf_filter :: 'f
  prf_search_present :: bool

datatype 'f runtime_client_message =
    RuntimeClientEvent pocket_event
  | RuntimeClientAuth pocket_event
  | RuntimeClientReq subscription_id "'f list" bool
  | RuntimeClientCount subscription_id "'f list" bool
  | RuntimeClientClose subscription_id
  | RuntimeClientNegOpen subscription_id 'f string
  | RuntimeClientNegMsg subscription_id string
  | RuntimeClientNegClose subscription_id

definition parse_filter :: "('raw, 'f) raw_api \<Rightarrow> 'raw \<Rightarrow> string + 'f parsed_filter" where
  "parse_filter api raw =
     and_then (inspect_filter_shape api raw) (\<lambda>shape.
       map_ok (\<lambda>f. \<lparr>prf_filter = f, prf_search_present = fsh_search shape\<rparr>)
         (ra_filter api (JObject (fsh_pocket_fields shape))))"

definition parse_subscription_id :: "('raw, 'f) raw_api \<Rightarrow> 'raw \<Rightarrow> string \<Rightarrow> string + subscription_id" where
  "parse_subscription_id api raw command =
     and_then (ok_or (ra_string api raw) (command @ '' subscription id must be a string'')) subscription_id_new"

definition parse_negentropy_message :: "('raw, 'f) raw_api \<Rightarrow> 'raw \<Rightarrow> string \<Rightarrow> string + string" where
  "parse_negentropy_message api raw command =
     and_then (ok_or (ra_string api raw) (command @ '' message must be a string'')) (\<lambda>message.
       if length message mod 2 = 0 \<and> list_all lower_hex_char message then Ok message
       else Err (command @ '' message must be a lowercase even-length hex string''))"

definition parse_event_or_auth ::
  "('raw, 'f) raw_api \<Rightarrow> 'raw list \<Rightarrow> (pocket_event \<Rightarrow> 'f runtime_client_message) \<Rightarrow>
   string + 'f runtime_client_message" where
  "parse_event_or_auth api vs build =
     (if length vs \<noteq> 2 then Err ''EVENT and AUTH client messages must contain exactly one event''
      else map_ok build (ra_event api (vs ! 1)))"

definition parse_req_or_count ::
  "('raw, 'f) raw_api \<Rightarrow> 'raw list \<Rightarrow> string \<Rightarrow>
   (subscription_id \<Rightarrow> 'f list \<Rightarrow> bool \<Rightarrow> 'f runtime_client_message) \<Rightarrow> string + 'f runtime_client_message" where
  "parse_req_or_count api vs command build =
     (if length vs < 3
      then Err (command @ '' client message must contain a subscription id and filters'')
      else and_then (parse_subscription_id api (vs ! 1) command) (\<lambda>sid.
        map_ok (\<lambda>filters. build sid (map prf_filter filters) (list_ex prf_search_present filters))
          (traverse (parse_filter api) (drop 2 vs))))"

definition parse_close :: "('raw, 'f) raw_api \<Rightarrow> 'raw list \<Rightarrow> string + 'f runtime_client_message" where
  "parse_close api vs =
     (if length vs \<noteq> 2 then Err ''CLOSE client message must contain exactly 2 elements''
      else map_ok RuntimeClientClose (parse_subscription_id api (vs ! 1) ''CLOSE''))"

definition parse_neg_open :: "('raw, 'f) raw_api \<Rightarrow> 'raw list \<Rightarrow> string + 'f runtime_client_message" where
  "parse_neg_open api vs =
     (if length vs \<noteq> 4
      then Err ''NEG-OPEN client message must contain a subscription id, filter, and message''
      else and_then (parse_subscription_id api (vs ! 1) ''NEG-OPEN'') (\<lambda>sid.
        and_then (parse_filter api (vs ! 2)) (\<lambda>f.
        map_ok (RuntimeClientNegOpen sid (prf_filter f))
          (parse_negentropy_message api (vs ! 3) ''NEG-OPEN''))))"

definition parse_neg_msg :: "('raw, 'f) raw_api \<Rightarrow> 'raw list \<Rightarrow> string + 'f runtime_client_message" where
  "parse_neg_msg api vs =
     (if length vs \<noteq> 3 then Err ''NEG-MSG client message must contain a subscription id and message''
      else and_then (parse_subscription_id api (vs ! 1) ''NEG-MSG'') (\<lambda>sid.
        map_ok (RuntimeClientNegMsg sid) (parse_negentropy_message api (vs ! 2) ''NEG-MSG'')))"

definition parse_neg_close :: "('raw, 'f) raw_api \<Rightarrow> 'raw list \<Rightarrow> string + 'f runtime_client_message" where
  "parse_neg_close api vs =
     (if length vs \<noteq> 2 then Err ''NEG-CLOSE client message must contain exactly 2 elements''
      else map_ok RuntimeClientNegClose (parse_subscription_id api (vs ! 1) ''NEG-CLOSE''))"

definition parse_string_value ::
  "('raw, 'f) raw_api \<Rightarrow> 'raw option \<Rightarrow> string \<Rightarrow> string \<Rightarrow> string + string" where
  "parse_string_value api v missing invalid_type =
     (case v of None \<Rightarrow> Err missing | Some v \<Rightarrow> ok_or (ra_string api v) invalid_type)"

definition parse_runtime_client_message ::
  "('raw, 'f) raw_api \<Rightarrow> string \<Rightarrow> string + 'f runtime_client_message" where
  "parse_runtime_client_message api raw =
     and_then (map_err (\<lambda>source. ''client message JSON is invalid: '' @ source) (ra_values api raw)) (\<lambda>vs.
     and_then (parse_string_value api (case vs of [] \<Rightarrow> None | v # _ \<Rightarrow> Some v)
       ''client message command is missing'' ''client message command must be a string'') (\<lambda>command.
     if command = ''EVENT'' then parse_event_or_auth api vs RuntimeClientEvent
     else if command = ''AUTH'' then parse_event_or_auth api vs RuntimeClientAuth
     else if command = ''REQ'' then parse_req_or_count api vs ''REQ'' RuntimeClientReq
     else if command = ''COUNT'' then parse_req_or_count api vs ''COUNT'' RuntimeClientCount
     else if command = ''CLOSE'' then parse_close api vs
     else if command = ''NEG-OPEN'' then parse_neg_open api vs
     else if command = ''NEG-MSG'' then parse_neg_msg api vs
     else if command = ''NEG-CLOSE'' then parse_neg_close api vs
     else Err (''client message command `'' @ command @ ''` is unsupported'')))"

section \<open>What is accepted\<close>

text \<open>The value each field of a filter must have; a field that is not listed is not allowed.\<close>

definition filter_field_ok :: "string \<Rightarrow> json \<Rightarrow> bool" where
  "filter_field_ok k v \<longleftrightarrow>
     (if k = ''search'' then as_str v \<noteq> None
      else if k \<in> {''since'', ''until''} then as_u64 v \<noteq> None
      else if k = ''limit'' then (case as_u64 v of Some n \<Rightarrow> unat n < 2 ^ 32 | None \<Rightarrow> False)
      else (k \<in> {''ids'', ''authors'', ''kinds''} \<or> (case k of c # n \<Rightarrow> c = CHR ''#'' \<and> is_indexable_name n | [] \<Rightarrow> False))
        \<and> (case as_array v of Some (_ # _) \<Rightarrow> True | _ \<Rightarrow> False))"

definition add_field :: "string \<times> json \<Rightarrow> filter_shape \<Rightarrow> filter_shape" where
  "add_field = (\<lambda>(k, v) shape. if k = ''search'' then shape\<lparr>fsh_search := True\<rparr>
     else shape\<lparr>fsh_pocket_fields := bt_insert k v (fsh_pocket_fields shape)\<rparr>)"

lemma validate_Ok_iffs:
  "validate_non_empty_array k v = Ok u \<longleftrightarrow> (case as_array v of Some (_ # _) \<Rightarrow> True | _ \<Rightarrow> False)"
  "validate_u64_field k v = Ok u \<longleftrightarrow> as_u64 v \<noteq> None"
  "validate_limit_field k v = Ok u \<longleftrightarrow> (case as_u64 v of Some n \<Rightarrow> unat n < 2 ^ 32 | None \<Rightarrow> False)"
  by (auto simp: validate_non_empty_array_def validate_u64_field_def validate_limit_field_def result_iffs
      split: option.splits list.splits)

lemma validate_tag_Ok_iff:
  "validate_tag_filter_field (c # n) v = Ok u \<longleftrightarrow>
     is_indexable_name n \<and> (case as_array v of Some (_ # _) \<Rightarrow> True | _ \<Rightarrow> False)"
  by (auto simp: validate_tag_filter_field_def result_iffs tag_name_new_def validate_Ok_iffs
      is_indexable_name_iff)

lemma keep_field_Ok_iff:
  "keep_field k v shape checked = Ok s \<longleftrightarrow>
     checked = Ok () \<and> s = shape\<lparr>fsh_pocket_fields := bt_insert k v (fsh_pocket_fields shape)\<rparr>"
  by (auto simp: keep_field_def result_iffs)

lemma visit_field_Ok_iff:
  "visit_field k v shape = Ok s \<longleftrightarrow> filter_field_ok k v \<and> s = add_field (k, v) shape"
proof (cases "k \<in> {''ids'', ''authors'', ''kinds'', ''since'', ''until'', ''limit'', ''search''}")
  case True
  then show ?thesis
    by (elim insertE) (auto simp: visit_field_def keep_field_Ok_iff validate_Ok_iffs filter_field_ok_def
        add_field_def)
next
  case False
  then show ?thesis
    by (cases k) (auto simp: visit_field_def keep_field_Ok_iff validate_tag_Ok_iff filter_field_ok_def
        add_field_def)
qed

lemma visit_entry_Ok_iff:
  "visit_entry (seen, shape) (k, r) = Ok t \<longleftrightarrow>
     (\<exists>v. r = Ok v \<and> k \<notin> seen \<and> filter_field_ok k v \<and> t = (insert k seen, add_field (k, v) shape))"
  by (cases r) (auto simp: visit_entry_def result_iffs visit_field_Ok_iff map_err_def)

lemma visit_entries_Ok_iff:
  "try_fold visit_entry (seen, shape) es = Ok (seen', s) \<longleftrightarrow>
     (\<exists>kvs. es = map (apsnd Ok) kvs \<and> distinct (map fst kvs) \<and> seen \<inter> fst ` set kvs = {}
        \<and> list_all (\<lambda>(k, v). filter_field_ok k v) kvs
        \<and> seen' = seen \<union> fst ` set kvs \<and> s = fold add_field kvs shape)"
proof (induction es arbitrary: seen shape)
  case Nil
  then show ?case by auto
next
  case (Cons e es)
  obtain k r where e: "e = (k, r)" by (cases e)
  have "try_fold visit_entry (seen, shape) (e # es) = Ok (seen', s) \<longleftrightarrow>
      (\<exists>v. r = Ok v \<and> k \<notin> seen \<and> filter_field_ok k v
        \<and> try_fold visit_entry (insert k seen, add_field (k, v) shape) es = Ok (seen', s))"
    by (auto simp: e and_then_Ok_iff visit_entry_Ok_iff)
  also have "\<dots> \<longleftrightarrow> (\<exists>v kvs. e = apsnd Ok (k, v) \<and> es = map (apsnd Ok) kvs \<and> distinct (map fst ((k, v) # kvs))
        \<and> seen \<inter> fst ` set ((k, v) # kvs) = {} \<and> list_all (\<lambda>(k, v). filter_field_ok k v) ((k, v) # kvs)
        \<and> seen' = seen \<union> fst ` set ((k, v) # kvs) \<and> s = fold add_field ((k, v) # kvs) shape)"
    unfolding Cons.IH by (auto simp: e)
  also have "\<dots> \<longleftrightarrow> (\<exists>kvs. e # es = map (apsnd Ok) kvs \<and> distinct (map fst kvs) \<and> seen \<inter> fst ` set kvs = {}
        \<and> list_all (\<lambda>(k, v). filter_field_ok k v) kvs
        \<and> seen' = seen \<union> fst ` set kvs \<and> s = fold add_field kvs shape)"
    by (auto simp: e Cons_eq_map_conv)
  finally show ?case .
qed

lemma fold_add_field:
  "fsh_search (fold add_field kvs shape) \<longleftrightarrow> fsh_search shape \<or> ''search'' \<in> fst ` set kvs"
  "fsh_pocket_fields (fold add_field kvs shape) =
     foldl (\<lambda>m (k, v). bt_insert k v m) (fsh_pocket_fields shape) (filter (\<lambda>(k, v). k \<noteq> ''search'') kvs)"
  by (induction kvs arbitrary: shape) (auto simp: add_field_def)

text \<open>
  The visitor accepts a filter exactly when the reader delivers all its entries, no field is repeated
  and every field has a value of the right form; it keeps every field but \<open>search\<close>, of which it only
  notes the presence.
\<close>

theorem inspect_filter_shape_exact:
  "inspect_filter_shape api raw = Ok shape \<longleftrightarrow>
     (\<exists>kvs. ra_map api raw = Ok \<lparr>src_entries = map (apsnd Ok) kvs, src_failure = None\<rparr> \<and> ra_end api raw = None
        \<and> distinct (map fst kvs) \<and> list_all (\<lambda>(k, v). filter_field_ok k v) kvs
        \<and> shape = \<lparr>fsh_search = (''search'' \<in> fst ` set kvs),
             fsh_pocket_fields = bt_of_list (filter (\<lambda>(k, v). k \<noteq> ''search'') kvs)\<rparr>)"
proof -
  have "fold add_field kvs filter_shape_default = \<lparr>fsh_search = (''search'' \<in> fst ` set kvs),
      fsh_pocket_fields = bt_of_list (filter (\<lambda>(k, v). k \<noteq> ''search'') kvs)\<rparr>" for kvs
    using fold_add_field [of kvs filter_shape_default]
    by (intro filter_shape.equality) (simp_all add: filter_shape_default_def bt_of_list_def)
  moreover have "b = \<lparr>src_entries = es, src_failure = f\<rparr> \<longleftrightarrow> src_entries b = es \<and> src_failure b = f"
    for b :: map_source and es f
    by (cases b) simp
  ultimately show ?thesis
    unfolding inspect_filter_shape_def filter_shape_deserialize_def visit_map_def
    by (cases "ra_map api raw"; cases "ra_end api raw")
       (auto simp: result_iffs visit_entries_Ok_iff split: option.splits)
qed

section \<open>The grammar of messages\<close>

text \<open>
  What each message looks like, as a relation between the raw values of the array and the message;
  the parser decides it. A filter is an object whose entries \<open>kvs\<close> have distinct names and allowed
  values, followed by nothing; the filter itself is read from the object of the entries other than
  \<open>search\<close>.
\<close>

inductive reads_filters :: "('raw, 'f) raw_api \<Rightarrow> 'raw list \<Rightarrow> 'f list \<Rightarrow> bool \<Rightarrow> bool" for api where
  reads_no_filter: "reads_filters api [] [] False"
| reads_filter: "ra_map api v = Ok \<lparr>src_entries = map (apsnd Ok) kvs, src_failure = None\<rparr> \<Longrightarrow>
    ra_end api v = None \<Longrightarrow> distinct (map fst kvs) \<Longrightarrow> list_all (\<lambda>(k, x). filter_field_ok k x) kvs \<Longrightarrow>
    ra_filter api (JObject (bt_of_list (filter (\<lambda>(k, x). k \<noteq> ''search'') kvs))) = Ok f \<Longrightarrow>
    reads_filters api vs fs search \<Longrightarrow>
    reads_filters api (v # vs) (f # fs) (''search'' \<in> fst ` set kvs \<or> search)"

inductive reads_message :: "('raw, 'f) raw_api \<Rightarrow> 'raw list \<Rightarrow> 'f runtime_client_message \<Rightarrow> bool" for api where
  reads_event: "ra_string api c = Some ''EVENT'' \<Longrightarrow> ra_event api v = Ok e \<Longrightarrow>
    reads_message api [c, v] (RuntimeClientEvent e)"
| reads_auth: "ra_string api c = Some ''AUTH'' \<Longrightarrow> ra_event api v = Ok e \<Longrightarrow>
    reads_message api [c, v] (RuntimeClientAuth e)"
| reads_req: "ra_string api c = Some ''REQ'' \<Longrightarrow> ra_string api s = Some sid \<Longrightarrow> valid_subscription_id sid \<Longrightarrow>
    vs \<noteq> [] \<Longrightarrow> reads_filters api vs fs search \<Longrightarrow> reads_message api (c # s # vs) (RuntimeClientReq sid fs search)"
| reads_count: "ra_string api c = Some ''COUNT'' \<Longrightarrow> ra_string api s = Some sid \<Longrightarrow> valid_subscription_id sid \<Longrightarrow>
    vs \<noteq> [] \<Longrightarrow> reads_filters api vs fs search \<Longrightarrow> reads_message api (c # s # vs) (RuntimeClientCount sid fs search)"
| reads_close: "ra_string api c = Some ''CLOSE'' \<Longrightarrow> ra_string api s = Some sid \<Longrightarrow> valid_subscription_id sid \<Longrightarrow>
    reads_message api [c, s] (RuntimeClientClose sid)"
| reads_neg_open: "ra_string api c = Some ''NEG-OPEN'' \<Longrightarrow> ra_string api s = Some sid \<Longrightarrow> valid_subscription_id sid \<Longrightarrow>
    reads_filters api [v] [f] search \<Longrightarrow> ra_string api m = Some msg \<Longrightarrow> even (length msg) \<Longrightarrow>
    list_all lower_hex_char msg \<Longrightarrow> reads_message api [c, s, v, m] (RuntimeClientNegOpen sid f msg)"
| reads_neg_msg: "ra_string api c = Some ''NEG-MSG'' \<Longrightarrow> ra_string api s = Some sid \<Longrightarrow> valid_subscription_id sid \<Longrightarrow>
    ra_string api m = Some msg \<Longrightarrow> even (length msg) \<Longrightarrow> list_all lower_hex_char msg \<Longrightarrow>
    reads_message api [c, s, m] (RuntimeClientNegMsg sid msg)"
| reads_neg_close: "ra_string api c = Some ''NEG-CLOSE'' \<Longrightarrow> ra_string api s = Some sid \<Longrightarrow> valid_subscription_id sid \<Longrightarrow>
    reads_message api [c, s] (RuntimeClientNegClose sid)"

inductive_simps reads_filters_Nil: "reads_filters api [] fs search"
inductive_simps reads_filters_Cons: "reads_filters api (v # vs) fs search"

lemma parse_filter_Ok_iff:
  "parse_filter api v = Ok pf \<longleftrightarrow>
     (\<exists>kvs. ra_map api v = Ok \<lparr>src_entries = map (apsnd Ok) kvs, src_failure = None\<rparr> \<and> ra_end api v = None
        \<and> distinct (map fst kvs) \<and> list_all (\<lambda>(k, x). filter_field_ok k x) kvs
        \<and> ra_filter api (JObject (bt_of_list (filter (\<lambda>(k, x). k \<noteq> ''search'') kvs))) = Ok (prf_filter pf)
        \<and> prf_search_present pf = (''search'' \<in> fst ` set kvs))"
proof -
  let ?shape = "\<lambda>kvs. \<lparr>fsh_search = (''search'' \<in> fst ` set kvs),
      fsh_pocket_fields = bt_of_list (filter (\<lambda>(k, x). k \<noteq> ''search'') kvs)\<rparr>"
  have "parse_filter api v = Ok pf \<longleftrightarrow> (\<exists>shape. inspect_filter_shape api v = Ok shape
      \<and> ra_filter api (JObject (fsh_pocket_fields shape)) = Ok (prf_filter pf)
      \<and> prf_search_present pf = fsh_search shape)"
    by (cases pf) (auto simp: parse_filter_def result_iffs)
  also have "\<dots> \<longleftrightarrow> (\<exists>kvs. ra_map api v = Ok \<lparr>src_entries = map (apsnd Ok) kvs, src_failure = None\<rparr>
      \<and> ra_end api v = None \<and> distinct (map fst kvs) \<and> list_all (\<lambda>(k, x). filter_field_ok k x) kvs
      \<and> ra_filter api (JObject (fsh_pocket_fields (?shape kvs))) = Ok (prf_filter pf)
      \<and> prf_search_present pf = fsh_search (?shape kvs))"
    unfolding inspect_filter_shape_exact by blast
  finally show ?thesis by (simp only: filter_shape.simps)
qed

lemma reads_filters_parse:
  "reads_filters api vs fs search \<Longrightarrow>
     \<exists>pfs. traverse (parse_filter api) vs = Ok pfs \<and> fs = map prf_filter pfs \<and> search = list_ex prf_search_present pfs"
proof (induction rule: reads_filters.induct)
  case (reads_filter v kvs f vs fs search)
  then obtain pfs where pfs: "traverse (parse_filter api) vs = Ok pfs" "fs = map prf_filter pfs"
    "search = list_ex prf_search_present pfs" by blast
  let ?pf = "\<lparr>prf_filter = f, prf_search_present = (''search'' \<in> fst ` set kvs)\<rparr>"
  have "parse_filter api v = Ok ?pf"
    unfolding parse_filter_Ok_iff using reads_filter.hyps by (intro exI [of _ kvs]) simp
  then show ?case using pfs by (intro exI [of _ "?pf # pfs"]) simp
qed simp

lemma parse_reads_filters:
  "traverse (parse_filter api) vs = Ok pfs \<Longrightarrow>
     reads_filters api vs (map prf_filter pfs) (list_ex prf_search_present pfs)"
proof (induction vs arbitrary: pfs)
  case (Cons v vs)
  then obtain pf pfs' where v: "parse_filter api v = Ok pf"
    and vs: "traverse (parse_filter api) vs = Ok pfs'" "pfs = pf # pfs'"
    by (auto simp: result_iffs)
  from v obtain kvs where
    "ra_map api v = Ok \<lparr>src_entries = map (apsnd Ok) kvs, src_failure = None\<rparr>" "ra_end api v = None"
    "distinct (map fst kvs)" "list_all (\<lambda>(k, x). filter_field_ok k x) kvs"
    "ra_filter api (JObject (bt_of_list (filter (\<lambda>(k, x). k \<noteq> ''search'') kvs))) = Ok (prf_filter pf)"
    and search: "prf_search_present pf = (''search'' \<in> fst ` set kvs)"
    unfolding parse_filter_Ok_iff by blast
  from reads_filter [OF this(1-5) Cons.IH [OF vs(1)]] show ?case by (simp add: vs(2) search)
qed (simp add: reads_no_filter)

lemma reads_filters_iff:
  "reads_filters api vs fs search \<longleftrightarrow>
     (\<exists>pfs. traverse (parse_filter api) vs = Ok pfs \<and> fs = map prf_filter pfs \<and> search = list_ex prf_search_present pfs)"
  (is "_ \<longleftrightarrow> ?R")
proof
  assume "reads_filters api vs fs search"
  then show ?R by (rule reads_filters_parse)
next
  assume ?R
  then obtain pfs where "traverse (parse_filter api) vs = Ok pfs" "fs = map prf_filter pfs"
    "search = list_ex prf_search_present pfs" by blast
  with parse_reads_filters [OF this(1)] show "reads_filters api vs fs search" by simp
qed

lemma parse_subscription_id_Ok_iff:
  "parse_subscription_id api s command = Ok sid \<longleftrightarrow> ra_string api s = Some sid \<and> valid_subscription_id sid"
  by (auto simp: parse_subscription_id_def result_iffs)

lemma parse_negentropy_message_Ok_iff:
  "parse_negentropy_message api m command = Ok msg \<longleftrightarrow>
     ra_string api m = Some msg \<and> even (length msg) \<and> list_all lower_hex_char msg"
  by (auto simp: parse_negentropy_message_def result_iffs even_iff_mod_2_eq_zero)

lemma length_eq_conv:
  "length vs = 2 \<longleftrightarrow> (\<exists>a b. vs = [a, b])"
  "length vs = 3 \<longleftrightarrow> (\<exists>a b c. vs = [a, b, c])"
  "length vs = 4 \<longleftrightarrow> (\<exists>a b c d. vs = [a, b, c, d])"
  "\<not> length vs < 3 \<longleftrightarrow> (\<exists>a b ws. vs = a # b # ws \<and> ws \<noteq> [])"
proof -
  have two: "length vs = 2 \<longleftrightarrow> (\<exists>a b. vs = [a, b])" for vs :: "'a list"
    by (cases vs; cases "tl vs"; cases "tl (tl vs)") auto
  show "length vs = 2 \<longleftrightarrow> (\<exists>a b. vs = [a, b])" by (rule two)
  have three: "length vs = 3 \<longleftrightarrow> (\<exists>a b c. vs = [a, b, c])" for vs :: "'a list"
  proof (cases vs)
    case (Cons a ws)
    with two [of ws] show ?thesis by auto
  qed simp
  show "length vs = 3 \<longleftrightarrow> (\<exists>a b c. vs = [a, b, c])" by (rule three)
  show "length vs = 4 \<longleftrightarrow> (\<exists>a b c d. vs = [a, b, c, d])"
  proof (cases vs)
    case (Cons a ws)
    with three [of ws] show ?thesis by auto
  qed simp
  show "\<not> length vs < 3 \<longleftrightarrow> (\<exists>a b ws. vs = a # b # ws \<and> ws \<noteq> [])"
    by (cases vs; cases "tl vs"; cases "tl (tl vs)") auto
qed

lemma parse_command_Ok_iffs:
  "parse_event_or_auth api vs build = Ok m \<longleftrightarrow> (\<exists>c v e. vs = [c, v] \<and> ra_event api v = Ok e \<and> m = build e)"
  "parse_req_or_count api vs command build2 = Ok m \<longleftrightarrow> (\<exists>c s ws sid fs search. vs = c # s # ws \<and> ws \<noteq> []
     \<and> ra_string api s = Some sid \<and> valid_subscription_id sid \<and> reads_filters api ws fs search
     \<and> m = build2 sid fs search)"
  "parse_close api vs = Ok m \<longleftrightarrow> (\<exists>c s sid. vs = [c, s] \<and> ra_string api s = Some sid
     \<and> valid_subscription_id sid \<and> m = RuntimeClientClose sid)"
  "parse_neg_close api vs = Ok m \<longleftrightarrow> (\<exists>c s sid. vs = [c, s] \<and> ra_string api s = Some sid
     \<and> valid_subscription_id sid \<and> m = RuntimeClientNegClose sid)"
  "parse_neg_msg api vs = Ok m \<longleftrightarrow> (\<exists>c s x sid msg. vs = [c, s, x] \<and> ra_string api s = Some sid
     \<and> valid_subscription_id sid \<and> ra_string api x = Some msg \<and> even (length msg) \<and> list_all lower_hex_char msg
     \<and> m = RuntimeClientNegMsg sid msg)"
  "parse_neg_open api vs = Ok m \<longleftrightarrow> (\<exists>c s v x sid f search msg. vs = [c, s, v, x] \<and> ra_string api s = Some sid
     \<and> valid_subscription_id sid \<and> reads_filters api [v] [f] search
     \<and> ra_string api x = Some msg \<and> even (length msg) \<and> list_all lower_hex_char msg \<and> m = RuntimeClientNegOpen sid f msg)"
  subgoal by (auto simp: parse_event_or_auth_def length_eq_conv result_iffs)
  subgoal by (auto simp: parse_req_or_count_def length_eq_conv result_iffs parse_subscription_id_Ok_iff reads_filters_iff)
  subgoal by (auto simp: parse_close_def length_eq_conv result_iffs parse_subscription_id_Ok_iff)
  subgoal by (auto simp: parse_neg_close_def length_eq_conv result_iffs parse_subscription_id_Ok_iff)
  subgoal by (auto simp: parse_neg_msg_def length_eq_conv result_iffs parse_subscription_id_Ok_iff
      parse_negentropy_message_Ok_iff)
  subgoal by (auto simp: parse_neg_open_def length_eq_conv result_iffs parse_subscription_id_Ok_iff
      parse_negentropy_message_Ok_iff reads_filters_iff)
  done

text \<open>
  Claim C26. The parser of client messages decides the grammar \<open>reads_message\<close>: it returns a message
  exactly when the text is an array that reads as that message, so that a filter with a repeated, an
  unknown or an ill-formed field is never accepted and every well-formed message is.
\<close>

theorem parse_runtime_client_message_exact:
  "parse_runtime_client_message api raw = Ok m \<longleftrightarrow> (\<exists>vs. ra_values api raw = Ok vs \<and> reads_message api vs m)"
proof -
  have "and_then (parse_string_value api (case vs of [] \<Rightarrow> None | v # _ \<Rightarrow> Some v) missing invalid) f = Ok m \<longleftrightarrow>
      (\<exists>c ws command. vs = c # ws \<and> ra_string api c = Some command \<and> f command = Ok m)" for vs missing invalid f
    by (auto simp: parse_string_value_def result_iffs split: list.splits)
  then have parse: "parse_runtime_client_message api raw = Ok m \<longleftrightarrow>
      (\<exists>vs c ws command. ra_values api raw = Ok vs \<and> vs = c # ws \<and> ra_string api c = Some command
        \<and> (if command = ''EVENT'' then parse_event_or_auth api vs RuntimeClientEvent
           else if command = ''AUTH'' then parse_event_or_auth api vs RuntimeClientAuth
           else if command = ''REQ'' then parse_req_or_count api vs ''REQ'' RuntimeClientReq
           else if command = ''COUNT'' then parse_req_or_count api vs ''COUNT'' RuntimeClientCount
           else if command = ''CLOSE'' then parse_close api vs
           else if command = ''NEG-OPEN'' then parse_neg_open api vs
           else if command = ''NEG-MSG'' then parse_neg_msg api vs
           else if command = ''NEG-CLOSE'' then parse_neg_close api vs
           else Err (''client message command `'' @ command @ ''` is unsupported'')) = Ok m)"
    by (auto simp: parse_runtime_client_message_def and_then_Ok_iff)
  show ?thesis
  proof
    assume "parse_runtime_client_message api raw = Ok m"
    then show "\<exists>vs. ra_values api raw = Ok vs \<and> reads_message api vs m"
      unfolding parse by (auto simp: parse_command_Ok_iffs intro: reads_message.intros split: if_splits)
  next
    assume "\<exists>vs. ra_values api raw = Ok vs \<and> reads_message api vs m"
    then obtain vs where vs: "ra_values api raw = Ok vs" "reads_message api vs m" by blast
    from this(2,1) show "parse_runtime_client_message api raw = Ok m"
      unfolding parse by cases (auto simp: parse_command_Ok_iffs)
  qed
qed

end
