(* ===== verification/Tenant_Names.thy ===== *)
theory Tenant_Names
  imports Runtime_Text
begin

text \<open>
  The names of tenants (\<open>crates/tangle_runtime/src/tenant.rs\<close>): identifiers, canonical hosts and relay
  URLs. The theorems say exactly which host names are accepted and that the canonical forms are
  fixed points, so that comparing them as strings compares hosts.
\<close>

section \<open>Identifiers\<close>

type_synonym tenant_id = string
type_synonym tenant_schema = string
type_synonym canonical_host = string
type_synonym tenant_relay_url = string

datatype identifier_alphabet = AlphabetTenantId | AlphabetTenantSchema

fun in_alphabet :: "identifier_alphabet \<Rightarrow> char \<Rightarrow> bool" where
  "in_alphabet AlphabetTenantId b \<longleftrightarrow>
     is_ascii_lowercase b \<or> is_ascii_digit b \<or> b = CHR ''_'' \<or> b = CHR ''-''"
| "in_alphabet AlphabetTenantSchema b \<longleftrightarrow> is_ascii_lowercase b \<or> is_ascii_digit b \<or> b = CHR ''_''"

definition validate_identifier ::
  "string \<Rightarrow> string \<Rightarrow> nat \<Rightarrow> identifier_alphabet \<Rightarrow> base_relay_error + unit" where
  "validate_identifier field value max_length alphabet =
     (if value = [] then Err (base_invalid (field @ '' must not be empty''))
      else if length value > max_length
      then Err (base_invalid (field @ '' must be '' @ dec max_length @ '' bytes or less''))
      else if trim_changes value
      then Err (base_invalid (field @ '' must not contain leading or trailing whitespace''))
      else if \<not> is_ascii_lowercase (hd value)
      then Err (base_invalid (field @ '' must start with a lowercase ASCII letter''))
      else if \<not> list_all (in_alphabet alphabet) value
      then Err (base_invalid (field @
        '' must contain only lowercase ASCII letters, digits, and approved separators''))
      else Ok ())"

definition tenant_id_new :: "string \<Rightarrow> base_relay_error + tenant_id" where
  "tenant_id_new value = map_ok (\<lambda>_. value) (validate_identifier ''tenant_id'' value 64 AlphabetTenantId)"

definition tenant_schema_new :: "string \<Rightarrow> base_relay_error + tenant_schema" where
  "tenant_schema_new value =
     map_ok (\<lambda>_. value) (validate_identifier ''tenant_schema'' value 64 AlphabetTenantSchema)"

section \<open>Hosts\<close>

definition split_host_port :: "string \<Rightarrow> base_relay_error + string \<times> string option" where
  "split_host_port host =
     (if length (filter (\<lambda>c. c = CHR '':'') host) > 1
      then Err (base_invalid ''host must not contain multiple port separators'')
      else case split_once CHR '':'' host of
        Some (name, port) \<Rightarrow>
          if name = [] \<or> port = [] then Err (base_invalid ''host and port must both be present'')
          else Ok (name, Some port)
      | None \<Rightarrow> Ok (host, None))"

definition host_label_char :: "char \<Rightarrow> bool" where
  "host_label_char b \<longleftrightarrow> is_ascii_lowercase b \<or> is_ascii_digit b \<or> b = CHR ''-''"

definition validate_host_label :: "string \<Rightarrow> base_relay_error + unit" where
  "validate_host_label label =
     (if label = [] then Err (base_invalid ''host labels must not be empty'')
      else if hd label = CHR ''-'' \<or> last label = CHR ''-''
      then Err (base_invalid ''host labels must not start or end with hyphen'')
      else if \<not> list_all host_label_char label
      then Err (base_invalid
        ''host labels must contain only lowercase ASCII letters, digits, and hyphen'')
      else Ok ())"

definition validate_host_name :: "string \<Rightarrow> base_relay_error + unit" where
  "validate_host_name host =
     (if host = [] then Err (base_invalid ''host name must not be empty'')
      else map_ok (\<lambda>_. ()) (traverse validate_host_label (split_char CHR ''.'' host)))"

definition validate_port :: "string \<Rightarrow> base_relay_error + unit" where
  "validate_port port =
     (if \<not> list_all is_ascii_digit port then Err (base_invalid ''host port must be numeric'')
      else if port = [] \<or> digits_value port \<ge> 2 ^ 16
      then Err (base_invalid ''host port must be between 1 and 65535'')
      else if digits_value port = 0 then Err (base_invalid ''host port must be between 1 and 65535'')
      else Ok ())"

definition canonical_host_new :: "string \<Rightarrow> base_relay_error + canonical_host" where
  "canonical_host_new raw =
     (if blank raw then Err (base_invalid ''host must not be empty'')
      else if trim_changes raw
      then Err (base_invalid ''host must not contain leading or trailing whitespace'')
      else if contains_str ''://'' raw then Err (base_invalid ''host must not include a URL scheme'')
      else if list_ex is_whitespace (utf8_chars raw)
        \<or> list_ex (\<lambda>c. c \<in> {CHR ''/'', CHR 0x5C, CHR ''?'', CHR ''#'', CHR ''@''}) raw
      then Err (base_invalid
        ''host must not contain whitespace, path, query, fragment, or credentials'')
      else if CHR ''['' \<in> set raw \<or> CHR '']'' \<in> set raw
      then Err (base_invalid ''host must use a DNS name or IPv4 address with optional port'')
      else let lowercase = to_ascii_lowercase raw in
        and_then (split_host_port lowercase) (\<lambda>(host, port).
        and_then (validate_host_name host) (\<lambda>_.
        and_then (case port of Some port \<Rightarrow> validate_port port | None \<Rightarrow> Ok ()) (\<lambda>_. Ok lowercase))))"

section \<open>Relay URLs\<close>

definition tenant_relay_url_new :: "string \<Rightarrow> base_relay_error + tenant_relay_url" where
  "tenant_relay_url_new raw =
     (if blank raw then Err (base_invalid ''relay_url must not be empty'')
      else if trim_changes raw
      then Err (base_invalid ''relay_url must not contain leading or trailing whitespace'')
      else if list_ex is_whitespace (utf8_chars raw)
      then Err (base_invalid ''relay_url must not contain whitespace'')
      else and_then (ok_or (split_once_str ''://'' raw)
          (base_invalid ''relay_url must include ws:// or wss://'')) (\<lambda>(scheme, rest).
        if scheme \<noteq> ''ws'' \<and> scheme \<noteq> ''wss''
        then Err (base_invalid ''relay_url must start with ws:// or wss://'')
        else let authority = takeWhile (\<lambda>c. c \<noteq> CHR ''/'') rest in
          if authority = [] then Err (base_invalid ''relay_url host must not be empty'')
          else map_ok (\<lambda>host. scheme @ ''://'' @ host @ drop (length authority) rest)
            (canonical_host_new authority)))"

section \<open>Which hosts are accepted\<close>

definition valid_host_label :: "string \<Rightarrow> bool" where
  "valid_host_label label \<longleftrightarrow> label \<noteq> [] \<and> hd label \<noteq> CHR ''-'' \<and> last label \<noteq> CHR ''-''
     \<and> list_all host_label_char label"

definition valid_host :: "string \<Rightarrow> bool" where
  "valid_host h \<longleftrightarrow> (\<exists>name port. list_all valid_host_label (split_char CHR ''.'' name)
     \<and> (h = name \<or> h = name @ CHR '':'' # port \<and> list_all is_ascii_digit port \<and> port \<noteq> []
          \<and> 1 \<le> digits_value port \<and> digits_value port < 65536))"

lemma validate_host_label_Ok: "validate_host_label l = Ok u \<longleftrightarrow> valid_host_label l"
  by (auto simp: validate_host_label_def valid_host_label_def)

lemma split_char_not_Nil: "split_char c s \<noteq> []"
  by (cases s) (auto split: list.splits)

lemma set_split_char: "x \<in> set s \<Longrightarrow> x = c \<or> (\<exists>p\<in>set (split_char c s). x \<in> set p)"
proof (induction s)
  case (Cons y s)
  then show ?case using split_char_not_Nil [of c s] by (cases "split_char c s") auto
qed simp

lemma traverse_unit_Ok: "map_ok (\<lambda>_. ()) (traverse f xs) = Ok u \<longleftrightarrow> (\<forall>x\<in>set xs. is_ok (f x))"
proof (induction xs)
  case (Cons x xs)
  then show ?case by (cases "f x"; cases "traverse f xs") (auto simp: is_ok_def)
qed simp

lemma validate_host_name_Ok:
  "validate_host_name h = Ok u \<longleftrightarrow> list_all valid_host_label (split_char CHR ''.'' h)"
proof -
  have ok: "is_ok (validate_host_label l) \<longleftrightarrow> valid_host_label l" for l
    using validate_host_label_Ok [of l] by (cases "validate_host_label l") (auto simp: is_ok_def)
  show ?thesis
    by (cases "h = []") (auto simp: validate_host_name_def traverse_unit_Ok ok list_all_iff valid_host_label_def)
qed

lemma validate_port_Ok:
  "validate_port p = Ok u \<longleftrightarrow> list_all is_ascii_digit p \<and> p \<noteq> [] \<and> 1 \<le> digits_value p \<and> digits_value p < 65536"
  by (auto simp: validate_port_def)

lemma valid_name_char:
  "list_all valid_host_label (split_char CHR ''.'' name) \<Longrightarrow> c \<in> set name \<Longrightarrow> c = CHR ''.'' \<or> host_label_char c"
  using set_split_char [of c name "CHR ''.''"] by (auto simp: list_all_iff valid_host_label_def)

lemma host_char_byte:
  "host_label_char c \<Longrightarrow> 45 \<le> byte c \<and> byte c \<le> 122 \<and> (byte c = 45 \<or> 48 \<le> byte c) \<and> \<not> (58 \<le> byte c \<and> byte c \<le> 96)"
  by (auto simp: host_label_char_def is_ascii_lowercase_def is_ascii_digit_def byte_def)

lemma split_host_port_Ok:
  "split_host_port h = Ok (name, port) \<longleftrightarrow> CHR '':'' \<notin> set name \<and>
     (case port of None \<Rightarrow> h = name
      | Some p \<Rightarrow> h = name @ CHR '':'' # p \<and> CHR '':'' \<notin> set p \<and> name \<noteq> [] \<and> p \<noteq> [])"
proof (cases "CHR '':'' \<in> set h")
  case False
  then have "filter (\<lambda>c. c = CHR '':'') h = []" by (auto simp: filter_empty_conv)
  with False show ?thesis
    by (auto simp: split_host_port_def split_once_None split: option.splits)
next
  case True
  then obtain a b where h: "h = a @ CHR '':'' # b" "CHR '':'' \<notin> set a" by (meson split_list_first)
  then have split: "split_once CHR '':'' h = Some (a, b)" by (simp add: split_once_append)
  have "length (filter (\<lambda>c. c = CHR '':'') h) = 1 + length (filter (\<lambda>c. c = CHR '':'') b)"
    using h by (auto simp: filter_empty_conv)
  moreover have "filter (\<lambda>c. c = CHR '':'') b = [] \<longleftrightarrow> CHR '':'' \<notin> set b"
    by (auto simp: filter_empty_conv)
  ultimately have lhs: "split_host_port h = Ok (name, port) \<longleftrightarrow>
      CHR '':'' \<notin> set b \<and> a \<noteq> [] \<and> b \<noteq> [] \<and> name = a \<and> port = Some b"
    by (auto simp: split_host_port_def split)
  have parts: "h = name @ CHR '':'' # p \<and> CHR '':'' \<notin> set name \<longleftrightarrow> name = a \<and> p = b" for p
    using h split_once_append [of "CHR '':''" name p] split_once_append [of "CHR '':''" a b] by auto
  show ?thesis
  proof (cases port)
    case None
    with lhs have "split_host_port h \<noteq> Ok (name, port)" by simp
    with True None show ?thesis by auto
  next
    case (Some p)
    have "split_host_port h = Ok (name, port) \<longleftrightarrow>
        (name = a \<and> p = b) \<and> CHR '':'' \<notin> set p \<and> name \<noteq> [] \<and> p \<noteq> []"
      unfolding lhs using Some by blast
    then show ?thesis unfolding parts [symmetric] using Some by auto
  qed
qed

text \<open>The characters of a valid host, and of a string whose lower-case form is one.\<close>

lemma valid_host_char:
  assumes "valid_host h" and "c \<in> set h"
  shows "c = CHR ''.'' \<or> c = CHR '':'' \<or> host_label_char c"
proof -
  obtain name port where name: "list_all valid_host_label (split_char CHR ''.'' name)"
    and h: "h = name \<or> h = name @ CHR '':'' # port \<and> list_all is_ascii_digit port"
    using assms(1) by (auto simp: valid_host_def)
  show ?thesis
  proof (cases "c \<in> set name")
    case True
    with valid_name_char [OF name] show ?thesis by blast
  next
    case False
    with h assms(2) show ?thesis by (auto simp: host_label_char_def list_all_iff)
  qed
qed

lemma valid_host_byte:
  assumes "valid_host (to_ascii_lowercase s)" and "c \<in> set s"
  shows "45 \<le> byte c \<and> byte c \<le> 122 \<and> byte c \<noteq> 47 \<and> byte c \<notin> {63, 64, 91, 92, 93}"
proof -
  have "ascii_lower_char c \<in> set (to_ascii_lowercase s)"
    using assms(2) by (simp add: to_ascii_lowercase_def)
  from valid_host_char [OF assms(1) this]
  have "ascii_lower_char c = CHR ''.'' \<or> ascii_lower_char c = CHR '':'' \<or> host_label_char (ascii_lower_char c)" .
  then have "byte (ascii_lower_char c) = 46 \<or> byte (ascii_lower_char c) = 58 \<or> host_label_char (ascii_lower_char c)"
    by (auto simp: byte_def)
  then have "45 \<le> byte (ascii_lower_char c) \<and> byte (ascii_lower_char c) \<le> 122 \<and> byte (ascii_lower_char c) \<noteq> 47
      \<and> \<not> (59 \<le> byte (ascii_lower_char c) \<and> byte (ascii_lower_char c) \<le> 96)"
    using host_char_byte [of "ascii_lower_char c"] by auto
  then show ?thesis by (auto simp: byte_ascii_lower_char split: if_splits)
qed

lemma valid_host_nonempty: "valid_host h \<Longrightarrow> h \<noteq> []"
  by (auto simp: valid_host_def valid_host_label_def)

text \<open>The guards that look at the raw string hold for every string whose lower-case form is a host.\<close>

lemma valid_host_guards:
  assumes "valid_host (to_ascii_lowercase s)"
  shows "\<not> blank s" "\<not> trim_changes s" "\<not> list_ex is_whitespace (utf8_chars s)" "\<not> contains_str ''://'' s"
    "\<not> list_ex (\<lambda>c. c \<in> {CHR ''/'', CHR 0x5C, CHR ''?'', CHR ''#'', CHR ''@''}) s"
    "CHR ''['' \<notin> set s" "CHR '']'' \<notin> set s"
proof -
  note bytes = valid_host_byte [OF assms]
  have "s \<noteq> []" using valid_host_nonempty [OF assms] by (auto simp: to_ascii_lowercase_def)
  moreover have ok: "\<forall>c\<in>set s. byte c < 128 \<and> \<not> is_whitespace (byte c)"
    using bytes by (fastforce simp: is_whitespace_def)
  ultimately show "\<not> blank s" "\<not> trim_changes s" "\<not> list_ex is_whitespace (utf8_chars s)"
    using no_whitespace_trim [of s] by blast+
  have out: "byte c \<in> {35, 47, 63, 64, 91, 92, 93} \<Longrightarrow> c \<notin> set s" for c
    using bytes [of c] by auto
  have slash: "CHR ''/'' \<notin> set s" by (rule out) (simp add: byte_def)
  then show "\<not> contains_str ''://'' s" by (simp add: contains_str_def before_missing)
  have "CHR 0x5C \<notin> set s" "CHR ''?'' \<notin> set s" "CHR ''#'' \<notin> set s" "CHR ''@'' \<notin> set s"
    by (rule out; simp add: byte_def)+
  with slash show "\<not> list_ex (\<lambda>c. c \<in> {CHR ''/'', CHR 0x5C, CHR ''?'', CHR ''#'', CHR ''@''}) s"
    by (auto simp: list_ex_iff)
  show "CHR ''['' \<notin> set s" "CHR '']'' \<notin> set s" by (rule out; simp add: byte_def)+
qed

lemma host_parts_iff:
  "(\<exists>name port. split_host_port h = Ok (name, port) \<and> validate_host_name name = Ok ()
      \<and> (case port of Some port \<Rightarrow> validate_port port | None \<Rightarrow> Ok ()) = Ok ()) \<longleftrightarrow> valid_host h"
proof -
  have colon: "CHR '':'' \<notin> set name" if "list_all valid_host_label (split_char CHR ''.'' name)" for name
    using valid_name_char [OF that, of "CHR '':''"]
    by (auto simp: host_label_char_def is_ascii_lowercase_def is_ascii_digit_def byte_def)
  have digits: "CHR '':'' \<notin> set p" if "list_all is_ascii_digit p" for p
    using that by (auto simp: list_all_iff is_ascii_digit_def byte_def)
  have nonempty: "name \<noteq> []" if "list_all valid_host_label (split_char CHR ''.'' name)" for name
    using that by (auto simp: valid_host_label_def)
  show ?thesis
  proof
    assume "\<exists>name port. split_host_port h = Ok (name, port) \<and> validate_host_name name = Ok ()
      \<and> (case port of Some port \<Rightarrow> validate_port port | None \<Rightarrow> Ok ()) = Ok ()"
    then obtain name port where parts: "split_host_port h = Ok (name, port)"
      "list_all valid_host_label (split_char CHR ''.'' name)"
      "(case port of Some port \<Rightarrow> validate_port port | None \<Rightarrow> Ok ()) = Ok ()"
      by (auto simp: validate_host_name_Ok)
    then show "valid_host h"
      by (cases port) (auto simp: valid_host_def split_host_port_Ok validate_port_Ok)
  next
    assume "valid_host h"
    then consider (name) "list_all valid_host_label (split_char CHR ''.'' h)"
      | (port) name port where "list_all valid_host_label (split_char CHR ''.'' name)" "h = name @ CHR '':'' # port"
        "list_all is_ascii_digit port" "port \<noteq> []" "1 \<le> digits_value port" "digits_value port < 65536"
      by (auto simp: valid_host_def)
    then show "\<exists>name port. split_host_port h = Ok (name, port) \<and> validate_host_name name = Ok ()
      \<and> (case port of Some port \<Rightarrow> validate_port port | None \<Rightarrow> Ok ()) = Ok ()"
    proof cases
      case name
      then have "split_host_port h = Ok (h, None)" using colon by (simp add: split_host_port_Ok)
      with name show ?thesis by (intro exI [of _ h] exI [of _ None]) (simp add: validate_host_name_Ok)
    next
      case port
      then have "split_host_port h = Ok (name, Some port)"
        using colon digits nonempty by (simp add: split_host_port_Ok)
      with port show ?thesis
        by (intro exI [of _ name] exI [of _ "Some port"]) (simp add: validate_host_name_Ok validate_port_Ok)
    qed
  qed
qed

lemma canonical_host_Ok_iff:
  "canonical_host_new raw = Ok h \<longleftrightarrow> h = to_ascii_lowercase raw \<and> valid_host h"
proof
  assume "canonical_host_new raw = Ok h"
  then obtain name port where "h = to_ascii_lowercase raw" "split_host_port (to_ascii_lowercase raw) = Ok (name, port)"
    "validate_host_name name = Ok ()" "(case port of Some port \<Rightarrow> validate_port port | None \<Rightarrow> Ok ()) = Ok ()"
    by (auto simp: canonical_host_new_def and_then_Ok_iff Let_def split: if_splits)
  then show "h = to_ascii_lowercase raw \<and> valid_host h" using host_parts_iff [of h] by blast
next
  assume h: "h = to_ascii_lowercase raw \<and> valid_host h"
  then have "valid_host (to_ascii_lowercase raw)" by (elim conjE) (erule subst)
  note guards = valid_host_guards [OF this]
  from h obtain name port where "split_host_port h = Ok (name, port)" "validate_host_name name = Ok ()"
    "(case port of Some port \<Rightarrow> validate_port port | None \<Rightarrow> Ok ()) = Ok ()"
    using host_parts_iff [of h] by blast
  then show "canonical_host_new raw = Ok h"
    unfolding canonical_host_new_def if_not_P [OF guards(1)] if_not_P [OF guards(2)] if_not_P [OF guards(4)]
    using guards(3,5,6,7) h by (simp only: de_Morgan_disj Let_def if_False simp_thms) simp
qed

text \<open>
  A host is accepted exactly when its lower-case form consists of labels of letters, digits and inner
  hyphens, separated by dots, and an optional port from 1 to 65535; the result is that form. The
  guards against schemes, paths, credentials and whitespace reject nothing else.
\<close>

theorem canonical_host_exact:
  "canonical_host_new raw = Ok h \<longleftrightarrow> h = to_ascii_lowercase raw \<and> valid_host h"
  by (rule canonical_host_Ok_iff)

section \<open>Canonical URLs\<close>

lemma utf8_chars_append_ascii: "is_ascii a \<Longrightarrow> utf8_chars (a @ s) = map byte a @ utf8_chars s"
  by (induction a) (auto simp: is_ascii_def)

lemma trim_chars_no_whitespace: "\<not> list_ex is_whitespace cs \<Longrightarrow> trim_chars cs = cs"
  by (cases "cs = []") (auto simp: trim_chars_def list_ex_iff dropWhile_eq_self_iff [THEN iffD2] hd_rev)

lemma no_whitespace_guards:
  "\<not> list_ex is_whitespace (utf8_chars s) \<Longrightarrow> \<not> trim_changes s"
  "\<not> list_ex is_whitespace (utf8_chars s) \<Longrightarrow> utf8_chars s \<noteq> [] \<Longrightarrow> \<not> blank s"
  by (simp_all add: trim_changes_def blank_def trim_chars_no_whitespace)

lemma take_authority:
  "CHR ''/'' \<notin> set host \<Longrightarrow> suffix = [] \<or> hd suffix = CHR ''/'' \<Longrightarrow>
   takeWhile (\<lambda>c. c \<noteq> CHR ''/'') (host @ suffix) = host"
  by (induction host) (cases suffix; auto)+

definition relay_url_parts :: "string \<Rightarrow> string \<Rightarrow> string \<Rightarrow> bool" where
  "relay_url_parts scheme authority suffix \<longleftrightarrow> scheme \<in> {''ws'', ''wss''}
     \<and> valid_host (to_ascii_lowercase authority) \<and> (suffix = [] \<or> hd suffix = CHR ''/'')
     \<and> \<not> list_ex is_whitespace (utf8_chars suffix)"

lemma parts_accepted:
  assumes "relay_url_parts scheme authority suffix"
  shows "tenant_relay_url_new (scheme @ ''://'' @ authority @ suffix) =
    Ok (scheme @ ''://'' @ to_ascii_lowercase authority @ suffix)"
proof -
  let ?raw = "scheme @ ''://'' @ authority @ suffix"
  from assms have scheme: "scheme \<in> {''ws'', ''wss''}" and host: "valid_host (to_ascii_lowercase authority)"
    and suffix: "suffix = [] \<or> hd suffix = CHR ''/''" and chars: "\<not> list_ex is_whitespace (utf8_chars suffix)"
    by (auto simp: relay_url_parts_def)
  note bytes = valid_host_byte [OF host]
  have "is_ascii (scheme @ ''://'' @ authority)"
  proof -
    have "is_ascii (scheme @ ''://'')" using scheme by (auto simp: is_ascii_def byte_def)
    moreover have "is_ascii authority" using bytes by (fastforce simp: is_ascii_def)
    ultimately show ?thesis by (auto simp: is_ascii_def)
  qed
  then have raw: "utf8_chars ?raw = map byte (scheme @ ''://'' @ authority) @ utf8_chars suffix"
    using utf8_chars_append_ascii [of "scheme @ ''://'' @ authority" suffix] by simp
  have "\<not> list_ex is_whitespace (map byte (scheme @ ''://''))"
    using scheme by (auto simp: is_whitespace_def byte_def)
  moreover have "\<not> list_ex is_whitespace (map byte authority)"
    using bytes by (fastforce simp: is_whitespace_def list_ex_iff)
  ultimately have no_whitespace: "\<not> list_ex is_whitespace (utf8_chars ?raw)"
    using chars unfolding raw by simp
  have "split_once_str ''://'' ?raw = Some (scheme, authority @ suffix)"
    using scheme before_head [of "''://''" scheme "authority @ suffix"] by (auto simp: split_once_str_def)
  moreover have "takeWhile (\<lambda>c. c \<noteq> CHR ''/'') (authority @ suffix) = authority"
    using bytes [of "CHR ''/''"] suffix by (intro take_authority) (auto simp: byte_def)
  moreover have "authority \<noteq> []" using valid_host_nonempty [OF host] by (auto simp: to_ascii_lowercase_def)
  moreover have "canonical_host_new authority = Ok (to_ascii_lowercase authority)"
    using host by (simp add: canonical_host_Ok_iff)
  moreover have "\<not> blank ?raw" "\<not> trim_changes ?raw"
    using no_whitespace_guards [OF no_whitespace] scheme raw by auto
  ultimately show ?thesis
    using no_whitespace scheme by (auto simp: tenant_relay_url_new_def Let_def)
qed

lemma accepted_parts:
  assumes "tenant_relay_url_new raw = Ok url"
  obtains scheme authority suffix where "raw = scheme @ ''://'' @ authority @ suffix"
    and "url = scheme @ ''://'' @ to_ascii_lowercase authority @ suffix" and "relay_url_parts scheme authority suffix"
proof -
  obtain scheme rest where split: "split_once_str ''://'' raw = Some (scheme, rest)"
    and scheme: "scheme = ''ws'' \<or> scheme = ''wss''"
    and host: "canonical_host_new (takeWhile (\<lambda>c. c \<noteq> CHR ''/'') rest) =
        Ok (to_ascii_lowercase (takeWhile (\<lambda>c. c \<noteq> CHR ''/'') rest))"
    and url: "url = scheme @ ''://'' @ to_ascii_lowercase (takeWhile (\<lambda>c. c \<noteq> CHR ''/'') rest)
        @ drop (length (takeWhile (\<lambda>c. c \<noteq> CHR ''/'') rest)) rest"
    and chars: "\<not> list_ex is_whitespace (utf8_chars raw)"
    using assms by (auto simp: tenant_relay_url_new_def and_then_Ok_iff map_ok_Ok_iff Let_def canonical_host_Ok_iff
        split: if_splits)
  let ?authority = "takeWhile (\<lambda>c. c \<noteq> CHR ''/'') rest" and ?suffix = "dropWhile (\<lambda>c. c \<noteq> CHR ''/'') rest"
  have rest: "rest = ?authority @ ?suffix" by simp
  have raw: "raw = (scheme @ ''://'' @ ?authority) @ ?suffix" using split_once_str_Some [OF split] by simp
  have valid: "valid_host (to_ascii_lowercase ?authority)" using host by (simp add: canonical_host_Ok_iff)
  have "is_ascii (scheme @ ''://'')" using scheme by (auto simp: is_ascii_def byte_def)
  moreover have "is_ascii ?authority" using valid_host_byte [OF valid] by (fastforce simp: is_ascii_def)
  ultimately have "is_ascii (scheme @ ''://'' @ ?authority)" by (auto simp: is_ascii_def)
  from utf8_chars_append_ascii [OF this, of ?suffix] have "\<not> list_ex is_whitespace (utf8_chars ?suffix)"
    using chars raw by simp
  moreover have "?suffix = [] \<or> hd ?suffix = CHR ''/''"
    using hd_dropWhile [of "\<lambda>c. c \<noteq> CHR ''/''" rest] by blast
  ultimately have "relay_url_parts scheme ?authority ?suffix"
    using scheme valid by (auto simp: relay_url_parts_def)
  moreover have "url = scheme @ ''://'' @ to_ascii_lowercase ?authority @ ?suffix"
    using url by (simp add: dropWhile_eq_drop)
  ultimately show thesis using raw by (intro that) simp_all
qed

text \<open>
  A relay URL is accepted exactly when it is \<open>ws://\<close> or \<open>wss://\<close>, a host, and a path that has no
  whitespace; only the host is changed, to lower case, so that canonical URLs are fixed points.
\<close>

theorem tenant_relay_url_exact:
  "tenant_relay_url_new raw = Ok url \<longleftrightarrow> (\<exists>scheme authority suffix.
     raw = scheme @ ''://'' @ authority @ suffix \<and> relay_url_parts scheme authority suffix
     \<and> url = scheme @ ''://'' @ to_ascii_lowercase authority @ suffix \<and> tenant_relay_url_new url = Ok url)"
proof
  assume "tenant_relay_url_new raw = Ok url"
  from accepted_parts [OF this] obtain scheme authority suffix where
    parts: "raw = scheme @ ''://'' @ authority @ suffix" "relay_url_parts scheme authority suffix"
      "url = scheme @ ''://'' @ to_ascii_lowercase authority @ suffix" by blast
  then have "relay_url_parts scheme (to_ascii_lowercase authority) suffix" by (simp add: relay_url_parts_def)
  from parts_accepted [OF this] parts show "\<exists>scheme authority suffix.
     raw = scheme @ ''://'' @ authority @ suffix \<and> relay_url_parts scheme authority suffix
     \<and> url = scheme @ ''://'' @ to_ascii_lowercase authority @ suffix \<and> tenant_relay_url_new url = Ok url"
    by (intro exI [of _ scheme] exI [of _ authority] exI [of _ suffix]) simp
next
  assume "\<exists>scheme authority suffix. raw = scheme @ ''://'' @ authority @ suffix \<and> relay_url_parts scheme authority suffix
     \<and> url = scheme @ ''://'' @ to_ascii_lowercase authority @ suffix \<and> tenant_relay_url_new url = Ok url"
  then show "tenant_relay_url_new raw = Ok url" using parts_accepted by blast
qed

end
