(* ===== verification/Runtime_Config.thy ===== *)
theory Runtime_Config
  imports Tenant_Names Relay_Core Relay_Limits
begin

text \<open>
  The configuration of a host and of its tenants (\<open>crates/tangle_runtime/src/config.rs\<close>): the
  documents as \<open>serde\<close> delivers them, their validation, and the set of tenants a host is opened with.
  Reading JSON text, socket addresses and secret keys is left to the parameters of \<open>config_api\<close>.
\<close>

section \<open>Values\<close>

text \<open>A \<open>SocketAddr\<close>: the text of its address and of the whole.\<close>

record socket_addr =
  sa_ip :: string
  sa_display :: string

definition require_positive_usize :: "string \<Rightarrow> nat \<Rightarrow> base_relay_error + unit" where
  "require_positive_usize field value =
     (if value = 0 then Err (base_invalid (field @ '' must be greater than zero'')) else Ok ())"

definition require_positive_u64 :: "string \<Rightarrow> u64 \<Rightarrow> base_relay_error + unit" where
  "require_positive_u64 field value =
     (if value = 0 then Err (base_invalid (field @ '' must be greater than zero'')) else Ok ())"

definition padded :: "string \<Rightarrow> bool" where
  "padded value \<longleftrightarrow> blank value \<or> trim_changes value"

definition validate_optional_text :: "string \<Rightarrow> string option \<Rightarrow> base_relay_error + string option" where
  "validate_optional_text field value =
     (case value of
        Some text \<Rightarrow> if padded text then Err (base_invalid (field @ '' must not be empty or padded''))
          else Ok (Some text)
      | None \<Rightarrow> Ok None)"

record host_limits_config =
  hl_max_total_connections :: nat
  hl_max_total_subscriptions :: nat
  hl_tenant_startup_concurrency :: nat

definition host_limits_config_new :: "nat \<Rightarrow> nat \<Rightarrow> nat \<Rightarrow> base_relay_error + host_limits_config" where
  "host_limits_config_new connections subscriptions concurrency =
     and_then (require_positive_usize ''limits.max_total_connections'' connections) (\<lambda>_.
     and_then (require_positive_usize ''limits.max_total_subscriptions'' subscriptions) (\<lambda>_.
     and_then (require_positive_usize ''limits.tenant_startup_concurrency'' concurrency) (\<lambda>_.
       Ok \<lparr>hl_max_total_connections = connections, hl_max_total_subscriptions = subscriptions,
         hl_tenant_startup_concurrency = concurrency\<rparr>)))"

definition host_limits_config_default :: host_limits_config where
  "host_limits_config_default = \<lparr>hl_max_total_connections = 10000, hl_max_total_subscriptions = 25000,
     hl_tenant_startup_concurrency = 4\<rparr>"

record host_ops_config =
  ho_enabled :: bool
  ho_expose_tenant_inventory :: bool

definition host_ops_config_default :: host_ops_config where
  "host_ops_config_default = \<lparr>ho_enabled = True, ho_expose_tenant_inventory = True\<rparr>"

record trusted_proxy_config =
  tp_enabled :: bool
  tp_trusted_peers :: "string list"

definition trusted_proxy_config_new :: "bool \<Rightarrow> string list \<Rightarrow> base_relay_error + trusted_proxy_config" where
  "trusted_proxy_config_new enabled trusted_peers =
     (if list_ex padded trusted_peers
      then Err (base_invalid ''trusted_proxy.trusted_peers entries must not be empty or padded'')
      else Ok \<lparr>tp_enabled = enabled, tp_trusted_peers = trusted_peers\<rparr>)"

definition trusted_proxy_config_default :: trusted_proxy_config where
  "trusted_proxy_config_default = \<lparr>tp_enabled = False, tp_trusted_peers = []\<rparr>"

record tenant_info_config =
  ti_name :: string
  ti_description :: "string option"
  ti_contact :: "string option"
  ti_icon :: "string option"

definition tenant_info_config_new ::
  "string \<Rightarrow> string option \<Rightarrow> string option \<Rightarrow> string option \<Rightarrow> base_relay_error + tenant_info_config" where
  "tenant_info_config_new name description contact icon =
     (if padded name then Err (base_invalid ''info.name must not be empty or padded'')
      else and_then (validate_optional_text ''info.description'' description) (\<lambda>description.
        and_then (validate_optional_text ''info.contact'' contact) (\<lambda>contact.
        and_then (validate_optional_text ''info.icon'' icon) (\<lambda>icon.
          Ok \<lparr>ti_name = name, ti_description = description, ti_contact = contact, ti_icon = icon\<rparr>))))"

record backup_export_config =
  bx_backup_enabled :: bool
  bx_export_enabled :: bool

definition backup_export_config_default :: backup_export_config where
  "backup_export_config_default = \<lparr>bx_backup_enabled = True, bx_export_enabled = True\<rparr>"

datatype tracing_format = TracingCompact | TracingJson

fun tracing_format_str :: "tracing_format \<Rightarrow> string" where
  "tracing_format_str TracingCompact = ''compact''"
| "tracing_format_str TracingJson = ''json''"

record tracing_config =
  tr_enabled :: bool
  tr_filter :: string
  tr_format :: tracing_format

definition tracing_config_new :: "bool \<Rightarrow> string \<Rightarrow> tracing_format \<Rightarrow> base_relay_error + tracing_config" where
  "tracing_config_new enabled filter_text format =
     (if blank filter_text then Err (base_invalid ''observability.tracing.filter must not be empty'')
      else Ok \<lparr>tr_enabled = enabled, tr_filter = trim_str filter_text, tr_format = format\<rparr>)"

section \<open>The limits of a relay\<close>

text \<open>The document and the validated configuration have the same fields.\<close>

record runtime_limits_config =
  lc_max_message_length :: nat
  lc_max_subid_length :: nat
  lc_max_subscriptions_per_connection :: nat
  lc_max_filters_per_request :: nat
  lc_max_tag_values_per_filter :: nat
  lc_max_query_complexity :: nat
  lc_max_limit :: u64
  lc_default_limit :: u64
  lc_max_event_tags :: nat
  lc_max_content_length :: nat
  lc_broadcast_channel_capacity :: nat
  lc_per_connection_outbound_queue :: nat

definition limits_from_document :: "runtime_limits_config \<Rightarrow> base_relay_error + runtime_limits_config" where
  "limits_from_document d =
     and_then (require_positive_usize ''limits.max_message_length'' (lc_max_message_length d)) (\<lambda>_.
     and_then (require_positive_usize ''limits.max_subid_length'' (lc_max_subid_length d)) (\<lambda>_.
     and_then (require_positive_usize ''limits.max_subscriptions_per_connection''
       (lc_max_subscriptions_per_connection d)) (\<lambda>_.
     and_then (require_positive_usize ''limits.max_filters_per_request'' (lc_max_filters_per_request d)) (\<lambda>_.
     and_then (require_positive_usize ''limits.max_tag_values_per_filter'' (lc_max_tag_values_per_filter d)) (\<lambda>_.
     and_then (require_positive_usize ''limits.max_query_complexity'' (lc_max_query_complexity d)) (\<lambda>_.
     and_then (require_positive_u64 ''limits.max_limit'' (lc_max_limit d)) (\<lambda>_.
     and_then (require_positive_u64 ''limits.default_limit'' (lc_default_limit d)) (\<lambda>_.
     and_then (require_positive_usize ''limits.max_event_tags'' (lc_max_event_tags d)) (\<lambda>_.
     and_then (require_positive_usize ''limits.max_content_length'' (lc_max_content_length d)) (\<lambda>_.
     and_then (require_positive_usize ''limits.broadcast_channel_capacity'' (lc_broadcast_channel_capacity d)) (\<lambda>_.
     and_then (require_positive_usize ''limits.per_connection_outbound_queue''
       (lc_per_connection_outbound_queue d)) (\<lambda>_.
       if lc_max_subid_length d > 64
       then Err (base_invalid (''limits.max_subid_length must be less than or equal to '' @ dec 64))
       else if lc_default_limit d > lc_max_limit d
       then Err (base_invalid ''limits.default_limit must be less than or equal to limits.max_limit'')
       else Ok d))))))))))))"

definition limits_base_relay_limits :: "runtime_limits_config \<Rightarrow> base_relay_error + base_relay_limits" where
  "limits_base_relay_limits c = base_relay_limits_new
     \<lparr>bl_max_pending_events = lc_per_connection_outbound_queue c,
      bl_max_subscription_id_length = lc_max_subid_length c,
      bl_max_subscriptions = lc_max_subscriptions_per_connection c,
      bl_max_filters_per_request = lc_max_filters_per_request c,
      bl_max_tag_values_per_filter = lc_max_tag_values_per_filter c,
      bl_max_query_complexity = lc_max_query_complexity c,
      bl_max_event_tags = lc_max_event_tags c,
      bl_max_content_length = lc_max_content_length c,
      bl_max_limit = lc_max_limit c,
      bl_default_limit = lc_default_limit c\<rparr>"

abbreviation MAX_POCKET_QUERY_SCRAPE_WINDOW_SECONDS :: u64 where
  "MAX_POCKET_QUERY_SCRAPE_WINDOW_SECONDS \<equiv> 86400"

text \<open>The fields of the document are those of Pocket's configuration.\<close>

definition pocket_query_config_from_document ::
  "pocket_query_config \<Rightarrow> runtime_limits_config \<Rightarrow> base_relay_error + pocket_query_config" where
  "pocket_query_config_from_document d limits =
     (if (ucast (qc_allow_scrape_if_limited_to d) :: u64) > lc_max_limit limits
      then Err (base_invalid
        ''pocket.query.allow_scrape_if_limited_to must be less than or equal to limits.max_limit'')
      else if qc_allow_scrape_if_max_seconds d > MAX_POCKET_QUERY_SCRAPE_WINDOW_SECONDS
      then Err (base_invalid (''pocket.query.allow_scrape_if_max_seconds must be less than or equal to ''
        @ dec (unat MAX_POCKET_QUERY_SCRAPE_WINDOW_SECONDS)))
      else Ok d)"

section \<open>Rate limits\<close>

definition rule_from_document :: "string \<Rightarrow> rate_limit_rule \<Rightarrow> base_relay_error + rate_limit_rule" where
  "rule_from_document field d =
     and_then (require_positive_u64 (field @ ''.window_seconds'') (rr_window_seconds d)) (\<lambda>_.
     and_then (require_positive_u64 (field @ ''.max_hits'') (rr_max_hits d)) (\<lambda>_.
       rate_limit_rule_new (rr_window_seconds d) (rr_max_hits d)))"

definition query_rate_limits_from_document ::
  "string \<Rightarrow> query_rate_limit_config \<Rightarrow> base_relay_error + query_rate_limit_config" where
  "query_rate_limits_from_document field d =
     and_then (rule_from_document (field @ ''.per_ip'') (qrl_per_ip d)) (\<lambda>per_ip.
     and_then (rule_from_document (field @ ''.per_connection'') (qrl_per_connection d)) (\<lambda>per_connection.
     and_then (rule_from_document (field @ ''.per_pubkey'') (qrl_per_pubkey d)) (\<lambda>per_pubkey.
     and_then (rule_from_document (field @ ''.per_group'') (qrl_per_group d)) (\<lambda>per_group.
     and_then (rule_from_document (field @ ''.per_kind'') (qrl_per_kind d)) (\<lambda>per_kind.
     and_then (rule_from_document (field @ ''.broad'') (qrl_broad d)) (\<lambda>broad.
       Ok \<lparr>qrl_per_ip = per_ip, qrl_per_connection = per_connection, qrl_per_pubkey = per_pubkey,
         qrl_per_group = per_group, qrl_per_kind = per_kind, qrl_broad = broad\<rparr>))))))"

definition rate_limits_from_document :: "rate_limit_config \<Rightarrow> base_relay_error + rate_limit_config" where
  "rate_limits_from_document d =
     and_then (rule_from_document ''rate_limits.auth.per_ip'' (arl_per_ip (rlc_auth d))) (\<lambda>a1.
     and_then (rule_from_document ''rate_limits.auth.per_pubkey'' (arl_per_pubkey (rlc_auth d))) (\<lambda>a2.
     and_then (rule_from_document ''rate_limits.auth.failures'' (arl_failures (rlc_auth d))) (\<lambda>a3.
     and_then (rule_from_document ''rate_limits.auth.failures_per_ip'' (arl_failures_per_ip (rlc_auth d))) (\<lambda>a4.
     and_then (rule_from_document ''rate_limits.event.per_ip'' (erl_per_ip (rlc_event d))) (\<lambda>e1.
     and_then (rule_from_document ''rate_limits.event.per_pubkey'' (erl_per_pubkey (rlc_event d))) (\<lambda>e2.
     and_then (rule_from_document ''rate_limits.event.per_kind'' (erl_per_kind (rlc_event d))) (\<lambda>e3.
     and_then (rule_from_document ''rate_limits.group.write_per_ip'' (grl_write_per_ip (rlc_group d))) (\<lambda>g1.
     and_then (rule_from_document ''rate_limits.group.write_per_pubkey'' (grl_write_per_pubkey (rlc_group d))) (\<lambda>g2.
     and_then (rule_from_document ''rate_limits.group.write_per_group'' (grl_write_per_group (rlc_group d))) (\<lambda>g3.
     and_then (rule_from_document ''rate_limits.group.write_per_kind'' (grl_write_per_kind (rlc_group d))) (\<lambda>g4.
     and_then (rule_from_document ''rate_limits.group.join_flow'' (grl_join_flow (rlc_group d))) (\<lambda>g5.
     and_then (rule_from_document ''rate_limits.group.join_flow_per_ip'' (grl_join_flow_per_ip (rlc_group d))) (\<lambda>g6.
     and_then (query_rate_limits_from_document ''rate_limits.req'' (rlc_req d)) (\<lambda>req.
     and_then (query_rate_limits_from_document ''rate_limits.count'' (rlc_count d)) (\<lambda>count.
       Ok \<lparr>rlc_auth = \<lparr>arl_per_ip = a1, arl_per_pubkey = a2, arl_failures = a3, arl_failures_per_ip = a4\<rparr>,
         rlc_event = \<lparr>erl_per_ip = e1, erl_per_pubkey = e2, erl_per_kind = e3\<rparr>,
         rlc_group = \<lparr>grl_write_per_ip = g1, grl_write_per_pubkey = g2, grl_write_per_group = g3,
           grl_write_per_kind = g4, grl_join_flow = g5, grl_join_flow_per_ip = g6\<rparr>,
         rlc_req = req, rlc_count = count\<rparr>)))))))))))))))"

section \<open>Documents\<close>

record host_config_document =
  hd_listen_addr :: string
  hd_tenant_config_dir :: string
  hd_limits :: host_limits_config
  hd_ops :: host_ops_config
  hd_trusted_proxy :: trusted_proxy_config
  hd_tracing_enabled :: "bool option"
  hd_tracing_filter :: "string option"
  hd_tracing_format :: "tracing_format option"

record tenant_config_document =
  td_tenant_id :: string
  td_tenant_schema :: string
  td_host :: string
  td_relay_url :: string
  td_inactive :: bool
  td_info :: tenant_info_config
  td_data_directory :: string
  td_sync_policy :: pocket_sync_policy
  td_pocket_query :: pocket_query_config
  td_groups :: json
  td_challenge_ttl_seconds :: u64
  td_created_at_skew_seconds :: u64
  td_limits :: runtime_limits_config
  td_rate_limits :: rate_limit_config
  td_backup_export :: backup_export_config

record base_config_document =
  bd_listen_addr :: string
  bd_relay_url :: string
  bd_data_directory :: string
  bd_sync_policy :: pocket_sync_policy
  bd_pocket_query :: pocket_query_config
  bd_groups :: json
  bd_challenge_ttl_seconds :: u64
  bd_created_at_skew_seconds :: u64
  bd_limits :: runtime_limits_config
  bd_rate_limits :: rate_limit_config
  bd_tracing_enabled :: "bool option"
  bd_tracing_filter :: "string option"
  bd_tracing_format :: "tracing_format option"

text \<open>
  What \<open>serde_json\<close> makes of a text, as a value and as each document with its defaults applied, how it
  writes a value, and how a socket address is read; the public key of a relay secret.
\<close>

record config_api =
  ca_value :: "string \<Rightarrow> string + json"
  ca_host :: "string \<Rightarrow> string + host_config_document"
  ca_tenant :: "string \<Rightarrow> string + tenant_config_document"
  ca_base :: "string \<Rightarrow> string + base_config_document"
  ca_groups :: "string \<Rightarrow> string + group_config_document"
  ca_write :: "json \<Rightarrow> string + string"
  ca_socket_addr :: "string \<Rightarrow> string + socket_addr"
  ca_secret_pubkey :: "string \<Rightarrow> string + public_key_hex"

section \<open>Configurations\<close>

record host_runtime_config =
  hc_listen_addr :: socket_addr
  hc_tenant_config_dir :: string
  hc_limits :: host_limits_config
  hc_ops :: host_ops_config
  hc_trusted_proxy :: trusted_proxy_config
  hc_tracing :: tracing_config

record tenant_runtime_config =
  tc_tenant_id :: tenant_id
  tc_tenant_schema :: tenant_schema
  tc_host :: canonical_host
  tc_relay_url :: tenant_relay_url
  tc_inactive :: bool
  tc_info :: tenant_info_config
  tc_pocket :: pocket_store_config
  tc_pocket_query :: pocket_query_config
  tc_groups :: group_runtime_config
  tc_auth_ttl_seconds :: u64
  tc_auth_created_at_skew_seconds :: u64
  tc_limits :: runtime_limits_config
  tc_rate_limits :: rate_limit_config
  tc_backup_export :: backup_export_config

record base_runtime_config =
  bc_listen_addr :: socket_addr
  bc_relay_url :: string
  bc_pocket :: pocket_store_config
  bc_pocket_query :: pocket_query_config
  bc_groups :: group_runtime_config
  bc_auth_ttl_seconds :: u64
  bc_auth_created_at_skew_seconds :: u64
  bc_limits :: runtime_limits_config
  bc_rate_limits :: rate_limit_config
  bc_tracing :: tracing_config

definition tracing_default_filter :: string where
  "tracing_default_filter =
     ''info,tangle=info,tangle_runtime=info,tangle_groups=info,tangle_store_pocket=info''"

definition tracing_config_from_document ::
  "bool option \<Rightarrow> string option \<Rightarrow> tracing_format option \<Rightarrow> base_relay_error + tracing_config" where
  "tracing_config_from_document enabled filter_text format =
     tracing_config_new (case enabled of Some b \<Rightarrow> b | None \<Rightarrow> True)
       (case filter_text of Some f \<Rightarrow> f | None \<Rightarrow> tracing_default_filter)
       (case format of Some f \<Rightarrow> f | None \<Rightarrow> TracingJson)"

definition reject_legacy_single_relay_config :: "config_api \<Rightarrow> string \<Rightarrow> base_relay_error + unit" where
  "reject_legacy_single_relay_config api raw =
     and_then (map_err (\<lambda>error. base_invalid (''config JSON is invalid: '' @ error)) (ca_value api raw)) (\<lambda>v.
       if (case as_object v of Some m \<Rightarrow> bt_get m ''server'' \<noteq> None | None \<Rightarrow> False)
       then Err (base_invalid ''legacy single-relay config is not supported'') else Ok ())"

definition parse_host_runtime_config_json :: "config_api \<Rightarrow> string \<Rightarrow> base_relay_error + host_runtime_config" where
  "parse_host_runtime_config_json api raw =
     and_then (reject_legacy_single_relay_config api raw) (\<lambda>_.
     and_then (map_err (\<lambda>error. base_invalid (''tangle host runtime config JSON is invalid: '' @ error))
       (ca_host api raw)) (\<lambda>d.
     and_then (map_err (\<lambda>error. base_invalid (''listen_addr is invalid: '' @ error))
       (ca_socket_addr api (hd_listen_addr d))) (\<lambda>listen_addr.
     if padded (hd_tenant_config_dir d)
     then Err (base_invalid ''tenant_config_dir must not be empty or padded'')
     else and_then (host_limits_config_new (hl_max_total_connections (hd_limits d))
       (hl_max_total_subscriptions (hd_limits d)) (hl_tenant_startup_concurrency (hd_limits d))) (\<lambda>limits.
     and_then (trusted_proxy_config_new (tp_enabled (hd_trusted_proxy d))
       (tp_trusted_peers (hd_trusted_proxy d))) (\<lambda>trusted_proxy.
     and_then (tracing_config_from_document (hd_tracing_enabled d) (hd_tracing_filter d)
       (hd_tracing_format d)) (\<lambda>tracing.
       Ok \<lparr>hc_listen_addr = listen_addr, hc_tenant_config_dir = hd_tenant_config_dir d, hc_limits = limits,
         hc_ops = hd_ops d, hc_trusted_proxy = trusted_proxy, hc_tracing = tracing\<rparr>))))))"

text \<open>The part of both parsers that reads the groups of a relay from the value in the document.\<close>

definition parse_groups_value :: "config_api \<Rightarrow> json \<Rightarrow> base_relay_error + group_runtime_config" where
  "parse_groups_value api v =
     and_then (map_err (\<lambda>error. base_invalid (''groups config JSON is invalid: '' @ error)) (ca_write api v)) (\<lambda>raw.
       map_err base_invalid (parse_group_runtime_config_json (ca_groups api) raw))"

definition parse_tenant_runtime_config_json ::
  "config_api \<Rightarrow> string \<Rightarrow> base_relay_error + tenant_runtime_config" where
  "parse_tenant_runtime_config_json api raw =
     and_then (reject_legacy_single_relay_config api raw) (\<lambda>_.
     and_then (map_err (\<lambda>error. base_invalid (''tenant runtime config JSON is invalid: '' @ error))
       (ca_tenant api raw)) (\<lambda>d.
     and_then (tenant_id_new (td_tenant_id d)) (\<lambda>tenant_id.
     and_then (tenant_schema_new (td_tenant_schema d)) (\<lambda>tenant_schema.
     and_then (canonical_host_new (td_host d)) (\<lambda>host.
     and_then (tenant_relay_url_new (td_relay_url d)) (\<lambda>relay_url.
     and_then (map_err base_invalid (pocket_store_config_new (td_data_directory d) (td_sync_policy d))) (\<lambda>pocket.
     and_then (parse_groups_value api (td_groups d)) (\<lambda>groups.
     if (case gr_canonical_relay_url groups of Some url \<Rightarrow> url \<noteq> relay_url | None \<Rightarrow> False)
     then Err (base_invalid ''groups.canonical_relay_url must match relay_url'')
     else and_then (limits_from_document (td_limits d)) (\<lambda>limits.
     and_then (pocket_query_config_from_document (td_pocket_query d) limits) (\<lambda>pocket_query.
     if td_created_at_skew_seconds d = 0
     then Err (base_invalid ''auth.created_at_skew_seconds must be greater than zero'')
     else and_then (tenant_info_config_new (ti_name (td_info d)) (ti_description (td_info d))
       (ti_contact (td_info d)) (ti_icon (td_info d))) (\<lambda>info.
     and_then (rate_limits_from_document (td_rate_limits d)) (\<lambda>rate_limits.
       Ok \<lparr>tc_tenant_id = tenant_id, tc_tenant_schema = tenant_schema, tc_host = host,
         tc_relay_url = relay_url, tc_inactive = td_inactive d, tc_info = info, tc_pocket = pocket,
         tc_pocket_query = pocket_query, tc_groups = groups,
         tc_auth_ttl_seconds = td_challenge_ttl_seconds d,
         tc_auth_created_at_skew_seconds = td_created_at_skew_seconds d, tc_limits = limits,
         tc_rate_limits = rate_limits, tc_backup_export = td_backup_export d\<rparr>))))))))))))"

definition parse_base_runtime_config_json :: "config_api \<Rightarrow> string \<Rightarrow> base_relay_error + base_runtime_config" where
  "parse_base_runtime_config_json api raw =
     and_then (map_err (\<lambda>error. base_invalid (''base relay runtime config JSON is invalid: '' @ error))
       (ca_base api raw)) (\<lambda>d.
     and_then (map_err (\<lambda>error. base_invalid (''server.listen_addr is invalid: '' @ error))
       (ca_socket_addr api (bd_listen_addr d))) (\<lambda>listen_addr.
     and_then (map_err base_invalid (pocket_store_config_new (bd_data_directory d) (bd_sync_policy d))) (\<lambda>pocket.
     and_then (parse_groups_value api (bd_groups d)) (\<lambda>groups.
     and_then (limits_from_document (bd_limits d)) (\<lambda>limits.
     and_then (pocket_query_config_from_document (bd_pocket_query d) limits) (\<lambda>pocket_query.
     and_then (rate_limits_from_document (bd_rate_limits d)) (\<lambda>rate_limits.
     if bd_created_at_skew_seconds d = 0
     then Err (base_invalid ''auth.created_at_skew_seconds must be greater than zero'')
     else and_then (tracing_config_from_document (bd_tracing_enabled d) (bd_tracing_filter d)
       (bd_tracing_format d)) (\<lambda>tracing.
       Ok \<lparr>bc_listen_addr = listen_addr, bc_relay_url = bd_relay_url d, bc_pocket = pocket,
         bc_pocket_query = pocket_query, bc_groups = groups,
         bc_auth_ttl_seconds = bd_challenge_ttl_seconds d,
         bc_auth_created_at_skew_seconds = bd_created_at_skew_seconds d, bc_limits = limits,
         bc_rate_limits = rate_limits, bc_tracing = tracing\<rparr>))))))))"

definition to_base_runtime_config ::
  "tenant_runtime_config \<Rightarrow> socket_addr \<Rightarrow> tracing_config \<Rightarrow> base_runtime_config" where
  "to_base_runtime_config c listen_addr tracing =
     \<lparr>bc_listen_addr = listen_addr, bc_relay_url = tc_relay_url c, bc_pocket = tc_pocket c,
      bc_pocket_query = tc_pocket_query c, bc_groups = tc_groups c,
      bc_auth_ttl_seconds = tc_auth_ttl_seconds c,
      bc_auth_created_at_skew_seconds = tc_auth_created_at_skew_seconds c, bc_limits = tc_limits c,
      bc_rate_limits = tc_rate_limits c, bc_tracing = tracing\<rparr>"

definition config_auth_state :: "base_runtime_config \<Rightarrow> base_relay_error + base_auth_state" where
  "config_auth_state c =
     base_auth_state_new (bc_relay_url c) (bc_auth_ttl_seconds c) (bc_auth_created_at_skew_seconds c)"

definition relay_self_pubkey :: "config_api \<Rightarrow> tenant_runtime_config \<Rightarrow> base_relay_error + public_key_hex option" where
  "relay_self_pubkey api c =
     map_err base_invalid (transpose (map_option (ca_secret_pubkey api) (gr_relay_secret (tc_groups c))))"

section \<open>The tenants of a host\<close>

text \<open>\<open>Path::components\<close>: the root, then the parts between slashes; empty parts and dots are left out.\<close>

datatype path_component = RootDir | ParentDir | NormalPart string

definition path_components :: "string \<Rightarrow> path_component list" where
  "path_components path =
     (if path \<noteq> [] \<and> hd path = CHR ''/'' then [RootDir] else []) @
     map (\<lambda>part. if part = ''..'' then ParentDir else NormalPart part)
       (filter (\<lambda>part. part \<noteq> [] \<and> part \<noteq> ''.'') (split_char CHR ''/'' path))"

text \<open>A \<open>PathBuf\<close> that has a root or not, and its parts.\<close>

fun push_component :: "path_component \<Rightarrow> bool \<times> string list \<Rightarrow> bool \<times> string list" where
  "push_component ParentDir (rooted, parts) = (rooted, butlast parts)"
| "push_component (NormalPart part) (rooted, parts) = (rooted, parts @ [part])"
| "push_component RootDir (rooted, parts) = (True, [])"

fun join_parts :: "string list \<Rightarrow> string" where
  "join_parts [] = []"
| "join_parts [part] = part"
| "join_parts (part # parts) = part @ ''/'' @ join_parts parts"

definition canonical_path_key :: "string \<Rightarrow> string" where
  "canonical_path_key path =
     (let (rooted, parts) = fold push_component (path_components path) (False, [])
      in (if rooted then ''/'' else []) @ join_parts parts)"

definition insert_unique :: "string \<Rightarrow> string \<Rightarrow> string set \<Rightarrow> base_relay_error + string set" where
  "insert_unique field value values =
     (if value \<notin> values then Ok (insert value values)
      else Err (base_invalid (''duplicate tenant '' @ field @ '': '' @ value)))"

record tenant_names =
  tn_tenant_ids :: "string set"
  tn_tenant_schemas :: "string set"
  tn_hosts :: "string set"
  tn_relay_urls :: "string set"
  tn_relay_self_pubkeys :: "string set"
  tn_store_paths :: "string set"

definition insert_tenant :: "config_api \<Rightarrow> tenant_names \<Rightarrow> tenant_runtime_config \<Rightarrow> base_relay_error + tenant_names" where
  "insert_tenant api n t =
     and_then (insert_unique ''tenant_id'' (tc_tenant_id t) (tn_tenant_ids n)) (\<lambda>ids.
     and_then (insert_unique ''tenant_schema'' (tc_tenant_schema t) (tn_tenant_schemas n)) (\<lambda>schemas.
     and_then (insert_unique ''host'' (tc_host t) (tn_hosts n)) (\<lambda>hosts.
     and_then (insert_unique ''relay_url'' (tc_relay_url t) (tn_relay_urls n)) (\<lambda>urls.
     and_then (relay_self_pubkey api t) (\<lambda>pubkey.
     and_then (case pubkey of
         Some pubkey \<Rightarrow> insert_unique ''relay self pubkey'' pubkey (tn_relay_self_pubkeys n)
       | None \<Rightarrow> Ok (tn_relay_self_pubkeys n)) (\<lambda>pubkeys.
     and_then (insert_unique ''pocket data directory'' (canonical_path_key (sc_data_directory (tc_pocket t)))
       (tn_store_paths n)) (\<lambda>paths.
       Ok \<lparr>tn_tenant_ids = ids, tn_tenant_schemas = schemas, tn_hosts = hosts, tn_relay_urls = urls,
         tn_relay_self_pubkeys = pubkeys, tn_store_paths = paths\<rparr>)))))))"

definition validate_tenant_config_set :: "config_api \<Rightarrow> tenant_runtime_config list \<Rightarrow> base_relay_error + unit" where
  "validate_tenant_config_set api tenants =
     (if list_all tc_inactive tenants then Err (base_invalid ''at least one active tenant is required'')
      else map_ok (\<lambda>_. ()) (try_fold (insert_tenant api)
        \<lparr>tn_tenant_ids = {}, tn_tenant_schemas = {}, tn_hosts = {}, tn_relay_urls = {},
         tn_relay_self_pubkeys = {}, tn_store_paths = {}\<rparr> tenants))"

record host_config_set =
  cs_host :: host_runtime_config
  cs_tenants :: "tenant_runtime_config list"

definition host_config_set_new ::
  "config_api \<Rightarrow> host_runtime_config \<Rightarrow> tenant_runtime_config list \<Rightarrow> base_relay_error + host_config_set" where
  "host_config_set_new api host tenants =
     map_ok (\<lambda>_. \<lparr>cs_host = host, cs_tenants = tenants\<rparr>) (validate_tenant_config_set api tenants)"

definition cs_active_tenants :: "host_config_set \<Rightarrow> tenant_runtime_config list" where
  "cs_active_tenants c = filter (\<lambda>t. \<not> tc_inactive t) (cs_tenants c)"

end
