(* ===== verification/Config_Facts.thy ===== *)
theory Config_Facts
  imports Runtime_Config
begin

text \<open>
  What the validation of the configuration guarantees: a loaded tenant has the names, limits and
  rates the runtime relies on, and a set of tenants shares none of what must be its own. One field is
  not validated: with a challenge lifetime of zero a tenant loads and opens, and no connection to it
  can be set up.
\<close>

section \<open>Limits and rates\<close>

lemma require_positive_Ok [simp]:
  "require_positive_usize field n = Ok u \<longleftrightarrow> n \<noteq> 0" "require_positive_u64 field w = Ok u \<longleftrightarrow> w \<noteq> 0"
  by (auto simp: require_positive_usize_def require_positive_u64_def)

definition limits_config_ok :: "runtime_limits_config \<Rightarrow> bool" where
  "limits_config_ok c \<longleftrightarrow> lc_max_message_length c \<noteq> 0 \<and> lc_max_subid_length c \<noteq> 0
     \<and> lc_max_subscriptions_per_connection c \<noteq> 0 \<and> lc_max_filters_per_request c \<noteq> 0
     \<and> lc_max_tag_values_per_filter c \<noteq> 0 \<and> lc_max_query_complexity c \<noteq> 0 \<and> lc_max_limit c \<noteq> 0
     \<and> lc_default_limit c \<noteq> 0 \<and> lc_max_event_tags c \<noteq> 0 \<and> lc_max_content_length c \<noteq> 0
     \<and> lc_broadcast_channel_capacity c \<noteq> 0 \<and> lc_per_connection_outbound_queue c \<noteq> 0
     \<and> lc_max_subid_length c \<le> 64 \<and> lc_default_limit c \<le> lc_max_limit c"

lemma limits_from_document_Ok: "limits_from_document d = Ok c \<longleftrightarrow> c = d \<and> limits_config_ok d"
  unfolding limits_from_document_def and_then_Ok_iff require_positive_Ok limits_config_ok_def
  by auto

lemma limit_positive_Ok [simp]: "limit_positive name z = Ok u \<longleftrightarrow> \<not> z"
  by (simp add: limit_positive_def)

lemma base_limits_Ok:
  assumes "limits_config_ok c"
  shows "is_ok (limits_base_relay_limits c) \<longleftrightarrow> unat (lc_default_limit c) \<le> lc_max_query_complexity c"
  using assms
  by (simp add: limits_base_relay_limits_def base_relay_limits_new_def limits_config_ok_def limit_positive_def is_ok_def
      not_less)

definition rule_ok :: "rate_limit_rule \<Rightarrow> bool" where
  "rule_ok r \<longleftrightarrow> rr_window_seconds r \<noteq> 0 \<and> rr_max_hits r \<noteq> 0"

lemma rule_from_document_Ok: "rule_from_document field d = Ok r \<longleftrightarrow> r = d \<and> rule_ok d"
  by (cases d) (auto simp: rule_from_document_def rate_limit_rule_new_def rule_ok_def and_then_Ok_iff)

definition query_rates_ok :: "query_rate_limit_config \<Rightarrow> bool" where
  "query_rates_ok q \<longleftrightarrow> list_all rule_ok [qrl_per_ip q, qrl_per_connection q, qrl_per_pubkey q,
     qrl_per_group q, qrl_per_kind q, qrl_broad q]"

lemma query_rates_Ok: "query_rate_limits_from_document field d = Ok q \<longleftrightarrow> q = d \<and> query_rates_ok d"
  by (cases d) (auto simp: query_rate_limits_from_document_def query_rates_ok_def and_then_Ok_iff
      rule_from_document_Ok)

definition rates_ok :: "rate_limit_config \<Rightarrow> bool" where
  "rates_ok c \<longleftrightarrow> list_all rule_ok [arl_per_ip (rlc_auth c), arl_per_pubkey (rlc_auth c),
       arl_failures (rlc_auth c), arl_failures_per_ip (rlc_auth c), erl_per_ip (rlc_event c),
       erl_per_pubkey (rlc_event c), erl_per_kind (rlc_event c), grl_write_per_ip (rlc_group c),
       grl_write_per_pubkey (rlc_group c), grl_write_per_group (rlc_group c), grl_write_per_kind (rlc_group c),
       grl_join_flow (rlc_group c), grl_join_flow_per_ip (rlc_group c)]
     \<and> query_rates_ok (rlc_req c) \<and> query_rates_ok (rlc_count c)"

lemma rates_Ok: "rate_limits_from_document d = Ok c \<longleftrightarrow> c = d \<and> rates_ok d"
  unfolding rate_limits_from_document_def and_then_Ok_iff rule_from_document_Ok query_rates_Ok rates_ok_def
  by auto

section \<open>A loaded tenant\<close>

text \<open>An identifier: lowercase letters, digits and the separators allowed for it, with a letter first.\<close>

definition valid_identifier :: "char set \<Rightarrow> string \<Rightarrow> bool" where
  "valid_identifier separators v \<longleftrightarrow> v \<noteq> [] \<and> length v \<le> 64 \<and> is_ascii_lowercase (hd v)
     \<and> (\<forall>c\<in>set v. is_ascii_lowercase c \<or> is_ascii_digit c \<or> c \<in> separators)"

lemma tenant_names_Ok:
  "tenant_id_new v = Ok i \<Longrightarrow> i = v \<and> valid_identifier {CHR ''_'', CHR ''-''} v"
  "tenant_schema_new v = Ok i \<Longrightarrow> i = v \<and> valid_identifier {CHR ''_''} v"
  by (auto simp: tenant_id_new_def tenant_schema_new_def validate_identifier_def valid_identifier_def list_all_iff
      result_iffs split: if_splits)

lemma tenant_id_new_Ok: "tenant_id_new v = Ok i \<Longrightarrow> i = v \<and> list_all (in_alphabet AlphabetTenantId) i \<and> length i \<le> 64"
  by (auto simp: tenant_id_new_def validate_identifier_def result_iffs split: if_splits)

definition tenant_ok :: "tenant_runtime_config \<Rightarrow> bool" where
  "tenant_ok c \<longleftrightarrow> valid_identifier {CHR ''_'', CHR ''-''} (tc_tenant_id c)
     \<and> valid_identifier {CHR ''_''} (tc_tenant_schema c)
     \<and> valid_host (tc_host c) \<and> tenant_relay_url_new (tc_relay_url c) = Ok (tc_relay_url c)
     \<and> valid_group_config (tc_groups c) \<and> pred_option ((=) (tc_relay_url c)) (gr_canonical_relay_url (tc_groups c))
     \<and> limits_config_ok (tc_limits c) \<and> rates_ok (tc_rate_limits c)
     \<and> ucast (qc_allow_scrape_if_limited_to (tc_pocket_query c)) \<le> lc_max_limit (tc_limits c)
     \<and> qc_allow_scrape_if_max_seconds (tc_pocket_query c) \<le> 86400
     \<and> tc_auth_created_at_skew_seconds c \<noteq> 0 \<and> sc_data_directory (tc_pocket c) \<noteq> []"

lemma parse_groups_value_Ok: "parse_groups_value api v = Ok g \<Longrightarrow> valid_group_config g"
  by (auto simp: parse_groups_value_def and_then_Ok_iff dest: parse_group_config_sound)

lemma pocket_query_Ok:
  "pocket_query_config_from_document d l = Ok q \<longleftrightarrow> q = d
     \<and> (ucast (qc_allow_scrape_if_limited_to d) :: u64) \<le> lc_max_limit l \<and> qc_allow_scrape_if_max_seconds d \<le> 86400"
  by (auto simp: pocket_query_config_from_document_def not_less)

lemma relay_url_fixed: "tenant_relay_url_new raw = Ok url \<Longrightarrow> tenant_relay_url_new url = Ok url"
  using accepted_parts [of raw url] parts_accepted
  by (metis relay_url_parts_def to_ascii_lowercase_idem)

lemma relay_url_not_blank: "tenant_relay_url_new url = Ok url' \<Longrightarrow> \<not> blank url"
  by (auto simp: tenant_relay_url_new_def split: if_splits)

lemma loaded_tenant_ok:
  assumes "parse_tenant_runtime_config_json api raw = Ok c"
  shows "tenant_ok c"
proof -
  have dir: "pocket_store_config_new d p = Ok c \<Longrightarrow> sc_data_directory c \<noteq> []" for d p c
    by (auto simp: pocket_store_config_new_def pocket_store_config_validate_def and_then_Ok_iff Let_def
        split: if_splits)
  have same: "\<not> (case x of Some url \<Rightarrow> url \<noteq> u | None \<Rightarrow> False) \<longleftrightarrow> pred_option ((=) u) x" for x and u :: string
    by (auto split: option.splits)
  show ?thesis
    using assms unfolding parse_tenant_runtime_config_json_def tenant_ok_def
    by (auto simp: and_then_Ok_iff same canonical_host_Ok_iff limits_from_document_Ok pocket_query_Ok rates_Ok
        dest: relay_url_fixed parse_groups_value_Ok tenant_names_Ok dir split: if_splits)
qed

text \<open>
  Claim C24. A tenant configuration that loads has a valid tenant id and schema name, a valid host, a canonical relay URL which is also that of its
  groups, a valid groups configuration, positive limits and rates, and bounds for scraping. It opens
  its limits when the default limit is within the query complexity, and connections to it can be set
  up exactly when the challenge lifetime is not zero, which loading does not check.
\<close>

theorem loaded_tenant_config_sound:
  assumes "parse_tenant_runtime_config_json api raw = Ok c"
  shows "tenant_ok c
    \<and> (is_ok (limits_base_relay_limits (tc_limits c))
        \<longleftrightarrow> unat (lc_default_limit (tc_limits c)) \<le> lc_max_query_complexity (tc_limits c))
    \<and> (is_ok (config_auth_state (to_base_runtime_config c addr tracing)) \<longleftrightarrow> tc_auth_ttl_seconds c \<noteq> 0)"
proof -
  have ok: "tenant_ok c" by (rule loaded_tenant_ok [OF assms])
  then have "limits_config_ok (tc_limits c)" "tc_auth_created_at_skew_seconds c \<noteq> 0" "\<not> blank (tc_relay_url c)"
    using relay_url_not_blank by (auto simp: tenant_ok_def)
  with ok base_limits_Ok show ?thesis
    by (simp add: config_auth_state_def to_base_runtime_config_def base_auth_state_new_def is_ok_def)
qed

section \<open>The set of tenants\<close>

lemma insert_unique_Ok: "insert_unique field v vs = Ok vs' \<longleftrightarrow> v \<notin> vs \<and> vs' = insert v vs"
  by (auto simp: insert_unique_def)

definition tenant_path :: "tenant_runtime_config \<Rightarrow> string" where
  "tenant_path t = canonical_path_key (sc_data_directory (tc_pocket t))"

text \<open>The public keys of the tenants that have a secret.\<close>

fun self_pubkeys :: "config_api \<Rightarrow> tenant_runtime_config list \<Rightarrow> public_key_hex list option" where
  "self_pubkeys api [] = Some []"
| "self_pubkeys api (t # ts) = (case relay_self_pubkey api t of
     Inl _ \<Rightarrow> None
   | Inr pubkey \<Rightarrow> map_option (\<lambda>pks. (case pubkey of Some pk \<Rightarrow> [pk] | None \<Rightarrow> []) @ pks) (self_pubkeys api ts))"

definition fresh :: "'a set \<Rightarrow> 'a list \<Rightarrow> bool" where
  "fresh used xs \<longleftrightarrow> distinct xs \<and> used \<inter> set xs = {}"

lemma fresh_simps:
  "fresh used []" "fresh used (x # xs) \<longleftrightarrow> x \<notin> used \<and> fresh (insert x used) xs"
  "fresh {} xs \<longleftrightarrow> distinct xs"
  by (auto simp: fresh_def)

definition names_fresh :: "tenant_names \<Rightarrow> tenant_runtime_config list \<Rightarrow> public_key_hex list \<Rightarrow> bool" where
  "names_fresh n ts pks \<longleftrightarrow>
     fresh (tn_tenant_ids n) (map tc_tenant_id ts) \<and> fresh (tn_tenant_schemas n) (map tc_tenant_schema ts)
     \<and> fresh (tn_hosts n) (map tc_host ts) \<and> fresh (tn_relay_urls n) (map tc_relay_url ts)
     \<and> fresh (tn_relay_self_pubkeys n) pks \<and> fresh (tn_store_paths n) (map tenant_path ts)"

lemma insert_tenant_Ok:
  "insert_tenant api n t = Ok n' \<longleftrightarrow> (\<exists>pubkey. relay_self_pubkey api t = Ok pubkey
     \<and> tc_tenant_id t \<notin> tn_tenant_ids n \<and> tc_tenant_schema t \<notin> tn_tenant_schemas n \<and> tc_host t \<notin> tn_hosts n
     \<and> tc_relay_url t \<notin> tn_relay_urls n \<and> set_option pubkey \<inter> tn_relay_self_pubkeys n = {}
     \<and> tenant_path t \<notin> tn_store_paths n
     \<and> n' = \<lparr>tn_tenant_ids = insert (tc_tenant_id t) (tn_tenant_ids n),
         tn_tenant_schemas = insert (tc_tenant_schema t) (tn_tenant_schemas n),
         tn_hosts = insert (tc_host t) (tn_hosts n), tn_relay_urls = insert (tc_relay_url t) (tn_relay_urls n),
         tn_relay_self_pubkeys = set_option pubkey \<union> tn_relay_self_pubkeys n,
         tn_store_paths = insert (tenant_path t) (tn_store_paths n)\<rparr>)"
  unfolding insert_tenant_def and_then_Ok_iff insert_unique_Ok tenant_path_def
  by (auto simp: insert_unique_Ok split: option.splits)

lemma insert_tenants_Ok:
  "is_ok (try_fold (insert_tenant api) n ts) \<longleftrightarrow> (\<exists>pks. self_pubkeys api ts = Some pks \<and> names_fresh n ts pks)"
proof (induction ts arbitrary: n)
  case Nil
  show ?case by (simp add: is_ok_def names_fresh_def fresh_simps)
next
  case (Cons t ts)
  show ?case
  proof (cases "relay_self_pubkey api t")
    case (Inl e)
    then have "\<not> is_ok (insert_tenant api n t)"
      using insert_tenant_Ok [of api n t] by (cases "insert_tenant api n t") (auto simp: is_ok_def)
    then have "\<not> is_ok (try_fold (insert_tenant api) n (t # ts))"
      by (cases "insert_tenant api n t") (auto simp: is_ok_def)
    then show ?thesis using Inl by simp
  next
    case (Inr pubkey)
    let ?fresh = "tc_tenant_id t \<notin> tn_tenant_ids n \<and> tc_tenant_schema t \<notin> tn_tenant_schemas n \<and> tc_host t \<notin> tn_hosts n
     \<and> tc_relay_url t \<notin> tn_relay_urls n \<and> set_option pubkey \<inter> tn_relay_self_pubkeys n = {}
     \<and> tenant_path t \<notin> tn_store_paths n"
    let ?n = "\<lparr>tn_tenant_ids = insert (tc_tenant_id t) (tn_tenant_ids n),
         tn_tenant_schemas = insert (tc_tenant_schema t) (tn_tenant_schemas n),
         tn_hosts = insert (tc_host t) (tn_hosts n), tn_relay_urls = insert (tc_relay_url t) (tn_relay_urls n),
         tn_relay_self_pubkeys = set_option pubkey \<union> tn_relay_self_pubkeys n,
         tn_store_paths = insert (tenant_path t) (tn_store_paths n)\<rparr>"
    have step: "is_ok (try_fold (insert_tenant api) n (t # ts)) \<longleftrightarrow>
        ?fresh \<and> is_ok (try_fold (insert_tenant api) ?n ts)"
    proof (cases ?fresh)
      case True
      have "insert_tenant api n t = Ok ?n"
        unfolding insert_tenant_Ok by (rule exI [of _ pubkey]) (use Inr True in simp)
      with True show ?thesis by simp
    next
      case False
      have "\<not> is_ok (insert_tenant api n t)"
      proof
        assume "is_ok (insert_tenant api n t)"
        then obtain n' where "insert_tenant api n t = Ok n'" by (auto simp: is_ok_def split: sum.splits)
        with False Inr show False unfolding insert_tenant_Ok by (metis sum.inject(2))
      qed
      then have "\<not> is_ok (try_fold (insert_tenant api) n (t # ts))"
        by (cases "insert_tenant api n t") (simp_all add: is_ok_def)
      with False show ?thesis by blast
    qed
    have "?fresh \<and> names_fresh ?n ts pks \<longleftrightarrow>
        names_fresh n (t # ts) ((case pubkey of Some pk \<Rightarrow> [pk] | None \<Rightarrow> []) @ pks)" for pks
    proof (cases pubkey)
      case None
      show ?thesis unfolding None names_fresh_def by (simp only: fresh_simps(2) list.map tenant_names.simps option.case append_Nil option.set Un_empty_left Int_empty_left simp_thms) argo
    next
      case (Some pk)
      show ?thesis unfolding Some names_fresh_def by (simp only: fresh_simps(2) list.map tenant_names.simps option.case append_Nil append_Cons option.set Un_insert_left Un_empty_left insert_disjoint Int_empty_left simp_thms) argo
    qed
    then have "is_ok (try_fold (insert_tenant api) n (t # ts)) \<longleftrightarrow> (\<exists>pks. self_pubkeys api ts = Some pks
        \<and> names_fresh n (t # ts) ((case pubkey of Some pk \<Rightarrow> [pk] | None \<Rightarrow> []) @ pks))"
      unfolding step Cons.IH by metis
    then show ?thesis using Inr by auto
  qed
qed

text \<open>
  Claim C21. The tenants of a host are accepted exactly when one of them is active, the secret keys are usable,
  and no two tenants, active or not, share an identifier, a schema, a host, a relay URL, a relay key
  or a data directory.
\<close>

theorem tenant_config_set_exact:
  "is_ok (validate_tenant_config_set api ts) \<longleftrightarrow> list_ex (\<lambda>t. \<not> tc_inactive t) ts
     \<and> (\<exists>pks. self_pubkeys api ts = Some pks \<and> distinct pks)
     \<and> distinct (map tc_tenant_id ts) \<and> distinct (map tc_tenant_schema ts) \<and> distinct (map tc_host ts)
     \<and> distinct (map tc_relay_url ts) \<and> distinct (map tenant_path ts)"
proof -
  have "is_ok (map_ok g r) \<longleftrightarrow> is_ok r" for g :: "tenant_names \<Rightarrow> unit" and r :: "base_relay_error + tenant_names"
    by (cases r) (simp_all add: is_ok_def)
  moreover have "list_all tc_inactive ts \<longleftrightarrow> \<not> list_ex (\<lambda>t. \<not> tc_inactive t) ts"
    by (auto simp: list_all_iff list_ex_iff)
  ultimately show ?thesis
    by (auto simp: validate_tenant_config_set_def insert_tenants_Ok names_fresh_def fresh_simps is_ok_def [of "Err _"])
qed

section \<open>A configuration\<close>

definition sample_rule :: rate_limit_rule where
  "sample_rule = \<lparr>rr_window_seconds = 60, rr_max_hits = 10\<rparr>"

definition sample_query_rates :: query_rate_limit_config where
  "sample_query_rates = \<lparr>qrl_per_ip = sample_rule, qrl_per_connection = sample_rule, qrl_per_pubkey = sample_rule,
     qrl_per_group = sample_rule, qrl_per_kind = sample_rule, qrl_broad = sample_rule\<rparr>"

definition sample_rates :: rate_limit_config where
  "sample_rates = \<lparr>
     rlc_auth = \<lparr>arl_per_ip = sample_rule, arl_per_pubkey = sample_rule, arl_failures = sample_rule,
       arl_failures_per_ip = sample_rule\<rparr>,
     rlc_event = \<lparr>erl_per_ip = sample_rule, erl_per_pubkey = sample_rule, erl_per_kind = sample_rule\<rparr>,
     rlc_group = \<lparr>grl_write_per_ip = sample_rule, grl_write_per_pubkey = sample_rule,
       grl_write_per_group = sample_rule, grl_write_per_kind = sample_rule, grl_join_flow = sample_rule,
       grl_join_flow_per_ip = sample_rule\<rparr>,
     rlc_req = sample_query_rates, rlc_count = sample_query_rates\<rparr>"

definition sample_limits_config :: runtime_limits_config where
  "sample_limits_config = \<lparr>lc_max_message_length = 65536, lc_max_subid_length = 64,
     lc_max_subscriptions_per_connection = 16, lc_max_filters_per_request = 8, lc_max_tag_values_per_filter = 64,
     lc_max_query_complexity = 1000, lc_max_limit = 500, lc_default_limit = 100, lc_max_event_tags = 100,
     lc_max_content_length = 10000, lc_broadcast_channel_capacity = 1024, lc_per_connection_outbound_queue = 256\<rparr>"

text \<open>A tenant whose document sets the lifetime of challenges to zero.\<close>

definition sample_tenant_document :: tenant_config_document where
  "sample_tenant_document = \<lparr>td_tenant_id = ''alpha'', td_tenant_schema = ''alpha'', td_host = ''Relay.Example'',
     td_relay_url = ''wss://Relay.Example/'', td_inactive = False,
     td_info = \<lparr>ti_name = ''Alpha'', ti_description = None, ti_contact = None, ti_icon = None\<rparr>,
     td_data_directory = ''/var/alpha'', td_sync_policy = FlushOnWrite,
     td_pocket_query = pocket_query_config_default, td_groups = JNull,
     td_challenge_ttl_seconds = 0, td_created_at_skew_seconds = 60, td_limits = sample_limits_config,
     td_rate_limits = sample_rates, td_backup_export = backup_export_config_default\<rparr>"

definition sample_config_api :: config_api where
  "sample_config_api = \<lparr>ca_value = (\<lambda>_. Ok JNull), ca_host = (\<lambda>_. Err ''unsupported''),
     ca_tenant = (\<lambda>_. Ok sample_tenant_document), ca_base = (\<lambda>_. Err ''unsupported''),
     ca_groups = (\<lambda>_. Ok \<lparr>gd_enabled = False, gd_canonical_relay_url = None, gd_relay_secret = None,
       gd_owner_pubkeys = [], gd_admin_pubkeys = [], gd_policy = group_policy_strict, gd_limits = group_limits_default\<rparr>),
     ca_write = (\<lambda>_. Ok ''null''), ca_socket_addr = (\<lambda>_. Err ''unsupported''),
     ca_secret_pubkey = (\<lambda>_. Err ''unsupported'')\<rparr>"

lemma sample_host: "to_ascii_lowercase ''Relay.Example'' = ''relay.example''" "valid_host ''relay.example''"
proof -
  show "to_ascii_lowercase ''Relay.Example'' = ''relay.example''"
    by (simp add: to_ascii_lowercase_def ascii_lower_char_def is_ascii_uppercase_def byte_def
        char_of_def bit_simps)
  have "list_all valid_host_label (split_char CHR ''.'' ''relay.example'')"
    by (simp add: valid_host_label_def host_label_char_def is_ascii_lowercase_def byte_def)
  then show "valid_host ''relay.example''" unfolding valid_host_def by blast
qed

lemma sample_names:
  "canonical_host_new ''Relay.Example'' = Ok ''relay.example''"
  "tenant_relay_url_new ''wss://Relay.Example/'' = Ok ''wss://relay.example/''"
  "validate_identifier field ''alpha'' 64 alphabet = Ok ()"
  "tenant_info_config_new ''Alpha'' None None None =
     Ok \<lparr>ti_name = ''Alpha'', ti_description = None, ti_contact = None, ti_icon = None\<rparr>"
proof -
  show "canonical_host_new ''Relay.Example'' = Ok ''relay.example''"
    by (simp add: canonical_host_Ok_iff sample_host)
  have "relay_url_parts ''wss'' ''Relay.Example'' ''/''"
    by (simp add: relay_url_parts_def sample_host is_whitespace_def byte_def)
  from parts_accepted [OF this] show "tenant_relay_url_new ''wss://Relay.Example/'' = Ok ''wss://relay.example/''"
    by (simp add: sample_host)
  have "\<not> trim_changes ''alpha''" by (rule no_whitespace_trim) (simp_all add: byte_def is_whitespace_def)
  then show "validate_identifier field ''alpha'' 64 alphabet = Ok ()"
    by (cases alphabet) (simp_all add: validate_identifier_def is_ascii_lowercase_def byte_def)
  have "\<not> padded ''Alpha''"
    unfolding padded_def using no_whitespace_trim [of "''Alpha''"] by (simp add: byte_def is_whitespace_def)
  then show "tenant_info_config_new ''Alpha'' None None None =
     Ok \<lparr>ti_name = ''Alpha'', ti_description = None, ti_contact = None, ti_icon = None\<rparr>"
    by (simp add: tenant_info_config_new_def validate_optional_text_def)
qed

lemma sample_rates_ok: "rates_ok sample_rates" "limits_config_ok sample_limits_config"
  by (simp_all add: rates_ok_def sample_rates_def query_rates_ok_def sample_query_rates_def rule_ok_def
      sample_rule_def limits_config_ok_def sample_limits_config_def)

lemma sample_tenant_loads:
  "\<exists>c. parse_tenant_runtime_config_json sample_config_api raw = Ok c \<and> tc_auth_ttl_seconds c = 0
     \<and> tc_limits c = sample_limits_config \<and> \<not> tc_inactive c \<and> gr_relay_secret (tc_groups c) = None
     \<and> tc_host c = ''relay.example''"
proof -
  have legacy: "reject_legacy_single_relay_config sample_config_api raw = Ok ()"
    by (simp add: reject_legacy_single_relay_config_def sample_config_api_def as_object_def)
  obtain g where groups: "parse_groups_value sample_config_api JNull = Ok g" "gr_canonical_relay_url g = None"
    "gr_relay_secret g = None"
    by (simp add: parse_groups_value_def sample_config_api_def parse_group_runtime_config_json_def transpose_def
        parse_pubkeys_def group_settings_new_def group_settings_validate_def group_policy_validate_def
        group_policy_strict_def group_limits_validate_def group_limits_default_def require_positive_def
        group_runtime_config_new_def)
  have limits: "limits_from_document sample_limits_config = Ok sample_limits_config"
    and rates: "rate_limits_from_document sample_rates = Ok sample_rates"
    using sample_rates_ok by (simp_all add: limits_from_document_Ok rates_Ok)
  have query: "pocket_query_config_from_document pocket_query_config_default sample_limits_config =
      Ok pocket_query_config_default"
    by (simp add: pocket_query_config_from_document_def pocket_query_config_default_def sample_limits_config_def)
  have "ca_tenant sample_config_api raw = Ok sample_tenant_document" by (simp add: sample_config_api_def)
  then show ?thesis
    unfolding parse_tenant_runtime_config_json_def legacy
    by (simp add: sample_tenant_document_def sample_names tenant_id_new_def tenant_schema_new_def groups limits rates
        query pocket_store_config_new_def pocket_store_config_validate_def)
qed

theorem loaded_tenant_config_sound_witness:
  "\<exists>c. parse_tenant_runtime_config_json sample_config_api '''' = Ok c \<and> tenant_ok c
     \<and> is_ok (limits_base_relay_limits (tc_limits c))
     \<and> \<not> is_ok (config_auth_state (to_base_runtime_config c \<lparr>sa_ip = '''', sa_display = ''''\<rparr>
          \<lparr>tr_enabled = True, tr_filter = ''info'', tr_format = TracingJson\<rparr>))"
proof -
  obtain c where c: "parse_tenant_runtime_config_json sample_config_api '''' = Ok c" "tc_auth_ttl_seconds c = 0"
    "tc_limits c = sample_limits_config"
    using sample_tenant_loads by blast
  have "unat (lc_default_limit (tc_limits c)) \<le> lc_max_query_complexity (tc_limits c)"
    by (simp add: c sample_limits_config_def)
  with loaded_tenant_config_sound [OF c(1)] c show ?thesis by blast
qed

end
