(* ===== verification/Tenant_Registry.thy ===== *)
theory Tenant_Registry
  imports Config_Facts Relay_Resources
begin

text \<open>
  The runtime of a host (\<open>crates/tangle_runtime/src/host.rs\<close>): the registry of its active tenants and
  the choice of the tenant that a request is for. The runtime of a tenant is a value of the type
  \<open>'rt\<close>; opening it and its readiness are parameters here and modelled in the theories of the relay
  runtime. Headers are a parameter: the text of a header's first value, when it is visible ASCII.
\<close>

section \<open>The registry\<close>

record 'rt tenant_entry =
  te_config :: tenant_runtime_config
  te_runtime :: 'rt

definition te_host :: "('rt, 'z) tenant_entry_scheme \<Rightarrow> canonical_host" where
  "te_host e = tc_host (te_config e)"

definition te_tenant_id :: "('rt, 'z) tenant_entry_scheme \<Rightarrow> tenant_id" where
  "te_tenant_id e = tc_tenant_id (te_config e)"

record 'rt tenant_registry =
  tg_tenants_by_host :: "(canonical_host, 'rt tenant_entry) btree"
  tg_host_by_tenant_id :: "(tenant_id, canonical_host) btree"

definition registry_insert :: "'rt tenant_registry \<Rightarrow> 'rt tenant_entry \<Rightarrow> base_relay_error + 'rt tenant_registry" where
  "registry_insert r e =
     (if bt_get (tg_tenants_by_host r) (te_host e) \<noteq> None
      then Err (base_invalid (''duplicate active tenant host: '' @ te_host e))
      else if bt_get (tg_host_by_tenant_id r) (te_tenant_id e) \<noteq> None
      then Err (base_invalid (''duplicate active tenant id: '' @ te_tenant_id e))
      else Ok \<lparr>tg_tenants_by_host = bt_insert (te_host e) e (tg_tenants_by_host r),
        tg_host_by_tenant_id = bt_insert (te_tenant_id e) (te_host e) (tg_host_by_tenant_id r)\<rparr>)"

definition tenant_registry_new :: "'rt tenant_entry list \<Rightarrow> base_relay_error + 'rt tenant_registry" where
  "tenant_registry_new entries =
     try_fold registry_insert \<lparr>tg_tenants_by_host = [], tg_host_by_tenant_id = []\<rparr> entries"

definition active_tenant_count :: "'rt tenant_registry \<Rightarrow> nat" where
  "active_tenant_count r = length (tg_tenants_by_host r)"

definition active_tenants :: "'rt tenant_registry \<Rightarrow> 'rt tenant_entry list" where
  "active_tenants r = map snd (tg_tenants_by_host r)"

definition tenant_by_host :: "'rt tenant_registry \<Rightarrow> canonical_host \<Rightarrow> 'rt tenant_entry option" where
  "tenant_by_host r host = bt_get (tg_tenants_by_host r) host"

definition tenant_by_id :: "'rt tenant_registry \<Rightarrow> tenant_id \<Rightarrow> 'rt tenant_entry option" where
  "tenant_by_id r i = Option.bind (bt_get (tg_host_by_tenant_id r) i) (bt_get (tg_tenants_by_host r))"

text \<open>The tenants are opened in the order of the set, in chunks which do not change the order.\<close>

definition open_tenant_runtime ::
  "(base_runtime_config \<Rightarrow> base_relay_error + 'rt) \<Rightarrow> host_config_set \<Rightarrow> tenant_runtime_config \<Rightarrow>
   base_relay_error + 'rt tenant_entry" where
  "open_tenant_runtime open_runtime config tenant =
     map_ok (\<lambda>runtime. \<lparr>te_config = tenant, te_runtime = runtime\<rparr>)
       (map_err (\<lambda>error. base_error (''failed to open active tenant `'' @ tc_tenant_id tenant @ ''`: ''
           @ base_prefixed_message error))
         (open_runtime (to_base_runtime_config tenant (hc_listen_addr (cs_host config)) (hc_tracing (cs_host config)))))"

definition tenant_registry_open ::
  "(base_runtime_config \<Rightarrow> base_relay_error + 'rt) \<Rightarrow> host_config_set \<Rightarrow> base_relay_error + 'rt tenant_registry" where
  "tenant_registry_open open_runtime config =
     and_then (traverse (open_tenant_runtime open_runtime config) (cs_active_tenants config)) tenant_registry_new"

section \<open>The host of a request\<close>

datatype host_resolution_error = HostMissing | HostInvalid | HostUnknown

type_synonym headers = "string \<Rightarrow> string option"

definition trusted_proxy_peer_enabled :: "trusted_proxy_config \<Rightarrow> socket_addr \<Rightarrow> bool" where
  "trusted_proxy_peer_enabled c peer \<longleftrightarrow>
     tp_enabled c \<and> list_ex (\<lambda>p. p = sa_ip peer \<or> p = sa_display peer) (tp_trusted_peers c)"

text \<open>\<open>trim_matches\<close> with a character, and \<open>eq_ignore_ascii_case\<close>.\<close>

definition trim_matches :: "char \<Rightarrow> string \<Rightarrow> string" where
  "trim_matches c s = rev (dropWhile ((=) c) (rev (dropWhile ((=) c) s)))"

definition forwarded_host_value :: "string \<Rightarrow> string option" where
  "forwarded_host_value value = find_map (\<lambda>part.
     case split_once CHR ''='' (trim_str part) of
       None \<Rightarrow> None
     | Some (name, v) \<Rightarrow>
         if to_ascii_lowercase name = ''host'' then Some (trim_matches CHR 0x22 v) else None)
     (split_char CHR '';'' value)"

definition forwarded_host_header :: "headers \<Rightarrow> string option" where
  "forwarded_host_header headers =
     (case headers ''x-forwarded-host'' of
        Some host \<Rightarrow> Some host
      | None \<Rightarrow> Option.bind (headers ''forwarded'') forwarded_host_value)"

definition resolve_request_host ::
  "headers \<Rightarrow> socket_addr \<Rightarrow> trusted_proxy_config \<Rightarrow> host_resolution_error + canonical_host" where
  "resolve_request_host headers peer_addr trusted_proxy =
     (let forwarded = (if trusted_proxy_peer_enabled trusted_proxy peer_addr
                       then forwarded_host_header headers else None) in
      and_then (ok_or (case forwarded of Some host \<Rightarrow> Some host | None \<Rightarrow> headers ''host'') HostMissing) (\<lambda>host.
      let host = trim_str (takeWhile (\<lambda>c. c \<noteq> CHR '','') host) in
      if host = [] then Err HostMissing
      else map_err (\<lambda>_. HostInvalid) (canonical_host_new host)))"

section \<open>The host runtime\<close>

record 'rt host_runtime =
  hr_config :: host_config_set
  hr_registry :: "'rt tenant_registry"
  hr_resources :: resource_limiter
  hr_shutdown_requested :: bool

definition host_runtime_open ::
  "(base_runtime_config \<Rightarrow> base_relay_error + 'rt) \<Rightarrow> host_config_set \<Rightarrow> base_relay_error + 'rt host_runtime" where
  "host_runtime_open open_runtime config =
     (let limits = hc_limits (cs_host config) in
      map_ok (\<lambda>registry. \<lparr>hr_config = config, hr_registry = registry,
          hr_resources = resource_limiter_new (of_nat (hl_max_total_connections limits))
            (of_nat (hl_max_total_subscriptions limits)),
          hr_shutdown_requested = False\<rparr>)
        (tenant_registry_open open_runtime config))"

definition tenant_for_request ::
  "'rt host_runtime \<Rightarrow> headers \<Rightarrow> socket_addr \<Rightarrow> host_resolution_error + 'rt tenant_entry" where
  "tenant_for_request h headers peer_addr =
     and_then (resolve_request_host headers peer_addr (hc_trusted_proxy (cs_host (hr_config h)))) (\<lambda>host.
       ok_or (tenant_by_host (hr_registry h) host) HostUnknown)"

record tenant_inventory_item =
  tii_tenant_id :: tenant_id
  tii_tenant_schema :: tenant_schema
  tii_host :: canonical_host
  tii_relay_url :: tenant_relay_url
  tii_active :: bool
  tii_ready :: "bool option"

definition tenant_inventory :: "('rt \<Rightarrow> bool) \<Rightarrow> 'rt host_runtime \<Rightarrow> tenant_inventory_item list" where
  "tenant_inventory runtime_ready h = map (\<lambda>tenant.
     let runtime = tenant_by_id (hr_registry h) (tc_tenant_id tenant) in
     \<lparr>tii_tenant_id = tc_tenant_id tenant, tii_tenant_schema = tc_tenant_schema tenant, tii_host = tc_host tenant,
      tii_relay_url = tc_relay_url tenant, tii_active = runtime \<noteq> None,
      tii_ready = map_option (\<lambda>e. runtime_ready (te_runtime e)) runtime\<rparr>) (cs_tenants (hr_config h))"

record host_readiness_state =
  hrs_config_ready :: bool
  hrs_tenant_registry_ready :: bool
  hrs_active_tenants_ready :: bool
  hrs_shutdown_requested :: bool

definition host_is_ready :: "host_readiness_state \<Rightarrow> bool" where
  "host_is_ready s \<longleftrightarrow> \<not> hrs_shutdown_requested s \<and> hrs_config_ready s \<and> hrs_tenant_registry_ready s
     \<and> hrs_active_tenants_ready s"

definition host_readiness :: "('rt \<Rightarrow> bool) \<Rightarrow> 'rt host_runtime \<Rightarrow> host_readiness_state" where
  "host_readiness runtime_ready h = \<lparr>hrs_config_ready = True,
     hrs_tenant_registry_ready = (active_tenant_count (hr_registry h) \<noteq> 0),
     hrs_active_tenants_ready = list_all (\<lambda>e. runtime_ready (te_runtime e)) (active_tenants (hr_registry h)),
     hrs_shutdown_requested = hr_shutdown_requested h\<rparr>"

record host_metrics_snapshot =
  hm_configured_tenants :: nat
  hm_active_tenants :: nat
  hm_inactive_tenants :: nat
  hm_active_connections :: u64
  hm_active_subscriptions :: u64
  hm_max_total_connections :: nat
  hm_max_total_subscriptions :: nat

definition host_metrics :: "'rt host_runtime \<Rightarrow> host_metrics_snapshot" where
  "host_metrics h = \<lparr>hm_configured_tenants = length (cs_tenants (hr_config h)),
     hm_active_tenants = active_tenant_count (hr_registry h),
     hm_inactive_tenants = length (filter tc_inactive (cs_tenants (hr_config h))),
     hm_active_connections = rl_active_connections (hr_resources h),
     hm_active_subscriptions = rl_active_subscriptions (hr_resources h),
     hm_max_total_connections = hl_max_total_connections (hc_limits (cs_host (hr_config h))),
     hm_max_total_subscriptions = hl_max_total_subscriptions (hc_limits (cs_host (hr_config h)))\<rparr>"

section \<open>What the registry holds\<close>

lemma registry_insert_Ok:
  "registry_insert r e = Ok r' \<longleftrightarrow> te_host e \<notin> dom (bt_get (tg_tenants_by_host r))
     \<and> te_tenant_id e \<notin> dom (bt_get (tg_host_by_tenant_id r))
     \<and> r' = \<lparr>tg_tenants_by_host = bt_insert (te_host e) e (tg_tenants_by_host r),
         tg_host_by_tenant_id = bt_insert (te_tenant_id e) (te_host e) (tg_host_by_tenant_id r)\<rparr>"
  by (auto simp: registry_insert_def)

lemma dom_bt_insert: "dom (bt_get (bt_insert k v m)) = insert k (dom (bt_get m))"
  by (auto simp: bt_get_insert split: if_splits)

lemma registry_fold_ok:
  "is_ok (try_fold registry_insert r es) \<longleftrightarrow>
     fresh (dom (bt_get (tg_tenants_by_host r))) (map te_host es)
     \<and> fresh (dom (bt_get (tg_host_by_tenant_id r))) (map te_tenant_id es)"
proof (induction es arbitrary: r)
  case Nil
  show ?case by (simp add: is_ok_def fresh_simps)
next
  case (Cons e es)
  show ?case
  proof (cases "te_host e \<notin> dom (bt_get (tg_tenants_by_host r)) \<and> te_tenant_id e \<notin> dom (bt_get (tg_host_by_tenant_id r))")
    case True
    let ?r = "\<lparr>tg_tenants_by_host = bt_insert (te_host e) e (tg_tenants_by_host r),
         tg_host_by_tenant_id = bt_insert (te_tenant_id e) (te_host e) (tg_host_by_tenant_id r)\<rparr>"
    have "registry_insert r e = Ok ?r" using True by (simp add: registry_insert_Ok)
    then have "is_ok (try_fold registry_insert r (e # es)) \<longleftrightarrow> is_ok (try_fold registry_insert ?r es)" by simp
    then show ?thesis
      unfolding Cons.IH using True by (simp only: tenant_registry.simps dom_bt_insert list.map fresh_simps(2)) simp
  next
    case False
    then have "\<not> is_ok (registry_insert r e)"
      using registry_insert_Ok [of r e] by (cases "registry_insert r e") (auto simp: is_ok_def)
    then have "\<not> is_ok (try_fold registry_insert r (e # es))"
      by (cases "registry_insert r e") (simp_all add: is_ok_def)
    then show ?thesis using False by (auto simp: fresh_simps(2))
  qed
qed

lemma registry_fold_get:
  "try_fold registry_insert r es = Ok r' \<Longrightarrow>
     bt_get (tg_tenants_by_host r') h = Some e \<longleftrightarrow>
       bt_get (tg_tenants_by_host r) h = Some e \<or> (e \<in> set es \<and> te_host e = h)"
proof (induction es arbitrary: r)
  case (Cons x es)
  then obtain r1 where x: "registry_insert r x = Ok r1" and rest: "try_fold registry_insert r1 es = Ok r'"
    by (auto simp: and_then_Ok_iff)
  have "fresh (dom (bt_get (tg_tenants_by_host r1))) (map te_host es)"
    using registry_fold_ok [of r1 es] rest by (simp add: is_ok_def)
  then have "te_host x \<notin> te_host ` set es"
    using x by (auto simp: registry_insert_Ok fresh_def dom_bt_insert)
  then show ?case
    using Cons.IH [OF rest] x by (auto simp: registry_insert_Ok bt_get_insert split: if_splits)
qed simp

lemma registry_fold_ids:
  "try_fold registry_insert r es = Ok r' \<Longrightarrow>
     bt_get (tg_host_by_tenant_id r') i = (case map_of (map (\<lambda>e. (te_tenant_id e, te_host e)) es) i of
       Some h \<Rightarrow> Some h | None \<Rightarrow> bt_get (tg_host_by_tenant_id r) i)"
proof (induction es arbitrary: r)
  case (Cons x es)
  then obtain r1 where x: "registry_insert r x = Ok r1" and rest: "try_fold registry_insert r1 es = Ok r'"
    by (auto simp: and_then_Ok_iff)
  have "fresh (dom (bt_get (tg_host_by_tenant_id r1))) (map te_tenant_id es)"
    using registry_fold_ok [of r1 es] rest by (simp add: is_ok_def)
  then have "te_tenant_id x \<notin> te_tenant_id ` set es"
    using x by (auto simp: registry_insert_Ok fresh_def dom_bt_insert)
  then have "map_of (map (\<lambda>e. (te_tenant_id e, te_host e)) es) (te_tenant_id x) = None"
    by (auto simp: map_of_eq_None_iff)
  then show ?case
    using Cons.IH [OF rest] x by (auto simp: registry_insert_Ok bt_get_insert split: option.splits)
qed simp

lemma registry_new_ok:
  "is_ok (tenant_registry_new es) \<longleftrightarrow> distinct (map te_host es) \<and> distinct (map te_tenant_id es)"
  by (simp add: tenant_registry_new_def registry_fold_ok fresh_simps)

lemma registry_new_get:
  "tenant_registry_new es = Ok r \<Longrightarrow> tenant_by_host r h = Some e \<longleftrightarrow> e \<in> set es \<and> te_host e = h"
  unfolding tenant_registry_new_def tenant_by_host_def by (subst registry_fold_get) auto

lemma registry_new_id:
  assumes "tenant_registry_new es = Ok r"
  shows "tenant_by_id r i = Some e \<longleftrightarrow> e \<in> set es \<and> te_tenant_id e = i"
proof -
  have distinct: "distinct (map te_host es)" "distinct (map te_tenant_id es)"
    using registry_new_ok [of es] assms by (simp_all add: is_ok_def)
  then have keys: "distinct (map fst (map (\<lambda>e. (te_tenant_id e, te_host e)) es))" by (simp add: comp_def)
  have "bt_get (tg_host_by_tenant_id r) i = map_of (map (\<lambda>e. (te_tenant_id e, te_host e)) es) i"
    using registry_fold_ids [OF assms [unfolded tenant_registry_new_def], of i] by (simp split: option.splits)
  then have "bt_get (tg_host_by_tenant_id r) i = Some h \<longleftrightarrow> (\<exists>e\<in>set es. te_tenant_id e = i \<and> te_host e = h)" for h
    by (auto simp: map_of_eq_Some_iff [OF keys])
  then have "tenant_by_id r i = Some e \<longleftrightarrow>
      (\<exists>x\<in>set es. te_tenant_id x = i \<and> tenant_by_host r (te_host x) = Some e)"
    by (auto simp: tenant_by_id_def tenant_by_host_def bind_eq_Some_conv)
  also have "\<dots> \<longleftrightarrow> e \<in> set es \<and> te_tenant_id e = i"
    unfolding registry_new_get [OF assms] using distinct(1) by (auto simp: distinct_map dest: inj_onD)
  finally show ?thesis .
qed

section \<open>Opening a host\<close>

lemma open_tenant_Ok:
  "open_tenant_runtime open_runtime config t = Ok e \<longleftrightarrow> te_config e = t \<and>
     open_runtime (to_base_runtime_config t (hc_listen_addr (cs_host config)) (hc_tracing (cs_host config))) = Ok (te_runtime e)"
  by (cases e) (auto simp: open_tenant_runtime_def map_ok_Ok_iff)

lemma open_tenants_Ok:
  "traverse (open_tenant_runtime open_runtime config) ts = Ok es \<Longrightarrow>
     map te_config es = ts \<and> (\<forall>e. e \<in> set es \<longleftrightarrow> te_config e \<in> set ts \<and>
       open_tenant_runtime open_runtime config (te_config e) = Ok e)"
proof (induction ts arbitrary: es)
  case (Cons t ts)
  then obtain e es' where e: "open_tenant_runtime open_runtime config t = Ok e"
    and es': "traverse (open_tenant_runtime open_runtime config) ts = Ok es'" "es = e # es'"
    by (auto simp: and_then_Ok_iff)
  have "te_config e = t" using e by (simp add: open_tenant_Ok)
  moreover have "x = e" if "te_config x = t" "open_tenant_runtime open_runtime config t = Ok x" for x
    using that e by simp
  ultimately show ?case using Cons.IH [OF es'(1)] e es'(2) by (metis list.simps(9) set_ConsD list.set_intros)
qed simp

lemma traverse_is_ok: "is_ok (traverse f xs) \<longleftrightarrow> list_all (\<lambda>x. is_ok (f x)) xs"
proof (induction xs)
  case (Cons x xs)
  then show ?case by (cases "f x"; cases "traverse f xs") (auto simp: is_ok_def)
qed (simp add: is_ok_def)

text \<open>The tenants that pass the validation of a set have distinct hosts and identifiers.\<close>

lemma validated_tenants_distinct:
  assumes "host_config_set_new api host ts = Ok config"
  shows "cs_tenants config = ts" and "distinct (map tc_host ts)" and "distinct (map tc_tenant_id ts)"
proof -
  have config: "validate_tenant_config_set api ts = Ok ()" "config = \<lparr>cs_host = host, cs_tenants = ts\<rparr>"
    using assms by (auto simp: host_config_set_new_def map_ok_Ok_iff)
  then show "cs_tenants config = ts" by simp
  have "is_ok (try_fold (insert_tenant api) \<lparr>tn_tenant_ids = {}, tn_tenant_schemas = {}, tn_hosts = {},
      tn_relay_urls = {}, tn_relay_self_pubkeys = {}, tn_store_paths = {}\<rparr> ts)"
    using config(1) by (auto simp: validate_tenant_config_set_def map_ok_Ok_iff is_ok_def split: if_splits)
  then show "distinct (map tc_host ts)" "distinct (map tc_tenant_id ts)"
    by (auto simp: insert_tenants_Ok names_fresh_def fresh_simps)
qed

text \<open>
  A validated host opens exactly when the runtime of every active tenant opens: the registry itself
  never refuses the tenants of a validated set.
\<close>

theorem validated_host_opens:
  assumes "host_config_set_new api host ts = Ok config"
  shows "is_ok (host_runtime_open open_runtime config) \<longleftrightarrow>
    list_all (\<lambda>t. is_ok (open_tenant_runtime open_runtime config t)) (cs_active_tenants config)"
proof (cases "traverse (open_tenant_runtime open_runtime config) (cs_active_tenants config)")
  case (Inl e)
  then show ?thesis
    using traverse_is_ok [of "open_tenant_runtime open_runtime config" "cs_active_tenants config"]
    by (simp add: host_runtime_open_def tenant_registry_open_def is_ok_def Let_def)
next
  case (Inr es)
  from open_tenants_Ok [OF this] have configs: "map te_config es = cs_active_tenants config" by blast
  have "map te_host es = map tc_host (cs_active_tenants config)"
    "map te_tenant_id es = map tc_tenant_id (cs_active_tenants config)"
    by (simp_all add: configs [symmetric] te_host_def te_tenant_id_def)
  moreover have "distinct (map tc_host (cs_active_tenants config))"
    "distinct (map tc_tenant_id (cs_active_tenants config))"
    using validated_tenants_distinct [OF assms] by (simp_all add: cs_active_tenants_def distinct_map_filter)
  ultimately have "is_ok (tenant_registry_new es)" by (simp add: registry_new_ok)
  moreover have "list_all (\<lambda>t. is_ok (open_tenant_runtime open_runtime config t)) (cs_active_tenants config)"
    using traverse_is_ok [of "open_tenant_runtime open_runtime config" "cs_active_tenants config"] Inr
    by (simp add: is_ok_def)
  ultimately show ?thesis
    using Inr by (cases "tenant_registry_new es")
      (simp_all add: host_runtime_open_def tenant_registry_open_def is_ok_def Let_def)
qed

text \<open>A host with one tenant, which trusts one proxy.\<close>

definition sample_host_config :: host_runtime_config where
  "sample_host_config = \<lparr>hc_listen_addr = \<lparr>sa_ip = ''127.0.0.1'', sa_display = ''127.0.0.1:8080''\<rparr>,
     hc_tenant_config_dir = ''/etc/tangle'',
     hc_limits = \<lparr>hl_max_total_connections = 100, hl_max_total_subscriptions = 1000, hl_tenant_startup_concurrency = 1\<rparr>,
     hc_ops = \<lparr>ho_enabled = True, ho_expose_tenant_inventory = False\<rparr>,
     hc_trusted_proxy = \<lparr>tp_enabled = True, tp_trusted_peers = [''10.0.0.1'']\<rparr>,
     hc_tracing = \<lparr>tr_enabled = True, tr_filter = ''info'', tr_format = TracingJson\<rparr>\<rparr>"

lemma sample_host_set:
  "\<exists>t. host_config_set_new sample_config_api sample_host_config [t]
     = Ok \<lparr>cs_host = sample_host_config, cs_tenants = [t]\<rparr> \<and> \<not> tc_inactive t \<and> tc_host t = ''relay.example''"
proof -
  obtain t :: tenant_runtime_config where "\<not> tc_inactive t" "gr_relay_secret (tc_groups t) = None" "tc_host t = ''relay.example''"
    using sample_tenant_loads [of "[]"] by (elim exE conjE) (rule that)
  then show ?thesis
    by (auto simp: host_config_set_new_def validate_tenant_config_set_def insert_tenant_def insert_unique_def
        relay_self_pubkey_def)
qed

theorem validated_host_opens_witness:
  "\<exists>t. is_ok (host_runtime_open (\<lambda>_. Ok ()) \<lparr>cs_host = sample_host_config, cs_tenants = [t]\<rparr>)"
proof -
  obtain t where "host_config_set_new sample_config_api sample_host_config [t]
     = Ok \<lparr>cs_host = sample_host_config, cs_tenants = [t]\<rparr>"
    using sample_host_set by blast
  from validated_host_opens [OF this, of "\<lambda>_. Ok ()"] show ?thesis
    by (intro exI [of _ t]) (simp add: cs_active_tenants_def open_tenant_runtime_def is_ok_def)
qed

section \<open>Routing\<close>

text \<open>
  Claim C22. A request is given to the one active tenant whose host is the one the request names, and to no
  other: the tenant's configuration is in the set of the host, and its runtime was opened from it.
\<close>

theorem request_routing_exact:
  assumes "host_runtime_open open_runtime config = Ok h"
  shows "tenant_for_request h headers peer = Ok e \<longleftrightarrow>
    resolve_request_host headers peer (hc_trusted_proxy (cs_host config)) = Ok (te_host e)
    \<and> te_config e \<in> set (cs_active_tenants config)
    \<and> open_tenant_runtime open_runtime config (te_config e) = Ok e"
proof -
  obtain es where es: "traverse (open_tenant_runtime open_runtime config) (cs_active_tenants config) = Ok es"
    and registry: "tenant_registry_new es = Ok (hr_registry h)" and config: "hr_config h = config"
    using assms by (auto simp: host_runtime_open_def tenant_registry_open_def map_ok_Ok_iff and_then_Ok_iff Let_def)
  have "tenant_for_request h headers peer = Ok e \<longleftrightarrow>
      (\<exists>host. resolve_request_host headers peer (hc_trusted_proxy (cs_host config)) = Ok host
        \<and> tenant_by_host (hr_registry h) host = Some e)"
    by (simp add: tenant_for_request_def and_then_Ok_iff config)
  with registry_new_get [OF registry] open_tenants_Ok [OF es] show ?thesis by auto
qed

text \<open>
  A peer that is not a trusted proxy chooses its tenant with the \<open>Host\<close> header alone: whatever it
  forwards, the request is resolved as if it forwarded nothing.
\<close>

theorem untrusted_peer_cannot_forward:
  assumes "\<not> trusted_proxy_peer_enabled (hc_trusted_proxy (cs_host (hr_config h))) peer"
    and "headers ''host'' = headers' ''host''"
  shows "tenant_for_request h headers peer = tenant_for_request h headers' peer"
  using assms by (simp add: tenant_for_request_def resolve_request_host_def)

text \<open>The tenant of the sample host is reached under its name, in any case of letters.\<close>

lemma sample_host_opened:
  "\<exists>h t. host_runtime_open (\<lambda>_. Ok ()) \<lparr>cs_host = sample_host_config, cs_tenants = [t]\<rparr> = Ok h
     \<and> hr_config h = \<lparr>cs_host = sample_host_config, cs_tenants = [t]\<rparr>
     \<and> \<not> tc_inactive t \<and> tc_host t = ''relay.example''"
proof -
  obtain t :: tenant_runtime_config where "\<not> tc_inactive t" "tc_host t = ''relay.example''"
    using sample_host_set by (elim exE conjE) (rule that)
  moreover from this have "\<exists>h. host_runtime_open (\<lambda>_. Ok ()) \<lparr>cs_host = sample_host_config, cs_tenants = [t]\<rparr> = Ok h
      \<and> hr_config h = \<lparr>cs_host = sample_host_config, cs_tenants = [t]\<rparr>"
    by (simp add: host_runtime_open_def tenant_registry_open_def cs_active_tenants_def
        open_tenant_runtime_def tenant_registry_new_def registry_insert_def Let_def)
  ultimately show ?thesis by metis
qed

definition sample_headers :: headers where
  "sample_headers = [''host'' \<mapsto> ''Relay.Example'']"

definition sample_forwarding :: headers where
  "sample_forwarding = [''host'' \<mapsto> ''Relay.Example'', ''x-forwarded-host'' \<mapsto> ''other.example'']"

definition sample_peer :: socket_addr where
  "sample_peer = \<lparr>sa_ip = ''192.0.2.1'', sa_display = ''192.0.2.1:4040''\<rparr>"

lemma sample_peer_untrusted: "\<not> trusted_proxy_peer_enabled (hc_trusted_proxy sample_host_config) sample_peer"
  by (simp add: trusted_proxy_peer_enabled_def sample_host_config_def sample_peer_def)

lemma utf8_groups_ascii: "\<forall>c\<in>set s. byte c < 128 \<Longrightarrow> utf8_groups s = map (\<lambda>c. [c]) s"
proof (induction s)
  case (Cons c s)
  then have "takeWhile is_continuation s = [] \<and> dropWhile is_continuation s = s"
    by (cases s) (auto simp: is_continuation_def)
  with Cons show ?case by simp
qed simp

lemma no_whitespace_trim_str:
  assumes "s \<noteq> []" and "\<forall>c\<in>set s. byte c < 128 \<and> \<not> is_whitespace (byte c)"
  shows "trim_str s = s"
proof -
  have group: "\<not> whitespace_group [c]" if "c \<in> set s" for c
    using assms(2) that by (simp add: whitespace_group_def)
  have fixed: "dropWhile whitespace_group (map (\<lambda>c. [c]) t) = map (\<lambda>c. [c]) t" if "set t \<subseteq> set s" for t
    using that group by (cases t) auto
  have "utf8_groups s = map (\<lambda>c. [c]) s" using assms(2) by (intro utf8_groups_ascii) simp
  then have "trim_str s = concat (map (\<lambda>c. [c]) s)"
    using fixed [of s] fixed [of "rev s"] by (simp add: trim_str_def rev_map)
  then show ?thesis by (simp add: concat_map_singleton)
qed

lemma sample_request_host:
  "resolve_request_host sample_headers sample_peer (hc_trusted_proxy sample_host_config) = Ok ''relay.example''"
proof -
  have "trim_str ''Relay.Example'' = ''Relay.Example''"
    by (rule no_whitespace_trim_str) (simp_all add: byte_def is_whitespace_def)
  then show ?thesis
    using sample_names(1) sample_peer_untrusted by (simp add: resolve_request_host_def sample_headers_def Let_def)
qed

theorem request_routing_exact_witness:
  "\<exists>h e. host_runtime_open (\<lambda>_. Ok ()) (hr_config h) = Ok h
     \<and> tenant_for_request h sample_headers sample_peer = Ok e \<and> te_host e = ''relay.example''"
proof -
  obtain h t where h: "host_runtime_open (\<lambda>_. Ok ()) \<lparr>cs_host = sample_host_config, cs_tenants = [t]\<rparr> = Ok h"
    "hr_config h = \<lparr>cs_host = sample_host_config, cs_tenants = [t]\<rparr>" "\<not> tc_inactive t" "tc_host t = ''relay.example''"
    using sample_host_opened by blast
  from request_routing_exact [OF h(1), of sample_headers sample_peer "\<lparr>te_config = t, te_runtime = ()\<rparr>"]
  have "tenant_for_request h sample_headers sample_peer = Ok \<lparr>te_config = t, te_runtime = ()\<rparr>"
    using h sample_request_host by (simp add: te_host_def cs_active_tenants_def open_tenant_runtime_def)
  then show ?thesis using h
    by (intro exI [of _ h] exI [of _ "\<lparr>te_config = t, te_runtime = ()\<rparr>"]) (simp add: te_host_def)
qed

theorem untrusted_peer_cannot_forward_witness:
  "\<exists>h :: unit host_runtime. hc_trusted_proxy (cs_host (hr_config h)) = hc_trusted_proxy sample_host_config
     \<and> tenant_for_request h sample_forwarding sample_peer = tenant_for_request h sample_headers sample_peer"
proof -
  obtain h :: "unit host_runtime" where h: "cs_host (hr_config h) = sample_host_config"
    using sample_host_opened by (metis host_config_set.select_convs(1))
  have "\<not> trusted_proxy_peer_enabled (hc_trusted_proxy (cs_host (hr_config h))) sample_peer"
    using h sample_peer_untrusted by simp
  from untrusted_peer_cannot_forward [OF this, of sample_forwarding sample_headers] h show ?thesis
    by (intro exI [of _ h]) (simp add: sample_forwarding_def sample_headers_def)
qed

end
