(* ===== verification/Runtime_Hooks.thy ===== *)
theory Runtime_Hooks
  imports Runtime_Metrics Runtime_Messages Runtime_Config
begin

text \<open>
  What the relay runtime (\<open>crates/tangle_runtime/src/runtime.rs\<close>) is given and what it is told by its
  hooks: the contexts of an admitted, a stored and a projected event, the decisions of the hooks, the
  classification of queries as bounded or broad, the limits of the runtime and its event bus
  (\<open>event_bus.rs\<close>). The hooks are a trait object that may keep a state of its own, so each is a
  function that returns its answer with a new state.
\<close>

section \<open>Contexts\<close>

record rate_limit_context =
  cx_peer_ip :: "ip_addr option"
  cx_connection_id :: "u64 option"

definition rate_limit_context_default :: rate_limit_context where
  "rate_limit_context_default = \<lparr>cx_peer_ip = None, cx_connection_id = None\<rparr>"

record projection_context =
  px_identifier :: "string option"

definition projection_context_default :: projection_context where
  "projection_context_default = \<lparr>px_identifier = None\<rparr>"

definition projection_context_named :: "string \<Rightarrow> base_relay_error + projection_context" where
  "projection_context_named identifier =
     (if identifier = []
      then Err (base_invalid ''relay projection identifier must not be empty'')
      else if list_ex is_control (utf8_chars identifier)
      then Err (base_invalid ''relay projection identifier must not contain control characters'')
      else Ok \<lparr>px_identifier = Some identifier\<rparr>)"

datatype projection_source = HistoricalQuery | LiveFanout store_offset

fun source_store_offset :: "projection_source \<Rightarrow> store_offset option" where
  "source_store_offset HistoricalQuery = None"
| "source_store_offset (LiveFanout offset) = Some offset"

record event_context =
  ec_event_id :: string
  ec_pubkey :: string
  ec_created_at :: u64
  ec_kind :: u32
  ec_tags :: "string list list"
  ec_content :: string

text \<open>\<open>str::from_utf8\<close> on a value of a tag and on the content.\<close>

definition utf8_text :: "(string \<Rightarrow> string) \<Rightarrow> string \<Rightarrow> base_relay_error + string" where
  "utf8_text utf8_error value = (if valid_utf8 value then Ok value else Err (base_invalid (utf8_error value)))"

definition event_context_from_pocket :: "(string \<Rightarrow> string) \<Rightarrow> pocket_event \<Rightarrow> base_relay_error + event_context" where
  "event_context_from_pocket utf8_error e =
     and_then (map_err base_invalid (pe_tags e)) (\<lambda>tags.
     and_then (traverse (traverse (utf8_text utf8_error)) tags) (\<lambda>tags.
     and_then (utf8_text utf8_error (pe_content e)) (\<lambda>content.
       Ok \<lparr>ec_event_id = pe_id e, ec_pubkey = pe_pubkey e, ec_created_at = pe_created_at e,
         ec_kind = kind_u32 e, ec_tags = tags, ec_content = content\<rparr>)))"

definition context_has_tag :: "event_context \<Rightarrow> string \<Rightarrow> string \<Rightarrow> bool" where
  "context_has_tag c name value \<longleftrightarrow> list_ex (\<lambda>tag. case tag of
       [] \<Rightarrow> False
     | tag_name # values \<Rightarrow> tag_name = name \<and> list_ex ((=) value) values) (ec_tags c)"

record event_admission_context =
  ea_event :: event_context
  ea_authenticated_pubkeys :: "string list"
  ea_peer_ip :: "ip_addr option"
  ea_connection_id :: "u64 option"
  ea_now :: u64

record event_stored_context =
  es_event :: event_context
  es_store_offsets :: "store_offset list"

record query_projection_context =
  qp_subscription_id :: subscription_id
  qp_projection :: projection_context
  qp_filters :: "matched_filter_context list"
  qp_authenticated_pubkeys :: "public_key_hex list"

record live_projection_context =
  lp_projection :: projection_context
  lp_source_store_offset :: store_offset
  lp_event :: event_context
  lp_authenticated_pubkeys :: "public_key_hex list"

record event_projection_context =
  ep_subscription_id :: subscription_id
  ep_projection :: projection_context
  ep_source :: projection_source
  ep_matched_filters :: "matched_filter_context list"
  ep_event :: event_context
  ep_authenticated_pubkeys :: "public_key_hex list"

section \<open>Hooks\<close>

datatype event_admission_decision = AdmitAccept | AdmitReject string

datatype event_projection_decision = Emit | Suppress | ReplaceWithStoredOffset store_offset

text \<open>The candidate limit of a plan is a \<open>NonZeroU32\<close>.\<close>

datatype projection_query_limit = BeforeProjection | AfterProjection u32

record 'h runtime_hooks =
  hk_admit_event :: "event_admission_context \<Rightarrow> 'h \<Rightarrow> event_admission_decision \<times> 'h"
  hk_event_stored :: "event_stored_context \<Rightarrow> 'h \<Rightarrow> 'h"
  hk_storage_used_bytes :: "'h \<Rightarrow> u64 option \<times> 'h"
  hk_plan_query :: "query_projection_context \<Rightarrow> 'h \<Rightarrow> projection_query_limit \<times> 'h"
  hk_live_projection_candidates :: "live_projection_context \<Rightarrow> 'h \<Rightarrow> store_offset list \<times> 'h"
  hk_project_event :: "event_projection_context \<Rightarrow> 'h \<Rightarrow> event_projection_decision \<times> 'h"
  hk_sanitize_public_message :: "relay_message \<Rightarrow> 'h \<Rightarrow> relay_message \<times> 'h"

definition noop_hooks :: "unit runtime_hooks" where
  "noop_hooks = \<lparr>hk_admit_event = (\<lambda>_ h. (AdmitAccept, h)), hk_event_stored = (\<lambda>_ h. h),
     hk_storage_used_bytes = (\<lambda>h. (None, h)), hk_plan_query = (\<lambda>_ h. (BeforeProjection, h)),
     hk_live_projection_candidates = (\<lambda>_ h. ([], h)), hk_project_event = (\<lambda>_ h. (Emit, h)),
     hk_sanitize_public_message = Pair\<rparr>"

section \<open>Bounded and broad queries\<close>

datatype broad_query_reason =
    EmptyFilters | MissingPrimaryConstraint | MissingBoundedSelector | HighLimit | BroadTimeWindow

datatype query_classification = BoundedQuery | BroadQuery broad_query_reason

fun is_broad :: "query_classification \<Rightarrow> bool" where
  "is_broad BoundedQuery = False"
| "is_broad (BroadQuery _) = True"

abbreviation BROAD_QUERY_TIME_WINDOW_SECONDS :: u64 where
  "BROAD_QUERY_TIME_WINDOW_SECONDS \<equiv> 31 * 24 * 60 * 60"

definition has_group_constraint :: "'f pocket_filter_api \<Rightarrow> 'f \<Rightarrow> bool" where
  "has_group_constraint api f = (case pf_tags api f of
       Inl _ \<Rightarrow> False
     | Inr tags \<Rightarrow> list_ex (\<lambda>tag. case tag of
           name # _ # _ \<Rightarrow> name = ''h'' \<or> name = ''d''
         | _ \<Rightarrow> False) tags)"

definition has_primary_constraint :: "'f pocket_filter_api \<Rightarrow> 'f \<Rightarrow> bool" where
  "has_primary_constraint api f \<longleftrightarrow> pf_num_ids api f > 0 \<or> pf_num_authors api f > 0
     \<or> pf_num_kinds api f > 0 \<or> has_group_constraint api f"

definition has_strong_constraint :: "'f pocket_filter_api \<Rightarrow> 'f \<Rightarrow> bool" where
  "has_strong_constraint api f \<longleftrightarrow> pf_num_ids api f > 0 \<or> pf_num_authors api f > 0
     \<or> has_group_constraint api f"

definition has_high_limit :: "'f pocket_filter_api \<Rightarrow> base_relay_limits \<Rightarrow> 'f \<Rightarrow> bool" where
  "has_high_limit api limits f \<longleftrightarrow>
     (if pf_limit api f = - 1 then bl_default_limit limits else ucast (pf_limit api f)) \<ge> bl_max_limit limits"

definition has_bounded_time_window :: "'f pocket_filter_api \<Rightarrow> 'f \<Rightarrow> bool" where
  "has_bounded_time_window api f \<longleftrightarrow>
     \<not> (pf_since api f = pf_time_min api \<or> pf_until api f = pf_time_max api)
     \<and> saturating_sub (pf_until api f) (pf_since api f) \<le> BROAD_QUERY_TIME_WINDOW_SECONDS"

definition has_broad_time_window :: "'f pocket_filter_api \<Rightarrow> 'f \<Rightarrow> bool" where
  "has_broad_time_window api f \<longleftrightarrow>
     \<not> (pf_since api f = pf_time_min api \<or> pf_until api f = pf_time_max api)
     \<and> saturating_sub (pf_until api f) (pf_since api f) > BROAD_QUERY_TIME_WINDOW_SECONDS"

definition has_hll_count_selector :: "'f pocket_filter_api \<Rightarrow> 'f \<Rightarrow> bool" where
  "has_hll_count_selector api f \<longleftrightarrow>
     (case pf_hyperloglog_offset api f of Inr (Some _) \<Rightarrow> True | _ \<Rightarrow> False)"

definition has_count_bounded_selector :: "'f pocket_filter_api \<Rightarrow> 'f \<Rightarrow> bool" where
  "has_count_bounded_selector api f \<longleftrightarrow> has_strong_constraint api f
     \<or> (pf_num_kinds api f > 0 \<and> has_bounded_time_window api f) \<or> has_hll_count_selector api f"

definition classify_query_filter :: "'f pocket_filter_api \<Rightarrow> base_relay_limits \<Rightarrow> 'f \<Rightarrow> query_classification" where
  "classify_query_filter api limits f =
     (if \<not> has_primary_constraint api f then BroadQuery MissingPrimaryConstraint
      else if has_high_limit api limits f then BroadQuery HighLimit
      else if has_broad_time_window api f \<and> \<not> has_strong_constraint api f then BroadQuery BroadTimeWindow
      else BoundedQuery)"

definition classify_count_filter :: "'f pocket_filter_api \<Rightarrow> base_relay_limits \<Rightarrow> 'f \<Rightarrow> query_classification" where
  "classify_count_filter api limits f =
     (if \<not> has_primary_constraint api f then BroadQuery MissingPrimaryConstraint
      else if has_high_limit api limits f then BroadQuery HighLimit
      else if has_broad_time_window api f then BroadQuery BroadTimeWindow
      else if \<not> has_count_bounded_selector api f then BroadQuery MissingBoundedSelector
      else BoundedQuery)"

text \<open>\<open>find\<close> on the mapped filters, and \<open>unwrap_or\<close>.\<close>

definition first_broad :: "query_classification list \<Rightarrow> query_classification" where
  "first_broad cs = (case find is_broad cs of Some c \<Rightarrow> c | None \<Rightarrow> BoundedQuery)"

definition classify_query :: "'f pocket_filter_api \<Rightarrow> base_relay_limits \<Rightarrow> 'f list \<Rightarrow> query_classification" where
  "classify_query api limits filters =
     (if filters = [] then BroadQuery EmptyFilters
      else first_broad (map (classify_query_filter api limits) filters))"

definition classify_count :: "'f pocket_filter_api \<Rightarrow> base_relay_limits \<Rightarrow> 'f list \<Rightarrow> query_classification" where
  "classify_count api limits filters =
     (if filters = [] then BroadQuery EmptyFilters
      else first_broad (map (classify_count_filter api limits) filters))"

text \<open>The group ids and kinds a query names, each once and in order.\<close>

definition tag_group_ids :: "string list \<Rightarrow> group_id set" where
  "tag_group_ids tag = (case tag of
       [] \<Rightarrow> {}
     | name # values \<Rightarrow>
         if name = ''h'' \<or> name = ''d''
         then set (filter (\<lambda>value. valid_utf8 value \<and> is_ok (group_id_new value)) values)
         else {})"

definition filter_group_ids :: "'f pocket_filter_api \<Rightarrow> 'f list \<Rightarrow> group_id list" where
  "filter_group_ids api filters = bs_iter (\<Union>f\<in>set filters.
     case pf_tags api f of Inl _ \<Rightarrow> {} | Inr tags \<Rightarrow> (\<Union>tag\<in>set tags. tag_group_ids tag))"

definition filter_kinds :: "'f pocket_filter_api \<Rightarrow> 'f list \<Rightarrow> kind list" where
  "filter_kinds api filters = bs_iter (set (List.map_filter
     (\<lambda>k. case kind_new (ucast k) of Inl _ \<Rightarrow> None | Inr kind \<Rightarrow> Some kind)
     (concat (map (pf_kinds api) filters))))"

section \<open>Limits and the event bus\<close>

record runtime_limits =
  rtl_max_message_length :: nat
  rtl_base_relay_limits :: base_relay_limits
  rtl_event_bus_capacity :: nat
  rtl_outbound_queue_capacity :: nat

definition runtime_limits_new :: "nat \<Rightarrow> base_relay_limits \<Rightarrow> nat \<Rightarrow> nat \<Rightarrow> base_relay_error + runtime_limits" where
  "runtime_limits_new max_message_length limits event_bus_capacity outbound_queue_capacity =
     (if max_message_length = 0
      then Err (base_invalid ''runtime max message length must be greater than zero'')
      else if event_bus_capacity = 0
      then Err (base_invalid ''runtime event bus capacity must be greater than zero'')
      else if outbound_queue_capacity = 0
      then Err (base_invalid ''runtime outbound queue capacity must be greater than zero'')
      else Ok \<lparr>rtl_max_message_length = max_message_length, rtl_base_relay_limits = limits,
        rtl_event_bus_capacity = event_bus_capacity,
        rtl_outbound_queue_capacity = outbound_queue_capacity\<rparr>)"

definition runtime_limits_from_config :: "base_runtime_config \<Rightarrow> base_relay_error + runtime_limits" where
  "runtime_limits_from_config config =
     and_then (limits_base_relay_limits (bc_limits config)) (\<lambda>limits.
       runtime_limits_new (lc_max_message_length (bc_limits config)) limits
         (lc_broadcast_channel_capacity (bc_limits config))
         (lc_per_connection_outbound_queue (bc_limits config)))"

text \<open>
  The broadcast channel is \<open>tokio\<close>'s: a sender of type \<open>'b\<close> with its calls. Sending fails when there
  is no receiver.
\<close>

record 'b broadcast_api =
  bcast_channel :: "nat \<Rightarrow> 'b"
  bcast_send :: "store_offset \<Rightarrow> 'b \<Rightarrow> nat option \<times> 'b"
  bcast_subscribe :: "'b \<Rightarrow> 'b"
  bcast_receiver_count :: "'b \<Rightarrow> nat"

record 'b event_bus =
  eb_sender :: 'b
  eb_capacity :: nat

definition event_bus_new :: "'b broadcast_api \<Rightarrow> nat \<Rightarrow> base_relay_error + 'b event_bus" where
  "event_bus_new api capacity =
     (if capacity = 0
      then Err (base_invalid ''runtime event bus capacity must be greater than zero'')
      else Ok \<lparr>eb_sender = bcast_channel api capacity, eb_capacity = capacity\<rparr>)"

definition bus_publish :: "'b broadcast_api \<Rightarrow> store_offset \<Rightarrow> 'b event_bus \<Rightarrow> nat \<times> 'b event_bus" where
  "bus_publish api offset bus =
     (let (sent, sender) = bcast_send api offset (eb_sender bus)
      in (case sent of Some receivers \<Rightarrow> receivers | None \<Rightarrow> 0, bus\<lparr>eb_sender := sender\<rparr>))"

definition bus_subscribe :: "'b broadcast_api \<Rightarrow> 'b event_bus \<Rightarrow> 'b event_bus" where
  "bus_subscribe api bus = bus\<lparr>eb_sender := bcast_subscribe api (eb_sender bus)\<rparr>"

definition bus_receiver_count :: "'b broadcast_api \<Rightarrow> 'b event_bus \<Rightarrow> nat" where
  "bus_receiver_count api bus = bcast_receiver_count api (eb_sender bus)"

end
