(* ===== verification/Runtime_Ops.thy ===== *)
theory Runtime_Ops
  imports Runtime_Metrics
begin

text \<open>
  Readiness and the answers of the operations endpoints
  (\<open>crates/tangle_runtime/src/ops.rs\<close>): the checks of a relay, whether all of them are ready, and the
  documents of the three routes. The routes themselves are \<open>axum\<close>'s; an answer is a status code with
  the document or text that is returned.
\<close>

section \<open>Readiness\<close>

datatype readiness_check_status = Ready | NotReady

fun check_status_str :: "readiness_check_status \<Rightarrow> string" where
  "check_status_str Ready = ''ready''"
| "check_status_str NotReady = ''not_ready''"

definition status_is_ready :: "readiness_check_status \<Rightarrow> bool" where
  "status_is_ready s \<longleftrightarrow> s = Ready"

record readiness_state =
  rdy_config :: readiness_check_status
  rdy_server_bind :: readiness_check_status
  rdy_relay_identity :: readiness_check_status
  rdy_pocket_storage :: readiness_check_status
  rdy_group_projection :: readiness_check_status
  rdy_group_outbox_replay :: readiness_check_status
  rdy_event_bus :: readiness_check_status

definition readiness_ready :: readiness_state where
  "readiness_ready = \<lparr>rdy_config = Ready, rdy_server_bind = Ready, rdy_relay_identity = Ready,
     rdy_pocket_storage = Ready, rdy_group_projection = Ready, rdy_group_outbox_replay = Ready,
     rdy_event_bus = Ready\<rparr>"

definition runtime_ready_before_bind :: readiness_state where
  "runtime_ready_before_bind = \<lparr>rdy_config = Ready, rdy_server_bind = NotReady, rdy_relay_identity = Ready,
     rdy_pocket_storage = Ready, rdy_group_projection = Ready, rdy_group_outbox_replay = Ready,
     rdy_event_bus = Ready\<rparr>"

definition set_server_bind :: "readiness_check_status \<Rightarrow> readiness_state \<Rightarrow> readiness_state" where
  "set_server_bind status s = s\<lparr>rdy_server_bind := status\<rparr>"

definition readiness_checks :: "readiness_state \<Rightarrow> readiness_check_status list" where
  "readiness_checks s = [rdy_config s, rdy_server_bind s, rdy_relay_identity s, rdy_pocket_storage s,
     rdy_group_projection s, rdy_group_outbox_replay s, rdy_event_bus s]"

definition readiness_is_ready :: "readiness_state \<Rightarrow> bool" where
  "readiness_is_ready s \<longleftrightarrow> list_all status_is_ready (readiness_checks s)"

section \<open>Answers\<close>

definition readiness_response :: "readiness_state \<Rightarrow> json" where
  "readiness_response s = JObject [
     (''status'', JString (if readiness_is_ready s then ''ready'' else ''not_ready'')),
     (''checks'', JObject [
       (''config'', JString (check_status_str (rdy_config s))),
       (''server_bind'', JString (check_status_str (rdy_server_bind s))),
       (''relay_identity'', JString (check_status_str (rdy_relay_identity s))),
       (''pocket_storage'', JString (check_status_str (rdy_pocket_storage s))),
       (''group_projection'', JString (check_status_str (rdy_group_projection s))),
       (''group_outbox_replay'', JString (check_status_str (rdy_group_outbox_replay s))),
       (''event_bus'', JString (check_status_str (rdy_event_bus s)))])]"

definition base_relay_healthz :: json where
  "base_relay_healthz = JObject [(''status'', JString ''ok'')]"

definition base_relay_readyz :: "readiness_state \<Rightarrow> nat \<times> json" where
  "base_relay_readyz s = (if readiness_is_ready s then 200 else 503, readiness_response s)"

abbreviation PROMETHEUS_CONTENT_TYPE :: string where
  "PROMETHEUS_CONTENT_TYPE \<equiv> ''text/plain; version=0.0.4; charset=utf-8''"

definition base_relay_metricsz :: "u64 \<Rightarrow> readiness_state \<Rightarrow> runtime_metrics \<Rightarrow> string \<times> string" where
  "base_relay_metricsz uptime s m = (PROMETHEUS_CONTENT_TYPE,
     prometheus_text (snapshot_with_readiness uptime (readiness_is_ready s) m))"

end
