(* ===== verification/Relay_Runtime.thy ===== *)
theory Relay_Runtime
  imports Runtime_Hooks Runtime_Ops Relay_Resources
begin

text \<open>
  The runtime of a tenant's relay (\<open>RelayRuntimeShared\<close> and \<open>RelayRuntimeHandle\<close> in
  \<open>crates/tangle_runtime/src/runtime.rs\<close>): rate limits, the admission of events by the hooks, queries
  and their projection, the events offered to live subscriptions, and the handler of client messages.
  The runtime is shared by the connections; a call is one action on its state. The time a call took is
  an input (\<open>elapsed\<close>, in microseconds), and log lines are left out.
\<close>

section \<open>State\<close>

text \<open>What the runtime is built on: the store and signer, Pocket filters and queries, HyperLogLogs, the
  hooks, the broadcast channel, and the opening of a store.\<close>

record ('t, 'st, 'f, 'q, 'h, 'b) runtime_api =
  ri_env :: "('t, 'st) runtime_env"
  ri_filters :: "'f pocket_filter_api"
  ri_find :: "('st, 'f, screen_cells) pocket_find"
  ri_hll :: "'q hll_api"
  ri_hooks :: "'h runtime_hooks"
  ri_broadcast :: "'b broadcast_api"
  ri_open_store :: "pocket_store_config \<Rightarrow> base_relay_error + 'st"

record ('t, 'st, 'h, 'b) relay_runtime =
  rtm_config :: base_runtime_config
  rtm_services :: "('t, 'st) relay_services"
  rtm_readiness :: readiness_state
  rtm_limits :: runtime_limits
  rtm_event_bus :: "'b event_bus"
  rtm_rate_limiter :: rate_limiter
  rtm_metrics :: runtime_metrics
  rtm_shutdown_requested :: bool
  rtm_hook_state :: 'h

type_synonym ('t, 'st, 'h, 'b, 'a) runtime_action =
  "(('t, 'st, 'h, 'b) relay_runtime, base_relay_error, 'a) action"

definition on_services :: "('t, 'st, 'a) service_action \<Rightarrow> ('t, 'st, 'h, 'b, 'a) runtime_action" where
  "on_services m = act_on rtm_services (\<lambda>rs s. s\<lparr>rtm_services := rs\<rparr>) m"

definition record_metric ::
  "(runtime_metrics \<Rightarrow> runtime_metrics) \<Rightarrow> (('t, 'st, 'h, 'b) relay_runtime, 'e, unit) action" where
  "record_metric f = act_modify (\<lambda>s. s\<lparr>rtm_metrics := f (rtm_metrics s)\<rparr>)"

definition call_hook :: "('h \<Rightarrow> 'a \<times> 'h) \<Rightarrow> (('t, 'st, 'h, 'b) relay_runtime, 'e, 'a) action" where
  "call_hook f = (\<lambda>s. Some (Ok (fst (f (rtm_hook_state s))), s\<lparr>rtm_hook_state := snd (f (rtm_hook_state s))\<rparr>))"

definition base_limits_of :: "('t, 'st, 'h, 'b) relay_runtime \<Rightarrow> base_relay_limits" where
  "base_limits_of s = rtl_base_relay_limits (rtm_limits s)"

definition authenticated :: "base_auth_state \<Rightarrow> public_key_hex list" where
  "authenticated auth = bs_iter (as_authenticated_pubkeys auth)"

section \<open>Opening\<close>

definition config_open_relay ::
  "('t, 'st, 'f, 'q, 'h, 'b) runtime_api \<Rightarrow> base_runtime_config \<Rightarrow>
   (base_relay_error + ('t, 'st, 'f) base_relay) option" where
  "config_open_relay api config =
     (case limits_base_relay_limits (bc_limits config) of
        Inl error \<Rightarrow> Some (Err error)
      | Inr limits \<Rightarrow>
          (case ri_open_store api (bc_pocket config) of
             Inl error \<Rightarrow> Some (Err error)
           | Inr st \<Rightarrow> base_relay_new_with_groups (ri_env api) limits (bc_groups config) (bc_pocket_query config) st))"

text \<open>\<open>RelayRuntime::open_with_hooks\<close> and \<open>RelayRuntimeShared::from_runtime\<close>; the size of the data
  directory comes from the file system.\<close>

definition relay_runtime_open ::
  "('t, 'st, 'f, 'q, 'h, 'b) runtime_api \<Rightarrow> (string \<Rightarrow> u64) \<Rightarrow> 'h \<Rightarrow> base_runtime_config \<Rightarrow>
   (base_relay_error + ('t, 'st, 'h, 'b) relay_runtime) option" where
  "relay_runtime_open api directory_size hook_state config =
     (case runtime_limits_from_config config of
        Inl error \<Rightarrow> Some (Err error)
      | Inr limits \<Rightarrow> map_option (\<lambda>opened.
          and_then opened (\<lambda>relay.
          map_ok (\<lambda>bus. \<lparr>rtm_config = config, rtm_services = br_services relay,
              rtm_readiness = runtime_ready_before_bind, rtm_limits = limits, rtm_event_bus = bus,
              rtm_rate_limiter = rate_limiter_new,
              rtm_metrics = record_outbox_pending_events (of_nat (group_outbox_pending_events relay))
                (record_event_bus_receivers (of_nat (bus_receiver_count (ri_broadcast api) bus))
                (record_disk_used_bytes (directory_size (sc_data_directory (bc_pocket config)))
                  runtime_metrics_new)),
              rtm_shutdown_requested = False, rtm_hook_state = hook_state\<rparr>)
            (event_bus_new (ri_broadcast api) (rtl_event_bus_capacity limits))))
          (config_open_relay api config))"

section \<open>Rate limits\<close>

definition limiter_record ::
  "rate_limit_key \<Rightarrow> rate_limit_rule \<Rightarrow> unix_timestamp \<Rightarrow> ('t, 'st, 'h, 'b, rate_limit_decision) runtime_action" where
  "limiter_record key rule now = (\<lambda>s.
     let (decision, limiter) = rate_limit_record key rule now (rtm_rate_limiter s)
     in Some (Ok decision, s\<lparr>rtm_rate_limiter := limiter\<rparr>))"

definition rate_limit_ok_pocket ::
  "pocket_event \<Rightarrow> rate_limit_key \<Rightarrow> rate_limit_rule \<Rightarrow> string \<Rightarrow> unix_timestamp \<Rightarrow>
   ('t, 'st, 'h, 'b, relay_message option) runtime_action" where
  "rate_limit_ok_pocket e key rule label now =
     act_bind (limiter_record key rule now) (\<lambda>decision. case decision of
         RateAllowed _ _ \<Rightarrow> act_return None
       | RateRejected reset \<Rightarrow>
           act_bind (record_metric record_rate_limit_rejection) (\<lambda>_.
           act_bind (act_lift (runtime_event_id e)) (\<lambda>eid.
             act_return (Some (RelayOk eid False (base_prefixed_message (base_rate_limited
               (label @ '' rate limit exceeded until '' @ dec (unat reset)))))))))"

definition rate_limit_closed ::
  "subscription_id \<Rightarrow> rate_limit_key \<Rightarrow> rate_limit_rule \<Rightarrow> string \<Rightarrow> string \<Rightarrow> unix_timestamp \<Rightarrow>
   ('t, 'st, 'h, 'b, relay_message option) runtime_action" where
  "rate_limit_closed sid key rule label dimension now =
     act_bind (limiter_record key rule now) (\<lambda>decision. case decision of
         RateAllowed _ _ \<Rightarrow> act_return None
       | RateRejected reset \<Rightarrow>
           act_bind (record_metric record_rate_limit_rejection) (\<lambda>_.
             act_return (Some (RelayClosed sid (base_prefixed_message (base_rate_limited
               (label @ '' '' @ dimension @ '' rate limit exceeded until '' @ dec (unat reset))))))))"

text \<open>A check whose message is returned at once, before the checks that follow; a check that is only
  made when a value is there; and the checks of a loop.\<close>

definition unless_limited ::
  "('t, 'st, 'h, 'b, relay_message option) runtime_action \<Rightarrow>
   ('t, 'st, 'h, 'b, relay_message option) runtime_action \<Rightarrow>
   ('t, 'st, 'h, 'b, relay_message option) runtime_action" where
  "unless_limited check rest =
     act_bind check (\<lambda>limited. case limited of Some message \<Rightarrow> act_return (Some message) | None \<Rightarrow> rest)"

definition limit_given ::
  "'a option \<Rightarrow> ('a \<Rightarrow> ('t, 'st, 'h, 'b, relay_message option) runtime_action) \<Rightarrow>
   ('t, 'st, 'h, 'b, relay_message option) runtime_action" where
  "limit_given value check = (case value of None \<Rightarrow> act_return None | Some x \<Rightarrow> check x)"

fun limit_each ::
  "('a \<Rightarrow> ('t, 'st, 'h, 'b, relay_message option) runtime_action) \<Rightarrow> 'a list \<Rightarrow>
   ('t, 'st, 'h, 'b, relay_message option) runtime_action" where
  "limit_each check [] = act_return None"
| "limit_each check (x # xs) = unless_limited (check x) (limit_each check xs)"

definition rate_limit_event_pocket ::
  "pocket_event \<Rightarrow> rate_limit_context \<Rightarrow> unix_timestamp \<Rightarrow>
   ('t, 'st, 'h, 'b, relay_message option) runtime_action" where
  "rate_limit_event_pocket e context now =
     act_bind (act_get (\<lambda>s. rlc_event (bc_rate_limits (rtm_config s)))) (\<lambda>rules.
     unless_limited (limit_given (cx_peer_ip context) (\<lambda>peer_ip.
       rate_limit_ok_pocket e (RateIp ScopeEvent peer_ip) (erl_per_ip rules) ''event ip'' now))
     (act_bind (act_lift (runtime_event_pubkey e)) (\<lambda>pubkey.
     unless_limited
       (rate_limit_ok_pocket e (RatePubkey ScopeEvent pubkey) (erl_per_pubkey rules) ''event pubkey'' now)
     (act_bind (act_lift (runtime_event_kind e)) (\<lambda>kind.
       rate_limit_ok_pocket e (RateKind ScopeEvent kind) (erl_per_kind rules) ''event kind'' now)))))"

definition rate_limit_auth_attempt ::
  "pocket_event \<Rightarrow> rate_limit_context \<Rightarrow> unix_timestamp \<Rightarrow>
   ('t, 'st, 'h, 'b, relay_message option) runtime_action" where
  "rate_limit_auth_attempt e context now =
     act_bind (act_get (\<lambda>s. rlc_auth (bc_rate_limits (rtm_config s)))) (\<lambda>rules.
     unless_limited (limit_given (cx_peer_ip context) (\<lambda>peer_ip.
       rate_limit_ok_pocket e (RateIp ScopeAuth peer_ip) (arl_per_ip rules) ''auth ip'' now))
     (act_bind (act_lift (runtime_event_pubkey e)) (\<lambda>pubkey.
       rate_limit_ok_pocket e (RatePubkey ScopeAuth pubkey) (arl_per_pubkey rules) ''auth pubkey'' now)))"

definition rate_limit_auth_failure ::
  "pocket_event \<Rightarrow> rate_limit_context \<Rightarrow> unix_timestamp \<Rightarrow>
   ('t, 'st, 'h, 'b, relay_message option) runtime_action" where
  "rate_limit_auth_failure e context now =
     act_bind (act_get (\<lambda>s. rlc_auth (bc_rate_limits (rtm_config s)))) (\<lambda>rules.
     unless_limited (limit_given (cx_peer_ip context) (\<lambda>peer_ip.
       rate_limit_ok_pocket e (RateAuthFailure (Some peer_ip) None) (arl_failures_per_ip rules)
         ''auth failure ip'' now))
     (act_bind (act_lift (runtime_event_pubkey e)) (\<lambda>pubkey.
       rate_limit_ok_pocket e (RateAuthFailure None (Some pubkey)) (arl_failures rules) ''auth failure'' now)))"

text \<open>The two checks of a join request, and the checks of every group write.\<close>

definition rate_limit_join_flow ::
  "pocket_event \<Rightarrow> rate_limit_context \<Rightarrow> unix_timestamp \<Rightarrow> group_rate_limit_config \<Rightarrow> group_id \<Rightarrow>
   public_key_hex \<Rightarrow> ('t, 'st, 'h, 'b, relay_message option) runtime_action" where
  "rate_limit_join_flow e context now rules g pubkey =
     unless_limited (limit_given (cx_peer_ip context) (\<lambda>peer_ip.
       rate_limit_ok_pocket e (RateJoinFlowIp g peer_ip) (grl_join_flow_per_ip rules) ''group join ip'' now))
     (rate_limit_ok_pocket e (RateJoinFlow g pubkey) (grl_join_flow rules) ''group join'' now)"

definition rate_limit_group_write ::
  "pocket_event \<Rightarrow> rate_limit_context \<Rightarrow> unix_timestamp \<Rightarrow>
   ('t, 'st, 'h, 'b, relay_message option) runtime_action" where
  "rate_limit_group_write e context now =
     act_bind (act_get rtm_config) (\<lambda>config.
     if \<not> gr_enabled (bc_groups config) then act_return None
     else case validate_client_group_event_structure e (gr_limits (bc_groups config)) of
         Inl _ \<Rightarrow> act_return None
       | Inr cls \<Rightarrow> (case class_group_id cls of
             None \<Rightarrow> act_return None
           | Some g \<Rightarrow>
               let rules = rlc_group (bc_rate_limits config) in
               act_bind (act_lift (runtime_event_kind e)) (\<lambda>kind.
               act_bind (act_lift (runtime_event_pubkey e)) (\<lambda>pubkey.
               unless_limited
                 (if kind = KIND_GROUP_JOIN_REQUEST then rate_limit_join_flow e context now rules g pubkey
                  else act_return None)
               (unless_limited (limit_given (cx_peer_ip context) (\<lambda>peer_ip.
                 rate_limit_ok_pocket e (RateIp ScopeGroupWrite peer_ip) (grl_write_per_ip rules) ''group ip'' now))
               (unless_limited
                 (rate_limit_ok_pocket e (RatePubkey ScopeGroupWrite pubkey) (grl_write_per_pubkey rules)
                   ''group pubkey'' now)
               (unless_limited
                 (rate_limit_ok_pocket e (RateGroup ScopeGroupWrite g) (grl_write_per_group rules)
                   ''group write'' now)
                 (rate_limit_ok_pocket e (RateKind ScopeGroupWrite kind) (grl_write_per_kind rules)
                   ''group kind'' now))))))))"

definition refuse_broad_count ::
  "'f pocket_filter_api \<Rightarrow> subscription_id \<Rightarrow> 'f list \<Rightarrow>
   ('t, 'st, 'h, 'b, relay_message option) runtime_action" where
  "refuse_broad_count api sid filters =
     act_bind (act_get base_limits_of) (\<lambda>limits.
     if is_broad (classify_count api limits filters)
     then act_bind (record_metric record_count_refusal) (\<lambda>_.
          act_bind (record_metric record_broad_query_rejection) (\<lambda>_.
            act_return (Some (RelayClosed sid
              (base_prefixed_message (base_restricted ''count filters are too broad or expensive''))))))
     else act_return None)"

definition rate_limit_pocket_query ::
  "'f pocket_filter_api \<Rightarrow> rate_limit_scope \<Rightarrow> query_rate_limit_config \<Rightarrow> string \<Rightarrow> subscription_id \<Rightarrow>
   'f list \<Rightarrow> base_auth_state \<Rightarrow> rate_limit_context \<Rightarrow> unix_timestamp \<Rightarrow>
   ('t, 'st, 'h, 'b, relay_message option) runtime_action" where
  "rate_limit_pocket_query api scope rules label sid filters auth context now =
     unless_limited (limit_given (cx_peer_ip context) (\<lambda>peer_ip.
       rate_limit_closed sid (RateIp scope peer_ip) (qrl_per_ip rules) label ''ip'' now))
     (unless_limited (limit_given (cx_connection_id context) (\<lambda>connection.
       rate_limit_closed sid (RateConnection scope connection) (qrl_per_connection rules) label ''connection'' now))
     (unless_limited (limit_each (\<lambda>pubkey.
         rate_limit_closed sid (RatePubkey scope pubkey) (qrl_per_pubkey rules) label ''pubkey'' now)
       (authenticated auth))
     (unless_limited (limit_each (\<lambda>g.
         rate_limit_closed sid (RateGroup scope g) (qrl_per_group rules) label ''group'' now)
       (filter_group_ids api filters))
     (unless_limited (limit_each (\<lambda>kind.
         rate_limit_closed sid (RateKind scope kind) (qrl_per_kind rules) label ''kind'' now)
       (filter_kinds api filters))
     (act_bind (act_get base_limits_of) (\<lambda>limits.
       let classification = (if scope = ScopeCount then classify_count api limits filters
                             else classify_query api limits filters)
       in if is_broad classification
          then act_bind (rate_limit_closed sid (RateQueryClass scope Broad) (qrl_broad rules) label ''broad'' now)
            (\<lambda>limited. case limited of
                None \<Rightarrow> act_return None
              | Some message \<Rightarrow>
                  act_bind (record_metric record_broad_query_rejection) (\<lambda>_. act_return (Some message)))
          else act_return None))))))"

definition rate_limit_req ::
  "'f pocket_filter_api \<Rightarrow> subscription_id \<Rightarrow> 'f list \<Rightarrow> base_auth_state \<Rightarrow> rate_limit_context \<Rightarrow>
   unix_timestamp \<Rightarrow> ('t, 'st, 'h, 'b, relay_message option) runtime_action" where
  "rate_limit_req api sid filters auth context now =
     act_bind (act_get (\<lambda>s. rlc_req (bc_rate_limits (rtm_config s)))) (\<lambda>rules.
       rate_limit_pocket_query api ScopeReq rules ''req'' sid filters auth context now)"

definition rate_limit_count ::
  "'f pocket_filter_api \<Rightarrow> subscription_id \<Rightarrow> 'f list \<Rightarrow> base_auth_state \<Rightarrow> rate_limit_context \<Rightarrow>
   unix_timestamp \<Rightarrow> ('t, 'st, 'h, 'b, relay_message option) runtime_action" where
  "rate_limit_count api sid filters auth context now =
     act_bind (act_get (\<lambda>s. rlc_count (bc_rate_limits (rtm_config s)))) (\<lambda>rules.
       rate_limit_pocket_query api ScopeCount rules ''count'' sid filters auth context now)"

section \<open>Projected queries\<close>

text \<open>The public context of a matched filter holds what the internal one holds, so it is the same record.\<close>

definition event_matches_any :: "'f pocket_filter_api \<Rightarrow> 'f list \<Rightarrow> pocket_event \<Rightarrow> base_relay_error + bool" where
  "event_matches_any api filters e = try_fold (\<lambda>matched f.
     if matched then Ok True else map_err base_error (pf_event_matches api f e)) False filters"

definition project_event_output ::
  "('t, 'st, 'f, 'q, 'h, 'b) runtime_api \<Rightarrow> subscription_id \<Rightarrow> projection_context \<Rightarrow> projection_source \<Rightarrow>
   pocket_event \<Rightarrow> base_auth_state \<Rightarrow> (matched_filter_context \<times> 'f) list \<Rightarrow>
   ('t, 'st, 'h, 'b, pocket_event option) runtime_action" where
  "project_event_output api sid projection source e auth matched =
     act_bind (act_lift (event_context_from_pocket (re_utf8_error (ri_env api)) e)) (\<lambda>context.
     act_bind (call_hook (hk_project_event (ri_hooks api)
       \<lparr>ep_subscription_id = sid, ep_projection = projection, ep_source = source,
        ep_matched_filters = map fst matched, ep_event = context,
        ep_authenticated_pubkeys = authenticated auth\<rparr>)) (\<lambda>decision. case decision of
         Emit \<Rightarrow> act_return (Some e)
       | Suppress \<Rightarrow> act_return None
       | ReplaceWithStoredOffset offset \<Rightarrow>
           act_bind (act_get rtm_services) (\<lambda>rs.
           case event_by_offset (re_store (ri_env api)) offset (rs_store rs) of
             Inl _ \<Rightarrow> act_return None
           | Inr replacement \<Rightarrow>
               act_bind (act_lift (read_gate_visible (rs_groups rs) replacement (as_authenticated_pubkeys auth)))
                 (\<lambda>visible.
               if \<not> visible then act_return None
               else act_bind (act_lift (event_matches_any (ri_filters api) (map snd matched) replacement))
                 (\<lambda>matches. act_return (if matches then Some replacement else None))))))"

definition matched_filters_for_event ::
  "'f pocket_filter_api \<Rightarrow> 'f list \<Rightarrow> pocket_event \<Rightarrow> base_relay_error + (matched_filter_context \<times> 'f) list" where
  "matched_filters_for_event api filters e =
     and_then (match_filters api e filters) (\<lambda>matched.
       if matched = [] then Err (base_error ''query output did not match any request filter'')
       else Ok (map (\<lambda>(i, f). (matched_filter_context_from api i f, f)) matched))"

definition project_message ::
  "('t, 'st, 'f, 'q, 'h, 'b) runtime_api \<Rightarrow> 'f list \<Rightarrow> projection_context \<Rightarrow> base_auth_state \<Rightarrow>
   runtime_relay_message list \<times> event_id set \<Rightarrow> runtime_relay_message \<Rightarrow>
   ('t, 'st, 'h, 'b, runtime_relay_message list \<times> event_id set) runtime_action" where
  "project_message api filters projection auth acc message = (case acc of (output, event_ids) \<Rightarrow>
     (case message of
        RuntimeProtocol m \<Rightarrow> act_return (output @ [RuntimeProtocol m], event_ids)
      | RuntimeEvent sid e \<Rightarrow>
          act_bind (act_lift (matched_filters_for_event (ri_filters api) filters e)) (\<lambda>matched.
          act_bind (project_event_output api sid projection HistoricalQuery e auth matched) (\<lambda>projected.
          case projected of
            None \<Rightarrow> act_return (output, event_ids)
          | Some p \<Rightarrow>
              if pe_id p \<in> event_ids then act_return (output, event_ids)
              else act_return (output @ [RuntimeEvent sid p], insert (pe_id p) event_ids)))))"

definition project_runtime_messages ::
  "('t, 'st, 'f, 'q, 'h, 'b) runtime_api \<Rightarrow> runtime_relay_message list \<Rightarrow> 'f list \<Rightarrow> projection_context \<Rightarrow>
   base_auth_state \<Rightarrow> ('t, 'st, 'h, 'b, runtime_relay_message list) runtime_action" where
  "project_runtime_messages api messages filters projection auth =
     act_bind (act_try_fold (project_message api filters projection auth) ([], {}) messages)
       (\<lambda>(output, _). act_return output)"

fun is_event_message :: "runtime_relay_message \<Rightarrow> bool" where
  "is_event_message (RuntimeEvent _ _) = True"
| "is_event_message (RuntimeProtocol _) = False"

definition project_query_report ::
  "('t, 'st, 'f, 'q, 'h, 'b) runtime_api \<Rightarrow> query_report \<Rightarrow> 'f list \<Rightarrow> projection_context \<Rightarrow>
   base_auth_state \<Rightarrow> ('t, 'st, 'h, 'b, query_report) runtime_action" where
  "project_query_report api report filters projection auth =
     act_bind (project_runtime_messages api (qr_messages report) filters projection auth) (\<lambda>messages.
       act_return \<lparr>qr_messages = messages, qr_group_read_denied = qr_group_read_denied report,
         qr_metrics = with_returned_events (qr_metrics report) (length (filter is_event_message messages))\<rparr>)"

definition query_req_with_auth_report ::
  "('t, 'st, 'f, 'q, 'h, 'b) runtime_api \<Rightarrow> subscription_id \<Rightarrow> 'f list \<Rightarrow> bool \<Rightarrow> base_auth_state \<Rightarrow>
   ('t, 'st, 'h, 'b, query_report) runtime_action" where
  "query_req_with_auth_report api sid filters search_present auth = act_read (\<lambda>s.
     query_req (ri_filters api) (ri_find api) (rtm_services s) (base_limits_of s)
       (bc_pocket_query (rtm_config s)) sid filters search_present (as_authenticated_pubkeys auth))"

text \<open>The loop over the events of one filter, and the loop over the filters, of a query whose limit is
  applied after the projection.\<close>

definition project_candidate ::
  "('t, 'st, 'f, 'q, 'h, 'b) runtime_api \<Rightarrow> subscription_id \<Rightarrow> 'f list \<Rightarrow> projection_context \<Rightarrow>
   base_auth_state \<Rightarrow> pocket_event list \<Rightarrow> pocket_event \<Rightarrow>
   ('t, 'st, 'h, 'b, pocket_event list) runtime_action" where
  "project_candidate api sid filters projection auth projected e =
     act_bind (act_lift (matched_filters_for_event (ri_filters api) filters e)) (\<lambda>matched.
     act_bind (project_event_output api sid projection HistoricalQuery e auth matched) (\<lambda>found.
       act_return (projected @ (case found of Some p \<Rightarrow> [p] | None \<Rightarrow> []))))"

definition project_filter ::
  "('t, 'st, 'f, 'q, 'h, 'b) runtime_api \<Rightarrow> subscription_id \<Rightarrow> 'f list \<Rightarrow> projection_context \<Rightarrow>
   base_auth_state \<Rightarrow> u32 \<Rightarrow> event_query_report \<Rightarrow> 'f \<Rightarrow>
   ('t, 'st, 'h, 'b, event_query_report) runtime_action" where
  "project_filter api sid filters projection auth candidate_limit output f =
     act_bind (act_read (\<lambda>s. query_filter_events (ri_filters api) (ri_find api) (rtm_services s)
         (base_limits_of s) (bc_pocket_query (rtm_config s)) f (as_authenticated_pubkeys auth)
         (OverrideLimit candidate_limit))) (\<lambda>report.
     act_bind (act_try_fold (project_candidate api sid filters projection auth) []
         (sort_and_dedupe (eq_events report))) (\<lambda>projected.
     act_bind (act_get (\<lambda>s. effective_filter_limit (ri_filters api) (base_limits_of s) f)) (\<lambda>limit.
       act_return \<lparr>eq_events = eq_events output @ take limit (sort_and_dedupe projected),
         eq_group_read_denied = (eq_group_read_denied output \<or> eq_group_read_denied report),
         eq_metrics = query_metrics_add (eq_metrics output) (eq_metrics report)\<rparr>)))"

definition query_projected_req ::
  "('t, 'st, 'f, 'q, 'h, 'b) runtime_api \<Rightarrow> subscription_id \<Rightarrow> 'f list \<Rightarrow> bool \<Rightarrow> base_auth_state \<Rightarrow>
   projection_context \<Rightarrow> u32 \<Rightarrow> ('t, 'st, 'h, 'b, query_report) runtime_action" where
  "query_projected_req api sid filters search_present auth projection candidate_limit =
     act_bind (act_read (\<lambda>s. validate_subscription_id (base_limits_of s) sid)) (\<lambda>_.
     act_bind (act_read (\<lambda>s. validate_filters (ri_filters api) (base_limits_of s) filters)) (\<lambda>_.
       case unsupported_search_closed sid search_present of
         Some message \<Rightarrow> act_return (search_report message)
       | None \<Rightarrow>
           act_bind (act_try_fold (project_filter api sid filters projection auth candidate_limit)
             \<lparr>eq_events = [], eq_group_read_denied = False, eq_metrics = query_metrics_default\<rparr> filters)
             (\<lambda>output.
               let events = sort_and_dedupe (eq_events output) in
               act_return \<lparr>qr_messages = map (RuntimeEvent sid) events
                   @ [RuntimeProtocol (if eq_group_read_denied output
                       then redacted_req_closed sid (as_authenticated_pubkeys auth) else RelayEose sid)],
                 qr_group_read_denied = eq_group_read_denied output,
                 qr_metrics = with_returned_events (eq_metrics output) (length events)\<rparr>)))"

text \<open>The query of a session: the hooks plan whether the limit is applied before or after the projection.\<close>

definition query_req_with_projection ::
  "('t, 'st, 'f, 'q, 'h, 'b) runtime_api \<Rightarrow> u64 \<Rightarrow> subscription_id \<Rightarrow> 'f list \<Rightarrow> bool \<Rightarrow>
   base_auth_state \<Rightarrow> projection_context \<Rightarrow> ('t, 'st, 'h, 'b, query_report) runtime_action" where
  "query_req_with_projection api elapsed sid filters search_present auth projection =
     act_bind (call_hook (hk_plan_query (ri_hooks api)
       \<lparr>qp_subscription_id = sid, qp_projection = projection,
        qp_filters = map (\<lambda>(i, f). matched_filter_context_from (ri_filters api) i f) (enumerate 0 filters),
        qp_authenticated_pubkeys = authenticated auth\<rparr>)) (\<lambda>plan.
     act_bind (case plan of
         BeforeProjection \<Rightarrow>
           act_bind (query_req_with_auth_report api sid filters search_present auth) (\<lambda>report.
             project_query_report api report filters projection auth)
       | AfterProjection candidate_limit \<Rightarrow>
           query_projected_req api sid filters search_present auth projection candidate_limit) (\<lambda>report.
     act_bind (if qr_group_read_denied report then record_metric record_group_read_denial else act_return ())
       (\<lambda>_.
     act_bind (record_metric (record_query_latency elapsed)) (\<lambda>_.
       act_return report))))"

definition handle_count_with_auth_report ::
  "('t, 'st, 'f, 'q, 'h, 'b) runtime_api \<Rightarrow> subscription_id \<Rightarrow> 'f list \<Rightarrow> bool \<Rightarrow> base_auth_state \<Rightarrow>
   ('t, 'st, 'h, 'b, count_report) runtime_action" where
  "handle_count_with_auth_report api sid filters search_present auth = act_read (\<lambda>s.
     handle_count (ri_filters api) (ri_find api) (ri_hll api) (rtm_services s) (base_limits_of s)
       (bc_pocket_query (rtm_config s)) sid filters search_present (as_authenticated_pubkeys auth))"

section \<open>Live events\<close>

definition runtime_event_by_offset ::
  "('t, 'st, 'f, 'q, 'h, 'b) runtime_api \<Rightarrow> store_offset \<Rightarrow> base_auth_state \<Rightarrow>
   ('t, 'st, 'h, 'b, pocket_event option) runtime_action" where
  "runtime_event_by_offset api offset auth =
     act_bind (act_read (\<lambda>s. map_err base_error
       (event_by_offset (re_store (ri_env api)) offset (rs_store (rtm_services s))))) (\<lambda>e.
     act_bind (act_read (\<lambda>s. read_gate_visible (rs_groups (rtm_services s)) e (as_authenticated_pubkeys auth)))
       (\<lambda>visible.
         if visible then act_return (Some e)
         else act_bind (record_metric record_group_read_denial) (\<lambda>_. act_return None)))"

text \<open>What a fanout has delivered: the pairs of a subscription and an event id, and the messages.\<close>

type_synonym live_delivery = "(subscription_id \<times> event_id) set \<times> runtime_relay_message list"

definition deliver_match ::
  "('t, 'st, 'f, 'q, 'h, 'b) runtime_api \<Rightarrow> projection_context \<Rightarrow> base_auth_state \<Rightarrow> pocket_event \<Rightarrow>
   store_offset \<Rightarrow> live_delivery \<Rightarrow> 'f live_subscription_match \<Rightarrow>
   ('t, 'st, 'h, 'b, live_delivery) runtime_action" where
  "deliver_match api projection auth e offset delivery m = (case delivery of (delivered, messages) \<Rightarrow>
     act_bind (project_event_output api (lm_subscription_id m) projection (LiveFanout offset) e auth
       (zip (matched_filter_contexts (ri_filters api) m) (map snd (lm_matched_filters m)))) (\<lambda>projected.
     case projected of
       None \<Rightarrow> act_return (delivered, messages)
     | Some p \<Rightarrow>
         if (lm_subscription_id m, pe_id p) \<in> delivered then act_return (delivered, messages)
         else act_return (insert (lm_subscription_id m, pe_id p) delivered,
           messages @ [RuntimeEvent (lm_subscription_id m) p])))"

definition fanout_projected ::
  "('t, 'st, 'f, 'q, 'h, 'b) runtime_api \<Rightarrow> 'f live_subscription_set \<Rightarrow> projection_context \<Rightarrow>
   base_auth_state \<Rightarrow> pocket_event \<Rightarrow> store_offset \<Rightarrow> live_delivery \<Rightarrow>
   ('t, 'st, 'h, 'b, live_delivery) runtime_action" where
  "fanout_projected api subscriptions projection auth e offset delivery =
     act_bind (act_read (\<lambda>s. live_fanout (ri_filters api) subscriptions e (as_authenticated_pubkeys auth)
       (\<lambda>e auth. read_gate_visible (rs_groups (rtm_services s)) e auth = Ok True))) (\<lambda>matched.
       act_try_fold (deliver_match api projection auth e offset) delivery matched)"

definition fanout_candidate ::
  "('t, 'st, 'f, 'q, 'h, 'b) runtime_api \<Rightarrow> 'f live_subscription_set \<Rightarrow> projection_context \<Rightarrow>
   base_auth_state \<Rightarrow> live_delivery \<Rightarrow> store_offset \<Rightarrow> ('t, 'st, 'h, 'b, live_delivery) runtime_action" where
  "fanout_candidate api subscriptions projection auth delivery offset =
     act_bind (act_get (\<lambda>s. event_by_offset (re_store (ri_env api)) offset (rs_store (rtm_services s)))) (\<lambda>found.
       case found of
         Inl _ \<Rightarrow> act_return delivery
       | Inr e \<Rightarrow> fanout_projected api subscriptions projection auth e offset delivery)"

definition fanout_event_offset ::
  "('t, 'st, 'f, 'q, 'h, 'b) runtime_api \<Rightarrow> store_offset \<Rightarrow> 'f live_subscription_set \<Rightarrow> base_auth_state \<Rightarrow>
   projection_context \<Rightarrow> ('t, 'st, 'h, 'b, runtime_relay_message list) runtime_action" where
  "fanout_event_offset api offset subscriptions auth projection =
     act_bind (act_read (\<lambda>s. map_err base_error
       (event_by_offset (re_store (ri_env api)) offset (rs_store (rtm_services s))))) (\<lambda>e.
     act_bind (fanout_projected api subscriptions projection auth e offset ({}, [])) (\<lambda>delivery.
     act_bind (act_lift (event_context_from_pocket (re_utf8_error (ri_env api)) e)) (\<lambda>context.
     act_bind (call_hook (hk_live_projection_candidates (ri_hooks api)
       \<lparr>lp_projection = projection, lp_source_store_offset = offset, lp_event = context,
        lp_authenticated_pubkeys = authenticated auth\<rparr>)) (\<lambda>candidates.
     act_bind (act_try_fold (fanout_candidate api subscriptions projection auth) delivery candidates)
       (\<lambda>(_, messages). act_return messages)))))"

section \<open>Client messages\<close>

fun message_metric_kind :: "'f runtime_client_message \<Rightarrow> client_message_metric_kind" where
  "message_metric_kind (RuntimeClientEvent _) = MetricEvent"
| "message_metric_kind (RuntimeClientReq _ _ _) = MetricReq"
| "message_metric_kind (RuntimeClientCount _ _ _) = MetricCount"
| "message_metric_kind (RuntimeClientAuth _) = MetricAuth"
| "message_metric_kind (RuntimeClientClose _) = MetricClose"
| "message_metric_kind (RuntimeClientNegOpen _ _ _) = MetricNegentropy"
| "message_metric_kind (RuntimeClientNegMsg _ _) = MetricNegentropy"
| "message_metric_kind (RuntimeClientNegClose _) = MetricNegentropy"

definition record_event_metrics ::
  "relay_message \<Rightarrow> bool \<Rightarrow> u64 \<Rightarrow> runtime_metrics \<Rightarrow> runtime_metrics" where
  "record_event_metrics message is_group_event elapsed m =
     (let m = record_event_admission_latency elapsed m in
      case message of
        RelayOk _ accepted _ \<Rightarrow>
          if accepted then record_event_admission m
          else if is_group_event then record_group_write_denial (record_event_rejection m)
          else record_event_rejection m
      | _ \<Rightarrow> m)"

definition auth_response_failed :: "relay_message list \<Rightarrow> bool" where
  "auth_response_failed replies =
     list_ex (\<lambda>reply. case reply of RelayOk _ accepted _ \<Rightarrow> \<not> accepted | _ \<Rightarrow> False) replies"

definition is_group_event_pocket :: "pocket_event \<Rightarrow> ('t, 'st, 'h, 'b) relay_runtime \<Rightarrow> bool" where
  "is_group_event_pocket e s \<longleftrightarrow> gr_enabled (bc_groups (rtm_config s))
     \<and> (case validate_client_group_event_structure e (gr_limits (bc_groups (rtm_config s))) of
          Inl _ \<Rightarrow> False | Inr cls \<Rightarrow> cls \<noteq> NonGroup)"

definition runtime_outbox_pending :: "('t, 'st, 'h, 'b) relay_runtime \<Rightarrow> nat" where
  "runtime_outbox_pending s =
     (case rs_groups (rtm_services s) of Some groups \<Rightarrow> outbox_pending_events groups | None \<Rightarrow> 0)"

definition finish_event ::
  "bool \<Rightarrow> u64 \<Rightarrow> relay_message \<Rightarrow> ('t, 'st, 'h, 'b, runtime_relay_message list) runtime_action" where
  "finish_event is_group_event elapsed message =
     act_bind (record_metric (record_event_metrics message is_group_event elapsed))
       (\<lambda>_. act_return [RuntimeProtocol message])"

definition record_storage_used ::
  "('t, 'st, 'f, 'q, 'h, 'b) runtime_api \<Rightarrow> ('t, 'st, 'h, 'b, unit) runtime_action" where
  "record_storage_used api = act_bind (call_hook (hk_storage_used_bytes (ri_hooks api))) (\<lambda>used.
     case used of None \<Rightarrow> act_return () | Some bytes \<Rightarrow> record_metric (record_disk_used_bytes bytes))"

definition publish_offset ::
  "('t, 'st, 'f, 'q, 'h, 'b) runtime_api \<Rightarrow> store_offset \<Rightarrow> ('t, 'st, 'h, 'b, unit) runtime_action" where
  "publish_offset api offset =
     act_bind (record_metric record_stored_event_offset) (\<lambda>_. act_modify (\<lambda>s.
       let (receivers, bus) = bus_publish (ri_broadcast api) offset (rtm_event_bus s)
       in s\<lparr>rtm_event_bus := bus,
            rtm_metrics := record_event_bus_publish (of_nat receivers) (rtm_metrics s)\<rparr>))"

definition record_outbox_metrics ::
  "event_write \<Rightarrow> ('t, 'st, 'h, 'b, unit) runtime_action" where
  "record_outbox_metrics result = act_modify (\<lambda>s. s\<lparr>rtm_metrics :=
     record_outbox_pending_events (of_nat (runtime_outbox_pending s))
       ((record_outbox_replayed_event ^^ (length (ew_stored_offsets result) - 1)) (rtm_metrics s))\<rparr>)"

text \<open>The write of an admitted event, and what follows it: the outbox metrics of a group event, the
  hook that learns of stored events, and the publication of their offsets.\<close>

definition write_admitted_event ::
  "('t, 'st, 'f, 'q, 'h, 'b) runtime_api \<Rightarrow> u64 \<Rightarrow> pocket_event \<Rightarrow> event_context \<Rightarrow> bool \<Rightarrow>
   base_auth_state \<Rightarrow> ('t, 'st, 'h, 'b, runtime_relay_message list) runtime_action" where
  "write_admitted_event api elapsed e context is_group_event auth =
     act_bind (act_get base_limits_of) (\<lambda>limits.
     act_bind (on_services (handle_pocket_event (ri_env api) limits e (as_authenticated_pubkeys auth))) (\<lambda>result.
     act_bind (if is_group_event then record_outbox_metrics result else act_return ()) (\<lambda>_.
     act_bind (if ew_stored_offsets result = [] then act_return ()
         else act_bind (call_hook (\<lambda>h. ((), hk_event_stored (ri_hooks api)
             \<lparr>es_event = context, es_store_offsets = ew_stored_offsets result\<rparr> h)))
           (\<lambda>_. record_storage_used api)) (\<lambda>_.
     act_bind (act_each (publish_offset api) (ew_stored_offsets result)) (\<lambda>_.
       finish_event is_group_event elapsed (ew_message result))))))"

definition admit_event ::
  "('t, 'st, 'f, 'q, 'h, 'b) runtime_api \<Rightarrow> u64 \<Rightarrow> pocket_event \<Rightarrow> event_id \<Rightarrow> event_context \<Rightarrow> bool \<Rightarrow>
   base_auth_state \<Rightarrow> rate_limit_context \<Rightarrow> unix_timestamp \<Rightarrow>
   ('t, 'st, 'h, 'b, runtime_relay_message list) runtime_action" where
  "admit_event api elapsed e eid context is_group_event auth rate_context now =
     act_bind (call_hook (hk_admit_event (ri_hooks api)
       \<lparr>ea_event = context, ea_authenticated_pubkeys = authenticated auth,
        ea_peer_ip = cx_peer_ip rate_context, ea_connection_id = cx_connection_id rate_context,
        ea_now = now\<rparr>)) (\<lambda>decision.
     act_bind (record_storage_used api) (\<lambda>_. case decision of
         AdmitReject message \<Rightarrow> finish_event is_group_event elapsed
           (RelayOk eid False (base_prefixed_message (base_restricted message)))
       | AdmitAccept \<Rightarrow> write_admitted_event api elapsed e context is_group_event auth))"

definition handle_event_message ::
  "('t, 'st, 'f, 'q, 'h, 'b) runtime_api \<Rightarrow> u64 \<Rightarrow> pocket_event \<Rightarrow> base_auth_state \<Rightarrow>
   rate_limit_context \<Rightarrow> unix_timestamp \<Rightarrow> ('t, 'st, 'h, 'b, runtime_relay_message list) runtime_action" where
  "handle_event_message api elapsed e auth rate_context now =
     act_bind (act_lift (runtime_event_id e)) (\<lambda>eid.
     act_bind (act_lift (event_context_from_pocket (re_utf8_error (ri_env api)) e)) (\<lambda>context.
     act_bind (act_get (is_group_event_pocket e)) (\<lambda>is_group_event.
     act_bind (unless_limited (rate_limit_event_pocket e rate_context now)
         (rate_limit_group_write e rate_context now)) (\<lambda>limited. case limited of
         Some message \<Rightarrow> finish_event is_group_event elapsed message
       | None \<Rightarrow> admit_event api elapsed e eid context is_group_event auth rate_context now))))"

text \<open>The guards a REQ and a COUNT share: the checks of the id and the filters, then the answers that end
  the message, each with the latency of a query.\<close>

definition finish_query ::
  "u64 \<Rightarrow> relay_message \<Rightarrow> ('t, 'st, 'h, 'b, runtime_relay_message list) runtime_action" where
  "finish_query elapsed message =
     act_bind (record_metric (record_query_latency elapsed)) (\<lambda>_. act_return [RuntimeProtocol message])"

definition guard_query ::
  "('t, 'st, 'f, 'q, 'h, 'b) runtime_api \<Rightarrow> u64 \<Rightarrow> subscription_id \<Rightarrow> 'f list \<Rightarrow> bool \<Rightarrow>
   ('t, 'st, 'h, 'b, relay_message option) runtime_action \<Rightarrow>
   ('t, 'st, 'h, 'b, runtime_relay_message list) runtime_action \<Rightarrow>
   ('t, 'st, 'h, 'b, runtime_relay_message list) runtime_action" where
  "guard_query api elapsed sid filters search_present limit run =
     act_bind (act_read (\<lambda>s. validate_subscription_id (base_limits_of s) sid)) (\<lambda>_.
     act_bind (act_read (\<lambda>s. validate_filters (ri_filters api) (base_limits_of s) filters)) (\<lambda>_.
       case unsupported_search_closed sid search_present of
         Some message \<Rightarrow> finish_query elapsed message
       | None \<Rightarrow> act_bind limit (\<lambda>limited. case limited of
             Some message \<Rightarrow> finish_query elapsed message
           | None \<Rightarrow> run)))"

definition record_query_outcome ::
  "u64 \<Rightarrow> query_metrics \<Rightarrow> bool \<Rightarrow> ('t, 'st, 'h, 'b, unit) runtime_action" where
  "record_query_outcome elapsed metrics denied =
     record_metric (\<lambda>m. record_query_latency elapsed
       ((if denied then record_group_read_denial else id) (record_query_metrics metrics m)))"

definition handle_req_message ::
  "('t, 'st, 'f, 'q, 'h, 'b) runtime_api \<Rightarrow> u64 \<Rightarrow> subscription_id \<Rightarrow> 'f list \<Rightarrow> bool \<Rightarrow>
   base_auth_state \<Rightarrow> rate_limit_context \<Rightarrow> unix_timestamp \<Rightarrow>
   ('t, 'st, 'h, 'b, runtime_relay_message list) runtime_action" where
  "handle_req_message api elapsed sid filters search_present auth rate_context now =
     guard_query api elapsed sid filters search_present
       (rate_limit_req (ri_filters api) sid filters auth rate_context now)
       (act_bind (query_req_with_auth_report api sid filters search_present auth) (\<lambda>report.
        act_bind (project_query_report api report filters projection_context_default auth) (\<lambda>report.
        act_bind (record_query_outcome elapsed (qr_metrics report) (qr_group_read_denied report))
          (\<lambda>_. act_return (qr_messages report)))))"

definition handle_count_message ::
  "('t, 'st, 'f, 'q, 'h, 'b) runtime_api \<Rightarrow> u64 \<Rightarrow> subscription_id \<Rightarrow> 'f list \<Rightarrow> bool \<Rightarrow>
   base_auth_state \<Rightarrow> rate_limit_context \<Rightarrow> unix_timestamp \<Rightarrow>
   ('t, 'st, 'h, 'b, runtime_relay_message list) runtime_action" where
  "handle_count_message api elapsed sid filters search_present auth rate_context now =
     guard_query api elapsed sid filters search_present
       (unless_limited (refuse_broad_count (ri_filters api) sid filters)
         (rate_limit_count (ri_filters api) sid filters auth rate_context now))
       (act_bind (handle_count_with_auth_report api sid filters search_present auth) (\<lambda>report.
        act_bind (record_query_outcome elapsed (cp_metrics report) (cp_group_read_denied report))
          (\<lambda>_. act_return [RuntimeProtocol (cp_message report)])))"

text \<open>\<open>None\<close> is the panic of the authentication handler, whose event id has been read before.\<close>

definition authenticate_connection ::
  "('t, 'st, 'f, 'q, 'h, 'b) runtime_api \<Rightarrow> pocket_event \<Rightarrow> unix_timestamp \<Rightarrow> base_auth_state \<Rightarrow>
   ('t, 'st, 'h, 'b, relay_message list \<times> base_auth_state) runtime_action" where
  "authenticate_connection api e now auth = (\<lambda>s. map_option (\<lambda>r. (Ok r, s))
     (handle_pocket_auth (re_utf8_error (ri_env api)) (base_limits_of s) e now auth))"

definition handle_auth_message ::
  "('t, 'st, 'f, 'q, 'h, 'b) runtime_api \<Rightarrow> pocket_event \<Rightarrow> base_auth_state \<Rightarrow> rate_limit_context \<Rightarrow>
   unix_timestamp \<Rightarrow> ('t, 'st, 'h, 'b, runtime_relay_message list \<times> base_auth_state) runtime_action" where
  "handle_auth_message api e auth rate_context now =
     act_bind (act_lift (runtime_event_id e)) (\<lambda>eid.
     act_bind (act_get (\<lambda>s. limits_validate_event (base_limits_of s) e)) (\<lambda>checked. case checked of
       Inl error \<Rightarrow> act_bind (record_metric record_auth_failure) (\<lambda>_.
         act_return ([RuntimeProtocol (RelayOk eid False (base_prefixed_message error))], auth))
     | Inr _ \<Rightarrow>
         act_bind (rate_limit_auth_attempt e rate_context now) (\<lambda>limited. case limited of
           Some message \<Rightarrow> act_bind (record_metric record_auth_failure) (\<lambda>_.
             act_return ([RuntimeProtocol message], auth))
         | None \<Rightarrow>
             act_bind (authenticate_connection api e now auth) (\<lambda>(replies, auth).
               if auth_response_failed replies
               then act_bind (record_metric record_auth_failure) (\<lambda>_.
                 act_bind (rate_limit_auth_failure e rate_context now) (\<lambda>limited. case limited of
                     Some message \<Rightarrow> act_return ([RuntimeProtocol message], auth)
                   | None \<Rightarrow> act_return (map RuntimeProtocol replies, auth)))
               else act_bind (record_metric record_auth_success) (\<lambda>_.
                 act_return (map RuntimeProtocol replies, auth))))))"

definition validate_sid ::
  "subscription_id \<Rightarrow> ('t, 'st, 'h, 'b, unit) runtime_action" where
  "validate_sid sid = act_read (\<lambda>s. validate_subscription_id (base_limits_of s) sid)"

definition disabled_negentropy_message :: "subscription_id \<Rightarrow> relay_message" where
  "disabled_negentropy_message sid = RelayNegErr sid ''blocked: Negentropy sync is disabled''"

definition keep_auth ::
  "base_auth_state \<Rightarrow> ('t, 'st, 'h, 'b, runtime_relay_message list) runtime_action \<Rightarrow>
   ('t, 'st, 'h, 'b, runtime_relay_message list \<times> base_auth_state) runtime_action" where
  "keep_auth auth m = act_bind m (\<lambda>messages. act_return (messages, auth))"

definition handle_client_message ::
  "('t, 'st, 'f, 'q, 'h, 'b) runtime_api \<Rightarrow> u64 \<Rightarrow> 'f runtime_client_message \<Rightarrow> base_auth_state \<Rightarrow>
   rate_limit_context \<Rightarrow> unix_timestamp \<Rightarrow>
   ('t, 'st, 'h, 'b, runtime_relay_message list \<times> base_auth_state) runtime_action" where
  "handle_client_message api elapsed message auth rate_context now =
     act_bind (record_metric (record_client_message (message_metric_kind message))) (\<lambda>_. case message of
       RuntimeClientEvent e \<Rightarrow> keep_auth auth (handle_event_message api elapsed e auth rate_context now)
     | RuntimeClientReq sid filters search_present \<Rightarrow>
         keep_auth auth (handle_req_message api elapsed sid filters search_present auth rate_context now)
     | RuntimeClientCount sid filters search_present \<Rightarrow>
         keep_auth auth (handle_count_message api elapsed sid filters search_present auth rate_context now)
     | RuntimeClientAuth e \<Rightarrow> handle_auth_message api e auth rate_context now
     | RuntimeClientClose sid \<Rightarrow> keep_auth auth (act_bind (validate_sid sid) (\<lambda>_. act_return []))
     | RuntimeClientNegOpen sid _ _ \<Rightarrow> keep_auth auth (act_bind (validate_sid sid)
         (\<lambda>_. act_return [RuntimeProtocol (disabled_negentropy_message sid)]))
     | RuntimeClientNegMsg sid _ \<Rightarrow> keep_auth auth (act_bind (validate_sid sid)
         (\<lambda>_. act_return [RuntimeProtocol (disabled_negentropy_message sid)]))
     | RuntimeClientNegClose sid \<Rightarrow> keep_auth auth (act_bind (validate_sid sid) (\<lambda>_. act_return [])))"

definition handle_count_pocket ::
  "('t, 'st, 'f, 'q, 'h, 'b) runtime_api \<Rightarrow> u64 \<Rightarrow> subscription_id \<Rightarrow> 'f list \<Rightarrow> base_auth_state \<Rightarrow>
   unix_timestamp \<Rightarrow> ('t, 'st, 'h, 'b, relay_message list \<times> base_auth_state) runtime_action" where
  "handle_count_pocket api elapsed sid filters auth now =
     act_bind (handle_client_message api elapsed (RuntimeClientCount sid filters False) auth
       rate_limit_context_default now) (\<lambda>(messages, auth).
     act_bind (act_lift (protocol_control_messages messages)) (\<lambda>messages. act_return (messages, auth)))"

section \<open>Other calls of the handle\<close>

definition sanitize_public_message ::
  "('t, 'st, 'f, 'q, 'h, 'b) runtime_api \<Rightarrow> runtime_relay_message \<Rightarrow>
   (('t, 'st, 'h, 'b) relay_runtime, 'e, runtime_relay_message) action" where
  "sanitize_public_message api message = (case message of
       RuntimeEvent sid e \<Rightarrow> act_return (RuntimeEvent sid e)
     | RuntimeProtocol m \<Rightarrow> act_bind (call_hook (hk_sanitize_public_message (ri_hooks api) m))
         (\<lambda>m. act_return (RuntimeProtocol m)))"

definition subscribe_events ::
  "('t, 'st, 'f, 'q, 'h, 'b) runtime_api \<Rightarrow> ('t, 'st, 'h, 'b, unit) runtime_action" where
  "subscribe_events api = act_modify (\<lambda>s.
     let bus = bus_subscribe (ri_broadcast api) (rtm_event_bus s)
     in s\<lparr>rtm_event_bus := bus, rtm_metrics := record_event_bus_receivers
          (of_nat (bus_receiver_count (ri_broadcast api) bus)) (rtm_metrics s)\<rparr>)"

definition runtime_auth_state :: "('t, 'st, 'h, 'b, base_auth_state) runtime_action" where
  "runtime_auth_state = act_read (\<lambda>s. config_auth_state (rtm_config s))"

definition runtime_shutdown ::
  "('t, 'st, 'f, 'q, 'h, 'b) runtime_api \<Rightarrow> ('t, 'st, 'h, 'b, nat) runtime_action" where
  "runtime_shutdown api =
     act_bind (act_modify (\<lambda>s. s\<lparr>rtm_shutdown_requested := True\<rparr>)) (\<lambda>_.
     act_bind (on_services (on_store (base_store (store_sync (re_store (ri_env api)))))) (\<lambda>_. act_return 0))"

end
