(* ===== verification/Relay_Session.thy ===== *)
theory Relay_Session
  imports Relay_Runtime
begin

text \<open>
  A WebSocket session (\<open>crates/tangle_runtime/src/session.rs\<close>): its keepalive configuration, the
  authentication state and live subscriptions of the connection with the permits it holds of the host,
  the bounded queue of outgoing messages, the dispatch of incoming frames and of published events, and
  the loop that runs them until the connection ends. An action of a session changes its own state, the
  runtime it shares and the counters of the host. What the connection takes from outside is an input:
  the time, random bytes, whether a frame could be sent, and which branch of the \<open>select!\<close> is ready.
\<close>

section \<open>Keepalive\<close>

text \<open>Durations in nanoseconds.\<close>

record keepalive_config =
  ka_ping_interval :: nat
  ka_peer_timeout :: nat
  ka_write_timeout :: nat

definition keepalive_config_new :: "nat \<Rightarrow> nat \<Rightarrow> nat \<Rightarrow> base_relay_error + keepalive_config" where
  "keepalive_config_new ping_interval peer_timeout write_timeout =
     (if ping_interval = 0 \<or> peer_timeout = 0 \<or> write_timeout = 0
      then Err (base_invalid ''websocket keepalive durations must be greater than zero'')
      else if ping_interval \<ge> peer_timeout
      then Err (base_invalid ''websocket ping interval must be shorter than peer timeout'')
      else if write_timeout > peer_timeout
      then Err (base_invalid ''websocket write timeout must not exceed peer timeout'')
      else Ok \<lparr>ka_ping_interval = ping_interval, ka_peer_timeout = peer_timeout,
        ka_write_timeout = write_timeout\<rparr>)"

section \<open>Frames and the outbound queue\<close>

datatype ws_message =
    WsText string
  | WsBinary string
  | WsPing string
  | WsPong string
  | WsClose "(u16 \<times> string) option"

datatype session_control = SessionContinue | SessionClose ws_message | SessionStop

definition event_stream_lag_close_message :: ws_message where
  "event_stream_lag_close_message = WsClose (Some (1008, ''event stream lagged; reconnect required''))"

definition outbound_queue_full_close_message :: ws_message where
  "outbound_queue_full_close_message = WsClose (Some (1013, ''outbound queue full; reconnect required''))"

definition outbound_encode_close_message :: ws_message where
  "outbound_encode_close_message = WsClose (Some (1011, ''outbound relay message encode failed''))"

definition keepalive_timeout_close_message :: ws_message where
  "keepalive_timeout_close_message = WsClose (Some (1001, ''websocket peer timeout''))"

text \<open>A bounded \<open>mpsc\<close> channel: \<open>try_send\<close> fails on a closed channel and on a full one.\<close>

record outbound_queue =
  oq_capacity :: nat
  oq_messages :: "ws_message list"
  oq_closed :: bool

datatype outbound_queue_error = QueueFull | QueueClosed

definition outbound_try_send :: "ws_message \<Rightarrow> outbound_queue \<Rightarrow> outbound_queue_error + outbound_queue" where
  "outbound_try_send message q =
     (if oq_closed q then Err QueueClosed
      else if length (oq_messages q) \<ge> oq_capacity q then Err QueueFull
      else Ok (q\<lparr>oq_messages := oq_messages q @ [message]\<rparr>))"

section \<open>State\<close>

text \<open>The last two fields are the variable \<open>last_peer_activity\<close> of the loop and the frames the socket
  has taken. A permit is the number of subscriptions it gives back when it is dropped.\<close>

record 'f session =
  se_connection_id :: u64
  se_peer_ip :: "ip_addr option"
  se_outbound :: outbound_queue
  se_shutdown :: bool
  se_limits :: runtime_limits
  se_auth :: base_auth_state
  se_subscriptions :: "'f live_subscription_set"
  se_permits :: "(subscription_id, u64) btree"
  se_projection :: projection_context
  se_keepalive :: "keepalive_config option"
  se_last_peer_activity :: nat
  se_socket :: "ws_message list"

record ('t, 'st, 'f, 'h, 'b) session_world =
  sw_session :: "'f session"
  sw_runtime :: "('t, 'st, 'h, 'b) relay_runtime"
  sw_resources :: "resource_limiter option"

type_synonym ('t, 'st, 'f, 'h, 'b, 'e, 'a) session_action =
  "(('t, 'st, 'f, 'h, 'b) session_world, 'e, 'a) action"

text \<open>The runtime's parameters, the encoder of outgoing messages and the reader of incoming ones.\<close>

record ('t, 'st, 'f, 'q, 'h, 'b, 'raw) session_api =
  si_runtime :: "('t, 'st, 'f, 'q, 'h, 'b) runtime_api"
  si_codec :: outbound_codec
  si_raw :: "('raw, 'f) raw_api"

record session_options =
  so_peer_ip :: "ip_addr option"
  so_resource_limiter :: "resource_limiter option"
  so_projection :: projection_context
  so_keepalive :: "keepalive_config option"

text \<open>The next connection id is a static counter; a session that cannot be made does not take one.\<close>

definition session_new ::
  "u64 \<Rightarrow> runtime_limits \<Rightarrow> bool \<Rightarrow> ('t, 'st, 'h, 'b) relay_runtime \<Rightarrow> base_auth_state \<Rightarrow> session_options \<Rightarrow>
   base_relay_error + ('t, 'st, 'f, 'h, 'b) session_world \<times> u64" where
  "session_new next_connection_id limits shutdown runtime auth options =
     map_ok (\<lambda>subscriptions.
         (\<lparr>sw_session = \<lparr>se_connection_id = next_connection_id, se_peer_ip = so_peer_ip options,
             se_outbound = \<lparr>oq_capacity = rtl_outbound_queue_capacity limits, oq_messages = [], oq_closed = False\<rparr>,
             se_shutdown = shutdown, se_limits = limits, se_auth = auth, se_subscriptions = subscriptions,
             se_permits = [], se_projection = so_projection options, se_keepalive = so_keepalive options,
             se_last_peer_activity = 0, se_socket = []\<rparr>,
           sw_runtime = runtime, sw_resources = so_resource_limiter options\<rparr>,
          next_connection_id + 1))
       (live_subscription_set_new (bl_max_pending_events (rtl_base_relay_limits limits))
         (bl_max_subscriptions (rtl_base_relay_limits limits)))"

definition on_runtime ::
  "(('t, 'st, 'h, 'b) relay_runtime, 'e, 'a) action \<Rightarrow> ('t, 'st, 'f, 'h, 'b, 'e, 'a) session_action" where
  "on_runtime m = act_on sw_runtime (\<lambda>r w. w\<lparr>sw_runtime := r\<rparr>) m"

definition session_get :: "('f session \<Rightarrow> 'a) \<Rightarrow> ('t, 'st, 'f, 'h, 'b, 'e, 'a) session_action" where
  "session_get f = act_get (\<lambda>w. f (sw_session w))"

definition session_read :: "('f session \<Rightarrow> 'e + 'a) \<Rightarrow> ('t, 'st, 'f, 'h, 'b, 'e, 'a) session_action" where
  "session_read f = act_read (\<lambda>w. f (sw_session w))"

definition session_modify :: "('f session \<Rightarrow> 'f session) \<Rightarrow> ('t, 'st, 'f, 'h, 'b, 'e, unit) session_action" where
  "session_modify f = act_modify (\<lambda>w. w\<lparr>sw_session := f (sw_session w)\<rparr>)"

definition session_metric ::
  "(runtime_metrics \<Rightarrow> runtime_metrics) \<Rightarrow> ('t, 'st, 'f, 'h, 'b, 'e, unit) session_action" where
  "session_metric f = on_runtime (record_metric f)"

definition session_base_limits :: "'f session \<Rightarrow> base_relay_limits" where
  "session_base_limits s = rtl_base_relay_limits (se_limits s)"

definition client_rate_limit_context :: "'f session \<Rightarrow> rate_limit_context" where
  "client_rate_limit_context s = \<lparr>cx_peer_ip = se_peer_ip s, cx_connection_id = Some (se_connection_id s)\<rparr>"

section \<open>Permits\<close>

definition drop_permits ::
  "u64 list \<Rightarrow> ('t, 'st, 'f, 'h, 'b) session_world \<Rightarrow> ('t, 'st, 'f, 'h, 'b) session_world" where
  "drop_permits counts w = w\<lparr>sw_resources := map_option (fold release_subscriptions counts) (sw_resources w)\<rparr>"

definition the_permit :: "u64 option \<Rightarrow> u64 list" where
  "the_permit permit = (case permit of None \<Rightarrow> [] | Some n \<Rightarrow> [n])"

definition reserve_subscription :: "('t, 'st, 'f, 'h, 'b, base_relay_error, u64 option) session_action" where
  "reserve_subscription = (\<lambda>w. Some (case sw_resources w of
       None \<Rightarrow> (Ok None, w)
     | Some resources \<Rightarrow> (case try_open_subscriptions 1 resources of
           Inl error \<Rightarrow> (Err error, w)
         | Inr (resources, n) \<Rightarrow> (Ok (Some n), w\<lparr>sw_resources := Some resources\<rparr>))))"

text \<open>A permit that is replaced or removed is dropped, and so is the new one when the subscription fails.\<close>

definition subscribe_with_permit ::
  "subscription_id \<Rightarrow> 'f list \<Rightarrow> u64 option \<Rightarrow> ('t, 'st, 'f, 'h, 'b, base_relay_error, unit) session_action" where
  "subscribe_with_permit sid filters permit = (\<lambda>w.
     let s = sw_session w in Some (case live_subscribe sid filters (se_subscriptions s) of
       Inl error \<Rightarrow> (Err error, drop_permits (the_permit permit) w)
     | Inr subscriptions \<Rightarrow> (Ok (), (case permit of
           None \<Rightarrow> w\<lparr>sw_session := s\<lparr>se_subscriptions := subscriptions\<rparr>\<rparr>
         | Some n \<Rightarrow> drop_permits (the_permit (bt_get (se_permits s) sid))
             (w\<lparr>sw_session := s\<lparr>se_subscriptions := subscriptions,
                se_permits := bt_insert sid n (se_permits s)\<rparr>\<rparr>)))))"

definition close_subscription ::
  "subscription_id \<Rightarrow> ('t, 'st, 'f, 'h, 'b, 'e, close_result) session_action" where
  "close_subscription sid = (\<lambda>w.
     let s = sw_session w; (closed, subscriptions) = live_close sid (se_subscriptions s);
       w = w\<lparr>sw_session := s\<lparr>se_subscriptions := subscriptions\<rparr>\<rparr>
     in Some (Ok closed, if closed = Closed
          then drop_permits (the_permit (bt_get (se_permits s) sid))
            (w\<lparr>sw_session := (sw_session w)\<lparr>se_permits := bt_remove sid (se_permits s)\<rparr>\<rparr>)
          else w))"

definition close_all_subscriptions :: "('t, 'st, 'f, 'h, 'b, 'e, nat) session_action" where
  "close_all_subscriptions = (\<lambda>w.
     let s = sw_session w; (closed, subscriptions) = live_close_all (se_subscriptions s)
     in Some (Ok closed, drop_permits (map snd (se_permits s))
          (w\<lparr>sw_session := s\<lparr>se_subscriptions := subscriptions, se_permits := []\<rparr>\<rparr>)))"

section \<open>Outgoing messages\<close>

definition outbound_queue_error_control ::
  "outbound_queue_error \<Rightarrow> ('t, 'st, 'f, 'h, 'b, 'e, session_control) session_action" where
  "outbound_queue_error_control error = (case error of
       QueueFull \<Rightarrow> act_bind (session_metric record_outbound_queue_full_close)
         (\<lambda>_. act_return (SessionClose outbound_queue_full_close_message))
     | QueueClosed \<Rightarrow> act_return SessionStop)"

definition enqueue_text ::
  "string \<Rightarrow> ('t, 'st, 'f, 'h, 'b, session_control, unit) session_action" where
  "enqueue_text text = act_bind (session_get (\<lambda>s. outbound_try_send (WsText text) (se_outbound s))) (\<lambda>sent.
     case sent of
       Inl error \<Rightarrow> act_bind (outbound_queue_error_control error) (\<lambda>control. act_lift (Err control))
     | Inr q \<Rightarrow> session_modify (\<lambda>s. s\<lparr>se_outbound := q\<rparr>))"

definition send_relay_message ::
  "('t, 'st, 'f, 'q, 'h, 'b, 'raw) session_api \<Rightarrow> runtime_relay_message \<Rightarrow>
   ('t, 'st, 'f, 'h, 'b, session_control, unit) session_action" where
  "send_relay_message api message =
     act_bind (on_runtime (sanitize_public_message (si_runtime api) message)) (\<lambda>message.
     case runtime_message_encode (si_codec api) message of
       Inl _ \<Rightarrow> act_lift (Err (SessionClose outbound_encode_close_message))
     | Inr text \<Rightarrow> enqueue_text text)"

text \<open>The loop that enqueues replies and returns the control of the first that fails.\<close>

definition enqueue_replies ::
  "('t, 'st, 'f, 'q, 'h, 'b, 'raw) session_api \<Rightarrow> runtime_relay_message list \<Rightarrow>
   ('t, 'st, 'f, 'h, 'b, 'e, session_control) session_action" where
  "enqueue_replies api replies =
     act_match (act_each (send_relay_message api) replies) (\<lambda>_. act_return SessionContinue) act_return"

abbreviation notice_reply :: "string \<Rightarrow> runtime_relay_message" where
  "notice_reply message \<equiv> RuntimeProtocol (RelayNotice message)"

text \<open>An answer, or the notice of its error.\<close>

definition replies_or_notice ::
  "('t, 'st, 'f, 'h, 'b, base_relay_error, runtime_relay_message list) session_action \<Rightarrow>
   ('t, 'st, 'f, 'h, 'b, 'e, runtime_relay_message list) session_action" where
  "replies_or_notice m =
     act_match m act_return (\<lambda>error. act_return [notice_reply (base_prefixed_message error)])"

definition issue_auth_challenge ::
  "('t, 'st, 'f, 'q, 'h, 'b, 'raw) session_api \<Rightarrow> string + string \<Rightarrow> unix_timestamp \<Rightarrow>
   ('t, 'st, 'f, 'h, 'b, 'e, bool) session_action" where
  "issue_auth_challenge api fill now =
     act_bind (session_get (\<lambda>s. and_then (generate_auth_challenge fill)
       (\<lambda>challenge. issue_challenge challenge now (se_auth s)))) (\<lambda>issued.
     act_bind (case issued of
         Inl error \<Rightarrow> act_return (RelayNotice (base_prefixed_message error))
       | Inr (message, auth) \<Rightarrow>
           act_bind (session_modify (\<lambda>s. s\<lparr>se_auth := auth\<rparr>)) (\<lambda>_. act_return message)) (\<lambda>message.
     act_match (send_relay_message api (RuntimeProtocol message)) (\<lambda>_. act_return True) (\<lambda>_. act_return False)))"

section \<open>Client messages\<close>

definition open_subscription ::
  "subscription_id \<Rightarrow> 'f list \<Rightarrow> bool \<Rightarrow> ('t, 'st, 'f, 'h, 'b, base_relay_error, unit) session_action" where
  "open_subscription sid filters already_subscribed =
     act_bind (if already_subscribed then act_return None else reserve_subscription) (\<lambda>permit.
     act_bind (subscribe_with_permit sid filters permit) (\<lambda>_.
       if already_subscribed then act_return () else session_metric record_subscription_opened))"

definition answer_req ::
  "('t, 'st, 'f, 'q, 'h, 'b, 'raw) session_api \<Rightarrow> u64 \<Rightarrow> subscription_id \<Rightarrow> 'f list \<Rightarrow> bool \<Rightarrow>
   ('t, 'st, 'f, 'h, 'b, base_relay_error, runtime_relay_message list) session_action" where
  "answer_req api elapsed sid filters search_present =
     (let should_subscribe = \<not> filters_complete (ri_filters (si_runtime api)) filters in
      act_bind (session_get (\<lambda>s. live_contains (se_subscriptions s) sid)) (\<lambda>already_subscribed.
      act_bind (if should_subscribe
          then session_read (\<lambda>s. ensure_can_subscribe (se_subscriptions s) sid filters)
          else act_return ()) (\<lambda>_.
      act_bind (session_get (\<lambda>s. (se_auth s, se_projection s))) (\<lambda>(auth, projection).
      act_bind (on_runtime (query_req_with_projection (si_runtime api) elapsed sid filters search_present
          auth projection)) (\<lambda>report.
      act_bind (if should_subscribe \<and> \<not> qr_group_read_denied report
          then open_subscription sid filters already_subscribed else act_return ()) (\<lambda>_.
        act_return (qr_messages report)))))))"

definition session_handle_req ::
  "('t, 'st, 'f, 'q, 'h, 'b, 'raw) session_api \<Rightarrow> u64 \<Rightarrow> unix_timestamp \<Rightarrow> subscription_id \<Rightarrow> 'f list \<Rightarrow> bool \<Rightarrow>
   ('t, 'st, 'f, 'h, 'b, base_relay_error, runtime_relay_message list) session_action" where
  "session_handle_req api elapsed now sid filters search_present =
     act_bind (session_metric (record_client_message MetricReq)) (\<lambda>_.
     act_bind (session_read (\<lambda>s. validate_subscription_id (session_base_limits s) sid)) (\<lambda>_.
     act_bind (session_read (\<lambda>s. validate_filters (ri_filters (si_runtime api)) (session_base_limits s) filters)) (\<lambda>_.
     case unsupported_search_closed sid search_present of
       Some message \<Rightarrow> act_return [RuntimeProtocol message]
     | None \<Rightarrow>
         act_bind (session_get (\<lambda>s. (se_auth s, client_rate_limit_context s))) (\<lambda>(auth, rate_context).
         act_bind (on_runtime (rate_limit_req (ri_filters (si_runtime api)) sid filters auth rate_context now))
           (\<lambda>limited. case limited of
             Some message \<Rightarrow> act_return [RuntimeProtocol message]
           | None \<Rightarrow> answer_req api elapsed sid filters search_present)))))"

definition handle_by_runtime ::
  "('t, 'st, 'f, 'q, 'h, 'b, 'raw) session_api \<Rightarrow> u64 \<Rightarrow> unix_timestamp \<Rightarrow> 'f runtime_client_message \<Rightarrow>
   ('t, 'st, 'f, 'h, 'b, base_relay_error, runtime_relay_message list) session_action" where
  "handle_by_runtime api elapsed now message =
     act_bind (session_get (\<lambda>s. (se_auth s, client_rate_limit_context s))) (\<lambda>(auth, rate_context).
     act_bind (on_runtime (handle_client_message (si_runtime api) elapsed message auth rate_context now))
       (\<lambda>(replies, auth).
     act_bind (session_modify (\<lambda>s. s\<lparr>se_auth := auth\<rparr>)) (\<lambda>_. act_return replies)))"

definition session_handle_close ::
  "subscription_id \<Rightarrow> ('t, 'st, 'f, 'h, 'b, base_relay_error, runtime_relay_message list) session_action" where
  "session_handle_close sid =
     act_bind (session_metric (record_client_message MetricClose)) (\<lambda>_.
     act_bind (session_read (\<lambda>s. validate_subscription_id (session_base_limits s) sid)) (\<lambda>_.
     act_bind (close_subscription sid) (\<lambda>closed.
     act_bind (if closed = Closed then session_metric (record_subscriptions_closed 1) else act_return ())
       (\<lambda>_. act_return []))))"

fun session_handle_client_message ::
  "('t, 'st, 'f, 'q, 'h, 'b, 'raw) session_api \<Rightarrow> u64 \<Rightarrow> unix_timestamp \<Rightarrow> 'f runtime_client_message \<Rightarrow>
   ('t, 'st, 'f, 'h, 'b, base_relay_error, runtime_relay_message list) session_action" where
  "session_handle_client_message api elapsed now (RuntimeClientReq sid filters search_present) =
     session_handle_req api elapsed now sid filters search_present"
| "session_handle_client_message api elapsed now (RuntimeClientClose sid) = session_handle_close sid"
| "session_handle_client_message api elapsed now message = handle_by_runtime api elapsed now message"

definition dispatch_text ::
  "('t, 'st, 'f, 'q, 'h, 'b, 'raw) session_api \<Rightarrow> u64 \<Rightarrow> unix_timestamp \<Rightarrow> string \<Rightarrow>
   ('t, 'st, 'f, 'h, 'b, 'e, session_control) session_action" where
  "dispatch_text api elapsed now raw =
     act_bind (session_get (\<lambda>s. rtl_max_message_length (se_limits s))) (\<lambda>max_message_length.
     if length raw > max_message_length
     then enqueue_replies api [notice_reply
       (''invalid: client message length exceeds runtime max_message_length '' @ dec max_message_length)]
     else act_bind (case parse_runtime_client_message (si_raw api) raw of
         Inr message \<Rightarrow> replies_or_notice (session_handle_client_message api elapsed now message)
       | Inl error \<Rightarrow> act_return [notice_reply (''invalid: '' @ error)])
       (enqueue_replies api))"

definition handle_incoming_message ::
  "('t, 'st, 'f, 'q, 'h, 'b, 'raw) session_api \<Rightarrow> u64 \<Rightarrow> unix_timestamp \<Rightarrow> ws_message \<Rightarrow>
   ('t, 'st, 'f, 'h, 'b, 'e, session_control) session_action" where
  "handle_incoming_message api elapsed now message = (case message of
       WsText raw \<Rightarrow> dispatch_text api elapsed now raw
     | WsBinary _ \<Rightarrow> enqueue_replies api [notice_reply ''invalid: client message must be a text frame'']
     | WsPing _ \<Rightarrow> act_return SessionContinue
     | WsPong _ \<Rightarrow> act_return SessionContinue
     | WsClose _ \<Rightarrow> act_return SessionStop)"

section \<open>Published events\<close>

datatype event_receive_error = ReceiveEmpty | ReceiveClosed | ReceiveLagged u64

definition handle_event_offset ::
  "('t, 'st, 'f, 'q, 'h, 'b, 'raw) session_api \<Rightarrow> store_offset \<Rightarrow>
   ('t, 'st, 'f, 'h, 'b, 'e, session_control) session_action" where
  "handle_event_offset api offset =
     act_bind (session_get (\<lambda>s. (se_subscriptions s, se_auth s, se_projection s)))
       (\<lambda>(subscriptions, auth, projection).
     act_bind (replies_or_notice (on_runtime
         (fanout_event_offset (si_runtime api) offset subscriptions auth projection)))
       (enqueue_replies api))"

definition handle_event_receive_result ::
  "('t, 'st, 'f, 'q, 'h, 'b, 'raw) session_api \<Rightarrow> event_receive_error + store_offset \<Rightarrow>
   ('t, 'st, 'f, 'h, 'b, 'e, session_control) session_action" where
  "handle_event_receive_result api result = (case result of
       Inr offset \<Rightarrow> handle_event_offset api offset
     | Inl (ReceiveLagged skipped) \<Rightarrow>
         act_bind (session_metric (record_event_bus_lagged skipped))
           (\<lambda>_. act_return (SessionClose event_stream_lag_close_message))
     | Inl ReceiveClosed \<Rightarrow> act_return SessionStop
     | Inl ReceiveEmpty \<Rightarrow> act_return SessionContinue)"

section \<open>The loop\<close>

text \<open>
  One turn of the loop: the branch of the \<open>select!\<close> that is ready, whether shutdown has been requested
  before and after it, whether the socket takes a frame in time, and the clocks. A turn returns whether the
  loop goes on.
\<close>

datatype socket_item = SocketClosed | SocketFailed | SocketMessage ws_message

datatype session_event =
    SocketReceived socket_item
  | OutboundReady
  | EventReceived "event_receive_error + store_offset"
  | ShutdownChanged bool bool
  | KeepaliveTick

record session_input =
  sx_shutdown :: bool
  sx_event :: session_event
  sx_sent :: bool
  sx_instant :: nat
  sx_now :: unix_timestamp
  sx_elapsed :: u64

definition send_socket_message ::
  "bool \<Rightarrow> ws_message \<Rightarrow> ('t, 'st, 'f, 'h, 'b, 'e, bool) session_action" where
  "send_socket_message sent message =
     (if sent then act_bind (session_modify (\<lambda>s. s\<lparr>se_socket := se_socket s @ [message]\<rparr>)) (\<lambda>_. act_return True)
      else act_return False)"

definition turn_control ::
  "bool \<Rightarrow> session_control \<Rightarrow> ('t, 'st, 'f, 'h, 'b, 'e, bool) session_action" where
  "turn_control sent control = (case control of
       SessionContinue \<Rightarrow> act_return True
     | SessionClose message \<Rightarrow> act_bind (send_socket_message sent message) (\<lambda>_. act_return False)
     | SessionStop \<Rightarrow> act_return False)"

definition peer_active :: "nat \<Rightarrow> ('t, 'st, 'f, 'h, 'b, 'e, unit) session_action" where
  "peer_active instant = session_modify (\<lambda>s. s\<lparr>se_last_peer_activity := instant\<rparr>)"

definition socket_turn ::
  "('t, 'st, 'f, 'q, 'h, 'b, 'raw) session_api \<Rightarrow> session_input \<Rightarrow> socket_item \<Rightarrow>
   ('t, 'st, 'f, 'h, 'b, 'e, bool) session_action" where
  "socket_turn api input item = (case item of
       SocketClosed \<Rightarrow> act_return False
     | SocketFailed \<Rightarrow> act_return False
     | SocketMessage (WsClose _) \<Rightarrow> act_return False
     | SocketMessage (WsPing payload) \<Rightarrow>
         act_bind (peer_active (sx_instant input)) (\<lambda>_. send_socket_message (sx_sent input) (WsPong payload))
     | SocketMessage (WsPong _) \<Rightarrow> act_bind (peer_active (sx_instant input)) (\<lambda>_. act_return True)
     | SocketMessage message \<Rightarrow>
         act_bind (peer_active (sx_instant input)) (\<lambda>_.
         act_bind (handle_incoming_message api (sx_elapsed input) (sx_now input) message)
           (turn_control (sx_sent input))))"

text \<open>The branch of the queue is ready when it holds a message; it is not ready on an empty open queue.\<close>

definition outbound_turn :: "session_input \<Rightarrow> ('t, 'st, 'f, 'h, 'b, 'e, bool) session_action" where
  "outbound_turn input = act_bind (session_get (\<lambda>s. oq_messages (se_outbound s))) (\<lambda>queued. case queued of
       [] \<Rightarrow> session_get (\<lambda>s. \<not> oq_closed (se_outbound s))
     | message # rest \<Rightarrow>
         act_bind (session_modify (\<lambda>s. s\<lparr>se_outbound := (se_outbound s)\<lparr>oq_messages := rest\<rparr>\<rparr>))
           (\<lambda>_. send_socket_message (sx_sent input) message))"

definition keepalive_turn :: "session_input \<Rightarrow> ('t, 'st, 'f, 'h, 'b, 'e, bool) session_action" where
  "keepalive_turn input = act_bind (session_get (\<lambda>s. (se_keepalive s, se_last_peer_activity s)))
     (\<lambda>(keepalive, last_peer_activity). case keepalive of
       None \<Rightarrow> act_return True
     | Some config \<Rightarrow>
         if sx_instant input - last_peer_activity \<ge> ka_peer_timeout config
         then act_bind (send_socket_message (sx_sent input) keepalive_timeout_close_message)
           (\<lambda>_. act_return False)
         else send_socket_message (sx_sent input) (WsPing []))"

definition session_turn ::
  "('t, 'st, 'f, 'q, 'h, 'b, 'raw) session_api \<Rightarrow> session_input \<Rightarrow>
   ('t, 'st, 'f, 'h, 'b, 'e, bool) session_action" where
  "session_turn api input =
     act_bind (session_modify (\<lambda>s. s\<lparr>se_shutdown := sx_shutdown input\<rparr>)) (\<lambda>_.
     if sx_shutdown input
     then act_bind (send_socket_message (sx_sent input) (WsClose None)) (\<lambda>_. act_return False)
     else (case sx_event input of
         SocketReceived item \<Rightarrow> socket_turn api input item
       | OutboundReady \<Rightarrow> outbound_turn input
       | EventReceived result \<Rightarrow>
           act_bind (handle_event_receive_result api result) (turn_control (sx_sent input))
       | ShutdownChanged failed requested \<Rightarrow>
           act_bind (session_modify (\<lambda>s. s\<lparr>se_shutdown := requested\<rparr>)) (\<lambda>_.
           if failed \<or> requested
           then act_bind (send_socket_message (sx_sent input) (WsClose None)) (\<lambda>_. act_return False)
           else act_return True)
       | KeepaliveTick \<Rightarrow> keepalive_turn input))"

text \<open>What a session does when it ends, on both ways out of \<open>run\<close>.\<close>

definition session_end :: "('t, 'st, 'f, 'h, 'b, 'e, unit) session_action" where
  "session_end =
     act_bind close_all_subscriptions (\<lambda>closed.
     act_bind (session_metric (record_subscriptions_closed (of_nat closed))) (\<lambda>_.
     act_bind (session_metric record_session_closed) (\<lambda>_.
       session_metric (\<lambda>m. record_event_bus_receivers (saturating_sub (m EventBusReceiversCurrent) 1) m))))"

text \<open>The result is whether the session has ended by the last of the given turns.\<close>

fun session_loop ::
  "('t, 'st, 'f, 'q, 'h, 'b, 'raw) session_api \<Rightarrow> session_input list \<Rightarrow>
   ('t, 'st, 'f, 'h, 'b, 'e, bool) session_action" where
  "session_loop api [] = act_return False"
| "session_loop api (input # inputs) = act_bind (session_turn api input) (\<lambda>continues.
     if continues then session_loop api inputs else act_bind session_end (\<lambda>_. act_return True))"

definition session_run ::
  "('t, 'st, 'f, 'q, 'h, 'b, 'raw) session_api \<Rightarrow> string + string \<Rightarrow> unix_timestamp \<Rightarrow> nat \<Rightarrow>
   session_input list \<Rightarrow> ('t, 'st, 'f, 'h, 'b, 'e, bool) session_action" where
  "session_run api fill now instant inputs =
     act_bind (session_metric record_session_opened) (\<lambda>_.
     act_bind (issue_auth_challenge api fill now) (\<lambda>issued.
     if \<not> issued then act_bind session_end (\<lambda>_. act_return True)
     else act_bind (peer_active instant) (\<lambda>_. session_loop api inputs)))"

end
