(* ===== verification/Action_Rules.thy ===== *)
theory Action_Rules
  imports Tangle_Actions
begin

text \<open>
  Partial correctness of actions: \<open>act_yields P m Q\<close> says that a run of \<open>m\<close> that starts in \<open>P\<close> ends
  in \<open>P\<close>, and that its result, when it is not an error, satisfies \<open>Q\<close>. The rules go through the
  combinators one by one, as a weakest-precondition calculus does.
\<close>

named_theorems act_rules \<open>how invariants and results pass through the combinators\<close>

definition act_yields :: "('s \<Rightarrow> bool) \<Rightarrow> ('s, 'e, 'a) action \<Rightarrow> ('a \<Rightarrow> bool) \<Rightarrow> bool" where
  "act_yields P m Q \<longleftrightarrow>
     (\<forall>s r t. P s \<longrightarrow> m s = Some (r, t) \<longrightarrow> P t \<and> (\<forall>x. r = Ok x \<longrightarrow> Q x))"

lemma act_yieldsI:
  "(\<And>s r t. P s \<Longrightarrow> m s = Some (r, t) \<Longrightarrow> P t \<and> (\<forall>x. r = Ok x \<longrightarrow> Q x)) \<Longrightarrow> act_yields P m Q"
  by (auto simp: act_yields_def)

lemma act_yieldsD: "act_yields P m Q \<Longrightarrow> P s \<Longrightarrow> m s = Some (r, t) \<Longrightarrow> P t"
  by (auto simp: act_yields_def)

lemma act_yields_Ok: "act_yields P m Q \<Longrightarrow> P s \<Longrightarrow> m s = Some (Ok x, t) \<Longrightarrow> Q x"
  by (auto simp: act_yields_def)

lemma act_yields_weaken: "act_yields P m Q \<Longrightarrow> (\<And>x. Q x \<Longrightarrow> R x) \<Longrightarrow> act_yields P m R"
  by (auto simp: act_yields_def)

lemma act_yields_keeps: "act_yields P m (\<lambda>_. True) \<longleftrightarrow> act_keeps P m"
  by (auto simp: act_yields_def act_keeps_def)

lemma act_yields_conj: "act_yields P m Q \<Longrightarrow> act_yields P m R \<Longrightarrow> act_yields P m (\<lambda>x. Q x \<and> R x)"
  by (auto simp: act_yields_def)

lemma act_yields_return [act_rules]: "Q x \<Longrightarrow> act_yields P (act_return x) Q"
  by (simp add: act_yields_def)

lemma act_yields_lift [act_rules]: "(\<And>x. r = Ok x \<Longrightarrow> Q x) \<Longrightarrow> act_yields P (act_lift r) Q"
  by (simp add: act_yields_def)

lemma act_yields_get [act_rules]: "(\<And>s. P s \<Longrightarrow> Q (g s)) \<Longrightarrow> act_yields P (act_get g) Q"
  by (simp add: act_yields_def)

lemma act_yields_read [act_rules]:
  "(\<And>s x. P s \<Longrightarrow> h s = Ok x \<Longrightarrow> Q x) \<Longrightarrow> act_yields P (act_read h) Q"
  by (simp add: act_yields_def)

lemma act_yields_modify [act_rules]:
  "(\<And>s. P s \<Longrightarrow> P (f s)) \<Longrightarrow> Q () \<Longrightarrow> act_yields P (act_modify f) Q"
  by (simp add: act_yields_def)

lemma act_yields_bind:
  "act_yields P m R \<Longrightarrow> (\<And>x. R x \<Longrightarrow> act_yields P (f x) Q) \<Longrightarrow> act_yields P (act_bind m f) Q"
  unfolding act_yields_def act_bind_iff by blast

text \<open>A call whose value is known goes on with that value.\<close>

lemma act_yields_bind_lift [act_rules]:
  "(\<And>x. r = Ok x \<Longrightarrow> act_yields P (f x) Q) \<Longrightarrow> act_yields P (act_bind (act_lift r) f) Q"
  by (rule act_yields_bind [OF act_yields_lift])

lemma act_yields_bind_get [act_rules]:
  "(\<And>s. P s \<Longrightarrow> act_yields P (f (g s)) Q) \<Longrightarrow> act_yields P (act_bind (act_get g) f) Q"
  by (rule act_yields_bind [OF act_yields_get [where Q = "\<lambda>x. \<exists>s. P s \<and> x = g s"]]) auto

lemma act_yields_bind_read [act_rules]:
  "(\<And>s x. P s \<Longrightarrow> h s = Ok x \<Longrightarrow> act_yields P (f x) Q) \<Longrightarrow> act_yields P (act_bind (act_read h) f) Q"
  by (rule act_yields_bind [OF act_yields_read [where Q = "\<lambda>x. \<exists>s. P s \<and> h s = Ok x"]]) auto

lemma act_yields_bind_modify [act_rules]:
  "(\<And>s. P s \<Longrightarrow> P (m s)) \<Longrightarrow> act_yields P (k ()) Q \<Longrightarrow> act_yields P (act_bind (act_modify m) k) Q"
  by (rule act_yields_bind [OF act_yields_modify [where Q = "\<lambda>_. True"]]) auto

lemma act_yields_bind_return [act_rules]: "act_yields P (f y) Q \<Longrightarrow> act_yields P (act_bind (act_return y) f) Q"
  by (rule act_yields_bind [OF act_yields_return [where Q = "\<lambda>x. x = y"]]) auto

lemma act_yields_if [act_rules]:
  "(b \<Longrightarrow> act_yields P m Q) \<Longrightarrow> (\<not> b \<Longrightarrow> act_yields P n Q) \<Longrightarrow> act_yields P (if b then m else n) Q"
  by simp

lemma act_yields_option [act_rules]:
  "(x = None \<Longrightarrow> act_yields P m Q) \<Longrightarrow> (\<And>y. x = Some y \<Longrightarrow> act_yields P (f y) Q) \<Longrightarrow>
   act_yields P (case x of None \<Rightarrow> m | Some y \<Rightarrow> f y) Q"
  by (cases x) simp_all

lemma act_yields_sum [act_rules]:
  "(\<And>e. x = Err e \<Longrightarrow> act_yields P (g e) Q) \<Longrightarrow> (\<And>y. x = Ok y \<Longrightarrow> act_yields P (f y) Q) \<Longrightarrow>
   act_yields P (case x of Inl e \<Rightarrow> g e | Inr y \<Rightarrow> f y) Q"
  by (cases x) simp_all

lemma act_yields_prod [act_rules]:
  "(\<And>a b. x = (a, b) \<Longrightarrow> act_yields P (f a b) Q) \<Longrightarrow> act_yields P (case x of (a, b) \<Rightarrow> f a b) Q"
  by (cases x) simp

text \<open>A loop with an invariant on what it has computed so far.\<close>

lemma act_yields_try_fold:
  assumes "I b" and "\<And>b x. x \<in> set xs \<Longrightarrow> I b \<Longrightarrow> act_yields P (f b x) I"
  shows "act_yields P (act_try_fold f b xs) I"
  using assms
proof (induction xs arbitrary: b)
  case (Cons x xs)
  have "act_yields P (act_bind (f b x) (\<lambda>c. act_try_fold f c xs)) I"
    by (rule act_yields_bind [OF Cons.prems(2)]) (use Cons in auto)
  then show ?case by simp
qed (simp add: act_yields_return)

lemma act_yields_each [act_rules]:
  assumes "\<And>x. x \<in> set xs \<Longrightarrow> act_yields P (f x) (\<lambda>_. True)"
  shows "act_yields P (act_each f xs) (\<lambda>_. True)"
  using assms by (induction xs) (auto intro!: act_rules act_yields_bind)

text \<open>Two actions that leave a component alone: it is the same after a sequence of them.\<close>

definition act_frame :: "('s \<Rightarrow> 'c) \<Rightarrow> ('s, 'e, 'a) action \<Rightarrow> bool" where
  "act_frame g m \<longleftrightarrow> (\<forall>s r t. m s = Some (r, t) \<longrightarrow> g t = g s)"

lemma act_frameD: "act_frame g m \<Longrightarrow> m s = Some (r, t) \<Longrightarrow> g t = g s"
  by (auto simp: act_frame_def)

lemma act_frame_keeps: "act_frame g m \<longleftrightarrow> (\<forall>c. act_keeps (\<lambda>s. g s = c) m)"
  by (auto simp: act_frame_def act_keeps_def)

end
