(* ===== verification/Relay_Runtime_Facts.thy ===== *)
theory Relay_Runtime_Facts
  imports Relay_Runtime Action_Rules Relay_Facts
begin

text \<open>
  What the runtime promises whatever its hooks do: an answer to a query and a message of a live
  subscription only ever hold events the reader may see and that match a filter of the request; the
  offsets published are those of the events the relay core stored; what a rejected or rate-limited
  message leaves alone; and the accounting of its counters.
\<close>

lemma act_try_fold_snoc: "act_try_fold f b (xs @ [y]) = act_bind (act_try_fold f b xs) (\<lambda>c. f c y)"
proof (induction xs arbitrary: b)
  case Nil
  show ?case by (auto simp: act_bind_def fun_eq_iff split: option.split prod.split sum.split)
qed (simp add: act_bind_assoc)

section \<open>What a call leaves alone\<close>

definition rt_view :: "('t, 'st, 'h, 'b) relay_runtime \<Rightarrow> ('t, 'st) relay_services \<times> base_runtime_config \<times> runtime_limits" where
  "rt_view s = (rtm_services s, rtm_config s, rtm_limits s)"

lemma rt_view_update [simp]:
  "rt_view (s\<lparr>rtm_metrics := m\<rparr>) = rt_view s" "rt_view (s\<lparr>rtm_hook_state := h\<rparr>) = rt_view s"
  "rt_view (s\<lparr>rtm_rate_limiter := l\<rparr>) = rt_view s" "rt_view (s\<lparr>rtm_event_bus := b\<rparr>) = rt_view s"
  by (simp_all add: rt_view_def)

lemma view_basic:
  "Q () \<Longrightarrow> act_yields (\<lambda>s. rt_view s = v) (record_metric f) Q"
  "(\<And>x. R x) \<Longrightarrow> act_yields (\<lambda>s. rt_view s = v) (call_hook g) R"
  "(\<And>x. T x) \<Longrightarrow> act_yields (\<lambda>s. rt_view s = v) (limiter_record key rule now) T"
  by (auto simp: act_yields_def record_metric_def call_hook_def limiter_record_def Let_def split: prod.splits)

lemma view_bind [act_rules]:
  "act_yields (\<lambda>s. rt_view s = v) (k ()) Q \<Longrightarrow> act_yields (\<lambda>s. rt_view s = v) (act_bind (record_metric f) k) Q"
  "(\<And>x. act_yields (\<lambda>s. rt_view s = v) (k' x) R) \<Longrightarrow> act_yields (\<lambda>s. rt_view s = v) (act_bind (call_hook g) k') R"
  "(\<And>x. act_yields (\<lambda>s. rt_view s = v) (k'' x) T) \<Longrightarrow>
     act_yields (\<lambda>s. rt_view s = v) (act_bind (limiter_record key rule now) k'') T"
  by (auto intro!: act_yields_bind view_basic)

section \<open>Projection\<close>

text \<open>An event a reader may be given for some of his filters.\<close>

definition safe_output ::
  "'f pocket_filter_api \<Rightarrow> 't group_service_state option \<Rightarrow> base_auth_state \<Rightarrow> 'f set \<Rightarrow> pocket_event \<Rightarrow> bool" where
  "safe_output api groups auth filters e \<longleftrightarrow>
     read_gate_visible groups e (as_authenticated_pubkeys auth) = Ok True \<and> (\<exists>f\<in>filters. filter_hits api e f)"

lemma event_matches_any_Ok: "event_matches_any api filters e = Ok True \<Longrightarrow> \<exists>f\<in>set filters. filter_hits api e f"
proof -
  have "try_fold (\<lambda>matched f. if matched then Ok True else map_err base_error (pf_event_matches api f e)) b fs
      = Ok True \<Longrightarrow> b \<or> (\<exists>f\<in>set fs. filter_hits api e f)" for b fs
  proof (induction fs arbitrary: b)
    case (Cons f fs)
    then show ?case by (cases b) (fastforce simp: and_then_Ok_iff filter_hits_def)+
  qed simp
  then show "event_matches_any api filters e = Ok True \<Longrightarrow> \<exists>f\<in>set filters. filter_hits api e f"
    unfolding event_matches_any_def by blast
qed

lemma event_matches_any_matched:
  "event_matches_any api (map snd matched) e = Ok True \<Longrightarrow> \<exists>x\<in>set matched. filter_hits api e (snd x)"
  using event_matches_any_Ok [of api "map snd matched" e] by auto

lemma project_event_output_safe:
  assumes "safe_output (ri_filters api) (rs_groups rs) auth (snd ` set matched) e"
  shows "act_yields (\<lambda>s. rt_view s = (rs, c, l)) (project_event_output api sid projection source e auth matched)
    (\<lambda>out. \<forall>p. out = Some p \<longrightarrow> safe_output (ri_filters api) (rs_groups rs) auth (snd ` set matched) p)"
  unfolding project_event_output_def
proof (intro act_yields_bind_lift view_bind)
  fix ctx decision
  show "act_yields (\<lambda>s. rt_view s = (rs, c, l))
      (case decision of Emit \<Rightarrow> act_return (Some e) | Suppress \<Rightarrow> act_return None
       | ReplaceWithStoredOffset offset \<Rightarrow> act_bind (act_get rtm_services) (\<lambda>rs.
           case event_by_offset (re_store (ri_env api)) offset (rs_store rs) of
             Inl _ \<Rightarrow> act_return None
           | Inr replacement \<Rightarrow>
               act_bind (act_lift (read_gate_visible (rs_groups rs) replacement (as_authenticated_pubkeys auth)))
                 (\<lambda>visible. if \<not> visible then act_return None
                  else act_bind (act_lift (event_matches_any (ri_filters api) (map snd matched) replacement))
                    (\<lambda>matches. act_return (if matches then Some replacement else None)))))
      (\<lambda>out. \<forall>p. out = Some p \<longrightarrow> safe_output (ri_filters api) (rs_groups rs) auth (snd ` set matched) p)"
  proof (cases decision)
    case (ReplaceWithStoredOffset offset)
    show ?thesis
      unfolding ReplaceWithStoredOffset event_projection_decision.case
      by (auto simp: rt_view_def safe_output_def intro!: act_rules dest!: event_matches_any_matched split: if_splits)
  qed (use assms in \<open>auto intro!: act_rules\<close>)
qed

lemma matched_filters_Ok:
  assumes "matched_filters_for_event api filters e = Ok matched"
  shows "snd ` set matched \<subseteq> set filters" and "\<exists>f\<in>snd ` set matched. filter_hits api e f"
proof -
  obtain hits where hits: "match_filters api e filters = Ok hits" "hits \<noteq> []"
    "matched = map (\<lambda>(i, f). (matched_filter_context_from api i f, f)) hits"
    using assms by (auto simp: matched_filters_for_event_def and_then_Ok_iff split: if_splits)
  have sub: "(i, f) \<in> set hits \<Longrightarrow> f \<in> set filters \<and> filter_hits api e f" for i f
    using match_filters_hits [OF hits(1)] by (auto simp: in_set_enumerate_eq)
  then show "snd ` set matched \<subseteq> set filters" by (auto simp: hits(3))
  obtain i f where "(i, f) \<in> set hits" using hits(2) by (metis list.set_sel(1) surj_pair)
  with sub show "\<exists>f\<in>snd ` set matched. filter_hits api e f" by (force simp: hits(3))
qed

lemma safe_output_mono: "safe_output api groups auth A e \<Longrightarrow> A \<subseteq> B \<Longrightarrow> safe_output api groups auth B e"
  by (auto simp: safe_output_def)

text \<open>The output for an event the reader may see, of a request with the given filters.\<close>

lemma project_matched_safe:
  assumes "read_gate_visible (rs_groups rs) e (as_authenticated_pubkeys auth) = Ok True"
  shows "act_yields (\<lambda>s. rt_view s = (rs, c, l))
     (act_bind (act_lift (matched_filters_for_event (ri_filters api) filters e))
       (project_event_output api sid projection source e auth))
     (\<lambda>out. \<forall>p. out = Some p \<longrightarrow> safe_output (ri_filters api) (rs_groups rs) auth (set filters) p)"
proof (rule act_yields_bind_lift)
  fix matched
  assume "matched_filters_for_event (ri_filters api) filters e = Ok matched"
  note matched = matched_filters_Ok [OF this]
  have "safe_output (ri_filters api) (rs_groups rs) auth (snd ` set matched) e"
    using assms matched(2) by (auto simp: safe_output_def)
  from project_event_output_safe [OF this]
  show "act_yields (\<lambda>s. rt_view s = (rs, c, l)) (project_event_output api sid projection source e auth matched)
     (\<lambda>out. \<forall>p. out = Some p \<longrightarrow> safe_output (ri_filters api) (rs_groups rs) auth (set filters) p)"
    by (rule act_yields_weaken) (auto intro: safe_output_mono [OF _ matched(1)])
qed

section \<open>Answers to queries\<close>

text \<open>How an answer ends: with EOSE, or with CLOSED when a search was asked for or an event was hidden.\<close>

definition answer_ending :: "subscription_id \<Rightarrow> bool \<Rightarrow> bool \<Rightarrow> relay_message \<Rightarrow> bool" where
  "answer_ending sid search_present denied m \<longleftrightarrow>
     (if search_present \<or> denied then \<exists>text. m = RelayClosed sid text else m = RelayEose sid)"

text \<open>An answer to a query: events that are safe to give out, each id once, and the end of the answer.\<close>

definition safe_answer ::
  "'f pocket_filter_api \<Rightarrow> 't group_service_state option \<Rightarrow> base_auth_state \<Rightarrow> 'f set \<Rightarrow> subscription_id \<Rightarrow>
   bool \<Rightarrow> query_report \<Rightarrow> bool" where
  "safe_answer api groups auth filters sid search_present report \<longleftrightarrow>
     (\<exists>events ending. qr_messages report = map (RuntimeEvent sid) events @ [RuntimeProtocol ending]
        \<and> list_all (safe_output api groups auth filters) events \<and> distinct (map pe_id events)
        \<and> answer_ending sid search_present (qr_group_read_denied report) ending)"

lemma safe_search_report:
  "unsupported_search_closed sid search_present = Some message \<Longrightarrow>
   safe_answer api groups auth filters sid search_present (search_report message)"
  by (auto simp: safe_answer_def search_report_def unsupported_search_closed_def answer_ending_def split: if_splits)

lemma unsupported_search_None [simp]: "unsupported_search_closed sid search_present = None \<longleftrightarrow> \<not> search_present"
  by (simp add: unsupported_search_closed_def)

lemma safe_answer_sorted:
  assumes "\<forall>p\<in>set events. safe_output api groups auth filters p"
    and "qr_messages report = map (RuntimeEvent sid) (sort_and_dedupe events)
      @ [RuntimeProtocol (if qr_group_read_denied report then redacted_req_closed sid pubkeys else RelayEose sid)]"
  shows "safe_answer api groups auth filters sid False report"
  unfolding safe_answer_def
  by (rule exI [of _ "sort_and_dedupe events"])
     (use assms sort_and_dedupe [of events] in
       \<open>auto simp: list_all_iff answer_ending_def redacted_req_closed_def\<close>)

lemma query_events_visible:
  assumes "find_lawful find_query" and "query_events api find_query rs limits query filters auth = Ok report"
    and "e \<in> set (eq_events report)"
  shows "read_gate_visible (rs_groups rs) e auth = Ok True"
  using query_events_sound [OF assms(1,2)] assms(3) by (auto simp: answer_for_def)

lemma query_req_answer:
  assumes "find_lawful find_query"
    and "query_req api find_query rs limits query sid filters search_present auth = Ok report"
  obtains events ending where "qr_messages report = map (RuntimeEvent sid) events @ [RuntimeProtocol ending]"
    "\<And>e. e \<in> set events \<Longrightarrow> read_gate_visible (rs_groups rs) e auth = Ok True"
    "answer_ending sid search_present (qr_group_read_denied report) ending"
proof (cases search_present)
  case True
  then show ?thesis
    using assms(2) that [of "[]"]
    by (auto simp: query_req_def and_then_Ok_iff unsupported_search_closed_def search_report_def answer_ending_def)
next
  case False
  then obtain found where found: "query_events api find_query rs limits query filters auth = Ok found"
    "qr_messages report = map (RuntimeEvent sid) (eq_events found)
       @ [RuntimeProtocol (if eq_group_read_denied found then redacted_req_closed sid auth else RelayEose sid)]"
    "qr_group_read_denied report = eq_group_read_denied found"
    using assms(2)
    by (auto simp: query_req_def and_then_Ok_iff map_ok_Ok_iff unsupported_search_closed_def)
  show ?thesis
    by (rule that [OF found(2) query_events_visible [OF assms(1) found(1)]])
       (auto simp: found(3) False answer_ending_def redacted_req_closed_def)
qed

text \<open>The messages and ids of the events projected so far.\<close>

definition projected_so_far ::
  "'f pocket_filter_api \<Rightarrow> 't group_service_state option \<Rightarrow> base_auth_state \<Rightarrow> 'f set \<Rightarrow> subscription_id \<Rightarrow>
   runtime_relay_message list \<times> event_id set \<Rightarrow> bool" where
  "projected_so_far api groups auth filters sid = (\<lambda>(messages, ids).
     \<exists>events. messages = map (RuntimeEvent sid) events \<and> ids = pe_id ` set events
       \<and> list_all (safe_output api groups auth filters) events \<and> distinct (map pe_id events))"

lemma projected_so_far_add:
  assumes "projected_so_far api groups auth filters sid (messages, ids)"
    and "safe_output api groups auth filters e" and "pe_id e \<notin> ids"
  shows "projected_so_far api groups auth filters sid (messages @ [RuntimeEvent sid e], insert (pe_id e) ids)"
proof -
  obtain events where "messages = map (RuntimeEvent sid) events" "ids = pe_id ` set events"
    "list_all (safe_output api groups auth filters) events" "distinct (map pe_id events)"
    using assms(1) by (auto simp: projected_so_far_def)
  then show ?thesis
    using assms(2,3) unfolding projected_so_far_def prod.case by (intro exI [of _ "events @ [e]"]) simp
qed

lemma project_message_safe:
  assumes "projected_so_far (ri_filters api) (rs_groups rs) auth (set filters) sid acc"
    and "read_gate_visible (rs_groups rs) e (as_authenticated_pubkeys auth) = Ok True"
  shows "act_yields (\<lambda>s. rt_view s = (rs, c, l)) (project_message api filters projection auth acc (RuntimeEvent sid e))
    (projected_so_far (ri_filters api) (rs_groups rs) auth (set filters) sid)"
proof -
  obtain messages ids where acc: "acc = (messages, ids)" by (cases acc)
  show ?thesis
    unfolding project_message_def acc runtime_relay_message.case prod.case act_bind_assoc [symmetric]
  proof (rule act_yields_bind [OF project_matched_safe [OF assms(2)]])
    fix projected
    assume "\<forall>p. projected = Some p \<longrightarrow> safe_output (ri_filters api) (rs_groups rs) auth (set filters) p"
    then show "act_yields (\<lambda>s. rt_view s = (rs, c, l))
        (case projected of None \<Rightarrow> act_return (messages, ids)
         | Some p \<Rightarrow> if pe_id p \<in> ids then act_return (messages, ids)
             else act_return (messages @ [RuntimeEvent sid p], insert (pe_id p) ids))
        (projected_so_far (ri_filters api) (rs_groups rs) auth (set filters) sid)"
      using assms(1) by (auto simp: acc intro!: act_rules intro: projected_so_far_add)
  qed
qed

lemma project_query_report_safe:
  assumes "qr_messages report = map (RuntimeEvent sid) events @ [RuntimeProtocol ending]"
    and "\<And>e. e \<in> set events \<Longrightarrow> read_gate_visible (rs_groups rs) e (as_authenticated_pubkeys auth) = Ok True"
    and "answer_ending sid search_present (qr_group_read_denied report) ending"
  shows "act_yields (\<lambda>s. rt_view s = (rs, c, l)) (project_query_report api report filters projection auth)
    (safe_answer (ri_filters api) (rs_groups rs) auth (set filters) sid search_present)"
proof -
  let ?I = "projected_so_far (ri_filters api) (rs_groups rs) auth (set filters) sid"
  have "act_yields (\<lambda>s. rt_view s = (rs, c, l))
      (act_try_fold (project_message api filters projection auth) ([], {}) (map (RuntimeEvent sid) events)) ?I"
  proof (rule act_yields_try_fold)
    show "?I ([], {})" by (simp add: projected_so_far_def)
    show "act_yields (\<lambda>s. rt_view s = (rs, c, l)) (project_message api filters projection auth acc m) ?I"
      if "m \<in> set (map (RuntimeEvent sid) events)" and "?I acc" for acc m
      using that project_message_safe [OF that(2)] assms(2) by auto
  qed
  then show ?thesis
    unfolding project_query_report_def project_runtime_messages_def act_bind_assoc assms(1) act_try_fold_snoc
  proof (rule act_yields_bind)
    fix acc
    assume "?I acc"
    then obtain out ids where acc: "acc = (map (RuntimeEvent sid) out, ids)"
      "list_all (safe_output (ri_filters api) (rs_groups rs) auth (set filters)) out" "distinct (map pe_id out)"
      by (cases acc) (auto simp: projected_so_far_def)
    show "act_yields (\<lambda>s. rt_view s = (rs, c, l))
        (act_bind (project_message api filters projection auth acc (RuntimeProtocol ending)) (\<lambda>x.
          act_bind (case x of (output, _) \<Rightarrow> act_return output) (\<lambda>messages. act_return
            \<lparr>qr_messages = messages, qr_group_read_denied = qr_group_read_denied report,
             qr_metrics = with_returned_events (qr_metrics report) (length (filter is_event_message messages))\<rparr>)))
        (safe_answer (ri_filters api) (rs_groups rs) auth (set filters) sid search_present)"
      using acc(2,3) assms(3) by (auto simp: acc(1) project_message_def safe_answer_def intro!: act_rules)
  qed
qed

lemma project_candidate_safe:
  assumes "read_gate_visible (rs_groups rs) e (as_authenticated_pubkeys auth) = Ok True"
    and "\<forall>p\<in>set projected. safe_output (ri_filters api) (rs_groups rs) auth (set filters) p"
  shows "act_yields (\<lambda>s. rt_view s = (rs, c, l)) (project_candidate api sid filters projection auth projected e)
    (\<lambda>projected. \<forall>p\<in>set projected. safe_output (ri_filters api) (rs_groups rs) auth (set filters) p)"
  unfolding project_candidate_def act_bind_assoc [symmetric]
  by (rule act_yields_bind [OF project_matched_safe [OF assms(1)]])
     (use assms(2) in \<open>auto intro!: act_rules split: option.splits\<close>)

lemma project_filter_safe:
  assumes "find_lawful (ri_find api)"
    and "\<forall>p\<in>set (eq_events acc). safe_output (ri_filters api) (rs_groups rs) auth (set filters) p"
  shows "act_yields (\<lambda>s. rt_view s = (rs, c, l))
      (project_filter api sid filters projection auth candidate_limit acc f)
    (\<lambda>acc. \<forall>p\<in>set (eq_events acc). safe_output (ri_filters api) (rs_groups rs) auth (set filters) p)"
  unfolding project_filter_def
proof (rule act_yields_bind_read)
  fix s report
  assume s: "rt_view s = (rs, c, l)"
    and report: "query_filter_events (ri_filters api) (ri_find api) (rtm_services s) (base_limits_of s)
      (bc_pocket_query (rtm_config s)) f (as_authenticated_pubkeys auth) (OverrideLimit candidate_limit) = Ok report"
  have visible: "read_gate_visible (rs_groups rs) e (as_authenticated_pubkeys auth) = Ok True"
    if "e \<in> set (sort_and_dedupe (eq_events report))" for e
    using query_filter_events_sound [OF assms(1) report] that s sort_and_dedupe [of "eq_events report"]
    by (auto simp: answer_for_def rt_view_def)
  have "act_yields (\<lambda>s. rt_view s = (rs, c, l))
      (act_try_fold (project_candidate api sid filters projection auth) [] (sort_and_dedupe (eq_events report)))
      (\<lambda>projected. \<forall>p\<in>set projected. safe_output (ri_filters api) (rs_groups rs) auth (set filters) p)"
    by (rule act_yields_try_fold) (auto intro: project_candidate_safe visible)
  then show "act_yields (\<lambda>s. rt_view s = (rs, c, l))
      (act_bind (act_try_fold (project_candidate api sid filters projection auth) [] (sort_and_dedupe (eq_events report)))
        (\<lambda>projected. act_bind (act_get (\<lambda>s. effective_filter_limit (ri_filters api) (base_limits_of s) f)) (\<lambda>limit.
          act_return \<lparr>eq_events = eq_events acc @ take limit (sort_and_dedupe projected),
            eq_group_read_denied = (eq_group_read_denied acc \<or> eq_group_read_denied report),
            eq_metrics = query_metrics_add (eq_metrics acc) (eq_metrics report)\<rparr>)))
      (\<lambda>acc. \<forall>p\<in>set (eq_events acc). safe_output (ri_filters api) (rs_groups rs) auth (set filters) p)"
  proof (rule act_yields_bind)
    fix projected
    assume "\<forall>p\<in>set projected. safe_output (ri_filters api) (rs_groups rs) auth (set filters) p"
    then show "act_yields (\<lambda>s. rt_view s = (rs, c, l))
        (act_bind (act_get (\<lambda>s. effective_filter_limit (ri_filters api) (base_limits_of s) f)) (\<lambda>limit.
          act_return \<lparr>eq_events = eq_events acc @ take limit (sort_and_dedupe projected),
            eq_group_read_denied = (eq_group_read_denied acc \<or> eq_group_read_denied report),
            eq_metrics = query_metrics_add (eq_metrics acc) (eq_metrics report)\<rparr>))
        (\<lambda>acc. \<forall>p\<in>set (eq_events acc). safe_output (ri_filters api) (rs_groups rs) auth (set filters) p)"
      using assms(2) sort_and_dedupe [of projected] unfolding subset_iff
      by (auto intro!: act_rules dest!: in_set_takeD)
  qed
qed

lemma query_projected_req_safe:
  assumes "find_lawful (ri_find api)"
  shows "act_yields (\<lambda>s. rt_view s = (rs, c, l))
      (query_projected_req api sid filters search_present auth projection candidate_limit)
    (safe_answer (ri_filters api) (rs_groups rs) auth (set filters) sid search_present)"
  unfolding query_projected_req_def
proof (intro act_yields_bind_read act_yields_option)
  let ?start = "\<lparr>eq_events = [], eq_group_read_denied = False, eq_metrics = query_metrics_default\<rparr>"
  have "act_yields (\<lambda>s. rt_view s = (rs, c, l))
      (act_try_fold (project_filter api sid filters projection auth candidate_limit) ?start filters)
      (\<lambda>acc. \<forall>p\<in>set (eq_events acc). safe_output (ri_filters api) (rs_groups rs) auth (set filters) p)"
    by (rule act_yields_try_fold) (auto intro: project_filter_safe assms)
  then show "act_yields (\<lambda>s. rt_view s = (rs, c, l))
      (act_bind (act_try_fold (project_filter api sid filters projection auth candidate_limit) ?start filters)
        (\<lambda>acc. let events = sort_and_dedupe (eq_events acc) in
           act_return \<lparr>qr_messages = map (RuntimeEvent sid) events
               @ [RuntimeProtocol (if eq_group_read_denied acc
                   then redacted_req_closed sid (as_authenticated_pubkeys auth) else RelayEose sid)],
             qr_group_read_denied = eq_group_read_denied acc,
             qr_metrics = with_returned_events (eq_metrics acc) (length events)\<rparr>))
      (safe_answer (ri_filters api) (rs_groups rs) auth (set filters) sid search_present)"
    if "unsupported_search_closed sid search_present = None"
  proof (rule act_yields_bind)
    fix acc
    assume "\<forall>p\<in>set (eq_events acc). safe_output (ri_filters api) (rs_groups rs) auth (set filters) p"
    then show "act_yields (\<lambda>s. rt_view s = (rs, c, l))
        (let events = sort_and_dedupe (eq_events acc) in
           act_return \<lparr>qr_messages = map (RuntimeEvent sid) events
               @ [RuntimeProtocol (if eq_group_read_denied acc
                   then redacted_req_closed sid (as_authenticated_pubkeys auth) else RelayEose sid)],
             qr_group_read_denied = eq_group_read_denied acc,
             qr_metrics = with_returned_events (eq_metrics acc) (length events)\<rparr>)
        (safe_answer (ri_filters api) (rs_groups rs) auth (set filters) sid search_present)"
      unfolding Let_def using that by (intro act_yields_return) (simp add: safe_answer_sorted)
  qed
qed (auto intro!: act_rules safe_search_report)

lemma query_then_project_safe:
  assumes "find_lawful (ri_find api)"
  shows "act_yields (\<lambda>s. rt_view s = (rs, c, l))
      (act_bind (query_req_with_auth_report api sid filters search_present auth)
        (\<lambda>report. project_query_report api report filters projection auth))
    (safe_answer (ri_filters api) (rs_groups rs) auth (set filters) sid search_present)"
  unfolding query_req_with_auth_report_def
proof (rule act_yields_bind_read)
  fix s report
  assume s: "rt_view s = (rs, c, l)"
    and "query_req (ri_filters api) (ri_find api) (rtm_services s) (base_limits_of s)
      (bc_pocket_query (rtm_config s)) sid filters search_present (as_authenticated_pubkeys auth) = Ok report"
  then obtain events ending where
    answer: "qr_messages report = map (RuntimeEvent sid) events @ [RuntimeProtocol ending]"
      "\<And>e. e \<in> set events \<Longrightarrow> read_gate_visible (rs_groups rs) e (as_authenticated_pubkeys auth) = Ok True"
      "answer_ending sid search_present (qr_group_read_denied report) ending"
    using s by (elim query_req_answer [OF assms]) (simp add: rt_view_def)
  show "act_yields (\<lambda>s. rt_view s = (rs, c, l)) (project_query_report api report filters projection auth)
      (safe_answer (ri_filters api) (rs_groups rs) auth (set filters) sid search_present)"
    by (rule project_query_report_safe [OF answer])
qed

lemma query_with_projection_safe:
  assumes "find_lawful (ri_find api)"
  shows "act_yields (\<lambda>s. rt_view s = (rs, c, l))
      (query_req_with_projection api elapsed sid filters search_present auth projection)
    (safe_answer (ri_filters api) (rs_groups rs) auth (set filters) sid search_present)"
  unfolding query_req_with_projection_def
proof (rule view_bind(2), rule act_yields_bind)
  fix plan
  show "act_yields (\<lambda>s. rt_view s = (rs, c, l)) (case plan of
        BeforeProjection \<Rightarrow> act_bind (query_req_with_auth_report api sid filters search_present auth)
          (\<lambda>report. project_query_report api report filters projection auth)
      | AfterProjection candidate_limit \<Rightarrow>
          query_projected_req api sid filters search_present auth projection candidate_limit)
      (safe_answer (ri_filters api) (rs_groups rs) auth (set filters) sid search_present)"
  proof (cases plan)
    case BeforeProjection
    then show ?thesis by (simp add: query_then_project_safe [OF assms])
  qed (simp add: query_projected_req_safe [OF assms])
next
  fix report
  assume "safe_answer (ri_filters api) (rs_groups rs) auth (set filters) sid search_present report"
  then show "act_yields (\<lambda>s. rt_view s = (rs, c, l))
      (act_bind (if qr_group_read_denied report then record_metric record_group_read_denial else act_return ())
        (\<lambda>_. act_bind (record_metric (record_query_latency elapsed)) (\<lambda>_. act_return report)))
      (safe_answer (ri_filters api) (rs_groups rs) auth (set filters) sid search_present)"
    by (cases "qr_group_read_denied report"; simp only: if_True if_False;
        intro view_bind act_yields_bind_return act_yields_return)
qed

text \<open>
  Claim C6. Whatever the hooks of the runtime plan and decide, the answer to the query of a session holds only
  events that the reader may see and that match a filter of the request, each id once; it ends with
  EOSE, or with CLOSED when a search was asked for or an event was hidden from the reader. A query
  never changes the store or the groups.
\<close>

theorem projected_query_safe:
  assumes "find_lawful (ri_find api)"
    and "query_req_with_projection api elapsed sid filters search_present auth projection s = Some (Ok report, t)"
  shows "safe_answer (ri_filters api) (rs_groups (rtm_services s)) auth (set filters) sid search_present report
    \<and> rtm_services t = rtm_services s"
proof -
  obtain rs c l where s: "rt_view s = (rs, c, l)" by (cases "rt_view s") auto
  note safe = query_with_projection_safe [OF assms(1)]
  from act_yields_Ok [OF safe s assms(2)] act_yieldsD [OF safe s assms(2)] s show ?thesis
    by (simp add: rt_view_def)
qed

section \<open>Live events\<close>

text \<open>A live message carries an event for a subscription of the connection, safe for its filters.\<close>

definition live_message ::
  "'f pocket_filter_api \<Rightarrow> 't group_service_state option \<Rightarrow> base_auth_state \<Rightarrow> 'f live_subscription_set \<Rightarrow>
   runtime_relay_message \<Rightarrow> bool" where
  "live_message api groups auth subscriptions m \<longleftrightarrow> (case m of
       RuntimeProtocol _ \<Rightarrow> False
     | RuntimeEvent sid e \<Rightarrow> \<exists>(sid', filters)\<in>set (ls_subscriptions subscriptions).
         sid' = sid \<and> safe_output api groups auth (set filters) e)"

fun delivery_key :: "runtime_relay_message \<Rightarrow> (subscription_id \<times> event_id) option" where
  "delivery_key (RuntimeEvent sid e) = Some (sid, pe_id e)"
| "delivery_key (RuntimeProtocol _) = None"

definition live_delivered ::
  "'f pocket_filter_api \<Rightarrow> 't group_service_state option \<Rightarrow> base_auth_state \<Rightarrow> 'f live_subscription_set \<Rightarrow>
   live_delivery \<Rightarrow> bool" where
  "live_delivered api groups auth subscriptions = (\<lambda>(delivered, messages).
     list_all (live_message api groups auth subscriptions) messages
     \<and> delivered = set (List.map_filter delivery_key messages)
     \<and> distinct (List.map_filter delivery_key messages))"

lemma delivery_keys_append [simp]:
  "List.map_filter delivery_key (xs @ [RuntimeEvent sid e]) = List.map_filter delivery_key xs @ [(sid, pe_id e)]"
  by (simp add: List.map_filter_def)

lemma live_match_filters:
  assumes "(sid, filters) \<in> set (ls_subscriptions subscriptions)" and "m = live_match api e (sid, filters)"
    and "\<exists>f\<in>set filters. filter_hits api e f"
  shows "let matched = zip (matched_filter_contexts api m) (map snd (lm_matched_filters m))
    in snd ` set matched \<subseteq> set filters \<and> (\<exists>f\<in>snd ` set matched. filter_hits api e f)"
proof -
  have "snd ` set (zip (matched_filter_contexts api m) (map snd (lm_matched_filters m))) = snd ` set (lm_matched_filters m)"
    by (metis length_map list.set_map map_snd_zip matched_filter_contexts_def)
  also have "\<dots> = {f \<in> set filters. filter_hits api e f}"
  proof -
    have "snd ` {x \<in> set (enumerate 0 filters). filter_hits api e (snd x)}
        = {f \<in> snd ` set (enumerate 0 filters). filter_hits api e f}" by blast
    also have "snd ` set (enumerate 0 filters) = set filters" by (metis map_snd_enumerate list.set_map)
    finally show ?thesis by (simp add: assms(2) live_match_def case_prod_unfold)
  qed
  finally have hits: "snd ` set (zip (matched_filter_contexts api m) (map snd (lm_matched_filters m)))
      = {f \<in> set filters. filter_hits api e f}" .
  show ?thesis using assms(3) unfolding Let_def hits by blast
qed

lemma deliver_match_safe:
  assumes "live_delivered (ri_filters api) (rs_groups rs) auth subscriptions delivery"
    and "read_gate_visible (rs_groups rs) e (as_authenticated_pubkeys auth) = Ok True"
    and "(sid, filters) \<in> set (ls_subscriptions subscriptions)" and "m = live_match (ri_filters api) e (sid, filters)"
    and "\<exists>f\<in>set filters. filter_hits (ri_filters api) e f"
  shows "act_yields (\<lambda>s. rt_view s = (rs, c, l)) (deliver_match api projection auth e offset delivery m)
    (live_delivered (ri_filters api) (rs_groups rs) auth subscriptions)"
proof -
  obtain delivered messages where delivery: "delivery = (delivered, messages)" by (cases delivery)
  let ?matched = "zip (matched_filter_contexts (ri_filters api) m) (map snd (lm_matched_filters m))"
  have matched: "snd ` set ?matched \<subseteq> set filters" "\<exists>f\<in>snd ` set ?matched. filter_hits (ri_filters api) e f"
    using live_match_filters [OF assms(3-5)] by (simp_all add: Let_def)
  have sid: "lm_subscription_id m = sid" by (simp add: assms(4) live_match_def)
  have "safe_output (ri_filters api) (rs_groups rs) auth (snd ` set ?matched) e"
    using assms(2) matched(2) by (simp add: safe_output_def)
  note safe = project_event_output_safe [OF this, where c = c and l = l]
  show ?thesis
    unfolding deliver_match_def delivery prod.case sid
  proof (rule act_yields_bind [OF safe])
    fix out
    assume out: "\<forall>p. out = Some p \<longrightarrow> safe_output (ri_filters api) (rs_groups rs) auth (snd ` set ?matched) p"
    show "act_yields (\<lambda>s. rt_view s = (rs, c, l))
        (case out of None \<Rightarrow> act_return (delivered, messages)
         | Some p \<Rightarrow> if (sid, pe_id p) \<in> delivered then act_return (delivered, messages)
             else act_return (insert (sid, pe_id p) delivered, messages @ [RuntimeEvent sid p]))
        (live_delivered (ri_filters api) (rs_groups rs) auth subscriptions)"
    proof (cases out)
      case (Some p)
      then have "safe_output (ri_filters api) (rs_groups rs) auth (set filters) p"
        using out safe_output_mono [OF _ matched(1)] by blast
      then have "live_message (ri_filters api) (rs_groups rs) auth subscriptions (RuntimeEvent sid p)"
        using assms(3) by (auto simp: live_message_def)
      then show ?thesis
        using assms(1) Some by (auto simp: delivery live_delivered_def intro!: act_rules)
    qed (use assms(1) in \<open>auto simp: delivery intro!: act_rules\<close>)
  qed
qed

lemma fanout_projected_safe:
  assumes "live_delivered (ri_filters api) (rs_groups rs) auth subscriptions delivery"
  shows "act_yields (\<lambda>s. rt_view s = (rs, c, l)) (fanout_projected api subscriptions projection auth e offset delivery)
    (live_delivered (ri_filters api) (rs_groups rs) auth subscriptions)"
  unfolding fanout_projected_def
proof (rule act_yields_bind_read)
  fix s matched
  assume s: "rt_view s = (rs, c, l)"
    and "live_fanout (ri_filters api) subscriptions e (as_authenticated_pubkeys auth)
      (\<lambda>e auth. read_gate_visible (rs_groups (rtm_services s)) e auth = Ok True) = Ok matched"
  from live_fanout_spec [OF this(2)] s have matched: "matched = map (live_match (ri_filters api) e)
      (filter (\<lambda>(sid, filters). read_gate_visible (rs_groups rs) e (as_authenticated_pubkeys auth) = Ok True
        \<and> (\<exists>f\<in>set filters. filter_hits (ri_filters api) e f)) (ls_subscriptions subscriptions))"
    by (simp add: rt_view_def)
  show "act_yields (\<lambda>s. rt_view s = (rs, c, l))
      (act_try_fold (deliver_match api projection auth e offset) delivery matched)
      (live_delivered (ri_filters api) (rs_groups rs) auth subscriptions)"
  proof (rule act_yields_try_fold)
    show "live_delivered (ri_filters api) (rs_groups rs) auth subscriptions delivery" by (rule assms)
  next
    fix delivery m
    assume "m \<in> set matched" "live_delivered (ri_filters api) (rs_groups rs) auth subscriptions delivery"
    then show "act_yields (\<lambda>s. rt_view s = (rs, c, l)) (deliver_match api projection auth e offset delivery m)
        (live_delivered (ri_filters api) (rs_groups rs) auth subscriptions)"
      by (auto simp: matched intro: deliver_match_safe)
  qed
qed

lemma fanout_event_offset_safe:
  "act_yields (\<lambda>s. rt_view s = (rs, c, l)) (fanout_event_offset api offset subscriptions auth projection)
    (\<lambda>messages. list_all (live_message (ri_filters api) (rs_groups rs) auth subscriptions) messages
      \<and> distinct (List.map_filter delivery_key messages))"
proof -
  let ?live = "live_delivered (ri_filters api) (rs_groups rs) auth subscriptions"
  have start: "?live ({}, [])" by (simp add: live_delivered_def List.map_filter_def)
  have candidate: "act_yields (\<lambda>s. rt_view s = (rs, c, l)) (fanout_candidate api subscriptions projection auth delivery off) ?live"
    if "?live delivery" for delivery off
    unfolding fanout_candidate_def using that by (auto intro!: act_rules fanout_projected_safe)
  show ?thesis
    unfolding fanout_event_offset_def
  proof (intro act_yields_bind_read, rule act_yields_bind [OF fanout_projected_safe [OF start]],
      intro act_yields_bind_lift view_bind)
    fix delivery candidates
    assume "?live delivery"
    then have "act_yields (\<lambda>s. rt_view s = (rs, c, l))
        (act_try_fold (fanout_candidate api subscriptions projection auth) delivery candidates) ?live"
      by (rule act_yields_try_fold) (rule candidate)
    then show "act_yields (\<lambda>s. rt_view s = (rs, c, l))
        (act_bind (act_try_fold (fanout_candidate api subscriptions projection auth) delivery candidates)
          (\<lambda>(_, messages). act_return messages))
        (\<lambda>messages. list_all (live_message (ri_filters api) (rs_groups rs) auth subscriptions) messages
          \<and> distinct (List.map_filter delivery_key messages))"
      by (rule act_yields_bind) (auto simp: live_delivered_def intro!: act_rules)
  qed
qed

text \<open>
  Claim C12. Whatever candidates the hooks offer and whatever they put in the place of an event, a live message
  holds an event that the reader of the connection may see and that matches a filter of the
  subscription it is sent for, and one stored offset sends an event at most once per subscription.
\<close>

theorem live_fanout_safe:
  assumes "fanout_event_offset api offset subscriptions auth projection s = Some (Ok messages, t)"
  shows "list_all (live_message (ri_filters api) (rs_groups (rtm_services s)) auth subscriptions) messages
    \<and> distinct (List.map_filter delivery_key messages) \<and> rtm_services t = rtm_services s"
proof -
  obtain rs c l where s: "rt_view s = (rs, c, l)" by (cases "rt_view s") auto
  from act_yields_Ok [OF fanout_event_offset_safe s assms] act_yieldsD [OF fanout_event_offset_safe s assms] s
  show ?thesis by (simp add: rt_view_def)
qed

end
