(* ===== verification/Relay_Samples.thy ===== *)
theory Relay_Samples
  imports Relay_Runtime_Facts Config_Facts
begin

text \<open>
  A concrete runtime, on which the properties of the runtime and of its sessions are evaluated: the
  store that takes one event, a filter that matches everything, hooks that put a stored event in the place of
  the one they are shown, and a broadcast channel that keeps the list of what it was sent.
\<close>

definition sample_hooks :: "unit runtime_hooks" where
  "sample_hooks = noop_hooks\<lparr>hk_project_event := (\<lambda>_ h. (ReplaceWithStoredOffset 8, h)),
     hk_live_projection_candidates := (\<lambda>_ h. ([8], h))\<rparr>"

definition sample_broadcast :: "store_offset list broadcast_api" where
  "sample_broadcast = \<lparr>bcast_channel = (\<lambda>_. []), bcast_send = (\<lambda>offset sent. (Some 1, sent @ [offset])),
     bcast_subscribe = (\<lambda>sent. sent), bcast_receiver_count = (\<lambda>_. 1)\<rparr>"

definition sample_runtime_api ::
  "(string list list, table_state, u32, nat, unit, store_offset list) runtime_api" where
  "sample_runtime_api = \<lparr>ri_env = storing_env, ri_filters = sample_filter_api, ri_find = sample_find,
     ri_hll = sample_hll, ri_hooks = sample_hooks, ri_broadcast = sample_broadcast,
     ri_open_store = (\<lambda>_. Ok (\<lambda>t. []))\<rparr>"

definition sample_base_config :: base_runtime_config where
  "sample_base_config = \<lparr>bc_listen_addr = \<lparr>sa_ip = ''127.0.0.1'', sa_display = ''127.0.0.1:80''\<rparr>, bc_relay_url = ''wss://relay.example'',
     bc_pocket = \<lparr>sc_data_directory = ''data'', sc_sync_policy = FlushOnWrite\<rparr>,
     bc_pocket_query = pocket_query_config_default, bc_groups = group_runtime_config_disabled,
     bc_auth_ttl_seconds = 60, bc_auth_created_at_skew_seconds = 60, bc_limits = sample_limits_config,
     bc_rate_limits = sample_rates, bc_tracing = \<lparr>tr_enabled = False, tr_filter = '''', tr_format = TracingJson\<rparr>\<rparr>"

definition sample_runtime :: "(string list list, table_state, unit, store_offset list) relay_runtime" where
  "sample_runtime = \<lparr>rtm_config = sample_base_config, rtm_services = sample_services,
     rtm_readiness = runtime_ready_before_bind,
     rtm_limits = \<lparr>rtl_max_message_length = 1000, rtl_base_relay_limits = sample_limits,
       rtl_event_bus_capacity = 4, rtl_outbound_queue_capacity = 4\<rparr>,
     rtm_event_bus = \<lparr>eb_sender = [], eb_capacity = 4\<rparr>, rtm_rate_limiter = rate_limiter_new,
     rtm_metrics = runtime_metrics_new, rtm_shutdown_requested = False, rtm_hook_state = ()\<rparr>"

definition sample_auth :: base_auth_state where
  "sample_auth = \<lparr>as_relay_url = ''wss://relay.example'', as_accepted_relay_urls = {},
     as_challenge_ttl_seconds = 60, as_created_at_skew_seconds = 60, as_challenge = None,
     as_authenticated_pubkeys = {}\<rparr>"

lemma sample_runtime_simps [simp]:
  "ri_env sample_runtime_api = storing_env" "ri_filters sample_runtime_api = sample_filter_api"
  "ri_find sample_runtime_api = sample_find" "ri_broadcast sample_runtime_api = sample_broadcast"
  "hk_project_event (ri_hooks sample_runtime_api) c h = (ReplaceWithStoredOffset 8, h)"
  "hk_live_projection_candidates (ri_hooks sample_runtime_api) d h = ([8], h)"
  "hk_plan_query (ri_hooks sample_runtime_api) q h = (BeforeProjection, h)"
  "hk_admit_event (ri_hooks sample_runtime_api) a h = (AdmitAccept, h)"
  "hk_event_stored (ri_hooks sample_runtime_api) b h = h"
  "hk_storage_used_bytes (ri_hooks sample_runtime_api) h = (None, h)"
  "hk_sanitize_public_message (ri_hooks sample_runtime_api) m h = (m, h)"
  "rtm_services sample_runtime = sample_services" "base_limits_of sample_runtime = sample_limits"
  "bc_pocket_query (rtm_config sample_runtime) = pocket_query_config_default"
  "gr_enabled (bc_groups (rtm_config sample_runtime)) \<longleftrightarrow> False"
  "as_authenticated_pubkeys sample_auth = {}"
  by (simp_all add: sample_runtime_api_def sample_hooks_def noop_hooks_def sample_runtime_def base_limits_of_def
      sample_base_config_def group_runtime_config_disabled_def sample_auth_def)

lemma sample_event_at_8: "event_by_offset (re_store storing_env) 8 st = Ok (sample_pocket_event 1 [])"
  by (simp add: event_by_offset_def storing_env_def)

lemma sample_event_context:
  "\<exists>ctx. event_context_from_pocket u (sample_pocket_event 1 []) = Ok ctx"
  by (simp add: event_context_from_pocket_def sample_pocket_event_def utf8_text_def)

lemma sample_visible [simp]: "read_gate_visible None e auth = Ok True"
  by (simp add: read_gate_visible_def)

lemma sample_hook_state [simp]: "s\<lparr>rtm_hook_state := ()\<rparr> = s"
  by (cases s) simp

lemma sample_project:
  assumes "rtm_services s = sample_services" and "matched \<noteq> []"
  shows "project_event_output sample_runtime_api sid projection source (sample_pocket_event 1 []) auth matched s
    = Some (Ok (Some (sample_pocket_event 1 [])), s)"
proof -
  obtain ctx where ctx: "event_context_from_pocket (re_utf8_error storing_env) (sample_pocket_event 1 []) = Ok ctx"
    using sample_event_context by blast
  have matches: "event_matches_any sample_filter_api (map snd matched) (sample_pocket_event 1 []) = Ok True"
  proof -
    have "try_fold (\<lambda>matched f. if matched then Ok True
        else map_err base_error (pf_event_matches sample_filter_api f (sample_pocket_event 1 []))) True fs = Ok True" for fs
      by (induction fs) simp_all
    then show ?thesis using assms(2) by (cases matched) (simp_all add: event_matches_any_def)
  qed
  show ?thesis
    using assms(1) ctx matches
    by (simp add: project_event_output_def call_hook_def act_bind_def sample_event_at_8 sample_visible)
qed

lemma sample_report:
  assumes "query_req sample_filter_api sample_find sample_services sample_limits pocket_query_config_default
      ''s'' [10] False {} = Ok report"
    and "qr_messages report = [RuntimeEvent ''s'' (sample_pocket_event 1 []), RuntimeProtocol (RelayEose ''s'')]"
    and "\<not> qr_group_read_denied report"
    and "rtm_services s = sample_services" "base_limits_of s = sample_limits"
    and "bc_pocket_query (rtm_config s) = pocket_query_config_default"
  shows "\<exists>report t. query_req_with_projection sample_runtime_api elapsed ''s'' [10] False sample_auth projection s
    = Some (Ok report, t) \<and> \<not> qr_group_read_denied report \<and> rt_view t = rt_view s
    \<and> qr_messages report = [RuntimeEvent ''s'' (sample_pocket_event 1 []), RuntimeProtocol (RelayEose ''s'')]"
proof -
  obtain matched where matched: "matched_filters_for_event sample_filter_api [10] (sample_pocket_event 1 []) = Ok matched"
    "matched \<noteq> []"
    by (simp add: matched_filters_for_event_def match_filters_def match_visit_def)
  show ?thesis
    using assms matched sample_project [of s matched "''s''" projection HistoricalQuery sample_auth]
    by (simp add: query_req_with_projection_def call_hook_def act_bind_def query_req_with_auth_report_def
        project_query_report_def project_runtime_messages_def project_message_def record_metric_def)
qed

theorem projected_query_safe_witness:
  "\<exists>report t. query_req_with_projection sample_runtime_api 5 ''s'' [10] False sample_auth
      projection_context_default sample_runtime = Some (Ok report, t)
    \<and> safe_answer sample_filter_api (rs_groups sample_services) sample_auth {10} ''s'' False report"
proof -
  obtain report where "query_req sample_filter_api sample_find sample_services sample_limits
      pocket_query_config_default ''s'' [10] False {} = Ok report"
    "qr_messages report = [RuntimeEvent ''s'' (sample_pocket_event 1 []), RuntimeProtocol (RelayEose ''s'')]"
    "\<not> qr_group_read_denied report"
    using sample_req [of "{}"] by blast
  from sample_report [OF this, of sample_runtime 5 projection_context_default] obtain report t where
    run: "query_req_with_projection sample_runtime_api 5 ''s'' [10] False sample_auth projection_context_default
      sample_runtime = Some (Ok report, t)" by auto
  have "find_lawful (ri_find sample_runtime_api)" using sample_find_lawful by simp
  from projected_query_safe [OF this run] run show ?thesis by auto
qed

definition sample_subscriptions :: "u32 live_subscription_set" where
  "sample_subscriptions = \<lparr>ls_subscriptions = [(''s'', [10])], ls_max_subscriptions = 2\<rparr>"

lemma sample_fanout:
  "fanout_event_offset sample_runtime_api 8 sample_subscriptions sample_auth projection_context_default sample_runtime
   = Some (Ok [RuntimeEvent ''s'' (sample_pocket_event 1 [])], sample_runtime)"
proof -
  obtain ctx where ctx: "event_context_from_pocket (re_utf8_error storing_env) (sample_pocket_event 1 []) = Ok ctx"
    using sample_event_context by blast
  have live: "live_fanout sample_filter_api sample_subscriptions (sample_pocket_event 1 []) {} visible
      = Ok (if visible (sample_pocket_event 1 []) {} then [\<lparr>lm_subscription_id = ''s'', lm_matched_filters = [(0, 10)]\<rparr>] else [])"
    for visible
    by (simp add: live_fanout_def fanout_visit_def match_filters_def match_visit_def sample_subscriptions_def)
  have deliver: "deliver_match sample_runtime_api p sample_auth (sample_pocket_event 1 []) 8 (delivered, messages)
        \<lparr>lm_subscription_id = ''s'', lm_matched_filters = [(0, 10)]\<rparr> sample_runtime
      = Some (Ok (if (''s'', pe_id (sample_pocket_event 1 [])) \<in> delivered then (delivered, messages)
          else (insert (''s'', pe_id (sample_pocket_event 1 [])) delivered,
            messages @ [RuntimeEvent ''s'' (sample_pocket_event 1 [])])), sample_runtime)" for p delivered messages
    by (simp add: deliver_match_def act_bind_def sample_project matched_filter_contexts_def)
  show ?thesis
    by (simp add: fanout_event_offset_def act_bind_def sample_event_at_8 fanout_projected_def live sample_visible
        deliver ctx call_hook_def fanout_candidate_def)
qed

theorem live_fanout_safe_witness:
  "\<exists>messages t. fanout_event_offset sample_runtime_api 8 sample_subscriptions sample_auth projection_context_default
      sample_runtime = Some (Ok messages, t)
    \<and> messages = [RuntimeEvent ''s'' (sample_pocket_event 1 [])]
    \<and> list_all (live_message sample_filter_api (rs_groups sample_services) sample_auth sample_subscriptions) messages"
  using live_fanout_safe [OF sample_fanout] sample_fanout by simp

end
