(* ===== verification/Relay_Messages.thy ===== *)
theory Relay_Messages
  imports Relay_Samples
begin

text \<open>
  What the handler of client messages does: the replies each message has, what it leaves alone, and
  that the offsets published to the sessions are exactly those of the events the relay has stored.
\<close>

section \<open>Quiet calls\<close>

text \<open>A property that depends neither on the counters, nor on the hooks, nor on the rate limiter.\<close>

definition quiet :: "(('t, 'st, 'h, 'b) relay_runtime \<Rightarrow> bool) \<Rightarrow> bool" where
  "quiet P \<longleftrightarrow> (\<forall>s m h l. P s \<longrightarrow> P (s\<lparr>rtm_metrics := m\<rparr>) \<and> P (s\<lparr>rtm_hook_state := h\<rparr>)
     \<and> P (s\<lparr>rtm_rate_limiter := l\<rparr>))"

lemma quietD:
  "quiet P \<Longrightarrow> P s \<Longrightarrow> P (s\<lparr>rtm_metrics := m\<rparr>)" "quiet P \<Longrightarrow> P s \<Longrightarrow> P (s\<lparr>rtm_hook_state := h\<rparr>)"
  "quiet P \<Longrightarrow> P s \<Longrightarrow> P (s\<lparr>rtm_rate_limiter := l\<rparr>)"
  by (simp_all add: quiet_def)

text \<open>The part of the state a rejected message leaves alone.\<close>

definition rt_still :: "('t, 'st, 'h, 'b) relay_runtime \<Rightarrow>
   (('t, 'st) relay_services \<times> base_runtime_config \<times> runtime_limits) \<times> 'b event_bus" where
  "rt_still s = (rt_view s, rtm_event_bus s)"

lemma quiet_still: "quiet (\<lambda>s. rt_still s = v)" and quiet_view: "quiet (\<lambda>s. rt_view s = u)"
  by (simp_all add: quiet_def rt_still_def)

lemma quiet_basic:
  assumes "quiet P"
  shows "Q () \<Longrightarrow> act_yields P (record_metric f) Q"
    and "(\<And>x. R x) \<Longrightarrow> act_yields P (call_hook g) R"
    and "(\<And>x. T x) \<Longrightarrow> act_yields P (limiter_record key rule now) T"
  using quietD [OF assms]
  by (auto simp: act_yields_def record_metric_def call_hook_def limiter_record_def Let_def split: prod.splits)

lemma quiet_bind:
  assumes "quiet P"
  shows "act_yields P (k ()) Q \<Longrightarrow> act_yields P (act_bind (record_metric f) k) Q"
    and "(\<And>x. act_yields P (k' x) R) \<Longrightarrow> act_yields P (act_bind (call_hook g) k') R"
    and "(\<And>x. act_yields P (k'' x) T) \<Longrightarrow> act_yields P (act_bind (limiter_record key rule now) k'') T"
  by (auto intro!: act_yields_bind quiet_basic [OF assms])

section \<open>Rate limits\<close>

text \<open>A check answers with nothing or with a message of a kind.\<close>

abbreviation limits_by ::
  "(('t, 'st, 'h, 'b) relay_runtime \<Rightarrow> bool) \<Rightarrow> ('t, 'st, 'h, 'b, relay_message option) runtime_action \<Rightarrow>
   (relay_message \<Rightarrow> bool) \<Rightarrow> bool" where
  "limits_by P check K \<equiv> act_yields P check (\<lambda>found. \<forall>m. found = Some m \<longrightarrow> K m)"

lemma limits_none: "limits_by P (act_return None) K"
  by (simp add: act_yields_return)

lemma limits_unless: "limits_by P check K \<Longrightarrow> limits_by P rest K \<Longrightarrow> limits_by P (unless_limited check rest) K"
  unfolding unless_limited_def by (erule act_yields_bind) (auto intro!: act_rules split: option.split)

lemma limits_given: "(\<And>x. limits_by P (check x) K) \<Longrightarrow> limits_by P (limit_given value check) K"
  by (auto simp: limit_given_def intro!: act_rules split: option.split)

lemma limits_each: "(\<And>x. limits_by P (check x) K) \<Longrightarrow> limits_by P (limit_each check xs) K"
  by (induction xs) (auto intro: limits_unless limits_none)

lemmas limit_rules = limits_none limits_unless limits_given limits_each act_yields_bind_get act_yields_bind_lift

definition refused_event :: "pocket_event \<Rightarrow> relay_message \<Rightarrow> bool" where
  "refused_event e m \<longleftrightarrow> (\<exists>text. m = RelayOk (pe_id e) False text)"

definition closed_query :: "subscription_id \<Rightarrow> relay_message \<Rightarrow> bool" where
  "closed_query sid m \<longleftrightarrow> (\<exists>text. m = RelayClosed sid text)"

lemma limits_ok: "quiet P \<Longrightarrow> limits_by P (rate_limit_ok_pocket e key rule label now) (refused_event e)"
  unfolding rate_limit_ok_pocket_def
  by (auto intro!: quiet_bind act_rules simp: refused_event_def split: rate_limit_decision.split)

lemma limits_closed: "quiet P \<Longrightarrow> limits_by P (rate_limit_closed sid key rule label dimension now) (closed_query sid)"
  unfolding rate_limit_closed_def
  by (auto intro!: quiet_bind act_rules simp: closed_query_def split: rate_limit_decision.split)

lemma limits_event: "quiet P \<Longrightarrow> limits_by P (rate_limit_event_pocket e context now) (refused_event e)"
  unfolding rate_limit_event_pocket_def by (intro limit_rules limits_ok)

lemma limits_auth_attempt: "quiet P \<Longrightarrow> limits_by P (rate_limit_auth_attempt e context now) (refused_event e)"
  and limits_auth_failure: "quiet P \<Longrightarrow> limits_by P (rate_limit_auth_failure e context now) (refused_event e)"
  unfolding rate_limit_auth_attempt_def rate_limit_auth_failure_def by (intro limit_rules limits_ok; assumption)+

lemma limits_group_write: "quiet P \<Longrightarrow> limits_by P (rate_limit_group_write e context now) (refused_event e)"
  unfolding rate_limit_group_write_def rate_limit_join_flow_def Let_def
  by (intro limit_rules act_yields_if act_yields_sum act_yields_option limits_ok; assumption)

lemma limits_closed_broad:
  "quiet P \<Longrightarrow> limits_by P (act_bind (rate_limit_closed sid key rule label dimension now) (\<lambda>limited. case limited of
       None \<Rightarrow> act_return None
     | Some message \<Rightarrow> act_bind (record_metric f) (\<lambda>_. act_return (Some message)))) (closed_query sid)"
  by (rule act_yields_bind [OF limits_closed]) (auto intro!: quiet_bind act_rules split: option.split)

lemma limits_query:
  "quiet P \<Longrightarrow> limits_by P (rate_limit_pocket_query api scope rules label sid filters auth context now) (closed_query sid)"
  unfolding rate_limit_pocket_query_def Let_def
  by (intro limit_rules limits_closed act_yields_if limits_closed_broad; assumption)

lemma limits_req: "quiet P \<Longrightarrow> limits_by P (rate_limit_req api sid filters auth context now) (closed_query sid)"
  and limits_count: "quiet P \<Longrightarrow> limits_by P (rate_limit_count api sid filters auth context now) (closed_query sid)"
  unfolding rate_limit_req_def rate_limit_count_def by (intro limit_rules limits_query; assumption)+

lemma limits_broad_count: "quiet P \<Longrightarrow> limits_by P (refuse_broad_count api sid filters) (closed_query sid)"
  unfolding refuse_broad_count_def
  by (auto intro!: limit_rules quiet_bind act_rules simp: closed_query_def)

section \<open>Publication\<close>

definition publish_all :: "'b broadcast_api \<Rightarrow> store_offset list \<Rightarrow> 'b event_bus \<Rightarrow> 'b event_bus" where
  "publish_all api offsets bus = fold (\<lambda>offset bus. snd (bus_publish api offset bus)) offsets bus"

lemma publish_each:
  "\<exists>t. act_each (publish_offset api) offsets s = Some (Ok (), t) \<and> rt_view t = rt_view s
     \<and> rtm_event_bus t = publish_all (ri_broadcast api) offsets (rtm_event_bus s)"
proof (induction offsets arbitrary: s)
  case (Cons offset offsets)
  obtain receivers bus where bus: "bus_publish (ri_broadcast api) offset (rtm_event_bus s) = (receivers, bus)"
    by fastforce
  have "\<exists>u. publish_offset api offset s = Some (Ok (), u) \<and> rt_view u = rt_view s \<and> rtm_event_bus u = bus"
    by (simp add: publish_offset_def record_metric_def bus rt_view_def)
  then obtain u where u: "publish_offset api offset s = Some (Ok (), u)" "rt_view u = rt_view s" "rtm_event_bus u = bus"
    by blast
  from Cons.IH [of u] u bus show ?case by (auto simp: publish_all_def)
qed (simp add: publish_all_def)

lemma finish_event_run:
  "\<exists>t. finish_event is_group_event elapsed message s = Some (Ok [RuntimeProtocol message], t) \<and> rt_still t = rt_still s"
  by (simp add: finish_event_def record_metric_def rt_still_def)

text \<open>What is done between the write of an event and the publication of its offsets.\<close>

lemma after_write_run:
  "\<exists>t. act_bind (if is_group_event then record_outbox_metrics w else act_return ()) (\<lambda>_.
      if ew_stored_offsets w = [] then act_return ()
      else act_bind (call_hook (\<lambda>h. ((), hk_event_stored hooks \<lparr>es_event = ctx, es_store_offsets = ew_stored_offsets w\<rparr> h)))
        (\<lambda>_. record_storage_used api)) s = Some (Ok (), t) \<and> rt_still t = rt_still s"
  by (simp add: record_outbox_metrics_def call_hook_def record_storage_used_def record_metric_def act_bind_def
      rt_still_def split: option.split)

text \<open>
  How a submitted event ends. Before the write it may be refused, or fail, with nothing changed and
  nothing published. Otherwise the reply is that of the relay core, and the bus is sent the offsets
  of the events the core stored, in their order; when the core fails, nothing is published.
\<close>

definition refused_unwritten ::
  "pocket_event \<Rightarrow> ('t, 'st, 'h, 'b) relay_runtime \<Rightarrow> base_relay_error + runtime_relay_message list \<Rightarrow>
   ('t, 'st, 'h, 'b) relay_runtime \<Rightarrow> bool" where
  "refused_unwritten e s r t \<longleftrightarrow> rt_still t = rt_still s
     \<and> (\<forall>replies. r = Ok replies \<longrightarrow> (\<exists>m. replies = [RuntimeProtocol m] \<and> refused_event e m))"

definition written_published ::
  "('t, 'st, 'f, 'q, 'h, 'b) runtime_api \<Rightarrow> pocket_event \<Rightarrow> base_auth_state \<Rightarrow> ('t, 'st, 'h, 'b) relay_runtime \<Rightarrow>
   base_relay_error + runtime_relay_message list \<Rightarrow> ('t, 'st, 'h, 'b) relay_runtime \<Rightarrow> bool" where
  "written_published api e auth s r t \<longleftrightarrow>
     (\<exists>q. handle_pocket_event (ri_env api) (base_limits_of s) e (as_authenticated_pubkeys auth) (rtm_services s)
            = Some (q, rtm_services t)
        \<and> (case q of
             Inl error \<Rightarrow> r = Err error \<and> rtm_event_bus t = rtm_event_bus s
           | Inr w \<Rightarrow> r = Ok [RuntimeProtocol (ew_message w)]
               \<and> rtm_event_bus t = publish_all (ri_broadcast api) (ew_stored_offsets w) (rtm_event_bus s)))"

lemma write_admitted_event_run:
  assumes "handle_pocket_event (ri_env api) (base_limits_of s) e (as_authenticated_pubkeys auth) (rtm_services s)
      = Some (Ok w, rs)"
  shows "\<exists>t. write_admitted_event api elapsed e ctx is_group_event auth s = Some (Ok [RuntimeProtocol (ew_message w)], t)
    \<and> rtm_services t = rs
    \<and> rtm_event_bus t = publish_all (ri_broadcast api) (ew_stored_offsets w) (rtm_event_bus s)"
proof -
  let ?handle = "handle_pocket_event (ri_env api) (base_limits_of s) e (as_authenticated_pubkeys auth)"
  let ?s = "s\<lparr>rtm_services := rs\<rparr>"
  let ?after = "act_bind (if is_group_event then record_outbox_metrics w else act_return ()) (\<lambda>_.
    if ew_stored_offsets w = [] then act_return ()
    else act_bind (call_hook (\<lambda>h. ((), hk_event_stored (ri_hooks api)
        \<lparr>es_event = ctx, es_store_offsets = ew_stored_offsets w\<rparr> h))) (\<lambda>_. record_storage_used api))"
  have written: "on_services ?handle s = Some (Ok w, ?s)"
    using assms by (simp add: on_services_def act_on_def)
  obtain u where u: "?after ?s = Some (Ok (), u)" "rt_still u = rt_still ?s"
    using after_write_run [of is_group_event w "ri_hooks api" ctx api ?s] by blast
  obtain v where v: "act_each (publish_offset api) (ew_stored_offsets w) u = Some (Ok (), v)" "rt_view v = rt_view u"
    "rtm_event_bus v = publish_all (ri_broadcast api) (ew_stored_offsets w) (rtm_event_bus u)"
    using publish_each by blast
  obtain x where x: "finish_event is_group_event elapsed (ew_message w) v = Some (Ok [RuntimeProtocol (ew_message w)], x)"
    "rt_still x = rt_still v"
    using finish_event_run by blast
  have "write_admitted_event api elapsed e ctx is_group_event auth s =
      act_bind ?after (\<lambda>_. act_bind (act_each (publish_offset api) (ew_stored_offsets w))
        (\<lambda>_. finish_event is_group_event elapsed (ew_message w))) ?s"
    using written by (simp add: write_admitted_event_def act_bind_assoc)
  then show ?thesis using u v x by (auto simp: rt_still_def rt_view_def)
qed

lemma write_admitted_event_published:
  assumes "write_admitted_event api elapsed e ctx is_group_event auth s = Some (r, t)"
  shows "written_published api e auth s r t"
proof -
  let ?handle = "handle_pocket_event (ri_env api) (base_limits_of s) e (as_authenticated_pubkeys auth)"
  obtain q rs where q: "?handle (rtm_services s) = Some (q, rs)"
    using assms by (cases "?handle (rtm_services s)") (auto simp: write_admitted_event_def on_services_def act_on_def)
  show ?thesis
  proof (cases q)
    case (Inl error)
    with assms q show ?thesis
      by (auto simp: write_admitted_event_def written_published_def on_services_def act_on_def act_bind_iff)
  next
    case (Inr w)
    from write_admitted_event_run [OF q [unfolded Inr], of elapsed ctx is_group_event] assms q Inr show ?thesis
      by (auto simp: written_published_def)
  qed
qed

lemma storage_used_run: "\<exists>t. record_storage_used api s = Some (Ok (), t) \<and> rt_still t = rt_still s"
  by (simp add: record_storage_used_def call_hook_def record_metric_def act_bind_def rt_still_def split: option.split)

lemma written_published_still:
  assumes "rt_still u = rt_still s"
  shows "written_published api e auth u r t \<longleftrightarrow> written_published api e auth s r t"
proof -
  have eqs: "rtm_services u = rtm_services s" "rtm_limits u = rtm_limits s" "rtm_event_bus u = rtm_event_bus s"
    using assms by (simp_all add: rt_still_def rt_view_def)
  show ?thesis unfolding written_published_def base_limits_of_def eqs ..
qed

lemma admit_event_cases:
  assumes "admit_event api elapsed e (pe_id e) ctx is_group_event auth rate_context now s = Some (r, t)"
  shows "refused_unwritten e s r t \<or> written_published api e auth s r t"
proof -
  let ?admission = "\<lparr>ea_event = ctx, ea_authenticated_pubkeys = authenticated auth,
    ea_peer_ip = cx_peer_ip rate_context, ea_connection_id = cx_connection_id rate_context, ea_now = now\<rparr>"
  obtain decision h where hook: "hk_admit_event (ri_hooks api) ?admission (rtm_hook_state s) = (decision, h)"
    by fastforce
  obtain u where u: "record_storage_used api (s\<lparr>rtm_hook_state := h\<rparr>) = Some (Ok (), u)"
    "rt_still u = rt_still (s\<lparr>rtm_hook_state := h\<rparr>)" using storage_used_run by blast
  then have still: "rt_still u = rt_still s" by (simp add: rt_still_def)
  have run: "(case decision of
        AdmitReject message \<Rightarrow> finish_event is_group_event elapsed
          (RelayOk (pe_id e) False (base_prefixed_message (base_restricted message)))
      | AdmitAccept \<Rightarrow> write_admitted_event api elapsed e ctx is_group_event auth) u = Some (r, t)"
    using assms u(1) hook by (simp add: admit_event_def call_hook_def)
  show ?thesis
  proof (cases decision)
    case AdmitAccept
    with run have "write_admitted_event api elapsed e ctx is_group_event auth u = Some (r, t)" by simp
    from write_admitted_event_published [OF this] show ?thesis unfolding written_published_still [OF still] ..
  next
    case (AdmitReject message)
    obtain v where "finish_event is_group_event elapsed (RelayOk (pe_id e) False
        (base_prefixed_message (base_restricted message))) u = Some (Ok [RuntimeProtocol (RelayOk (pe_id e) False
        (base_prefixed_message (base_restricted message)))], v)" "rt_still v = rt_still u"
      using finish_event_run by blast
    with run AdmitReject still show ?thesis by (auto simp: refused_unwritten_def refused_event_def)
  qed
qed

lemma handle_event_message_cases:
  assumes "handle_event_message api elapsed e auth rate_context now s = Some (r, t)"
  shows "refused_unwritten e s r t \<or> written_published api e auth s r t"
proof (cases "runtime_event_id e")
  case (Inl error)
  with assms show ?thesis by (auto simp: handle_event_message_def refused_unwritten_def)
next
  case id: (Inr eid)
  then have eid: "eid = pe_id e" by (cases "valid_event_id (pe_id e)") auto
  show ?thesis
  proof (cases "event_context_from_pocket (re_utf8_error (ri_env api)) e")
    case (Inl error)
    with assms id show ?thesis by (auto simp: handle_event_message_def refused_unwritten_def)
  next
    case ctx: (Inr ctx)
    let ?group = "is_group_event_pocket e s"
    let ?check = "unless_limited (rate_limit_event_pocket e rate_context now) (rate_limit_group_write e rate_context now)"
    let ?next = "\<lambda>limited. case limited of
        Some message \<Rightarrow> finish_event ?group elapsed message
      | None \<Rightarrow> admit_event api elapsed e (pe_id e) ctx ?group auth rate_context now"
    have run: "act_bind ?check ?next s = Some (r, t)"
      using assms id ctx by (simp add: handle_event_message_def eid)
    then obtain q u where check: "?check s = Some (q, u)"
      by (cases "?check s") auto
    have quiet: "limits_by (\<lambda>x. rt_still x = rt_still s) ?check (refused_event e)"
      by (intro limits_unless limits_event limits_group_write quiet_still)
    from act_yieldsD [OF quiet refl check] have still: "rt_still u = rt_still s" .
    show ?thesis
    proof (cases q)
      case (Inl error)
      with run check still show ?thesis by (auto simp: refused_unwritten_def)
    next
      case (Inr limited)
      with run check have next_run: "?next limited u = Some (r, t)" by simp
      show ?thesis
      proof (cases limited)
        case None
        with next_run have "admit_event api elapsed e (pe_id e) ctx ?group auth rate_context now u = Some (r, t)"
          by simp
        from admit_event_cases [OF this] show ?thesis
          unfolding written_published_still [OF still] by (auto simp: refused_unwritten_def still)
      next
        case (Some m)
        with act_yields_Ok [OF quiet refl, of "Some m" u] check Inr have "refused_event e m" by simp
        moreover obtain v where "finish_event ?group elapsed m u = Some (Ok [RuntimeProtocol m], v)" "rt_still v = rt_still u"
          using finish_event_run by blast
        ultimately show ?thesis using next_run Some still by (auto simp: refused_unwritten_def)
      qed
    qed
  qed
qed


section \<open>The replies to a message\<close>

definition query_reply ::
  "'f pocket_filter_api \<Rightarrow> 't group_service_state option \<Rightarrow> base_auth_state \<Rightarrow> 'f set \<Rightarrow> subscription_id \<Rightarrow>
   runtime_relay_message list \<Rightarrow> bool" where
  "query_reply api groups auth filters sid replies \<longleftrightarrow>
     (\<exists>events ending. replies = map (RuntimeEvent sid) events @ [RuntimeProtocol ending]
        \<and> list_all (safe_output api groups auth filters) events \<and> distinct (map pe_id events)
        \<and> (ending = RelayEose sid \<or> closed_query sid ending))"

lemma query_reply_answer:
  "safe_answer api groups auth filters sid search_present report \<Longrightarrow>
   query_reply api groups auth filters sid (qr_messages report)"
  by (auto simp: safe_answer_def query_reply_def answer_ending_def closed_query_def split: if_splits)

lemma query_reply_closed: "closed_query sid m \<Longrightarrow> query_reply api groups auth filters sid [RuntimeProtocol m]"
  by (auto simp: query_reply_def intro: exI [of _ "[]"])

definition count_reply :: "subscription_id \<Rightarrow> runtime_relay_message list \<Rightarrow> bool" where
  "count_reply sid replies \<longleftrightarrow>
     (\<exists>m. replies = [RuntimeProtocol m] \<and> ((\<exists>n hll. m = RelayCount sid n hll) \<or> closed_query sid m))"

definition ok_reply :: "pocket_event \<Rightarrow> runtime_relay_message list \<Rightarrow> bool" where
  "ok_reply e replies \<longleftrightarrow> (\<exists>accepted text. replies = [RuntimeProtocol (RelayOk (pe_id e) accepted text)])"

fun client_replies ::
  "'f pocket_filter_api \<Rightarrow> 't group_service_state option \<Rightarrow> base_auth_state \<Rightarrow> 'f runtime_client_message \<Rightarrow>
   runtime_relay_message list \<Rightarrow> bool" where
  "client_replies api groups auth (RuntimeClientEvent e) replies \<longleftrightarrow> ok_reply e replies"
| "client_replies api groups auth (RuntimeClientAuth e) replies \<longleftrightarrow> ok_reply e replies"
| "client_replies api groups auth (RuntimeClientReq sid filters search_present) replies \<longleftrightarrow>
     query_reply api groups auth (set filters) sid replies"
| "client_replies api groups auth (RuntimeClientCount sid filters search_present) replies \<longleftrightarrow> count_reply sid replies"
| "client_replies api groups auth (RuntimeClientClose sid) replies \<longleftrightarrow> replies = []"
| "client_replies api groups auth (RuntimeClientNegOpen sid f m) replies \<longleftrightarrow>
     replies = [RuntimeProtocol (disabled_negentropy_message sid)]"
| "client_replies api groups auth (RuntimeClientNegMsg sid m) replies \<longleftrightarrow>
     replies = [RuntimeProtocol (disabled_negentropy_message sid)]"
| "client_replies api groups auth (RuntimeClientNegClose sid) replies \<longleftrightarrow> replies = []"

lemma finish_query_yields:
  "quiet P \<Longrightarrow> Q [RuntimeProtocol m] \<Longrightarrow> act_yields P (finish_query elapsed m) Q"
  by (auto simp: finish_query_def intro!: quiet_bind act_rules)

lemma guard_query_yields:
  assumes "quiet P" and "limits_by P limit (closed_query sid)" and "act_yields P run Q"
    and "\<And>m. closed_query sid m \<Longrightarrow> Q [RuntimeProtocol m]"
  shows "act_yields P (guard_query api elapsed sid filters search_present limit run) Q"
  unfolding guard_query_def
proof (intro act_yields_bind_read act_yields_option act_yields_bind [OF assms(2)])
  fix m
  assume "unsupported_search_closed sid search_present = Some m"
  then show "act_yields P (finish_query elapsed m) Q"
    by (auto simp: unsupported_search_closed_def closed_query_def split: if_splits
        intro!: finish_query_yields assms(1,4))
qed (use assms(3) in \<open>auto intro!: finish_query_yields assms(1,4)\<close>)

lemma handle_req_yields:
  assumes "find_lawful (ri_find api)"
  shows "act_yields (\<lambda>s. rt_view s = (rs, c, l))
      (handle_req_message api elapsed sid filters search_present auth rate_context now)
    (query_reply (ri_filters api) (rs_groups rs) auth (set filters) sid)"
  unfolding handle_req_message_def
proof (rule guard_query_yields [OF quiet_view limits_req [OF quiet_view]])
  have "act_yields (\<lambda>s. rt_view s = (rs, c, l))
      (act_bind (query_req_with_auth_report api sid filters search_present auth)
        (\<lambda>report. project_query_report api report filters projection_context_default auth))
      (safe_answer (ri_filters api) (rs_groups rs) auth (set filters) sid search_present)"
    by (rule query_then_project_safe [OF assms])
  then show "act_yields (\<lambda>s. rt_view s = (rs, c, l))
      (act_bind (query_req_with_auth_report api sid filters search_present auth) (\<lambda>report.
        act_bind (project_query_report api report filters projection_context_default auth) (\<lambda>report.
        act_bind (record_query_outcome elapsed (qr_metrics report) (qr_group_read_denied report))
          (\<lambda>_. act_return (qr_messages report)))))
      (query_reply (ri_filters api) (rs_groups rs) auth (set filters) sid)"
    unfolding act_bind_assoc [symmetric] record_query_outcome_def
    by (rule act_yields_bind) (auto intro!: view_bind act_rules query_reply_answer)
qed (rule query_reply_closed)

lemma handle_count_yields:
  "act_yields (\<lambda>s. rt_view s = v)
      (handle_count_message api elapsed sid filters search_present auth rate_context now) (count_reply sid)"
  unfolding handle_count_message_def
proof (rule guard_query_yields [OF quiet_view limits_unless [OF limits_broad_count limits_count]])
  show "act_yields (\<lambda>s. rt_view s = v)
      (act_bind (handle_count_with_auth_report api sid filters search_present auth) (\<lambda>report.
        act_bind (record_query_outcome elapsed (cp_metrics report) (cp_group_read_denied report))
          (\<lambda>_. act_return [RuntimeProtocol (cp_message report)]))) (count_reply sid)"
    unfolding handle_count_with_auth_report_def record_query_outcome_def
    by (intro act_yields_bind_read view_bind act_yields_return)
       (auto simp: handle_count_def and_then_Ok_iff map_ok_Ok_iff unsupported_search_closed_def count_reply_def
         closed_query_def split: if_splits)
qed (auto simp: count_reply_def intro: quiet_view)

lemma authenticate_yields:
  "act_yields P (authenticate_connection api e now auth)
     (\<lambda>(replies, auth). \<exists>accepted text. replies = [RelayOk (pe_id e) accepted text])"
  by (auto simp: act_yields_def authenticate_connection_def handle_pocket_auth_def split: sum.splits)

lemma handle_auth_yields:
  assumes "quiet P"
  shows "act_yields P (handle_auth_message api e auth rate_context now) (\<lambda>(replies, auth). ok_reply e replies)"
proof -
  have id: "eid = pe_id e" if "runtime_event_id e = Ok eid" for eid
    using that by (cases "valid_event_id (pe_id e)") auto
  show ?thesis
    unfolding handle_auth_message_def
    by (intro act_yields_bind_lift act_yields_bind_get act_yields_sum act_yields_option act_yields_prod act_yields_if
        quiet_bind [OF assms] act_yields_bind [OF limits_auth_attempt [OF assms]] act_yields_return
        act_yields_bind [OF limits_auth_failure [OF assms]] act_yields_bind [OF authenticate_yields])
       (auto simp: refused_event_def ok_reply_def dest!: id)
qed

lemma keep_auth_iff:
  "keep_auth auth m s = Some (Ok (replies, auth'), t) \<longleftrightarrow> m s = Some (Ok replies, t) \<and> auth' = auth"
  by (auto simp: keep_auth_def act_bind_iff)

lemma validate_then_iff:
  "act_bind (validate_sid sid) (\<lambda>_. act_return replies) s = Some (Ok found, t) \<longleftrightarrow>
     validate_subscription_id (base_limits_of s) sid = Ok () \<and> found = replies \<and> t = s"
  by (auto simp: validate_sid_def act_bind_iff)

lemma event_ok_reply:
  assumes "handle_event_message api elapsed e auth rate_context now s = Some (Ok replies, t)"
  shows "ok_reply e replies"
  using handle_event_message_cases [OF assms]
proof
  assume "refused_unwritten e s (Ok replies) t"
  then show ?thesis by (auto simp: refused_unwritten_def refused_event_def ok_reply_def)
next
  assume "written_published api e auth s (Ok replies) t"
  then obtain q where q: "handle_pocket_event (ri_env api) (base_limits_of s) e (as_authenticated_pubkeys auth)
      (rtm_services s) = Some (q, rtm_services t)"
    "case q of Inl error \<Rightarrow> False | Inr w \<Rightarrow> replies = [RuntimeProtocol (ew_message w)]"
    unfolding written_published_def by (elim exE conjE, split sum.splits) (auto split: sum.splits)
  then obtain w where w: "handle_pocket_event (ri_env api) (base_limits_of s) e (as_authenticated_pubkeys auth)
      (rtm_services s) = Some (Ok w, rtm_services t)" "replies = [RuntimeProtocol (ew_message w)]"
    by (cases q) auto
  from handle_pocket_event_cases [OF w(1)] have "\<exists>accepted text. ew_message w = RelayOk (pe_id e) accepted text"
    by (auto simp: write_outcome_def)
  with w(2) show ?thesis by (auto simp: ok_reply_def)
qed

lemma record_metric_bind:
  "act_bind (record_metric f) k s = k () (s\<lparr>rtm_metrics := f (rtm_metrics s)\<rparr>)"
  by (simp add: record_metric_def)

text \<open>What a message that is not an event, or not an authentication, leaves alone.\<close>

definition message_frame ::
  "'f runtime_client_message \<Rightarrow> base_auth_state \<Rightarrow> base_auth_state \<Rightarrow> ('t, 'st, 'h, 'b) relay_runtime \<Rightarrow>
   ('t, 'st, 'h, 'b) relay_runtime \<Rightarrow> bool" where
  "message_frame message auth auth' s t \<longleftrightarrow>
     (case message of RuntimeClientEvent _ \<Rightarrow> True | _ \<Rightarrow> rt_view t = rt_view s)
     \<and> (case message of RuntimeClientAuth _ \<Rightarrow> True | _ \<Rightarrow> auth' = auth)"

text \<open>
  Claim C10. Every client message has replies of its own kind: an EVENT and an AUTH one OK with the id of the
  event, a COUNT one COUNT or CLOSED, a REQ events the reader may see followed by one EOSE or CLOSED,
  a negotiation one error, a CLOSE nothing. Only an event changes the store or the groups, and only
  an authentication changes who the connection is.
\<close>

theorem client_message_replies:
  assumes "find_lawful (ri_find api)"
    and "handle_client_message api elapsed message auth rate_context now s = Some (Ok (replies, auth'), t)"
  shows "client_replies (ri_filters api) (rs_groups (rtm_services s)) auth message replies
    \<and> message_frame message auth auth' s t"
proof -
  let ?u = "s\<lparr>rtm_metrics := record_client_message (message_metric_kind message) (rtm_metrics s)\<rparr>"
  obtain rs c l where view: "rt_view s = (rs, c, l)" by (cases "rt_view s") auto
  then have u: "rt_view ?u = (rs, c, l)" and groups: "rs_groups (rtm_services s) = rs_groups rs"
    by (simp_all, simp add: rt_view_def)
  note run = assms(2) [unfolded handle_client_message_def record_metric_bind]
  show ?thesis
  proof (cases message)
    case (RuntimeClientEvent e)
    with run have "handle_event_message api elapsed e auth rate_context now ?u = Some (Ok replies, t)" "auth' = auth"
      by (simp_all add: keep_auth_iff)
    then show ?thesis by (simp add: RuntimeClientEvent event_ok_reply message_frame_def)
  next
    case (RuntimeClientReq sid filters search_present)
    with run have req: "handle_req_message api elapsed sid filters search_present auth rate_context now ?u
        = Some (Ok replies, t)" "auth' = auth"
      by (simp_all add: keep_auth_iff)
    note yields = handle_req_yields [OF assms(1)]
    from act_yields_Ok [OF yields u req(1)] act_yieldsD [OF yields u req(1)] req(2) view groups show ?thesis
      by (simp add: RuntimeClientReq message_frame_def)
  next
    case (RuntimeClientCount sid filters search_present)
    with run have req: "handle_count_message api elapsed sid filters search_present auth rate_context now ?u
        = Some (Ok replies, t)" "auth' = auth"
      by (simp_all add: keep_auth_iff)
    from act_yields_Ok [OF handle_count_yields u req(1)] act_yieldsD [OF handle_count_yields u req(1)] req(2) view
    show ?thesis by (simp add: RuntimeClientCount message_frame_def)
  next
    case (RuntimeClientAuth e)
    with run have req: "handle_auth_message api e auth rate_context now ?u = Some (Ok (replies, auth'), t)" by simp
    note yields = handle_auth_yields [OF quiet_view]
    from act_yields_Ok [OF yields u req] act_yieldsD [OF yields u req] view show ?thesis
      by (simp add: RuntimeClientAuth message_frame_def)
  qed (use run view in \<open>auto simp: keep_auth_iff validate_then_iff message_frame_def\<close>)
qed

section \<open>Samples\<close>

lemma sample_unlimited:
  assumes "map_of (rtm_rate_limiter s) key = None"
  shows "\<exists>entry. rate_limit_ok_pocket e key sample_rule label now s
    = Some (Ok None, s\<lparr>rtm_rate_limiter := AList.update key entry (rtm_rate_limiter s)\<rparr>)"
  using assms
  by (simp add: rate_limit_ok_pocket_def limiter_record_def rate_limit_record_def current_entry_def
      rate_limit_entry_new_def sample_rule_def act_bind_def Let_def) (rule exI, rule refl)

lemma sample_checked:
  assumes "rt_view s = rt_view sample_runtime" and "rtm_rate_limiter s = rate_limiter_new"
  shows "\<exists>u. unless_limited (rate_limit_event_pocket (sample_pocket_event 1 []) rate_limit_context_default now)
      (rate_limit_group_write (sample_pocket_event 1 []) rate_limit_context_default now) s
    = Some (Ok None, u) \<and> rt_still u = rt_still s"
proof -
  let ?e = "sample_pocket_event 1 []"
  let ?pubkey = "RatePubkey ScopeEvent (replicate 64 CHR ''b'')" and ?kind = "RateKind ScopeEvent (kind_u32 ?e)"
  have pubkey: "runtime_event_pubkey ?e = Ok (replicate 64 CHR ''b'')"
    by (simp add: sample_pocket_event_def lower_hex_replicate)
  have config: "rtm_config s = sample_base_config" using assms(1) by (simp add: rt_view_def sample_runtime_def)
  have rules: "rlc_event (bc_rate_limits sample_base_config)
      = \<lparr>erl_per_ip = sample_rule, erl_per_pubkey = sample_rule, erl_per_kind = sample_rule\<rparr>"
    by (simp add: sample_base_config_def sample_rates_def)
  have fresh: "map_of (rtm_rate_limiter s) ?pubkey = None"
    by (simp add: assms(2) rate_limiter_new_def)
  obtain entry where first: "rate_limit_ok_pocket ?e ?pubkey sample_rule ''event pubkey'' now s
      = Some (Ok None, s\<lparr>rtm_rate_limiter := AList.update ?pubkey entry (rtm_rate_limiter s)\<rparr>)"
    using sample_unlimited [OF fresh] by blast
  let ?s = "s\<lparr>rtm_rate_limiter := AList.update ?pubkey entry (rtm_rate_limiter s)\<rparr>"
  have "map_of (rtm_rate_limiter ?s) ?kind = None"
    by (simp add: update_conv assms(2) rate_limiter_new_def)
  from sample_unlimited [OF this, of ?e "''event kind''" now] obtain u where
    second: "rate_limit_ok_pocket ?e ?kind sample_rule ''event kind'' now ?s = Some (Ok None, u)"
    "rt_still u = rt_still s" by (auto simp: rt_still_def)
  have "rate_limit_event_pocket ?e rate_limit_context_default now s = Some (Ok None, u)"
    using first second(1)
    by (simp add: rate_limit_event_pocket_def config rules rate_limit_context_default_def limit_given_def
        unless_limited_def act_bind_def pubkey)
  moreover have "rtm_config u = sample_base_config" using second(2) config by (simp add: rt_still_def rt_view_def)
  then have "rate_limit_group_write ?e rate_limit_context_default now u = Some (Ok None, u)"
    by (simp add: rate_limit_group_write_def sample_base_config_def group_runtime_config_disabled_def)
  ultimately show ?thesis using second(2) by (simp add: unless_limited_def act_bind_def)
qed

lemma sample_fresh: "rtm_rate_limiter sample_runtime = rate_limiter_new"
  by (simp add: sample_runtime_def)

lemma sample_event_run:
  assumes "rt_view s = rt_view sample_runtime" and "rtm_rate_limiter s = rate_limiter_new"
  shows "\<exists>t. handle_event_message sample_runtime_api 5 (sample_pocket_event 1 []) sample_auth
      rate_limit_context_default 100 s
    = Some (Ok [RuntimeProtocol (ok_accepted (replicate 64 CHR ''a'') [])], t)"
proof -
  let ?e = "sample_pocket_event 1 []" and ?i = "replicate 64 CHR ''a''"
  obtain ctx where ctx: "event_context_from_pocket (re_utf8_error storing_env) ?e = Ok ctx"
    using sample_event_context by blast
  have eid: "runtime_event_id ?e = Ok ?i"
    by (simp add: sample_pocket_event_def lower_hex_replicate)
  obtain u where u: "unless_limited (rate_limit_event_pocket ?e rate_limit_context_default 100)
      (rate_limit_group_write ?e rate_limit_context_default 100) s = Some (Ok None, u)" "rt_still u = rt_still s"
    using sample_checked [OF assms] by blast
  then have view: "rtm_services u = sample_services" "base_limits_of u = sample_limits"
    using assms(1) by (simp_all add: rt_still_def rt_view_def base_limits_of_def sample_runtime_def)
  have stored: "handle_pocket_event (ri_env sample_runtime_api) (base_limits_of u) ?e
      (as_authenticated_pubkeys sample_auth) (rtm_services u)
    = Some (Ok (write_stored (ok_accepted ?i []) [16]),
        sample_services\<lparr>rs_store := (\<lambda>t. [])(''events'' := [(?i, [])])\<rparr>)"
    using sample_stored by (simp add: view)
  obtain t where t: "write_admitted_event sample_runtime_api 5 ?e ctx (is_group_event_pocket ?e s) sample_auth u
      = Some (Ok [RuntimeProtocol (ok_accepted ?i [])], t)"
    using write_admitted_event_run [OF stored, of 5 ctx "is_group_event_pocket ?e s"] by (auto simp: write_stored_def)
  have admit: "admit_event sample_runtime_api 5 ?e ?i ctx (is_group_event_pocket ?e s) sample_auth
      rate_limit_context_default 100 u = Some (Ok [RuntimeProtocol (ok_accepted ?i [])], t)"
    using t by (simp add: admit_event_def call_hook_def record_storage_used_def act_bind_def)
  show ?thesis
    by (rule exI [of _ t]) (simp only: handle_event_message_def eid ctx sample_runtime_simps act_bind_def act_simps
      option.case prod.case sum.case u(1) admit)
qed


theorem client_message_replies_witness:
  "\<exists>replies t. handle_client_message sample_runtime_api 5 (RuntimeClientEvent (sample_pocket_event 1 [])) sample_auth
      rate_limit_context_default 100 sample_runtime = Some (Ok (replies, sample_auth), t)
    \<and> ok_reply (sample_pocket_event 1 []) replies"
proof -
  let ?i = "replicate 64 CHR ''a''"
  let ?u = "sample_runtime\<lparr>rtm_metrics := record_client_message MetricEvent (rtm_metrics sample_runtime)\<rparr>"
  obtain t where "handle_event_message sample_runtime_api 5 (sample_pocket_event 1 []) sample_auth
      rate_limit_context_default 100 ?u = Some (Ok [RuntimeProtocol (ok_accepted ?i [])], t)"
    using sample_event_run [of ?u] by (auto simp: sample_fresh)
  then have run: "handle_client_message sample_runtime_api 5 (RuntimeClientEvent (sample_pocket_event 1 [])) sample_auth
      rate_limit_context_default 100 sample_runtime
    = Some (Ok ([RuntimeProtocol (ok_accepted ?i [])], sample_auth), t)"
    by (simp add: handle_client_message_def record_metric_bind keep_auth_iff)
  have "find_lawful (ri_find sample_runtime_api)" using sample_find_lawful by simp
  from client_message_replies [OF this run] run show ?thesis by auto
qed

end
