(* ===== verification/Session_Facts.thy ===== *)
theory Session_Facts
  imports Relay_Session Relay_Messages
begin

text \<open>
  What a session promises: the permits it holds of the host are those of its live subscriptions
  whatever messages, events and failures it meets, and it gives all of them back when it ends; its
  queue of outgoing frames stays within its capacity; and a request subscribes the connection exactly when its
  answer ends with EOSE and its filters can still match new events.
\<close>

section \<open>The permits of a session\<close>

definition session_ok :: "('t, 'st, 'f, 'h, 'b) session_world \<Rightarrow> bool" where
  "session_ok w \<longleftrightarrow> live_wf (se_subscriptions (sw_session w)) \<and> bt_wf (se_permits (sw_session w))
     \<and> snd ` set (se_permits (sw_session w)) \<subseteq> {1}
     \<and> (if sw_resources w = None then se_permits (sw_session w) = []
        else fst ` set (se_permits (sw_session w)) = fst ` set (ls_subscriptions (se_subscriptions (sw_session w))))
     \<and> length (oq_messages (se_outbound (sw_session w))) \<le> oq_capacity (se_outbound (sw_session w))"

text \<open>The counters of the host without the permits of this session, and the size of its queue.\<close>

definition host_without :: "('t, 'st, 'f, 'h, 'b) session_world \<Rightarrow> resource_limiter option" where
  "host_without w = map_option (release_subscriptions (of_nat (length (se_permits (sw_session w))))) (sw_resources w)"

definition session_inv ::
  "resource_limiter option \<Rightarrow> nat \<Rightarrow> ('t, 'st, 'f, 'h, 'b) session_world \<Rightarrow> bool" where
  "session_inv host capacity w \<longleftrightarrow>
     session_ok w \<and> host_without w = host \<and> oq_capacity (se_outbound (sw_session w)) = capacity"

lemma release_fold: "set counts \<subseteq> {1} \<Longrightarrow> fold release_subscriptions counts = release_subscriptions (of_nat (length counts))"
proof (induction counts)
  case Nil
  show ?case by (simp add: release_subscriptions_def fun_eq_iff)
next
  case (Cons n counts)
  then show ?case by (simp add: release_subscriptions_def fun_eq_iff algebra_simps)
qed

lemma release_more: "release_subscriptions m (release_subscriptions n r) = release_subscriptions (n + m) r"
  by (simp add: release_subscriptions_def algebra_simps)

lemma release_none [simp]: "map_option (release_subscriptions 0) res = res"
  by (cases res) (simp_all add: release_subscriptions_def)

lemma drop_no_permits [simp]: "drop_permits [] w = w"
  by (cases "sw_resources w") (simp_all add: drop_permits_def)

text \<open>Calls of the runtime leave the session alone.\<close>

lemma inv_runtime [simp]: "session_inv host capacity (w\<lparr>sw_runtime := r\<rparr>) \<longleftrightarrow> session_inv host capacity w"
  by (simp add: session_inv_def session_ok_def host_without_def)

lemma keeps_on_runtime [act_intros]: "act_keeps (session_inv host capacity) (on_runtime m)"
  unfolding on_runtime_def by (rule act_keeps_on) simp

lemma keeps_session_metric [act_intros]: "act_keeps (session_inv host capacity) (session_metric f)"
  unfolding session_metric_def by (rule keeps_on_runtime)

lemma session_metric_bind: "act_bind (session_metric f) k w
    = k () (w\<lparr>sw_runtime := (sw_runtime w)\<lparr>rtm_metrics := f (rtm_metrics (sw_runtime w))\<rparr>\<rparr>)"
  by (simp add: session_metric_def on_runtime_def act_on_def record_metric_def act_bind_def)

lemma keeps_session_get [act_intros]:
  "act_keeps P (session_get f)" "act_keeps P (session_read g)"
  unfolding session_get_def session_read_def by (rule act_intros)+

lemma keeps_session_modify:
  assumes "\<And>s. se_subscriptions (f s) = se_subscriptions s \<and> se_permits (f s) = se_permits s
      \<and> oq_capacity (se_outbound (f s)) = oq_capacity (se_outbound s)
      \<and> (length (oq_messages (se_outbound s)) \<le> oq_capacity (se_outbound s) \<longrightarrow>
         length (oq_messages (se_outbound (f s))) \<le> oq_capacity (se_outbound s))"
  shows "act_keeps (session_inv host capacity) (session_modify f)"
  unfolding session_modify_def
  by (rule act_keeps_modify) (use assms in \<open>auto simp: session_inv_def session_ok_def host_without_def\<close>)

section \<open>Opening and closing subscriptions\<close>

lemma live_subscribe_keys:
  assumes "live_subscribe sid filters subs = Ok subs'"
  shows "fst ` set (ls_subscriptions subs') = insert sid (fst ` set (ls_subscriptions subs))"
proof -
  have "subs' = subs\<lparr>ls_subscriptions := bt_insert sid filters (ls_subscriptions subs)\<rparr>"
    using assms by (auto simp: live_subscribe_def and_then_Ok_iff)
  then show ?thesis using bt_insert_keys [of sid filters "ls_subscriptions subs"] by simp
qed

lemma bt_get_absent: "bt_get m k = None \<longleftrightarrow> k \<notin> fst ` set m"
  by (simp add: map_of_eq_None_iff)

lemma bt_insert_new_length: "bt_wf m \<Longrightarrow> k \<notin> fst ` set m \<Longrightarrow> length (bt_insert k v m) = Suc (length m)"
  by (simp add: bt_insert_length)

lemma bt_insert_values: "snd ` set (bt_insert k v m) \<subseteq> insert v (snd ` set m)"
  by (induction k v m rule: bt_insert.induct) auto

text \<open>A subscription that is already there keeps its permit.\<close>

lemma resubscribe_inv:
  assumes "session_inv host capacity w" and "live_contains (se_subscriptions (sw_session w)) sid"
    and "subscribe_with_permit sid filters None w = Some (r, t)"
  shows "session_inv host capacity t"
proof (cases "live_subscribe sid filters (se_subscriptions (sw_session w))")
  case (Inl e)
  with assms(3) have "t = w" by (simp add: subscribe_with_permit_def the_permit_def Let_def)
  with assms(1) show ?thesis by simp
next
  case (Inr subs)
  then have t: "t = w\<lparr>sw_session := (sw_session w)\<lparr>se_subscriptions := subs\<rparr>\<rparr>"
    using assms(3) by (simp add: subscribe_with_permit_def Let_def)
  have "live_wf (se_subscriptions (sw_session w))" using assms(1) by (simp add: session_inv_def session_ok_def)
  from live_subscribe_spec [OF this Inr] have "live_wf subs" by simp
  moreover have "fst ` set (ls_subscriptions subs) = fst ` set (ls_subscriptions (se_subscriptions (sw_session w)))"
    using live_subscribe_keys [OF Inr] assms(2) by (auto simp: live_contains_iff)
  ultimately show ?thesis using assms(1) by (simp add: t session_inv_def session_ok_def host_without_def)
qed

lemma reserve_cases:
  assumes "reserve_subscription w = Some (q, u)"
  shows "(sw_resources w = None \<and> q = Ok None \<and> u = w)
    \<or> (\<exists>res error. sw_resources w = Some res \<and> q = Err error \<and> u = w)
    \<or> (\<exists>res. sw_resources w = Some res \<and> q = Ok (Some 1)
        \<and> u = w\<lparr>sw_resources := Some (res\<lparr>rl_active_subscriptions := rl_active_subscriptions res + 1\<rparr>)\<rparr>)"
  using assms
  by (auto simp: reserve_subscription_def try_open_subscriptions_def map_ok_def next_count_Ok
      split: option.splits sum.splits)

lemma new_subscription_inv:
  assumes "session_inv host capacity w" and "\<not> live_contains (se_subscriptions (sw_session w)) sid"
    and "sw_resources w = Some res"
    and "subscribe_with_permit sid filters (Some 1)
      (w\<lparr>sw_resources := Some (res\<lparr>rl_active_subscriptions := rl_active_subscriptions res + 1\<rparr>)\<rparr>) = Some (r, t)"
  shows "session_inv host capacity t"
proof (cases "live_subscribe sid filters (se_subscriptions (sw_session w))")
  case (Inl e)
  with assms(3,4) have "t = w"
    by (auto simp: subscribe_with_permit_def the_permit_def Let_def drop_permits_def release_subscriptions_def)
  with assms(1) show ?thesis by simp
next
  case (Inr subs)
  let ?s = "sw_session w"
  have ok: "live_wf (se_subscriptions ?s)" "bt_wf (se_permits ?s)" "snd ` set (se_permits ?s) \<subseteq> {1}"
    "fst ` set (se_permits ?s) = fst ` set (ls_subscriptions (se_subscriptions ?s))"
    using assms(1,3) by (auto simp: session_inv_def session_ok_def)
  then have absent: "sid \<notin> fst ` set (se_permits ?s)" using assms(2) by (simp add: live_contains_iff)
  then have "bt_get (se_permits ?s) sid = None" by (simp add: bt_get_absent)
  then have t: "t = w\<lparr>sw_session := ?s\<lparr>se_subscriptions := subs, se_permits := bt_insert sid 1 (se_permits ?s)\<rparr>,
      sw_resources := Some (res\<lparr>rl_active_subscriptions := rl_active_subscriptions res + 1\<rparr>)\<rparr>"
    using assms(4) Inr by (simp add: subscribe_with_permit_def Let_def the_permit_def drop_permits_def)
  have "live_wf subs" using live_subscribe_spec [OF ok(1) Inr] by simp
  moreover have "fst ` set (bt_insert sid 1 (se_permits ?s)) = fst ` set (ls_subscriptions subs)"
    using live_subscribe_keys [OF Inr] bt_insert_keys [of sid 1 "se_permits ?s"] ok(4) by simp
  moreover have "snd ` set (bt_insert sid 1 (se_permits ?s)) \<subseteq> {1}"
    using bt_insert_values [of sid 1 "se_permits ?s"] ok(3) by blast
  moreover have "host_without t = host_without w"
    by (simp add: t host_without_def assms(3) bt_insert_new_length [OF ok(2) absent] release_subscriptions_def)
  ultimately show ?thesis
    using assms(1) bt_wf_insert [OF ok(2)] by (simp add: t session_inv_def session_ok_def)
qed

lemma unlimited_subscription_inv:
  assumes "session_inv host capacity w" and "sw_resources w = None"
    and "subscribe_with_permit sid filters None w = Some (r, t)"
  shows "session_inv host capacity t"
proof (cases "live_subscribe sid filters (se_subscriptions (sw_session w))")
  case (Inl e)
  with assms(3) have "t = w" by (simp add: subscribe_with_permit_def the_permit_def Let_def)
  with assms(1) show ?thesis by simp
next
  case (Inr subs)
  then have t: "t = w\<lparr>sw_session := (sw_session w)\<lparr>se_subscriptions := subs\<rparr>\<rparr>"
    using assms(3) by (simp add: subscribe_with_permit_def Let_def)
  have "live_wf (se_subscriptions (sw_session w))" using assms(1) by (simp add: session_inv_def session_ok_def)
  from live_subscribe_spec [OF this Inr] assms(1,2) show ?thesis
    by (simp add: t session_inv_def session_ok_def host_without_def)
qed

lemma open_subscription_inv:
  assumes "session_inv host capacity w" and "already = live_contains (se_subscriptions (sw_session w)) sid"
    and "open_subscription sid filters already w = Some (r, t)"
  shows "session_inv host capacity t"
proof -
  have metric: "act_keeps (session_inv host capacity)
      (if already then act_return () else session_metric record_subscription_opened)"
    by (intro act_intros)
  show ?thesis
  proof (cases already)
    case True
    with assms(3) obtain q u where "subscribe_with_permit sid filters None w = Some (q, u)"
      "t = u" by (auto simp: open_subscription_def act_bind_iff)
    with resubscribe_inv [OF assms(1)] assms(2) True show ?thesis by blast
  next
    case False
    with assms(3) obtain q u where reserve: "reserve_subscription w = Some (q, u)"
      and rest: "case q of Inl e \<Rightarrow> t = u | Inr permit \<Rightarrow>
        act_bind (subscribe_with_permit sid filters permit) (\<lambda>_. session_metric record_subscription_opened) u = Some (r, t)"
      by (auto simp: open_subscription_def act_bind_def split: option.splits prod.splits sum.splits)
    have goes_on: "session_inv host capacity t"
      if "q = Ok permit" "\<And>p v. subscribe_with_permit sid filters permit u = Some (p, v) \<Longrightarrow> session_inv host capacity v" for permit
    proof -
      from rest that(1) have run: "act_bind (subscribe_with_permit sid filters permit)
          (\<lambda>_. session_metric record_subscription_opened) u = Some (r, t)" by simp
      show ?thesis
        using run that(2) act_keepsD [OF keeps_session_metric] unfolding act_bind_iff by blast
    qed
    from reserve_cases [OF reserve] show ?thesis
    proof (elim disjE exE conjE)
      assume "sw_resources w = None" "q = Ok None" "u = w"
      then show ?thesis using goes_on unlimited_subscription_inv [OF assms(1)] by blast
    next
      fix res error
      assume "q = Err error" "u = w"
      with rest assms(1) show ?thesis by simp
    next
      fix res
      assume "sw_resources w = Some res" "q = Ok (Some 1)"
        "u = w\<lparr>sw_resources := Some (res\<lparr>rl_active_subscriptions := rl_active_subscriptions res + 1\<rparr>)\<rparr>"
      then show ?thesis using goes_on new_subscription_inv [OF assms(1)] assms(2) False by blast
    qed
  qed
qed

lemma bt_length_card: "bt_wf m \<Longrightarrow> length m = card (fst ` set m)"
  using distinct_card [OF bt_wf_distinct, of m] by simp

lemma bt_remove_keys: "fst ` set (bt_remove k m) = fst ` set m - {k}"
  by (auto simp: bt_remove_def)

lemma bt_remove_length:
  assumes "bt_wf m" and "k \<in> fst ` set m"
  shows "Suc (length (bt_remove k m)) = length m"
  using assms card_Suc_Diff1 [of "fst ` set m" k]
  by (simp add: bt_length_card bt_wf_remove bt_remove_keys)

lemma close_subscription_inv: "act_keeps (session_inv host capacity) (close_subscription sid)"
proof (rule act_keepsI)
  fix w r t
  assume inv: "session_inv host capacity w" and run: "close_subscription sid w = Some (r, t)"
  let ?s = "sw_session w"
  have ok: "live_wf (se_subscriptions ?s)" "bt_wf (se_permits ?s)" "snd ` set (se_permits ?s) \<subseteq> {1}"
    using inv by (auto simp: session_inv_def session_ok_def)
  let ?subs = "snd (live_close sid (se_subscriptions ?s))"
  have wf: "live_wf ?subs" using live_close_spec [OF ok(1)] by simp
  show "session_inv host capacity t"
  proof (cases "live_contains (se_subscriptions ?s) sid")
    case False
    with run have "t = w" by (simp add: close_subscription_def live_close_def Let_def)
    with inv show ?thesis by simp
  next
    case True
    let ?permits = "bt_remove sid (se_permits ?s)"
    have t: "t = drop_permits (the_permit (bt_get (se_permits ?s) sid))
        (w\<lparr>sw_session := ?s\<lparr>se_subscriptions := ?subs, se_permits := ?permits\<rparr>\<rparr>)"
      using run True by (simp add: close_subscription_def live_close_def Let_def)
    have keys: "fst ` set (ls_subscriptions ?subs) = fst ` set (ls_subscriptions (se_subscriptions ?s)) - {sid}"
      using True by (simp add: live_close_def bt_remove_keys)
    have ones: "snd ` set ?permits \<subseteq> {1}" using ok(3) by (auto simp: bt_remove_def)
    show ?thesis
    proof (cases "sw_resources w")
      case None
      with inv t wf show ?thesis
        by (simp add: session_inv_def session_ok_def host_without_def drop_permits_def bt_remove_def)
    next
      case (Some res)
      then have same: "fst ` set (se_permits ?s) = fst ` set (ls_subscriptions (se_subscriptions ?s))"
        using inv by (simp add: session_inv_def session_ok_def)
      then have mem: "sid \<in> fst ` set (se_permits ?s)" using True by (simp add: live_contains_iff)
      then obtain n where get: "bt_get (se_permits ?s) sid = Some n"
        by (metis bt_get_absent option.exhaust)
      then have "(sid, n) \<in> set (se_permits ?s)" by (rule map_of_SomeD)
      with ok(3) have "n = 1" by force
      with get have t: "t = w\<lparr>sw_session := ?s\<lparr>se_subscriptions := ?subs, se_permits := ?permits\<rparr>,
          sw_resources := Some (release_subscriptions 1 res)\<rparr>"
        by (simp add: t drop_permits_def the_permit_def Some)
      have len: "length (se_permits ?s) = Suc (length ?permits)" using bt_remove_length [OF ok(2) mem] by simp
      have "host_without t = host_without w"
        by (simp add: t host_without_def Some release_more len algebra_simps)
      then show ?thesis
        using inv wf ones bt_wf_remove [OF ok(2)] same Some
        by (simp add: t session_inv_def session_ok_def keys bt_remove_keys)
    qed
  qed
qed

lemma close_all_run:
  assumes "session_inv host capacity w"
  shows "\<exists>n t. close_all_subscriptions w = Some (Ok n, t) \<and> session_inv host capacity t
    \<and> sw_resources t = host \<and> ls_subscriptions (se_subscriptions (sw_session t)) = [] \<and> se_permits (sw_session t) = []"
proof -
  let ?s = "sw_session w"
  have ok: "live_wf (se_subscriptions ?s)" "snd ` set (se_permits ?s) \<subseteq> {1}"
    using assms by (auto simp: session_inv_def session_ok_def)
  then have release: "fold release_subscriptions (map snd (se_permits ?s))
      = release_subscriptions (of_nat (length (se_permits ?s)))"
    by (simp add: release_fold del: fold_map)
  have "sw_resources (snd (the (close_all_subscriptions w))) = host"
    using assms
    by (simp add: close_all_subscriptions_def live_close_all_def Let_def drop_permits_def release session_inv_def host_without_def
        del: fold_map)
  moreover have "host_without (snd (the (close_all_subscriptions w))) = sw_resources (snd (the (close_all_subscriptions w)))"
    by (simp add: close_all_subscriptions_def live_close_all_def Let_def drop_permits_def host_without_def
        release_none del: fold_map)
  ultimately show ?thesis
    using assms live_close_all_wf [OF ok(1)]
    by (simp add: close_all_subscriptions_def live_close_all_def Let_def drop_permits_def session_inv_def session_ok_def
        del: fold_map)
qed

section \<open>Every turn keeps the permits\<close>

lemma keeps_sum [act_intros]:
  "(\<And>e. x = Err e \<Longrightarrow> act_keeps P (g e)) \<Longrightarrow> (\<And>y. x = Ok y \<Longrightarrow> act_keeps P (f y)) \<Longrightarrow>
   act_keeps P (case x of Inl e \<Rightarrow> g e | Inr y \<Rightarrow> f y)"
  by (cases x) simp_all

lemma keeps_enqueue_text [act_intros]: "act_keeps (session_inv host capacity) (enqueue_text text)"
proof (rule act_keepsI)
  fix w r t
  assume inv: "session_inv host capacity w" and run: "enqueue_text text w = Some (r, t)"
  show "session_inv host capacity t"
  proof (cases "outbound_try_send (WsText text) (se_outbound (sw_session w))")
    case (Inl error)
    with run have "act_bind (outbound_queue_error_control error) (\<lambda>control. act_lift (Err control)) w = Some (r, t)"
      by (simp add: enqueue_text_def session_get_def)
    moreover have "act_keeps (session_inv host capacity)
        (act_bind (outbound_queue_error_control error) (\<lambda>control. act_lift (Err control :: session_control + unit)))"
      by (cases error) (auto simp: outbound_queue_error_control_def intro!: act_intros)
    ultimately show ?thesis using inv by (auto dest: act_keepsD)
  next
    case (Inr q)
    with run have "t = w\<lparr>sw_session := (sw_session w)\<lparr>se_outbound := q\<rparr>\<rparr>"
      by (simp add: enqueue_text_def session_get_def session_modify_def)
    with inv Inr show ?thesis
      by (auto simp: session_inv_def session_ok_def host_without_def outbound_try_send_def split: if_splits)
  qed
qed

lemma keeps_send [act_intros]: "act_keeps (session_inv host capacity) (send_relay_message api message)"
  unfolding send_relay_message_def by (intro act_intros)

lemma keeps_enqueue_replies [act_intros]: "act_keeps (session_inv host capacity) (enqueue_replies api replies)"
  unfolding enqueue_replies_def by (intro act_intros)

lemma keeps_issue_auth [act_intros]: "act_keeps (session_inv host capacity) (issue_auth_challenge api fill now)"
  unfolding issue_auth_challenge_def by (intro act_intros keeps_session_modify) simp

text \<open>What a request does to a session: a query, and the subscription it opens or does not open.\<close>

lemma answer_req_cases:
  assumes "answer_req api elapsed sid filters search_present w = Some (r, t)"
  shows "(\<exists>e. r = Err e \<and> sw_session t = sw_session w \<and> sw_resources t = sw_resources w)
    \<or> (\<exists>report rt q.
        query_req_with_projection (si_runtime api) elapsed sid filters search_present (se_auth (sw_session w))
          (se_projection (sw_session w)) (sw_runtime w) = Some (Ok report, rt)
        \<and> (if \<not> filters_complete (ri_filters (si_runtime api)) filters \<and> \<not> qr_group_read_denied report
            then open_subscription sid filters (live_contains (se_subscriptions (sw_session w)) sid)
              (w\<lparr>sw_runtime := rt\<rparr>) = Some (q, t)
            else q = Ok () \<and> t = w\<lparr>sw_runtime := rt\<rparr>)
        \<and> r = map_ok (\<lambda>_. qr_messages report) q)"
proof -
  let ?s = "sw_session w"
  let ?should = "\<not> filters_complete (ri_filters (si_runtime api)) filters"
  let ?query = "query_req_with_projection (si_runtime api) elapsed sid filters search_present (se_auth ?s)
    (se_projection ?s)"
  let ?opening = "\<lambda>report. if ?should \<and> \<not> qr_group_read_denied report
    then open_subscription sid filters (live_contains (se_subscriptions ?s) sid) else act_return ()"
  show ?thesis
  proof (cases "if ?should then ensure_can_subscribe (se_subscriptions ?s) sid filters else Ok ()")
    case (Inl e)
    with assms have "r = Err e" "t = w"
      by (auto simp: answer_req_def session_get_def session_read_def Let_def split: if_splits)
    then show ?thesis by simp
  next
    case (Inr u)
    then have run: "act_bind (on_runtime ?query)
        (\<lambda>report. act_bind (?opening report) (\<lambda>_. act_return (qr_messages report))) w = Some (r, t)"
      using assms by (cases ?should) (simp_all add: answer_req_def session_get_def session_read_def Let_def)
    then obtain p rt where query: "?query (sw_runtime w) = Some (p, rt)"
      by (cases "?query (sw_runtime w)") (auto simp: on_runtime_def act_on_def)
    then have call: "on_runtime ?query w = Some (p, w\<lparr>sw_runtime := rt\<rparr>)" by (simp add: on_runtime_def act_on_def)
    show ?thesis
    proof (cases p)
      case (Inl e)
      with run call have "r = Err e" "t = w\<lparr>sw_runtime := rt\<rparr>" by auto
      then show ?thesis by simp
    next
      case (Inr report)
      with run call have "act_bind (?opening report) (\<lambda>_. act_return (qr_messages report)) (w\<lparr>sw_runtime := rt\<rparr>)
          = Some (r, t)" by simp
      then obtain q where "?opening report (w\<lparr>sw_runtime := rt\<rparr>) = Some (q, t)" "r = map_ok (\<lambda>_. qr_messages report) q"
        unfolding act_bind_iff by (elim disjE exE conjE) auto
      with query Inr show ?thesis by (intro disjI2 exI [of _ report] exI [of _ rt] exI [of _ q]) (auto split: if_splits)
    qed
  qed
qed

lemma keeps_answer_req [act_intros]:
  "act_keeps (session_inv host capacity) (answer_req api elapsed sid filters search_present)"
proof (rule act_keepsI)
  fix w r t
  assume inv: "session_inv host capacity w" and run: "answer_req api elapsed sid filters search_present w = Some (r, t)"
  from answer_req_cases [OF run] show "session_inv host capacity t"
  proof (elim disjE exE conjE)
    fix e
    assume "sw_session t = sw_session w" "sw_resources t = sw_resources w"
    with inv show "session_inv host capacity t" by (simp add: session_inv_def session_ok_def host_without_def)
  next
    fix report rt q
    assume opened: "if \<not> filters_complete (ri_filters (si_runtime api)) filters \<and> \<not> qr_group_read_denied report
        then open_subscription sid filters (live_contains (se_subscriptions (sw_session w)) sid)
          (w\<lparr>sw_runtime := rt\<rparr>) = Some (q, t)
        else q = Ok () \<and> t = w\<lparr>sw_runtime := rt\<rparr>"
    have inv': "session_inv host capacity (w\<lparr>sw_runtime := rt\<rparr>)" using inv by simp
    show "session_inv host capacity t"
    proof (cases "\<not> filters_complete (ri_filters (si_runtime api)) filters \<and> \<not> qr_group_read_denied report")
      case True
      with opened have "open_subscription sid filters (live_contains (se_subscriptions (sw_session w)) sid)
          (w\<lparr>sw_runtime := rt\<rparr>) = Some (q, t)" by simp
      from open_subscription_inv [OF inv' _ this] show ?thesis by simp
    next
      case False
      with opened inv' show ?thesis by simp
    qed
  qed
qed

lemma keeps_session_req [act_intros]:
  "act_keeps (session_inv host capacity) (session_handle_req api elapsed now sid filters search_present)"
  unfolding session_handle_req_def by (intro act_intros)

lemma keeps_handle_by_runtime [act_intros]:
  "act_keeps (session_inv host capacity) (handle_by_runtime api elapsed now message)"
  unfolding handle_by_runtime_def by (intro act_intros keeps_session_modify) simp

lemma keeps_session_close [act_intros]: "act_keeps (session_inv host capacity) (session_handle_close sid)"
  unfolding session_handle_close_def by (intro act_intros close_subscription_inv)

lemma keeps_session_message [act_intros]:
  "act_keeps (session_inv host capacity) (session_handle_client_message api elapsed now message)"
  by (cases message) (simp_all add: act_intros)

lemma keeps_replies_or_notice [act_intros]:
  "act_keeps P m \<Longrightarrow> act_keeps P (replies_or_notice m)"
  unfolding replies_or_notice_def by (intro act_intros)

lemma keeps_incoming [act_intros]:
  "act_keeps (session_inv host capacity) (handle_incoming_message api elapsed now message)"
  by (cases message) (auto simp: handle_incoming_message_def dispatch_text_def intro!: act_intros)

lemma keeps_event_result [act_intros]:
  "act_keeps (session_inv host capacity) (handle_event_receive_result api result)"
proof (cases result)
  case (Inl e)
  then show ?thesis by (cases e) (auto simp: handle_event_receive_result_def intro!: act_intros)
next
  case (Inr offset)
  then show ?thesis by (auto simp: handle_event_receive_result_def handle_event_offset_def intro!: act_intros)
qed

lemma keeps_send_socket [act_intros]: "act_keeps (session_inv host capacity) (send_socket_message sent message)"
  unfolding send_socket_message_def by (intro act_intros keeps_session_modify) simp

lemma keeps_turn_control [act_intros]: "act_keeps (session_inv host capacity) (turn_control sent control)"
  by (cases control) (auto simp: turn_control_def intro!: act_intros)

lemma keeps_peer_active [act_intros]: "act_keeps (session_inv host capacity) (peer_active instant)"
  unfolding peer_active_def by (intro keeps_session_modify) simp

lemma keeps_socket_turn [act_intros]: "act_keeps (session_inv host capacity) (socket_turn api input item)"
proof (cases item)
  case (SocketMessage message)
  then show ?thesis by (cases message) (auto simp: socket_turn_def intro!: act_intros)
qed (auto simp: socket_turn_def intro!: act_intros)

lemma keeps_outbound_turn [act_intros]: "act_keeps (session_inv host capacity) (outbound_turn input)"
proof (rule act_keepsI)
  fix w r t
  assume inv: "session_inv host capacity w" and run: "outbound_turn input w = Some (r, t)"
  show "session_inv host capacity t"
  proof (cases "oq_messages (se_outbound (sw_session w))")
    case Nil
    with run inv show ?thesis by (simp add: outbound_turn_def session_get_def)
  next
    case (Cons message rest)
    let ?u = "w\<lparr>sw_session := (sw_session w)\<lparr>se_outbound := (se_outbound (sw_session w))\<lparr>oq_messages := rest\<rparr>\<rparr>\<rparr>"
    from Cons run have "send_socket_message (sx_sent input) message ?u = Some (r, t)"
      by (simp add: outbound_turn_def session_get_def session_modify_def)
    moreover have "session_inv host capacity ?u"
      using inv Cons by (simp add: session_inv_def session_ok_def host_without_def)
    ultimately show ?thesis by (rule act_keepsD [OF keeps_send_socket, rotated])
  qed
qed

lemma keeps_keepalive_turn [act_intros]: "act_keeps (session_inv host capacity) (keepalive_turn input)"
  unfolding keepalive_turn_def by (intro act_intros)

lemma keeps_session_turn [act_intros]: "act_keeps (session_inv host capacity) (session_turn api input)"
  unfolding session_turn_def
  by (cases "sx_event input") (auto intro!: act_intros keeps_session_modify)

section \<open>The end of a session\<close>

definition session_ended :: "resource_limiter option \<Rightarrow> ('t, 'st, 'f, 'h, 'b) session_world \<Rightarrow> bool" where
  "session_ended host w \<longleftrightarrow> sw_resources w = host
     \<and> ls_subscriptions (se_subscriptions (sw_session w)) = [] \<and> se_permits (sw_session w) = []"

lemma session_end_run:
  fixes r :: "'e + unit"
  assumes "session_inv host capacity w" and "session_end w = Some (r, t)"
  shows "session_inv host capacity t \<and> session_ended host t"
proof -
  obtain n u where "close_all_subscriptions w = Some (Ok n :: 'e + nat, u)" "session_inv host capacity u"
    "session_ended host u"
    using close_all_run [OF assms(1)] by (auto simp: session_ended_def)
  with assms(2) show ?thesis
    by (auto simp: session_end_def session_metric_bind session_metric_def on_runtime_def act_on_def record_metric_def
        session_ended_def)
qed

lemma if_negated: "(if \<not> b then x else y) = (if b then y else x)"
  by simp

lemma bool_bind_cases:
  assumes "act_bind m (\<lambda>b. if b then f else g) s = Some (r, t)"
  obtains (failed) e where "m s = Some (Err e, t)" "r = Err e"
  | (yes) u where "m s = Some (Ok True, u)" "f u = Some (r, t)"
  | (no) u where "m s = Some (Ok False, u)" "g u = Some (r, t)"
  using assms unfolding act_bind_iff by (elim disjE exE conjE) (auto split: if_splits)

lemma session_loop_run:
  assumes "session_inv host capacity w" and "session_loop api inputs w = Some (r, t)"
  shows "session_inv host capacity t \<and> (r = Ok True \<longrightarrow> session_ended host t)"
  using assms
proof (induction inputs arbitrary: w)
  case Nil
  then show ?case by auto
next
  case (Cons input inputs)
  from Cons.prems(2) have "act_bind (session_turn api input) (\<lambda>continues. if continues then session_loop api inputs
      else act_bind session_end (\<lambda>_. act_return True)) w = Some (r, t)" by simp
  then show ?case
  proof (cases rule: bool_bind_cases)
    case failed
    with act_keepsD [OF keeps_session_turn Cons.prems(1) failed(1)] show ?thesis by simp
  next
    case (yes u)
    with act_keepsD [OF keeps_session_turn Cons.prems(1) yes(1)] Cons.IH show ?thesis by blast
  next
    case (no u)
    from act_keepsD [OF keeps_session_turn Cons.prems(1) no(1)] have "session_inv host capacity u" .
    with no(2) session_end_run show ?thesis by (fastforce simp: act_bind_iff)
  qed
qed

lemma session_run_inv:
  assumes "session_inv host capacity w" and "session_run api fill now instant inputs w = Some (r, t)"
  shows "session_inv host capacity t \<and> (r = Ok True \<longrightarrow> session_ended host t)"
proof -
  let ?start = "act_bind (session_metric record_session_opened) (\<lambda>_. issue_auth_challenge api fill now)"
  have start: "act_keeps (session_inv host capacity) ?start" by (intro act_intros)
  have "act_bind ?start (\<lambda>issued. if issued
      then act_bind (peer_active instant) (\<lambda>_. session_loop api inputs)
      else act_bind session_end (\<lambda>_. act_return True)) w = Some (r, t)"
    using assms(2) by (simp only: session_run_def act_bind_assoc if_negated)
  then show ?thesis
  proof (cases rule: bool_bind_cases)
    case failed
    with act_keepsD [OF start assms(1) failed(1)] show ?thesis by simp
  next
    case (yes u)
    from act_keepsD [OF start assms(1) yes(1)] have inv: "session_inv host capacity u" .
    let ?x = "u\<lparr>sw_session := (sw_session u)\<lparr>se_last_peer_activity := instant\<rparr>\<rparr>"
    have "session_loop api inputs ?x = Some (r, t)"
      using yes(2) by (simp add: peer_active_def session_modify_def)
    moreover have "session_inv host capacity ?x"
      using inv by (simp add: session_inv_def session_ok_def host_without_def)
    ultimately show ?thesis by (rule session_loop_run [rotated])
  next
    case (no u)
    from act_keepsD [OF start assms(1) no(1)] have "session_inv host capacity u" .
    with no(2) session_end_run show ?thesis by (fastforce simp: act_bind_iff)
  qed
qed

lemma session_new_inv:
  fixes w :: "('t, 'st, 'f, 'h, 'b) session_world"
  assumes "session_new next_connection_id limits shutdown runtime auth options = Ok (w, n)"
  shows "session_inv (so_resource_limiter options) (rtl_outbound_queue_capacity limits) w"
proof -
  obtain subs :: "'f live_subscription_set" where subs: "live_subscription_set_new (bl_max_pending_events (rtl_base_relay_limits limits))
      (bl_max_subscriptions (rtl_base_relay_limits limits)) = Ok subs" "ls_subscriptions subs = []"
    using assms by (auto simp: session_new_def map_ok_Ok_iff live_subscription_set_new_def split: if_splits)
  then have "w = \<lparr>sw_session = \<lparr>se_connection_id = next_connection_id, se_peer_ip = so_peer_ip options,
      se_outbound = \<lparr>oq_capacity = rtl_outbound_queue_capacity limits, oq_messages = [], oq_closed = False\<rparr>,
      se_shutdown = shutdown, se_limits = limits, se_auth = auth, se_subscriptions = subs,
      se_permits = [], se_projection = so_projection options, se_keepalive = so_keepalive options,
      se_last_peer_activity = 0, se_socket = []\<rparr>,
    sw_runtime = runtime, sw_resources = so_resource_limiter options\<rparr>"
    using assms by (simp add: session_new_def)
  then show ?thesis
    using live_set_new [OF subs(1)] subs(2)
    by (simp add: session_inv_def session_ok_def host_without_def bt_wf_def release_subscriptions_def option.map_ident)
qed

text \<open>
  Claim C8. Whatever frames, events, failures and shutdowns a session meets, it holds one permit of the host for each of
  its live subscriptions and no other, so that without its own permits the host counts what it
  counted before; its queue stays within its capacity; and when the session ends, every subscription
  is closed and the host is as the session found it.
\<close>

theorem session_returns_permits:
  assumes "session_new next_connection_id limits shutdown runtime auth options = Ok (w, n)"
    and "session_run api fill now instant inputs w = Some (r, t)"
  shows "session_inv (so_resource_limiter options) (rtl_outbound_queue_capacity limits) t
    \<and> (r = Ok True \<longrightarrow> session_ended (so_resource_limiter options) t)"
  by (rule session_run_inv [OF session_new_inv [OF assms(1)] assms(2)])

section \<open>What a request subscribes to\<close>

lemma open_subscription_map:
  assumes "live_wf (se_subscriptions (sw_session w))"
    and "open_subscription sid filters already w = Some (Ok (), t)"
  shows "live_map (se_subscriptions (sw_session t)) = (live_map (se_subscriptions (sw_session w)))(sid \<mapsto> filters)"
proof -
  obtain permit u v where run: "(if already then act_return None else reserve_subscription) w = Some (Ok permit, u)"
    "subscribe_with_permit sid filters permit u = Some (Ok (), v)"
    "(if already then act_return () else session_metric record_subscription_opened) v
      = Some (Ok () :: base_relay_error + unit, t)"
    using assms(2) unfolding open_subscription_def act_bind_Ok_iff by auto
  have u: "sw_session u = sw_session w"
    using run(1) reserve_cases [of w _ u] by (cases already) fastforce+
  obtain subs where subs: "live_subscribe sid filters (se_subscriptions (sw_session u)) = Ok subs"
    "se_subscriptions (sw_session v) = subs"
    using run(2)
    by (cases permit) (auto simp: subscribe_with_permit_def Let_def drop_permits_def split: sum.splits)
  have "sw_session t = sw_session v"
    using run(3) by (cases already) (auto simp: session_metric_def on_runtime_def act_on_iff)
  with subs live_subscribe_spec [OF assms(1)] u show ?thesis by simp
qed

text \<open>
  Claim C9. The answer to a request of a connection is safe for its filters, and the request changes the
  subscriptions of the connection exactly when the answer ends with EOSE and the filters can match
  further events: then its id has the new filters. A request answered with CLOSED opens nothing; a
  subscription that had the same id before stays as it was.
\<close>

theorem session_req_exact:
  assumes "find_lawful (ri_find (si_runtime api))" and "live_wf (se_subscriptions (sw_session w))"
    and "session_handle_req api elapsed now sid filters search_present w = Some (Ok replies, t)"
  shows "query_reply (ri_filters (si_runtime api)) (rs_groups (rtm_services (sw_runtime w))) (se_auth (sw_session w))
      (set filters) sid replies
    \<and> live_map (se_subscriptions (sw_session t)) =
        (if last replies = RuntimeProtocol (RelayEose sid) \<and> \<not> filters_complete (ri_filters (si_runtime api)) filters
         then (live_map (se_subscriptions (sw_session w)))(sid \<mapsto> filters)
         else live_map (se_subscriptions (sw_session w)))"
proof -
  let ?api = "si_runtime api" and ?s = "sw_session w"
  obtain rs c l where view: "rt_view (sw_runtime w) = (rs, c, l)" by (cases "rt_view (sw_runtime w)") auto
  then have rs: "rs = rtm_services (sw_runtime w)" by (simp add: rt_view_def)
  obtain rt where rt: "rt_view rt = (rs, c, l)"
    and rest: "(case unsupported_search_closed sid search_present of
        Some message \<Rightarrow> act_return [RuntimeProtocol message]
      | None \<Rightarrow> act_bind (on_runtime (rate_limit_req (ri_filters ?api) sid filters (se_auth ?s) (client_rate_limit_context ?s) now))
          (\<lambda>limited. case limited of
             Some message \<Rightarrow> act_return [RuntimeProtocol message]
           | None \<Rightarrow> answer_req api elapsed sid filters search_present)) (w\<lparr>sw_runtime := rt\<rparr>) = Some (Ok replies, t)"
  proof -
    let ?rt = "(sw_runtime w)\<lparr>rtm_metrics := record_client_message MetricReq (rtm_metrics (sw_runtime w))\<rparr>"
    have "rt_view ?rt = (rs, c, l)" using view by simp
    then show ?thesis
      using assms(3) that [of ?rt]
      by (cases "unsupported_search_closed sid search_present")
         (auto simp: session_handle_req_def session_metric_bind session_read_def session_get_def act_bind_Ok_iff)
  qed
  show ?thesis
  proof (cases search_present)
    case True
    then have "closed_query sid (RelayClosed sid msg)" for msg by (simp add: closed_query_def)
    with rest True show ?thesis by (auto simp: unsupported_search_closed_def intro!: query_reply_closed)
  next
    case False
    then obtain limited rt' where limited: "rate_limit_req (ri_filters ?api) sid filters (se_auth ?s)
        (client_rate_limit_context ?s) now rt = Some (Ok limited, rt')"
      and next_run: "(case limited of Some message \<Rightarrow> act_return [RuntimeProtocol message]
        | None \<Rightarrow> answer_req api elapsed sid filters False) (w\<lparr>sw_runtime := rt'\<rparr>) = Some (Ok replies, t)"
      using rest by (auto simp: unsupported_search_closed_def on_runtime_def act_bind_iff act_on_iff)
    note quiet = limits_req [OF quiet_view]
    have rt': "rt_view rt' = (rs, c, l)" using act_yieldsD [OF quiet rt limited] .
    show ?thesis
    proof (cases limited)
      case (Some m)
      from act_yields_Ok [OF quiet rt limited] Some have closed: "closed_query sid m" by simp
      with next_run Some show ?thesis by (auto simp: closed_query_def intro!: query_reply_closed)
    next
      case None
      let ?w = "w\<lparr>sw_runtime := rt'\<rparr>"
      from None next_run have "answer_req api elapsed sid filters False ?w = Some (Ok replies, t)" by simp
      from answer_req_cases [OF this]
      obtain report rt'' q where run: "query_req_with_projection ?api elapsed sid filters False
          (se_auth (sw_session ?w)) (se_projection (sw_session ?w)) (sw_runtime ?w) = Some (Ok report, rt'')"
        and subscribed: "if \<not> filters_complete (ri_filters ?api) filters \<and> \<not> qr_group_read_denied report
          then open_subscription sid filters (live_contains (se_subscriptions (sw_session ?w)) sid)
            (?w\<lparr>sw_runtime := rt''\<rparr>) = Some (q, t)
          else q = Ok () \<and> t = ?w\<lparr>sw_runtime := rt''\<rparr>"
        and result: "Ok replies = map_ok (\<lambda>_. qr_messages report) q"
        by blast
      have same: "sw_session ?w = ?s" "sw_runtime ?w = rt'" "?w\<lparr>sw_runtime := rt''\<rparr> = w\<lparr>sw_runtime := rt''\<rparr>"
        by simp_all
      note query = run [unfolded same] and opened = subscribed [unfolded same]
      from result
      have q: "q = Ok ()" "replies = qr_messages report" by (cases q; simp)+
      from act_yields_Ok [OF query_with_projection_safe [OF assms(1)] rt' query]
      have safe: "safe_answer (ri_filters ?api) (rs_groups rs) (se_auth ?s) (set filters) sid False report" .
      then have ending: "last replies = RuntimeProtocol (RelayEose sid) \<longleftrightarrow> \<not> qr_group_read_denied report"
        using False q(2) by (auto simp: safe_answer_def answer_ending_def)
      show ?thesis
      proof (cases "\<not> filters_complete (ri_filters ?api) filters \<and> \<not> qr_group_read_denied report")
        case True
        with opened q have run: "open_subscription sid filters (live_contains (se_subscriptions ?s) sid)
            (w\<lparr>sw_runtime := rt''\<rparr>) = Some (Ok (), t)" by simp
        from open_subscription_map [OF _ run] assms(2) True ending query_reply_answer [OF safe] q(2) rs
        show ?thesis by simp
      next
        case not: False
        with opened have "t = w\<lparr>sw_runtime := rt''\<rparr>" by simp
        with not ending query_reply_answer [OF safe] q(2) rs show ?thesis by auto
      qed
    qed
  qed
qed

section \<open>Samples\<close>

definition sample_session_api ::
  "(string list list, table_state, u32, nat, unit, store_offset list, string) session_api" where
  "sample_session_api = \<lparr>si_runtime = sample_runtime_api,
     si_codec = \<lparr>oc_print = (\<lambda>_. ''{}''), oc_string_to_json = Ok, oc_event_as_json = (\<lambda>_. Ok ''{}''), oc_utf8_error = (\<lambda>s. s)\<rparr>,
     si_raw = \<lparr>ra_values = (\<lambda>_. Err ''expected an array''), ra_string = Some, ra_map = (\<lambda>_. Err (DataError ''no map'')),
       ra_position = (\<lambda>s. s), ra_end = (\<lambda>_. None), ra_event = (\<lambda>_. Err ''no event''), ra_filter = (\<lambda>_. Err ''no filter'')\<rparr>\<rparr>"

definition sample_session_options :: session_options where
  "sample_session_options = \<lparr>so_peer_ip = None, so_resource_limiter = Some (resource_limiter_new 1 1),
     so_projection = projection_context_default, so_keepalive = None\<rparr>"

definition sample_session ::
  "(string list list, table_state, u32, unit, store_offset list) session_world" where
  "sample_session = \<lparr>
     sw_session = \<lparr>se_connection_id = 7, se_peer_ip = None,
       se_outbound = \<lparr>oq_capacity = 4, oq_messages = [], oq_closed = False\<rparr>, se_shutdown = False,
       se_limits = rtm_limits sample_runtime, se_auth = sample_auth,
       se_subscriptions = \<lparr>ls_subscriptions = [], ls_max_subscriptions = 2\<rparr>, se_permits = [],
       se_projection = projection_context_default, se_keepalive = None, se_last_peer_activity = 0, se_socket = []\<rparr>,
     sw_runtime = sample_runtime, sw_resources = Some (resource_limiter_new 1 1)\<rparr>"

lemma sample_session_new:
  "session_new 7 (rtm_limits sample_runtime) False sample_runtime sample_auth sample_session_options = Ok (sample_session, 8)"
  by (simp add: session_new_def sample_session_def sample_session_options_def live_subscription_set_new_def
      sample_runtime_def sample_limits_def)

text \<open>The session sends its challenge and then finds the socket closed.\<close>

definition sample_turns :: "session_input list" where
  "sample_turns = [
     \<lparr>sx_shutdown = False, sx_event = OutboundReady, sx_sent = True, sx_instant = 2, sx_now = 100, sx_elapsed = 1\<rparr>,
     \<lparr>sx_shutdown = False, sx_event = SocketReceived SocketClosed, sx_sent = True, sx_instant = 3, sx_now = 100,
      sx_elapsed = 1\<rparr>]"

lemma sample_session_run:
  "\<exists>t. session_run sample_session_api (Ok ''nonce'') 100 1 sample_turns sample_session
     = Some (Ok True :: base_relay_error + bool, t)"
proof -
  have challenge: "generate_auth_challenge (Ok ''nonce'') = Ok (auth_lower_hex ''nonce'')" "auth_lower_hex ''nonce'' \<noteq> []"
    by (simp_all add: generate_auth_challenge_def auth_lower_hex_def)
  show ?thesis
    by (simp add: session_run_def session_metric_bind sample_turns_def issue_auth_challenge_def session_get_def
        challenge issue_challenge_def session_modify_def send_relay_message_def on_runtime_def act_on_def
        sanitize_public_message_def call_hook_def sample_session_api_def enqueue_text_def outbound_try_send_def
        sample_session_def act_match_def peer_active_def session_turn_def outbound_turn_def send_socket_message_def
        socket_turn_def session_end_def close_all_subscriptions_def live_close_all_def session_metric_def
        record_metric_def act_bind_def)
qed

theorem session_returns_permits_witness:
  "\<exists>t. session_run sample_session_api (Ok ''nonce'') 100 1 sample_turns sample_session
     = Some (Ok True :: base_relay_error + bool, t) \<and> sw_resources t = Some (resource_limiter_new 1 1)"
proof -
  obtain t where run: "session_run sample_session_api (Ok ''nonce'') 100 1 sample_turns sample_session
     = Some (Ok True :: base_relay_error + bool, t)"
    using sample_session_run by blast
  from session_returns_permits [OF sample_session_new run] run show ?thesis
    by (auto simp: session_ended_def sample_session_options_def)
qed

lemma sample_closed_unlimited:
  assumes "map_of (rtm_rate_limiter s) key = None"
  shows "\<exists>entry. rate_limit_closed sid key sample_rule label dimension now s
    = Some (Ok None, s\<lparr>rtm_rate_limiter := AList.update key entry (rtm_rate_limiter s)\<rparr>)"
  using assms
  by (simp add: rate_limit_closed_def limiter_record_def rate_limit_record_def current_entry_def
      rate_limit_entry_new_def sample_rule_def act_bind_def Let_def) (rule exI, rule refl)

lemma sample_req_unlimited:
  assumes "rt_view s = rt_view sample_runtime" and "rtm_rate_limiter s = rate_limiter_new"
  shows "\<exists>u. rate_limit_req sample_filter_api ''s'' [10] sample_auth \<lparr>cx_peer_ip = None, cx_connection_id = Some 7\<rparr> now s
    = Some (Ok None, u) \<and> rt_view u = rt_view s"
proof -
  let ?first = "RateConnection ScopeReq 7" and ?second = "RateQueryClass ScopeReq Broad"
  have config: "rtm_config s = sample_base_config" "base_limits_of s = sample_limits"
    using assms(1) by (simp_all add: rt_view_def sample_runtime_def base_limits_of_def)
  have rules: "rlc_req (bc_rate_limits sample_base_config) = sample_query_rates"
    by (simp add: sample_base_config_def sample_rates_def)
  have empty: "authenticated sample_auth = []" "filter_group_ids sample_filter_api [10] = []"
    "filter_kinds sample_filter_api [10] = []"
    by (simp_all add: authenticated_def filter_group_ids_def filter_kinds_def sample_filter_api_def List.map_filter_def)
  have broad: "is_broad (classify_query sample_filter_api sample_limits [10])"
    by (simp add: classify_query_def first_broad_def classify_query_filter_def has_primary_constraint_def
        has_group_constraint_def)
  have fresh: "map_of (rtm_rate_limiter s) ?first = None"
    by (simp add: assms(2) rate_limiter_new_def)
  obtain entry where first: "rate_limit_closed ''s'' ?first sample_rule ''req'' ''connection'' now s
      = Some (Ok None, s\<lparr>rtm_rate_limiter := AList.update ?first entry (rtm_rate_limiter s)\<rparr>)"
    using sample_closed_unlimited [OF fresh] by blast
  let ?s = "s\<lparr>rtm_rate_limiter := AList.update ?first entry (rtm_rate_limiter s)\<rparr>"
  have "map_of (rtm_rate_limiter ?s) ?second = None"
    by (simp add: update_conv assms(2) rate_limiter_new_def)
  from sample_closed_unlimited [OF this, of "''s''" "''req''" "''broad''" now] obtain u where
    second: "rate_limit_closed ''s'' ?second sample_rule ''req'' ''broad'' now ?s = Some (Ok None, u)"
    "rt_view u = rt_view s" by auto
  have limits: "base_limits_of ?s = sample_limits" using config(2) by (simp add: base_limits_of_def)
  have "rate_limit_req sample_filter_api ''s'' [10] sample_auth \<lparr>cx_peer_ip = None, cx_connection_id = Some 7\<rparr> now s
      = Some (Ok None, u)"
    using first second(1)
    by (simp add: rate_limit_req_def config(1) rules rate_limit_pocket_query_def sample_query_rates_def limit_given_def
        unless_limited_def empty act_bind_def limits broad)
  with second(2) show ?thesis by blast
qed

lemma sample_session_req:
  "\<exists>replies t. session_handle_req sample_session_api 5 100 ''s'' [10] False sample_session = Some (Ok replies, t)
    \<and> last replies = RuntimeProtocol (RelayEose ''s'')"
proof -
  let ?s = "sample_runtime\<lparr>rtm_metrics := record_client_message MetricReq (rtm_metrics sample_runtime)\<rparr>"
  obtain u where u: "rate_limit_req sample_filter_api ''s'' [10] sample_auth
      \<lparr>cx_peer_ip = None, cx_connection_id = Some 7\<rparr> 100 ?s = Some (Ok None, u)" "rt_view u = rt_view ?s"
    using sample_req_unlimited [of ?s 100] by (auto simp: sample_fresh)
  then have view: "rtm_services u = sample_services" "base_limits_of u = sample_limits"
    "bc_pocket_query (rtm_config u) = pocket_query_config_default"
    by (simp_all add: rt_view_def base_limits_of_def sample_runtime_def sample_base_config_def)
  obtain found where "query_req sample_filter_api sample_find sample_services sample_limits
      pocket_query_config_default ''s'' [10] False {} = Ok found"
    "qr_messages found = [RuntimeEvent ''s'' (sample_pocket_event 1 []), RuntimeProtocol (RelayEose ''s'')]"
    "\<not> qr_group_read_denied found"
    using sample_req [of "{}"] by blast
  from sample_report [OF this view, of 5 projection_context_default] obtain report rt where
    query: "query_req_with_projection sample_runtime_api 5 ''s'' [10] False sample_auth projection_context_default u
      = Some (Ok report, rt)" "\<not> qr_group_read_denied report"
    "last (qr_messages report) = RuntimeProtocol (RelayEose ''s'')" by auto
  have api: "si_runtime sample_session_api = sample_runtime_api" by (simp add: sample_session_api_def)
  have checks: "session_base_limits (sw_session sample_session) = sample_limits"
    "client_rate_limit_context (sw_session sample_session) = \<lparr>cx_peer_ip = None, cx_connection_id = Some 7\<rparr>"
    "sw_runtime sample_session = sample_runtime" "se_auth (sw_session sample_session) = sample_auth"
    by (simp_all add: sample_session_def session_base_limits_def client_rate_limit_context_def sample_runtime_def)
  have complete: "\<not> filters_complete sample_filter_api [10]" by (simp add: filters_complete_def)
  have free: "try_open_subscriptions 1 (resource_limiter_new 1 1)
      = Ok (resource_limiter_new 1 1\<lparr>rl_active_subscriptions := 1\<rparr>, 1)"
    by (simp add: try_open_subscriptions_def resource_limiter_new_def next_count_def checked_add_def)
  let ?w = "sample_session\<lparr>sw_runtime := rt\<rparr>"
  have opened: "\<exists>t. open_subscription ''s'' [10] False ?w = Some (Ok (), t)"
    by (simp add: open_subscription_def reserve_subscription_def subscribe_with_permit_def act_bind_def free
        sample_session_def live_subscribe_def ensure_can_subscribe_def live_contains_def session_metric_def
        on_runtime_def act_on_def record_metric_def)
  have "session_handle_req sample_session_api 5 100 ''s'' [10] False sample_session
      = answer_req sample_session_api 5 ''s'' [10] False (sample_session\<lparr>sw_runtime := u\<rparr>)"
  proof -
    let ?v = "sample_session\<lparr>sw_runtime := ?s\<rparr>"
    have "on_runtime (rate_limit_req sample_filter_api ''s'' [10] sample_auth
        \<lparr>cx_peer_ip = None, cx_connection_id = Some 7\<rparr> 100) ?v = Some (Ok None, sample_session\<lparr>sw_runtime := u\<rparr>)"
      using u(1) by (simp add: on_runtime_def act_on_def)
    then show ?thesis
      by (simp add: session_handle_req_def session_metric_bind session_read_def session_get_def api checks
          unsupported_search_closed_def)
  qed
  also have "\<dots> = act_bind (open_subscription ''s'' [10] False) (\<lambda>_. act_return (qr_messages report)) ?w"
    using query(1,2) complete
    by (simp add: answer_req_def session_get_def session_read_def api on_runtime_def act_on_def act_bind_def
        sample_session_def live_contains_def ensure_can_subscribe_def)
  finally show ?thesis using opened query(3) by auto
qed

theorem session_req_exact_witness:
  "\<exists>replies t. session_handle_req sample_session_api 5 100 ''s'' [10] False sample_session = Some (Ok replies, t)
    \<and> live_map (se_subscriptions (sw_session t)) ''s'' = Some [10]"
proof -
  obtain replies t where run: "session_handle_req sample_session_api 5 100 ''s'' [10] False sample_session
      = Some (Ok replies, t)" "last replies = RuntimeProtocol (RelayEose ''s'')"
    using sample_session_req by blast
  have "find_lawful (ri_find (si_runtime sample_session_api))"
    using sample_find_lawful by (simp add: sample_session_api_def)
  moreover have "live_wf (se_subscriptions (sw_session sample_session))"
    by (simp add: sample_session_def live_wf_def)
  moreover have "\<not> filters_complete (ri_filters (si_runtime sample_session_api)) [10]"
    by (simp add: sample_session_api_def filters_complete_def)
  ultimately show ?thesis
    using session_req_exact [OF _ _ run(1)] run by auto
qed

end
