(* ===== verification/Relay_Crypto.thy ===== *)
theory Relay_Crypto
  imports Protocol_Events Group_Events Tangle_Actions
begin

text \<open>
  Event ids, signatures and the relay's signer (\<open>crates/tangle_crypto/src/lib.rs\<close>). SHA-256, the
  Schnorr keys of \<open>k256\<close> and \<open>secp256k1\<close>, Pocket's event signing and the JSON printer are the record
  \<open>crypto_api\<close>; \<open>lawful_crypto\<close> is what their documentation promises: digests and keys have 32 bytes,
  signatures 64, and a signature verifies under the key of its signer. Bytes are \<open>u8\<close> words. A
  \<open>None\<close> result is the panic of an \<open>expect\<close>.
\<close>

unbundle bit_operations_syntax

section \<open>Hex\<close>

definition HEX :: string where
  "HEX = ''0123456789abcdef''"

definition lower_hex_byte :: "u8 \<Rightarrow> string" where
  "lower_hex_byte b = [HEX ! unat (drop_bit 4 b), HEX ! unat (b AND 0x0f)]"

definition lower_hex_bytes :: "u8 list \<Rightarrow> string" where
  "lower_hex_bytes bytes = concat (map lower_hex_byte bytes)"

definition hex_value :: "string \<Rightarrow> char \<Rightarrow> string + u8" where
  "hex_value scalar c =
     (let v = of_nat (byte c) :: u8
      in if 48 \<le> v \<and> v \<le> 57 then Ok (v - 48)
         else if 97 \<le> v \<and> v \<le> 102 then Ok (v - 97 + 10)
         else Err (scalar @ '' must be lowercase hex''))"

text \<open>The pairs of \<open>as_chunks::<2>\<close>; an odd character at the end is left out.\<close>

fun hex_chunks :: "string \<Rightarrow> string \<Rightarrow> string + u8 list" where
  "hex_chunks scalar (h # l # rest) =
     and_then (hex_value scalar h) (\<lambda>high.
     and_then (hex_value scalar l) (\<lambda>low.
     and_then (hex_chunks scalar rest) (\<lambda>bytes. Ok ((push_bit 4 high OR low) # bytes))))"
| "hex_chunks scalar _ = Ok []"

definition fixed_hex_bytes :: "string \<Rightarrow> nat \<Rightarrow> string \<Rightarrow> string + u8 list" where
  "fixed_hex_bytes v expected scalar =
     (if length v \<noteq> expected * 2
      then Err (scalar @ '' must decode to '' @ dec expected @ '' bytes, got '' @ dec (length v)
        @ '' hex characters'')
      else hex_chunks scalar v)"

definition expect :: "'e + 'a \<Rightarrow> 'a option" where
  "expect r = (case r of Inl _ \<Rightarrow> None | Inr x \<Rightarrow> Some x)"

definition validated_fixed_hex_bytes :: "string \<Rightarrow> nat \<Rightarrow> string \<Rightarrow> u8 list option" where
  "validated_fixed_hex_bytes v expected scalar = expect (fixed_hex_bytes v expected scalar)"

section \<open>The libraries\<close>

record ('vk, 'sig, 'sk, 'pk, 't) crypto_api =
  cr_print :: "json \<Rightarrow> string"
  cr_sha256 :: "string \<Rightarrow> u8 list"
  cr_verifying_key :: "u8 list \<Rightarrow> 'vk option"
  cr_signature :: "u8 list \<Rightarrow> 'sig option"
  cr_verify_prehash :: "'vk \<Rightarrow> u8 list \<Rightarrow> 'sig \<Rightarrow> bool"
  cr_signing_key :: "u8 list \<Rightarrow> 'sk option"
  cr_public_bytes :: "'sk \<Rightarrow> u8 list"
  cr_sign_prehash :: "'sk \<Rightarrow> u8 list \<Rightarrow> u8 list option"
  cr_secret_key :: "u8 list \<Rightarrow> 'pk option"
  cr_pocket_sign :: "'pk \<Rightarrow> u16 \<Rightarrow> 't \<Rightarrow> u64 \<Rightarrow> string \<Rightarrow> string + pocket_event"

definition lawful_crypto :: "('vk, 'sig, 'sk, 'pk, 't) crypto_api \<Rightarrow> bool" where
  "lawful_crypto api \<longleftrightarrow>
     (\<forall>text. length (cr_sha256 api text) = 32) \<and>
     (\<forall>secret key. cr_signing_key api secret = Some key \<longrightarrow> length (cr_public_bytes api key) = 32 \<and>
        (\<exists>vk. cr_verifying_key api (cr_public_bytes api key) = Some vk \<and>
          (\<forall>m. length m = 32 \<longrightarrow> (\<exists>bytes sig. cr_sign_prehash api key m = Some bytes \<and> length bytes = 64
             \<and> cr_signature api bytes = Some sig \<and> cr_verify_prehash api vk m sig))))"

text \<open>
  Pocket signs with the secp256k1 key of the same secret: the event it makes carries the x-only public key
  of that secret and its signature verifies.
\<close>

definition lawful_pocket_signing :: "('vk, 'sig, 'sk, 'pk, 't) crypto_api \<Rightarrow> bool" where
  "lawful_pocket_signing api \<longleftrightarrow> (\<forall>secret signing_key secret_key k tags created content e.
     cr_signing_key api secret = Some signing_key \<longrightarrow> cr_secret_key api secret = Some secret_key \<longrightarrow>
     cr_pocket_sign api secret_key k tags created content = Ok e \<longrightarrow>
     pe_pubkey e = lower_hex_bytes (cr_public_bytes api signing_key) \<and> pe_verify e = Ok ())"

section \<open>Event ids\<close>

definition compute_event_id_hex_from_canonical_json ::
  "('vk, 'sig, 'sk, 'pk, 't) crypto_api \<Rightarrow> string \<Rightarrow> string" where
  "compute_event_id_hex_from_canonical_json api canonical = lower_hex_bytes (cr_sha256 api canonical)"

definition compute_event_id_hex :: "('vk, 'sig, 'sk, 'pk, 't) crypto_api \<Rightarrow> unsigned_event \<Rightarrow> string" where
  "compute_event_id_hex api u = lower_hex_bytes (cr_sha256 api (canonical_event_json (cr_print api) u))"

definition compute_event_id :: "('vk, 'sig, 'sk, 'pk, 't) crypto_api \<Rightarrow> unsigned_event \<Rightarrow> event_id option" where
  "compute_event_id api u = expect (event_id_new (compute_event_id_hex api u))"

definition event_id_matches :: "('vk, 'sig, 'sk, 'pk, 't) crypto_api \<Rightarrow> event \<Rightarrow> bool option" where
  "event_id_matches api e = map_option (\<lambda>i. i = event_id e) (compute_event_id api (event_unsigned e))"

definition id_mismatch :: "string \<Rightarrow> string \<Rightarrow> string" where
  "id_mismatch expected got = ''event id mismatch: expected '' @ expected @ '', got '' @ got"

definition verify_event_id :: "('vk, 'sig, 'sk, 'pk, 't) crypto_api \<Rightarrow> event \<Rightarrow> (string + unit) option" where
  "verify_event_id api e = map_option (\<lambda>expected.
     if event_id e = expected then Ok () else Err (id_mismatch expected (event_id e)))
     (compute_event_id api (event_unsigned e))"

section \<open>Signatures\<close>

definition check_schnorr ::
  "('vk, 'sig, 'sk, 'pk, 't) crypto_api \<Rightarrow> u8 list \<Rightarrow> u8 list \<Rightarrow> u8 list \<Rightarrow> string + unit" where
  "check_schnorr api digest pubkey sig =
     and_then (ok_or (cr_verifying_key api pubkey) ''event public key is not a valid secp256k1 x-only key'') (\<lambda>key.
     and_then (ok_or (cr_signature api sig) ''event signature is not a valid schnorr signature'') (\<lambda>s.
     if cr_verify_prehash api key digest s then Ok () else Err ''event signature verification failed''))"

definition verify_signed_event ::
  "('vk, 'sig, 'sk, 'pk, 't) crypto_api \<Rightarrow> event \<Rightarrow> (string + unit) option" where
  "verify_signed_event api e =
     Option.bind (verify_event_id api e) (\<lambda>r. case r of
       Inl error \<Rightarrow> Some (Inl error)
     | Inr _ \<Rightarrow>
         Option.bind (validated_fixed_hex_bytes (event_id e) 32 ''event id'') (\<lambda>digest.
         Option.bind (expect (fixed_hex_bytes (ue_pubkey (event_unsigned e)) 32 ''public key'')) (\<lambda>pubkey.
         Option.bind (expect (fixed_hex_bytes (event_sig e) 64 ''signature'')) (\<lambda>sig.
         Some (check_schnorr api digest pubkey sig)))))"

definition verify_event_signature_bytes ::
  "('vk, 'sig, 'sk, 'pk, 't) crypto_api \<Rightarrow> string \<Rightarrow> u8 list \<Rightarrow> u8 list \<Rightarrow> u8 list \<Rightarrow> string + unit" where
  "verify_event_signature_bytes api canonical digest pubkey sig =
     (let expected = cr_sha256 api canonical
      in if expected \<noteq> digest then Err (id_mismatch (lower_hex_bytes expected) (lower_hex_bytes digest))
         else check_schnorr api digest pubkey sig)"

section \<open>The relay's signer\<close>

record 'sk relay_signer =
  sg_signing_key :: 'sk
  sg_public_key :: public_key_hex
  sg_secret_bytes :: "u8 list"

definition relay_signer_from_secret_hex ::
  "('vk, 'sig, 'sk, 'pk, 't) crypto_api \<Rightarrow> string \<Rightarrow> (string + 'sk relay_signer) option" where
  "relay_signer_from_secret_hex api secret =
     (case and_then (fixed_hex_bytes secret 32 ''relay secret'') (\<lambda>bytes.
        map_ok (Pair bytes) (ok_or (cr_signing_key api bytes) ''relay secret is not a valid secp256k1 signing key'')) of
       Inl error \<Rightarrow> Some (Inl error)
     | Inr (bytes, key) \<Rightarrow>
         map_option (\<lambda>pubkey. Ok \<lparr>sg_signing_key = key, sg_public_key = pubkey, sg_secret_bytes = bytes\<rparr>)
           (expect (public_key_new (lower_hex_bytes (cr_public_bytes api key)))))"

definition sign_unsigned_event ::
  "('vk, 'sig, 'sk, 'pk, 't) crypto_api \<Rightarrow> 'sk relay_signer \<Rightarrow> unsigned_event \<Rightarrow> event option" where
  "sign_unsigned_event api signer u =
     Option.bind (compute_event_id api u) (\<lambda>eid.
     Option.bind (expect (fixed_hex_bytes eid 32 ''event id'')) (\<lambda>digest.
     Option.bind (cr_sign_prehash api (sg_signing_key signer) digest) (\<lambda>bytes.
     Option.bind (expect (signature_new (lower_hex_bytes bytes))) (\<lambda>sig.
     Some \<lparr>event_id = eid, event_unsigned = u, event_sig = sig\<rparr>))))"

definition sign_pocket_event ::
  "('vk, 'sig, 'sk, 'pk, 't) crypto_api \<Rightarrow> 'sk relay_signer \<Rightarrow> u16 \<Rightarrow> 't \<Rightarrow> u64 \<Rightarrow> string \<Rightarrow> string + pocket_event" where
  "sign_pocket_event api signer k tags created content =
     and_then (ok_or (cr_secret_key api (sg_secret_bytes signer)) ''relay secret is not a valid secp256k1 signing key'')
       (\<lambda>key. map_err (\<lambda>error. ''Pocket event signing failed: '' @ error)
          (cr_pocket_sign api key k tags created content))"

section \<open>The verification service\<close>

text \<open>
  A semaphore of \<open>max_concurrent\<close> permits. \<open>acquire_owned\<close> fails on a closed semaphore and waits
  while no permit is free; waiting is the result \<open>None\<close>, as a call that has not returned.
\<close>

record verification_service =
  vs_permits :: nat
  vs_closed :: bool
  vs_max_concurrent :: nat

definition verification_service_new :: "nat \<Rightarrow> string + verification_service" where
  "verification_service_new limit =
     (if limit = 0 then Err ''verification concurrency limit must be greater than zero''
      else Ok \<lparr>vs_permits = limit, vs_closed = False, vs_max_concurrent = limit\<rparr>)"

definition verification_close :: "verification_service \<Rightarrow> verification_service" where
  "verification_close s = s\<lparr>vs_closed := True\<rparr>"

definition acquire_owned :: "(verification_service, string, unit) action" where
  "acquire_owned = (\<lambda>s.
     if vs_closed s then Some (Err ''verification service is closed'', s)
     else if vs_permits s = 0 then None
     else Some (Ok (), s\<lparr>vs_permits := vs_permits s - 1\<rparr>))"

definition drop_permit :: "verification_service \<Rightarrow> verification_service" where
  "drop_permit s = s\<lparr>vs_permits := vs_permits s + 1\<rparr>"

definition verify_result ::
  "('vk, 'sig, 'sk, 'pk, 't) crypto_api \<Rightarrow> event \<Rightarrow> (string + event_id) option" where
  "verify_result api e = map_option (map_ok (\<lambda>_. event_id e)) (verify_signed_event api e)"

definition verify_event ::
  "('vk, 'sig, 'sk, 'pk, 't) crypto_api \<Rightarrow> event \<Rightarrow> (verification_service, string, event_id) action" where
  "verify_event api e = act_bind acquire_owned (\<lambda>_ s.
     map_option (\<lambda>r. (r, drop_permit s)) (verify_result api e))"

text \<open>
  Tasks interleave at the \<open>await\<close>: a task takes its permit, verifies while others run, and gives the
  permit back with its result. \<open>running\<close> holds the events under verification.
\<close>

record verification_run =
  vr_service :: verification_service
  vr_running :: "event list"
  vr_results :: "(event \<times> (string + event_id)) list"

inductive verification_step ::
  "('vk, 'sig, 'sk, 'pk, 't) crypto_api \<Rightarrow> verification_run \<Rightarrow> verification_run \<Rightarrow> bool"
  for api where
  admitted: "acquire_owned (vr_service r) = Some (Ok (), s) \<Longrightarrow>
     verification_step api r (r\<lparr>vr_service := s, vr_running := e # vr_running r\<rparr>)"
| refused: "acquire_owned (vr_service r) = Some (Err error, s) \<Longrightarrow>
     verification_step api r (r\<lparr>vr_service := s, vr_results := (e, Err error) # vr_results r\<rparr>)"
| finished: "\<lbrakk>e \<in> set (vr_running r); verify_result api e = Some result\<rbrakk> \<Longrightarrow>
     verification_step api r (r\<lparr>vr_service := drop_permit (vr_service r),
       vr_running := remove1 e (vr_running r), vr_results := (e, result) # vr_results r\<rparr>)"
| closed: "verification_step api r (r\<lparr>vr_service := verification_close (vr_service r)\<rparr>)"

inductive_cases verification_stepE: "verification_step api r t"


section \<open>Hex digits\<close>

lemma nibble_join:
  fixes b :: u8
  shows "push_bit 4 (drop_bit 4 b) OR (b AND 15) = b"
proof -
  have "push_bit 4 (drop_bit 4 b) OR take_bit 4 b = b"
    by (rule bit_eqI) (auto simp: bit_simps)
  then show ?thesis by (simp add: take_bit_eq_mask mask_eq_exp_minus_1)
qed

lemma nibble_take:
  fixes h :: u8
  assumes "h < 16"
  shows "take_bit 4 h = h"
proof (rule word_unat_eq_iff [THEN iffD2])
  have "unat h < 2 ^ 4" using assms by (simp add: word_less_nat_alt)
  then show "unat (take_bit 4 h) = unat h" by (simp add: unsigned_take_bit_eq take_bit_nat_eq_self)
qed

lemma nibble_split:
  fixes h l :: u8
  assumes "h < 16" "l < 16"
  shows "drop_bit 4 (push_bit 4 h) OR drop_bit 4 l = h" "(push_bit 4 h OR l) AND 15 = l"
proof -
  note small = nibble_take [OF assms(1)] nibble_take [OF assms(2)]
  have "take_bit 4 (push_bit 4 h OR l) = l" using small(2)
    by (simp add: take_bit_or take_bit_push_bit)
  then show "(push_bit 4 h OR l) AND 15 = l" by (simp add: take_bit_eq_mask mask_eq_exp_minus_1)
  have bits: "bit h n \<Longrightarrow> n < 4" "bit l n \<Longrightarrow> n < 4" for n
    using small by (metis bit_take_bit_iff)+
  show "drop_bit 4 (push_bit 4 h) OR drop_bit 4 l = h"
    by (rule bit_eqI) (auto simp: bit_simps dest: bits)
qed

lemma hex_digits:
  "\<forall>n \<in> set [0..<16]. lower_hex_char (HEX ! n) \<and> hex_value scalar (HEX ! n) = Ok (of_nat n)"
  by (simp add: upt_rec HEX_def hex_value_def Let_def byte_def lower_hex_char_def is_ascii_digit_def)

lemma hex_digit:
  assumes "n < 16"
  shows "lower_hex_char (HEX ! n)" "hex_value scalar (HEX ! n) = Ok (of_nat n)"
  using assms hex_digits [of scalar] by simp_all

lemma HEX_bytes: "map byte HEX = [48..<58] @ [97..<103]"
  by (simp add: HEX_def byte_def upt_rec)

lemma hex_value_Ok:
  assumes "hex_value scalar c = Ok v"
  shows "unat v < 16 \<and> HEX ! unat v = c"
proof -
  have w: "unat (of_nat (byte c) :: u8) = byte c"
    using byte_less_256 [of c] by (simp add: unat_of_nat)
  have "byte c \<in> {48..57} \<or> byte c \<in> {97..102}"
    using assms w by (auto simp: hex_value_def Let_def word_le_nat_alt split: if_splits)
  then have "byte c \<in> set (map byte HEX)" unfolding HEX_bytes set_append set_upt by auto
  then have "byte c \<in> byte ` set HEX" by simp
  then have "c \<in> set HEX" by (auto simp: byte_def)
  then show ?thesis using assms
    by (auto simp: HEX_def hex_value_def Let_def byte_def)
qed

lemma lower_hex_bytes_simps [simp]:
  "lower_hex_bytes [] = []"
  "lower_hex_bytes (b # bs) = HEX ! unat (drop_bit 4 b) # HEX ! unat (b AND 15) # lower_hex_bytes bs"
  by (simp_all add: lower_hex_bytes_def lower_hex_byte_def)

lemma nibble_less:
  fixes b :: u8
  shows "unat (drop_bit 4 b) < 16" "unat (b AND 15) < 16"
proof -
  have "unat (drop_bit 4 b) = unat b div 16"
    by (simp add: drop_bit_eq_div unat_div)
  then show "unat (drop_bit 4 b) < 16" using unsigned_less [of b, where ?'a = nat] by simp
  have "unat (take_bit 4 b) < 2 ^ 4" unfolding unsigned_take_bit_eq by (rule take_bit_nat_less_exp)
  then show "unat (b AND 15) < 16" by (simp add: take_bit_eq_mask mask_eq_exp_minus_1)
qed

lemma hex_chunks_lower: "hex_chunks scalar (lower_hex_bytes bs) = Ok bs"
  by (induction bs) (simp_all add: hex_digit nibble_less nibble_join)

lemma length_lower_hex_bytes [simp]: "length (lower_hex_bytes bs) = 2 * length bs"
  by (induction bs) simp_all

lemma lower_hex_bytes_chars: "c \<in> set (lower_hex_bytes bs) \<Longrightarrow> lower_hex_char c"
  by (induction bs) (auto simp: hex_digit nibble_less)

lemma lower_hex_lower_hex_bytes: "lower_hex n (lower_hex_bytes bs) \<longleftrightarrow> n = 2 * length bs"
  by (auto simp: lower_hex_def lower_hex_bytes_chars)

lemma hex_chunks_Ok:
  "hex_chunks scalar s = Ok bs \<Longrightarrow> even (length s) \<Longrightarrow> lower_hex_bytes bs = s \<and> 2 * length bs = length s"
proof (induction scalar s arbitrary: bs rule: hex_chunks.induct)
  case (1 scalar h l rest)
  then obtain high low tail where v: "hex_value scalar h = Ok high" "hex_value scalar l = Ok low"
    "hex_chunks scalar rest = Ok tail" "bs = (push_bit 4 high OR low) # tail"
    by (auto simp: and_then_Ok_iff)
  have digits: "unat high < 16 \<and> HEX ! unat high = h" "unat low < 16 \<and> HEX ! unat low = l"
    using v hex_value_Ok by blast+
  then have "high < 16" "low < 16" by (simp_all add: word_less_nat_alt)
  with "1.IH" [OF v(1,2,3)] "1.prems" v digits show ?case by (simp add: nibble_split)
qed auto

lemma lower_hex_decodes:
  "\<forall>c\<in>set s. lower_hex_char c \<Longrightarrow> \<exists>bs. hex_chunks scalar s = Ok bs"
proof (induction scalar s rule: hex_chunks.induct)
  case (1 scalar h l rest)
  have "\<exists>v. hex_value scalar c = Ok v" if "lower_hex_char c" for c
    using that byte_less_256 [of c]
    by (auto simp: hex_value_def Let_def lower_hex_char_def is_ascii_digit_def word_le_nat_alt unat_of_nat)
  then obtain high low where "hex_value scalar h = Ok high" "hex_value scalar l = Ok low"
    using "1.prems" by (metis list.set_intros)
  moreover have "\<exists>bs. hex_chunks scalar rest = Ok bs" using calculation 1 by auto
  ultimately show ?case by auto
qed auto



lemma fixed_hex_bytes_iff:
  "fixed_hex_bytes v n scalar = Ok bytes \<longleftrightarrow> length bytes = n \<and> lower_hex_bytes bytes = v"
proof
  assume "fixed_hex_bytes v n scalar = Ok bytes"
  then show "length bytes = n \<and> lower_hex_bytes bytes = v"
    using hex_chunks_Ok [of scalar v bytes] by (auto simp: fixed_hex_bytes_def split: if_splits)
next
  assume "length bytes = n \<and> lower_hex_bytes bytes = v"
  then show "fixed_hex_bytes v n scalar = Ok bytes"
    by (auto simp: fixed_hex_bytes_def hex_chunks_lower)
qed

section \<open>Signing and verification\<close>

lemma expect_iff [simp]: "expect r = Some x \<longleftrightarrow> r = Ok x"
  by (simp add: expect_def split: sum.splits)

lemma scalars_hex [simp]:
  "length bytes = 32 \<Longrightarrow> event_id_new (lower_hex_bytes bytes) = Ok (lower_hex_bytes bytes)"
  "length bytes = 32 \<Longrightarrow> public_key_new (lower_hex_bytes bytes) = Ok (lower_hex_bytes bytes)"
  "length bytes = 64 \<Longrightarrow> signature_new (lower_hex_bytes bytes) = Ok (lower_hex_bytes bytes)"
  by (simp_all add: lower_hex_lower_hex_bytes)

lemma valid_scalar_decodes:
  assumes "lower_hex n v" "n = 2 * m"
  obtains bytes where "fixed_hex_bytes v m scalar = Ok bytes" "lower_hex_bytes bytes = v" "length bytes = m"
proof -
  obtain bytes where "hex_chunks scalar v = Ok bytes"
    using assms lower_hex_decodes [of v scalar] by (auto simp: lower_hex_def)
  then have "fixed_hex_bytes v m scalar = Ok bytes"
    using assms by (simp add: fixed_hex_bytes_def lower_hex_def)
  then show thesis using that hex_chunks_Ok [of scalar v bytes] assms
    by (auto simp: fixed_hex_bytes_def split: if_splits)
qed

lemma decode_lower_hex_bytes [simp]:
  "length bytes = n \<Longrightarrow> fixed_hex_bytes (lower_hex_bytes bytes) n scalar = Ok bytes"
  by (simp add: fixed_hex_bytes_def hex_chunks_lower)

lemma digest_length: "lawful_crypto api \<Longrightarrow> length (cr_sha256 api text) = 32"
  by (simp add: lawful_crypto_def)

lemma compute_event_id_lawful:
  "lawful_crypto api \<Longrightarrow> compute_event_id api u = Some (compute_event_id_hex api u)"
  by (simp add: compute_event_id_def compute_event_id_hex_def digest_length)

lemma check_schnorr_Ok:
  "check_schnorr api digest pubkey sig = Ok () \<longleftrightarrow>
     (\<exists>key s. cr_verifying_key api pubkey = Some key \<and> cr_signature api sig = Some s \<and> cr_verify_prehash api key digest s)"
  by (auto simp: check_schnorr_def and_then_Ok_iff ok_or_def split: option.splits if_splits)

lemma lower_hex_bytes_inject [simp]: "lower_hex_bytes xs = lower_hex_bytes ys \<longleftrightarrow> xs = ys"
  using hex_chunks_lower by (metis sum.inject(2))

lemma verify_event_signature_decoded:
  assumes "lawful_crypto api" "length pubkey = 32" "length sig = 64"
    "ue_pubkey (event_unsigned e) = lower_hex_bytes pubkey" "event_sig e = lower_hex_bytes sig"
  shows "verify_signed_event api e =
    (let digest = cr_sha256 api (canonical_event_json (cr_print api) (event_unsigned e))
     in Some (if event_id e = lower_hex_bytes digest then check_schnorr api digest pubkey sig
        else Err (id_mismatch (lower_hex_bytes digest) (event_id e))))"
proof -
  have known: "(expect r = expect (Ok x)) = (r = Ok x)" for r :: "string + u8 list" and x
    by (simp add: expect_def split: sum.splits)
  note digest = digest_length [OF assms(1)]
  show ?thesis
    using assms digest
    by (simp add: verify_signed_event_def verify_event_id_def compute_event_id_lawful
        compute_event_id_hex_def validated_fixed_hex_bytes_def Let_def expect_def)
qed

lemma valid_event_decoded:
  assumes "valid_event e"
  obtains pubkey sig where "length pubkey = 32" "length sig = 64"
    "ue_pubkey (event_unsigned e) = lower_hex_bytes pubkey" "event_sig e = lower_hex_bytes sig"
proof -
  have "valid_pubkey (ue_pubkey (event_unsigned e))" "valid_signature (event_sig e)"
    using assms by (simp_all add: valid_event_def)
  from valid_scalar_decodes [OF this(1), of 32] valid_scalar_decodes [OF this(2), of 64]
  show thesis using that by (metis mult_numeral_1 num_double numeral_times_numeral)
qed

text \<open>
  Claim C14. Verification of an event never panics, and it accepts exactly the events whose id is the hash of
  their canonical JSON and whose signature verifies over that hash under the key of their author.
\<close>

theorem verify_event_signature_exact:
  assumes "lawful_crypto api" "valid_event e"
  shows "\<exists>r. verify_signed_event api e = Some r
    \<and> (r = Ok () \<longleftrightarrow> (\<exists>pubkey sig key s.
          event_id e = lower_hex_bytes (cr_sha256 api (canonical_event_json (cr_print api) (event_unsigned e)))
        \<and> ue_pubkey (event_unsigned e) = lower_hex_bytes pubkey \<and> event_sig e = lower_hex_bytes sig
        \<and> cr_verifying_key api pubkey = Some key \<and> cr_signature api sig = Some s
        \<and> cr_verify_prehash api key (cr_sha256 api (canonical_event_json (cr_print api) (event_unsigned e))) s))"
proof -
  obtain pubkey sig where d: "length pubkey = 32" "length sig = 64"
    "ue_pubkey (event_unsigned e) = lower_hex_bytes pubkey" "event_sig e = lower_hex_bytes sig"
    using valid_event_decoded [OF assms(2)] .
  show ?thesis
    using verify_event_signature_decoded [OF assms(1) d] d
    by (simp add: check_schnorr_Ok Let_def)
qed

lemma signer_facts:
  assumes "lawful_crypto api" "relay_signer_from_secret_hex api secret = Some (Ok signer)"
  obtains "cr_signing_key api (sg_secret_bytes signer) = Some (sg_signing_key signer)"
    "lower_hex_bytes (sg_secret_bytes signer) = secret" "length (sg_secret_bytes signer) = 32"
    "sg_public_key signer = lower_hex_bytes (cr_public_bytes api (sg_signing_key signer))"
  using assms(2)
  by (auto simp: relay_signer_from_secret_hex_def and_then_Ok_iff ok_or_def fixed_hex_bytes_iff
      split: sum.splits option.splits)

lemma signed_event_verifies:
  assumes "lawful_crypto api" "relay_signer_from_secret_hex api secret = Some (Ok signer)"
    "ue_pubkey u = sg_public_key signer" "list_all valid_tag (ue_tags u)"
  shows "\<exists>e. sign_unsigned_event api signer u = Some e \<and> event_unsigned e = u \<and> valid_event e
    \<and> verify_signed_event api e = Some (Ok ())"
proof -
  let ?digest = "cr_sha256 api (canonical_event_json (cr_print api) u)"
  obtain "cr_signing_key api (sg_secret_bytes signer) = Some (sg_signing_key signer)"
    and key: "sg_public_key signer = lower_hex_bytes (cr_public_bytes api (sg_signing_key signer))"
    using signer_facts [OF assms(1,2)] .
  then obtain vk where vk: "length (cr_public_bytes api (sg_signing_key signer)) = 32"
    "cr_verifying_key api (cr_public_bytes api (sg_signing_key signer)) = Some vk"
    and signs: "\<And>m. length m = 32 \<Longrightarrow> \<exists>bytes sig. cr_sign_prehash api (sg_signing_key signer) m = Some bytes
       \<and> length bytes = 64 \<and> cr_signature api bytes = Some sig \<and> cr_verify_prehash api vk m sig"
    using assms(1) unfolding lawful_crypto_def by metis
  obtain bytes sig where s: "cr_sign_prehash api (sg_signing_key signer) ?digest = Some bytes" "length bytes = 64"
    "cr_signature api bytes = Some sig" "cr_verify_prehash api vk ?digest sig"
    using signs [OF digest_length [OF assms(1)]] by blast
  define e where "e = \<lparr>event_id = lower_hex_bytes ?digest, event_unsigned = u, event_sig = lower_hex_bytes bytes\<rparr>"
  have "sign_unsigned_event api signer u = Some e"
    using s digest_length [OF assms(1)]
    by (simp add: sign_unsigned_event_def compute_event_id_lawful [OF assms(1)] compute_event_id_hex_def e_def expect_def)
  moreover have "valid_event e"
    using assms(3,4) key vk s digest_length [OF assms(1)]
    by (simp add: valid_event_def e_def lower_hex_lower_hex_bytes)
  moreover have "verify_signed_event api e = Some (Ok ())"
    using verify_event_signature_decoded [OF assms(1) vk(1) s(2), of e] assms(3) key vk s
    by (auto simp: e_def Let_def check_schnorr_Ok)
  ultimately show ?thesis by (auto simp: e_def)
qed

lemma signed_pocket_event_verifies:
  assumes "lawful_crypto api" "lawful_pocket_signing api" "relay_signer_from_secret_hex api secret = Some (Ok signer)"
    "sign_pocket_event api signer k tags created content = Ok e"
  shows "pe_pubkey e = sg_public_key signer \<and> pe_verify e = Ok ()"
proof -
  obtain "cr_signing_key api (sg_secret_bytes signer) = Some (sg_signing_key signer)"
    "sg_public_key signer = lower_hex_bytes (cr_public_bytes api (sg_signing_key signer))"
    using signer_facts [OF assms(1,3)] .
  moreover obtain key where "cr_secret_key api (sg_secret_bytes signer) = Some key"
    "cr_pocket_sign api key k tags created content = Ok e"
    using assms(4) by (auto simp: sign_pocket_event_def and_then_Ok_iff ok_or_def split: option.splits)
  ultimately show ?thesis using assms(2) unfolding lawful_pocket_signing_def by metis
qed

section \<open>Bounded concurrency\<close>

lemma acquire_owned_iff:
  "acquire_owned s = Some (Ok (), t) \<longleftrightarrow> \<not> vs_closed s \<and> 0 < vs_permits s \<and> t = s\<lparr>vs_permits := vs_permits s - 1\<rparr>"
  "acquire_owned s = Some (Err error, t) \<longleftrightarrow> vs_closed s \<and> error = ''verification service is closed'' \<and> t = s"
  by (auto simp: acquire_owned_def)

definition run_inv :: "('vk, 'sig, 'sk, 'pk, 't) crypto_api \<Rightarrow> nat \<Rightarrow> verification_run \<Rightarrow> bool" where
  "run_inv api limit r \<longleftrightarrow> vs_permits (vr_service r) + length (vr_running r) = limit
     \<and> vs_max_concurrent (vr_service r) = limit
     \<and> (\<forall>(e, result) \<in> set (vr_results r). result = Err ''verification service is closed''
          \<or> verify_result api e = Some result)"

lemma run_inv_step: "verification_step api r t \<Longrightarrow> run_inv api limit r \<Longrightarrow> run_inv api limit t"
  by (induction rule: verification_step.induct)
    (auto simp: run_inv_def acquire_owned_iff drop_permit_def verification_close_def length_remove1
      dest: length_pos_if_in_set)

lemma run_inv_steps: "(verification_step api)\<^sup>*\<^sup>* r t \<Longrightarrow> run_inv api limit r \<Longrightarrow> run_inv api limit t"
  by (induction rule: rtranclp_induct) (auto intro: run_inv_step)

text \<open>
  Claim C29. Whatever the interleaving, at most as many verifications run as the service was given permits; a
  call waits exactly while all of them are taken; and a result carries the id of a verified event.
\<close>

theorem verification_bounded:
  assumes "verification_service_new limit = Ok s"
    "(verification_step api)\<^sup>*\<^sup>* \<lparr>vr_service = s, vr_running = [], vr_results = []\<rparr> r"
  shows "length (vr_running r) \<le> limit
    \<and> (acquire_owned (vr_service r) = None \<longleftrightarrow> \<not> vs_closed (vr_service r) \<and> length (vr_running r) = limit)
    \<and> ((e, Ok eid) \<in> set (vr_results r) \<longrightarrow> eid = event_id e \<and> verify_signed_event api e = Some (Ok ()))"
proof -
  have "run_inv api limit r"
    by (rule run_inv_steps [OF assms(2)])
      (use assms(1) in \<open>auto simp: run_inv_def verification_service_new_def split: if_splits\<close>)
  then show ?thesis
    by (auto simp: run_inv_def acquire_owned_def verify_result_def map_ok_Ok_iff)
qed

section \<open>A sample library\<close>

definition sample_crypto :: "(u8 list, u8 list, u8 list, u8 list, tag list) crypto_api" where
  "sample_crypto = \<lparr>cr_print = (\<lambda>v. case v of JArray vs \<Rightarrow> replicate (length vs) CHR ''j'' | _ \<Rightarrow> []),
     cr_sha256 = (\<lambda>text. replicate 32 (of_nat (length text))),
     cr_verifying_key = (\<lambda>bytes. if length bytes = 32 then Some bytes else None),
     cr_signature = (\<lambda>bytes. if length bytes = 64 then Some bytes else None),
     cr_verify_prehash = (\<lambda>key digest sig. sig = key @ digest),
     cr_signing_key = (\<lambda>bytes. if length bytes = 32 then Some bytes else None),
     cr_public_bytes = (\<lambda>key. key),
     cr_sign_prehash = (\<lambda>key digest. Some (key @ digest)),
     cr_secret_key = Some,
     cr_pocket_sign = (\<lambda>key k tags created content. Ok \<lparr>pe_id = lower_hex_bytes (replicate 32 0),
       pe_pubkey = lower_hex_bytes key, pe_kind = k, pe_created_at = created, pe_tags = Ok tags, pe_content = content,
       pe_verify = Ok ()\<rparr>)\<rparr>"

lemma sample_crypto_lawful: "lawful_crypto sample_crypto"
  by (auto simp: lawful_crypto_def sample_crypto_def)

lemma sample_pocket_signing_lawful: "lawful_pocket_signing sample_crypto"
  by (auto simp: lawful_pocket_signing_def sample_crypto_def split: if_splits)

definition sample_unsigned :: unsigned_event where
  "sample_unsigned = \<lparr>ue_pubkey = replicate 64 CHR ''1'', ue_created_at = 7, ue_kind = 1, ue_tags = [[''t'', ''a'']],
     ue_content = ''hi''\<rparr>"

definition sample_signer :: "u8 list relay_signer" where
  "sample_signer = \<lparr>sg_signing_key = replicate 32 0x11, sg_public_key = replicate 64 CHR ''1'',
     sg_secret_bytes = replicate 32 0x11\<rparr>"

lemma sample_signer:
  "relay_signer_from_secret_hex sample_crypto (replicate 64 CHR ''1'') = Some (Ok sample_signer)"
  by code_simp

definition sample_signed :: event where
  "sample_signed = \<lparr>event_id = lower_hex_bytes (replicate 32 6), event_unsigned = sample_unsigned,
     event_sig = lower_hex_bytes (replicate 32 0x11 @ replicate 32 6)\<rparr>"

lemma sample_signed_valid: "valid_event sample_signed"
proof -
  have "valid_pubkey (replicate 64 CHR ''1'')"
    by (simp add: lower_hex_def lower_hex_char_def is_ascii_digit_def byte_def)
  then show ?thesis
    by (simp add: sample_signed_def sample_unsigned_def valid_event_def lower_hex_lower_hex_bytes valid_tag_def)
qed

lemma sample_signed_verifies: "verify_signed_event sample_crypto sample_signed = Some (Ok ())"
  by code_simp

theorem verify_event_signature_exact_witness:
  "\<exists>pubkey sig key s. ue_pubkey (event_unsigned sample_signed) = lower_hex_bytes pubkey
    \<and> event_sig sample_signed = lower_hex_bytes sig \<and> cr_verifying_key sample_crypto pubkey = Some key
    \<and> cr_signature sample_crypto sig = Some s"
  using verify_event_signature_exact [OF sample_crypto_lawful sample_signed_valid] sample_signed_verifies by auto

definition sample_run :: verification_run where
  "sample_run = \<lparr>vr_service = \<lparr>vs_permits = 1, vs_closed = False, vs_max_concurrent = 1\<rparr>, vr_running = [],
     vr_results = [(sample_signed, Ok (event_id sample_signed))]\<rparr>"

lemma sample_run:
  "(verification_step sample_crypto)\<^sup>*\<^sup>* \<lparr>vr_service = \<lparr>vs_permits = 1, vs_closed = False, vs_max_concurrent = 1\<rparr>,
     vr_running = [], vr_results = []\<rparr> sample_run"
proof -
  let ?start = "\<lparr>vr_service = \<lparr>vs_permits = 1, vs_closed = False, vs_max_concurrent = 1\<rparr>, vr_running = [], vr_results = []\<rparr>"
  let ?busy = "\<lparr>vr_service = \<lparr>vs_permits = 0, vs_closed = False, vs_max_concurrent = 1\<rparr>, vr_running = [sample_signed],
    vr_results = []\<rparr>"
  have "verification_step sample_crypto ?start ?busy"
    using verification_step.admitted [of ?start "\<lparr>vs_permits = 0, vs_closed = False, vs_max_concurrent = 1\<rparr>" sample_crypto
        sample_signed] by (simp add: acquire_owned_def)
  moreover have "verification_step sample_crypto ?busy sample_run"
    using verification_step.finished [of sample_signed ?busy sample_crypto "Ok (event_id sample_signed)"]
    by (simp add: verify_result_def sample_signed_verifies sample_run_def drop_permit_def)
  ultimately show ?thesis by (meson converse_rtranclp_into_rtranclp rtranclp.rtrancl_refl)
qed

theorem verification_bounded_witness:
  "length (vr_running sample_run) \<le> 1 \<and> acquire_owned (vr_service sample_run) \<noteq> None
    \<and> verify_signed_event sample_crypto sample_signed = Some (Ok ())"
  using verification_bounded [OF _ sample_run, of 1 sample_signed "event_id sample_signed"]
  by (simp add: verification_service_new_def sample_run_def)
end
