(* ===== verification/Relay_Info.thy ===== *)
theory Relay_Info
  imports Tenant_Registry Relay_Crypto
begin

text \<open>
  The relay information document (\<open>crates/tangle_runtime/src/nip11.rs\<close>): what a relay says of itself,
  built from the configuration of a tenant, and the answer to a request for it. The \<open>self\<close> key is the
  public key of the signer made from the relay secret. A response is its status, the headers the code
  sets and its body; the printing of the body is \<open>axum\<close>'s.
\<close>

section \<open>Responses\<close>

record info_limitation =
  il_max_message_length :: nat
  il_max_subscriptions :: nat
  il_max_filters :: nat
  il_max_limit :: u64
  il_max_query_complexity :: nat
  il_max_subid_length :: nat
  il_max_event_tags :: nat
  il_max_content_length :: nat
  il_auth_required :: bool
  il_payment_required :: bool
  il_restricted_writes :: bool
  il_default_limit :: u64

record info_retention =
  ir_accepted_events :: string
  ir_relay_generated_events :: string
  ir_group_visibility :: string
  ir_physical_erasure :: bool
  ir_compaction_guarantee :: bool

record info_document =
  id_name :: string
  id_description :: "string option"
  id_contact :: "string option"
  id_icon :: "string option"
  id_relay_self :: "string option"
  id_supported_nips :: "u16 list"
  id_software :: string
  id_version :: string
  id_limitation :: info_limitation
  id_retention :: info_retention

datatype response_body = TextBody string | JsonBody json | InfoBody info_document

record http_response =
  hs_status :: nat
  hs_headers :: "(string \<times> string) list"
  hs_body :: response_body

definition text_response :: "nat \<Rightarrow> string \<Rightarrow> http_response" where
  "text_response status message = \<lparr>hs_status = status, hs_headers = [], hs_body = TextBody message\<rparr>"

section \<open>Supported protocols\<close>

definition ALWAYS_SUPPORTED_NIPS :: "u16 list" where
  "ALWAYS_SUPPORTED_NIPS = [1, 11, 42, 45, 70]"

definition GROUP_SUPPORTED_NIP :: u16 where
  "GROUP_SUPPORTED_NIP = 29"

definition supported_nips_for_group_capability :: "bool \<Rightarrow> u16 list" where
  "supported_nips_for_group_capability groups_enabled =
     (if groups_enabled then sort (ALWAYS_SUPPORTED_NIPS @ [GROUP_SUPPORTED_NIP]) else ALWAYS_SUPPORTED_NIPS)"

definition supported_nips_for_runtime :: "base_runtime_config \<Rightarrow> u16 list" where
  "supported_nips_for_runtime c = supported_nips_for_group_capability (gr_enabled (bc_groups c))"

section \<open>Building the document\<close>

record relay_info_config =
  ic_name :: string
  ic_description :: "string option"
  ic_contact :: "string option"
  ic_icon :: "string option"
  ic_groups :: group_runtime_config
  ic_limits :: runtime_limits_config
  ic_software :: string
  ic_version :: string
  ic_payment_required :: bool
  ic_restricted_writes :: bool
  ic_supported_nips :: "u16 list"

definition TANGLE_RELAY_SOFTWARE :: string where
  "TANGLE_RELAY_SOFTWARE = ''https://github.com/radrootslabs/tangle''"

definition TANGLE_RELAY_VERSION :: string where
  "TANGLE_RELAY_VERSION = ''0.1.0''"

definition relay_info_config_new :: "string \<Rightarrow> base_runtime_config \<Rightarrow> base_relay_error + relay_info_config" where
  "relay_info_config_new name runtime =
     (if trim_str name = [] then Err (base_invalid ''relay name must not be empty'')
      else Ok \<lparr>ic_name = name, ic_description = None, ic_contact = None, ic_icon = None,
        ic_groups = bc_groups runtime, ic_limits = bc_limits runtime, ic_software = TANGLE_RELAY_SOFTWARE,
        ic_version = TANGLE_RELAY_VERSION, ic_payment_required = False, ic_restricted_writes = True,
        ic_supported_nips = supported_nips_for_runtime runtime\<rparr>)"

definition relay_info_from_tenant_config :: "tenant_runtime_config \<Rightarrow> base_relay_error + relay_info_config" where
  "relay_info_from_tenant_config tenant =
     (let config = \<lparr>ic_name = ti_name (tc_info tenant), ic_description = ti_description (tc_info tenant),
        ic_contact = ti_contact (tc_info tenant), ic_icon = ti_icon (tc_info tenant),
        ic_groups = tc_groups tenant, ic_limits = tc_limits tenant, ic_software = TANGLE_RELAY_SOFTWARE,
        ic_version = TANGLE_RELAY_VERSION, ic_payment_required = False, ic_restricted_writes = True,
        ic_supported_nips = supported_nips_for_group_capability (gr_enabled (tc_groups tenant))\<rparr>
      in if trim_str (ic_name config) = [] then Err (base_invalid ''relay name must not be empty'')
         else Ok (config\<lparr>ic_name := trim_str (ic_name config)\<rparr>))"

definition with_description :: "string \<Rightarrow> relay_info_config \<Rightarrow> relay_info_config" where
  "with_description description c = c\<lparr>ic_description := Some description\<rparr>"

definition with_contact :: "string \<Rightarrow> relay_info_config \<Rightarrow> relay_info_config" where
  "with_contact contact c = c\<lparr>ic_contact := Some contact\<rparr>"

definition with_icon :: "string \<Rightarrow> relay_info_config \<Rightarrow> relay_info_config" where
  "with_icon icon c = c\<lparr>ic_icon := Some icon\<rparr>"

text \<open>A secret that is not a key is an error; \<open>None\<close> is the panic of the signer's constructor.\<close>

definition relay_self_from_groups ::
  "('vk, 'sig, 'sk, 'pk, 't) crypto_api \<Rightarrow> group_runtime_config \<Rightarrow> (base_relay_error + public_key_hex option) option" where
  "relay_self_from_groups api groups =
     (case gr_relay_secret groups of
        None \<Rightarrow> Some (Ok None)
      | Some secret \<Rightarrow> map_option (\<lambda>r. map_err base_invalid (map_ok (\<lambda>signer. Some (sg_public_key signer)) r))
          (relay_signer_from_secret_hex api secret))"

definition retention_tangle_default :: info_retention where
  "retention_tangle_default = \<lparr>
     ir_accepted_events = ''accepted events are retained in canonical storage without a time-based expiration policy'',
     ir_relay_generated_events = ''relay-generated group state events are retained with their source events'',
     ir_group_visibility = ''private and hidden group policy gates visibility without implying physical deletion'',
     ir_physical_erasure = False, ir_compaction_guarantee = False\<rparr>"

definition build_document ::
  "('vk, 'sig, 'sk, 'pk, 't) crypto_api \<Rightarrow> relay_info_config \<Rightarrow> (base_relay_error + info_document) option" where
  "build_document api c = map_option (map_ok (\<lambda>relay_self.
     \<lparr>id_name = ic_name c, id_description = ic_description c, id_contact = ic_contact c, id_icon = ic_icon c,
      id_relay_self = relay_self, id_supported_nips = ic_supported_nips c, id_software = ic_software c,
      id_version = ic_version c,
      id_limitation = \<lparr>il_max_message_length = lc_max_message_length (ic_limits c),
        il_max_subscriptions = lc_max_subscriptions_per_connection (ic_limits c),
        il_max_filters = lc_max_filters_per_request (ic_limits c),
        il_max_limit = lc_max_limit (ic_limits c),
        il_max_query_complexity = lc_max_query_complexity (ic_limits c),
        il_max_subid_length = lc_max_subid_length (ic_limits c),
        il_max_event_tags = lc_max_event_tags (ic_limits c),
        il_max_content_length = lc_max_content_length (ic_limits c),
        il_auth_required = False,
        il_payment_required = ic_payment_required c,
        il_restricted_writes = ic_restricted_writes c,
        il_default_limit = lc_default_limit (ic_limits c)\<rparr>,
      id_retention = retention_tangle_default\<rparr>))
     (relay_self_from_groups api (ic_groups c))"

definition tenant_info_document ::
  "('vk, 'sig, 'sk, 'pk, 't) crypto_api \<Rightarrow> 'rt tenant_entry \<Rightarrow> (base_relay_error + info_document) option" where
  "tenant_info_document api tenant =
     (case relay_info_from_tenant_config (te_config tenant) of
        Inl error \<Rightarrow> Some (Inl error)
      | Inr config \<Rightarrow> build_document api config)"

section \<open>The answer\<close>

definition accepts_nostr_json :: "string option \<Rightarrow> bool" where
  "accepts_nostr_json v =
     (case v of
        None \<Rightarrow> False
      | Some accept \<Rightarrow> list_ex (\<lambda>item. let item = trim_str item
          in item = ''*/*'' \<or> starts_with item ''application/nostr+json'') (split_char CHR '','' accept))"

definition base_relay_info_response :: "info_document \<Rightarrow> headers \<Rightarrow> http_response" where
  "base_relay_info_response info headers =
     (if \<not> accepts_nostr_json (headers ''accept'')
      then text_response 404 ''relay information requires application/nostr+json''
      else \<lparr>hs_status = 200,
        hs_headers = [(''content-type'', ''application/nostr+json''), (''access-control-allow-origin'', ''*''),
          (''access-control-allow-headers'', ''*''), (''access-control-allow-methods'', ''*'')],
        hs_body = InfoBody info\<rparr>)"

section \<open>What the document promises\<close>

lemma supported_nips_facts:
  "sorted (supported_nips_for_group_capability b)" "distinct (supported_nips_for_group_capability b)"
  "set (supported_nips_for_group_capability b) = {1, 11, 42, 45, 70} \<union> (if b then {29} else {})"
  by (auto simp: supported_nips_for_group_capability_def ALWAYS_SUPPORTED_NIPS_def GROUP_SUPPORTED_NIP_def)

lemma relay_self_Ok:
  assumes "relay_self_from_groups api groups = Some (Ok pubkey)"
  shows "(case gr_relay_secret groups of None \<Rightarrow> pubkey = None
     | Some secret \<Rightarrow> (\<exists>signer. relay_signer_from_secret_hex api secret = Some (Ok signer)
         \<and> pubkey = Some (sg_public_key signer)))"
  using assms by (auto simp: relay_self_from_groups_def map_ok_Ok_iff map_err_Ok_iff split: option.splits)

text \<open>
  Claim C25. The information document names the relay, states the limits the relay enforces, and lists in order
  exactly the protocols it supports: events, relay information, authentication, counts and protected
  events, and group chat when groups are enabled. Its \<open>self\<close> is the key of the signer that the relay makes
  of its secret: every event that the signer signs, those generated through Pocket among them, carries
  that key and verifies.
\<close>

theorem info_document_exact:
  assumes "lawful_crypto api" "lawful_pocket_signing api" "tenant_info_document api tenant = Some (Ok d)"
    "limits_base_relay_limits (tc_limits (te_config tenant)) = Ok l"
  shows "id_name d = trim_str (ti_name (tc_info (te_config tenant))) \<and> id_name d \<noteq> []
    \<and> il_max_message_length (id_limitation d) = lc_max_message_length (tc_limits (te_config tenant))
    \<and> il_max_subscriptions (id_limitation d) = bl_max_subscriptions l
    \<and> il_max_filters (id_limitation d) = bl_max_filters_per_request l
    \<and> il_max_query_complexity (id_limitation d) = bl_max_query_complexity l
    \<and> il_max_subid_length (id_limitation d) = bl_max_subscription_id_length l
    \<and> il_max_event_tags (id_limitation d) = bl_max_event_tags l
    \<and> il_max_content_length (id_limitation d) = bl_max_content_length l
    \<and> il_max_limit (id_limitation d) = bl_max_limit l \<and> il_default_limit (id_limitation d) = bl_default_limit l
    \<and> sorted (id_supported_nips d) \<and> distinct (id_supported_nips d)
    \<and> set (id_supported_nips d) = {1, 11, 42, 45, 70} \<union> (if gr_enabled (tc_groups (te_config tenant)) then {29} else {})
    \<and> (case gr_relay_secret (tc_groups (te_config tenant)) of
         None \<Rightarrow> id_relay_self d = None
       | Some secret \<Rightarrow> (\<exists>signer pubkey. relay_signer_from_secret_hex api secret = Some (Ok signer)
           \<and> id_relay_self d = Some pubkey
           \<and> (\<forall>k tags created content e. sign_pocket_event api signer k tags created content = Ok e \<longrightarrow>
                pe_pubkey e = pubkey \<and> pe_verify e = Ok ())
           \<and> (\<forall>u. ue_pubkey u = pubkey \<and> list_all valid_tag (ue_tags u) \<longrightarrow>
                (\<exists>e. sign_unsigned_event api signer u = Some e \<and> event_unsigned e = u
                  \<and> verify_signed_event api e = Some (Ok ())))))"
proof -
  let ?c = "te_config tenant"
  have built: "\<exists>self. relay_self_from_groups api (tc_groups ?c) = Some (Ok self) \<and> id_relay_self d = self
      \<and> id_name d = trim_str (ti_name (tc_info ?c)) \<and> trim_str (ti_name (tc_info ?c)) \<noteq> []
      \<and> id_supported_nips d = supported_nips_for_group_capability (gr_enabled (tc_groups ?c))
      \<and> il_max_message_length (id_limitation d) = lc_max_message_length (tc_limits ?c)
      \<and> il_max_subscriptions (id_limitation d) = lc_max_subscriptions_per_connection (tc_limits ?c)
      \<and> il_max_filters (id_limitation d) = lc_max_filters_per_request (tc_limits ?c)
      \<and> il_max_query_complexity (id_limitation d) = lc_max_query_complexity (tc_limits ?c)
      \<and> il_max_subid_length (id_limitation d) = lc_max_subid_length (tc_limits ?c)
      \<and> il_max_event_tags (id_limitation d) = lc_max_event_tags (tc_limits ?c)
      \<and> il_max_content_length (id_limitation d) = lc_max_content_length (tc_limits ?c)
      \<and> il_max_limit (id_limitation d) = lc_max_limit (tc_limits ?c)
      \<and> il_default_limit (id_limitation d) = lc_default_limit (tc_limits ?c)"
    using assms(3)
    by (auto simp: tenant_info_document_def relay_info_from_tenant_config_def build_document_def Let_def
        map_ok_Ok_iff split: if_splits)
  then obtain self where self: "relay_self_from_groups api (tc_groups ?c) = Some (Ok self)" "id_relay_self d = self"
    by blast
  have limits: "l = \<lparr>bl_max_pending_events = lc_per_connection_outbound_queue (tc_limits ?c),
      bl_max_subscription_id_length = lc_max_subid_length (tc_limits ?c),
      bl_max_subscriptions = lc_max_subscriptions_per_connection (tc_limits ?c),
      bl_max_filters_per_request = lc_max_filters_per_request (tc_limits ?c),
      bl_max_tag_values_per_filter = lc_max_tag_values_per_filter (tc_limits ?c),
      bl_max_query_complexity = lc_max_query_complexity (tc_limits ?c),
      bl_max_event_tags = lc_max_event_tags (tc_limits ?c),
      bl_max_content_length = lc_max_content_length (tc_limits ?c),
      bl_max_limit = lc_max_limit (tc_limits ?c), bl_default_limit = lc_default_limit (tc_limits ?c)\<rparr>"
    using assms(4) by (auto simp: limits_base_relay_limits_def base_relay_limits_new_def result_iffs split: if_splits)
  have "case gr_relay_secret (tc_groups ?c) of
         None \<Rightarrow> id_relay_self d = None
       | Some secret \<Rightarrow> (\<exists>signer pubkey. relay_signer_from_secret_hex api secret = Some (Ok signer)
           \<and> id_relay_self d = Some pubkey
           \<and> (\<forall>k tags created content e. sign_pocket_event api signer k tags created content = Ok e \<longrightarrow>
                pe_pubkey e = pubkey \<and> pe_verify e = Ok ())
           \<and> (\<forall>u. ue_pubkey u = pubkey \<and> list_all valid_tag (ue_tags u) \<longrightarrow>
                (\<exists>e. sign_unsigned_event api signer u = Some e \<and> event_unsigned e = u
                  \<and> verify_signed_event api e = Some (Ok ()))))"
    using relay_self_Ok [OF self(1)] self(2) signed_event_verifies [OF assms(1)] signed_pocket_event_verifies [OF assms(1,2)]
    by (fastforce split: option.splits)
  then show ?thesis using built limits by (simp add: supported_nips_facts)
qed

section \<open>A sample tenant\<close>

definition sample_group_config :: group_runtime_config where
  "sample_group_config = group_runtime_config_disabled\<lparr>gr_enabled := True, gr_relay_secret := Some (replicate 64 CHR ''1'')\<rparr>"

definition sample_tenant_config :: tenant_runtime_config where
  "sample_tenant_config = \<lparr>tc_tenant_id = ''alpha'', tc_tenant_schema = ''alpha'', tc_host = ''relay.example'',
     tc_relay_url = ''wss://relay.example'', tc_inactive = False,
     tc_info = \<lparr>ti_name = ''Alpha'', ti_description = None, ti_contact = None, ti_icon = None\<rparr>,
     tc_pocket = \<lparr>sc_data_directory = ''/data'', sc_sync_policy = FlushOnWrite\<rparr>,
     tc_pocket_query = pocket_query_config_default, tc_groups = sample_group_config,
     tc_auth_ttl_seconds = 600, tc_auth_created_at_skew_seconds = 60, tc_limits = sample_limits_config,
     tc_rate_limits = sample_rates, tc_backup_export = backup_export_config_default\<rparr>"

definition sample_entry :: "unit tenant_entry" where
  "sample_entry = \<lparr>te_config = sample_tenant_config, te_runtime = ()\<rparr>"

lemma sample_info: "\<exists>d. tenant_info_document sample_crypto sample_entry = Some (Ok d)
    \<and> id_relay_self d = Some (replicate 64 CHR ''1'')"
  by (simp add: tenant_info_document_def relay_info_from_tenant_config_def build_document_def
      relay_self_from_groups_def sample_entry_def sample_tenant_config_def sample_group_config_def sample_signer
      sample_signer_def trim_str_def whitespace_group_def is_whitespace_def is_continuation_def byte_def)

theorem info_document_exact_witness:
  "\<exists>d. tenant_info_document sample_crypto sample_entry = Some (Ok d) \<and> set (id_supported_nips d) = {1, 11, 29, 42, 45, 70}
    \<and> id_name d = ''Alpha'' \<and> id_relay_self d = Some (replicate 64 CHR ''1'')"
proof -
  obtain d where d: "tenant_info_document sample_crypto sample_entry = Some (Ok d)"
    "id_relay_self d = Some (replicate 64 CHR ''1'')" using sample_info by blast
  obtain l where "limits_base_relay_limits (tc_limits (te_config sample_entry)) = Ok l"
    by (simp add: sample_entry_def sample_tenant_config_def sample_limits_config_def limits_base_relay_limits_def
        base_relay_limits_new_def limit_positive_def)
  from info_document_exact [OF sample_crypto_lawful sample_pocket_signing_lawful d(1) this] d show ?thesis
    by (auto simp: sample_entry_def sample_tenant_config_def sample_group_config_def trim_str_def whitespace_group_def
        is_whitespace_def is_continuation_def byte_def)
qed

end
