(* ===== verification/Host_Server.thy ===== *)
theory Host_Server
  imports Relay_Info Relay_Session
begin

text \<open>
  The HTTP side of a host (\<open>crates/tangle_runtime/src/server.rs\<close>): which tenant a request to the root
  is for, the upgrade to a WebSocket session, the relay information document, the operations routes,
  and the shutdown of the host (\<open>host.rs\<close>). The runtime of a tenant is the runtime of the relay, kept in
  the registry. A session that is served runs to its end before the next request; \<open>axum\<close>'s routing,
  its WebSocket handshake and the TCP listener are not modelled, and whether a request is a valid
  upgrade is an argument. A \<open>None\<close> result is a panic of the relay's signer.
\<close>

section \<open>The root\<close>

type_synonym ('t, 'st, 'h, 'b) tangle_host = "('t, 'st, 'h, 'b) relay_runtime host_runtime"
type_synonym ('t, 'st, 'h, 'b) host_entry = "('t, 'st, 'h, 'b) relay_runtime tenant_entry"

datatype ('t, 'st, 'f, 'h, 'b) root_reply =
    Respond http_response
  | Upgrade "('t, 'st, 'f, 'h, 'b) session_world"

fun host_resolution_response :: "host_resolution_error \<Rightarrow> http_response" where
  "host_resolution_response HostMissing = text_response 400 ''missing host''"
| "host_resolution_response HostInvalid = text_response 400 ''invalid host''"
| "host_resolution_response HostUnknown = text_response 404 ''unknown host''"

text \<open>The registry holds handles; a tenant's runtime is replaced by the runtime after a call on it.\<close>

definition put_runtime ::
  "('t, 'st, 'h, 'b) host_entry \<Rightarrow> ('t, 'st, 'h, 'b) relay_runtime \<Rightarrow> ('t, 'st, 'h, 'b) tangle_host \<Rightarrow>
   ('t, 'st, 'h, 'b) tangle_host" where
  "put_runtime e runtime h = h\<lparr>hr_registry := hr_registry h\<lparr>tg_tenants_by_host :=
     bt_insert (te_host e) (e\<lparr>te_runtime := runtime\<rparr>) (tg_tenants_by_host (hr_registry h))\<rparr>\<rparr>"

definition connection_options :: "ip_addr \<Rightarrow> resource_limiter \<Rightarrow> session_options" where
  "connection_options peer_ip limiter = \<lparr>so_peer_ip = Some peer_ip, so_resource_limiter = Some limiter,
     so_projection = projection_context_default, so_keepalive = None\<rparr>"

definition tenant_session ::
  "('t, 'st, 'f, 'q, 'h, 'b) runtime_api \<Rightarrow> u64 \<Rightarrow> bool \<Rightarrow> session_options \<Rightarrow>
   ('t, 'st, 'h, 'b, ('t, 'st, 'f, 'h, 'b) session_world \<times> u64) runtime_action" where
  "tenant_session api next_connection_id shutdown options =
     act_bind runtime_auth_state (\<lambda>auth.
     act_bind (subscribe_events api) (\<lambda>_ runtime.
       Some (session_new next_connection_id (rtm_limits runtime) shutdown runtime auth options, runtime)))"

definition upgrade_request ::
  "('t, 'st, 'f, 'q, 'h, 'b) runtime_api \<Rightarrow> u64 \<Rightarrow> ip_addr \<Rightarrow> ('t, 'st, 'h, 'b) host_entry \<Rightarrow>
   ('t, 'st, 'h, 'b) tangle_host \<Rightarrow>
   (('t, 'st, 'f, 'h, 'b) root_reply \<times> ('t, 'st, 'h, 'b) tangle_host \<times> u64) option" where
  "upgrade_request api next_connection_id peer_ip tenant h =
     (case try_open_connection (hr_resources h) of
        Inl error \<Rightarrow> Some (Respond (text_response 429 (base_prefixed_message error)), h, next_connection_id)
      | Inr limiter \<Rightarrow>
          map_option (\<lambda>(session, runtime).
            let h = put_runtime tenant runtime (h\<lparr>hr_resources := limiter\<rparr>) in
            case session of
              Inl error \<Rightarrow> (Respond (text_response 500 (base_prefixed_message error)),
                h\<lparr>hr_resources := release_connection (hr_resources h)\<rparr>, next_connection_id)
            | Inr (world, next) \<Rightarrow> (Upgrade world, h, next))
            (tenant_session api next_connection_id (hr_shutdown_requested h) (connection_options peer_ip limiter)
              (te_runtime tenant)))"

definition info_request ::
  "('vk, 'sig, 'sk, 'pk, 'tag) crypto_api \<Rightarrow> 'rt tenant_entry \<Rightarrow> headers \<Rightarrow> http_response option" where
  "info_request crypto tenant headers = map_option (\<lambda>r. case r of
       Inl error \<Rightarrow> text_response 500 (base_prefixed_message error)
     | Inr info \<Rightarrow> base_relay_info_response info headers) (tenant_info_document crypto tenant)"

definition tangle_root ::
  "('t, 'st, 'f, 'q, 'h, 'b) runtime_api \<Rightarrow> ('vk, 'sig, 'sk, 'pk, 'tag) crypto_api \<Rightarrow> u64 \<Rightarrow>
   socket_addr \<Rightarrow> ip_addr \<Rightarrow> bool \<Rightarrow> headers \<Rightarrow> ('t, 'st, 'h, 'b) tangle_host \<Rightarrow>
   (('t, 'st, 'f, 'h, 'b) root_reply \<times> ('t, 'st, 'h, 'b) tangle_host \<times> u64) option" where
  "tangle_root api crypto next_connection_id peer peer_ip websocket headers h =
     (case tenant_for_request h headers peer of
        Inl error \<Rightarrow> Some (Respond (host_resolution_response error), h, next_connection_id)
      | Inr tenant \<Rightarrow>
          if websocket then upgrade_request api next_connection_id peer_ip tenant h
          else map_option (\<lambda>response. (Respond response, h, next_connection_id))
            (info_request crypto tenant headers))"

text \<open>
  The task of an upgraded connection: the session runs to its end on the tenant's runtime and the
  host's counters, and the connection's permit is dropped after it.
\<close>

definition serve_session ::
  "('t, 'st, 'f, 'q, 'h, 'b, 'raw) session_api \<Rightarrow> string + string \<Rightarrow> unix_timestamp \<Rightarrow> nat \<Rightarrow> session_input list \<Rightarrow>
   ('t, 'st, 'h, 'b) host_entry \<Rightarrow> ('t, 'st, 'f, 'h, 'b) session_world \<Rightarrow> ('t, 'st, 'h, 'b) tangle_host \<Rightarrow>
   (bool \<times> ('t, 'st, 'h, 'b) tangle_host) option" where
  "serve_session api fill now instant inputs tenant world h =
     (case session_run api fill now instant inputs world of
        Some (Inr ended, t) \<Rightarrow>
          (case sw_resources t of
             None \<Rightarrow> Some (ended, put_runtime tenant (sw_runtime t) h)
           | Some limiter \<Rightarrow> Some (ended, (put_runtime tenant (sw_runtime t) h)\<lparr>hr_resources :=
               (if ended then release_connection limiter else limiter)\<rparr>))
      | Some (Inl (_ :: base_relay_error), _) \<Rightarrow> None
      | None \<Rightarrow> None)"

text \<open>Serving one request: an upgraded connection runs to its end.\<close>

record root_request =
  rq_peer :: socket_addr
  rq_peer_ip :: ip_addr
  rq_websocket :: bool
  rq_headers :: headers
  rq_fill :: "string + string"
  rq_now :: unix_timestamp
  rq_instant :: nat
  rq_inputs :: "session_input list"

datatype served = Answered http_response | Session bool

definition serve_request ::
  "('t, 'st, 'f, 'q, 'h, 'b, 'raw) session_api \<Rightarrow> ('vk, 'sig, 'sk, 'pk, 'tag) crypto_api \<Rightarrow> root_request \<Rightarrow> u64 \<Rightarrow>
   ('t, 'st, 'h, 'b) tangle_host \<Rightarrow> (served \<times> u64 \<times> ('t, 'st, 'h, 'b) tangle_host) option" where
  "serve_request api crypto rq next_connection_id h =
     (case tangle_root (si_runtime api) crypto next_connection_id (rq_peer rq) (rq_peer_ip rq) (rq_websocket rq)
        (rq_headers rq) h of
       None \<Rightarrow> None
     | Some (Respond response, h, next) \<Rightarrow> Some (Answered response, next, h)
     | Some (Upgrade world, h, next) \<Rightarrow>
         (case tenant_for_request h (rq_headers rq) (rq_peer rq) of
            Inl _ \<Rightarrow> None
          | Inr tenant \<Rightarrow> map_option (\<lambda>(ended, h). (Session ended, next, h))
              (serve_session api (rq_fill rq) (rq_now rq) (rq_instant rq) (rq_inputs rq) tenant world h)))"

section \<open>The operations routes\<close>

definition ops_enabled :: "'rt host_runtime \<Rightarrow> bool" where
  "ops_enabled h \<longleftrightarrow> ho_enabled (hc_ops (cs_host (hr_config h)))"

definition host_ops_disabled_response :: http_response where
  "host_ops_disabled_response = text_response 404 ''tangle host ops are disabled''"

definition json_response :: "nat \<Rightarrow> json \<Rightarrow> http_response" where
  "json_response status v = \<lparr>hs_status = status, hs_headers = [], hs_body = JsonBody v\<rparr>"

definition status_json :: "bool \<Rightarrow> json" where
  "status_json ready = JString (check_status_str (if ready then Ready else NotReady))"

definition runtime_is_ready :: "('t, 'st, 'h, 'b) relay_runtime \<Rightarrow> bool" where
  "runtime_is_ready runtime = readiness_is_ready (rtm_readiness runtime)"

definition tangle_host_ready :: "('t, 'st, 'h, 'b) tangle_host \<Rightarrow> http_response" where
  "tangle_host_ready h =
     (if \<not> ops_enabled h then host_ops_disabled_response
      else let readiness = host_readiness runtime_is_ready h in
        json_response (if host_is_ready readiness then 200 else 503)
          (JObject (bt_of_list [
             (''status'', JString (if host_is_ready readiness then ''ready'' else ''not_ready'')),
             (''checks'', JObject (bt_of_list [
                (''config'', status_json (hrs_config_ready readiness)),
                (''tenant_registry'', status_json (hrs_tenant_registry_ready readiness)),
                (''active_tenants'', status_json (hrs_active_tenants_ready readiness)),
                (''shutdown_requested'', JBool (hrs_shutdown_requested readiness))]))])))"

text \<open>The snapshot as the map \<open>serde\<close> makes of it, keyed by the field names.\<close>

definition snapshot_counters :: "(string \<times> metric) list" where
  "snapshot_counters = [
     (''tangle_ws_connections_current'', ActiveSessions),
     (''tangle_ws_connections_total'', TotalSessions),
     (''tangle_client_messages_total'', ClientMessages),
     (''tangle_event_messages_total'', EventMessages),
     (''tangle_req_messages_total'', ReqMessages),
     (''tangle_count_messages_total'', CountMessages),
     (''tangle_auth_messages_total'', AuthMessages),
     (''tangle_close_messages_total'', CloseMessages),
     (''tangle_subscriptions_current'', ActiveSubscriptions),
     (''tangle_subscriptions_opened_total'', OpenedSubscriptions),
     (''tangle_subscriptions_closed_total'', ClosedSubscriptions),
     (''tangle_stored_event_offsets_total'', StoredEventOffsets),
     (''tangle_rate_limit_rejections_total'', RateLimitRejections),
     (''tangle_auth_success_total'', AuthSuccesses),
     (''tangle_auth_failure_total'', AuthFailures),
     (''tangle_event_admitted_total'', EventAdmissions),
     (''tangle_event_rejected_total'', EventRejections),
     (''tangle_group_read_denied_total'', GroupReadDenials),
     (''tangle_group_write_denied_total'', GroupWriteDenials),
     (''tangle_event_bus_receivers_current'', EventBusReceiversCurrent),
     (''tangle_event_bus_published_offsets_total'', EventBusPublishedOffsets),
     (''tangle_event_bus_lagged_receivers_total'', EventBusLaggedReceivers),
     (''tangle_event_bus_lagged_offsets_total'', EventBusLaggedOffsets),
     (''tangle_outbound_queue_full_closes_total'', OutboundQueueFullCloses),
     (''tangle_outbox_pending_events'', OutboxPendingEvents),
     (''tangle_outbox_replayed_events_total'', OutboxReplayedEvents),
     (''tangle_disk_used_bytes'', DiskUsedBytes),
     (''tangle_event_admission_latency_total_micros'', EventAdmissionLatencyTotalMicros),
     (''tangle_event_admission_latency_count'', EventAdmissionLatencyCount),
     (''tangle_query_latency_total_micros'', QueryLatencyTotalMicros),
     (''tangle_query_latency_count'', QueryLatencyCount),
     (''tangle_query_candidates_scanned_total'', QueryCandidatesScanned),
     (''tangle_query_returned_events_total'', QueryReturnedEvents),
     (''tangle_query_redacted_events_total'', QueryRedactedEvents),
     (''tangle_count_refusals_total'', CountRefusals),
     (''tangle_broad_query_rejections_total'', BroadQueryRejections)]"

definition snapshot_value :: "runtime_metrics_snapshot \<Rightarrow> (string, json) btree" where
  "snapshot_value s = bt_of_list
     ((''tangle_runtime_uptime_seconds'', jnum (sn_runtime_uptime_seconds s)) #
      (''tangle_readiness_ready'', JBool (sn_readiness_ready s)) #
      map (\<lambda>(name, metric). (name, jnum (sn_counters s metric))) snapshot_counters)"

definition host_metric_values :: "host_metrics_snapshot \<Rightarrow> bool \<Rightarrow> (string, json) btree" where
  "host_metric_values m ready = bt_of_list [
     (''tangle_host_configured_tenants'', jnum (of_nat (hm_configured_tenants m))),
     (''tangle_host_active_tenants'', jnum (of_nat (hm_active_tenants m))),
     (''tangle_host_inactive_tenants'', jnum (of_nat (hm_inactive_tenants m))),
     (''tangle_host_ws_connections_current'', jnum (hm_active_connections m)),
     (''tangle_host_subscriptions_current'', jnum (hm_active_subscriptions m)),
     (''tangle_host_ws_connections_limit'', jnum (of_nat (hm_max_total_connections m))),
     (''tangle_host_subscriptions_limit'', jnum (of_nat (hm_max_total_subscriptions m))),
     (''tangle_readiness_ready'', JBool ready)]"

definition add_metric :: "(string, json) btree \<Rightarrow> string \<times> json \<Rightarrow> (string, json) btree" where
  "add_metric metrics = (\<lambda>(key, v).
     if key = ''tangle_readiness_ready'' then metrics
     else case as_u64 v of
       None \<Rightarrow> metrics
     | Some n \<Rightarrow>
         let current = (case Option.bind (bt_get metrics key) as_u64 of Some c \<Rightarrow> c | None \<Rightarrow> 0)
         in bt_insert key (jnum (saturating_add current n)) metrics)"

text \<open>\<open>uptime\<close> is how long each runtime has been up.\<close>

definition tangle_host_metrics ::
  "(('t, 'st, 'h, 'b) relay_runtime \<Rightarrow> u64) \<Rightarrow> ('t, 'st, 'h, 'b) tangle_host \<Rightarrow> http_response" where
  "tangle_host_metrics uptime h =
     (if \<not> ops_enabled h then host_ops_disabled_response
      else json_response 200 (JObject (foldl (\<lambda>metrics e.
          let runtime = te_runtime e in
          foldl add_metric metrics (snapshot_value
            (snapshot_with_readiness (uptime runtime) (runtime_is_ready runtime) (rtm_metrics runtime))))
        (host_metric_values (host_metrics h) (host_is_ready (host_readiness runtime_is_ready h)))
        (active_tenants (hr_registry h)))))"

definition inventory_value :: "tenant_inventory_item \<Rightarrow> json" where
  "inventory_value t = JObject (bt_of_list [
     (''tenant_id'', JString (tii_tenant_id t)),
     (''tenant_schema'', JString (tii_tenant_schema t)),
     (''host'', JString (tii_host t)),
     (''relay_url'', JString (tii_relay_url t)),
     (''status'', JString (if tii_active t then ''active'' else ''inactive'')),
     (''ready'', JBool (tii_ready t = Some True))])"

definition tangle_host_tenants :: "('t, 'st, 'h, 'b) tangle_host \<Rightarrow> http_response" where
  "tangle_host_tenants h =
     (if \<not> ops_enabled h then host_ops_disabled_response
      else if \<not> ho_expose_tenant_inventory (hc_ops (cs_host (hr_config h)))
      then text_response 404 ''tangle host tenant inventory is disabled''
      else json_response 200 (JObject [(''tenants'',
        JArray (map inventory_value (tenant_inventory runtime_is_ready h)))]))"

section \<open>Shutdown\<close>

record host_shutdown_report =
  hsr_tenants_shutdown :: nat
  hsr_closed_subscriptions :: nat

definition shutdown_tenant ::
  "('t, 'st, 'f, 'q, 'h, 'b) runtime_api \<Rightarrow> nat \<Rightarrow> ('t, 'st, 'h, 'b) host_entry \<Rightarrow>
   (('t, 'st, 'h, 'b) tangle_host, base_relay_error, nat) action" where
  "shutdown_tenant api closed tenant = (\<lambda>h. map_option (\<lambda>(r, runtime).
     (map_ok (\<lambda>n. closed + n) r, put_runtime tenant runtime h)) (runtime_shutdown api (te_runtime tenant)))"

definition host_shutdown ::
  "('t, 'st, 'f, 'q, 'h, 'b) runtime_api \<Rightarrow> (('t, 'st, 'h, 'b) tangle_host, base_relay_error, host_shutdown_report) action" where
  "host_shutdown api =
     act_bind (act_modify (\<lambda>h. h\<lparr>hr_shutdown_requested := True\<rparr>)) (\<lambda>_ h.
     act_bind (act_try_fold (shutdown_tenant api) 0 (active_tenants (hr_registry h))) (\<lambda>closed.
     act_get (\<lambda>h. \<lparr>hsr_tenants_shutdown = active_tenant_count (hr_registry h), hsr_closed_subscriptions = closed\<rparr>)) h)"

section \<open>Serving\<close>

text \<open>Once the listener is bound, every active tenant reports it; the host serves until it is told to stop.\<close>

definition mark_server_bound :: "('t, 'st, 'h, 'b) tangle_host \<Rightarrow> ('t, 'st, 'h, 'b) tangle_host" where
  "mark_server_bound h = foldl (\<lambda>h e. put_runtime e
     ((te_runtime e)\<lparr>rtm_readiness := set_server_bind Ready (rtm_readiness (te_runtime e))\<rparr>) h) h
     (active_tenants (hr_registry h))"

fun serve_requests ::
  "('t, 'st, 'f, 'q, 'h, 'b, 'raw) session_api \<Rightarrow> ('vk, 'sig, 'sk, 'pk, 'tag) crypto_api \<Rightarrow> root_request list \<Rightarrow> u64 \<Rightarrow>
   ('t, 'st, 'h, 'b) tangle_host \<Rightarrow> (served list \<times> ('t, 'st, 'h, 'b) tangle_host) option" where
  "serve_requests api crypto [] n h = Some ([], h)"
| "serve_requests api crypto (rq # rqs) n h =
     Option.bind (serve_request api crypto rq n h) (\<lambda>(answer, n, h).
       map_option (\<lambda>(answers, h). (answer # answers, h)) (serve_requests api crypto rqs n h))"

record serve_report =
  sr_listen_addr :: socket_addr
  sr_closed_subscriptions :: nat

definition serve_listener_until_shutdown ::
  "('t, 'st, 'f, 'q, 'h, 'b, 'raw) session_api \<Rightarrow> ('vk, 'sig, 'sk, 'pk, 'tag) crypto_api \<Rightarrow> socket_addr \<Rightarrow>
   root_request list \<Rightarrow> u64 \<Rightarrow> (('t, 'st, 'h, 'b) tangle_host, base_relay_error, served list \<times> serve_report) action" where
  "serve_listener_until_shutdown api crypto listen_addr rqs n = (\<lambda>h.
     Option.bind (serve_requests api crypto rqs n (mark_server_bound h)) (\<lambda>(answers, h).
       act_bind (host_shutdown (si_runtime api)) (\<lambda>report. act_return (answers,
         \<lparr>sr_listen_addr = listen_addr, sr_closed_subscriptions = hsr_closed_subscriptions report\<rparr>)) h))"

end
