(* ===== verification/Host_Facts.thy ===== *)
theory Host_Facts
  imports Host_Server Session_Facts
begin

text \<open>
  Properties of the HTTP side of a host: a request that has been served leaves the counters of the host
  as it found them, the metrics route adds the tenants' counters up, and a shutdown stops at the first
  tenant whose store fails.
\<close>

section \<open>What a request costs\<close>

lemma release_after_open:
  "try_open_connection r = Ok r' \<Longrightarrow> release_connection r' = r"
  by (cases r) (auto simp: try_open_connection_def map_ok_Ok_iff next_count_Ok release_connection_def)

lemma put_runtime_simps [simp]:
  "hr_resources (put_runtime e runtime h) = hr_resources h"
  "hr_config (put_runtime e runtime h) = hr_config h"
  "hr_shutdown_requested (put_runtime e runtime h) = hr_shutdown_requested h"
  by (simp_all add: put_runtime_def)

lemma tenant_session_Some:
  assumes "tenant_session api next_connection_id shutdown options runtime = Some (Ok (world, n), runtime')"
  obtains auth where "session_new next_connection_id (rtm_limits runtime') shutdown runtime' auth options = Ok (world, n)"
  using assms
  by (auto simp: tenant_session_def runtime_auth_state_def subscribe_events_def act_bind_def split: sum.splits)

lemma upgrade_request_cases:
  assumes "upgrade_request api n peer_ip tenant h = Some (reply, h', n')"
  shows "(\<exists>response. reply = Respond response \<and> hr_resources h' = hr_resources h)
    \<or> (\<exists>world limiter runtime. reply = Upgrade world \<and> try_open_connection (hr_resources h) = Ok limiter
        \<and> h' = put_runtime tenant runtime (h\<lparr>hr_resources := limiter\<rparr>)
        \<and> (\<exists>capacity. session_inv (Some limiter) capacity world))"
proof (cases "try_open_connection (hr_resources h)")
  case (Inl error)
  with assms show ?thesis by (auto simp: upgrade_request_def)
next
  case (Inr limiter)
  obtain session runtime where run: "tenant_session api n (hr_shutdown_requested h) (connection_options peer_ip limiter)
      (te_runtime tenant) = Some (session, runtime)"
    using assms Inr by (auto simp: upgrade_request_def)
  show ?thesis
  proof (cases session)
    case (Inl error)
    with assms Inr run show ?thesis
      by (auto simp: upgrade_request_def Let_def release_after_open)
  next
    case new: (Inr made)
    obtain world m where made: "made = (world, m)" by (cases made)
    with run new obtain auth where "session_new n (rtm_limits runtime) (hr_shutdown_requested h) runtime auth
        (connection_options peer_ip limiter) = Ok (world, m)"
      using tenant_session_Some by blast
    from session_new_inv [OF this] assms Inr run new made show ?thesis
      by (auto simp: upgrade_request_def Let_def connection_options_def)
  qed
qed

text \<open>
  Claim C11. A request that has been served leaves the counters of the host as it found them, whether it was
  refused, answered or ran as a session to its end; a request that is no upgrade changes nothing.
\<close>

theorem served_request_returns_connection:
  assumes "serve_request api crypto rq n h = Some (served, n', h')" "served \<noteq> Session False"
  shows "hr_resources h' = hr_resources h \<and> (\<not> rq_websocket rq \<longrightarrow> h' = h)"
proof -
  obtain reply u m where root: "tangle_root (si_runtime api) crypto n (rq_peer rq) (rq_peer_ip rq) (rq_websocket rq)
      (rq_headers rq) h = Some (reply, u, m)"
    using assms(1) by (auto simp: serve_request_def split: option.splits)
  show ?thesis
  proof (cases "rq_websocket rq \<and> is_ok (tenant_for_request h (rq_headers rq) (rq_peer rq))")
    case False
    with root have "\<exists>response. reply = Respond response" "u = h"
      by (auto simp: tangle_root_def is_ok_def split: sum.splits if_splits)
    with assms(1) root show ?thesis by (auto simp: serve_request_def)
  next
    case True
    then obtain tenant where "upgrade_request (si_runtime api) n (rq_peer_ip rq) tenant h = Some (reply, u, m)"
      using root by (auto simp: tangle_root_def is_ok_def split: sum.splits)
    from upgrade_request_cases [OF this] show ?thesis
    proof (elim disjE exE conjE)
      fix response assume "reply = Respond response" "hr_resources u = hr_resources h"
      with assms(1) root True show ?thesis by (auto simp: serve_request_def)
    next
      fix world limiter runtime capacity
      assume w: "reply = Upgrade world" "try_open_connection (hr_resources h) = Ok limiter"
        "u = put_runtime tenant runtime (h\<lparr>hr_resources := limiter\<rparr>)" "session_inv (Some limiter) capacity world"
      then obtain entry where s: "served = Session True"
        "serve_session api (rq_fill rq) (rq_now rq) (rq_instant rq) (rq_inputs rq) entry world u = Some (True, h')"
        using assms root by (auto simp: serve_request_def split: sum.splits)
      then obtain t where t: "session_run api (rq_fill rq) (rq_now rq) (rq_instant rq) (rq_inputs rq) world
          = Some (Ok True :: base_relay_error + bool, t)"
        by (auto simp: serve_session_def split: option.splits sum.splits prod.splits)
      have "sw_resources t = Some limiter"
        using session_run_inv [OF w(4) t] by (simp add: session_ended_def)
      with s(2) t release_after_open [OF w(2)] True show ?thesis
        by (auto simp: serve_session_def)
    qed
  qed
qed

section \<open>The sums of the metrics route\<close>

lemma add_metric_other: "key \<noteq> fst kv \<Longrightarrow> bt_get (add_metric m kv) key = bt_get m key"
  by (cases kv) (auto simp: add_metric_def bt_get_insert Let_def split: option.splits)

lemma add_metrics_other: "key \<notin> fst ` set kvs \<Longrightarrow> bt_get (foldl add_metric m kvs) key = bt_get m key"
  by (induction kvs arbitrary: m) (auto simp: add_metric_other)

definition metric_value :: "(string, json) btree \<Rightarrow> string \<Rightarrow> u64" where
  "metric_value m key = (case Option.bind (bt_get m key) as_u64 of Some c \<Rightarrow> c | None \<Rightarrow> 0)"

lemma add_metric_same:
  "key \<noteq> ''tangle_readiness_ready'' \<Longrightarrow>
   bt_get (add_metric m (key, jnum n)) key = Some (jnum (saturating_add (metric_value m key) n))"
  by (simp add: add_metric_def metric_value_def as_u64_def bt_get_insert)

lemma add_metrics_same:
  assumes "distinct (map fst kvs)" "(key, jnum n) \<in> set kvs" "key \<noteq> ''tangle_readiness_ready''"
  shows "bt_get (foldl add_metric m kvs) key = Some (jnum (saturating_add (metric_value m key) n))"
  using assms(1,2)
proof (induction kvs arbitrary: m)
  case (Cons kv kvs)
  show ?case
  proof (cases "kv = (key, jnum n)")
    case True
    with Cons.prems have "key \<notin> fst ` set kvs" by auto
    with True show ?thesis by (simp add: add_metrics_other add_metric_same assms(3))
  next
    case False
    with Cons.prems have "(key, jnum n) \<in> set kvs" "key \<noteq> fst kv" by (auto simp: image_iff dest: bspec)
    with Cons.IH [of "add_metric m kv"] Cons.prems show ?thesis
      by (simp add: metric_value_def add_metric_other)
  qed
qed simp

lemma add_snapshots:
  assumes "\<And>e. distinct (map fst (snap e))" "\<And>e. (key, jnum (count_of e)) \<in> set (snap e)"
    "key \<noteq> ''tangle_readiness_ready''"
  shows "bt_get (foldl (\<lambda>m e. foldl add_metric m (snap e)) m es) key =
    (if es = [] then bt_get m key else Some (jnum (foldl saturating_add (metric_value m key) (map count_of es))))"
proof (induction es arbitrary: m)
  case (Cons e es)
  let ?m = "foldl add_metric m (snap e)"
  have "bt_get ?m key = Some (jnum (saturating_add (metric_value m key) (count_of e)))"
    by (rule add_metrics_same [OF assms])
  then have "metric_value ?m key = saturating_add (metric_value m key) (count_of e)"
    by (simp add: metric_value_def as_u64_def)
  with Cons.IH [of ?m] show ?case by (simp add: \<open>bt_get ?m key = _\<close>)
qed simp

lemma snapshot_counter_names:
  "distinct (map fst snapshot_counters)"
  "''tangle_runtime_uptime_seconds'' \<notin> fst ` set snapshot_counters"
  "''tangle_readiness_ready'' \<notin> fst ` set snapshot_counters"
  by (simp_all add: snapshot_counters_def)

lemma snapshot_value_entries:
  "distinct (map fst (snapshot_value s))"
  "(''tangle_runtime_uptime_seconds'', jnum (sn_runtime_uptime_seconds s)) \<in> set (snapshot_value s)"
  "(name, metric) \<in> set snapshot_counters \<Longrightarrow> (name, jnum (sn_counters s metric)) \<in> set (snapshot_value s)"
proof -
  let ?list = "(''tangle_runtime_uptime_seconds'', jnum (sn_runtime_uptime_seconds s)) #
      (''tangle_readiness_ready'', JBool (sn_readiness_ready s)) #
      map (\<lambda>(name, metric). (name, jnum (sn_counters s metric))) snapshot_counters"
  have keys: "map fst ?list = ''tangle_runtime_uptime_seconds'' # ''tangle_readiness_ready'' # map fst snapshot_counters"
    by (simp add: case_prod_beta comp_def)
  have "distinct (map fst ?list)"
    unfolding keys using snapshot_counter_names by simp
  then have "distinct (map fst (rev ?list))" by (simp only: rev_map [symmetric] distinct_rev)
  then have entries: "(k, v) \<in> set (snapshot_value s) \<longleftrightarrow> (k, v) \<in> set ?list" for k v
    using map_of_eq_Some_iff [of "rev ?list" k v] map_of_eq_Some_iff [of "snapshot_value s" k v]
      bt_get_of_list [of ?list k] bt_wf_distinct [OF bt_wf_of_list, of ?list]
    unfolding snapshot_value_def by (simp only: set_rev)
  show "distinct (map fst (snapshot_value s))"
    unfolding snapshot_value_def by (rule bt_wf_distinct [OF bt_wf_of_list])
  show "(''tangle_runtime_uptime_seconds'', jnum (sn_runtime_uptime_seconds s)) \<in> set (snapshot_value s)"
    by (simp add: entries)
  show "(name, metric) \<in> set snapshot_counters \<Longrightarrow> (name, jnum (sn_counters s metric)) \<in> set (snapshot_value s)"
    by (force simp: entries)
qed

lemma host_values_apart:
  "key \<in> insert ''tangle_runtime_uptime_seconds'' (fst ` set snapshot_counters) \<Longrightarrow> bt_get (host_metric_values m ready) key = None"
  by (auto simp: host_metric_values_def bt_get_of_list snapshot_counters_def)

text \<open>
  Claim C36. Each counter of the metrics route is the saturated sum of the active tenants' counters, and so is the
  uptime, which is a gauge of one process.
\<close>

theorem host_metrics_total:
  assumes "ops_enabled h" "active_tenants (hr_registry h) \<noteq> []"
  shows "\<exists>m. tangle_host_metrics uptime h = json_response 200 (JObject m)
    \<and> (\<forall>(name, metric) \<in> set snapshot_counters.
         bt_get m name = Some (jnum (foldl saturating_add 0
           (map (\<lambda>e. rtm_metrics (te_runtime e) metric) (active_tenants (hr_registry h))))))
    \<and> bt_get m ''tangle_runtime_uptime_seconds'' = Some (jnum (foldl saturating_add 0
           (map (\<lambda>e. uptime (te_runtime e)) (active_tenants (hr_registry h)))))"
proof -
  let ?snap = "\<lambda>e. snapshot_value (snapshot_with_readiness (uptime (te_runtime e)) (runtime_is_ready (te_runtime e))
    (rtm_metrics (te_runtime e)))"
  let ?base = "host_metric_values (host_metrics h) (host_is_ready (host_readiness runtime_is_ready h))"
  let ?m = "foldl (\<lambda>m e. foldl add_metric m (?snap e)) ?base (active_tenants (hr_registry h))"
  have "bt_get ?m name = Some (jnum (foldl saturating_add 0
      (map (\<lambda>e. rtm_metrics (te_runtime e) metric) (active_tenants (hr_registry h)))))"
    if "(name, metric) \<in> set snapshot_counters" for name metric
  proof -
    have member: "name \<in> fst ` set snapshot_counters" using that by force
    then have "name \<noteq> ''tangle_readiness_ready''" using snapshot_counter_names(3) by metis
    moreover have "metric_value ?base name = 0" using member by (simp add: metric_value_def host_values_apart)
    moreover have "(name, jnum (rtm_metrics (te_runtime e) metric)) \<in> set (?snap e)" for e :: "('a, 'b, 'c, 'd) host_entry"
      using snapshot_value_entries(3) [OF that, of "snapshot_with_readiness _ _ (rtm_metrics (te_runtime e))"]
      by (simp add: snapshot_with_readiness_def)
    ultimately show ?thesis
      using add_snapshots [of ?snap name "\<lambda>e. rtm_metrics (te_runtime e) metric" ?base "active_tenants (hr_registry h)",
          OF snapshot_value_entries(1)] assms(2) by simp
  qed
  moreover have "bt_get ?m ''tangle_runtime_uptime_seconds'' = Some (jnum (foldl saturating_add 0
      (map (\<lambda>e. uptime (te_runtime e)) (active_tenants (hr_registry h)))))"
  proof -
    have "(''tangle_runtime_uptime_seconds'', jnum (uptime (te_runtime e))) \<in> set (?snap e)"
      for e :: "('a, 'b, 'c, 'd) host_entry"
      by (simp add: snapshot_value_entries(2) [of "snapshot_with_readiness (uptime (te_runtime e)) _ _",
            unfolded snapshot_with_readiness_def, simplified] snapshot_with_readiness_def)
    moreover have "metric_value ?base ''tangle_runtime_uptime_seconds'' = 0"
      by (simp add: metric_value_def host_values_apart)
    ultimately show ?thesis
      using add_snapshots [of ?snap "''tangle_runtime_uptime_seconds''" "\<lambda>e. uptime (te_runtime e)" ?base
          "active_tenants (hr_registry h)", OF snapshot_value_entries(1)] assms(2) by simp
  qed
  ultimately show ?thesis using assms(1)
    by (auto simp: tangle_host_metrics_def Let_def)
qed

section \<open>Shutting down\<close>

definition shut :: "('t, 'st, 'f, 'q, 'h, 'b) runtime_api \<Rightarrow> ('t, 'st, 'h, 'b) host_entry \<Rightarrow>
    (base_relay_error + nat) \<times> ('t, 'st, 'h, 'b) relay_runtime" where
  "shut api e = the (runtime_shutdown api (te_runtime e))"

lemma runtime_shutdown_total: "runtime_shutdown api (te_runtime e) = Some (shut api e)"
proof -
  obtain r st where "db_sync (sh_db (re_store (ri_env api))) (rs_store (rtm_services (te_runtime e))) = (r, st)"
    by fastforce
  then have "\<exists>r. runtime_shutdown api (te_runtime e) = Some r"
    by (cases r) (simp_all add: runtime_shutdown_def on_services_def on_store_def base_store_def act_map_err_def
        store_sync_def act_prim_def act_on_def act_bind_def)
  then show ?thesis by (auto simp: shut_def)
qed

lemma shutdown_tenant_run:
  "shutdown_tenant api n e h = Some (map_ok ((+) n) (fst (shut api e)), put_runtime e (snd (shut api e)) h)"
  by (simp add: shutdown_tenant_def runtime_shutdown_total case_prod_beta)

definition tenant_at :: "'rt host_runtime \<Rightarrow> canonical_host \<Rightarrow> 'rt tenant_entry option" where
  "tenant_at h = tenant_by_host (hr_registry h)"

lemma tenant_at_put [simp]:
  "tenant_at (put_runtime e runtime h) k = (if k = te_host e then Some (e\<lparr>te_runtime := runtime\<rparr>) else tenant_at h k)"
  by (auto simp: tenant_at_def tenant_by_host_def put_runtime_def bt_get_insert)

text \<open>The tenants \<open>done\<close> have been shut down in order, the last one perhaps with an error; the \<open>rest\<close> not.\<close>

definition shutdown_outcome ::
  "('t, 'st, 'f, 'q, 'h, 'b) runtime_api \<Rightarrow> ('t, 'st, 'h, 'b) host_entry list \<Rightarrow> ('t, 'st, 'h, 'b) host_entry list \<Rightarrow>
   bool \<Rightarrow> ('t, 'st, 'h, 'b) tangle_host \<Rightarrow> ('t, 'st, 'h, 'b) tangle_host \<Rightarrow> bool" where
  "shutdown_outcome api shuts rest ok h h' \<longleftrightarrow>
     (\<forall>e \<in> set shuts. tenant_at h' (te_host e) = Some (e\<lparr>te_runtime := snd (shut api e)\<rparr>))
     \<and> (\<forall>k. k \<notin> te_host ` set shuts \<longrightarrow> tenant_at h' k = tenant_at h k)
     \<and> (if ok then rest = [] \<and> (\<forall>e \<in> set shuts. is_ok (fst (shut api e)))
        else shuts \<noteq> [] \<and> \<not> is_ok (fst (shut api (last shuts))) \<and> (\<forall>e \<in> set (butlast shuts). is_ok (fst (shut api e))))"

lemma shutdown_tenants:
  assumes "distinct (map te_host es)" "act_try_fold (shutdown_tenant api) n es h = Some (r, h')"
  shows "hr_shutdown_requested h' = hr_shutdown_requested h
    \<and> (\<exists>shuts rest. es = shuts @ rest \<and> shutdown_outcome api shuts rest (is_ok r) h h')"
  using assms
proof (induction es arbitrary: n h)
  case Nil
  then show ?case by (auto simp: shutdown_outcome_def is_ok_def)
next
  case (Cons e es)
  obtain q runtime where q: "shut api e = (q, runtime)" by (cases "shut api e")
  show ?case
  proof (cases q)
    case (Inl error)
    with Cons.prems q have "r = Err error" "h' = put_runtime e runtime h"
      by (auto simp: act_bind_def shutdown_tenant_run [of api n e h])
    with q Inl have "e # es = [e] @ es \<and> shutdown_outcome api [e] es (is_ok r) h h'"
      by (simp add: shutdown_outcome_def is_ok_def)
    with \<open>h' = _\<close> show ?thesis by (metis put_runtime_simps(3))
  next
    case (Inr closed)
    let ?h = "put_runtime e runtime h"
    from Cons.prems q Inr have run: "act_try_fold (shutdown_tenant api) (n + closed) es ?h = Some (r, h')"
      by (simp add: act_bind_def shutdown_tenant_run [of api n e h])
    from Cons.IH [OF _ run] Cons.prems(1) obtain shuts rest where
      ih: "hr_shutdown_requested h' = hr_shutdown_requested ?h" "es = shuts @ rest"
        "shutdown_outcome api shuts rest (is_ok r) ?h h'" by auto
    have "shutdown_outcome api (e # shuts) rest (is_ok r) h h'"
      using ih(2,3) Cons.prems(1) q Inr by (auto simp: shutdown_outcome_def is_ok_def split: if_splits)
    with ih show ?thesis by (metis append_Cons put_runtime_simps(3))
  qed
qed

text \<open>
  Claim C23. A shutdown marks the host and shuts its tenants down in order up to the first whose store fails; the
  tenants after that one are left as they were.
\<close>

theorem host_shutdown_exact:
  assumes "distinct (map te_host (active_tenants (hr_registry h)))" "host_shutdown api h = Some (r, h')"
  shows "hr_shutdown_requested h'
    \<and> (\<exists>shuts rest. active_tenants (hr_registry h) = shuts @ rest
        \<and> (\<forall>e \<in> set shuts. tenant_at h' (te_host e) = Some (e\<lparr>te_runtime := snd (shut api e)\<rparr>))
        \<and> (\<forall>k. k \<notin> te_host ` set shuts \<longrightarrow> tenant_at h' k = tenant_at h k)
        \<and> (if is_ok r then rest = [] \<and> (\<forall>e \<in> set shuts. is_ok (fst (shut api e)))
           else shuts \<noteq> [] \<and> \<not> is_ok (fst (shut api (last shuts)))
             \<and> (\<forall>e \<in> set (butlast shuts). is_ok (fst (shut api e)))))"
proof -
  let ?h = "h\<lparr>hr_shutdown_requested := True\<rparr>"
  obtain q where run: "act_try_fold (shutdown_tenant api) 0 (active_tenants (hr_registry h)) ?h = Some (q, h')"
    "is_ok r = is_ok q"
    using assms(2) by (auto simp: host_shutdown_def act_bind_def is_ok_def split: option.splits sum.splits)
  have "tenant_at ?h = tenant_at h" by (simp add: tenant_at_def fun_eq_iff)
  with shutdown_tenants [OF assms(1) run(1)] run(2) show ?thesis
    by (auto simp: shutdown_outcome_def)
qed

section \<open>A sample host\<close>

definition sample_host :: "(string list list, table_state, unit, store_offset list) tangle_host" where
  "sample_host = \<lparr>hr_config = \<lparr>cs_host = sample_host_config, cs_tenants = [sample_tenant_config]\<rparr>,
     hr_registry = \<lparr>tg_tenants_by_host = [(''relay.example'', \<lparr>te_config = sample_tenant_config, te_runtime = sample_runtime\<rparr>)],
       tg_host_by_tenant_id = [(''alpha'', ''relay.example'')]\<rparr>,
     hr_resources = resource_limiter_new 1 1, hr_shutdown_requested = False\<rparr>"

lemma sample_host_tenant:
  "tenant_for_request (sample_host\<lparr>hr_resources := r\<rparr>) sample_headers sample_peer
    = Ok \<lparr>te_config = sample_tenant_config, te_runtime = sample_runtime\<rparr>"
  "tenant_for_request sample_host sample_headers sample_peer
    = Ok \<lparr>te_config = sample_tenant_config, te_runtime = sample_runtime\<rparr>"
  using sample_request_host
  by (simp_all add: tenant_for_request_def sample_host_def tenant_by_host_def)

lemma sample_auth_state: "config_auth_state sample_base_config = Ok sample_auth"
proof -
  have "\<not> blank ''wss://relay.example''"
    by (rule no_whitespace_trim(1)) (simp_all add: byte_def is_whitespace_def)
  then show ?thesis
    by (simp add: config_auth_state_def sample_base_config_def base_auth_state_new_def sample_auth_def)
qed

definition sample_upgraded :: "(string list list, table_state, u32, unit, store_offset list) session_world" where
  "sample_upgraded = \<lparr>
     sw_session = \<lparr>se_connection_id = 7, se_peer_ip = Some (IpV4 0xC0000201),
       se_outbound = \<lparr>oq_capacity = 4, oq_messages = [], oq_closed = False\<rparr>, se_shutdown = False,
       se_limits = rtm_limits sample_runtime, se_auth = sample_auth,
       se_subscriptions = \<lparr>ls_subscriptions = [], ls_max_subscriptions = 2\<rparr>, se_permits = [],
       se_projection = projection_context_default, se_keepalive = None, se_last_peer_activity = 0, se_socket = []\<rparr>,
     sw_runtime = sample_runtime\<lparr>rtm_metrics := record_event_bus_receivers 1 runtime_metrics_new\<rparr>,
     sw_resources = Some (resource_limiter_new 1 1\<lparr>rl_active_connections := 1\<rparr>)\<rparr>"

lemma sample_upgrade:
  "\<exists>h. tangle_root sample_runtime_api sample_crypto 7 sample_peer (IpV4 0xC0000201) True sample_headers sample_host
     = Some (Upgrade sample_upgraded, h, 8)
   \<and> tenant_for_request h sample_headers sample_peer
     = Ok \<lparr>te_config = sample_tenant_config, te_runtime = sw_runtime sample_upgraded\<rparr>"
  using sample_request_host sample_auth_state
  by (simp add: tangle_root_def sample_host_tenant upgrade_request_def sample_host_def try_open_connection_def
      resource_limiter_new_def next_count_def checked_add_def tenant_session_def runtime_auth_state_def
      subscribe_events_def act_bind_def sample_runtime_def bus_subscribe_def bus_receiver_count_def sample_broadcast_def
      session_new_def connection_options_def live_subscription_set_new_def sample_limits_def sample_upgraded_def
      put_runtime_def te_host_def sample_tenant_config_def tenant_for_request_def tenant_by_host_def Let_def)

lemma sample_upgraded_run:
  "\<exists>t. session_run sample_session_api (Ok ''nonce'') 100 1 sample_turns sample_upgraded
     = Some (Ok True :: base_relay_error + bool, t)"
proof -
  have challenge: "generate_auth_challenge (Ok ''nonce'') = Ok (auth_lower_hex ''nonce'')" "auth_lower_hex ''nonce'' \<noteq> []"
    by (simp_all add: generate_auth_challenge_def auth_lower_hex_def)
  show ?thesis
    by (simp add: session_run_def session_metric_bind sample_turns_def issue_auth_challenge_def session_get_def
        challenge issue_challenge_def session_modify_def send_relay_message_def on_runtime_def act_on_def
        sanitize_public_message_def call_hook_def sample_session_api_def enqueue_text_def outbound_try_send_def
        sample_upgraded_def act_match_def peer_active_def session_turn_def outbound_turn_def send_socket_message_def
        socket_turn_def session_end_def close_all_subscriptions_def live_close_all_def session_metric_def
        record_metric_def act_bind_def)
qed

definition sample_root_request :: root_request where
  "sample_root_request = \<lparr>rq_peer = sample_peer, rq_peer_ip = IpV4 0xC0000201, rq_websocket = True,
     rq_headers = sample_headers, rq_fill = Ok ''nonce'', rq_now = 100, rq_instant = 1, rq_inputs = sample_turns\<rparr>"

theorem served_request_returns_connection_witness:
  "\<exists>n h. serve_request sample_session_api sample_crypto sample_root_request 7 sample_host = Some (Session True, n, h)
    \<and> hr_resources h = resource_limiter_new 1 1"
proof -
  obtain u where u: "tangle_root sample_runtime_api sample_crypto 7 sample_peer (IpV4 0xC0000201) True sample_headers sample_host
      = Some (Upgrade sample_upgraded, u, 8)"
    "tenant_for_request u sample_headers sample_peer
      = Ok \<lparr>te_config = sample_tenant_config, te_runtime = sw_runtime sample_upgraded\<rparr>"
    using sample_upgrade by blast
  obtain t where "session_run sample_session_api (Ok ''nonce'') 100 1 sample_turns sample_upgraded
      = Some (Ok True :: base_relay_error + bool, t)" using sample_upgraded_run by blast
  then obtain h where run: "serve_request sample_session_api sample_crypto sample_root_request 7 sample_host
      = Some (Session True, 8, h)"
    using u by (cases "sw_resources t")
      (auto simp: serve_request_def sample_root_request_def serve_session_def sample_session_api_def)
  from served_request_returns_connection [OF this] have "hr_resources h = hr_resources sample_host" by simp
  with run show ?thesis by (auto simp: sample_host_def)
qed

theorem host_metrics_total_witness:
  "\<exists>m. tangle_host_metrics (\<lambda>_. 5) sample_host = json_response 200 (JObject m)
    \<and> bt_get m ''tangle_runtime_uptime_seconds'' = Some (jnum 5)"
  using host_metrics_total [of sample_host "\<lambda>_. 5"]
  by (auto simp: ops_enabled_def sample_host_def sample_host_config_def active_tenants_def saturating_add_def)

lemma sample_shutdown: "\<exists>r h. host_shutdown sample_runtime_api sample_host = Some (r, h)"
  by (auto simp: host_shutdown_def sample_host_def active_tenants_def act_bind_def shutdown_tenant_run split: sum.splits)

theorem host_shutdown_exact_witness:
  "\<exists>r h. host_shutdown sample_runtime_api sample_host = Some (r, h) \<and> hr_shutdown_requested h"
proof -
  obtain r h where run: "host_shutdown sample_runtime_api sample_host = Some (r, h)" using sample_shutdown by blast
  have "distinct (map te_host (active_tenants (hr_registry sample_host)))"
    by (simp add: sample_host_def active_tenants_def)
  from host_shutdown_exact [OF this run] run show ?thesis by blast
qed

end
