(* ===== verification/Spec2Isabelle.thy ===== *)
theory Spec2Isabelle
  imports
    Protocol_Messages
    Policy_Facts
    Runtime_Conflicts
    Relay_Limits
    Relay_Resources
    Relay_Facts
    Runtime_Metrics
    Runtime_Messages
    Tenant_Registry
    Session_Facts
    Host_Facts
begin

text \<open>
  Tangle is a Nostr relay with NIP-29 groups, written in Rust as a workspace of crates under
  \<open>src/crates\<close>. This development models its core and proves what makes it correct.

  \<^bold>\<open>How the program is put together.\<close> \<open>tangle_protocol\<close> defines the scalars of the protocol, events,
  filters and the messages of a client. \<open>tangle_groups\<close> is the pure logic of groups: it reads the
  tags of an event, classifies it, checks its structure (write gate) and the rights of its author
  (write policy), applies it to a projection (the current groups, members, roles, tombstones and
  event deletions), decides who may read what (read gate), and keeps an outbox of the events the
  relay owes a group. \<open>tangle_store_pocket\<close> wraps the Pocket database: an append-only event map and
  extra tables. \<open>tangle_runtime\<close> composes them: the group service stores an accepted event, updates
  and persists the projection, plans the outbox and signs and stores the generated events; at
  start-up it loads or rebuilds the projection from the log. Over the relay core stands the runtime that
  the connections of a tenant share: rate limits, the hooks of the embedding program, the handler
  of client messages, and the bus that carries the offsets of stored events to the sessions. A session
  is one WebSocket connection, with its authentication, live subscriptions and outgoing queue.

  \<^bold>\<open>The theories\<close>, in the order of their imports:

  \<^item> \<open>Tangle_Prelude\<close>: results (\<open>error + 'a\<close> with \<open>Ok\<close>, \<open>Err\<close>, \<open>and_then\<close>, \<open>map_ok\<close>, \<open>map_err\<close>,
    \<open>try_fold\<close>), \<open>BTreeMap\<close> as a sorted association list (\<open>btree\<close>, interpreting a map interface) and
    \<open>BTreeSet\<close> as a set with its sorted iteration, bytes, UTF-8 and decimal text, 64- and 32-bit
    words with checked addition.
  \<^item> \<open>Protocol_Scalars\<close>, \<open>Protocol_Events\<close>, \<open>Protocol_Filters\<close>, \<open>Protocol_Messages\<close>
    (\<open>tangle_protocol/src/lib.rs\<close>): one constructor or parser each with the errors of the source.
  \<^item> \<open>Group_Base\<close> (\<open>errors.rs\<close>, \<open>kinds.rs\<close>, \<open>ids.rs\<close>, \<open>lib.rs\<close> of \<open>tangle_groups\<close>),
    \<open>Group_Events\<close> (\<open>event_view.rs\<close>, \<open>tags.rs\<close>, \<open>classification.rs\<close>, \<open>write_gate.rs\<close>),
    \<open>Group_Roles\<close> (\<open>roles.rs\<close>), \<open>Group_Metadata\<close> (\<open>metadata.rs\<close>).
  \<^item> \<open>Group_Projection\<close> (\<open>projection.rs\<close>): the projection and how every class of event changes it;
    \<open>Projection_Facts\<close>: its invariant, convergence and rebuild; \<open>Group_Documents\<close>: the JSON documents
    of \<open>projection.rs\<close>, as instances of the interface \<open>document\<close>.
  \<^item> \<open>Group_Policy\<close> (\<open>policy.rs\<close>, \<open>read_gate.rs\<close>) and \<open>Policy_Facts\<close>: who may write and read.
  \<^item> \<open>Group_Outbox\<close> (\<open>outbox.rs\<close>) and \<open>Group_Signing\<close> (\<open>signing.rs\<close>): what the relay owes a group.
  \<^item> \<open>Tangle_Actions\<close>: the monad of the stateful code. An action maps a state to \<open>None\<close> when the code
    does not return, and otherwise to a result with the state it leaves; an error keeps the changes
    made before it. \<open>Store_Pocket\<close> (\<open>tangle_store_pocket/src/lib.rs\<close>) is the first user.
  \<^item> \<open>Runtime_Errors\<close> (\<open>tangle_runtime/src/errors.rs\<close>); \<open>Runtime_Groups\<close> (\<open>groups.rs\<close>), the group
    service over the store; \<open>Runtime_Facts\<close>: its invariant, errors and the end of the outbox replay;
    \<open>Runtime_Conflicts\<close>: where the service does not do what it means to do.
  \<^item> \<open>Relay_Limits\<close> (\<open>rate_limits.rs\<close>) and \<open>Relay_Resources\<close> (\<open>resource_limits.rs\<close>): the fixed-window
    rate limiter, and the counters of connections and subscriptions with a step relation for the
    compare-and-swap loop of their threads.
  \<^item> \<open>Relay_Auth\<close> (\<open>relay/auth.rs\<close>, \<open>pocket_event_validation.rs\<close>): authentication; \<open>Relay_Live\<close>
    (\<open>relay/live.rs\<close>, \<open>filter.rs\<close>, \<open>outbound.rs\<close>): live subscriptions and what is sent; \<open>Relay_Core\<close>
    (\<open>relay/core.rs\<close>): submitted events, queries, subscriptions, counts and fanout, each one definition
    from the guards to the reply; \<open>Relay_Facts\<close>: what a client can rely on.
  \<^item> \<open>Runtime_Text\<close>: the operations of \<open>str\<close> the following theories use; \<open>Runtime_Metrics\<close> (the counters
    of \<open>runtime.rs\<close>); \<open>Runtime_Messages\<close> (\<open>client_message.rs\<close>): the messages the relay reads.
  \<^item> \<open>Tenant_Names\<close> (\<open>tenant.rs\<close>), \<open>Runtime_Config\<close> (\<open>config.rs\<close>) and \<open>Config_Facts\<close>: identifiers, hosts,
    URLs and the configuration of a host and its tenants; \<open>Tenant_Registry\<close> (\<open>host.rs\<close>): the tenants
    that are served and the choice of the tenant of a request.

  \<^item> \<open>Runtime_Hooks\<close>: what the runtime is given and told by its hooks, the classification of queries,
    its limits and the event bus (\<open>runtime.rs\<close>, \<open>event_bus.rs\<close>); \<open>Runtime_Ops\<close> (\<open>ops.rs\<close>): readiness and
    the operations routes; \<open>Relay_Runtime\<close> (\<open>RelayRuntimeShared\<close> and \<open>RelayRuntimeHandle\<close> in
    \<open>runtime.rs\<close>): the runtime, an action per method; \<open>Action_Rules\<close>: partial correctness of actions;
    \<open>Relay_Runtime_Facts\<close>: the hooks cannot make a query or a live event show what its reader may not
    see; \<open>Relay_Samples\<close>: a concrete runtime; \<open>Relay_Messages\<close>: the replies to a message and what is
    published.
  \<^item> \<open>Relay_Session\<close> (\<open>session.rs\<close>): a connection, from its challenge through the turns of its loop to
    its end; \<open>Session_Facts\<close>: its permits, its queue and what it is subscribed to.
  \<^item> \<open>Relay_Crypto\<close> (\<open>tangle_crypto/src/lib.rs\<close>): event ids, signatures, the relay's signer and the
    verification service, with a step relation for its tasks; \<open>Relay_Info\<close> (\<open>nip11.rs\<close>): the relay
    information document.
  \<^item> \<open>Host_Server\<close> (\<open>server.rs\<close>, and the shutdown in \<open>host.rs\<close>): the handlers of the HTTP routes over the
    registry of tenants, each request with the session it opens; \<open>Host_Facts\<close>: what a request leaves of
    the host's counters, the sums of the metrics route, and how far a shutdown gets.

  \<^bold>\<open>Data.\<close> Strings are char lists holding the UTF-8 bytes; \<open>u32\<close> and \<open>u64\<close> are words; \<open>usize\<close> is a
  natural number (lengths) with its bound written out where it matters. JSON values are a datatype
  with objects as association lists, so that repeated fields can be told apart.

  \<^bold>\<open>Parameters.\<close> The Pocket database and its types are git dependencies that are not in the
  repository, and so is \<open>serde_json\<close>'s text format: an event is a record of what the accessors
  of a \<open>PocketEvent\<close> return (\<open>pocket_event\<close>), the database is the record of calls \<open>pocket_db\<close>,
  documents are written by a \<open>codec\<close> per type, tags are built and events signed by \<open>pocket_api\<close>, and
  the clock, the hex reader and the UTF-8 error text are fields of \<open>runtime_env\<close>. Theorems that need
  their documented behaviour say so by name: \<open>codec_lawful\<close>, \<open>event_map_ok\<close>, \<open>scan_returns\<close>, and
  \<open>find_lawful\<close> for the query of the database. Pocket filters and HyperLogLogs are values of a type
  variable with a record of the calls on them (\<open>pocket_filter_api\<close>, \<open>hll_api\<close>). Reading the JSON text of
  a client message and of the configuration documents is \<open>raw_api\<close> and \<open>config_api\<close>. The hooks of a
  runtime (a trait object) are the record \<open>runtime_hooks\<close> over a state of their own, the broadcast channel
  is \<open>broadcast_api\<close>, SHA-256 and the Schnorr libraries are \<open>crypto_api\<close> with the laws
  \<open>lawful_crypto\<close>, and what a session meets (clock, socket, ready branch of \<open>select!\<close>) is a list of
  \<open>session_input\<close>. A message of a session is handled in one step: other sessions act between messages.

  \<^bold>\<open>Loops.\<close> Loops over a collection are folds; the scan of the event map and the replay of the
  outbox may run forever and are \<open>partial_function (option)\<close>; that they return is proved
  (\<open>scan_events_after_ends\<close>, \<open>materialize_outbox_ends\<close>). No definition uses fuel.

  \<^bold>\<open>Not modelled.\<close> \<open>tangle_bench\<close> and \<open>tangle_test_support\<close> (benchmarks and test fixtures), the
  \<open>tangle\<close> command line (I/O over the runtime), logging, exports and backups (files), and the
  libraries under \<open>tangle_runtime\<close>: sockets, the HTTP router and its JSON printer. Log lines are left
  out everywhere, and a request to the host is served to its end before the next one.
\<close>

end
